(* ===== verification/Desk_Prelude.thy ===== *)
theory Desk_Prelude
  imports Main "HOL-Library.List_Lexorder" "HOL-Library.Char_ord" "HOL-Library.Sublist"
begin

text \<open>
  Shared vocabulary of the development: the JavaScript array operations the desk code uses
  (\<open>at(-1)\<close>, \<open>find\<close>, \<open>sort\<close> with a comparator, \<open>split\<close>, \<open>join\<close>, \<open>Math.max\<close> folds), the facts
  about them that several components share, and two lemma collections. Nothing here mentions a
  type of the program.

  Strings are HOL strings. A JavaScript string is a sequence of UTF-16 units and a HOL character
  has 8 bits, so the model speaks of strings in the Latin-1 range; identifiers, digests, enum
  values and paths of the ledger are of this kind.
\<close>

named_theorems desk_defs "definitions unfolded when a decision is evaluated"
named_theorems desk_frame "tables an operation leaves alone"

subsection \<open>Reading lists\<close>

definition last_opt :: "'a list \<Rightarrow> 'a option" where
  \<comment> \<open>\<open>xs.at(-1)\<close>, and \<open>xs[xs.length - 1]\<close> compared with \<open>undefined\<close>\<close>
  "last_opt xs = (if xs = [] then None else Some (last xs))"

lemma last_opt_simps [simp]:
  "last_opt [] = None"
  "last_opt (xs @ [x]) = Some x"
  "last_opt [x] = Some x"
  "last_opt (x # y # ys) = last_opt (y # ys)"
  by (simp_all add: last_opt_def)

lemma last_opt_None_iff [simp]: "last_opt xs = None \<longleftrightarrow> xs = []"
  by (simp add: last_opt_def)

lemma last_opt_Cons: "last_opt (x # xs) = (case last_opt xs of None \<Rightarrow> Some x | Some y \<Rightarrow> Some y)"
  by (simp add: last_opt_def)

lemma last_opt_SomeD: "last_opt xs = Some x \<Longrightarrow> x \<in> set xs"
  by (auto simp: last_opt_def split: if_splits)

lemma last_opt_Some_last: "last_opt xs = Some x \<longleftrightarrow> xs \<noteq> [] \<and> last xs = x"
  by (auto simp: last_opt_def)

lemma find_SomeD: "find P xs = Some x \<Longrightarrow> x \<in> set xs \<and> P x"
  by (induction xs) (auto split: if_splits)

lemma find_append: "find P (xs @ ys) = (case find P xs of None \<Rightarrow> find P ys | Some x \<Rightarrow> Some x)"
  by (induction xs) simp_all

lemma find_append_Some [simp]: "find P xs = Some x \<Longrightarrow> find P (xs @ ys) = Some x"
  by (simp add: find_append)

lemma concat_map_Nil: "concat (map f xs) = [] \<longleftrightarrow> (\<forall>x \<in> set xs. f x = [])"
  by (induction xs) simp_all

subsection \<open>Sorting\<close>

text \<open>
  \<open>Array.prototype.sort\<close> is stable. A comparator that subtracts two numbers is
  \<open>sort_key\<close>; a composite comparator is \<open>sort_by\<close>, the stable insertion sort of the comparator.
\<close>

fun insort_by :: "('a \<Rightarrow> 'a \<Rightarrow> int) \<Rightarrow> 'a \<Rightarrow> 'a list \<Rightarrow> 'a list" where
  "insort_by cmp x [] = [x]"
| "insort_by cmp x (y # ys) = (if cmp x y \<le> 0 then x # y # ys else y # insort_by cmp x ys)"

definition sort_by :: "('a \<Rightarrow> 'a \<Rightarrow> int) \<Rightarrow> 'a list \<Rightarrow> 'a list" where
  "sort_by cmp xs = foldr (insort_by cmp) xs []"

lemma set_insort_by [simp]: "set (insort_by cmp x ys) = insert x (set ys)"
  by (induction ys) auto

lemma set_sort_by [simp]: "set (sort_by cmp xs) = set xs"
  by (induction xs) (auto simp: sort_by_def)

lemma sort_by_Nil_iff [simp]: "sort_by cmp xs = [] \<longleftrightarrow> xs = []"
proof
  assume "sort_by cmp xs = []"
  then have "set (sort_by cmp xs) = {}" by simp
  then show "xs = []" by simp
qed (simp add: sort_by_def)

lemma sort_by_key: "sort_by (\<lambda>a b. int (k a) - int (k b)) xs = sort_key k xs"
proof -
  have "insort_by (\<lambda>a b. int (k a) - int (k b)) x ys = insort_key k x ys" for x ys
    by (induction ys) auto
  then show ?thesis by (induction xs) (auto simp: sort_by_def)
qed

text \<open>A comparator that first compares a key sorts by that key, whatever breaks its ties.\<close>

lemma sort_by_sorted:
  fixes k :: "'a \<Rightarrow> nat"
  assumes "\<And>x y. cmp x y \<le> 0 \<Longrightarrow> k x \<le> k y" and "\<And>x y. \<not> cmp x y \<le> 0 \<Longrightarrow> k y \<le> k x"
  shows "sorted (map k (sort_by cmp xs))"
proof -
  have ins: "sorted (map k ys) \<Longrightarrow> sorted (map k (insort_by cmp x ys))" for x ys
  proof (induction ys)
    case (Cons y ys)
    show ?case
    proof (cases "cmp x y \<le> 0")
      case True
      then show ?thesis using Cons.prems assms(1) [OF True] by fastforce
    next
      case False
      then show ?thesis using Cons assms(2) [OF False] by auto
    qed
  qed simp
  then show ?thesis by (induction xs) (auto simp: sort_by_def)
qed

lemma last_sorted_max:
  fixes k :: "'a \<Rightarrow> nat"
  shows "sorted (map k ys) \<Longrightarrow> last_opt ys = Some r \<Longrightarrow> y \<in> set ys \<Longrightarrow> k y \<le> k r"
  by (induction ys) (auto simp: last_opt_Cons split: option.splits dest: last_opt_SomeD)

lemma insort_key_snoc_max:
  "k a \<le> k x \<Longrightarrow> insort_key k a (ys @ [x]) = insort_key k a ys @ [x]"
  by (induction ys) auto

lemma sort_key_snoc_max:
  "\<forall>y \<in> set xs. k y \<le> k x \<Longrightarrow> sort_key k (xs @ [x]) = sort_key k xs @ [x]"
  by (induction xs) (auto simp: insort_key_snoc_max)

lemma sort_key_id: "sorted (map k xs) \<Longrightarrow> sort_key k xs = xs"
  by (simp add: sort_key_id_if_sorted)

lemma last_sort_key_max:
  fixes k :: "'a \<Rightarrow> 'b::linorder"
  assumes "last_opt (sort_key k xs) = Some r"
  shows "r \<in> set xs" and "\<forall>y \<in> set xs. k y \<le> k r"
proof -
  from assms have ne: "sort_key k xs \<noteq> []" and l: "last (sort_key k xs) = r"
    by (auto simp: last_opt_def split: if_splits)
  show "r \<in> set xs" using ne l by (metis last_in_set set_sort)
  have s: "sorted (map k (sort_key k xs))" by simp
  show "\<forall>y \<in> set xs. k y \<le> k r"
  proof
    fix y assume "y \<in> set xs"
    then have "y \<in> set (butlast (sort_key k xs)) \<or> y = r"
      using ne l by (metis append_butlast_last_id in_set_conv_decomp_last rotate1.simps(2)
          set_ConsD set_rotate1 set_sort)
    then show "k y \<le> k r"
      using s ne l sorted_append [of "map k (butlast (sort_key k xs))" "[k r]"]
      by (metis append_butlast_last_id imageI list.set_intros(1) list.set_map list.simps(8,9)
          map_append order_refl)
  qed
qed

subsection \<open>Maxima and contiguous revision streams\<close>

definition max_of :: "('a \<Rightarrow> nat) \<Rightarrow> 'a list \<Rightarrow> nat" where
  \<comment> \<open>\<open>xs.reduce((max, x) => Math.max(max, f(x)), 0)\<close>\<close>
  "max_of f xs = foldr (\<lambda>x m. max m (f x)) xs 0"

lemma max_of_simps [simp]:
  "max_of f [] = 0"
  "max_of f (x # xs) = max (max_of f xs) (f x)"
  by (simp_all add: max_of_def)

lemma max_of_append [simp]: "max_of f (xs @ ys) = max (max_of f xs) (max_of f ys)"
  by (induction xs) auto

lemma max_of_ge: "x \<in> set xs \<Longrightarrow> f x \<le> max_of f xs"
  by (induction xs) auto

lemma max_of_in: "xs \<noteq> [] \<Longrightarrow> \<exists>x \<in> set xs. max_of f xs = f x"
proof (induction xs)
  case (Cons a xs)
  then show ?case by (cases "xs = []") (auto simp: max_def)
qed simp

lemma max_of_le: "(\<And>x. x \<in> set xs \<Longrightarrow> f x \<le> n) \<Longrightarrow> max_of f xs \<le> n"
  by (induction xs) auto

definition contiguous :: "nat list \<Rightarrow> bool" where
  \<comment> \<open>\<open>new Set(revs).size === revs.length && Math.max(...revs) === revs.length\<close>, revisions being at least 1\<close>
  "contiguous revs \<longleftrightarrow> distinct revs \<and> max_of id revs = length revs \<and> (\<forall>r \<in> set revs. 1 \<le> r)"

lemma contiguous_Nil [simp]: "contiguous []"
  by (simp add: contiguous_def)

lemma contiguous_set: "contiguous revs \<Longrightarrow> set revs = {1..length revs}"
proof -
  assume c: "contiguous revs"
  have "set revs \<subseteq> {1..length revs}"
    using c max_of_ge [of _ revs id] by (fastforce simp: contiguous_def)
  moreover have "card (set revs) = card {1..length revs}"
    using c by (simp add: contiguous_def distinct_card)
  ultimately show ?thesis by (simp add: card_subset_eq)
qed

lemma contiguousI:
  assumes "distinct revs" and "set revs = {1..length revs}"
  shows "contiguous revs"
proof (cases "revs = []")
  case False
  have "max_of id revs \<le> length revs" using assms(2) by (intro max_of_le) auto
  moreover have "length revs \<in> set revs" using assms(2) False by (simp add: Suc_leI)
  ultimately have "max_of id revs = length revs"
    using max_of_ge [of "length revs" revs id] by simp
  with assms show ?thesis by (auto simp: contiguous_def)
qed simp

lemma contiguous_iff: "contiguous revs \<longleftrightarrow> distinct revs \<and> set revs = {1..length revs}"
proof
  assume c: "contiguous revs"
  then show "distinct revs \<and> set revs = {1..length revs}"
    by (simp only: contiguous_set [OF c] contiguous_def [THEN iffD1, OF c])
qed (blast intro: contiguousI)

lemma contiguous_snoc: "contiguous revs \<Longrightarrow> contiguous (revs @ [Suc (length revs)])"
proof -
  assume c: "contiguous revs"
  then have "{1..length (revs @ [Suc (length revs)])} = insert (Suc (length revs)) (set revs)"
    by (simp add: contiguous_set atLeastAtMostSuc_conv)
  with c show ?thesis unfolding contiguous_iff by simp
qed

lemma contiguous_max: "contiguous revs \<Longrightarrow> max_of id revs = length revs"
  by (simp add: contiguous_def)

lemma contiguous_le: "contiguous revs \<Longrightarrow> r \<in> set revs \<Longrightarrow> 1 \<le> r \<and> r \<le> length revs"
  by (simp add: contiguous_set)

lemma max_of_map: "max_of id (map f xs) = max_of f xs"
  by (induction xs) auto

subsection \<open>Splitting and joining strings\<close>

fun split_on :: "'a \<Rightarrow> 'a list \<Rightarrow> 'a list list" where
  \<comment> \<open>\<open>value.split(c)\<close> for a one-character separator\<close>
  "split_on c [] = [[]]"
| "split_on c (x # xs) =
     (if x = c then [] # split_on c xs
      else (case split_on c xs of [] \<Rightarrow> [[x]] | p # ps \<Rightarrow> (x # p) # ps))"

fun join_with :: "'a list \<Rightarrow> 'a list list \<Rightarrow> 'a list" where
  \<comment> \<open>\<open>parts.join(sep)\<close>\<close>
  "join_with sep [] = []"
| "join_with sep [p] = p"
| "join_with sep (p # q # ps) = p @ sep @ join_with sep (q # ps)"

lemma split_on_ne [simp]: "split_on c xs \<noteq> []"
  by (cases xs) (auto split: list.splits)

lemma join_with_Cons_cons:
  "ps \<noteq> [] \<Longrightarrow> join_with sep (p # ps) = p @ sep @ join_with sep ps"
  by (cases ps) auto

lemma join_split: "join_with [c] (split_on c xs) = xs"
proof (induction xs)
  case (Cons x xs)
  obtain p ps where sp: "split_on c xs = p # ps" by (cases "split_on c xs") auto
  with Cons show ?case by (cases ps) auto
qed simp

lemma split_on_append:
  "split_on c (xs @ c # ys) = split_on c xs @ split_on c ys"
proof (induction xs)
  case (Cons x xs)
  obtain p ps where "split_on c xs = p # ps" by (cases "split_on c xs") auto
  with Cons show ?case by auto
qed simp

lemma join_append:
  "ps \<noteq> [] \<Longrightarrow> qs \<noteq> [] \<Longrightarrow> join_with sep (ps @ qs) = join_with sep ps @ sep @ join_with sep qs"
proof (induction ps)
  case (Cons p ps)
  then show ?case by (cases "ps = []") (simp_all add: join_with_Cons_cons)
qed simp

lemma split_inj: "split_on c xs = split_on c ys \<longleftrightarrow> xs = ys"
  by (metis join_split)

text \<open>A proper prefix at a separator is a proper prefix of the list of parts.\<close>

lemma prefix_split_iff:
  "(\<exists>zs. xs = ys @ c # zs) \<longleftrightarrow> strict_prefix (split_on c ys) (split_on c xs)"
proof
  assume "\<exists>zs. xs = ys @ c # zs"
  then obtain zs where "xs = ys @ c # zs" by blast
  then have "split_on c xs = split_on c ys @ split_on c zs" by (simp add: split_on_append)
  then show "strict_prefix (split_on c ys) (split_on c xs)"
    by (auto simp: strict_prefix_def prefix_def)
next
  assume "strict_prefix (split_on c ys) (split_on c xs)"
  then obtain qs where q: "split_on c xs = split_on c ys @ qs" and ne: "qs \<noteq> []"
    by (auto simp: strict_prefix_def prefix_def)
  have "xs = join_with [c] (split_on c ys @ qs)" using join_split [of c xs] q by simp
  also have "\<dots> = ys @ [c] @ join_with [c] qs"
    using ne by (simp add: join_append join_split)
  finally show "\<exists>zs. xs = ys @ c # zs" by auto
qed

end
