(* ===== verification/Desk_Canonical.thy ===== *)
theory Desk_Canonical
  imports Desk_Prelude
begin

text \<open>
  Canonical JSON and the digests and identifiers built from it
  (\<open>canonicalValue\<close>, \<open>canonicalJson\<close>, \<open>canonicalSha256\<close> of plugin/server/config-view.ts and
  \<open>deriveId\<close> of plugin/server/desk-command.ts).

  Numbers are integers, the only numbers the ledger holds; a value that is \<open>undefined\<close> or not
  finite, on which \<open>canonicalValue\<close> throws, is not a \<open>json\<close> value. An object is the list of its
  own properties in enumeration order. The hash function is \<open>node:crypto\<close>'s, the collation
  order is the host's and the UUID and timestamp formats are the schema library's: they are the fields of
  the environment record \<open>desk_env\<close> that every definition which needs one takes as its first
  argument.
\<close>

record desk_env =
  sha256 :: "string \<Rightarrow> string"
  locale_compare :: "string \<Rightarrow> string \<Rightarrow> int"
  uuid_ok :: "string \<Rightarrow> bool"
  time_ok :: "string \<Rightarrow> bool"

datatype json =
    JNull
  | JBool bool
  | JInt int
  | JStr string
  | JArr "json list"
  | JObj "(string \<times> json) list"

subsection \<open>\<open>JSON.stringify\<close>\<close>

fun show_nat :: "nat \<Rightarrow> string" where
  "show_nat n = (if n < 10 then [char_of (48 + n)] else show_nat (n div 10) @ [char_of (48 + n mod 10)])"

declare show_nat.simps [simp del]

definition show_int :: "int \<Rightarrow> string" where
  "show_int i = (if i < 0 then CHR ''-'' # show_nat (nat (- i)) else show_nat (nat i))"

definition hex_digit :: "nat \<Rightarrow> char" where
  "hex_digit n = (if n < 10 then char_of (48 + n) else char_of (87 + n))"

definition escape_char :: "char \<Rightarrow> string" where
  "escape_char c =
     (let n = of_char c :: nat in
      if n = 34 then [CHR 0x5C, CHR 0x22]
      else if n = 92 then [CHR 0x5C, CHR 0x5C]
      else if n = 8 then [CHR 0x5C, CHR ''b'']
      else if n = 9 then [CHR 0x5C, CHR ''t'']
      else if n = 10 then [CHR 0x5C, CHR ''n'']
      else if n = 12 then [CHR 0x5C, CHR ''f'']
      else if n = 13 then [CHR 0x5C, CHR ''r'']
      else if n < 32 then [CHR 0x5C, CHR ''u'', CHR ''0'', CHR ''0'', hex_digit (n div 16), hex_digit (n mod 16)]
      else [c])"

definition quote_string :: "string \<Rightarrow> string" where
  "quote_string s = CHR 0x22 # concat (map escape_char s) @ [CHR 0x22]"

fun stringify :: "json \<Rightarrow> string" where
  "stringify JNull = ''null''"
| "stringify (JBool b) = (if b then ''true'' else ''false'')"
| "stringify (JInt i) = show_int i"
| "stringify (JStr s) = quote_string s"
| "stringify (JArr xs) = ''['' @ join_with '','' (map stringify xs) @ '']''"
| "stringify (JObj kvs) =
     ''{'' @ join_with '','' (map (\<lambda>(k, v). quote_string k @ '':'' @ stringify v) kvs) @ ''}''"

subsection \<open>\<open>canonicalValue\<close>\<close>

text \<open>
  The loop assigns the sorted keys to a fresh object literal. Two rules of the language decide
  what that object enumerates: array-index keys come first, in numeric order, and an assignment
  to \<open>__proto__\<close> sets the prototype (or is ignored, for a primitive) and creates no own property.
\<close>

definition dec_value :: "string \<Rightarrow> nat" where
  "dec_value k = foldl (\<lambda>n c. 10 * n + (of_char c - 48)) 0 k"

definition is_array_index :: "string \<Rightarrow> bool" where
  "is_array_index k \<longleftrightarrow>
     k \<noteq> [] \<and> (\<forall>c \<in> set k. 48 \<le> (of_char c :: nat) \<and> (of_char c :: nat) \<le> 57) \<and>
     (k = ''0'' \<or> hd k \<noteq> CHR ''0'') \<and> dec_value k < 2 ^ 32 - 1"

definition own_property_order :: "(string \<times> json) list \<Rightarrow> (string \<times> json) list" where
  "own_property_order kvs =
     sort_key (\<lambda>(k, _). dec_value k) (filter (\<lambda>(k, _). is_array_index k) kvs) @
     filter (\<lambda>(k, _). \<not> is_array_index k) kvs"

fun canonical_value :: "json \<Rightarrow> json" where
  "canonical_value (JArr xs) = JArr (map canonical_value xs)"
| "canonical_value (JObj kvs) =
     JObj (own_property_order
       (filter (\<lambda>(k, _). k \<noteq> ''__proto__'')
         (sort_key fst (map (\<lambda>(k, v). (k, canonical_value v)) kvs))))"
| "canonical_value v = v"

definition canonical_json :: "json \<Rightarrow> string" where
  "canonical_json v = stringify (canonical_value v) @ [CHR 0x0A]"

definition canonical_sha256 :: "desk_env \<Rightarrow> json \<Rightarrow> string" where
  "canonical_sha256 E v = sha256 E (canonical_json v)"

definition canonical_equal :: "json \<Rightarrow> json \<Rightarrow> bool" where
  "canonical_equal a b \<longleftrightarrow> canonical_json a = canonical_json b"

definition derive_id :: "desk_env \<Rightarrow> string \<Rightarrow> string list \<Rightarrow> string" where
  "derive_id E pre parts = pre @ ''-'' @ take 32 (sha256 E (canonical_json (JArr (map JStr parts))))"

text \<open>How a value that may be \<open>null\<close>, a number or a list of strings is embedded.\<close>

fun json_opt :: "('a \<Rightarrow> json) \<Rightarrow> 'a option \<Rightarrow> json" where
  "json_opt f None = JNull"
| "json_opt f (Some x) = f x"

abbreviation json_nat :: "nat \<Rightarrow> json" where
  "json_nat n \<equiv> JInt (int n)"

abbreviation json_strs :: "string list \<Rightarrow> json" where
  "json_strs xs \<equiv> JArr (map JStr xs)"

subsection \<open>Quoted strings decode uniquely\<close>

text \<open>Reading one escaped character back; the lemmas below use it to show that the escapes form a prefix code.\<close>

definition hex_value :: "char \<Rightarrow> nat" where
  "hex_value c = (if (of_char c :: nat) < 58 then of_char c - 48 else of_char c - 87)"

fun unescape :: "string \<Rightarrow> (char \<times> string) option" where
  "unescape [] = None"
| "unescape (a # r) =
     (if of_char a \<noteq> (92::nat) then Some (a, r)
      else (case r of
        [] \<Rightarrow> None
      | b # r' \<Rightarrow>
          if b = CHR ''b'' then Some (char_of (8::nat), r')
          else if b = CHR ''t'' then Some (char_of (9::nat), r')
          else if b = CHR ''n'' then Some (char_of (10::nat), r')
          else if b = CHR ''f'' then Some (char_of (12::nat), r')
          else if b = CHR ''r'' then Some (char_of (13::nat), r')
          else if b = CHR ''u'' then
            (case r' of z1 # z2 # h # l # r'' \<Rightarrow> Some (char_of (16 * hex_value h + hex_value l), r'') | _ \<Rightarrow> None)
          else Some (b, r')))"

lemma hex_value_digit: "k < 16 \<Longrightarrow> hex_value (hex_digit k) = k"
  by (auto simp: hex_value_def hex_digit_def of_char_of)

lemma char_of_eqI: "(of_char c :: nat) = n \<Longrightarrow> char_of n = c"
  by (metis char_of_char)

lemma char_code_eq:
  "of_char c = (34::nat) \<Longrightarrow> c = CHR 0x22"
  "of_char c = (92::nat) \<Longrightarrow> c = CHR 0x5C"
proof -
  have "of_char (CHR 0x22) = (34::nat)" and "of_char (CHR 0x5C) = (92::nat)" by simp_all
  then show "of_char c = (34::nat) \<Longrightarrow> c = CHR 0x22" and "of_char c = (92::nat) \<Longrightarrow> c = CHR 0x5C"
    by (metis of_char_eq_iff)+
qed

lemma unescape_escape: "unescape (escape_char c @ r) = Some (c, r)"
proof -
  let ?n = "of_char c :: nat"
  consider "?n = 34" | "?n = 92" | "?n \<in> {8, 9, 10, 12, 13}"
    | "?n < 32" "?n \<notin> {8, 9, 10, 12, 13}" | "32 \<le> ?n" "?n \<noteq> 34" "?n \<noteq> 92" by force
  then show ?thesis
  proof cases
    case 4
    have h: "16 * hex_value (hex_digit (?n div 16)) + hex_value (hex_digit (?n mod 16)) = ?n"
      using 4 by (simp add: hex_value_digit)
    from 4 have "escape_char c =
        [CHR 0x5C, CHR ''u'', CHR ''0'', CHR ''0'', hex_digit (?n div 16), hex_digit (?n mod 16)]"
      by (simp add: escape_char_def Let_def)
    then show ?thesis by (simp add: h)
  qed (auto simp: escape_char_def Let_def intro: char_of_eqI dest!: char_code_eq)
qed

lemma escape_char_cancel:
  "escape_char c @ r = escape_char d @ s \<Longrightarrow> c = d \<and> r = s"
  by (metis option.inject prod.inject unescape_escape)

lemma escape_char_nonempty [simp]: "escape_char c \<noteq> []"
  by (simp add: escape_char_def Let_def)

lemma hd_escape_char: "escape_char c \<noteq> CHR 0x22 # r"
  by (auto simp: escape_char_def Let_def)

lemma escape_not_quote [simp]:
  "escape_char c @ r \<noteq> CHR 0x22 # s" "CHR 0x22 # s \<noteq> escape_char c @ r"
proof -
  show "escape_char c @ r \<noteq> CHR 0x22 # s"
    using hd_escape_char [of c] by (cases "escape_char c") auto
  then show "CHR 0x22 # s \<noteq> escape_char c @ r" by metis
qed

lemma quote_string_cancel: "quote_string s @ r = quote_string t @ u \<Longrightarrow> s = t \<and> r = u"
proof -
  have "concat (map escape_char s) @ CHR 0x22 # r = concat (map escape_char t) @ CHR 0x22 # u
    \<Longrightarrow> s = t \<and> r = u"
  proof (induction s arbitrary: t)
    case Nil
    then show ?case by (cases t) auto
  next
    case (Cons c s)
    then obtain d t' where t: "t = d # t'" by (cases t) auto
    with Cons.prems have "c = d"
      and "concat (map escape_char s) @ CHR 0x22 # r = concat (map escape_char t') @ CHR 0x22 # u"
      using escape_char_cancel [of c _ d] by auto
    with Cons.IH [of t'] t show ?case by simp
  qed
  then show "quote_string s @ r = quote_string t @ u \<Longrightarrow> s = t \<and> r = u"
    by (simp add: quote_string_def)
qed

lemma quote_string_eq_append:
  "quote_string s = quote_string t @ u \<longleftrightarrow> s = t \<and> u = []"
  "quote_string t @ u = quote_string s \<longleftrightarrow> s = t \<and> u = []"
  "quote_string s = quote_string t \<longleftrightarrow> s = t"
proof -
  show q: "quote_string s = quote_string t @ u \<longleftrightarrow> s = t \<and> u = []"
    by (metis append_Nil2 quote_string_cancel)
  then show "quote_string t @ u = quote_string s \<longleftrightarrow> s = t \<and> u = []" by metis
  show "quote_string s = quote_string t \<longleftrightarrow> s = t" by (metis append_Nil2 quote_string_cancel)
qed

lemma join_quoted_cancel:
  "join_with '','' (map quote_string xs) @ '']'' = join_with '','' (map quote_string ys) @ '']'' \<Longrightarrow> xs = ys"
proof (induction xs arbitrary: ys)
  case Nil
  then show ?case
  proof (cases ys)
    case (Cons y ys')
    with Nil show ?thesis by (cases ys') (auto simp: quote_string_def)
  qed simp
next
  case (Cons x xs)
  then obtain y ys' where y: "ys = y # ys'"
    by (cases ys; cases xs) (auto simp: quote_string_def)
  show ?case
  proof (cases "xs = [] \<or> ys' = []")
    case True
    then show ?thesis
      using Cons.prems y
      by (cases xs; cases ys') (auto simp: quote_string_eq_append)
  next
    case False
    with Cons.prems y have "quote_string x @ '','' @ join_with '','' (map quote_string xs) @ '']''
        = quote_string y @ '','' @ join_with '','' (map quote_string ys') @ '']''"
      by (simp add: join_with_Cons_cons)
    then have "x = y" and "join_with '','' (map quote_string xs) @ '']'' = join_with '','' (map quote_string ys') @ '']''"
      by (auto dest: quote_string_cancel)
    with Cons.IH y show ?thesis by simp
  qed
qed

lemma canonical_strs [simp]: "canonical_value (json_strs xs) = json_strs xs"
  by (induction xs) auto

lemma stringify_strs: "stringify (json_strs xs) = ''['' @ join_with '','' (map quote_string xs) @ '']''"
proof -
  have "stringify \<circ> JStr = quote_string" by (rule ext) simp
  then show ?thesis by simp
qed

text \<open>The tuple encoding behind every derived identifier never aliases two tuples.\<close>

lemma canonical_json_strs_inj: "canonical_json (json_strs xs) = canonical_json (json_strs ys) \<longleftrightarrow> xs = ys"
proof -
  have "join_with '','' (map quote_string xs) = join_with '','' (map quote_string ys) \<Longrightarrow> xs = ys"
    using join_quoted_cancel [of xs ys] by simp
  then show ?thesis unfolding canonical_json_def canonical_strs stringify_strs by auto
qed

end
