(* ===== verification/Desk_Machine.thy ===== *)
theory Desk_Machine
  imports Desk_Prelude
begin

text \<open>
  Table-driven state machines. The desk has three of them (seat bindings, scopes, rollouts), each
  a list of edges consulted through one lookup. This theory holds the run of a machine over a list
  of commands and the interface \<open>edge_machine\<close> the components interpret: what a lookup promises
  (terminal states have no edge) and what follows for every run.
\<close>

fun edge_walk :: "('s \<Rightarrow> 'c \<Rightarrow> 's option) \<Rightarrow> 's \<Rightarrow> 'c list \<Rightarrow> 's option" where
  "edge_walk edge s [] = Some s"
| "edge_walk edge s (c # cs) = (case edge s c of None \<Rightarrow> None | Some t \<Rightarrow> edge_walk edge t cs)"

lemma edge_walk_append:
  "edge_walk edge s (cs @ ds) =
     (case edge_walk edge s cs of None \<Rightarrow> None | Some t \<Rightarrow> edge_walk edge t ds)"
  by (induction cs arbitrary: s) (auto split: option.splits)

subsection \<open>Recorded runs\<close>

text \<open>
  The desk stores a run as rows that name the state left, the command and the state reached. A table
  of rows is legal if the first one opens the machine and each later one takes an edge out of the
  state the row before it reached.
\<close>

definition legal_row :: "('s \<Rightarrow> 'c \<Rightarrow> 's option) \<Rightarrow> 'c \<times> 's \<Rightarrow> ('r \<Rightarrow> 's option \<times> 'c \<times> 's) \<Rightarrow> 's option \<Rightarrow> 'r \<Rightarrow> bool" where
  "legal_row edge opening view st r \<longleftrightarrow> (case view r of (from, c, to) \<Rightarrow> from = st \<and>
     (case st of None \<Rightarrow> (c, to) = opening | Some s \<Rightarrow> edge s c = Some to))"

fun legal_rows :: "('s \<Rightarrow> 'c \<Rightarrow> 's option) \<Rightarrow> 'c \<times> 's \<Rightarrow> ('r \<Rightarrow> 's option \<times> 'c \<times> 's) \<Rightarrow> 's option \<Rightarrow> 'r list \<Rightarrow> bool" where
  "legal_rows edge opening view st [] = True"
| "legal_rows edge opening view st (r # rs) =
     (legal_row edge opening view st r \<and> legal_rows edge opening view (Some (snd (snd (view r)))) rs)"

definition rows_end :: "('r \<Rightarrow> 's option \<times> 'c \<times> 's) \<Rightarrow> 's option \<Rightarrow> 'r list \<Rightarrow> 's option" where
  "rows_end view st rs = (case last_opt rs of None \<Rightarrow> st | Some r \<Rightarrow> Some (snd (snd (view r))))"

lemma rows_end_simps [simp]:
  "rows_end view st [] = st" "rows_end view st (r # rs) = rows_end view (Some (snd (snd (view r)))) rs"
  by (simp_all add: rows_end_def last_opt_Cons split: option.split)

lemma rows_end_None: "rows_end view None rs = map_option (\<lambda>r. snd (snd (view r))) (last_opt rs)"
  by (simp add: rows_end_def split: option.split)

lemma legal_rows_append:
  "legal_rows edge opening view st (xs @ ys) \<longleftrightarrow>
     legal_rows edge opening view st xs \<and> legal_rows edge opening view (rows_end view st xs) ys"
  by (induction xs arbitrary: st) auto

lemma rows_end_append: "rows_end view st (xs @ ys) = rows_end view (rows_end view st xs) ys"
  by (induction xs arbitrary: st) auto

lemma legal_rows_walk:
  "legal_rows edge opening view (Some s) rs \<Longrightarrow>
   edge_walk edge s (map (\<lambda>r. fst (snd (view r))) rs) = rows_end view (Some s) rs"
  by (induction rs arbitrary: s) (auto simp: legal_row_def split: prod.splits)

lemma legal_rows_opened:
  assumes "legal_rows edge opening view None rs" and "rs \<noteq> []"
  obtains r rest where "rs = r # rest" and "snd (view r) = opening"
    and "legal_rows edge opening view (Some (snd opening)) rest"
  using assms by (cases rs) (auto simp: legal_row_def split: prod.splits)

subsection \<open>The interfaces\<close>

locale edge_machine =
  fixes edge :: "'s \<Rightarrow> 'c \<Rightarrow> 's option"
    and terminal :: "'s \<Rightarrow> bool"
  assumes terminal_stuck: "terminal s \<Longrightarrow> edge s c = None"
begin

lemma terminal_walk: "terminal s \<Longrightarrow> edge_walk edge s cs = Some t \<Longrightarrow> cs = [] \<and> t = s"
  by (cases cs) (auto simp: terminal_stuck)

lemma walk_terminal_end:
  "edge_walk edge s (cs @ ds) = Some t \<Longrightarrow> edge_walk edge s cs = Some u \<Longrightarrow> terminal u \<Longrightarrow> ds = [] \<and> t = u"
  by (auto simp: edge_walk_append split: option.splits dest: terminal_walk)

text \<open>A set of states that only the commands in \<open>C\<close> leave is left only by a run that issues one of them.\<close>

lemma walk_crosses:
  assumes closed: "\<And>u c v. u \<in> X \<Longrightarrow> edge u c = Some v \<Longrightarrow> c \<notin> C \<Longrightarrow> v \<in> X"
  shows "edge_walk edge s cs = Some t \<Longrightarrow> s \<in> X \<Longrightarrow> t \<notin> X \<Longrightarrow> \<exists>c \<in> set cs. c \<in> C"
proof (induction cs arbitrary: s)
  case (Cons c cs)
  then obtain u where u: "edge s c = Some u" and w: "edge_walk edge u cs = Some t"
    by (auto split: option.splits)
  show ?case
  proof (cases "c \<in> C")
    case False
    with closed u Cons.prems have "u \<in> X" by blast
    with Cons.IH w Cons.prems show ?thesis by auto
  qed simp
qed simp

lemma rows_cross:
  assumes "legal_rows edge opening view (Some s) rs" and "rows_end view (Some s) rs = Some t" and "s \<in> X" and "t \<notin> X"
    and "\<And>u k v. u \<in> X \<Longrightarrow> edge u k = Some v \<Longrightarrow> k \<noteq> c \<Longrightarrow> v \<in> X"
  shows "\<exists>r \<in> set rs. fst (snd (view r)) = c"
proof -
  have "\<exists>k \<in> set (map (\<lambda>r. fst (snd (view r))) rs). k \<in> {c}"
    using assms legal_rows_walk [OF assms(1)] by (intro walk_crosses [of X "{c}" s]) auto
  then show ?thesis by auto
qed

end

text \<open>A machine with a rank that every edge lowers ends: its runs are no longer than the rank of their start.\<close>

locale ranked_machine = edge_machine +
  fixes rank :: "'a \<Rightarrow> nat"
  assumes rank_lowers: "edge s c = Some t \<Longrightarrow> rank t < rank s"
begin

lemma walk_rank: "edge_walk edge s cs = Some t \<Longrightarrow> rank t + length cs \<le> rank s"
proof (induction cs arbitrary: s)
  case (Cons c cs)
  then obtain u where "edge s c = Some u" and "edge_walk edge u cs = Some t"
    by (auto split: option.splits)
  with Cons.IH [of u] rank_lowers [of s c u] show ?case by simp
qed simp

lemma walk_bounded: "edge_walk edge s cs = Some t \<Longrightarrow> length cs \<le> rank s"
  using walk_rank by (metis add_leD2)

lemma walk_never_returns: "edge_walk edge s cs = Some s \<Longrightarrow> cs = []"
  using walk_rank [of s cs s] by simp

lemma rows_bounded:
  assumes "legal_rows edge (c0, s0) view None rs"
  shows "length rs \<le> Suc (rank s0)"
proof (cases "rs = []")
  case False
  from legal_rows_opened [OF assms False] obtain r rest where "rs = r # rest"
    and "legal_rows edge (c0, s0) view (Some s0) rest" by (metis snd_conv)
  moreover from legal_rows_walk [OF this(2)] obtain t where
    "edge_walk edge s0 (map (\<lambda>r. fst (snd (view r))) rest) = Some t"
    by (auto simp: rows_end_def split: option.splits)
  ultimately show ?thesis using walk_bounded [of s0] by fastforce
qed simp

end

end
