(* ===== verification/Desk_Vocabulary.thy ===== *)
theory Desk_Vocabulary
  imports Desk_Machine
begin

text \<open>
  The closed vocabularies of plugin/shared/enforcement.ts: error codes, wire bounds, the seat
  binding handshake, tool-policy preapprovals, and the state machines of scopes and rollouts with
  their single legality tables. A rejection is its code: the message and recovery texts are
  diagnostic prose that no modelled code reads.
\<close>

subsection \<open>Error vocabulary and wire bounds\<close>

datatype desk_error_code =
    AUTHORITY_REQUIRED | ACTOR_MISMATCH | SCOPE_CONFLICT | STALE_EPOCH | REVISION_CONFLICT
  | CANDIDATE_DRIFT | EVIDENCE_INCOMPLETE | REVIEW_INCOMPLETE | INVALID_RECORD | CAPABILITY_GAP
  | SESSION_REBIND_REQUIRED | STATE_UNREADABLE | IDEMPOTENCY_CONFLICT | RECOVERY_REQUIRED
  | EXECUTION_UNKNOWN | JOB_RUNNING | REQUEST_TOO_LARGE | RESPONSE_TOO_LARGE
  | ROLLOUT_CONFLICT | CHECK_INCOMPLETE | COHORT_DRIFT | RETRY_EXHAUSTED
  | RUNTIME_INTEGRITY | ROUTE_DRIFT | SEAT_INELIGIBLE | STOP_REQUESTED
  | INTEGRATION_CONFLICT | INTEGRATION_UNSUPPORTED | EFFECT_INADMISSIBLE | VIEW_TOO_LARGE

definition between_len :: "nat \<Rightarrow> nat \<Rightarrow> 'a list \<Rightarrow> bool" where
  \<comment> \<open>\<open>z.string().min(lo).max(hi)\<close> and \<open>z.array(_).min(lo).max(hi)\<close>\<close>
  "between_len lo hi s \<longleftrightarrow> lo \<le> length s \<and> length s \<le> hi"

definition is_hex :: "char \<Rightarrow> bool" where
  "is_hex c \<longleftrightarrow> (let n = of_char c :: nat in (48 \<le> n \<and> n \<le> 57) \<or> (97 \<le> n \<and> n \<le> 102))"

definition is_sha :: "string \<Rightarrow> bool" where
  "is_sha s \<longleftrightarrow> length s = 64 \<and> list_all is_hex s"

definition is_git_head :: "string \<Rightarrow> bool" where
  "is_git_head s \<longleftrightarrow> (length s = 40 \<or> length s = 64) \<and> list_all is_hex s"

definition is_trim_char :: "char \<Rightarrow> bool" where
  "is_trim_char c \<longleftrightarrow> (of_char c :: nat) \<in> {9, 10, 11, 12, 13, 32, 160}"

definition trim :: "string \<Rightarrow> string" where
  "trim s = rev (dropWhile is_trim_char (rev (dropWhile is_trim_char s)))"

definition nonblank :: "string \<Rightarrow> bool" where
  "nonblank s \<longleftrightarrow> 0 < length (trim s)"

fun opt_ok :: "('a \<Rightarrow> bool) \<Rightarrow> 'a option \<Rightarrow> bool" where
  \<comment> \<open>\<open>.nullable()\<close> and \<open>.optional()\<close>\<close>
  "opt_ok P None = True"
| "opt_ok P (Some x) = P x"

text \<open>The entries of \<open>WIRE_LIMITS\<close> that the desk's commands and rows are bounded by.\<close>

definition agentIdLen :: nat where "agentIdLen = 128"
definition deskRequestIdLen :: nat where "deskRequestIdLen = 128"
definition deskEntityIdLen :: nat where "deskEntityIdLen = 128"
definition deskAuthorityRefLen :: nat where "deskAuthorityRefLen = 1024"
definition deskBriefTextLen :: nat where "deskBriefTextLen = 4096"
definition deskBriefItems :: nat where "deskBriefItems = 32"
definition deskBriefRefs :: nat where "deskBriefRefs = 64"
definition deskDecisionTextLen :: nat where "deskDecisionTextLen = 4096"
definition deskDecisionOwners :: nat where "deskDecisionOwners = 32"
definition deskPathSurfaceLen :: nat where "deskPathSurfaceLen = 4096"
definition deskResourceSurfaceLen :: nat where "deskResourceSurfaceLen = 512"
definition deskStateRefLen :: nat where "deskStateRefLen = 512"
definition deskLensIdLen :: nat where "deskLensIdLen = 128"
definition deskLensNameLen :: nat where "deskLensNameLen = 256"
definition deskSettlementPointerLen :: nat where "deskSettlementPointerLen = 1024"
definition deskSettlementResources :: nat where "deskSettlementResources = 32"
definition deskScopeLabelLen :: nat where "deskScopeLabelLen = 256"
definition deskScopeRefs :: nat where "deskScopeRefs = 32"
definition deskScopePointerLen :: nat where "deskScopePointerLen = 1024"
definition deskCheckPointerLen :: nat where "deskCheckPointerLen = 1024"
definition deskCheckEvidence :: nat where "deskCheckEvidence = 16"
definition deskRolloutRequiredChecks :: nat where "deskRolloutRequiredChecks = 16"
definition deskSettlementRefs :: nat where "deskSettlementRefs = 64"
definition deskSettlementTitleLen :: nat where "deskSettlementTitleLen = 256"
definition deskTimelineFieldLen :: nat where "deskTimelineFieldLen = 1024"
definition deskExportPathLen :: nat where "deskExportPathLen = 1024"
definition gapLen :: nat where "gapLen = 256"
definition deskCheckOutputTailLen :: nat where "deskCheckOutputTailLen = 4096"

lemmas wire_limits [desk_defs] =
  agentIdLen_def deskRequestIdLen_def deskEntityIdLen_def deskAuthorityRefLen_def deskBriefTextLen_def
  deskBriefItems_def deskBriefRefs_def deskDecisionTextLen_def deskDecisionOwners_def
  deskPathSurfaceLen_def deskResourceSurfaceLen_def deskStateRefLen_def deskLensIdLen_def
  deskLensNameLen_def deskSettlementPointerLen_def deskSettlementResources_def deskScopeLabelLen_def
  deskScopeRefs_def deskScopePointerLen_def deskCheckPointerLen_def deskCheckEvidence_def
  deskSettlementRefs_def deskSettlementTitleLen_def deskTimelineFieldLen_def deskExportPathLen_def gapLen_def deskCheckOutputTailLen_def
  deskRolloutRequiredChecks_def

subsection \<open>Seat binding handshake\<close>

datatype seat_binding_state =
  SB_unbound_open | SB_host_confirmed | SB_attached | SB_active | SB_revoked

fun BINDING_TRANSITIONS :: "seat_binding_state \<Rightarrow> seat_binding_state list" where
  "BINDING_TRANSITIONS SB_unbound_open = [SB_host_confirmed, SB_revoked]"
| "BINDING_TRANSITIONS SB_host_confirmed = [SB_attached, SB_revoked]"
| "BINDING_TRANSITIONS SB_attached = [SB_active, SB_revoked]"
| "BINDING_TRANSITIONS SB_active = [SB_revoked]"
| "BINDING_TRANSITIONS SB_revoked = []"

definition canTransitionSeatBinding :: "seat_binding_state \<Rightarrow> seat_binding_state \<Rightarrow> bool" where
  "canTransitionSeatBinding from to \<longleftrightarrow> to \<in> set (BINDING_TRANSITIONS from)"

text \<open>As a machine whose commands are the target states, the handshake only moves forward.\<close>

definition binding_edge :: "seat_binding_state \<Rightarrow> seat_binding_state \<Rightarrow> seat_binding_state option" where
  "binding_edge from to = (if canTransitionSeatBinding from to then Some to else None)"

fun binding_rank :: "seat_binding_state \<Rightarrow> nat" where
  "binding_rank SB_unbound_open = 4"
| "binding_rank SB_host_confirmed = 3"
| "binding_rank SB_attached = 2"
| "binding_rank SB_active = 1"
| "binding_rank SB_revoked = 0"

interpretation binding: ranked_machine binding_edge "\<lambda>s. s = SB_revoked" binding_rank
proof
  fix s c t
  show "s = SB_revoked \<Longrightarrow> binding_edge s c = None"
    by (simp add: binding_edge_def canTransitionSeatBinding_def)
  show "binding_edge s c = Some t \<Longrightarrow> binding_rank t < binding_rank s"
    by (cases s) (auto simp: binding_edge_def canTransitionSeatBinding_def split: if_splits)
qed

subsection \<open>Tool policy preapprovals\<close>

text \<open>
  \<open>refKey\<close> is the JSON encoding of the pair (server, tool); equality of keys is equality of pairs
  (the tuple encoding is injective), so the set of seen keys is kept as the list of references.
  The Zod parse of an entry succeeds or throws; a thrown parse is \<open>None\<close>.
\<close>

record mcp_tool_ref =
  mt_server :: string
  mt_tool :: string

definition mcpToolRefLen :: nat where "mcpToolRefLen = 256"
definition TOOL_POLICY_MAX_PREAPPROVED :: nat where "TOOL_POLICY_MAX_PREAPPROVED = 1024"

definition mcp_tool_ref_ok :: "mcp_tool_ref \<Rightarrow> bool" where
  "mcp_tool_ref_ok r \<longleftrightarrow> between_len 1 mcpToolRefLen (mt_server r) \<and> between_len 1 mcpToolRefLen (mt_tool r)"

definition tool_policy_ok :: "mcp_tool_ref list \<Rightarrow> bool" where
  "tool_policy_ok p \<longleftrightarrow> list_all mcp_tool_ref_ok p \<and> length p \<le> TOOL_POLICY_MAX_PREAPPROVED"

record tool_policy_merge =
  tm_toolPolicy :: "mcp_tool_ref list"
  tm_added :: "mcp_tool_ref list"
  tm_duplicates :: "mcp_tool_ref list"

fun merge_grants ::
  "mcp_tool_ref list \<Rightarrow> mcp_tool_ref list \<Rightarrow> mcp_tool_ref list \<Rightarrow> mcp_tool_ref list \<Rightarrow>
   (mcp_tool_ref list \<times> mcp_tool_ref list) option" where
  "merge_grants seen added dups [] = Some (added, dups)"
| "merge_grants seen added dups (c # cs) =
     (if \<not> mcp_tool_ref_ok c then None
      else if c \<in> set seen then merge_grants seen added (dups @ [c]) cs
      else merge_grants (c # seen) (added @ [c]) dups cs)"

definition mergeToolPolicyPreapprovals ::
  "mcp_tool_ref list option \<Rightarrow> mcp_tool_ref list \<Rightarrow> (desk_error_code + tool_policy_merge) option" where
  "mergeToolPolicyPreapprovals existing additions =
     (let base = (case existing of None \<Rightarrow> [] | Some p \<Rightarrow> p) in
      if existing \<noteq> None \<and> \<not> tool_policy_ok base then None
      else (case merge_grants base [] [] additions of
        None \<Rightarrow> None
      | Some (added, dups) \<Rightarrow>
          (let merged = base @ added in
           if length merged > TOOL_POLICY_MAX_PREAPPROVED then Some (Inl INVALID_RECORD)
           else Some (Inr \<lparr>tm_toolPolicy = merged, tm_added = added, tm_duplicates = dups\<rparr>))))"

subsection \<open>Workspace paths\<close>

definition is_drive_prefix :: "string \<Rightarrow> bool" where
  \<comment> \<open>\<open>/^[A-Za-z]:\//\<close>\<close>
  "is_drive_prefix s \<longleftrightarrow>
     (case s of
        a # b # c # _ \<Rightarrow>
          (let n = of_char a :: nat in (65 \<le> n \<and> n \<le> 90) \<or> (97 \<le> n \<and> n \<le> 122)) \<and>
          b = CHR '':'' \<and> c = CHR ''/''
      | _ \<Rightarrow> False)"

definition bad_segment :: "string \<Rightarrow> bool" where
  "bad_segment part \<longleftrightarrow> part = [] \<or> part = ''.'' \<or> part = ''..''"

definition canonicalWorkspacePath :: "string \<Rightarrow> string option" where
  "canonicalWorkspacePath value =
     (if value = [] \<or> prefix ''/'' value \<or> is_drive_prefix value \<or>
         CHR 0x5C \<in> set value \<or> CHR 0x00 \<in> set value then None
      else let parts = split_on (CHR ''/'') value in
        if list_ex bad_segment parts then None
        else if join_with ''/'' parts = value then Some value else None)"

definition workspacePathsOverlap :: "string \<Rightarrow> string \<Rightarrow> bool" where
  "workspacePathsOverlap left right =
     (case (canonicalWorkspacePath left, canonicalWorkspacePath right) of
        (Some a, Some b) \<Rightarrow> a = b \<or> prefix (b @ ''/'') a \<or> prefix (a @ ''/'') b
      | _ \<Rightarrow> False)"

lemma canonicalWorkspacePath_Some:
  "canonicalWorkspacePath v = Some w \<Longrightarrow> w = v"
  by (auto simp: canonicalWorkspacePath_def Let_def split: if_splits)

lemma prefix_sep_iff: "prefix (b @ [c]) a \<longleftrightarrow> (\<exists>zs. a = b @ c # zs)"
  by (auto simp: prefix_def)

lemma workspacePathsOverlap_sym: "workspacePathsOverlap a b \<longleftrightarrow> workspacePathsOverlap b a"
  by (auto simp: workspacePathsOverlap_def split: option.splits)

subsection \<open>Scope machine\<close>

datatype scope_state =
    SS_declared | SS_claimed | SS_submitted_for_review | SS_review_observed
  | SS_approved | SS_rejected | SS_advanced | SS_closed

datatype scope_command =
    SC_claim | SC_submit_for_review | SC_review_observed | SC_approve | SC_reject
  | SC_advance | SC_close

datatype scope_row_command = Row_declare | Row_command scope_command | Row_task_cancel

datatype scope_review_axis = Axis_spec | Axis_standards

datatype scope_review_verdict = Verdict_approve | Verdict_reject | Verdict_findings

definition SCOPE_REVIEW_AXES :: "scope_review_axis list" where
  "SCOPE_REVIEW_AXES = [Axis_spec, Axis_standards]"

definition SCOPE_TRANSITIONS :: "(scope_state \<times> scope_command \<times> scope_state) list" where
  "SCOPE_TRANSITIONS =
    [(SS_declared, SC_claim, SS_claimed),
     (SS_claimed, SC_submit_for_review, SS_submitted_for_review),
     (SS_submitted_for_review, SC_submit_for_review, SS_submitted_for_review),
     (SS_submitted_for_review, SC_review_observed, SS_review_observed),
     (SS_submitted_for_review, SC_reject, SS_rejected),
     (SS_submitted_for_review, SC_close, SS_closed),
     (SS_review_observed, SC_approve, SS_approved),
     (SS_review_observed, SC_reject, SS_rejected),
     (SS_approved, SC_submit_for_review, SS_submitted_for_review),
     (SS_approved, SC_advance, SS_advanced),
     (SS_approved, SC_close, SS_closed),
     (SS_rejected, SC_advance, SS_advanced),
     (SS_rejected, SC_submit_for_review, SS_submitted_for_review),
     (SS_rejected, SC_close, SS_closed),
     (SS_advanced, SC_submit_for_review, SS_submitted_for_review)]"

definition SCOPE_REVIEW_GATED_COMMANDS :: "scope_command list" where
  "SCOPE_REVIEW_GATED_COMMANDS = [SC_review_observed, SC_approve, SC_advance, SC_close]"

fun scopeTransitionEdge :: "scope_state \<Rightarrow> scope_row_command \<Rightarrow> scope_state option" where
  "scopeTransitionEdge from Row_task_cancel = (if from \<noteq> SS_closed then Some SS_closed else None)"
| "scopeTransitionEdge from (Row_command command) =
     map_option (snd \<circ> snd) (find (\<lambda>(f, c, _). f = from \<and> c = command) SCOPE_TRANSITIONS)"
| "scopeTransitionEdge from Row_declare = None"

lemma scope_edge_iff:
  "scopeTransitionEdge from (Row_command command) = Some to \<longleftrightarrow> (from, command, to) \<in> set SCOPE_TRANSITIONS"
  by (cases "from"; cases command; cases to) (simp_all add: SCOPE_TRANSITIONS_def)

interpretation scope_machine: edge_machine scopeTransitionEdge "\<lambda>s. s = SS_closed"
proof
  fix s c
  show "s = SS_closed \<Longrightarrow> scopeTransitionEdge s c = None"
    by (cases c) (simp_all add: SCOPE_TRANSITIONS_def split: scope_command.splits)
qed

subsection \<open>Rollout machine\<close>

datatype check_class = CC_ledger_integrity | CC_repo_payload_check | CC_repo_git_head

datatype check_run_status = CR_passed | CR_failed | CR_blocked | CR_error

datatype rollout_state =
    RS_declared | RS_checks_running | RS_checks_passed | RS_checks_failed | RS_canary_ready
  | RS_canary_running | RS_canary_passed | RS_canary_failed | RS_held | RS_promoted
  | RS_rolled_back | RS_closed

datatype rollout_command =
    RC_start_checks | RC_checks_passed | RC_checks_failed | RC_canary_ready | RC_start_canary
  | RC_canary_passed | RC_canary_failed | RC_hold | RC_rollback | RC_promote | RC_close

definition ROLLOUT_TRANSITIONS :: "(rollout_state \<times> rollout_command \<times> rollout_state) list" where
  "ROLLOUT_TRANSITIONS =
    [(RS_declared, RC_start_checks, RS_checks_running),
     (RS_checks_running, RC_checks_passed, RS_checks_passed),
     (RS_checks_running, RC_checks_failed, RS_checks_failed),
     (RS_checks_running, RC_hold, RS_held),
     (RS_checks_passed, RC_canary_ready, RS_canary_ready),
     (RS_checks_passed, RC_hold, RS_held),
     (RS_checks_failed, RC_hold, RS_held),
     (RS_checks_failed, RC_rollback, RS_rolled_back),
     (RS_canary_ready, RC_start_canary, RS_canary_running),
     (RS_canary_ready, RC_hold, RS_held),
     (RS_canary_ready, RC_rollback, RS_rolled_back),
     (RS_canary_running, RC_canary_passed, RS_canary_passed),
     (RS_canary_running, RC_canary_failed, RS_canary_failed),
     (RS_canary_running, RC_hold, RS_held),
     (RS_canary_passed, RC_promote, RS_promoted),
     (RS_canary_passed, RC_hold, RS_held),
     (RS_canary_passed, RC_rollback, RS_rolled_back),
     (RS_canary_failed, RC_hold, RS_held),
     (RS_canary_failed, RC_rollback, RS_rolled_back),
     (RS_held, RC_rollback, RS_rolled_back),
     (RS_held, RC_close, RS_closed),
     (RS_promoted, RC_close, RS_closed),
     (RS_rolled_back, RC_close, RS_closed)]"

definition ROLLOUT_CHECK_GATED_COMMANDS :: "rollout_command list" where
  "ROLLOUT_CHECK_GATED_COMMANDS = [RC_checks_passed, RC_promote]"

definition ROLLOUT_COHORT_GATED_COMMANDS :: "rollout_command list" where
  "ROLLOUT_COHORT_GATED_COMMANDS = [RC_canary_passed, RC_promote]"

definition ROLLOUT_REVIEW_GATED_COMMANDS :: "rollout_command list" where
  "ROLLOUT_REVIEW_GATED_COMMANDS = [RC_promote]"

definition rolloutTransitionEdge :: "rollout_state \<Rightarrow> rollout_command \<Rightarrow> rollout_state option" where
  "rolloutTransitionEdge from command =
     map_option (snd \<circ> snd) (find (\<lambda>(f, c, _). f = from \<and> c = command) ROLLOUT_TRANSITIONS)"

fun rollout_rank :: "rollout_state \<Rightarrow> nat" where
  "rollout_rank RS_declared = 8"
| "rollout_rank RS_checks_running = 7"
| "rollout_rank RS_checks_passed = 6"
| "rollout_rank RS_checks_failed = 3"
| "rollout_rank RS_canary_ready = 5"
| "rollout_rank RS_canary_running = 4"
| "rollout_rank RS_canary_passed = 3"
| "rollout_rank RS_canary_failed = 3"
| "rollout_rank RS_held = 2"
| "rollout_rank RS_promoted = 1"
| "rollout_rank RS_rolled_back = 1"
| "rollout_rank RS_closed = 0"

lemma rollout_edge_iff:
  "rolloutTransitionEdge from command = Some to \<longleftrightarrow> (from, command, to) \<in> set ROLLOUT_TRANSITIONS"
  unfolding rolloutTransitionEdge_def ROLLOUT_TRANSITIONS_def
  by (cases "from"; cases command) auto

interpretation rollout_machine: ranked_machine rolloutTransitionEdge "\<lambda>s. s = RS_closed" rollout_rank
proof
  fix s c t
  show "rolloutTransitionEdge s c = Some t \<Longrightarrow> rollout_rank t < rollout_rank s"
    by (auto simp: rollout_edge_iff ROLLOUT_TRANSITIONS_def)
  show "s = RS_closed \<Longrightarrow> rolloutTransitionEdge s c = None"
    by (cases c) (simp_all add: rolloutTransitionEdge_def ROLLOUT_TRANSITIONS_def)
qed

end
