(* ===== verification/Desk_Ledger.thy ===== *)
theory Desk_Ledger
  imports Desk_Canonical Desk_Vocabulary
begin

text \<open>
  The durable ledger of a repository desk (plugin/server/desk-store.ts): one record per row
  schema, the ledger itself, the tables a decision may replace, and the ownership lineage every
  owner check resolves through. Field names carry a prefix per row type because HOL record fields
  share one name space; the rest of the name is the source's. Literal fields
  (\<open>openGeneration: 1\<close>, \<open>kind: "observed"\<close>, the hash algorithm labels) carry no information and
  are left out. Revisions and sequence numbers are natural numbers.

  The table \<open>taskEntries\<close> is not part of this record: the model speaks of ledgers whose task table
  is empty, and the two refinements that mention it are stated for that case.
\<close>

subsection \<open>Rows\<close>

datatype desk_role = Role_supervisor | Role_lead | Role_peer

datatype membership_state = MS_unbound_open | MS_host_confirmed | MS_revoked

datatype revoke_reason =
  RR_archived | RR_expired_unbound | RR_registration_mismatch | RR_registration_timeout

record entry_ref =
  er_entryId :: string
  er_entrySha256 :: string

datatype capacity_claim =
    Claim_v1 (cc_attemptId: string) (cc_createActionId: string) (cc_createIssueRef: entry_ref)
      (cc_hostRequestId: string) (cc_idempotencyKeySha256: string) (cc_rawCreateContextSha256: string)
  | Claim_v2 (cc_attemptId: string) (cc_createActionId: string) (cc_createIssueRef: entry_ref)
      (cc_ticketSha256: string) (cc_hostRequestId: string) (cc_idempotencyKeySha256: string)
      (cc_intendedBodySha256: string) (cc_observedConfigSha256: string)

record membership =
  m_membershipId :: string
  m_state :: membership_state
  m_bindingHandleSha256 :: string
  m_provider :: string
  m_family :: string
  m_role :: desk_role
  m_createCwd :: string
  m_agentId :: "string option"
  m_workspaceId :: "string option"
  m_createdAt :: string
  m_hostConfirmedAt :: "string option"
  m_registeredAt :: "string option"
  m_revokedAt :: "string option"
  m_revokeReason :: "revoke_reason option"
  m_capacityClaim :: "capacity_claim option"

record assignment_seat =
  seat_agentId :: string
  seat_membershipId :: string

datatype assignment_state = AS_open | AS_closed

record assignment =
  a_assignmentId :: string
  a_requestId :: string
  a_authorityRef :: string
  a_objective :: "string option"
  a_ownerMembershipId :: string
  a_ownerAgentId :: string
  a_workspaceId :: "string option"
  a_state :: assignment_state
  a_seats :: "assignment_seat list"

record candidate =
  c_candidateId :: string
  c_assignmentId :: string
  c_seatAgentId :: string
  c_seatMembershipId :: string
  c_repository :: string
  c_snapshotSha256 :: string
  c_head :: "string option"
  c_incomplete :: "string list"
  c_measuredAt :: string

datatype observed_status = OS_pending | OS_ok | OS_failed

record handback_observed =
  ob_status :: observed_status
  ob_candidateId :: "string option"
  ob_repository :: string
  ob_measuredAt :: "string option"
  ob_error :: "string option"

record handback =
  h_handbackId :: string
  h_assignmentId :: string
  h_agentId :: string
  h_seatMembershipId :: string
  h_requestId :: string
  h_revision :: nat
  h_record :: json
  h_recordSha256 :: string
  h_claimedCandidateId :: "string option"
  h_observed :: handback_observed
  h_gaps :: "string list"

datatype resource_disposition = RD_released | RD_retained | RD_unknown

record settlement_resource =
  sr_ref :: string
  sr_disposition :: resource_disposition

datatype settlement_via = Via_paseo_logs | Via_host_transcript | Via_sessions_db | Via_unreadable | Via_unchecked

record settlement_export =
  se_path :: string
  se_sha256 :: string
  se_bytes :: nat

record settlement_timeline =
  tl_nativeHandle :: "string option"
  tl_sessionId :: "string option"
  tl_via :: settlement_via
  tl_export :: "settlement_export option"
  tl_gap :: "string option"

datatype settlement_status = ST_completed | ST_partial | ST_blocked

datatype export_verification = EV_verified "string option" | EV_unavailable "string option"

record settlement =
  s_settlementId :: string
  s_assignmentId :: string
  s_requestId :: string
  s_revision :: nat
  s_ownerMembershipId :: string
  s_ownerAgentId :: string
  s_seatAgentId :: string
  s_seatMembershipId :: string
  s_seatProvider :: string
  s_seatTitle :: string
  s_at :: string
  s_deliveryRef :: "string option"
  s_reworkClosureRef :: "string option"
  s_sinkRef :: "string option"
  s_decisionRef :: "string option"
  s_handbackRefs :: "string list"
  s_candidateRefs :: "string list"
  s_resources :: "settlement_resource list"
  s_timeline :: settlement_timeline
  s_exportVerification :: "export_verification option"
  s_status :: settlement_status
  s_gaps :: "string list"

definition assignmentStructuralRevision :: "assignment \<Rightarrow> nat" where
  "assignmentStructuralRevision a = 1 + length (a_seats a) + (if a_state a = AS_closed then 1 else 0)"

subsection \<open>Scope declarations, reviews and transitions\<close>

record state_owner =
  so_stateRef :: string
  so_moduleRef :: string

record notification_intent =
  nt_event :: string
  nt_recipientAgentId :: string

record scope_ownership =
  ow_writerAgentId :: string
  ow_writerAuthorityRef :: "string option"
  ow_paths :: "string list"
  ow_resources :: "string list"
  ow_stateOwners :: "state_owner list"
  ow_dependsOnScopeIds :: "string list"
  ow_notifications :: "notification_intent list"

record review_lens =
  ln_id :: string
  ln_name :: string
  ln_authorityRef :: string
  ln_ruleRef :: string

datatype review_plan_kind = Plan_required | Plan_exempt | Plan_not_required

record review_plan =
  rp_kind :: review_plan_kind
  rp_authorityRef :: string
  rp_ruleRef :: string
  rp_reason :: string
  rp_lenses :: "review_lens list"
  rp_exemptionClass :: "string option"

record scope =
  sc_assignmentId :: string
  sc_scopeId :: string
  sc_requestId :: string
  sc_revision :: nat
  sc_priorRevision :: "nat option"
  sc_ownerMembershipId :: string
  sc_ownerAgentId :: string
  sc_assignmentRevision :: nat
  sc_seatAgentId :: "string option"
  sc_label :: string
  sc_declarationSha256 :: string
  sc_refs :: "string list"
  sc_briefRevision :: nat
  sc_ownership :: "scope_ownership option"
  sc_reviewPlan :: "review_plan option"

record scope_review =
  rv_reviewId :: string
  rv_assignmentId :: string
  rv_scopeId :: string
  rv_requestId :: string
  rv_revision :: nat
  rv_scopeRevision :: nat
  rv_candidateSnapshot :: string
  rv_axis :: "scope_review_axis option"
  rv_lensId :: "string option"
  rv_briefRevision :: nat
  rv_mandateSha256 :: "string option"
  rv_verdict :: scope_review_verdict
  rv_reviewerAgentId :: string
  rv_reviewerSeatId :: string
  rv_findingsRef :: "string option"

datatype scope_discharge =
    Discharge_axis scope_review_axis (discharge_reviewId: string)
  | Discharge_lens string (discharge_reviewId: string)

record task_cancellation =
  tc_attemptId :: string
  tc_attemptRevision :: nat
  tc_attemptEntrySha256 :: string
  tc_controlId :: string
  tc_controlEntrySha256 :: string
  tc_proofSha256 :: string

record scope_transition =
  tr_transitionId :: string
  tr_assignmentId :: string
  tr_scopeId :: string
  tr_requestId :: string
  tr_revision :: nat
  tr_command :: scope_row_command
  tr_from :: "scope_state option"
  tr_to :: scope_state
  tr_scopeRevision :: nat
  tr_briefRevision :: nat
  tr_mandateSha256 :: "string option"
  tr_candidateSnapshot :: "string option"
  tr_candidateHead :: "string option"
  tr_discharged :: "scope_discharge list"
  tr_actorAgentId :: string
  tr_taskCancellation :: "task_cancellation option"

subsection \<open>Checks and rollouts\<close>

record check_limits =
  cl_timeoutMs :: nat
  cl_maxOutputBytes :: nat
  cl_maxRetries :: nat

record check_definition =
  cd_checkId :: string
  cd_assignmentId :: string
  cd_scopeId :: string
  cd_requestId :: string
  cd_revision :: nat
  cd_priorRevision :: "nat option"
  cd_ownerMembershipId :: string
  cd_ownerAgentId :: string
  cd_assignmentRevision :: nat
  cd_checkClass :: check_class
  cd_label :: string
  cd_definitionSha256 :: string
  cd_limits :: check_limits
  cd_requiredEvidence :: "string list"
  cd_refs :: "string list"

record check_run =
  cr_runId :: string
  cr_assignmentId :: string
  cr_rolloutId :: string
  cr_checkId :: string
  cr_requestId :: string
  cr_rolloutRevision :: nat
  cr_definitionRevision :: nat
  cr_definitionSha256 :: string
  cr_candidateSnapshot :: string
  cr_candidateHead :: "string option"
  cr_environment :: "string \<times> string"
  cr_status :: check_run_status
  cr_attempt :: nat
  cr_retryOf :: "string option"
  cr_actorAgentId :: string
  cr_actorSeatId :: string
  cr_exitCode :: "int option"
  cr_timedOut :: bool
  cr_durationMs :: "nat option"
  cr_outputSha256 :: "string option"
  cr_outputTail :: "string option"
  cr_outputTruncated :: bool
  cr_outputPointer :: "string option"
  cr_evidenceRef :: "string option"
  cr_gap :: "(string \<times> string) option"

record required_check =
  rq_checkId :: string
  rq_definitionDigest :: string

record rollout =
  ro_rolloutId :: string
  ro_assignmentId :: string
  ro_scopeId :: string
  ro_requestId :: string
  ro_revision :: nat
  ro_priorRevision :: "nat option"
  ro_ownerMembershipId :: string
  ro_ownerAgentId :: string
  ro_assignmentRevision :: nat
  ro_label :: string
  ro_declarationSha256 :: string
  ro_candidateSnapshot :: string
  ro_candidateHead :: "string option"
  ro_requiredChecks :: "required_check list"
  ro_refs :: "string list"

record cohort =
  co_members :: "string list"
  co_digest :: string
  co_assignmentRevision :: nat
  co_ownershipRevision :: "nat option"

record discharged_check =
  dc_checkId :: string
  dc_runId :: string

datatype rollout_row_command = RRow_declare | RRow_command rollout_command

record rollout_transition =
  rt_transitionId :: string
  rt_assignmentId :: string
  rt_rolloutId :: string
  rt_requestId :: string
  rt_revision :: nat
  rt_command :: rollout_row_command
  rt_from :: "rollout_state option"
  rt_to :: rollout_state
  rt_rolloutRevision :: nat
  rt_actorAgentId :: string
  rt_cohort :: "cohort option"
  rt_targetSnapshot :: "string option"
  rt_targetHead :: "string option"
  rt_evidenceRefs :: "string list"
  rt_dischargedChecks :: "discharged_check list"
  rt_dischargedReviews :: "scope_discharge list"
  rt_cohortDigestAtGate :: "string option"

subsection \<open>Ownership lineage, briefs and decisions\<close>

record ownership_offer =
  of_offerId :: string
  of_assignmentId :: string
  of_requestId :: string
  of_ownershipRevision :: nat
  of_fromAgentId :: string
  of_fromMembershipId :: string
  of_toAgentId :: string
  of_toMembershipId :: string
  of_authorityRef :: string
  of_contextRef :: string

record ownership_accept =
  ac_acceptId :: string
  ac_offerId :: string
  ac_assignmentId :: string
  ac_requestId :: string
  ac_ownershipRevision :: nat
  ac_fromAgentId :: string
  ac_fromMembershipId :: string
  ac_toAgentId :: string
  ac_toMembershipId :: string
  ac_acknowledgment :: string
  ac_settlementRef :: "string option"
  ac_resources :: "settlement_resource list"
  ac_gaps :: "string list"
  ac_ledgerRevision :: nat
  ac_briefRevision :: nat

record brief_constraint =
  bc_text :: string
  bc_authorityRef :: string
  bc_sourceRef :: "string option"

record operative_brief =
  br_objective :: string
  br_acceptanceCriteria :: "string list"
  br_constraints :: "brief_constraint list"
  br_provisionalDesign :: string
  br_assumptions :: "string list"
  br_unknowns :: "string list"
  br_requiredEvidence :: "string list"
  br_ownedSurfaces :: "string list"
  br_excludedSurfaces :: "string list"
  br_dependencies :: "(string \<times> string) list"
  br_notifications :: "notification_intent list"

record brief_revision =
  b_assignmentId :: string
  b_revision :: nat
  b_priorRevision :: nat
  b_priorEntrySha256 :: "string option"
  b_body :: operative_brief
  b_bodySha256 :: string
  b_entrySha256 :: string
  b_authorityRef :: string
  b_changeReason :: string
  b_affectedOwners :: "string list"
  b_actorMembershipId :: string
  b_actorAgentId :: string
  b_requestId :: string

record decision_body =
  db_proposition :: string
  db_ruling :: string
  db_reason :: string
  db_supportingEvidenceRefs :: "string list"
  db_contraryEvidenceRefs :: "string list"
  db_unresolvedRisk :: string
  db_affectedBriefRevision :: nat
  db_affectedOwners :: "string list"
  db_notificationRefs :: "string list"
  db_outcomeRefs :: "string list"

record decision_entry =
  d_decisionId :: string
  d_assignmentId :: string
  d_revision :: nat
  d_priorDecisionId :: "string option"
  d_priorEntrySha256 :: "string option"
  d_body :: decision_body
  d_bodySha256 :: string
  d_entrySha256 :: string
  d_authorityRef :: string
  d_actorMembershipId :: string
  d_actorAgentId :: string
  d_requestId :: string

subsection \<open>Requests, events and the ledger\<close>

datatype request_outcome = RO_committed | RO_rejected

record request_record =
  q_actorKey :: string
  q_assignmentId :: string
  q_requestId :: string
  q_bodySha256 :: string
  q_receiptId :: string
  q_revision :: nat
  q_outcome :: request_outcome
  q_eventSeqs :: "(nat \<times> nat) option"
  q_rejection :: "desk_error_code option"

record desk_event =
  ev_kind :: string
  ev_payload :: json

record repo_binding =
  rb_hostId :: string
  rb_gitCommonDir :: string

record ledger =
  repo :: repo_binding
  repoKey :: string
  revision :: nat
  createdAt :: string
  updatedAt :: string
  lastEventSeq :: nat
  lastEventSha256 :: "string option"
  requests :: "request_record list"
  memberships :: "membership list"
  assignments :: "assignment list"
  candidates :: "candidate list"
  handbacks :: "handback list"
  settlements :: "settlement list"
  scopes :: "scope list"
  scopeReviews :: "scope_review list"
  scopeTransitions :: "scope_transition list"
  checkDefinitions :: "check_definition list"
  checkRuns :: "check_run list"
  rollouts :: "rollout list"
  rolloutTransitions :: "rollout_transition list"
  briefRevisions :: "brief_revision list"
  decisionEntries :: "decision_entry list"
  ownershipOffers :: "ownership_offer list"
  ownershipAccepts :: "ownership_accept list"

definition emptyLedger :: "repo_binding \<Rightarrow> string \<Rightarrow> string \<Rightarrow> ledger" where
  \<comment> \<open>\<open>freshLedger\<close>: revision 0, no events, every registered table empty\<close>
  "emptyLedger rb key stamp =
     \<lparr>repo = rb, repoKey = key, revision = 0, createdAt = stamp, updatedAt = stamp,
      lastEventSeq = 0, lastEventSha256 = None, requests = [], memberships = [], assignments = [],
      candidates = [], handbacks = [], settlements = [], scopes = [], scopeReviews = [],
      scopeTransitions = [], checkDefinitions = [], checkRuns = [], rollouts = [],
      rolloutTransitions = [], briefRevisions = [], decisionEntries = [], ownershipOffers = [],
      ownershipAccepts = []\<rparr>"

subsection \<open>Table caps\<close>

definition LIMIT_requests :: nat where "LIMIT_requests = 4096"
definition LIMIT_eventsPerCommit :: nat where "LIMIT_eventsPerCommit = 64"
definition LIMIT_eventPayloadBytes :: nat where "LIMIT_eventPayloadBytes = 16384"
definition LIMIT_idLen :: nat where "LIMIT_idLen = 128"
definition LIMIT_eventKind :: nat where "LIMIT_eventKind = 64"
definition LIMIT_ledgerBytes :: nat where "LIMIT_ledgerBytes = 16777216"
definition LIMIT_memberships :: nat where "LIMIT_memberships = 4096"
definition LIMIT_pathLen :: nat where "LIMIT_pathLen = 4096"
definition LIMIT_unboundTtlMs :: nat where "LIMIT_unboundTtlMs = 86400000"
definition LIMIT_registrationWindowMs :: nat where "LIMIT_registrationWindowMs = 600000"
definition LIMIT_ttlSweepPerCommit :: nat where "LIMIT_ttlSweepPerCommit = 60"
definition LIMIT_candidates :: nat where "LIMIT_candidates = 4096"
definition LIMIT_handbacks :: nat where "LIMIT_handbacks = 4096"
definition LIMIT_handbackRecordBytes :: nat where "LIMIT_handbackRecordBytes = 262144"
definition LIMIT_handbackGaps :: nat where "LIMIT_handbackGaps = 16"
definition LIMIT_authorityRefLen :: nat where "LIMIT_authorityRefLen = 1024"
definition LIMIT_objectiveLen :: nat where "LIMIT_objectiveLen = 2048"
definition LIMIT_snapshotIncomplete :: nat where "LIMIT_snapshotIncomplete = 256"
definition LIMIT_captureDetailLen :: nat where "LIMIT_captureDetailLen = 512"
definition LIMIT_settlements :: nat where "LIMIT_settlements = 4096"
definition LIMIT_assignments :: nat where "LIMIT_assignments = 1024"
definition LIMIT_assignmentSeats :: nat where "LIMIT_assignmentSeats = 128"
definition LIMIT_briefRevisions :: nat where "LIMIT_briefRevisions = 4096"
definition LIMIT_decisionEntries :: nat where "LIMIT_decisionEntries = 4096"
definition LIMIT_scopes :: nat where "LIMIT_scopes = 2048"
definition LIMIT_scopeReviews :: nat where "LIMIT_scopeReviews = 4096"
definition LIMIT_scopeTransitions :: nat where "LIMIT_scopeTransitions = 8192"
definition LIMIT_rollouts :: nat where "LIMIT_rollouts = 1024"
definition LIMIT_rolloutTransitions :: nat where "LIMIT_rolloutTransitions = 8192"
definition LIMIT_cohortMembers :: nat where "LIMIT_cohortMembers = 32"
definition LIMIT_ownershipOffers :: nat where "LIMIT_ownershipOffers = 2048"
definition LIMIT_ownershipAccepts :: nat where "LIMIT_ownershipAccepts = 1024"
definition LIMIT_checkDefinitions :: nat where "LIMIT_checkDefinitions = 2048"
definition LIMIT_checkRuns :: nat where "LIMIT_checkRuns = 8192"

lemmas ledger_limits [desk_defs] =
  LIMIT_requests_def LIMIT_eventsPerCommit_def LIMIT_eventPayloadBytes_def LIMIT_idLen_def
  LIMIT_eventKind_def LIMIT_ledgerBytes_def LIMIT_memberships_def LIMIT_assignments_def
  LIMIT_assignmentSeats_def LIMIT_briefRevisions_def LIMIT_decisionEntries_def LIMIT_scopes_def
  LIMIT_scopeReviews_def LIMIT_scopeTransitions_def LIMIT_rollouts_def LIMIT_rolloutTransitions_def
  LIMIT_cohortMembers_def LIMIT_ownershipOffers_def LIMIT_ownershipAccepts_def LIMIT_pathLen_def
  LIMIT_unboundTtlMs_def LIMIT_registrationWindowMs_def LIMIT_ttlSweepPerCommit_def LIMIT_candidates_def
  LIMIT_handbacks_def LIMIT_handbackRecordBytes_def LIMIT_handbackGaps_def LIMIT_authorityRefLen_def
  LIMIT_objectiveLen_def LIMIT_snapshotIncomplete_def LIMIT_captureDetailLen_def LIMIT_settlements_def
  LIMIT_checkDefinitions_def LIMIT_checkRuns_def

subsection \<open>Decisions\<close>

text \<open>
  \<open>DecideOutcome\<close>: a rejection, or events together with the replacement tables. A present table
  replaces the ledger's whole table; an absent one carries over.
\<close>

record table_patch =
  p_memberships :: "membership list option"
  p_assignments :: "assignment list option"
  p_candidates :: "candidate list option"
  p_handbacks :: "handback list option"
  p_settlements :: "settlement list option"
  p_scopes :: "scope list option"
  p_scopeReviews :: "scope_review list option"
  p_scopeTransitions :: "scope_transition list option"
  p_checkDefinitions :: "check_definition list option"
  p_checkRuns :: "check_run list option"
  p_rollouts :: "rollout list option"
  p_rolloutTransitions :: "rollout_transition list option"
  p_briefRevisions :: "brief_revision list option"
  p_decisionEntries :: "decision_entry list option"
  p_ownershipOffers :: "ownership_offer list option"
  p_ownershipAccepts :: "ownership_accept list option"

definition no_tables :: table_patch where
  "no_tables =
     \<lparr>p_memberships = None, p_assignments = None, p_candidates = None, p_handbacks = None,
      p_settlements = None, p_scopes = None, p_scopeReviews = None, p_scopeTransitions = None,
      p_checkDefinitions = None, p_checkRuns = None, p_rollouts = None, p_rolloutTransitions = None,
      p_briefRevisions = None, p_decisionEntries = None, p_ownershipOffers = None,
      p_ownershipAccepts = None\<rparr>"

lemma no_tables_sel [simp]:
  "p_memberships no_tables = None" "p_assignments no_tables = None" "p_candidates no_tables = None"
  "p_handbacks no_tables = None" "p_settlements no_tables = None" "p_scopes no_tables = None"
  "p_scopeReviews no_tables = None" "p_scopeTransitions no_tables = None"
  "p_checkDefinitions no_tables = None" "p_checkRuns no_tables = None" "p_rollouts no_tables = None"
  "p_rolloutTransitions no_tables = None" "p_briefRevisions no_tables = None"
  "p_decisionEntries no_tables = None" "p_ownershipOffers no_tables = None"
  "p_ownershipAccepts no_tables = None"
  by (simp_all add: no_tables_def)

type_synonym decide_outcome = "desk_error_code + (desk_event list \<times> table_patch)"

fun keep_or :: "'a \<Rightarrow> 'a option \<Rightarrow> 'a" where
  "keep_or x None = x"
| "keep_or x (Some y) = y"

definition apply_tables :: "ledger \<Rightarrow> table_patch \<Rightarrow> ledger" where
  \<comment> \<open>\<open>{...ledger, ...nextTables}\<close>\<close>
  "apply_tables l p = l\<lparr>
     memberships := keep_or (memberships l) (p_memberships p),
     assignments := keep_or (assignments l) (p_assignments p),
     candidates := keep_or (candidates l) (p_candidates p),
     handbacks := keep_or (handbacks l) (p_handbacks p),
     settlements := keep_or (settlements l) (p_settlements p),
     scopes := keep_or (scopes l) (p_scopes p),
     scopeReviews := keep_or (scopeReviews l) (p_scopeReviews p),
     scopeTransitions := keep_or (scopeTransitions l) (p_scopeTransitions p),
     checkDefinitions := keep_or (checkDefinitions l) (p_checkDefinitions p),
     checkRuns := keep_or (checkRuns l) (p_checkRuns p),
     rollouts := keep_or (rollouts l) (p_rollouts p),
     rolloutTransitions := keep_or (rolloutTransitions l) (p_rolloutTransitions p),
     briefRevisions := keep_or (briefRevisions l) (p_briefRevisions p),
     decisionEntries := keep_or (decisionEntries l) (p_decisionEntries p),
     ownershipOffers := keep_or (ownershipOffers l) (p_ownershipOffers p),
     ownershipAccepts := keep_or (ownershipAccepts l) (p_ownershipAccepts p)\<rparr>"

lemma apply_tables_sel [simp]:
  "repo (apply_tables l p) = repo l" "repoKey (apply_tables l p) = repoKey l"
  "revision (apply_tables l p) = revision l" "requests (apply_tables l p) = requests l"
  "lastEventSeq (apply_tables l p) = lastEventSeq l"
  "lastEventSha256 (apply_tables l p) = lastEventSha256 l"
  "memberships (apply_tables l p) = keep_or (memberships l) (p_memberships p)"
  "assignments (apply_tables l p) = keep_or (assignments l) (p_assignments p)"
  "candidates (apply_tables l p) = keep_or (candidates l) (p_candidates p)"
  "handbacks (apply_tables l p) = keep_or (handbacks l) (p_handbacks p)"
  "settlements (apply_tables l p) = keep_or (settlements l) (p_settlements p)"
  "scopes (apply_tables l p) = keep_or (scopes l) (p_scopes p)"
  "scopeReviews (apply_tables l p) = keep_or (scopeReviews l) (p_scopeReviews p)"
  "scopeTransitions (apply_tables l p) = keep_or (scopeTransitions l) (p_scopeTransitions p)"
  "checkDefinitions (apply_tables l p) = keep_or (checkDefinitions l) (p_checkDefinitions p)"
  "checkRuns (apply_tables l p) = keep_or (checkRuns l) (p_checkRuns p)"
  "rollouts (apply_tables l p) = keep_or (rollouts l) (p_rollouts p)"
  "rolloutTransitions (apply_tables l p) = keep_or (rolloutTransitions l) (p_rolloutTransitions p)"
  "briefRevisions (apply_tables l p) = keep_or (briefRevisions l) (p_briefRevisions p)"
  "decisionEntries (apply_tables l p) = keep_or (decisionEntries l) (p_decisionEntries p)"
  "ownershipOffers (apply_tables l p) = keep_or (ownershipOffers l) (p_ownershipOffers p)"
  "ownershipAccepts (apply_tables l p) = keep_or (ownershipAccepts l) (p_ownershipAccepts p)"
  by (simp_all add: apply_tables_def)

end
