(* ===== verification/Desk_Streams.thy ===== *)
theory Desk_Streams
  imports Desk_Prelude
begin

text \<open>
  Revision streams. Seven tables of the ledger are read the same way: the rows of one key, sorted
  by revision, the last one being current and the next one taking the revision after it. The
  interface \<open>revision_ledger\<close> states what such a table promises its readers when a row is appended
  (\<open>push\<close>); its lemmas say that a stream numbered 1..n stays so and keeps its history. The
  components interpret it on their own stream functions.
\<close>

subsection \<open>Accepted branches of a decision\<close>

text \<open>
  A decision is a chain of guards that each return a rejection. It accepts exactly if every guard
  lets it pass; these equations turn an accepted run into the list of facts it established.
\<close>

lemma accepted_if: "(if c then Inl e else k) = Inr y \<longleftrightarrow> \<not> c \<and> k = Inr y"
  by simp

lemma accepted_sum: "(case x of Inl e \<Rightarrow> Inl (h e) | Inr a \<Rightarrow> f a) = Inr y \<longleftrightarrow> (\<exists>a. x = Inr a \<and> f a = Inr y)"
  by (cases x) auto

lemma accepted_none: "(case x of None \<Rightarrow> Inl e | Some a \<Rightarrow> f a) = Inr y \<longleftrightarrow> (\<exists>a. x = Some a \<and> f a = Inr y)"
  by (cases x) auto

lemma accepted_some: "(case x of None \<Rightarrow> k | Some e \<Rightarrow> Inl (h e)) = Inr y \<longleftrightarrow> x = None \<and> k = Inr y"
  by (cases x) auto

lemmas accepted = accepted_if accepted_sum accepted_none accepted_some

lemma first_problem_None: "(case x of None \<Rightarrow> k | Some e \<Rightarrow> Some e) = None \<longleftrightarrow> x = None \<and> k = None"
  by (cases x) auto

lemma if_problem_None: "(if c then Some e else k) = None \<longleftrightarrow> \<not> c \<and> k = None"
  by simp

lemmas no_problem = first_problem_None if_problem_None

subsection \<open>Sorted rows of one key\<close>

lemma sorted_upt_unique:
  assumes "sorted xs" and "distinct xs" and "set xs = {1..length xs}"
  shows "xs = [1..<Suc (length xs)]"
proof -
  have "set xs = set [1..<Suc (length xs)]"
    by (simp only: assms(3) set_upt atLeastLessThanSuc_atLeastAtMost)
  then show ?thesis
    using sorted_distinct_set_unique [OF assms(1,2) sorted_upt distinct_upt] by blast
qed

lemma contiguous_sorted_iff:
  fixes k :: "'a \<Rightarrow> nat"
  shows "contiguous (map k xs) \<longleftrightarrow> map k (sort_key k xs) = [1..<Suc (length xs)]"
proof -
  let ?s = "map k (sort_key k xs)"
  have s: "set ?s = set (map k xs)" by simp
  have d: "distinct ?s = distinct (map k xs)" by (simp add: distinct_map)
  have l: "length ?s = length xs" by simp
  show ?thesis
  proof
    assume "contiguous (map k xs)"
    then have "distinct ?s" and "set ?s = {1..length ?s}"
      by (simp_all only: s d contiguous_iff length_map length_sort)
    from sorted_upt_unique [OF sorted_sort_key this] show "?s = [1..<Suc (length xs)]"
      by (simp only: l)
  next
    assume u: "?s = [1..<Suc (length xs)]"
    have "set ?s = {1..length xs}"
      unfolding u by (simp only: set_upt atLeastLessThanSuc_atLeastAtMost)
    moreover have "distinct ?s" unfolding u by (rule distinct_upt)
    ultimately show "contiguous (map k xs)" by (simp only: s d contiguous_iff length_map)
  qed
qed

subsection \<open>The interface\<close>

locale revision_ledger =
  fixes stream :: "'t \<Rightarrow> 'k \<Rightarrow> 'r list"
    and push :: "'t \<Rightarrow> 'r \<Rightarrow> 't"
    and key :: "'r \<Rightarrow> 'k"
    and rev_of :: "'r \<Rightarrow> nat"
  assumes push_same: "key r = k \<Longrightarrow> (\<And>x. x \<in> set (stream t k) \<Longrightarrow> rev_of x \<le> rev_of r) \<Longrightarrow>
      stream (push t r) k = stream t k @ [r]"
    and push_other: "key r \<noteq> k \<Longrightarrow> stream (push t r) k = stream t k"
    and stream_key: "x \<in> set (stream t k) \<Longrightarrow> key x = k"
begin

definition numbered :: "'t \<Rightarrow> 'k \<Rightarrow> bool" where
  "numbered t k \<longleftrightarrow> map rev_of (stream t k) = [1..<Suc (length (stream t k))]"

definition current :: "'t \<Rightarrow> 'k \<Rightarrow> nat" where
  "current t k = (case last_opt (stream t k) of None \<Rightarrow> 0 | Some r \<Rightarrow> rev_of r)"

lemma numbered_nth: "numbered t k \<Longrightarrow> i < length (stream t k) \<Longrightarrow> rev_of (stream t k ! i) = Suc i"
proof -
  assume n: "numbered t k" and i: "i < length (stream t k)"
  have "map rev_of (stream t k) ! i = [1..<Suc (length (stream t k))] ! i"
    by (simp only: n [unfolded numbered_def])
  with i show "rev_of (stream t k ! i) = Suc i" by (simp del: upt_Suc)
qed

lemma current_length: "numbered t k \<Longrightarrow> current t k = length (stream t k)"
proof (cases "stream t k = []")
  case False
  assume n: "numbered t k"
  then have "rev_of (last (stream t k)) = length (stream t k)"
    using False numbered_nth [OF n, of "length (stream t k) - 1"] by (simp add: last_conv_nth)
  with False show ?thesis by (simp add: current_def last_opt_def)
qed (simp add: current_def)

lemma numbered_le: "numbered t k \<Longrightarrow> x \<in> set (stream t k) \<Longrightarrow> 1 \<le> rev_of x \<and> rev_of x \<le> current t k"
proof -
  assume n: "numbered t k" and "x \<in> set (stream t k)"
  then obtain i where "i < length (stream t k)" and "x = stream t k ! i" by (metis in_set_conv_nth)
  with numbered_nth [OF n] current_length [OF n] show ?thesis by simp
qed

lemma push_current:
  assumes "numbered t k" and "key r = k" and "rev_of r = Suc (current t k)"
  shows "stream (push t r) k = stream t k @ [r]"
  using assms numbered_le [OF assms(1)] by (intro push_same) fastforce+

text \<open>The row that takes the next revision keeps the numbering, of its own key and of every other.\<close>

lemma push_numbered:
  assumes "numbered t k" and "key r = k" and "rev_of r = Suc (current t k)"
  shows "numbered (push t r) k"
  using assms by (simp add: numbered_def push_current current_length)

lemma push_other_numbered: "key r \<noteq> k \<Longrightarrow> numbered (push t r) k \<longleftrightarrow> numbered t k"
  by (simp add: numbered_def push_other)

lemma push_all_numbered:
  assumes all: "\<And>k. numbered t k" and r: "rev_of r = Suc (current t (key r))"
  shows "numbered (push t r) k"
proof (cases "key r = k")
  case True
  with all r show ?thesis by (intro push_numbered) auto
next
  case False
  with all show ?thesis by (simp add: push_other_numbered)
qed

text \<open>History is never rewritten: the old stream is a prefix of the new one.\<close>

lemma push_prefix:
  assumes "numbered t k" and "key r = k \<Longrightarrow> rev_of r = Suc (current t k)"
  shows "prefix (stream t k) (stream (push t r) k)"
  using assms by (cases "key r = k") (simp_all add: push_current push_other)

lemma numbered_same: "numbered t k \<Longrightarrow> x \<in> set (stream t k) \<Longrightarrow> y \<in> set (stream t k) \<Longrightarrow> rev_of x = rev_of y \<Longrightarrow> x = y"
proof -
  assume n: "numbered t k" and x: "x \<in> set (stream t k)" and y: "y \<in> set (stream t k)" and e: "rev_of x = rev_of y"
  from x y obtain i j where "i < length (stream t k)" "x = stream t k ! i" "j < length (stream t k)" "y = stream t k ! j"
    by (metis in_set_conv_nth)
  with numbered_nth [OF n] e show "x = y" by (metis Suc_inject)
qed

lemma numbered_length: "numbered t k \<Longrightarrow> length (stream t k) = card (set (stream t k))"
proof -
  assume n: "numbered t k"
  have "distinct (map rev_of (stream t k))" unfolding n [unfolded numbered_def] by (rule distinct_upt)
  then show ?thesis by (simp add: distinct_map distinct_card)
qed

text \<open>A numbered stream is determined by its set of rows: the order of the table does not matter.\<close>

lemma numbered_ext:
  assumes n: "numbered t k" and n': "numbered t' k" and s: "set (stream t k) = set (stream t' k)"
  shows "stream t k = stream t' k"
proof (rule nth_equalityI)
  show l: "length (stream t k) = length (stream t' k)" using numbered_length [OF n] numbered_length [OF n'] s by simp
  fix i assume i: "i < length (stream t k)"
  have "rev_of (stream t k ! i) = rev_of (stream t' k ! i)"
    using i l numbered_nth [OF n] numbered_nth [OF n'] by simp
  then show "stream t k ! i = stream t' k ! i"
    using i l s by (intro numbered_same [OF n']) (metis nth_mem)+
qed

end

text \<open>
  Streams whose rows also name the digest of their predecessor: the operative briefs and the
  material decisions of an assignment.
\<close>

locale linked_ledger = revision_ledger +
  fixes prior :: "'c \<Rightarrow> 'd option"
    and entry :: "'c \<Rightarrow> 'd"
begin

definition head :: "'a \<Rightarrow> 'b \<Rightarrow> 'd option" where
  "head t k = map_option entry (last_opt (stream t k))"

definition linked :: "'a \<Rightarrow> 'b \<Rightarrow> bool" where
  "linked t k \<longleftrightarrow> numbered t k \<and>
     (\<forall>i < length (stream t k). prior (stream t k ! i) = (if i = 0 then None else Some (entry (stream t k ! (i - 1)))))"

lemma push_linked:
  assumes l: "linked t k" and k: "key r = k" and r: "rev_of r = Suc (current t k)" and p: "prior r = head t k"
  shows "linked (push t r) k"
proof -
  have n: "numbered t k" using l by (simp add: linked_def)
  have s: "stream (push t r) k = stream t k @ [r]" by (rule push_current [OF n k r])
  have "prior (stream (push t r) k ! i) = (if i = 0 then None else Some (entry (stream (push t r) k ! (i - 1))))"
    if i: "i < length (stream (push t r) k)" for i
  proof (cases "i = length (stream t k)")
    case True
    then show ?thesis using p by (auto simp: s head_def last_opt_def last_conv_nth nth_append)
  next
    case False
    with i s have "i < length (stream t k)" and "i - 1 < length (stream t k)" by auto
    with l show ?thesis by (simp add: s nth_append linked_def)
  qed
  with push_numbered [OF n k r] show ?thesis by (simp add: linked_def)
qed

lemma push_other_linked: "key r \<noteq> k \<Longrightarrow> linked (push t r) k \<longleftrightarrow> linked t k"
  by (simp add: linked_def push_other push_other_numbered)

lemma push_all_linked:
  assumes all: "\<And>k. linked t k" and "rev_of r = Suc (current t (key r))" and "prior r = head t (key r)"
  shows "linked (push t r) k"
proof (cases "key r = k")
  case True
  then show ?thesis using assms by (intro push_linked) auto
next
  case False
  with all show ?thesis by (simp add: push_other_linked)
qed

end

text \<open>The rows of one key sorted by revision have these laws; the components' streams are of this form.\<close>

lemma sorted_rows_push:
  fixes rv :: "'r \<Rightarrow> nat"
  assumes "P r" and "\<And>x. x \<in> set (sort_key rv (filter P rows)) \<Longrightarrow> rv x \<le> rv r"
  shows "sort_key rv (filter P (rows @ [r])) = sort_key rv (filter P rows) @ [r]"
  using assms sort_key_snoc_max [of "filter P rows" rv r] by simp

lemma sorted_rows_skip:
  "\<not> P r \<Longrightarrow> sort_key rv (filter P (rows @ [r])) = sort_key rv (filter P rows)"
  by simp

end
