(* ===== verification/Desk_Command.thy ===== *)
theory Desk_Command
  imports Desk_Ledger Desk_Streams
begin

text \<open>
  Authority resolution shared by every desk command: the ownership lineage of an assignment
  (\<open>effectiveOwner\<close>, \<open>lineageOwners\<close>, \<open>ownerAtEventSeq\<close> of plugin/server/desk-store.ts) and the
  actor predicates of plugin/server/desk-command.ts. The lineage starts at the assignment's
  registration tuple (revision 0); each accepted offer advances it by one.
\<close>

subsection \<open>Ownership lineage\<close>

record owner_tuple =
  ot_agentId :: string
  ot_membershipId :: string

record effective_owner = owner_tuple +
  ot_ownershipRevision :: nat

definition assignmentRegistrationSha256 :: "desk_env \<Rightarrow> assignment \<Rightarrow> string" where
  "assignmentRegistrationSha256 E a = canonical_sha256 E (JObj
     [(''assignmentId'', JStr (a_assignmentId a)), (''requestId'', JStr (a_requestId a)),
      (''authorityRef'', JStr (a_authorityRef a)), (''objective'', json_opt JStr (a_objective a)),
      (''ownerAgentId'', JStr (a_ownerAgentId a)), (''ownerMembershipId'', JStr (a_ownerMembershipId a)),
      (''workspaceId'', json_opt JStr (a_workspaceId a))])"

definition acceptStream :: "ledger \<Rightarrow> string \<Rightarrow> ownership_accept list" where
  "acceptStream l aid =
     sort_key ac_ownershipRevision (filter (\<lambda>r. ac_assignmentId r = aid) (ownershipAccepts l))"

fun custodyWalk :: "effective_owner \<Rightarrow> ownership_accept list \<Rightarrow> effective_owner" where
  "custodyWalk owner [] = owner"
| "custodyWalk owner (row # rows) =
     (if ac_ownershipRevision row \<noteq> ot_ownershipRevision owner + 1 then owner
      else custodyWalk \<lparr>ot_agentId = ac_toAgentId row, ot_membershipId = ac_toMembershipId row,
                        ot_ownershipRevision = ac_ownershipRevision row\<rparr> rows)"

definition registeredOwner :: "assignment \<Rightarrow> effective_owner" where
  "registeredOwner a = \<lparr>ot_agentId = a_ownerAgentId a, ot_membershipId = a_ownerMembershipId a,
                        ot_ownershipRevision = 0\<rparr>"

definition effectiveOwner :: "ledger \<Rightarrow> assignment \<Rightarrow> effective_owner" where
  "effectiveOwner l a = custodyWalk (registeredOwner a) (acceptStream l (a_assignmentId a))"

definition lineageOwners :: "assignment \<Rightarrow> ownership_accept list \<Rightarrow> owner_tuple list" where
  "lineageOwners a accepts =
     \<lparr>ot_agentId = a_ownerAgentId a, ot_membershipId = a_ownerMembershipId a\<rparr> #
     map (\<lambda>r. \<lparr>ot_agentId = ac_toAgentId r, ot_membershipId = ac_toMembershipId r\<rparr>)
       (sort_key ac_ownershipRevision accepts)"

fun ownerWalk :: "owner_tuple \<Rightarrow> nat \<Rightarrow> (nat \<times> owner_tuple) list \<Rightarrow> owner_tuple" where
  "ownerWalk owner seq [] = owner"
| "ownerWalk owner seq ((s, t) # es) = (if seq \<le> s then owner else ownerWalk t seq es)"

definition ownerAtEventSeq :: "assignment \<Rightarrow> (nat \<times> owner_tuple) list \<Rightarrow> nat \<Rightarrow> owner_tuple" where
  \<comment> \<open>an entry pairs the sequence number of an accept's event with the accept's to-tuple\<close>
  "ownerAtEventSeq a accepts seq =
     ownerWalk \<lparr>ot_agentId = a_ownerAgentId a, ot_membershipId = a_ownerMembershipId a\<rparr> seq
       (sort_key fst accepts)"

subsection \<open>Actors\<close>

definition liveMembership :: "ledger \<Rightarrow> string \<Rightarrow> membership option" where
  "liveMembership l agentId =
     find (\<lambda>m. m_agentId m = Some agentId \<and> m_state m \<noteq> MS_revoked \<and> m_registeredAt m \<noteq> None) (memberships l)"

definition actorAgent :: "membership \<Rightarrow> string" where
  \<comment> \<open>\<open>actor.agentId as string\<close>: an actor found by its agent id has one\<close>
  "actorAgent actor = the (m_agentId actor)"

definition requireActor :: "ledger \<Rightarrow> string \<Rightarrow> desk_error_code + membership" where
  "requireActor l agentId =
     (case liveMembership l agentId of None \<Rightarrow> Inl AUTHORITY_REQUIRED | Some m \<Rightarrow> Inr m)"

definition requireLead :: "membership \<Rightarrow> desk_error_code option" where
  "requireLead actor = (if m_role actor = Role_lead then None else Some AUTHORITY_REQUIRED)"

definition ownerIs :: "effective_owner \<Rightarrow> membership \<Rightarrow> bool" where
  "ownerIs owner actor \<longleftrightarrow> Some (ot_agentId owner) = m_agentId actor \<and> ot_membershipId owner = m_membershipId actor"

definition effectiveOwnerMatches :: "ledger \<Rightarrow> assignment \<Rightarrow> membership \<Rightarrow> bool" where
  "effectiveOwnerMatches l a actor \<longleftrightarrow> ownerIs (effectiveOwner l a) actor"

definition findAssignment :: "ledger \<Rightarrow> string \<Rightarrow> assignment option" where
  "findAssignment l aid = find (\<lambda>a. a_assignmentId a = aid) (assignments l)"

definition requireOwnedOpenAssignment ::
  "ledger \<Rightarrow> membership \<Rightarrow> string \<Rightarrow> desk_error_code \<Rightarrow> desk_error_code \<Rightarrow> desk_error_code \<Rightarrow>
   desk_error_code + assignment" where
  "requireOwnedOpenAssignment l actor aid missing ownerMismatch closed =
     (case findAssignment l aid of
        None \<Rightarrow> Inl missing
      | Some a \<Rightarrow>
          if \<not> effectiveOwnerMatches l a actor then Inl ownerMismatch
          else if a_state a \<noteq> AS_open then Inl closed
          else Inr a)"

subsection \<open>The accept stream is a revision ledger\<close>

definition pushAccept :: "ledger \<Rightarrow> ownership_accept \<Rightarrow> ledger" where
  "pushAccept l r = l\<lparr>ownershipAccepts := ownershipAccepts l @ [r]\<rparr>"

interpretation custody: revision_ledger acceptStream pushAccept ac_assignmentId ac_ownershipRevision
  by unfold_locales (auto simp: acceptStream_def pushAccept_def intro!: sort_key_snoc_max)

lemma acceptStream_cong: "ownershipAccepts l = ownershipAccepts l' \<Longrightarrow> acceptStream l = acceptStream l'"
  by (simp add: acceptStream_def fun_eq_iff)

lemma effectiveOwner_cong: "ownershipAccepts l = ownershipAccepts l' \<Longrightarrow> effectiveOwner l a = effectiveOwner l' a"
  by (simp add: effectiveOwner_def acceptStream_def)

text \<open>On a gapless chain the walk never stops early.\<close>

lemma custodyWalk_chain:
  "map ac_ownershipRevision rows = [Suc (ot_ownershipRevision owner)..<Suc (ot_ownershipRevision owner + length rows)]
   \<Longrightarrow> custodyWalk owner rows =
     (case last_opt rows of None \<Rightarrow> owner
      | Some r \<Rightarrow> \<lparr>ot_agentId = ac_toAgentId r, ot_membershipId = ac_toMembershipId r,
                  ot_ownershipRevision = ot_ownershipRevision owner + length rows\<rparr>)"
proof (induction rows arbitrary: owner)
  case (Cons r rows)
  let ?next = "\<lparr>ot_agentId = ac_toAgentId r, ot_membershipId = ac_toMembershipId r,
                ot_ownershipRevision = ac_ownershipRevision r\<rparr>"
  from Cons.prems have r: "ac_ownershipRevision r = Suc (ot_ownershipRevision owner)"
    and rest: "map ac_ownershipRevision rows =
      [Suc (Suc (ot_ownershipRevision owner))..<Suc (Suc (ot_ownershipRevision owner + length rows))]"
    by (simp_all add: upt_conv_Cons del: upt_Suc)
  have "custodyWalk ?next rows = (case last_opt rows of None \<Rightarrow> ?next
      | Some x \<Rightarrow> \<lparr>ot_agentId = ac_toAgentId x, ot_membershipId = ac_toMembershipId x,
                  ot_ownershipRevision = ot_ownershipRevision ?next + length rows\<rparr>)"
    using r rest by (intro Cons.IH) (simp del: upt_Suc)
  with r show ?case by (simp add: last_opt_Cons split: option.splits)
qed simp

lemma effectiveOwner_numbered:
  assumes "custody.numbered l (a_assignmentId a)"
  shows "effectiveOwner l a =
    (case last_opt (acceptStream l (a_assignmentId a)) of None \<Rightarrow> registeredOwner a
     | Some r \<Rightarrow> \<lparr>ot_agentId = ac_toAgentId r, ot_membershipId = ac_toMembershipId r,
                 ot_ownershipRevision = length (acceptStream l (a_assignmentId a))\<rparr>)"
proof -
  have "ot_ownershipRevision (registeredOwner a) = 0" by (simp add: registeredOwner_def)
  then show ?thesis
    using assms custodyWalk_chain [of "acceptStream l (a_assignmentId a)" "registeredOwner a"]
    by (simp add: effectiveOwner_def custody.numbered_def del: upt_Suc split: option.split)
qed

lemma effectiveOwner_revision:
  assumes "custody.numbered l (a_assignmentId a)"
  shows "ot_ownershipRevision (effectiveOwner l a) = custody.current l (a_assignmentId a)"
  using assms by (simp add: effectiveOwner_numbered custody.current_length registeredOwner_def split: option.splits)

definition lineageContiguous :: "ledger \<Rightarrow> string \<Rightarrow> bool" where
  \<comment> \<open>the ownership refinement of the store: accept revisions of an assignment are 1..N without a gap\<close>
  "lineageContiguous l aid \<longleftrightarrow>
     contiguous (map ac_ownershipRevision (filter (\<lambda>r. ac_assignmentId r = aid) (ownershipAccepts l)))"

lemma lineageContiguous_numbered: "lineageContiguous l aid \<longleftrightarrow> custody.numbered l aid"
  by (simp add: lineageContiguous_def custody.numbered_def acceptStream_def contiguous_sorted_iff del: upt_Suc)

subsection \<open>Facts about the guards\<close>

lemma liveMembershipD:
  "liveMembership l agentId = Some m \<Longrightarrow>
   m \<in> set (memberships l) \<and> m_agentId m = Some agentId \<and> m_state m \<noteq> MS_revoked \<and> m_registeredAt m \<noteq> None"
  unfolding liveMembership_def by (drule find_SomeD) auto

lemma requireActor_Inr: "requireActor l agentId = Inr m \<longleftrightarrow> liveMembership l agentId = Some m"
  by (simp add: requireActor_def accepted)

lemma requireActor_agent: "requireActor l agentId = Inr m \<Longrightarrow> actorAgent m = agentId"
  by (auto simp: requireActor_Inr actorAgent_def dest: liveMembershipD)

lemma requireLead_None [simp]: "requireLead m = None \<longleftrightarrow> m_role m = Role_lead"
  by (simp add: requireLead_def)

lemma findAssignmentD: "findAssignment l aid = Some a \<Longrightarrow> a \<in> set (assignments l) \<and> a_assignmentId a = aid"
  unfolding findAssignment_def by (drule find_SomeD) auto

lemma requireOwnedOpen_Inr:
  "requireOwnedOpenAssignment l actor aid x y z = Inr a \<longleftrightarrow>
   findAssignment l aid = Some a \<and> effectiveOwnerMatches l a actor \<and> a_state a = AS_open"
  by (auto simp: requireOwnedOpenAssignment_def accepted)

end
