(* ===== verification/Desk_Examples.thy ===== *)
theory Desk_Examples
  imports Desk_Command
begin

text \<open>
  A small desk that the witnesses evaluate on: two leads, two peers seated on one open assignment,
  and an environment whose hash function is the identity (a concrete injective stand-in for the
  digest). Nothing in the model depends on this theory.
\<close>

definition demo_env :: desk_env where
  "demo_env = \<lparr>sha256 = (\<lambda>s. s),
     locale_compare = (\<lambda>a b. if a < b then -1 else if b < a then 1 else 0),
     uuid_ok = (\<lambda>s. s \<noteq> []), time_ok = (\<lambda>s. s \<noteq> [])\<rparr>"

definition demo_member :: "string \<Rightarrow> string \<Rightarrow> desk_role \<Rightarrow> membership" where
  "demo_member mid agent role =
     \<lparr>m_membershipId = mid, m_state = MS_host_confirmed, m_bindingHandleSha256 = [], m_provider = ''p'',
      m_family = ''f'', m_role = role, m_createCwd = ''/w'', m_agentId = Some agent, m_workspaceId = None,
      m_createdAt = ''t0'', m_hostConfirmedAt = Some ''t1'', m_registeredAt = Some ''t2'', m_revokedAt = None,
      m_revokeReason = None, m_capacityClaim = None\<rparr>"

definition demo_assignment :: assignment where
  "demo_assignment =
     \<lparr>a_assignmentId = ''asg'', a_requestId = ''r0'', a_authorityRef = ''grant'', a_objective = None,
      a_ownerMembershipId = ''m1'', a_ownerAgentId = ''lead1'', a_workspaceId = None, a_state = AS_open,
      a_seats = [\<lparr>seat_agentId = ''peer1'', seat_membershipId = ''m3''\<rparr>,
                 \<lparr>seat_agentId = ''peer2'', seat_membershipId = ''m4''\<rparr>]\<rparr>"

definition demo_ledger :: ledger where
  "demo_ledger = (emptyLedger \<lparr>rb_hostId = ''h'', rb_gitCommonDir = ''/g''\<rparr> ''key'' ''t0'')
     \<lparr>memberships := [demo_member ''m1'' ''lead1'' Role_lead, demo_member ''m2'' ''lead2'' Role_lead,
                      demo_member ''m3'' ''peer1'' Role_peer, demo_member ''m4'' ''peer2'' Role_peer],
      assignments := [demo_assignment]\<rparr>"

lemmas demo_defs = demo_env_def demo_member_def demo_assignment_def demo_ledger_def emptyLedger_def

lemma demo_live [simp]:
  "liveMembership demo_ledger ''lead1'' = Some (demo_member ''m1'' ''lead1'' Role_lead)"
  "liveMembership demo_ledger ''lead2'' = Some (demo_member ''m2'' ''lead2'' Role_lead)"
  "liveMembership demo_ledger ''peer1'' = Some (demo_member ''m3'' ''peer1'' Role_peer)"
  "liveMembership demo_ledger ''peer2'' = Some (demo_member ''m4'' ''peer2'' Role_peer)"
  by (simp_all add: liveMembership_def demo_defs)

lemma liveMembership_cong: "memberships l = memberships l' \<Longrightarrow> liveMembership l = liveMembership l'"
  by (simp add: liveMembership_def fun_eq_iff)

lemma findAssignment_cong: "assignments l = assignments l' \<Longrightarrow> findAssignment l = findAssignment l'"
  by (simp add: findAssignment_def fun_eq_iff)

lemma demo_find [simp]: "findAssignment demo_ledger ''asg'' = Some demo_assignment"
  by (simp add: findAssignment_def demo_defs)

lemma demo_assignment_sel [simp]:
  "a_assignmentId demo_assignment = ''asg''" "a_state demo_assignment = AS_open"
  "a_ownerAgentId demo_assignment = ''lead1''" "a_ownerMembershipId demo_assignment = ''m1''"
  by (simp_all add: demo_assignment_def)

lemma demo_member_sel [simp]:
  "m_membershipId (demo_member i a r) = i" "m_agentId (demo_member i a r) = Some a"
  "m_role (demo_member i a r) = r" "actorAgent (demo_member i a r) = a"
  "m_state (demo_member i a r) = MS_host_confirmed" "m_registeredAt (demo_member i a r) = Some ''t2''"
  by (simp_all add: demo_member_def actorAgent_def)

end
