(* ===== verification/Desk_Ownership.thy ===== *)
theory Desk_Ownership
  imports Desk_Examples
begin

text \<open>
  Planned succession (plugin/server/desk-ownership.ts): the current owner of an assignment offers
  it to one exact live lead membership; the nominee accepts under the store lock. An offer moves
  no authority; the accept row does. Also here: who may read an assignment's workflow, and which
  reviewers are not independent of its owner.
\<close>

subsection \<open>Commands\<close>

record offer_command =
  oc_requestId :: string
  oc_actorAgentId :: string
  oc_assignmentId :: string
  oc_expectedOwnershipRevision :: nat
  oc_targetAgentId :: string
  oc_targetMembershipId :: string
  oc_authorityRef :: string
  oc_contextRef :: string

record accept_command =
  xc_requestId :: string
  xc_actorAgentId :: string
  xc_assignmentId :: string
  xc_offerId :: string
  xc_expectedOwnershipRevision :: nat
  xc_expectedLedgerRevision :: nat
  xc_expectedBriefRevision :: nat
  xc_acknowledgment :: string
  xc_settlementRef :: "string option"
  xc_resources :: "settlement_resource list"

datatype ownership_command = Ownership_offer offer_command | Ownership_accept accept_command

definition settlement_resource_ok :: "settlement_resource \<Rightarrow> bool" where
  "settlement_resource_ok r \<longleftrightarrow> between_len 1 deskSettlementPointerLen (sr_ref r)"

definition offer_command_ok :: "desk_env \<Rightarrow> offer_command \<Rightarrow> bool" where
  "offer_command_ok E c \<longleftrightarrow>
     between_len 1 deskRequestIdLen (oc_requestId c) \<and> between_len 1 agentIdLen (oc_actorAgentId c) \<and>
     between_len 1 deskEntityIdLen (oc_assignmentId c) \<and> between_len 1 agentIdLen (oc_targetAgentId c) \<and>
     uuid_ok E (oc_targetMembershipId c) \<and> between_len 1 deskAuthorityRefLen (oc_authorityRef c) \<and>
     between_len 1 deskAuthorityRefLen (oc_contextRef c)"

definition accept_command_ok :: "accept_command \<Rightarrow> bool" where
  "accept_command_ok c \<longleftrightarrow>
     between_len 1 deskRequestIdLen (xc_requestId c) \<and> between_len 1 agentIdLen (xc_actorAgentId c) \<and>
     between_len 1 deskEntityIdLen (xc_assignmentId c) \<and> between_len 1 deskEntityIdLen (xc_offerId c) \<and>
     between_len 1 deskDecisionTextLen (xc_acknowledgment c) \<and> nonblank (xc_acknowledgment c) \<and>
     opt_ok (between_len 1 deskSettlementPointerLen) (xc_settlementRef c) \<and>
     list_all settlement_resource_ok (xc_resources c) \<and> length (xc_resources c) \<le> deskSettlementResources"

fun ownership_command_ok :: "desk_env \<Rightarrow> ownership_command \<Rightarrow> bool" where
  "ownership_command_ok E (Ownership_offer c) = offer_command_ok E c"
| "ownership_command_ok E (Ownership_accept c) = accept_command_ok c"

fun ownership_actor :: "ownership_command \<Rightarrow> string" where
  "ownership_actor (Ownership_offer c) = oc_actorAgentId c"
| "ownership_actor (Ownership_accept c) = xc_actorAgentId c"

fun ownership_assignment :: "ownership_command \<Rightarrow> string" where
  "ownership_assignment (Ownership_offer c) = oc_assignmentId c"
| "ownership_assignment (Ownership_accept c) = xc_assignmentId c"

subsection \<open>Participants and reviewer independence\<close>

datatype participant = P_current_owner | P_prior_owner | P_attached_seat | P_offer_nominee

definition deskWorkflowParticipant :: "ledger \<Rightarrow> membership \<Rightarrow> assignment \<Rightarrow> participant option" where
  "deskWorkflowParticipant l actor a =
     (case m_agentId actor of
        None \<Rightarrow> None
      | Some agent \<Rightarrow>
          (case liveMembership l agent of
             None \<Rightarrow> None
           | Some live \<Rightarrow>
               if m_membershipId live \<noteq> m_membershipId actor then None
               else let owner = effectiveOwner l a in
                 if ownerIs owner actor then Some P_current_owner
                 else if list_ex (\<lambda>t. Some (ot_agentId t) = m_agentId actor \<and> ot_membershipId t = m_membershipId actor)
                   (lineageOwners a (filter (\<lambda>r. ac_assignmentId r = a_assignmentId a) (ownershipAccepts l)))
                 then Some P_prior_owner
                 else if list_ex (\<lambda>s. seat_agentId s = agent \<and> seat_membershipId s = m_membershipId actor) (a_seats a)
                 then Some P_attached_seat
                 else if a_state a = AS_open \<and> list_ex (\<lambda>r. of_assignmentId r = a_assignmentId a \<and>
                     of_toAgentId r = agent \<and> of_toMembershipId r = m_membershipId actor \<and>
                     of_ownershipRevision r = ot_ownershipRevision owner) (ownershipOffers l)
                 then Some P_offer_nominee
                 else None))"

definition currentReviewExclusions :: "ledger \<Rightarrow> assignment \<Rightarrow> scope \<Rightarrow> string list" where
  "currentReviewExclusions l a declaration =
     ot_agentId (effectiveOwner l a) #
     (case sc_ownership declaration of None \<Rightarrow> [] | Some ow \<Rightarrow> [ow_writerAgentId ow])"

subsection \<open>The decision\<close>

fun disposition_name :: "resource_disposition \<Rightarrow> string" where
  "disposition_name RD_released = ''released''"
| "disposition_name RD_retained = ''retained''"
| "disposition_name RD_unknown = ''unknown''"

definition json_resource :: "settlement_resource \<Rightarrow> json" where
  "json_resource r = JObj [(''ref'', JStr (sr_ref r)), (''disposition'', JStr (disposition_name (sr_disposition r)))]"

definition offerRow :: "desk_env \<Rightarrow> membership \<Rightarrow> assignment \<Rightarrow> effective_owner \<Rightarrow> offer_command \<Rightarrow> ownership_offer" where
  "offerRow E actor a owner cmd =
     \<lparr>of_offerId = derive_id E ''ofr'' [actorAgent actor, a_assignmentId a, oc_requestId cmd],
      of_assignmentId = a_assignmentId a, of_requestId = oc_requestId cmd,
      of_ownershipRevision = ot_ownershipRevision owner, of_fromAgentId = actorAgent actor,
      of_fromMembershipId = m_membershipId actor, of_toAgentId = oc_targetAgentId cmd,
      of_toMembershipId = oc_targetMembershipId cmd, of_authorityRef = oc_authorityRef cmd,
      of_contextRef = oc_contextRef cmd\<rparr>"

definition offerEvent :: "ownership_offer \<Rightarrow> desk_event" where
  "offerEvent r = \<lparr>ev_kind = ''ownership-offered'', ev_payload = JObj
     [(''offerId'', JStr (of_offerId r)), (''assignmentId'', JStr (of_assignmentId r)),
      (''requestId'', JStr (of_requestId r)), (''ownershipRevision'', json_nat (of_ownershipRevision r)),
      (''fromAgentId'', JStr (of_fromAgentId r)), (''fromMembershipId'', JStr (of_fromMembershipId r)),
      (''toAgentId'', JStr (of_toAgentId r)), (''toMembershipId'', JStr (of_toMembershipId r)),
      (''authorityRef'', JStr (of_authorityRef r)), (''contextRef'', JStr (of_contextRef r))]\<rparr>"

definition decideOffer ::
  "desk_env \<Rightarrow> ledger \<Rightarrow> membership \<Rightarrow> assignment \<Rightarrow> offer_command \<Rightarrow> decide_outcome" where
  "decideOffer E l actor a cmd =
     (let owner = effectiveOwner l a in
      if \<not> ownerIs owner actor then Inl AUTHORITY_REQUIRED
      else if oc_expectedOwnershipRevision cmd \<noteq> ot_ownershipRevision owner then Inl REVISION_CONFLICT
      else case liveMembership l (oc_targetAgentId cmd) of
        None \<Rightarrow> Inl ACTOR_MISMATCH
      | Some target \<Rightarrow>
          if m_role target \<noteq> Role_lead \<or> m_membershipId target \<noteq> oc_targetMembershipId cmd then Inl ACTOR_MISMATCH
          else if Some (oc_targetAgentId cmd) = m_agentId actor \<and> oc_targetMembershipId cmd = m_membershipId actor
            then Inl INVALID_RECORD
          else if LIMIT_ownershipOffers \<le> length (ownershipOffers l) then Inl INVALID_RECORD
          else let row = offerRow E actor a owner cmd in
            Inr ([offerEvent row], no_tables\<lparr>p_ownershipOffers := Some (ownershipOffers l @ [row])\<rparr>))"

definition lastBriefRevision :: "ledger \<Rightarrow> string \<Rightarrow> nat" where
  \<comment> \<open>\<open>briefRevisions.filter(...).at(-1)?.revision ?? 0\<close>: the last row in table order\<close>
  "lastBriefRevision l aid =
     (case last_opt (filter (\<lambda>r. b_assignmentId r = aid) (briefRevisions l)) of None \<Rightarrow> 0 | Some r \<Rightarrow> b_revision r)"

definition acceptRow ::
  "desk_env \<Rightarrow> ledger \<Rightarrow> membership \<Rightarrow> assignment \<Rightarrow> ownership_offer \<Rightarrow> accept_command \<Rightarrow> ownership_accept" where
  "acceptRow E l actor a offer cmd =
     \<lparr>ac_acceptId = derive_id E ''acc'' [actorAgent actor, a_assignmentId a, xc_requestId cmd],
      ac_offerId = of_offerId offer, ac_assignmentId = a_assignmentId a, ac_requestId = xc_requestId cmd,
      ac_ownershipRevision = of_ownershipRevision offer + 1,
      ac_fromAgentId = of_fromAgentId offer, ac_fromMembershipId = of_fromMembershipId offer,
      ac_toAgentId = of_toAgentId offer, ac_toMembershipId = of_toMembershipId offer,
      ac_acknowledgment = xc_acknowledgment cmd, ac_settlementRef = xc_settlementRef cmd,
      ac_resources = xc_resources cmd,
      ac_gaps = (if xc_settlementRef cmd = None \<and> xc_resources cmd = [] then [''settlement-account-missing''] else []),
      ac_ledgerRevision = revision l, ac_briefRevision = lastBriefRevision l (a_assignmentId a)\<rparr>"

definition acceptEvent :: "desk_env \<Rightarrow> ownership_accept \<Rightarrow> desk_event" where
  "acceptEvent E r = \<lparr>ev_kind = ''ownership-accepted'', ev_payload = JObj
     [(''acceptId'', JStr (ac_acceptId r)), (''offerId'', JStr (ac_offerId r)),
      (''assignmentId'', JStr (ac_assignmentId r)), (''requestId'', JStr (ac_requestId r)),
      (''ownershipRevision'', json_nat (ac_ownershipRevision r)),
      (''fromAgentId'', JStr (ac_fromAgentId r)), (''fromMembershipId'', JStr (ac_fromMembershipId r)),
      (''toAgentId'', JStr (ac_toAgentId r)), (''toMembershipId'', JStr (ac_toMembershipId r)),
      (''acknowledgment'', JStr (ac_acknowledgment r)), (''settlementRef'', json_opt JStr (ac_settlementRef r)),
      (''ledgerRevision'', json_nat (ac_ledgerRevision r)), (''briefRevision'', json_nat (ac_briefRevision r)),
      (''resourcesSha256'', JStr (sha256 E (canonical_json (JArr (map json_resource (ac_resources r)))))),
      (''gapsSha256'', JStr (sha256 E (canonical_json (json_strs (ac_gaps r)))))]\<rparr>"

definition decideAccept ::
  "desk_env \<Rightarrow> ledger \<Rightarrow> membership \<Rightarrow> assignment \<Rightarrow> accept_command \<Rightarrow> decide_outcome" where
  "decideAccept E l actor a cmd =
     (let owner = effectiveOwner l a in
      case find (\<lambda>r. of_offerId r = xc_offerId cmd \<and> of_assignmentId r = xc_assignmentId cmd) (ownershipOffers l) of
        None \<Rightarrow> Inl AUTHORITY_REQUIRED
      | Some offer \<Rightarrow>
          if Some (of_toAgentId offer) \<noteq> m_agentId actor \<or> of_toMembershipId offer \<noteq> m_membershipId actor
            then Inl AUTHORITY_REQUIRED
          else if of_ownershipRevision offer \<noteq> ot_ownershipRevision owner \<or>
                  xc_expectedOwnershipRevision cmd \<noteq> ot_ownershipRevision owner then Inl REVISION_CONFLICT
          else if list_ex (\<lambda>r. ac_offerId r = of_offerId offer) (ownershipAccepts l) then Inl REVISION_CONFLICT
          else if xc_expectedLedgerRevision cmd \<noteq> revision l then Inl REVISION_CONFLICT
          else if xc_expectedBriefRevision cmd \<noteq> lastBriefRevision l (a_assignmentId a) then Inl REVISION_CONFLICT
          else if LIMIT_ownershipAccepts \<le> length (ownershipAccepts l) then Inl INVALID_RECORD
          else let row = acceptRow E l actor a offer cmd in
            Inr ([acceptEvent E row], no_tables\<lparr>p_ownershipAccepts := Some (ownershipAccepts l @ [row])\<rparr>))"

definition decideDeskOwnership :: "desk_env \<Rightarrow> ledger \<Rightarrow> ownership_command \<Rightarrow> decide_outcome" where
  "decideDeskOwnership E l cmd =
     (if \<not> ownership_command_ok E cmd then Inl INVALID_RECORD
      else case requireActor l (ownership_actor cmd) of
        Inl e \<Rightarrow> Inl e
      | Inr actor \<Rightarrow>
        (case requireLead actor of
           Some e \<Rightarrow> Inl e
         | None \<Rightarrow>
           (case findAssignment l (ownership_assignment cmd) of
              None \<Rightarrow> Inl AUTHORITY_REQUIRED
            | Some a \<Rightarrow>
                if a_state a \<noteq> AS_open then Inl AUTHORITY_REQUIRED
                else (case cmd of
                    Ownership_offer c \<Rightarrow> decideOffer E l actor a c
                  | Ownership_accept c \<Rightarrow> decideAccept E l actor a c))))"

subsection \<open>What an accepted command established\<close>

lemma ownership_Inr:
  "decideDeskOwnership E l cmd = Inr out \<longleftrightarrow>
   ownership_command_ok E cmd \<and> (\<exists>actor a. liveMembership l (ownership_actor cmd) = Some actor \<and>
     m_role actor = Role_lead \<and> findAssignment l (ownership_assignment cmd) = Some a \<and> a_state a = AS_open \<and>
     (case cmd of Ownership_offer c \<Rightarrow> decideOffer E l actor a c | Ownership_accept c \<Rightarrow> decideAccept E l actor a c) = Inr out)"
  by (auto simp: decideDeskOwnership_def accepted requireActor_Inr)

lemma decideOffer_Inr:
  "decideOffer E l actor a cmd = Inr (evs, p) \<longleftrightarrow>
   ownerIs (effectiveOwner l a) actor \<and>
   oc_expectedOwnershipRevision cmd = ot_ownershipRevision (effectiveOwner l a) \<and>
   (\<exists>target. liveMembership l (oc_targetAgentId cmd) = Some target \<and> m_role target = Role_lead \<and>
      m_membershipId target = oc_targetMembershipId cmd) \<and>
   \<not> (Some (oc_targetAgentId cmd) = m_agentId actor \<and> oc_targetMembershipId cmd = m_membershipId actor) \<and>
   length (ownershipOffers l) < LIMIT_ownershipOffers \<and>
   evs = [offerEvent (offerRow E actor a (effectiveOwner l a) cmd)] \<and>
   p = no_tables\<lparr>p_ownershipOffers := Some (ownershipOffers l @ [offerRow E actor a (effectiveOwner l a) cmd])\<rparr>"
  by (auto simp: decideOffer_def Let_def accepted)

lemma decideAccept_Inr:
  "decideAccept E l actor a cmd = Inr (evs, p) \<longleftrightarrow>
   (\<exists>offer. find (\<lambda>r. of_offerId r = xc_offerId cmd \<and> of_assignmentId r = xc_assignmentId cmd) (ownershipOffers l) = Some offer \<and>
     Some (of_toAgentId offer) = m_agentId actor \<and> of_toMembershipId offer = m_membershipId actor \<and>
     of_ownershipRevision offer = ot_ownershipRevision (effectiveOwner l a) \<and>
     xc_expectedOwnershipRevision cmd = ot_ownershipRevision (effectiveOwner l a) \<and>
     (\<forall>r \<in> set (ownershipAccepts l). ac_offerId r \<noteq> of_offerId offer) \<and>
     xc_expectedLedgerRevision cmd = revision l \<and>
     xc_expectedBriefRevision cmd = lastBriefRevision l (a_assignmentId a) \<and>
     length (ownershipAccepts l) < LIMIT_ownershipAccepts \<and>
     evs = [acceptEvent E (acceptRow E l actor a offer cmd)] \<and>
     p = no_tables\<lparr>p_ownershipAccepts := Some (ownershipAccepts l @ [acceptRow E l actor a offer cmd])\<rparr>)"
  by (auto simp: decideAccept_def Let_def accepted list_ex_iff)

subsection \<open>Custody moves exactly by an accept\<close>

lemma accept_facts:
  assumes "decideDeskOwnership E l (Ownership_accept c) = Inr (evs, p)"
  obtains m a offer where "liveMembership l (xc_actorAgentId c) = Some m" and "m_role m = Role_lead"
    and "findAssignment l (xc_assignmentId c) = Some a" and "a_state a = AS_open"
    and "of_toAgentId offer = xc_actorAgentId c" and "of_toMembershipId offer = m_membershipId m"
    and "of_ownershipRevision offer = ot_ownershipRevision (effectiveOwner l a)"
    and "apply_tables l p = pushAccept l (acceptRow E l m a offer c)"
proof -
  from assms obtain m a offer where m: "liveMembership l (xc_actorAgentId c) = Some m" "m_role m = Role_lead"
    and a: "findAssignment l (xc_assignmentId c) = Some a" "a_state a = AS_open"
    and o1: "Some (of_toAgentId offer) = m_agentId m" "of_toMembershipId offer = m_membershipId m"
      "of_ownershipRevision offer = ot_ownershipRevision (effectiveOwner l a)"
    and p: "p = no_tables\<lparr>p_ownershipAccepts := Some (ownershipAccepts l @ [acceptRow E l m a offer c])\<rparr>"
    by (auto simp: ownership_Inr decideAccept_Inr)
  have "apply_tables l p = pushAccept l (acceptRow E l m a offer c)"
    by (simp add: p apply_tables_def no_tables_def pushAccept_def)
  moreover have "of_toAgentId offer = xc_actorAgentId c" using o1 m liveMembershipD [OF m(1)] by simp
  ultimately show ?thesis using that m a o1 by blast
qed

lemma acceptRow_sel [simp]:
  "ac_assignmentId (acceptRow E l m a offer c) = a_assignmentId a"
  "ac_ownershipRevision (acceptRow E l m a offer c) = Suc (of_ownershipRevision offer)"
  "ac_toAgentId (acceptRow E l m a offer c) = of_toAgentId offer"
  "ac_toMembershipId (acceptRow E l m a offer c) = of_toMembershipId offer"
  by (simp_all add: acceptRow_def)

lemma accept_next_revision:
  assumes "custody.numbered l (a_assignmentId a)"
    and "of_ownershipRevision offer = ot_ownershipRevision (effectiveOwner l a)"
  shows "ac_ownershipRevision (acceptRow E l m a offer c) = Suc (custody.current l (ac_assignmentId (acceptRow E l m a offer c)))"
  using assms by (simp add: effectiveOwner_revision)

lemma accept_owner:
  assumes "decideDeskOwnership E l (Ownership_accept c) = Inr (evs, p)"
    and "findAssignment l (xc_assignmentId c) = Some a"
    and "lineageContiguous l (a_assignmentId a)"
  obtains m where "liveMembership l (xc_actorAgentId c) = Some m" and "m_role m = Role_lead"
    and "effectiveOwner (apply_tables l p) a =
      \<lparr>ot_agentId = xc_actorAgentId c, ot_membershipId = m_membershipId m,
       ot_ownershipRevision = Suc (ot_ownershipRevision (effectiveOwner l a))\<rparr>"
proof -
  from assms(1) obtain m b offer where m: "liveMembership l (xc_actorAgentId c) = Some m" "m_role m = Role_lead"
    and b: "findAssignment l (xc_assignmentId c) = Some b"
    and o1: "of_toAgentId offer = xc_actorAgentId c" "of_toMembershipId offer = m_membershipId m"
      "of_ownershipRevision offer = ot_ownershipRevision (effectiveOwner l b)"
    and p: "apply_tables l p = pushAccept l (acceptRow E l m b offer c)"
    by (rule accept_facts)
  let ?row = "acceptRow E l m a offer c"
  from b assms(2) have ab: "b = a" by simp
  have n: "custody.numbered l (a_assignmentId a)" using assms(3) by (simp add: lineageContiguous_numbered)
  have rv: "ac_ownershipRevision ?row = Suc (custody.current l (a_assignmentId a))"
    using accept_next_revision [OF n, of offer E m c] o1 ab by simp
  have n': "custody.numbered (pushAccept l ?row) (a_assignmentId a)"
    using n rv by (intro custody.push_numbered) simp_all
  have s: "acceptStream (pushAccept l ?row) (a_assignmentId a) = acceptStream l (a_assignmentId a) @ [?row]"
    using n rv by (intro custody.push_current) simp_all
  have "effectiveOwner (pushAccept l ?row) a =
      \<lparr>ot_agentId = xc_actorAgentId c, ot_membershipId = m_membershipId m,
       ot_ownershipRevision = Suc (ot_ownershipRevision (effectiveOwner l a))\<rparr>"
    using o1 effectiveOwner_revision [OF n] custody.current_length [OF n]
    by (simp add: effectiveOwner_numbered [OF n'] s)
  with m p ab that show ?thesis by simp
qed

text \<open>C8. An accepted ownership.accept makes its caller, under the exact live membership that the
  offer named, the effective owner of the assignment, at the next ownership revision.\<close>

theorem accept_moves_custody:
  assumes "decideDeskOwnership E l (Ownership_accept c) = Inr (evs, p)"
    and "findAssignment l (xc_assignmentId c) = Some a"
    and "lineageContiguous l (a_assignmentId a)"
  shows "\<exists>m. liveMembership l (xc_actorAgentId c) = Some m \<and> m_role m = Role_lead \<and>
    effectiveOwner (apply_tables l p) a =
      \<lparr>ot_agentId = xc_actorAgentId c, ot_membershipId = m_membershipId m,
       ot_ownershipRevision = Suc (ot_ownershipRevision (effectiveOwner l a))\<rparr>"
  using accept_owner [OF assms] by metis

definition demo_offer :: ownership_offer where
  "demo_offer = \<lparr>of_offerId = ''ofr'', of_assignmentId = ''asg'', of_requestId = ''r1'', of_ownershipRevision = 0,
     of_fromAgentId = ''lead1'', of_fromMembershipId = ''m1'', of_toAgentId = ''lead2'', of_toMembershipId = ''m2'',
     of_authorityRef = ''grant'', of_contextRef = ''ctx''\<rparr>"

definition demo_offered :: ledger where
  "demo_offered = demo_ledger\<lparr>ownershipOffers := [demo_offer]\<rparr>"

definition demo_accept_command :: accept_command where
  "demo_accept_command = \<lparr>xc_requestId = ''r2'', xc_actorAgentId = ''lead2'', xc_assignmentId = ''asg'',
     xc_offerId = ''ofr'', xc_expectedOwnershipRevision = 0, xc_expectedLedgerRevision = 0,
     xc_expectedBriefRevision = 0, xc_acknowledgment = ''ack'', xc_settlementRef = None, xc_resources = []\<rparr>"

lemma demo_offered_reads [simp]:
  "liveMembership demo_offered = liveMembership demo_ledger"
  "findAssignment demo_offered = findAssignment demo_ledger"
  "ownershipAccepts demo_offered = []"
  by (rule liveMembership_cong findAssignment_cong, simp_all add: demo_offered_def demo_defs)+

lemma demo_accept_sel [simp]:
  "xc_actorAgentId demo_accept_command = ''lead2''" "xc_assignmentId demo_accept_command = ''asg''"
  "accept_command_ok demo_accept_command"
  by (simp_all add: demo_accept_command_def accept_command_ok_def between_len_def nonblank_def trim_def
      is_trim_char_def desk_defs)

lemma demo_accepts: "\<exists>evs p. decideDeskOwnership demo_env demo_offered (Ownership_accept demo_accept_command) = Inr (evs, p)"
  by (simp add: ownership_Inr decideAccept_Inr)
    (simp add: demo_offered_def demo_offer_def demo_accept_command_def effectiveOwner_def acceptStream_def
      registeredOwner_def lastBriefRevision_def demo_defs LIMIT_ownershipAccepts_def)

lemma accept_moves_custody_witness:
  "\<exists>evs p. decideDeskOwnership demo_env demo_offered (Ownership_accept demo_accept_command) = Inr (evs, p) \<and>
    effectiveOwner (apply_tables demo_offered p) demo_assignment =
      \<lparr>ot_agentId = ''lead2'', ot_membershipId = ''m2'', ot_ownershipRevision = 1\<rparr>"
proof -
  obtain evs p where d: "decideDeskOwnership demo_env demo_offered (Ownership_accept demo_accept_command) = Inr (evs, p)"
    using demo_accepts by blast
  moreover have "findAssignment demo_offered (xc_assignmentId demo_accept_command) = Some demo_assignment" by simp
  moreover have "lineageContiguous demo_offered (a_assignmentId demo_assignment)" by (simp add: lineageContiguous_def)
  moreover have "ot_ownershipRevision (effectiveOwner demo_offered demo_assignment) = 0"
    by (simp add: effectiveOwner_def acceptStream_def registeredOwner_def)
  ultimately show ?thesis using accept_moves_custody [OF d] by auto
qed

lemma lineages_kept:
  assumes "decideDeskOwnership E l cmd = Inr (evs, p)" and all: "\<forall>aid. lineageContiguous l aid"
  shows "lineageContiguous (apply_tables l p) aid \<and> prefix (acceptStream l aid) (acceptStream (apply_tables l p) aid)"
proof (cases cmd)
  case (Ownership_offer c)
  with assms(1) have "ownershipAccepts (apply_tables l p) = ownershipAccepts l"
    by (auto simp: ownership_Inr decideOffer_Inr)
  with all show ?thesis by (simp add: lineageContiguous_def acceptStream_def)
next
  case (Ownership_accept c)
  with assms(1) obtain m b offer where
      o1: "of_ownershipRevision offer = ot_ownershipRevision (effectiveOwner l b)"
    and p: "apply_tables l p = pushAccept l (acceptRow E l m b offer c)"
    using accept_facts [of E l c evs p] by metis
  have n: "\<And>k. custody.numbered l k" using all by (simp add: lineageContiguous_numbered)
  note rv = accept_next_revision [OF n o1, of E m c]
  show ?thesis unfolding p lineageContiguous_numbered
    using custody.push_all_numbered [OF n rv] custody.push_prefix [OF n, of "acceptRow E l m b offer c" aid] rv
    by simp
qed

text \<open>Ownership lineages are append-only and gapless: whatever ownership command is accepted,
  every assignment's accept revisions stay 1..N and its earlier accepts stay where they were.\<close>

lemma ownership_keeps_lineages:
  assumes "decideDeskOwnership E l cmd = Inr (evs, p)" and all: "\<forall>aid. lineageContiguous l aid"
  shows "lineageContiguous (apply_tables l p) aid \<and> prefix (acceptStream l aid) (acceptStream (apply_tables l p) aid)"
  using assms by (rule lineages_kept)

lemma ownership_keeps_lineages_witness:
  "\<exists>evs p. decideDeskOwnership demo_env demo_offered (Ownership_accept demo_accept_command) = Inr (evs, p) \<and>
    lineageContiguous (apply_tables demo_offered p) ''asg'' \<and>
    prefix (acceptStream demo_offered ''asg'') (acceptStream (apply_tables demo_offered p) ''asg'')"
proof -
  obtain evs p where d: "decideDeskOwnership demo_env demo_offered (Ownership_accept demo_accept_command) = Inr (evs, p)"
    using demo_accepts by blast
  have "\<forall>aid. lineageContiguous demo_offered aid" by (simp add: lineageContiguous_def)
  from d ownership_keeps_lineages [OF d this, of "''asg''"] show ?thesis by auto
qed

subsection \<open>Reading the lineage\<close>

text \<open>C16. On a gapless lineage the effective owner is the last tuple of the custody order, and its
  revision is that tuple's index.\<close>

theorem effectiveOwner_last_of_lineage:
  assumes "lineageContiguous l (a_assignmentId a)"
  shows "last (lineageOwners a (filter (\<lambda>r. ac_assignmentId r = a_assignmentId a) (ownershipAccepts l))) =
      \<lparr>ot_agentId = ot_agentId (effectiveOwner l a), ot_membershipId = ot_membershipId (effectiveOwner l a)\<rparr> \<and>
    length (lineageOwners a (filter (\<lambda>r. ac_assignmentId r = a_assignmentId a) (ownershipAccepts l))) =
      Suc (ot_ownershipRevision (effectiveOwner l a))"
proof -
  let ?owners = "lineageOwners a (filter (\<lambda>r. ac_assignmentId r = a_assignmentId a) (ownershipAccepts l))"
  have n: "custody.numbered l (a_assignmentId a)" using assms(1) by (simp add: lineageContiguous_numbered)
  let ?s = "acceptStream l (a_assignmentId a)"
  have o: "?owners = \<lparr>ot_agentId = a_ownerAgentId a, ot_membershipId = a_ownerMembershipId a\<rparr> #
      map (\<lambda>r. \<lparr>ot_agentId = ac_toAgentId r, ot_membershipId = ac_toMembershipId r\<rparr>) ?s"
    by (simp add: lineageOwners_def acceptStream_def)
  have "length ?owners = Suc (ot_ownershipRevision (effectiveOwner l a))"
    by (simp add: o effectiveOwner_revision [OF n] custody.current_length [OF n])
  moreover have "last ?owners = \<lparr>ot_agentId = ot_agentId (effectiveOwner l a), ot_membershipId = ot_membershipId (effectiveOwner l a)\<rparr>"
    by (cases "?s = []") (simp_all add: o effectiveOwner_numbered [OF n] registeredOwner_def last_opt_def last_map)
  ultimately show ?thesis by simp
qed

definition demo_succeeded :: ledger where
  "demo_succeeded = demo_offered\<lparr>ownershipAccepts :=
     [acceptRow demo_env demo_offered (demo_member ''m2'' ''lead2'' Role_lead) demo_assignment demo_offer demo_accept_command]\<rparr>"

lemma demo_succeeded_contiguous: "lineageContiguous demo_succeeded ''asg''"
  by (simp add: lineageContiguous_def demo_succeeded_def demo_offer_def contiguous_def)

lemma effectiveOwner_last_of_lineage_witness:
  "lineageOwners demo_assignment (filter (\<lambda>r. ac_assignmentId r = ''asg'') (ownershipAccepts demo_succeeded)) =
     [\<lparr>ot_agentId = ''lead1'', ot_membershipId = ''m1''\<rparr>, \<lparr>ot_agentId = ''lead2'', ot_membershipId = ''m2''\<rparr>] \<and>
   ot_agentId (effectiveOwner demo_succeeded demo_assignment) = ''lead2'' \<and>
   ot_ownershipRevision (effectiveOwner demo_succeeded demo_assignment) = 1"
proof -
  have o: "lineageOwners demo_assignment (filter (\<lambda>r. ac_assignmentId r = ''asg'') (ownershipAccepts demo_succeeded)) =
     [\<lparr>ot_agentId = ''lead1'', ot_membershipId = ''m1''\<rparr>, \<lparr>ot_agentId = ''lead2'', ot_membershipId = ''m2''\<rparr>]"
    by (simp add: lineageOwners_def demo_succeeded_def demo_offer_def)
  from effectiveOwner_last_of_lineage [of demo_succeeded demo_assignment] demo_succeeded_contiguous o
  show ?thesis by simp
qed

text \<open>The order of the accept table is never significant: two tables with the same rows and
  gapless lineages give an assignment the same effective owner.\<close>

lemma effectiveOwner_order_free:
  assumes "lineageContiguous l (a_assignmentId a)" and "lineageContiguous l' (a_assignmentId a)"
    and "set (ownershipAccepts l) = set (ownershipAccepts l')"
  shows "effectiveOwner l a = effectiveOwner l' a"
proof -
  have "acceptStream l (a_assignmentId a) = acceptStream l' (a_assignmentId a)"
    using assms by (intro custody.numbered_ext) (simp_all add: lineageContiguous_numbered acceptStream_def)
  then show ?thesis by (simp add: effectiveOwner_def)
qed

definition demo_second_accept :: ownership_accept where
  "demo_second_accept = (hd (ownershipAccepts demo_succeeded))\<lparr>ac_acceptId := ''acc2'', ac_ownershipRevision := 2,
     ac_toAgentId := ''lead1'', ac_toMembershipId := ''m1''\<rparr>"

lemma effectiveOwner_order_free_witness:
  "effectiveOwner (demo_succeeded\<lparr>ownershipAccepts := ownershipAccepts demo_succeeded @ [demo_second_accept]\<rparr>) demo_assignment =
   effectiveOwner (demo_succeeded\<lparr>ownershipAccepts := demo_second_accept # ownershipAccepts demo_succeeded\<rparr>) demo_assignment"
  by (rule effectiveOwner_order_free)
    (simp_all add: lineageContiguous_def demo_succeeded_def demo_second_accept_def demo_offer_def contiguous_def insert_commute)

end
