(* ===== verification/Desk_Assignment.thy ===== *)
theory Desk_Assignment
  imports Desk_Examples
begin

text \<open>
  Operative briefs and material decisions (plugin/server/desk-assignment.ts): the owner of an
  assignment publishes hash-linked brief revisions and decision entries, each under compare-and-set
  on the brief revision it read.
\<close>

subsection \<open>Bodies, their schema and their encoding\<close>

definition brief_text_ok :: "string \<Rightarrow> bool" where
  "brief_text_ok s \<longleftrightarrow> between_len 1 deskBriefTextLen s \<and> nonblank s"

definition brief_ref_ok :: "string \<Rightarrow> bool" where
  "brief_ref_ok s \<longleftrightarrow> between_len 1 deskAuthorityRefLen s \<and> nonblank s"

definition brief_items_ok :: "string list \<Rightarrow> bool" where
  "brief_items_ok xs \<longleftrightarrow> list_all brief_text_ok xs \<and> length xs \<le> deskBriefItems"

definition brief_refs_ok :: "string list \<Rightarrow> bool" where
  "brief_refs_ok xs \<longleftrightarrow> list_all brief_ref_ok xs \<and> length xs \<le> deskBriefRefs"

definition owners_ok :: "string list \<Rightarrow> bool" where
  "owners_ok xs \<longleftrightarrow> list_all (between_len 1 agentIdLen) xs \<and> length xs \<le> deskDecisionOwners"

definition notification_ok :: "notification_intent \<Rightarrow> bool" where
  "notification_ok n \<longleftrightarrow> between_len 1 deskDecisionTextLen (nt_event n) \<and> between_len 1 agentIdLen (nt_recipientAgentId n)"

definition operative_brief_ok :: "operative_brief \<Rightarrow> bool" where
  "operative_brief_ok b \<longleftrightarrow>
     brief_text_ok (br_objective b) \<and> brief_items_ok (br_acceptanceCriteria b) \<and> br_acceptanceCriteria b \<noteq> [] \<and>
     list_all (\<lambda>c. brief_text_ok (bc_text c) \<and> brief_ref_ok (bc_authorityRef c) \<and> opt_ok brief_ref_ok (bc_sourceRef c)) (br_constraints b) \<and>
     length (br_constraints b) \<le> deskBriefItems \<and>
     between_len 1 deskDecisionTextLen (br_provisionalDesign b) \<and> nonblank (br_provisionalDesign b) \<and>
     brief_items_ok (br_assumptions b) \<and> brief_items_ok (br_unknowns b) \<and> brief_items_ok (br_requiredEvidence b) \<and>
     list_all (between_len 1 deskPathSurfaceLen) (br_ownedSurfaces b) \<and> length (br_ownedSurfaces b) \<le> deskBriefItems \<and>
     list_all (between_len 1 deskPathSurfaceLen) (br_excludedSurfaces b) \<and> length (br_excludedSurfaces b) \<le> deskBriefItems \<and>
     list_all (\<lambda>(a, s). between_len 1 deskEntityIdLen a \<and> between_len 1 deskEntityIdLen s) (br_dependencies b) \<and>
     length (br_dependencies b) \<le> deskBriefRefs \<and>
     list_all notification_ok (br_notifications b) \<and> length (br_notifications b) \<le> deskBriefRefs"

definition decision_body_ok :: "decision_body \<Rightarrow> bool" where
  "decision_body_ok d \<longleftrightarrow>
     brief_text_ok (db_proposition d) \<and> brief_text_ok (db_ruling d) \<and> brief_text_ok (db_reason d) \<and>
     brief_refs_ok (db_supportingEvidenceRefs d) \<and> brief_refs_ok (db_contraryEvidenceRefs d) \<and>
     brief_text_ok (db_unresolvedRisk d) \<and> 1 \<le> db_affectedBriefRevision d \<and> owners_ok (db_affectedOwners d) \<and>
     brief_refs_ok (db_notificationRefs d) \<and> brief_refs_ok (db_outcomeRefs d)"

definition json_notification :: "notification_intent \<Rightarrow> json" where
  "json_notification n = JObj [(''event'', JStr (nt_event n)), (''recipientAgentId'', JStr (nt_recipientAgentId n))]"

definition json_constraint :: "brief_constraint \<Rightarrow> json" where
  "json_constraint c = JObj [(''text'', JStr (bc_text c)), (''authorityRef'', JStr (bc_authorityRef c)),
     (''sourceRef'', json_opt JStr (bc_sourceRef c))]"

definition json_dependency :: "string \<times> string \<Rightarrow> json" where
  "json_dependency d = JObj [(''assignmentId'', JStr (fst d)), (''scopeId'', JStr (snd d))]"

definition json_brief :: "operative_brief \<Rightarrow> json" where
  "json_brief b = JObj
     [(''objective'', JStr (br_objective b)), (''acceptanceCriteria'', json_strs (br_acceptanceCriteria b)),
      (''constraints'', JArr (map json_constraint (br_constraints b))),
      (''provisionalDesign'', JStr (br_provisionalDesign b)), (''assumptions'', json_strs (br_assumptions b)),
      (''unknowns'', json_strs (br_unknowns b)), (''requiredEvidence'', json_strs (br_requiredEvidence b)),
      (''ownedSurfaces'', json_strs (br_ownedSurfaces b)), (''excludedSurfaces'', json_strs (br_excludedSurfaces b)),
      (''dependencies'', JArr (map json_dependency (br_dependencies b))),
      (''notifications'', JArr (map json_notification (br_notifications b)))]"

definition json_decision :: "decision_body \<Rightarrow> json" where
  "json_decision d = JObj
     [(''proposition'', JStr (db_proposition d)), (''ruling'', JStr (db_ruling d)), (''reason'', JStr (db_reason d)),
      (''supportingEvidenceRefs'', json_strs (db_supportingEvidenceRefs d)),
      (''contraryEvidenceRefs'', json_strs (db_contraryEvidenceRefs d)),
      (''unresolvedRisk'', JStr (db_unresolvedRisk d)), (''affectedBriefRevision'', json_nat (db_affectedBriefRevision d)),
      (''affectedOwners'', json_strs (db_affectedOwners d)), (''notificationRefs'', json_strs (db_notificationRefs d)),
      (''outcomeRefs'', json_strs (db_outcomeRefs d))]"

text \<open>A row without its digest, as the digest reads it.\<close>

definition json_brief_row :: "brief_revision \<Rightarrow> json" where
  "json_brief_row r = JObj
     [(''assignmentId'', JStr (b_assignmentId r)), (''revision'', json_nat (b_revision r)),
      (''priorRevision'', json_nat (b_priorRevision r)), (''priorEntrySha256'', json_opt JStr (b_priorEntrySha256 r)),
      (''body'', json_brief (b_body r)), (''bodySha256'', JStr (b_bodySha256 r)),
      (''authorityRef'', JStr (b_authorityRef r)), (''changeReason'', JStr (b_changeReason r)),
      (''affectedOwners'', json_strs (b_affectedOwners r)), (''actorMembershipId'', JStr (b_actorMembershipId r)),
      (''actorAgentId'', JStr (b_actorAgentId r)), (''requestId'', JStr (b_requestId r))]"

definition briefEntryDigest :: "desk_env \<Rightarrow> brief_revision \<Rightarrow> string" where
  "briefEntryDigest E r = canonical_sha256 E (json_brief_row r)"

definition json_decision_row :: "decision_entry \<Rightarrow> json" where
  "json_decision_row r = JObj
     [(''decisionId'', JStr (d_decisionId r)), (''assignmentId'', JStr (d_assignmentId r)),
      (''revision'', json_nat (d_revision r)), (''priorDecisionId'', json_opt JStr (d_priorDecisionId r)),
      (''priorEntrySha256'', json_opt JStr (d_priorEntrySha256 r)), (''body'', json_decision (d_body r)),
      (''bodySha256'', JStr (d_bodySha256 r)), (''authorityRef'', JStr (d_authorityRef r)),
      (''actorMembershipId'', JStr (d_actorMembershipId r)), (''actorAgentId'', JStr (d_actorAgentId r)),
      (''requestId'', JStr (d_requestId r))]"

definition decisionEntryDigest :: "desk_env \<Rightarrow> decision_entry \<Rightarrow> string" where
  "decisionEntryDigest E r = canonical_sha256 E (json_decision_row r)"

subsection \<open>Commands\<close>

record amend_command =
  am_requestId :: string
  am_actorAgentId :: string
  am_assignmentId :: string
  am_expectedBriefRevision :: nat
  am_brief :: operative_brief
  am_changeReason :: string
  am_authorityRef :: string
  am_affectedOwners :: "string list"

record decision_command =
  dd_requestId :: string
  dd_actorAgentId :: string
  dd_assignmentId :: string
  dd_expectedBriefRevision :: nat
  dd_authorityRef :: string
  dd_decision :: decision_body

datatype assignment_command = Assignment_amend amend_command | Decision_append decision_command

definition amend_command_ok :: "amend_command \<Rightarrow> bool" where
  "amend_command_ok c \<longleftrightarrow>
     between_len 1 deskRequestIdLen (am_requestId c) \<and> between_len 1 agentIdLen (am_actorAgentId c) \<and>
     between_len 1 deskEntityIdLen (am_assignmentId c) \<and> operative_brief_ok (am_brief c) \<and>
     brief_text_ok (am_changeReason c) \<and> brief_ref_ok (am_authorityRef c) \<and> owners_ok (am_affectedOwners c)"

definition decision_command_ok :: "decision_command \<Rightarrow> bool" where
  "decision_command_ok c \<longleftrightarrow>
     between_len 1 deskRequestIdLen (dd_requestId c) \<and> between_len 1 agentIdLen (dd_actorAgentId c) \<and>
     between_len 1 deskEntityIdLen (dd_assignmentId c) \<and> brief_ref_ok (dd_authorityRef c) \<and>
     decision_body_ok (dd_decision c)"

fun assignment_command_ok :: "assignment_command \<Rightarrow> bool" where
  "assignment_command_ok (Assignment_amend c) = amend_command_ok c"
| "assignment_command_ok (Decision_append c) = decision_command_ok c"

fun assignment_actor :: "assignment_command \<Rightarrow> string" where
  "assignment_actor (Assignment_amend c) = am_actorAgentId c"
| "assignment_actor (Decision_append c) = dd_actorAgentId c"

fun assignment_target :: "assignment_command \<Rightarrow> string" where
  "assignment_target (Assignment_amend c) = am_assignmentId c"
| "assignment_target (Decision_append c) = dd_assignmentId c"

fun assignment_expected :: "assignment_command \<Rightarrow> nat" where
  "assignment_expected (Assignment_amend c) = am_expectedBriefRevision c"
| "assignment_expected (Decision_append c) = dd_expectedBriefRevision c"

subsection \<open>The decision\<close>

definition assignmentForMutation :: "ledger \<Rightarrow> membership \<Rightarrow> string \<Rightarrow> desk_error_code + assignment" where
  "assignmentForMutation l actor aid =
     (case findAssignment l aid of
        None \<Rightarrow> Inl AUTHORITY_REQUIRED
      | Some a \<Rightarrow>
          if \<not> ownerIs (effectiveOwner l a) actor then Inl AUTHORITY_REQUIRED
          else if a_state a \<noteq> AS_open then Inl AUTHORITY_REQUIRED
          else Inr a)"

definition currentBriefRows :: "ledger \<Rightarrow> string \<Rightarrow> brief_revision list" where
  "currentBriefRows l aid = sort_key b_revision (filter (\<lambda>r. b_assignmentId r = aid) (briefRevisions l))"

definition latestBriefRevision :: "ledger \<Rightarrow> string \<Rightarrow> nat" where
  \<comment> \<open>\<open>currentBriefRevision\<close> of desk-assignment.ts\<close>
  "latestBriefRevision l aid = (case last_opt (currentBriefRows l aid) of None \<Rightarrow> 0 | Some r \<Rightarrow> b_revision r)"

definition decisionRows :: "ledger \<Rightarrow> string \<Rightarrow> decision_entry list" where
  "decisionRows l aid = sort_key d_revision (filter (\<lambda>r. d_assignmentId r = aid) (decisionEntries l))"

definition briefRow :: "desk_env \<Rightarrow> ledger \<Rightarrow> membership \<Rightarrow> assignment \<Rightarrow> amend_command \<Rightarrow> brief_revision" where
  "briefRow E l actor a cmd =
     (let prior = last_opt (currentBriefRows l (a_assignmentId a));
          withoutDigest =
            \<lparr>b_assignmentId = a_assignmentId a, b_revision = latestBriefRevision l (a_assignmentId a) + 1,
             b_priorRevision = (case prior of None \<Rightarrow> 0 | Some r \<Rightarrow> b_revision r),
             b_priorEntrySha256 = map_option b_entrySha256 prior,
             b_body = am_brief cmd, b_bodySha256 = canonical_sha256 E (json_brief (am_brief cmd)), b_entrySha256 = [],
             b_authorityRef = am_authorityRef cmd, b_changeReason = am_changeReason cmd,
             b_affectedOwners = am_affectedOwners cmd, b_actorMembershipId = m_membershipId actor,
             b_actorAgentId = actorAgent actor, b_requestId = am_requestId cmd\<rparr>
      in withoutDigest\<lparr>b_entrySha256 := briefEntryDigest E withoutDigest\<rparr>)"

definition briefEvent :: "brief_revision \<Rightarrow> desk_event" where
  "briefEvent r = \<lparr>ev_kind = ''brief-revision-appended'', ev_payload = JObj
     [(''assignmentId'', JStr (b_assignmentId r)), (''revision'', json_nat (b_revision r)),
      (''priorRevision'', json_nat (b_priorRevision r)), (''priorEntrySha256'', json_opt JStr (b_priorEntrySha256 r)),
      (''requestId'', JStr (b_requestId r)), (''actorAgentId'', JStr (b_actorAgentId r)),
      (''actorMembershipId'', JStr (b_actorMembershipId r)), (''authorityRef'', JStr (b_authorityRef r)),
      (''changeReason'', JStr (b_changeReason r)), (''affectedOwners'', json_strs (b_affectedOwners r)),
      (''bodySha256'', JStr (b_bodySha256 r)), (''entrySha256'', JStr (b_entrySha256 r))]\<rparr>"

definition decisionRow :: "desk_env \<Rightarrow> ledger \<Rightarrow> membership \<Rightarrow> assignment \<Rightarrow> decision_command \<Rightarrow> decision_entry" where
  "decisionRow E l actor a cmd =
     (let prior = last_opt (decisionRows l (a_assignmentId a));
          withoutDigest =
            \<lparr>d_decisionId = ''decision-'' @ take 32 (canonical_sha256 E (JObj
               [(''assignmentId'', JStr (a_assignmentId a)), (''actorAgentId'', JStr (actorAgent actor)),
                (''requestId'', JStr (dd_requestId cmd))])),
             d_assignmentId = a_assignmentId a,
             d_revision = (case prior of None \<Rightarrow> 0 | Some r \<Rightarrow> d_revision r) + 1,
             d_priorDecisionId = map_option d_decisionId prior,
             d_priorEntrySha256 = map_option d_entrySha256 prior,
             d_body = dd_decision cmd, d_bodySha256 = canonical_sha256 E (json_decision (dd_decision cmd)),
             d_entrySha256 = [], d_authorityRef = dd_authorityRef cmd, d_actorMembershipId = m_membershipId actor,
             d_actorAgentId = actorAgent actor, d_requestId = dd_requestId cmd\<rparr>
      in withoutDigest\<lparr>d_entrySha256 := decisionEntryDigest E withoutDigest\<rparr>)"

definition decisionEvent :: "decision_entry \<Rightarrow> desk_event" where
  "decisionEvent r = \<lparr>ev_kind = ''decision-entry-appended'', ev_payload = JObj
     [(''assignmentId'', JStr (d_assignmentId r)), (''decisionId'', JStr (d_decisionId r)),
      (''revision'', json_nat (d_revision r)), (''priorDecisionId'', json_opt JStr (d_priorDecisionId r)),
      (''priorEntrySha256'', json_opt JStr (d_priorEntrySha256 r)), (''requestId'', JStr (d_requestId r)),
      (''actorAgentId'', JStr (d_actorAgentId r)), (''actorMembershipId'', JStr (d_actorMembershipId r)),
      (''authorityRef'', JStr (d_authorityRef r)), (''bodySha256'', JStr (d_bodySha256 r)),
      (''entrySha256'', JStr (d_entrySha256 r))]\<rparr>"

definition decideAmend :: "desk_env \<Rightarrow> ledger \<Rightarrow> membership \<Rightarrow> assignment \<Rightarrow> amend_command \<Rightarrow> decide_outcome" where
  "decideAmend E l actor a cmd =
     (if LIMIT_briefRevisions \<le> length (briefRevisions l) then Inl INVALID_RECORD
      else let row = briefRow E l actor a cmd in
        Inr ([briefEvent row], no_tables\<lparr>p_briefRevisions := Some (briefRevisions l @ [row])\<rparr>))"

definition decideDecision :: "desk_env \<Rightarrow> ledger \<Rightarrow> membership \<Rightarrow> assignment \<Rightarrow> decision_command \<Rightarrow> decide_outcome" where
  "decideDecision E l actor a cmd =
     (let latestBrief = latestBriefRevision l (a_assignmentId a) in
      if latestBrief = 0 \<or> db_affectedBriefRevision (dd_decision cmd) \<noteq> latestBrief then Inl REVISION_CONFLICT
      else if LIMIT_decisionEntries \<le> length (decisionEntries l) then Inl INVALID_RECORD
      else let row = decisionRow E l actor a cmd in
        Inr ([decisionEvent row], no_tables\<lparr>p_decisionEntries := Some (decisionEntries l @ [row])\<rparr>))"

definition decideDeskAssignment :: "desk_env \<Rightarrow> ledger \<Rightarrow> assignment_command \<Rightarrow> decide_outcome" where
  "decideDeskAssignment E l cmd =
     (if \<not> assignment_command_ok cmd then Inl INVALID_RECORD
      else case requireActor l (assignment_actor cmd) of
        Inl e \<Rightarrow> Inl e
      | Inr actor \<Rightarrow>
        (case assignmentForMutation l actor (assignment_target cmd) of
           Inl e \<Rightarrow> Inl e
         | Inr a \<Rightarrow>
             if assignment_expected cmd \<noteq> latestBriefRevision l (a_assignmentId a) then Inl REVISION_CONFLICT
             else (case cmd of
                 Assignment_amend c \<Rightarrow> decideAmend E l actor a c
               | Decision_append c \<Rightarrow> decideDecision E l actor a c)))"

subsection \<open>Briefs and decisions are linked ledgers\<close>

definition pushBrief :: "ledger \<Rightarrow> brief_revision \<Rightarrow> ledger" where
  "pushBrief l r = l\<lparr>briefRevisions := briefRevisions l @ [r]\<rparr>"

definition pushDecision :: "ledger \<Rightarrow> decision_entry \<Rightarrow> ledger" where
  "pushDecision l r = l\<lparr>decisionEntries := decisionEntries l @ [r]\<rparr>"

interpretation briefs: linked_ledger currentBriefRows pushBrief b_assignmentId b_revision b_priorEntrySha256 b_entrySha256
  by unfold_locales (auto simp: currentBriefRows_def pushBrief_def intro!: sort_key_snoc_max)

interpretation decisions: linked_ledger decisionRows pushDecision d_assignmentId d_revision d_priorEntrySha256 d_entrySha256
  by unfold_locales (auto simp: decisionRows_def pushDecision_def intro!: sort_key_snoc_max)

lemma latestBrief_current: "latestBriefRevision l aid = briefs.current l aid"
  by (simp add: latestBriefRevision_def briefs.current_def)

lemma assignmentForMutation_Inr:
  "assignmentForMutation l actor aid = Inr a \<longleftrightarrow>
   findAssignment l aid = Some a \<and> effectiveOwnerMatches l a actor \<and> a_state a = AS_open"
  by (auto simp: assignmentForMutation_def effectiveOwnerMatches_def accepted)

lemma briefRow_sel [simp]:
  "b_assignmentId (briefRow E l m a c) = a_assignmentId a"
  "b_revision (briefRow E l m a c) = Suc (latestBriefRevision l (a_assignmentId a))"
  "b_priorEntrySha256 (briefRow E l m a c) = briefs.head l (a_assignmentId a)"
  "b_priorRevision (briefRow E l m a c) = latestBriefRevision l (a_assignmentId a)"
  "b_body (briefRow E l m a c) = am_brief c"
  "b_bodySha256 (briefRow E l m a c) = canonical_sha256 E (json_brief (am_brief c))"
  "b_entrySha256 (briefRow E l m a c) = briefEntryDigest E (briefRow E l m a c)"
  by (simp_all add: briefRow_def Let_def briefs.head_def latestBriefRevision_def briefEntryDigest_def json_brief_row_def)

lemma decisionRow_sel [simp]:
  "d_assignmentId (decisionRow E l m a c) = a_assignmentId a"
  "d_revision (decisionRow E l m a c) = Suc (decisions.current l (a_assignmentId a))"
  "d_priorEntrySha256 (decisionRow E l m a c) = decisions.head l (a_assignmentId a)"
  "d_body (decisionRow E l m a c) = dd_decision c"
  "d_bodySha256 (decisionRow E l m a c) = canonical_sha256 E (json_decision (dd_decision c))"
  "d_entrySha256 (decisionRow E l m a c) = decisionEntryDigest E (decisionRow E l m a c)"
  by (simp_all add: decisionRow_def Let_def decisions.head_def decisions.current_def decisionEntryDigest_def json_decision_row_def)

subsection \<open>What an accepted command established\<close>

lemma assignment_Inr:
  "decideDeskAssignment E l cmd = Inr out \<longleftrightarrow>
   assignment_command_ok cmd \<and> (\<exists>m a. liveMembership l (assignment_actor cmd) = Some m \<and>
     findAssignment l (assignment_target cmd) = Some a \<and> effectiveOwnerMatches l a m \<and> a_state a = AS_open \<and>
     assignment_expected cmd = latestBriefRevision l (a_assignmentId a) \<and>
     (case cmd of Assignment_amend c \<Rightarrow> decideAmend E l m a c | Decision_append c \<Rightarrow> decideDecision E l m a c) = Inr out)"
  by (auto simp: decideDeskAssignment_def accepted requireActor_Inr assignmentForMutation_Inr)

lemma decideAmend_Inr:
  "decideAmend E l m a c = Inr (evs, p) \<longleftrightarrow>
   length (briefRevisions l) < LIMIT_briefRevisions \<and> evs = [briefEvent (briefRow E l m a c)] \<and>
   p = no_tables\<lparr>p_briefRevisions := Some (briefRevisions l @ [briefRow E l m a c])\<rparr>"
  by (auto simp: decideAmend_def Let_def accepted)

lemma decideDecision_Inr:
  "decideDecision E l m a c = Inr (evs, p) \<longleftrightarrow>
   0 < latestBriefRevision l (a_assignmentId a) \<and>
   db_affectedBriefRevision (dd_decision c) = latestBriefRevision l (a_assignmentId a) \<and>
   length (decisionEntries l) < LIMIT_decisionEntries \<and> evs = [decisionEvent (decisionRow E l m a c)] \<and>
   p = no_tables\<lparr>p_decisionEntries := Some (decisionEntries l @ [decisionRow E l m a c])\<rparr>"
  by (auto simp: decideDecision_def Let_def accepted)

lemma amend_facts:
  assumes "decideDeskAssignment E l (Assignment_amend c) = Inr (evs, p)"
  obtains m a where "liveMembership l (am_actorAgentId c) = Some m" and "findAssignment l (am_assignmentId c) = Some a"
    and "a_assignmentId a = am_assignmentId c" and "effectiveOwnerMatches l a m" and "a_state a = AS_open"
    and "am_expectedBriefRevision c = latestBriefRevision l (am_assignmentId c)"
    and "apply_tables l p = pushBrief l (briefRow E l m a c)"
proof -
  from assms obtain m a where "liveMembership l (am_actorAgentId c) = Some m" and a: "findAssignment l (am_assignmentId c) = Some a"
    and "effectiveOwnerMatches l a m" and "a_state a = AS_open"
    and "am_expectedBriefRevision c = latestBriefRevision l (a_assignmentId a)"
    and p: "p = no_tables\<lparr>p_briefRevisions := Some (briefRevisions l @ [briefRow E l m a c])\<rparr>"
    by (auto simp: assignment_Inr decideAmend_Inr)
  moreover have "apply_tables l p = pushBrief l (briefRow E l m a c)"
    by (simp add: p apply_tables_def no_tables_def pushBrief_def)
  ultimately show ?thesis using that findAssignmentD [OF a] by simp
qed

lemma decision_facts:
  assumes "decideDeskAssignment E l (Decision_append c) = Inr (evs, p)"
  obtains m a where "a_assignmentId a = dd_assignmentId c"
    and "0 < latestBriefRevision l (dd_assignmentId c)"
    and "db_affectedBriefRevision (dd_decision c) = latestBriefRevision l (dd_assignmentId c)"
    and "apply_tables l p = pushDecision l (decisionRow E l m a c)"
proof -
  from assms obtain m a where a: "findAssignment l (dd_assignmentId c) = Some a"
    and "0 < latestBriefRevision l (a_assignmentId a)"
    and "db_affectedBriefRevision (dd_decision c) = latestBriefRevision l (a_assignmentId a)"
    and p: "p = no_tables\<lparr>p_decisionEntries := Some (decisionEntries l @ [decisionRow E l m a c])\<rparr>"
    by (auto simp: assignment_Inr decideDecision_Inr)
  moreover have "apply_tables l p = pushDecision l (decisionRow E l m a c)"
    by (simp add: p apply_tables_def no_tables_def pushDecision_def)
  ultimately show ?thesis using that findAssignmentD [OF a] by metis
qed

subsection \<open>The chains\<close>

definition briefChainOk :: "desk_env \<Rightarrow> ledger \<Rightarrow> string \<Rightarrow> bool" where
  \<comment> \<open>the store's refinement of the brief table for one assignment\<close>
  "briefChainOk E l aid \<longleftrightarrow>
     (let rows = currentBriefRows l aid in
      map b_revision rows = [1..<Suc (length rows)] \<and>
      (\<forall>i < length rows. b_priorEntrySha256 (rows ! i) = (if i = 0 then None else Some (b_entrySha256 (rows ! (i - 1))))) \<and>
      (\<forall>r \<in> set rows. b_priorRevision r = b_revision r - 1 \<and>
         b_bodySha256 r = canonical_sha256 E (json_brief (b_body r)) \<and> b_entrySha256 r = briefEntryDigest E r))"

definition decisionChainOk :: "desk_env \<Rightarrow> ledger \<Rightarrow> string \<Rightarrow> bool" where
  "decisionChainOk E l aid \<longleftrightarrow>
     (let rows = decisionRows l aid in
      map d_revision rows = [1..<Suc (length rows)] \<and>
      (\<forall>i < length rows. d_priorEntrySha256 (rows ! i) = (if i = 0 then None else Some (d_entrySha256 (rows ! (i - 1))))) \<and>
      (\<forall>r \<in> set rows. d_bodySha256 r = canonical_sha256 E (json_decision (d_body r)) \<and> d_entrySha256 r = decisionEntryDigest E r))"

lemma briefChainOk_alt:
  "briefChainOk E l aid \<longleftrightarrow> briefs.linked l aid \<and>
   (\<forall>r \<in> set (currentBriefRows l aid). b_priorRevision r = b_revision r - 1 \<and>
         b_bodySha256 r = canonical_sha256 E (json_brief (b_body r)) \<and> b_entrySha256 r = briefEntryDigest E r)"
  by (simp add: briefChainOk_def briefs.linked_def briefs.numbered_def Let_def del: upt_Suc)

lemma decisionChainOk_alt:
  "decisionChainOk E l aid \<longleftrightarrow> decisions.linked l aid \<and>
   (\<forall>r \<in> set (decisionRows l aid). d_bodySha256 r = canonical_sha256 E (json_decision (d_body r)) \<and>
         d_entrySha256 r = decisionEntryDigest E r)"
  by (simp add: decisionChainOk_def decisions.linked_def decisions.numbered_def Let_def del: upt_Suc)

lemma set_currentBriefRows: "set (currentBriefRows (pushBrief l r) aid) \<subseteq> insert r (set (currentBriefRows l aid))"
  by (auto simp: currentBriefRows_def pushBrief_def)

lemma set_decisionRows: "set (decisionRows (pushDecision l r) aid) \<subseteq> insert r (set (decisionRows l aid))"
  by (auto simp: decisionRows_def pushDecision_def)

lemma push_briefChain:
  assumes "\<forall>aid. briefChainOk E l aid"
  shows "briefChainOk E (pushBrief l (briefRow E l m a c)) aid"
proof -
  have "briefs.linked (pushBrief l (briefRow E l m a c)) aid"
    using assms by (intro briefs.push_all_linked) (auto simp: briefChainOk_alt latestBrief_current)
  then show ?thesis
    using assms set_currentBriefRows [of l "briefRow E l m a c" aid]
    by (auto simp: briefChainOk_alt latestBrief_current)
qed

lemma push_decisionChain:
  assumes "\<forall>aid. decisionChainOk E l aid"
  shows "decisionChainOk E (pushDecision l (decisionRow E l m a c)) aid"
proof -
  have "decisions.linked (pushDecision l (decisionRow E l m a c)) aid"
    using assms by (intro decisions.push_all_linked) (auto simp: decisionChainOk_alt)
  then show ?thesis
    using assms set_decisionRows [of l "decisionRow E l m a c" aid] by (auto simp: decisionChainOk_alt)
qed

lemma chains_kept:
  assumes "decideDeskAssignment E l cmd = Inr (evs, p)"
    and "\<forall>aid. briefChainOk E l aid" and "\<forall>aid. decisionChainOk E l aid"
  shows "briefChainOk E (apply_tables l p) aid \<and> decisionChainOk E (apply_tables l p) aid"
proof (cases cmd)
  case (Assignment_amend c)
  with assms(1) obtain m a where p: "apply_tables l p = pushBrief l (briefRow E l m a c)"
    using amend_facts [of E l c evs p] by metis
  have "decisionRows (apply_tables l p) aid = decisionRows l aid" by (simp only: p) (simp add: decisionRows_def pushBrief_def)
  then show ?thesis using push_briefChain [OF assms(2)] assms(3) p by (simp add: decisionChainOk_def)
next
  case (Decision_append c)
  with assms(1) obtain m a where p: "apply_tables l p = pushDecision l (decisionRow E l m a c)"
    using decision_facts [of E l c evs p] by metis
  have "currentBriefRows (apply_tables l p) aid = currentBriefRows l aid" by (simp only: p) (simp add: currentBriefRows_def pushDecision_def)
  then show ?thesis using push_decisionChain [OF assms(3)] assms(2) p by (simp add: briefChainOk_def)
qed

text \<open>Briefs and decisions are hash-linked histories: any accepted workflow command keeps, for
  every assignment, both chains numbered 1..N, each entry naming its predecessor's digest and
  carrying the digests of its own body and row.\<close>

lemma assignment_keeps_chains:
  assumes "decideDeskAssignment E l cmd = Inr (evs, p)"
    and "\<forall>aid. briefChainOk E l aid" and "\<forall>aid. decisionChainOk E l aid"
  shows "briefChainOk E (apply_tables l p) aid \<and> decisionChainOk E (apply_tables l p) aid"
  using assms by (rule chains_kept)

definition demo_brief :: operative_brief where
  "demo_brief = \<lparr>br_objective = ''goal'', br_acceptanceCriteria = [''done''], br_constraints = [],
     br_provisionalDesign = ''plan'', br_assumptions = [], br_unknowns = [], br_requiredEvidence = [],
     br_ownedSurfaces = [], br_excludedSurfaces = [], br_dependencies = [], br_notifications = []\<rparr>"

definition demo_amend :: "nat \<Rightarrow> amend_command" where
  "demo_amend n = \<lparr>am_requestId = ''r1'', am_actorAgentId = ''lead1'', am_assignmentId = ''asg'',
     am_expectedBriefRevision = n, am_brief = demo_brief, am_changeReason = ''first'',
     am_authorityRef = ''grant'', am_affectedOwners = []\<rparr>"

lemma demo_amend_sel [simp]:
  "am_actorAgentId (demo_amend n) = ''lead1''" "am_assignmentId (demo_amend n) = ''asg''"
  "am_expectedBriefRevision (demo_amend n) = n"
  "amend_command_ok (demo_amend n)"
  by (simp_all add: demo_amend_def demo_brief_def amend_command_ok_def operative_brief_ok_def brief_text_ok_def
      brief_ref_ok_def brief_items_ok_def owners_ok_def between_len_def nonblank_def trim_def is_trim_char_def desk_defs)

lemma demo_owner [simp]: "effectiveOwnerMatches demo_ledger demo_assignment (demo_member ''m1'' ''lead1'' Role_lead)"
  by (simp add: effectiveOwnerMatches_def ownerIs_def effectiveOwner_def acceptStream_def registeredOwner_def demo_defs)

lemma demo_no_briefs [simp]:
  "briefRevisions demo_ledger = []" "decisionEntries demo_ledger = []" "latestBriefRevision demo_ledger aid = 0"
  by (simp_all add: latestBriefRevision_def currentBriefRows_def demo_defs)

lemma demo_amends: "\<exists>evs p. decideDeskAssignment demo_env demo_ledger (Assignment_amend (demo_amend 0)) = Inr (evs, p)"
  by (simp add: assignment_Inr decideAmend_Inr LIMIT_briefRevisions_def)

lemma demo_chains [simp]: "briefChainOk E demo_ledger aid" "decisionChainOk E demo_ledger aid"
  by (simp_all add: briefChainOk_def decisionChainOk_def currentBriefRows_def decisionRows_def)

lemma assignment_keeps_chains_witness:
  "\<exists>evs p. decideDeskAssignment demo_env demo_ledger (Assignment_amend (demo_amend 0)) = Inr (evs, p) \<and>
     briefChainOk demo_env (apply_tables demo_ledger p) ''asg'' \<and>
     decisionChainOk demo_env (apply_tables demo_ledger p) ''asg''"
proof -
  obtain evs p where d: "decideDeskAssignment demo_env demo_ledger (Assignment_amend (demo_amend 0)) = Inr (evs, p)"
    using demo_amends by blast
  from d assignment_keeps_chains [OF d] show ?thesis by auto
qed

subsection \<open>Compare and set\<close>

text \<open>C10. No lost update: an accepted amendment moves the operative brief from exactly the revision its
  author read to the next one, and afterwards every other amendment or decision the same author
  prepared against that revision is refused as a revision conflict.\<close>

theorem amend_compare_and_set:
  assumes "decideDeskAssignment E l (Assignment_amend c) = Inr (evs, p)"
    and "\<forall>aid. briefChainOk E l aid"
    and "assignment_command_ok late" and "assignment_actor late = am_actorAgentId c"
    and "assignment_target late = am_assignmentId c" and "assignment_expected late = am_expectedBriefRevision c"
  shows "latestBriefRevision l (am_assignmentId c) = am_expectedBriefRevision c \<and>
    latestBriefRevision (apply_tables l p) (am_assignmentId c) = Suc (am_expectedBriefRevision c) \<and>
    decideDeskAssignment E (apply_tables l p) late = Inl REVISION_CONFLICT"
proof -
  from assms(1) obtain m a where m: "liveMembership l (am_actorAgentId c) = Some m"
    and a: "findAssignment l (am_assignmentId c) = Some a" "a_assignmentId a = am_assignmentId c"
      "effectiveOwnerMatches l a m" "a_state a = AS_open"
    and e: "am_expectedBriefRevision c = latestBriefRevision l (am_assignmentId c)"
    and p: "apply_tables l p = pushBrief l (briefRow E l m a c)"
    by (rule amend_facts)
  let ?l = "pushBrief l (briefRow E l m a c)"
  have n: "briefs.numbered l (am_assignmentId c)" using assms(2) by (simp add: briefChainOk_alt briefs.linked_def)
  have "currentBriefRows ?l (am_assignmentId c) = currentBriefRows l (am_assignmentId c) @ [briefRow E l m a c]"
    using n a by (intro briefs.push_current) (simp_all add: latestBrief_current)
  then have r: "latestBriefRevision ?l (am_assignmentId c) = Suc (am_expectedBriefRevision c)"
    using a e by (simp add: latestBriefRevision_def)
  have "assignmentForMutation ?l m (am_assignmentId c) = Inr a" and "requireActor ?l (am_actorAgentId c) = Inr m"
    using a m by (simp_all add: assignmentForMutation_Inr requireActor_Inr findAssignment_def liveMembership_def pushBrief_def
        effectiveOwnerMatches_def effectiveOwner_def acceptStream_def)
  then have "decideDeskAssignment E ?l late = Inl REVISION_CONFLICT"
    using assms(3-6) r a(2) by (simp add: decideDeskAssignment_def)
  with e r p show ?thesis by simp
qed

lemma amend_compare_and_set_witness:
  "\<exists>evs p. decideDeskAssignment demo_env demo_ledger (Assignment_amend (demo_amend 0)) = Inr (evs, p) \<and>
     latestBriefRevision (apply_tables demo_ledger p) ''asg'' = 1 \<and>
     decideDeskAssignment demo_env (apply_tables demo_ledger p) (Assignment_amend (demo_amend 0)) = Inl REVISION_CONFLICT"
proof -
  obtain evs p where d: "decideDeskAssignment demo_env demo_ledger (Assignment_amend (demo_amend 0)) = Inr (evs, p)"
    using demo_amends by blast
  from d amend_compare_and_set [OF d, of "Assignment_amend (demo_amend 0)"] show ?thesis by auto
qed

text \<open>A material decision is bound to the operative brief in force: an accepted decision names the
  current brief revision, which exists, and leaves every brief untouched.\<close>

lemma decision_binds_current_brief:
  assumes "decideDeskAssignment E l (Decision_append c) = Inr (evs, p)"
  shows "briefRevisions (apply_tables l p) = briefRevisions l \<and>
    (\<exists>r \<in> set (briefRevisions l). b_assignmentId r = dd_assignmentId c \<and>
      b_revision r = db_affectedBriefRevision (dd_decision c) \<and>
      (\<forall>x \<in> set (briefRevisions l). b_assignmentId x = dd_assignmentId c \<longrightarrow> b_revision x \<le> b_revision r))"
proof -
  from assms obtain m a where pos: "0 < latestBriefRevision l (dd_assignmentId c)"
    and e: "db_affectedBriefRevision (dd_decision c) = latestBriefRevision l (dd_assignmentId c)"
    and p: "apply_tables l p = pushDecision l (decisionRow E l m a c)"
    by (rule decision_facts)
  from pos obtain r where r: "last_opt (currentBriefRows l (dd_assignmentId c)) = Some r"
    by (auto simp: latestBriefRevision_def split: option.splits)
  have "briefRevisions (apply_tables l p) = briefRevisions l" unfolding p by (simp add: pushDecision_def)
  with r show ?thesis
    using last_sort_key_max [OF r [unfolded currentBriefRows_def]] e by (auto simp: latestBriefRevision_def)
qed

definition demo_briefed :: ledger where
  "demo_briefed = demo_ledger\<lparr>briefRevisions :=
     [briefRow demo_env demo_ledger (demo_member ''m1'' ''lead1'' Role_lead) demo_assignment (demo_amend 0)]\<rparr>"

definition demo_decision :: decision_command where
  "demo_decision = \<lparr>dd_requestId = ''r2'', dd_actorAgentId = ''lead1'', dd_assignmentId = ''asg'',
     dd_expectedBriefRevision = 1, dd_authorityRef = ''grant'',
     dd_decision = \<lparr>db_proposition = ''p'', db_ruling = ''yes'', db_reason = ''why'', db_supportingEvidenceRefs = [],
       db_contraryEvidenceRefs = [], db_unresolvedRisk = ''none'', db_affectedBriefRevision = 1, db_affectedOwners = [],
       db_notificationRefs = [], db_outcomeRefs = []\<rparr>\<rparr>"

lemma demo_decision_sel [simp]:
  "dd_actorAgentId demo_decision = ''lead1''" "dd_assignmentId demo_decision = ''asg''"
  "dd_expectedBriefRevision demo_decision = 1" "db_affectedBriefRevision (dd_decision demo_decision) = 1"
  "decision_command_ok demo_decision"
  by (simp_all add: demo_decision_def decision_command_ok_def decision_body_ok_def brief_text_ok_def brief_ref_ok_def
      brief_refs_ok_def owners_ok_def between_len_def nonblank_def trim_def is_trim_char_def desk_defs)

lemma demo_briefed_reads [simp]:
  "liveMembership demo_briefed = liveMembership demo_ledger" "findAssignment demo_briefed = findAssignment demo_ledger"
  "effectiveOwnerMatches demo_briefed = effectiveOwnerMatches demo_ledger"
  "decisionEntries demo_briefed = []" "latestBriefRevision demo_briefed ''asg'' = 1"
  by (simp_all add: demo_briefed_def liveMembership_def findAssignment_def effectiveOwnerMatches_def fun_eq_iff
      effectiveOwner_def acceptStream_def latestBriefRevision_def currentBriefRows_def)

lemma decision_binds_current_brief_witness:
  "\<exists>evs p. decideDeskAssignment demo_env demo_briefed (Decision_append demo_decision) = Inr (evs, p) \<and>
     briefRevisions (apply_tables demo_briefed p) = briefRevisions demo_briefed \<and>
     (\<exists>r \<in> set (briefRevisions demo_briefed). b_revision r = 1)"
proof -
  have "\<exists>evs p. decideDeskAssignment demo_env demo_briefed (Decision_append demo_decision) = Inr (evs, p)"
    by (simp add: assignment_Inr decideDecision_Inr LIMIT_decisionEntries_def)
  then obtain evs p where d: "decideDeskAssignment demo_env demo_briefed (Decision_append demo_decision) = Inr (evs, p)"
    by blast
  from d decision_binds_current_brief [OF d] show ?thesis by auto
qed

end
