(* ===== verification/Desk_Graph.thy ===== *)
theory Desk_Graph
  imports Desk_Prelude
begin

text \<open>
  JavaScript maps as association lists in insertion order, and the depth-first search with a
  visiting and a visited set that \<open>dependencyProblem\<close> of plugin/server/desk-scope.ts runs over the
  declared scope dependencies. The search ends, and it succeeds exactly on acyclic graphs.
\<close>

subsection \<open>\<open>Map\<close>\<close>

fun map_set :: "'k \<Rightarrow> 'v \<Rightarrow> ('k \<times> 'v) list \<Rightarrow> ('k \<times> 'v) list" where
  \<comment> \<open>\<open>m.set(k, v)\<close>: an existing key keeps its place\<close>
  "map_set k v [] = [(k, v)]"
| "map_set k v ((k', v') # m) = (if k' = k then (k, v) # m else (k', v') # map_set k v m)"

lemma map_of_map_set [simp]: "map_of (map_set k v m) = (map_of m)(k \<mapsto> v)"
  by (induction m) (auto simp: fun_eq_iff)

lemma keys_map_set [simp]: "fst ` set (map_set k v m) = insert k (fst ` set m)"
proof (induction m)
  case (Cons a m)
  then show ?case by (cases a) (simp add: insert_commute)
qed simp

lemma distinct_map_set [simp]: "distinct (map fst m) \<Longrightarrow> distinct (map fst (map_set k v m))"
proof (induction m)
  case (Cons a m)
  then show ?case using keys_map_set [of k v m] by (cases a) (auto simp: image_iff)
qed simp

subsection \<open>The search\<close>

definition edges_of :: "(string \<times> string list) list \<Rightarrow> string \<Rightarrow> string list" where
  \<comment> \<open>\<open>edges.get(id) ?? []\<close>\<close>
  "edges_of edges k = (case map_of edges k of None \<Rightarrow> [] | Some ns \<Rightarrow> ns)"

text \<open>
  \<open>visit\<close> answers the new visited set, or \<open>None\<close> once it meets a node it is visiting. The
  source deletes \<open>id\<close> from \<open>visiting\<close> on success, which restores the caller's set.
\<close>

function (sequential)
  visit :: "(string \<times> string list) list \<Rightarrow> string list \<Rightarrow> string list \<Rightarrow> string \<Rightarrow> string list option" and
  visit_all :: "(string \<times> string list) list \<Rightarrow> string list \<Rightarrow> string list \<Rightarrow> string list \<Rightarrow> string list option"
where
  "visit edges visiting visited k =
     (if k \<in> set visiting then None
      else if k \<in> set visited then Some visited
      else (case visit_all edges (k # visiting) visited (sort (edges_of edges k)) of
              None \<Rightarrow> None
            | Some vd \<Rightarrow> Some (k # vd)))"
| "visit_all edges visiting visited [] = Some visited"
| "visit_all edges visiting visited (n # ns) =
     (case visit edges visiting visited n of
        None \<Rightarrow> None
      | Some vd \<Rightarrow> visit_all edges visiting vd ns)"
  by pat_completeness auto

lemma card_keys_less:
  "k \<in> fst ` set edges \<Longrightarrow> k \<notin> set visiting \<Longrightarrow>
   card (fst ` set edges - set (k # visiting)) < card (fst ` set edges - set visiting)"
  by (rule psubset_card_mono) auto

lemma edges_of_not_key: "k \<notin> fst ` set edges \<Longrightarrow> edges_of edges k = []"
  by (auto simp: edges_of_def image_iff split: option.split dest!: map_of_SomeD)

termination visit
proof (relation "measures
    [\<lambda>x. case x of Inl (edges, visiting, _, _) \<Rightarrow> card (fst ` set edges - set visiting)
                 | Inr (edges, visiting, _, _) \<Rightarrow> card (fst ` set edges - set visiting),
     \<lambda>x. case x of Inl _ \<Rightarrow> 1 | Inr (_, _, _, ns) \<Rightarrow> 2 * length ns]", goal_cases)
  case (2 edges visiting visited k)
  show ?case
  proof (cases "k \<in> fst ` set edges")
    case True
    with 2 card_keys_less [of k edges visiting] show ?thesis by simp
  next
    case False
    then have "fst ` set edges - set (k # visiting) = fst ` set edges - set visiting" by auto
    with False show ?thesis by (simp add: edges_of_not_key)
  qed
qed auto

declare visit.simps [simp del]

definition acyclic_edges :: "(string \<times> string list) list \<Rightarrow> bool" where
  "acyclic_edges edges = (visit_all edges [] [] (sort (map fst edges)) \<noteq> None)"

subsection \<open>Correctness\<close>

definition edge_rel :: "(string \<times> string list) list \<Rightarrow> (string \<times> string) set" where
  "edge_rel edges = {(a, b). b \<in> set (edges_of edges a)}"

definition finished :: "(string \<times> string list) list \<Rightarrow> string set \<Rightarrow> bool" where
  "finished edges V \<longleftrightarrow> (\<forall>a \<in> V. set (edges_of edges a) \<subseteq> V) \<and> acyclic (edge_rel edges \<inter> V \<times> V)"

lemma finished_insert:
  assumes f: "finished edges V" and k: "k \<notin> V" and s: "set (edges_of edges k) \<subseteq> V"
  shows "finished edges (insert k V)"
proof -
  have e: "edge_rel edges \<inter> insert k V \<times> insert k V = (edge_rel edges \<inter> V \<times> V) \<union> {k} \<times> set (edges_of edges k)" (is "?R = _")
    using f k s by (auto simp: finished_def edge_rel_def)
  let ?S = "edge_rel edges \<inter> V \<times> V"
  have to: "b \<in> V" if "(a, b) \<in> ?R" for a b using that s unfolding e by blast
  have stay: "(a, b) \<in> ?S" if "(a, b) \<in> ?R" and "a \<in> V" for a b using that k unfolding e by blast
  have reach: "(a, b) \<in> ?R\<^sup>+ \<Longrightarrow> a \<in> V \<Longrightarrow> (a, b) \<in> ?S\<^sup>+" for a b
  proof (induction rule: trancl_induct)
    case (base b)
    then show ?case using stay by (intro r_into_trancl)
  next
    case (step b c)
    from step.IH step.prems have "(a, b) \<in> ?S\<^sup>+" by simp
    moreover have "b \<in> V" using step.hyps(1) to by (metis tranclE)
    then have "(b, c) \<in> ?S" using stay step.hyps(2) by simp
    ultimately show ?case by (rule trancl_into_trancl)
  qed
  have "(a, a) \<notin> ?R\<^sup>+" for a
  proof
    assume c: "(a, a) \<in> ?R\<^sup>+"
    then have "a \<in> V" using to by (metis tranclE)
    with reach [OF c] have "(a, a) \<in> ?S\<^sup>+" by simp
    with f show False by (simp add: finished_def acyclic_def)
  qed
  then have "acyclic ?R" by (simp add: acyclic_def)
  with f s show ?thesis by (auto simp: finished_def)
qed

lemma visit_sound:
  "visit edges visiting visited k = Some vd \<Longrightarrow> finished edges (set visited) \<Longrightarrow> set visited \<inter> set visiting = {} \<Longrightarrow>
     finished edges (set vd) \<and> set vd \<inter> set visiting = {} \<and> set visited \<subseteq> set vd \<and> k \<in> set vd"
  "visit_all edges visiting visited ns = Some vd \<Longrightarrow> finished edges (set visited) \<Longrightarrow> set visited \<inter> set visiting = {} \<Longrightarrow>
     finished edges (set vd) \<and> set vd \<inter> set visiting = {} \<and> set visited \<subseteq> set vd \<and> set ns \<subseteq> set vd"
proof (induction edges visiting visited k and edges visiting visited ns arbitrary: vd and vd rule: visit_visit_all.induct)
  case (1 edges visiting visited k)
  show ?case
  proof (cases "k \<in> set visited")
    case True
    with 1 show ?thesis by (auto simp: visit.simps split: if_splits)
  next
    case False
    with 1(2) obtain vd' where nv: "k \<notin> set visiting" and vd: "vd = k # vd'"
      and a: "visit_all edges (k # visiting) visited (sort (edges_of edges k)) = Some vd'"
      by (auto simp: visit.simps split: if_splits option.splits)
    from 1(1) [OF nv False a 1(3)] False 1(4)
    have f: "finished edges (set vd')" and d: "set vd' \<inter> set (k # visiting) = {}"
      and s: "set visited \<subseteq> set vd'" "set (edges_of edges k) \<subseteq> set vd'" by auto
    then have "finished edges (insert k (set vd'))" by (intro finished_insert) auto
    with d s nv vd show ?thesis by auto
  qed
next
  case (3 edges visiting visited n ns)
  from 3(3) obtain v where v: "visit edges visiting visited n = Some v" and a: "visit_all edges visiting v ns = Some vd"
    by (auto split: option.splits)
  from 3(1) [OF v 3(4,5)] have s: "finished edges (set v)" "set v \<inter> set visiting = {}" "set visited \<subseteq> set v" "n \<in> set v"
    by auto
  from 3(2) [OF v a s(1,2)] s show ?case by auto
qed auto

lemma visit_complete:
  "visit edges visiting visited k = None \<Longrightarrow> (\<forall>v \<in> set visiting. (v, k) \<in> (edge_rel edges)\<^sup>+) \<Longrightarrow> \<not> acyclic (edge_rel edges)"
  "visit_all edges visiting visited ns = None \<Longrightarrow> (\<forall>v \<in> set visiting. \<forall>n \<in> set ns. (v, n) \<in> (edge_rel edges)\<^sup>+) \<Longrightarrow> \<not> acyclic (edge_rel edges)"
proof (induction edges visiting visited k and edges visiting visited ns rule: visit_visit_all.induct)
  case (1 edges visiting visited k)
  show ?case
  proof (cases "k \<in> set visiting")
    case True
    with 1(3) show ?thesis by (auto simp: acyclic_def)
  next
    case False
    with 1(2) have nv: "k \<notin> set visited" and a: "visit_all edges (k # visiting) visited (sort (edges_of edges k)) = None"
      by (auto simp: visit.simps split: if_splits option.splits)
    have "\<forall>v \<in> set (k # visiting). \<forall>n \<in> set (sort (edges_of edges k)). (v, n) \<in> (edge_rel edges)\<^sup>+"
      using 1(3) by (auto simp: edge_rel_def intro: trancl_into_trancl)
    with 1(1) [OF False nv a] show ?thesis by blast
  qed
next
  case (3 edges visiting visited n ns)
  then show ?case by (auto split: option.splits)
qed auto

lemma edge_rel_keys: "(a, b) \<in> edge_rel edges \<Longrightarrow> a \<in> fst ` set edges"
  using edges_of_not_key by (fastforce simp: edge_rel_def)

lemma acyclic_edges_iff: "acyclic_edges edges \<longleftrightarrow> acyclic (edge_rel edges)"
proof
  assume "acyclic_edges edges"
  then obtain vd where vd: "visit_all edges [] [] (sort (map fst edges)) = Some vd"
    by (auto simp: acyclic_edges_def)
  have "finished edges {}" by (simp add: finished_def acyclic_def)
  with visit_sound(2) [OF vd] have f: "finished edges (set vd)" and k: "fst ` set edges \<subseteq> set vd" by auto
  have "(a, b) \<in> set vd \<times> set vd" if ab: "(a, b) \<in> edge_rel edges" for a b
  proof -
    from edge_rel_keys [OF ab] k have "a \<in> set vd" by (rule rev_subsetD)
    moreover from this f ab have "b \<in> set vd" unfolding finished_def edge_rel_def by blast
    ultimately show ?thesis by simp
  qed
  then have "edge_rel edges \<inter> set vd \<times> set vd = edge_rel edges" by (intro Int_absorb2 subrelI)
  with f show "acyclic (edge_rel edges)" by (simp only: finished_def)
next
  assume "acyclic (edge_rel edges)"
  then show "acyclic_edges edges" using visit_complete(2) [of edges "[]" "[]"] by (auto simp: acyclic_edges_def)
qed

end
