(* ===== verification/Desk_Scope.thy ===== *)
theory Desk_Scope
  imports Desk_Ownership Desk_Graph
begin

text \<open>
  Scopes (plugin/server/desk-scope.ts): the owner of an assignment declares scopes with a writer,
  surfaces and a review plan, moves them through the shared machine, and seats record review
  observations. This theory holds the definitions; Desk_Scope_Rules states what an accepted command
  established and Desk_Scope_Safety the invariants.
\<close>

subsection \<open>Command schemas\<close>

definition scope_ref_ok :: "string \<Rightarrow> bool" where
  "scope_ref_ok s \<longleftrightarrow> between_len 1 deskAuthorityRefLen s \<and> trim s = s \<and> CHR 0x00 \<notin> set s"

definition scope_surface_path_ok :: "string \<Rightarrow> bool" where
  "scope_surface_path_ok s \<longleftrightarrow> between_len 1 deskPathSurfaceLen s \<and> canonicalWorkspacePath s = Some s"

definition scope_resource_ok :: "string \<Rightarrow> bool" where
  "scope_resource_ok s \<longleftrightarrow>
     between_len 1 deskResourceSurfaceLen s \<and> trim s = s \<and> CHR 0x00 \<notin> set s \<and> CHR 0x5C \<notin> set s"

definition unique_by :: "('a \<Rightarrow> 'b) \<Rightarrow> 'a list \<Rightarrow> bool" where
  "unique_by key items \<longleftrightarrow> distinct (map key items)"

definition scope_ownership_ok :: "scope_ownership \<Rightarrow> bool" where
  "scope_ownership_ok ow \<longleftrightarrow>
     between_len 1 agentIdLen (ow_writerAgentId ow) \<and> opt_ok scope_ref_ok (ow_writerAuthorityRef ow) \<and>
     list_all scope_surface_path_ok (ow_paths ow) \<and> length (ow_paths ow) \<le> deskBriefItems \<and>
     list_all scope_resource_ok (ow_resources ow) \<and> length (ow_resources ow) \<le> deskBriefItems \<and>
     list_all (\<lambda>s. between_len 1 deskStateRefLen (so_stateRef s) \<and> between_len 1 deskPathSurfaceLen (so_moduleRef s)) (ow_stateOwners ow) \<and>
     length (ow_stateOwners ow) \<le> deskBriefItems \<and>
     list_all (between_len 1 deskEntityIdLen) (ow_dependsOnScopeIds ow) \<and> length (ow_dependsOnScopeIds ow) \<le> deskBriefRefs \<and>
     list_all (\<lambda>n. between_len 1 deskDecisionTextLen (nt_event n) \<and> between_len 1 agentIdLen (nt_recipientAgentId n)) (ow_notifications ow) \<and>
     length (ow_notifications ow) \<le> deskBriefRefs \<and>
     unique_by id (ow_paths ow) \<and> unique_by id (ow_resources ow) \<and>
     unique_by so_stateRef (ow_stateOwners ow) \<and> unique_by so_moduleRef (ow_stateOwners ow) \<and>
     list_all (\<lambda>s. canonicalWorkspacePath (so_moduleRef s) = Some (so_moduleRef s)) (ow_stateOwners ow) \<and>
     unique_by id (ow_dependsOnScopeIds ow) \<and>
     unique_by (\<lambda>n. nt_event n @ CHR 0x00 # nt_recipientAgentId n) (ow_notifications ow)"

definition review_lens_ok :: "review_lens \<Rightarrow> bool" where
  "review_lens_ok n \<longleftrightarrow>
     between_len 1 deskLensIdLen (ln_id n) \<and> between_len 1 deskLensNameLen (ln_name n) \<and>
     scope_ref_ok (ln_authorityRef n) \<and> scope_ref_ok (ln_ruleRef n)"

definition review_plan_ok :: "review_plan \<Rightarrow> bool" where
  "review_plan_ok p \<longleftrightarrow>
     scope_ref_ok (rp_authorityRef p) \<and> scope_ref_ok (rp_ruleRef p) \<and>
     between_len 1 deskDecisionTextLen (rp_reason p) \<and> list_all review_lens_ok (rp_lenses p) \<and>
     length (rp_lenses p) \<le> deskBriefItems \<and> opt_ok (between_len 1 deskLensNameLen) (rp_exemptionClass p) \<and>
     distinct (map ln_id (rp_lenses p)) \<and>
     \<not> (rp_kind p = Plan_required \<and> (rp_lenses p = [] \<or> rp_exemptionClass p \<noteq> None)) \<and>
     \<not> (rp_kind p = Plan_exempt \<and>
          (rp_lenses p \<noteq> [] \<or> rp_exemptionClass p = None \<or> \<not> opt_ok nonblank (rp_exemptionClass p))) \<and>
     \<not> (rp_kind p = Plan_not_required \<and>
          (rp_lenses p \<noteq> [] \<or> rp_exemptionClass p \<noteq> None \<or> \<not> nonblank (rp_reason p)))"

record scope_declare_command =
  sd_requestId :: string
  sd_actorAgentId :: string
  sd_assignmentId :: string
  sd_scopeId :: string
  sd_label :: string
  sd_declarationSha256 :: string
  sd_refs :: "string list"
  sd_seatAgentId :: "string option"
  sd_expectedBriefRevision :: "nat option"
  sd_ownership :: "scope_ownership option"
  sd_reviewPlan :: "review_plan option option"

text \<open>
  \<open>sd_reviewPlan\<close> keeps the three cases apart: \<open>None\<close> is an omitted plan, \<open>Some None\<close> an explicit
  \<open>null\<close>, \<open>Some (Some p)\<close> a plan. An omitted and a \<open>null\<close> ownership are the same to the code
  (\<open>cmd.ownership ?? null\<close>). The marker \<open>reviewPlanInput\<close> only distinguishes request hashes.
\<close>

record scope_transition_command =
  st_requestId :: string
  st_actorAgentId :: string
  st_assignmentId :: string
  st_scopeId :: string
  st_transition :: scope_command
  st_scopeRevision :: nat
  st_candidateSnapshot :: "string option"
  st_candidateHead :: "string option"
  st_briefRevision :: "nat option"

record scope_review_command =
  sv_requestId :: string
  sv_actorAgentId :: string
  sv_assignmentId :: string
  sv_scopeId :: string
  sv_scopeRevision :: nat
  sv_candidateSnapshot :: string
  sv_axis :: "scope_review_axis option"
  sv_lensId :: "string option"
  sv_briefRevision :: "nat option"
  sv_verdict :: scope_review_verdict
  sv_findingsRef :: "string option"

datatype desk_scope_command =
    Scope_declare scope_declare_command
  | Scope_transition scope_transition_command
  | Scope_review scope_review_command

definition scope_declare_ok :: "scope_declare_command \<Rightarrow> bool" where
  "scope_declare_ok c \<longleftrightarrow>
     between_len 1 deskRequestIdLen (sd_requestId c) \<and> between_len 1 agentIdLen (sd_actorAgentId c) \<and>
     between_len 1 deskEntityIdLen (sd_assignmentId c) \<and> between_len 1 deskEntityIdLen (sd_scopeId c) \<and>
     between_len 1 deskScopeLabelLen (sd_label c) \<and> is_sha (sd_declarationSha256 c) \<and>
     list_all (between_len 1 deskScopePointerLen) (sd_refs c) \<and> length (sd_refs c) \<le> deskScopeRefs \<and>
     opt_ok (between_len 1 agentIdLen) (sd_seatAgentId c) \<and> opt_ok scope_ownership_ok (sd_ownership c) \<and>
     opt_ok (opt_ok review_plan_ok) (sd_reviewPlan c)"

definition scope_transition_ok :: "scope_transition_command \<Rightarrow> bool" where
  "scope_transition_ok c \<longleftrightarrow>
     between_len 1 deskRequestIdLen (st_requestId c) \<and> between_len 1 agentIdLen (st_actorAgentId c) \<and>
     between_len 1 deskEntityIdLen (st_assignmentId c) \<and> between_len 1 deskEntityIdLen (st_scopeId c) \<and>
     1 \<le> st_scopeRevision c \<and> opt_ok is_sha (st_candidateSnapshot c) \<and> opt_ok is_git_head (st_candidateHead c)"

definition scope_review_ok :: "scope_review_command \<Rightarrow> bool" where
  "scope_review_ok c \<longleftrightarrow>
     between_len 1 deskRequestIdLen (sv_requestId c) \<and> between_len 1 agentIdLen (sv_actorAgentId c) \<and>
     between_len 1 deskEntityIdLen (sv_assignmentId c) \<and> between_len 1 deskEntityIdLen (sv_scopeId c) \<and>
     1 \<le> sv_scopeRevision c \<and> is_sha (sv_candidateSnapshot c) \<and>
     opt_ok (between_len 1 deskLensIdLen) (sv_lensId c) \<and> opt_ok (between_len 1 deskScopePointerLen) (sv_findingsRef c) \<and>
     (sv_axis c = None) \<noteq> (sv_lensId c = None)"

fun scope_command_ok :: "desk_scope_command \<Rightarrow> bool" where
  "scope_command_ok (Scope_declare c) = scope_declare_ok c"
| "scope_command_ok (Scope_transition c) = scope_transition_ok c"
| "scope_command_ok (Scope_review c) = scope_review_ok c"

fun scope_actor :: "desk_scope_command \<Rightarrow> string" where
  "scope_actor (Scope_declare c) = sd_actorAgentId c"
| "scope_actor (Scope_transition c) = st_actorAgentId c"
| "scope_actor (Scope_review c) = sv_actorAgentId c"

subsection \<open>Streams and rounds\<close>

definition declarationStream :: "ledger \<Rightarrow> string \<Rightarrow> string \<Rightarrow> scope list" where
  "declarationStream l aid sid =
     sort_key sc_revision (filter (\<lambda>s. sc_assignmentId s = aid \<and> sc_scopeId s = sid) (scopes l))"

definition transitionStream :: "ledger \<Rightarrow> string \<Rightarrow> string \<Rightarrow> scope_transition list" where
  "transitionStream l aid sid =
     sort_key tr_revision (filter (\<lambda>t. tr_assignmentId t = aid \<and> tr_scopeId t = sid) (scopeTransitions l))"

record round_pin =
  rd_scopeRevision :: nat
  rd_candidateSnapshot :: "string option"
  rd_candidateHead :: "string option"
  rd_briefRevision :: nat
  rd_mandateSha256 :: "string option"

definition pinOf :: "scope_transition \<Rightarrow> round_pin" where
  "pinOf row = \<lparr>rd_scopeRevision = tr_scopeRevision row, rd_candidateSnapshot = tr_candidateSnapshot row,
     rd_candidateHead = tr_candidateHead row, rd_briefRevision = tr_briefRevision row,
     rd_mandateSha256 = tr_mandateSha256 row\<rparr>"

definition roundStep :: "round_pin option \<Rightarrow> scope_transition \<Rightarrow> round_pin option" where
  "roundStep pin row =
     (if tr_command row = Row_command SC_submit_for_review then Some (pinOf row)
      else if tr_to row = SS_advanced \<or> tr_to row = SS_closed then None
      else pin)"

definition activeRound :: "scope_transition list \<Rightarrow> round_pin option" where
  "activeRound stream = foldl roundStep None stream"

record approved_round = round_pin +
  ap_discharged :: "scope_discharge list"

record approval_scan =
  as_pin :: "round_pin option"
  as_observed :: "scope_discharge list option"
  as_approved :: "approved_round option"
  as_state :: "scope_state option"

definition approvalStep :: "approval_scan \<Rightarrow> scope_transition \<Rightarrow> approval_scan" where
  "approvalStep s row =
     (let submit = (tr_command row = Row_command SC_submit_for_review);
          pin = (if submit then Some (pinOf row) else as_pin s);
          observed = (if tr_command row = Row_command SC_review_observed then Some (tr_discharged row)
                      else if submit then None else as_observed s);
          approved = (case pin of
              Some r \<Rightarrow>
                if tr_to row = SS_approved then
                  (let discharge = (case observed of
                       Some obs \<Rightarrow> if tr_discharged row = [] \<and> obs \<noteq> [] then obs else tr_discharged row
                     | None \<Rightarrow> tr_discharged row)
                   in Some (round_pin.extend r (approved_round.fields discharge)))
                else as_approved s
            | None \<Rightarrow> as_approved s)
      in \<lparr>as_pin = pin, as_observed = observed, as_approved = approved, as_state = Some (tr_to row)\<rparr>)"

record approval_expectation =
  ex_briefRevision :: nat
  ex_scopeRevision :: nat
  ex_mandateSha256 :: "string option"
  ex_includeClosedApproval :: bool

definition approvedScopeRound :: "scope_transition list \<Rightarrow> approval_expectation option \<Rightarrow> approved_round option" where
  "approvedScopeRound stream expected =
     (let s = foldl approvalStep \<lparr>as_pin = None, as_observed = None, as_approved = None, as_state = None\<rparr> stream;
          terminal = (case expected of None \<Rightarrow> False | Some e \<Rightarrow> ex_includeClosedApproval e \<and> as_state s = Some SS_closed \<and>
            (case last_opt stream of None \<Rightarrow> False
             | Some r \<Rightarrow> tr_command r = Row_command SC_close \<and> tr_from r = Some SS_approved))
      in if as_state s \<noteq> Some SS_approved \<and> as_state s \<noteq> Some SS_advanced \<and> \<not> terminal then None
         else case (as_approved s, expected) of
           (Some a, Some e) \<Rightarrow>
             if rd_briefRevision a \<noteq> ex_briefRevision e \<or> rd_scopeRevision a \<noteq> ex_scopeRevision e \<or>
                rd_mandateSha256 a \<noteq> ex_mandateSha256 e then None else Some a
         | (a, _) \<Rightarrow> a)"

subsection \<open>Required reviews and their discharge\<close>

datatype review_requirement = Req_axis scope_review_axis | Req_lens string

fun req_axis :: "review_requirement \<Rightarrow> scope_review_axis option" where
  "req_axis (Req_axis a) = Some a"
| "req_axis (Req_lens _) = None"

fun req_lensId :: "review_requirement \<Rightarrow> string option" where
  "req_lensId (Req_axis _) = None"
| "req_lensId (Req_lens n) = Some n"

definition requiredReviews :: "scope \<Rightarrow> review_requirement list" where
  "requiredReviews declaration =
     (case sc_reviewPlan declaration of
        None \<Rightarrow> map Req_axis SCOPE_REVIEW_AXES
      | Some p \<Rightarrow>
          if rp_kind p = Plan_exempt \<or> rp_kind p = Plan_not_required then []
          else map (\<lambda>n. Req_lens (ln_id n)) (rp_lenses p))"

fun plan_kind_name :: "review_plan_kind \<Rightarrow> string" where
  "plan_kind_name Plan_required = ''required''"
| "plan_kind_name Plan_exempt = ''exempt''"
| "plan_kind_name Plan_not_required = ''not-required''"

definition json_lens :: "review_lens \<Rightarrow> json" where
  "json_lens n = JObj [(''id'', JStr (ln_id n)), (''name'', JStr (ln_name n)),
     (''authorityRef'', JStr (ln_authorityRef n)), (''ruleRef'', JStr (ln_ruleRef n))]"

definition json_plan :: "review_plan \<Rightarrow> json" where
  "json_plan p = JObj [(''kind'', JStr (plan_kind_name (rp_kind p))), (''authorityRef'', JStr (rp_authorityRef p)),
     (''ruleRef'', JStr (rp_ruleRef p)), (''reason'', JStr (rp_reason p)),
     (''lenses'', JArr (map json_lens (rp_lenses p))), (''exemptionClass'', json_opt JStr (rp_exemptionClass p))]"

definition planSha256 :: "desk_env \<Rightarrow> review_plan option \<Rightarrow> string option" where
  "planSha256 E plan = map_option (\<lambda>p. sha256 E (canonical_json (json_plan p))) plan"

definition mandateDigest :: "desk_env \<Rightarrow> scope \<Rightarrow> string option" where
  "mandateDigest E declaration = planSha256 E (sc_reviewPlan declaration)"

definition reviewEventSeq :: "ledger \<Rightarrow> scope_review \<Rightarrow> nat" where
  "reviewEventSeq l row =
     (case find (\<lambda>q. q_assignmentId q = rv_assignmentId row \<and> q_requestId q = rv_requestId row \<and>
                     q_actorKey q = ''agent:'' @ rv_reviewerAgentId row) (requests l) of
        None \<Rightarrow> 0
      | Some q \<Rightarrow> (case q_eventSeqs q of None \<Rightarrow> 0 | Some (_, hi) \<Rightarrow> hi))"

definition reviewOrder :: "desk_env \<Rightarrow> ledger \<Rightarrow> scope_review \<Rightarrow> scope_review \<Rightarrow> int" where
  "reviewOrder E l a b =
     (let d = int (reviewEventSeq l a) - int (reviewEventSeq l b) in
      if d \<noteq> 0 then d
      else let r = int (rv_revision a) - int (rv_revision b) in
        if r \<noteq> 0 then r else locale_compare E (rv_reviewerAgentId a) (rv_reviewerAgentId b))"

definition boundTo :: "round_pin \<Rightarrow> scope_review \<Rightarrow> bool" where
  "boundTo round r \<longleftrightarrow>
     rv_scopeRevision r = rd_scopeRevision round \<and> rv_briefRevision r = rd_briefRevision round \<and>
     rv_mandateSha256 r = rd_mandateSha256 round \<and> Some (rv_candidateSnapshot r) = rd_candidateSnapshot round"

definition meets :: "scope_review \<Rightarrow> review_requirement \<Rightarrow> bool" where
  "meets r required \<longleftrightarrow> rv_axis r = req_axis required \<and> rv_lensId r = req_lensId required"

fun dischargeOf :: "review_requirement \<Rightarrow> string \<Rightarrow> scope_discharge" where
  "dischargeOf (Req_axis a) i = Discharge_axis a i"
| "dischargeOf (Req_lens n) i = Discharge_lens n i"

fun dischargeAll ::
  "desk_env \<Rightarrow> ledger \<Rightarrow> scope_review list \<Rightarrow> review_requirement list \<Rightarrow> scope_discharge list option" where
  "dischargeAll E l eligible [] = Some []"
| "dischargeAll E l eligible (required # rest) =
     (case last_opt (sort_by (reviewOrder E l) (filter (\<lambda>r. meets r required) eligible)) of
        None \<Rightarrow> None
      | Some latest \<Rightarrow>
          map_option (\<lambda>ds. dischargeOf required (rv_reviewId latest) # ds) (dischargeAll E l eligible rest))"

definition eligibleReviews ::
  "ledger \<Rightarrow> string \<Rightarrow> string \<Rightarrow> round_pin \<Rightarrow> scope \<Rightarrow> string list \<Rightarrow> scope_review list" where
  "eligibleReviews l aid sid round declaration excluded =
     filter (\<lambda>r. rv_assignmentId r = aid \<and> rv_scopeId r = sid \<and> boundTo round r \<and>
         rv_reviewerAgentId r \<notin> set excluded \<and> list_ex (meets r) (requiredReviews declaration)) (scopeReviews l)"

definition qualifyRoundReviews ::
  "desk_env \<Rightarrow> ledger \<Rightarrow> string \<Rightarrow> string \<Rightarrow> round_pin \<Rightarrow> scope \<Rightarrow> string list \<Rightarrow>
   string list \<times> scope_discharge list option" where
  "qualifyRoundReviews E l aid sid round declaration excluded =
     (let eligible = eligibleReviews l aid sid round declaration excluded in
      (map rv_reviewId eligible, dischargeAll E l eligible (requiredReviews declaration)))"

definition currentBriefRevision :: "ledger \<Rightarrow> string \<Rightarrow> nat" where
  "currentBriefRevision l aid = max_of b_revision (filter (\<lambda>r. b_assignmentId r = aid) (briefRevisions l))"

record review_qualification =
  rq_declaration :: "scope option"
  rq_activeRound :: "round_pin option"
  rq_round :: "round_pin option"
  rq_roundCurrent :: bool
  rq_eligibleReviewIds :: "string list"
  rq_discharged :: "scope_discharge list option"
  rq_standingApproval :: "approved_round option"
  rq_terminalApproval :: "approved_round option"

definition currentScopeReviewQualification ::
  "desk_env \<Rightarrow> ledger \<Rightarrow> assignment \<Rightarrow> string \<Rightarrow> bool \<Rightarrow> review_qualification" where
  "currentScopeReviewQualification E l a sid includeClosedApproval =
     (let aid = a_assignmentId a;
          declaration = last_opt (declarationStream l aid sid);
          transitions = transitionStream l aid sid;
          active = activeRound transitions;
          brief = currentBriefRevision l aid;
          approved = (case declaration of None \<Rightarrow> None
            | Some d \<Rightarrow> approvedScopeRound transitions (Some
                \<lparr>ex_briefRevision = brief, ex_scopeRevision = sc_revision d, ex_mandateSha256 = mandateDigest E d,
                 ex_includeClosedApproval = includeClosedApproval\<rparr>));
          round = (case active of Some r \<Rightarrow> Some r | None \<Rightarrow> map_option round_pin.truncate approved);
          roundCurrent = (case (declaration, round) of
              (Some d, Some r) \<Rightarrow> sc_briefRevision d = brief \<and> rd_briefRevision r = brief \<and>
                rd_scopeRevision r = sc_revision d \<and> rd_mandateSha256 r = mandateDigest E d
            | _ \<Rightarrow> False);
          qualified = (case (declaration, round) of
              (Some d, Some r) \<Rightarrow>
                if roundCurrent then qualifyRoundReviews E l aid sid r d (currentReviewExclusions l a d) else ([], None)
            | _ \<Rightarrow> ([], None));
          independentApproval = (case approved of None \<Rightarrow> False
            | Some ap \<Rightarrow> roundCurrent \<and> list_all (\<lambda>d. discharge_reviewId d \<in> set (fst qualified)) (ap_discharged ap));
          closed = (case last_opt transitions of None \<Rightarrow> False | Some r \<Rightarrow> tr_to r = SS_closed);
          closedApproved = (case last_opt transitions of None \<Rightarrow> False
            | Some r \<Rightarrow> tr_to r = SS_closed \<and> tr_command r = Row_command SC_close \<and> tr_from r = Some SS_approved)
      in \<lparr>rq_declaration = declaration, rq_activeRound = active, rq_round = round, rq_roundCurrent = roundCurrent,
          rq_eligibleReviewIds = fst qualified, rq_discharged = snd qualified,
          rq_standingApproval = (if independentApproval \<and> \<not> closed then approved else None),
          rq_terminalApproval = (if independentApproval \<and> closedApproved then approved else None)\<rparr>)"

subsection \<open>Ownership of surfaces\<close>

definition currentLiveSeat :: "ledger \<Rightarrow> assignment \<Rightarrow> string \<Rightarrow> bool" where
  "currentLiveSeat l a agentId =
     (if ot_agentId (effectiveOwner l a) = agentId then True
      else (case find (\<lambda>s. seat_agentId s = agentId) (a_seats a) of
        None \<Rightarrow> False
      | Some seat \<Rightarrow>
          (case find (\<lambda>m. m_membershipId m = seat_membershipId seat) (memberships l) of
             None \<Rightarrow> False
           | Some m \<Rightarrow> m_agentId m = Some agentId \<and> m_state m \<noteq> MS_revoked \<and> m_registeredAt m \<noteq> None)))"

definition latestStep :: "(string \<times> scope) list \<Rightarrow> scope \<Rightarrow> (string \<times> scope) list" where
  "latestStep m row =
     (case map_of m (sc_scopeId row) of
        None \<Rightarrow> map_set (sc_scopeId row) row m
      | Some prior \<Rightarrow> if sc_revision prior < sc_revision row then map_set (sc_scopeId row) row m else m)"

definition latestScopeDeclarations :: "ledger \<Rightarrow> string \<Rightarrow> (string \<times> scope) list" where
  "latestScopeDeclarations l aid =
     foldl latestStep [] (sort_key sc_revision (filter (\<lambda>s. sc_assignmentId s = aid) (scopes l)))"

definition declaredDependencies :: "scope \<Rightarrow> string list" where
  "declaredDependencies row = (case sc_ownership row of None \<Rightarrow> [] | Some ow \<Rightarrow> ow_dependsOnScopeIds ow)"

definition dependencyEdges :: "ledger \<Rightarrow> string \<Rightarrow> string \<Rightarrow> string list \<Rightarrow> (string \<times> string list) list" where
  "dependencyEdges l aid sid deps =
     map_set sid deps (map (\<lambda>(k, row). (k, declaredDependencies row)) (latestScopeDeclarations l aid))"

definition dependencyProblem :: "ledger \<Rightarrow> string \<Rightarrow> string \<Rightarrow> scope_ownership option \<Rightarrow> desk_error_code option" where
  "dependencyProblem l aid sid ownership =
     (case ownership of
        None \<Rightarrow> None
      | Some ow \<Rightarrow>
          if list_ex (\<lambda>d. d = sid \<or> map_of (latestScopeDeclarations l aid) d = None) (ow_dependsOnScopeIds ow)
          then Some SCOPE_CONFLICT
          else if \<not> acyclic_edges (dependencyEdges l aid sid (ow_dependsOnScopeIds ow)) then Some SCOPE_CONFLICT
          else None)"

fun stateOwnersProblem :: "string list \<Rightarrow> string list \<Rightarrow> state_owner list \<Rightarrow> desk_error_code option" where
  "stateOwnersProblem stateRefs moduleRefs [] = None"
| "stateOwnersProblem stateRefs moduleRefs (s # rest) =
     (if so_stateRef s \<in> set stateRefs \<or> so_moduleRef s \<in> set moduleRefs \<or>
         canonicalWorkspacePath (so_moduleRef s) \<noteq> Some (so_moduleRef s) then Some INVALID_RECORD
      else stateOwnersProblem (so_stateRef s # stateRefs) (so_moduleRef s # moduleRefs) rest)"

definition ownershipShapeProblem :: "ledger \<Rightarrow> assignment \<Rightarrow> scope_ownership option \<Rightarrow> desk_error_code option" where
  "ownershipShapeProblem l a ownership =
     (case ownership of
        None \<Rightarrow> None
      | Some ow \<Rightarrow>
          if \<not> currentLiveSeat l a (ow_writerAgentId ow) then Some AUTHORITY_REQUIRED
          else if ow_writerAgentId ow = ot_agentId (effectiveOwner l a) \<and> ow_writerAuthorityRef ow = None
            then Some AUTHORITY_REQUIRED
          else if ow_writerAgentId ow \<noteq> ot_agentId (effectiveOwner l a) \<and> ow_writerAuthorityRef ow \<noteq> None
            then Some INVALID_RECORD
          else (case stateOwnersProblem [] [] (ow_stateOwners ow) of
              Some e \<Rightarrow> Some e
            | None \<Rightarrow>
                if list_ex (\<lambda>n. \<not> currentLiveSeat l a (nt_recipientAgentId n)) (ow_notifications ow)
                then Some INVALID_RECORD else None))"

definition surfaceConflicts :: "string \<Rightarrow> scope_ownership \<Rightarrow> scope_ownership \<Rightarrow> string list" where
  \<comment> \<open>the three loops over \<open>ownership\<close> against one other active declaration\<close>
  "surfaceConflicts label own other =
     concat (map (\<lambda>left. concat (map (\<lambda>right.
        if workspacePathsOverlap left right then [label @ '':path:'' @ right] else []) (ow_paths other))) (ow_paths own)) @
     concat (map (\<lambda>left. concat (map (\<lambda>right.
        if left = right then [label @ '':resource:'' @ right] else []) (ow_resources other))) (ow_resources own)) @
     concat (map (\<lambda>left. concat (map (\<lambda>right.
        (if so_stateRef left = so_stateRef right then [label @ '':state:'' @ so_stateRef right] else []) @
        (if so_moduleRef left = so_moduleRef right then [label @ '':module:'' @ so_moduleRef right] else []))
          (ow_stateOwners other))) (ow_stateOwners own))"

definition scopeMachineState :: "ledger \<Rightarrow> string \<Rightarrow> string \<Rightarrow> scope_state" where
  \<comment> \<open>\<open>stream.at(-1)?.to ?? "declared"\<close>\<close>
  "scopeMachineState l aid sid =
     (case last_opt (transitionStream l aid sid) of None \<Rightarrow> SS_declared | Some r \<Rightarrow> tr_to r)"

definition overlapConflicts :: "desk_env \<Rightarrow> ledger \<Rightarrow> string \<Rightarrow> string \<Rightarrow> scope_ownership \<Rightarrow> string list" where
  "overlapConflicts E l aid sid own =
     concat (map (\<lambda>a.
       concat (map (\<lambda>other.
         if a_assignmentId a = aid \<and> sc_scopeId other = sid then []
         else (case sc_ownership other of
             None \<Rightarrow> []
           | Some ow \<Rightarrow>
               let state = scopeMachineState l (sc_assignmentId other) (sc_scopeId other) in
               if state = SS_advanced \<or> state = SS_closed then []
               else surfaceConflicts (sc_assignmentId other @ ''/'' @ sc_scopeId other) own ow))
         (sort_by (\<lambda>x y. locale_compare E (sc_scopeId x) (sc_scopeId y))
           (map snd (latestScopeDeclarations l (a_assignmentId a))))))
       (sort_by (\<lambda>x y. locale_compare E (a_assignmentId x) (a_assignmentId y))
         (filter (\<lambda>a. a_state a = AS_open) (assignments l))))"

definition overlapProblem :: "desk_env \<Rightarrow> ledger \<Rightarrow> string \<Rightarrow> string \<Rightarrow> scope_ownership option \<Rightarrow> desk_error_code option" where
  "overlapProblem E l aid sid ownership =
     (case ownership of
        None \<Rightarrow> None
      | Some ow \<Rightarrow> if overlapConflicts E l aid sid ow = [] then None else Some SCOPE_CONFLICT)"

definition validateOwnership :: "desk_env \<Rightarrow> ledger \<Rightarrow> assignment \<Rightarrow> string \<Rightarrow> scope_ownership option \<Rightarrow> desk_error_code option" where
  "validateOwnership E l a sid ownership =
     (case ownership of
        None \<Rightarrow> None
      | Some ow \<Rightarrow>
          if list_ex (\<lambda>path. canonicalWorkspacePath path \<noteq> Some path) (ow_paths ow) then Some INVALID_RECORD
          else (case ownershipShapeProblem l a ownership of
              Some e \<Rightarrow> Some e
            | None \<Rightarrow>
              (case dependencyProblem l (a_assignmentId a) sid ownership of
                 Some e \<Rightarrow> Some e
               | None \<Rightarrow> overlapProblem E l (a_assignmentId a) sid ownership)))"

subsection \<open>Event payloads\<close>

fun scope_state_name :: "scope_state \<Rightarrow> string" where
  "scope_state_name SS_declared = ''declared''"
| "scope_state_name SS_claimed = ''claimed''"
| "scope_state_name SS_submitted_for_review = ''submitted-for-review''"
| "scope_state_name SS_review_observed = ''review-observed''"
| "scope_state_name SS_approved = ''approved''"
| "scope_state_name SS_rejected = ''rejected''"
| "scope_state_name SS_advanced = ''advanced''"
| "scope_state_name SS_closed = ''closed''"

fun scope_command_name :: "scope_command \<Rightarrow> string" where
  "scope_command_name SC_claim = ''claim''"
| "scope_command_name SC_submit_for_review = ''submit-for-review''"
| "scope_command_name SC_review_observed = ''review-observed''"
| "scope_command_name SC_approve = ''approve''"
| "scope_command_name SC_reject = ''reject''"
| "scope_command_name SC_advance = ''advance''"
| "scope_command_name SC_close = ''close''"

fun axis_name :: "scope_review_axis \<Rightarrow> string" where
  "axis_name Axis_spec = ''spec''"
| "axis_name Axis_standards = ''standards''"

fun verdict_name :: "scope_review_verdict \<Rightarrow> string" where
  "verdict_name Verdict_approve = ''approve''"
| "verdict_name Verdict_reject = ''reject''"
| "verdict_name Verdict_findings = ''findings''"

fun json_discharge :: "scope_discharge \<Rightarrow> json" where
  "json_discharge (Discharge_axis a i) = JObj [(''axis'', JStr (axis_name a)), (''reviewId'', JStr i)]"
| "json_discharge (Discharge_lens n i) = JObj [(''lensId'', JStr n), (''reviewId'', JStr i)]"

definition json_ownership :: "scope_ownership \<Rightarrow> json" where
  "json_ownership ow = JObj
     [(''writerAgentId'', JStr (ow_writerAgentId ow)), (''writerAuthorityRef'', json_opt JStr (ow_writerAuthorityRef ow)),
      (''paths'', json_strs (ow_paths ow)), (''resources'', json_strs (ow_resources ow)),
      (''stateOwners'', JArr (map (\<lambda>s. JObj [(''stateRef'', JStr (so_stateRef s)), (''moduleRef'', JStr (so_moduleRef s))]) (ow_stateOwners ow))),
      (''dependsOnScopeIds'', json_strs (ow_dependsOnScopeIds ow)),
      (''notifications'', JArr (map (\<lambda>n. JObj [(''event'', JStr (nt_event n)), (''recipientAgentId'', JStr (nt_recipientAgentId n))]) (ow_notifications ow)))]"

subsection \<open>\<open>scope.declare\<close>\<close>

definition briefPinOk :: "nat option \<Rightarrow> nat \<Rightarrow> bool" where
  \<comment> \<open>\<open>(pin ?? (current === 0 ? 0 : undefined)) === current\<close>\<close>
  "briefPinOk pin current = (case pin of Some n \<Rightarrow> n = current | None \<Rightarrow> current = 0)"

definition scopeRow :: "ledger \<Rightarrow> membership \<Rightarrow> assignment \<Rightarrow> scope_declare_command \<Rightarrow> review_plan option \<Rightarrow> scope" where
  "scopeRow l actor a cmd plan =
     (let latest = last_opt (declarationStream l (sd_assignmentId cmd) (sd_scopeId cmd)) in
      \<lparr>sc_assignmentId = sd_assignmentId cmd, sc_scopeId = sd_scopeId cmd, sc_requestId = sd_requestId cmd,
       sc_revision = (case latest of None \<Rightarrow> 0 | Some s \<Rightarrow> sc_revision s) + 1,
       sc_priorRevision = map_option sc_revision latest,
       sc_ownerMembershipId = m_membershipId actor, sc_ownerAgentId = actorAgent actor,
       sc_assignmentRevision = assignmentStructuralRevision a, sc_seatAgentId = sd_seatAgentId cmd,
       sc_label = sd_label cmd, sc_declarationSha256 = sd_declarationSha256 cmd, sc_refs = sd_refs cmd,
       sc_briefRevision = currentBriefRevision l (a_assignmentId a), sc_ownership = sd_ownership cmd,
       sc_reviewPlan = plan\<rparr>)"

definition declareTransition :: "desk_env \<Rightarrow> membership \<Rightarrow> scope_declare_command \<Rightarrow> scope \<Rightarrow> scope_transition" where
  "declareTransition E actor cmd row =
     \<lparr>tr_transitionId = derive_id E ''stn'' [actorAgent actor, sd_assignmentId cmd, sd_scopeId cmd, sd_requestId cmd, ''declare''],
      tr_assignmentId = sd_assignmentId cmd, tr_scopeId = sd_scopeId cmd, tr_requestId = sd_requestId cmd, tr_revision = 1,
      tr_command = Row_declare, tr_from = None, tr_to = SS_declared, tr_scopeRevision = 1,
      tr_briefRevision = sc_briefRevision row, tr_mandateSha256 = planSha256 E (sc_reviewPlan row),
      tr_candidateSnapshot = None, tr_candidateHead = None, tr_discharged = [], tr_actorAgentId = actorAgent actor,
      tr_taskCancellation = None\<rparr>"

definition declareEvent :: "desk_env \<Rightarrow> scope \<Rightarrow> desk_event" where
  "declareEvent E r = \<lparr>ev_kind = ''scope-declared'', ev_payload = JObj
     [(''assignmentId'', JStr (sc_assignmentId r)), (''scopeId'', JStr (sc_scopeId r)), (''ownerAgentId'', JStr (sc_ownerAgentId r)),
      (''revision'', json_nat (sc_revision r)), (''assignmentRevision'', json_nat (sc_assignmentRevision r)),
      (''briefRevision'', json_nat (sc_briefRevision r)), (''mandateSha256'', json_opt JStr (planSha256 E (sc_reviewPlan r))),
      (''ownershipSha256'', json_opt (\<lambda>ow. JStr (sha256 E (canonical_json (json_ownership ow)))) (sc_ownership r)),
      (''reviewPlanSha256'', json_opt JStr (planSha256 E (sc_reviewPlan r)))]\<rparr>"

definition decideDeclare :: "desk_env \<Rightarrow> ledger \<Rightarrow> membership \<Rightarrow> assignment \<Rightarrow> scope_declare_command \<Rightarrow> decide_outcome" where
  "decideDeclare E l actor a cmd =
     (if LIMIT_scopes \<le> length (scopes l) then Inl INVALID_RECORD
      else if sd_seatAgentId cmd \<noteq> None \<and> \<not> list_ex (\<lambda>s. Some (seat_agentId s) = sd_seatAgentId cmd) (a_seats a)
        then Inl INVALID_RECORD
      else if \<not> briefPinOk (sd_expectedBriefRevision cmd) (currentBriefRevision l (a_assignmentId a))
        then Inl REVISION_CONFLICT
      else case validateOwnership E l a (sd_scopeId cmd) (sd_ownership cmd) of
        Some e \<Rightarrow> Inl e
      | None \<Rightarrow>
          (let latest = last_opt (declarationStream l (sd_assignmentId cmd) (sd_scopeId cmd)) in
           case (case sd_reviewPlan cmd of Some p \<Rightarrow> Some p | None \<Rightarrow> map_option sc_reviewPlan latest) of
             None \<Rightarrow> Inl AUTHORITY_REQUIRED
           | Some plan \<Rightarrow>
               let row = scopeRow l actor a cmd plan in
               Inr ([declareEvent E row], no_tables\<lparr>p_scopes := Some (scopes l @ [row]),
                 p_scopeTransitions := Some (if sc_revision row = 1
                   then scopeTransitions l @ [declareTransition E actor cmd row] else scopeTransitions l)\<rparr>)))"

subsection \<open>\<open>scope.transition\<close>\<close>

definition resolveCandidatePin ::
  "desk_env \<Rightarrow> ledger \<Rightarrow> scope \<Rightarrow> scope_transition_command \<Rightarrow> desk_error_code + (string option \<times> string option)" where
  "resolveCandidatePin E l declaration cmd =
     (if st_transition cmd = SC_submit_for_review then
        (case st_candidateSnapshot cmd of
           None \<Rightarrow> Inl INVALID_RECORD
         | Some snapshot \<Rightarrow>
             (case find (\<lambda>c. c_snapshotSha256 c = snapshot \<and> c_assignmentId c = st_assignmentId cmd) (candidates l) of
                None \<Rightarrow> Inl CANDIDATE_DRIFT
              | Some c \<Rightarrow>
                  if sc_seatAgentId declaration \<noteq> None \<and> Some (c_seatAgentId c) \<noteq> sc_seatAgentId declaration
                    then Inl CANDIDATE_DRIFT
                  else if st_candidateHead cmd \<noteq> None \<and> c_head c \<noteq> st_candidateHead cmd then Inl CANDIDATE_DRIFT
                  else (case overlapProblem E l (st_assignmentId cmd) (st_scopeId cmd) (sc_ownership declaration) of
                      Some e \<Rightarrow> Inl e
                    | None \<Rightarrow> Inr (Some (c_snapshotSha256 c), c_head c))))
      else if st_candidateSnapshot cmd \<noteq> None \<or> st_candidateHead cmd \<noteq> None then Inl INVALID_RECORD
      else Inr (None, None))"

definition resolveGate ::
  "desk_env \<Rightarrow> ledger \<Rightarrow> assignment \<Rightarrow> scope list \<Rightarrow> scope \<Rightarrow> scope_transition_command \<Rightarrow> desk_error_code + scope_discharge list" where
  "resolveGate E l a declarations latest cmd =
     (let q = currentScopeReviewQualification E l a (st_scopeId cmd) False in
      if st_transition cmd \<notin> set SCOPE_REVIEW_GATED_COMMANDS then Inr []
      else case rq_activeRound q of
        None \<Rightarrow> Inl REVIEW_INCOMPLETE
      | Some round \<Rightarrow>
          if rd_scopeRevision round \<noteq> sc_revision latest \<or>
             rd_briefRevision round \<noteq> currentBriefRevision l (st_assignmentId cmd) \<or>
             rd_briefRevision round \<noteq> sc_briefRevision latest \<or>
             rd_mandateSha256 round \<noteq> mandateDigest E latest then Inl REVISION_CONFLICT
          else case find (\<lambda>row. sc_revision row = rd_scopeRevision round) declarations of
            None \<Rightarrow> Inl INVALID_RECORD
          | Some roundDeclaration \<Rightarrow>
              (case rq_discharged q of None \<Rightarrow> Inl REVIEW_INCOMPLETE | Some ds \<Rightarrow> Inr ds))"

definition transitionRow ::
  "desk_env \<Rightarrow> ledger \<Rightarrow> membership \<Rightarrow> scope_transition_command \<Rightarrow> scope \<Rightarrow> scope_state \<Rightarrow> scope_state \<Rightarrow>
   string option \<times> string option \<Rightarrow> scope_discharge list \<Rightarrow> scope_transition" where
  "transitionRow E l actor cmd latest from to pin discharged =
     \<lparr>tr_transitionId = derive_id E ''stn'' [actorAgent actor, st_assignmentId cmd, st_scopeId cmd, st_requestId cmd,
        scope_command_name (st_transition cmd)],
      tr_assignmentId = st_assignmentId cmd, tr_scopeId = st_scopeId cmd, tr_requestId = st_requestId cmd,
      tr_revision = (case last_opt (transitionStream l (st_assignmentId cmd) (st_scopeId cmd)) of
         None \<Rightarrow> 0 | Some t \<Rightarrow> tr_revision t) + 1,
      tr_command = Row_command (st_transition cmd), tr_from = Some from, tr_to = to,
      tr_scopeRevision = st_scopeRevision cmd, tr_briefRevision = currentBriefRevision l (st_assignmentId cmd),
      tr_mandateSha256 = mandateDigest E latest, tr_candidateSnapshot = fst pin, tr_candidateHead = snd pin,
      tr_discharged = discharged, tr_actorAgentId = actorAgent actor, tr_taskCancellation = None\<rparr>"

definition transitionEvent :: "scope_transition \<Rightarrow> scope_command \<Rightarrow> desk_event" where
  "transitionEvent r command = \<lparr>ev_kind = ''scope-transitioned'', ev_payload = JObj
     [(''assignmentId'', JStr (tr_assignmentId r)), (''scopeId'', JStr (tr_scopeId r)),
      (''command'', JStr (scope_command_name command)),
      (''from'', json_opt (\<lambda>s. JStr (scope_state_name s)) (tr_from r)), (''to'', JStr (scope_state_name (tr_to r))),
      (''revision'', json_nat (tr_revision r)), (''scopeRevision'', json_nat (tr_scopeRevision r)),
      (''briefRevision'', json_nat (tr_briefRevision r)), (''mandateSha256'', json_opt JStr (tr_mandateSha256 r)),
      (''discharged'', JArr (map json_discharge (tr_discharged r)))]\<rparr>"

definition decideTransition ::
  "desk_env \<Rightarrow> ledger \<Rightarrow> membership \<Rightarrow> assignment \<Rightarrow> scope_transition_command \<Rightarrow> decide_outcome" where
  "decideTransition E l actor a cmd =
     (let declarations = declarationStream l (st_assignmentId cmd) (st_scopeId cmd);
          brief = currentBriefRevision l (st_assignmentId cmd) in
      case last_opt declarations of
        None \<Rightarrow> Inl SCOPE_CONFLICT
      | Some latest \<Rightarrow>
          if st_scopeRevision cmd \<noteq> sc_revision latest then Inl REVISION_CONFLICT
          else if sc_briefRevision latest \<noteq> brief \<or> \<not> briefPinOk (st_briefRevision cmd) brief then Inl REVISION_CONFLICT
          else case last_opt (transitionStream l (st_assignmentId cmd) (st_scopeId cmd)) of
            None \<Rightarrow> Inl SCOPE_CONFLICT
          | Some current \<Rightarrow>
              (case scopeTransitionEdge (tr_to current) (Row_command (st_transition cmd)) of
                 None \<Rightarrow> Inl SCOPE_CONFLICT
               | Some to \<Rightarrow>
                   (case resolveCandidatePin E l latest cmd of
                      Inl e \<Rightarrow> Inl e
                    | Inr pin \<Rightarrow>
                        (case resolveGate E l a declarations latest cmd of
                           Inl e \<Rightarrow> Inl e
                         | Inr discharged \<Rightarrow>
                             let row = transitionRow E l actor cmd latest (tr_to current) to pin discharged in
                             Inr ([transitionEvent row (st_transition cmd)],
                               no_tables\<lparr>p_scopeTransitions := Some (scopeTransitions l @ [row])\<rparr>)))))"

subsection \<open>\<open>scope.review\<close> and the whole decision\<close>

definition nextReviewRevision :: "ledger \<Rightarrow> scope_review_command \<Rightarrow> nat" where
  "nextReviewRevision l cmd =
     max_of rv_revision (filter (\<lambda>r. rv_assignmentId r = sv_assignmentId cmd \<and> rv_scopeId r = sv_scopeId cmd \<and>
       rv_axis r = sv_axis cmd \<and> rv_lensId r = sv_lensId cmd \<and> rv_reviewerAgentId r = sv_actorAgentId cmd)
       (scopeReviews l)) + 1"

definition reviewRow :: "desk_env \<Rightarrow> ledger \<Rightarrow> scope_review_command \<Rightarrow> round_pin \<Rightarrow> assignment_seat \<Rightarrow> scope_review" where
  "reviewRow E l cmd round seat =
     \<lparr>rv_reviewId = derive_id E ''srv'' [sv_actorAgentId cmd, sv_assignmentId cmd, sv_scopeId cmd,
        (case sv_axis cmd of Some a \<Rightarrow> axis_name a | None \<Rightarrow> the (sv_lensId cmd)), sv_requestId cmd],
      rv_assignmentId = sv_assignmentId cmd, rv_scopeId = sv_scopeId cmd, rv_requestId = sv_requestId cmd,
      rv_revision = nextReviewRevision l cmd, rv_scopeRevision = sv_scopeRevision cmd,
      rv_candidateSnapshot = sv_candidateSnapshot cmd, rv_axis = sv_axis cmd, rv_lensId = sv_lensId cmd,
      rv_briefRevision = rd_briefRevision round, rv_mandateSha256 = rd_mandateSha256 round,
      rv_verdict = sv_verdict cmd, rv_reviewerAgentId = sv_actorAgentId cmd,
      rv_reviewerSeatId = seat_membershipId seat, rv_findingsRef = sv_findingsRef cmd\<rparr>"

definition reviewEvent :: "scope_review \<Rightarrow> desk_event" where
  "reviewEvent r = \<lparr>ev_kind = ''scope-review-recorded'', ev_payload = JObj
     [(''reviewId'', JStr (rv_reviewId r)), (''assignmentId'', JStr (rv_assignmentId r)), (''scopeId'', JStr (rv_scopeId r)),
      (''axis'', json_opt (\<lambda>a. JStr (axis_name a)) (rv_axis r)), (''lensId'', json_opt JStr (rv_lensId r)),
      (''briefRevision'', json_nat (rv_briefRevision r)), (''mandateSha256'', json_opt JStr (rv_mandateSha256 r)),
      (''verdict'', JStr (verdict_name (rv_verdict r))), (''reviewerAgentId'', JStr (rv_reviewerAgentId r)),
      (''revision'', json_nat (rv_revision r))]\<rparr>"

definition reviewRoundStale :: "desk_env \<Rightarrow> ledger \<Rightarrow> scope_review_command \<Rightarrow> scope \<Rightarrow> round_pin \<Rightarrow> bool" where
  "reviewRoundStale E l cmd latest round \<longleftrightarrow>
     (let brief = currentBriefRevision l (sv_assignmentId cmd) in
      rd_scopeRevision round \<noteq> sc_revision latest \<or> sc_briefRevision latest \<noteq> brief \<or>
      rd_briefRevision round \<noteq> brief \<or> rd_mandateSha256 round \<noteq> mandateDigest E latest \<or>
      \<not> briefPinOk (sv_briefRevision cmd) brief)"

definition decideScopeReview :: "desk_env \<Rightarrow> ledger \<Rightarrow> scope_review_command \<Rightarrow> decide_outcome" where
  "decideScopeReview E l cmd =
     (case findAssignment l (sv_assignmentId cmd) of
        None \<Rightarrow> Inl AUTHORITY_REQUIRED
      | Some a \<Rightarrow>
          if a_state a \<noteq> AS_open then Inl SCOPE_CONFLICT
          else if ot_agentId (effectiveOwner l a) = sv_actorAgentId cmd then Inl AUTHORITY_REQUIRED
          else case find (\<lambda>s. seat_agentId s = sv_actorAgentId cmd) (a_seats a) of
            None \<Rightarrow> Inl AUTHORITY_REQUIRED
          | Some seat \<Rightarrow>
              (case find (\<lambda>m. m_membershipId m = seat_membershipId seat) (memberships l) of
                 None \<Rightarrow> Inl INVALID_RECORD
               | Some seatRow \<Rightarrow>
                   if m_agentId seatRow \<noteq> Some (sv_actorAgentId cmd) then Inl INVALID_RECORD
                   else case last_opt (declarationStream l (sv_assignmentId cmd) (sv_scopeId cmd)) of
                     None \<Rightarrow> Inl SCOPE_CONFLICT
                   | Some latest \<Rightarrow>
                       if sc_seatAgentId latest = Some (sv_actorAgentId cmd) \<or>
                          map_option ow_writerAgentId (sc_ownership latest) = Some (sv_actorAgentId cmd)
                         then Inl AUTHORITY_REQUIRED
                       else case activeRound (transitionStream l (sv_assignmentId cmd) (sv_scopeId cmd)) of
                         None \<Rightarrow> Inl SCOPE_CONFLICT
                       | Some round \<Rightarrow>
                           if sv_scopeRevision cmd \<noteq> rd_scopeRevision round then Inl REVISION_CONFLICT
                           else if reviewRoundStale E l cmd latest round then Inl REVISION_CONFLICT
                           else if Some (sv_candidateSnapshot cmd) \<noteq> rd_candidateSnapshot round then Inl CANDIDATE_DRIFT
                           else if \<not> list_ex (\<lambda>q. req_axis q = sv_axis cmd \<and> req_lensId q = sv_lensId cmd) (requiredReviews latest)
                             then Inl AUTHORITY_REQUIRED
                           else if LIMIT_scopeReviews \<le> length (scopeReviews l) then Inl INVALID_RECORD
                           else let row = reviewRow E l cmd round seat in
                             Inr ([reviewEvent row], no_tables\<lparr>p_scopeReviews := Some (scopeReviews l @ [row])\<rparr>)))"

definition requireScopeOwner :: "ledger \<Rightarrow> membership \<Rightarrow> string \<Rightarrow> desk_error_code + assignment" where
  \<comment> \<open>\<open>requireLead\<close> and \<open>requireOwnedOpenAssignment\<close> with the scope commands' codes\<close>
  "requireScopeOwner l actor aid =
     (case requireLead actor of
        Some e \<Rightarrow> Inl e
      | None \<Rightarrow> requireOwnedOpenAssignment l actor aid AUTHORITY_REQUIRED AUTHORITY_REQUIRED SCOPE_CONFLICT)"

definition decideDeskScope :: "desk_env \<Rightarrow> ledger \<Rightarrow> desk_scope_command \<Rightarrow> decide_outcome" where
  "decideDeskScope E l cmd =
     (if \<not> scope_command_ok cmd then Inl INVALID_RECORD
      else case requireActor l (scope_actor cmd) of
        Inl e \<Rightarrow> Inl e
      | Inr actor \<Rightarrow>
          (case cmd of
             Scope_review c \<Rightarrow> decideScopeReview E l c
           | Scope_declare c \<Rightarrow>
               (case requireScopeOwner l actor (sd_assignmentId c) of
                  Inl e \<Rightarrow> Inl e | Inr a \<Rightarrow> decideDeclare E l actor a c)
           | Scope_transition c \<Rightarrow>
               (case requireScopeOwner l actor (st_assignmentId c) of
                  Inl e \<Rightarrow> Inl e | Inr a \<Rightarrow> decideTransition E l actor a c)))"

end
