(* ===== verification/Desk_Scope_Rules.thy ===== *)
theory Desk_Scope_Rules
  imports Desk_Scope
begin

text \<open>
  What an accepted scope command established: one equation per command, the two revision streams
  as interpretations of \<open>revision_ledger\<close>, and the legality of the transition history.
\<close>

subsection \<open>Accepted commands\<close>

lemma requireScopeOwner_Inr:
  "requireScopeOwner l actor aid = Inr a \<longleftrightarrow>
   m_role actor = Role_lead \<and> findAssignment l aid = Some a \<and> effectiveOwnerMatches l a actor \<and> a_state a = AS_open"
  by (auto simp: requireScopeOwner_def accepted requireOwnedOpen_Inr)

lemma scope_Inr:
  "decideDeskScope E l (Scope_declare c) = Inr out \<longleftrightarrow> scope_declare_ok c \<and> (\<exists>m a.
     liveMembership l (sd_actorAgentId c) = Some m \<and> requireScopeOwner l m (sd_assignmentId c) = Inr a \<and>
     decideDeclare E l m a c = Inr out)"
  "decideDeskScope E l (Scope_transition t) = Inr out \<longleftrightarrow> scope_transition_ok t \<and> (\<exists>m a.
     liveMembership l (st_actorAgentId t) = Some m \<and> requireScopeOwner l m (st_assignmentId t) = Inr a \<and>
     decideTransition E l m a t = Inr out)"
  "decideDeskScope E l (Scope_review r) = Inr out \<longleftrightarrow> scope_review_ok r \<and>
     (\<exists>m. liveMembership l (sv_actorAgentId r) = Some m) \<and> decideScopeReview E l r = Inr out"
  by (auto simp: decideDeskScope_def accepted requireActor_Inr)

definition chosenPlan :: "ledger \<Rightarrow> scope_declare_command \<Rightarrow> review_plan option option" where
  "chosenPlan l cmd = (case sd_reviewPlan cmd of Some p \<Rightarrow> Some p
     | None \<Rightarrow> map_option sc_reviewPlan (last_opt (declarationStream l (sd_assignmentId cmd) (sd_scopeId cmd))))"

lemma decideDeclare_Inr:
  "decideDeclare E l m a c = Inr (evs, p) \<longleftrightarrow>
   length (scopes l) < LIMIT_scopes \<and>
   (sd_seatAgentId c \<noteq> None \<longrightarrow> list_ex (\<lambda>s. Some (seat_agentId s) = sd_seatAgentId c) (a_seats a)) \<and>
   briefPinOk (sd_expectedBriefRevision c) (currentBriefRevision l (a_assignmentId a)) \<and>
   validateOwnership E l a (sd_scopeId c) (sd_ownership c) = None \<and>
   (\<exists>plan. chosenPlan l c = Some plan \<and> (let row = scopeRow l m a c plan in
     evs = [declareEvent E row] \<and> p = no_tables\<lparr>p_scopes := Some (scopes l @ [row]),
       p_scopeTransitions := Some (if sc_revision row = 1
         then scopeTransitions l @ [declareTransition E m c row] else scopeTransitions l)\<rparr>))"
proof -
  have flip: "(Inr y = Inr (evs, p)) = ((evs, p) = y)" for y :: "desk_event list \<times> table_patch" by auto
  show ?thesis
    unfolding decideDeclare_def chosenPlan_def Let_def accepted flip prod.inject by auto
qed

lemma decideTransition_Inr:
  "decideTransition E l m a c = Inr (evs, p) \<longleftrightarrow>
   (\<exists>latest current to pin discharged.
     last_opt (declarationStream l (st_assignmentId c) (st_scopeId c)) = Some latest \<and>
     st_scopeRevision c = sc_revision latest \<and>
     sc_briefRevision latest = currentBriefRevision l (st_assignmentId c) \<and>
     briefPinOk (st_briefRevision c) (currentBriefRevision l (st_assignmentId c)) \<and>
     last_opt (transitionStream l (st_assignmentId c) (st_scopeId c)) = Some current \<and>
     scopeTransitionEdge (tr_to current) (Row_command (st_transition c)) = Some to \<and>
     resolveCandidatePin E l latest c = Inr pin \<and>
     resolveGate E l a (declarationStream l (st_assignmentId c) (st_scopeId c)) latest c = Inr discharged \<and>
     (let row = transitionRow E l m c latest (tr_to current) to pin discharged in
      evs = [transitionEvent row (st_transition c)] \<and>
      p = no_tables\<lparr>p_scopeTransitions := Some (scopeTransitions l @ [row])\<rparr>))"
proof -
  have flip: "(Inr y = Inr (evs, p)) = ((evs, p) = y)" for y :: "desk_event list \<times> table_patch" by auto
  show ?thesis
    unfolding decideTransition_def Let_def accepted flip prod.inject by auto
qed

lemma decideScopeReview_Inr:
  "decideScopeReview E l c = Inr (evs, p) \<longleftrightarrow>
   (\<exists>a seat seatRow latest round.
     findAssignment l (sv_assignmentId c) = Some a \<and> a_state a = AS_open \<and>
     ot_agentId (effectiveOwner l a) \<noteq> sv_actorAgentId c \<and>
     find (\<lambda>s. seat_agentId s = sv_actorAgentId c) (a_seats a) = Some seat \<and>
     find (\<lambda>m. m_membershipId m = seat_membershipId seat) (memberships l) = Some seatRow \<and>
     m_agentId seatRow = Some (sv_actorAgentId c) \<and>
     last_opt (declarationStream l (sv_assignmentId c) (sv_scopeId c)) = Some latest \<and>
     sc_seatAgentId latest \<noteq> Some (sv_actorAgentId c) \<and>
     map_option ow_writerAgentId (sc_ownership latest) \<noteq> Some (sv_actorAgentId c) \<and>
     activeRound (transitionStream l (sv_assignmentId c) (sv_scopeId c)) = Some round \<and>
     sv_scopeRevision c = rd_scopeRevision round \<and> \<not> reviewRoundStale E l c latest round \<and>
     Some (sv_candidateSnapshot c) = rd_candidateSnapshot round \<and>
     list_ex (\<lambda>q. req_axis q = sv_axis c \<and> req_lensId q = sv_lensId c) (requiredReviews latest) \<and>
     length (scopeReviews l) < LIMIT_scopeReviews \<and>
     (let row = reviewRow E l c round seat in
      evs = [reviewEvent row] \<and> p = no_tables\<lparr>p_scopeReviews := Some (scopeReviews l @ [row])\<rparr>))"
proof -
  have flip: "(Inr y = Inr (evs, p)) = ((evs, p) = y)" for y :: "desk_event list \<times> table_patch" by auto
  show ?thesis
    unfolding decideScopeReview_def Let_def accepted flip prod.inject by auto
qed

subsection \<open>The streams\<close>

definition pushScope :: "ledger \<Rightarrow> scope \<Rightarrow> ledger" where
  "pushScope l r = l\<lparr>scopes := scopes l @ [r]\<rparr>"

definition pushTransition :: "ledger \<Rightarrow> scope_transition \<Rightarrow> ledger" where
  "pushTransition l r = l\<lparr>scopeTransitions := scopeTransitions l @ [r]\<rparr>"

interpretation declared: revision_ledger "\<lambda>l (a, s). declarationStream l a s" pushScope
    "\<lambda>r. (sc_assignmentId r, sc_scopeId r)" sc_revision
  by unfold_locales (auto simp: declarationStream_def pushScope_def intro!: sort_key_snoc_max split: if_splits)

interpretation moved: revision_ledger "\<lambda>l (a, s). transitionStream l a s" pushTransition
    "\<lambda>r. (tr_assignmentId r, tr_scopeId r)" tr_revision
  by unfold_locales (auto simp: transitionStream_def pushTransition_def intro!: sort_key_snoc_max split: if_splits)

lemma stream_frame [simp]:
  "transitionStream (pushScope l r) = transitionStream l"
  "declarationStream (pushTransition l t) = declarationStream l"
  by (simp_all add: fun_eq_iff transitionStream_def declarationStream_def pushScope_def pushTransition_def)

lemma declarationStream_cong: "scopes l = scopes l' \<Longrightarrow> declarationStream l = declarationStream l'"
  by (simp add: fun_eq_iff declarationStream_def)

lemma transitionStream_cong: "scopeTransitions l = scopeTransitions l' \<Longrightarrow> transitionStream l = transitionStream l'"
  by (simp add: fun_eq_iff transitionStream_def)

lemma scopeRow_sel [simp]:
  "sc_assignmentId (scopeRow l m a c plan) = sd_assignmentId c" "sc_scopeId (scopeRow l m a c plan) = sd_scopeId c"
  "sc_ownership (scopeRow l m a c plan) = sd_ownership c" "sc_reviewPlan (scopeRow l m a c plan) = plan"
  "sc_revision (scopeRow l m a c plan) = Suc (declared.current l (sd_assignmentId c, sd_scopeId c))"
  by (simp_all add: scopeRow_def Let_def declared.current_def)

lemma declareTransition_sel [simp]:
  "tr_assignmentId (declareTransition E m c row) = sd_assignmentId c" "tr_scopeId (declareTransition E m c row) = sd_scopeId c"
  "tr_revision (declareTransition E m c row) = 1" "tr_command (declareTransition E m c row) = Row_declare"
  "tr_from (declareTransition E m c row) = None" "tr_to (declareTransition E m c row) = SS_declared"
  by (simp_all add: declareTransition_def)

lemma transitionRow_sel [simp]:
  "tr_assignmentId (transitionRow E l m c d s t pin ds) = st_assignmentId c"
  "tr_scopeId (transitionRow E l m c d s t pin ds) = st_scopeId c"
  "tr_command (transitionRow E l m c d s t pin ds) = Row_command (st_transition c)"
  "tr_from (transitionRow E l m c d s t pin ds) = Some s" "tr_to (transitionRow E l m c d s t pin ds) = t"
  "tr_discharged (transitionRow E l m c d s t pin ds) = ds"
  "tr_revision (transitionRow E l m c d s t pin ds) = Suc (moved.current l (st_assignmentId c, st_scopeId c))"
  by (simp_all add: transitionRow_def moved.current_def)

end
