(* ===== verification/Desk_Scope_Examples.thy ===== *)
theory Desk_Scope_Examples
  imports Desk_Scope_Rules
begin

text \<open>
  The small desk of Desk_Examples with one scope on it, written by the first peer and observed by
  the second: the commands that declare, claim, submit, review and approve it. Used by the
  witnesses of the scope theories only.
\<close>

definition demo_sha :: string where "demo_sha = replicate 64 (CHR ''a'')"

lemma demo_sha_ok [simp]: "is_sha demo_sha"
  by (simp add: is_sha_def demo_sha_def is_hex_def Let_def list_all_iff)

definition demo_ownership :: scope_ownership where
  "demo_ownership = \<lparr>ow_writerAgentId = ''peer1'', ow_writerAuthorityRef = None, ow_paths = [''src/a''],
     ow_resources = [], ow_stateOwners = [], ow_dependsOnScopeIds = [], ow_notifications = []\<rparr>"

definition demo_declare :: scope_declare_command where
  "demo_declare = \<lparr>sd_requestId = ''d1'', sd_actorAgentId = ''lead1'', sd_assignmentId = ''asg'', sd_scopeId = ''s1'',
     sd_label = ''first'', sd_declarationSha256 = demo_sha, sd_refs = [], sd_seatAgentId = None,
     sd_expectedBriefRevision = None, sd_ownership = Some demo_ownership, sd_reviewPlan = Some None\<rparr>"

lemma demo_ownership_sel [simp]:
  "ow_writerAgentId demo_ownership = ''peer1''" "ow_writerAuthorityRef demo_ownership = None"
  "ow_paths demo_ownership = [''src/a'']" "ow_resources demo_ownership = []" "ow_stateOwners demo_ownership = []"
  "ow_dependsOnScopeIds demo_ownership = []" "ow_notifications demo_ownership = []"
  by (simp_all add: demo_ownership_def)

lemma demo_declare_sel [simp]:
  "sd_actorAgentId demo_declare = ''lead1''" "sd_assignmentId demo_declare = ''asg''" "sd_scopeId demo_declare = ''s1''"
  "sd_seatAgentId demo_declare = None" "sd_expectedBriefRevision demo_declare = None"
  "sd_ownership demo_declare = Some demo_ownership" "sd_reviewPlan demo_declare = Some None"
  "sd_label demo_declare = ''first''" "sd_requestId demo_declare = ''d1''" "sd_refs demo_declare = []"
  "sd_declarationSha256 demo_declare = demo_sha"
  by (simp_all add: demo_declare_def)

lemma demo_path [simp]: "canonicalWorkspacePath ''src/a'' = Some ''src/a''"
  by (simp add: canonicalWorkspacePath_def is_drive_prefix_def bad_segment_def Let_def)

lemma demo_declare_ok [simp]: "scope_declare_ok demo_declare"
  by (simp add: scope_declare_ok_def scope_ownership_ok_def scope_surface_path_ok_def unique_by_def between_len_def
      desk_defs)

lemma demo_ledger_sel [simp]:
  "scopes demo_ledger = []" "scopeTransitions demo_ledger = []" "scopeReviews demo_ledger = []"
  "briefRevisions demo_ledger = []" "ownershipAccepts demo_ledger = []" "ownershipOffers demo_ledger = []"
  "requests demo_ledger = []" "candidates demo_ledger = []" "revision demo_ledger = 0"
  "assignments demo_ledger = [demo_assignment]"
  by (simp_all add: demo_defs)

lemma demo_effective_owner [simp]:
  "ownershipAccepts l = [] \<Longrightarrow> effectiveOwner l demo_assignment =
     \<lparr>ot_agentId = ''lead1'', ot_membershipId = ''m1'', ot_ownershipRevision = 0\<rparr>"
  by (simp add: effectiveOwner_def acceptStream_def registeredOwner_def)

lemma demo_writer_live: "memberships l = memberships demo_ledger \<Longrightarrow> ownershipAccepts l = [] \<Longrightarrow> currentLiveSeat l demo_assignment ''peer1''"
  by (simp add: currentLiveSeat_def) (simp add: demo_defs)

lemma demo_shape: "memberships l = memberships demo_ledger \<Longrightarrow> ownershipAccepts l = [] \<Longrightarrow>
  ownershipShapeProblem l demo_assignment (Some demo_ownership) = None"
  by (simp add: ownershipShapeProblem_def demo_writer_live)

lemma demo_valid: "validateOwnership E demo_ledger demo_assignment ''s1'' (Some demo_ownership) = None"
proof -
  have e: "latestScopeDeclarations demo_ledger ''asg'' = []" by (simp add: latestScopeDeclarations_def)
  have "acyclic_edges [(''s1'', [])]" by (simp add: acyclic_edges_def visit.simps edges_of_def)
  then have "dependencyProblem demo_ledger ''asg'' ''s1'' (Some demo_ownership) = None"
    by (simp add: dependencyProblem_def dependencyEdges_def e)
  moreover have "overlapProblem E demo_ledger ''asg'' ''s1'' (Some demo_ownership) = None"
    by (simp add: overlapProblem_def overlapConflicts_def e sort_by_def)
  ultimately show ?thesis by (simp add: validateOwnership_def demo_shape)
qed

lemma demo_brief0 [simp]: "briefRevisions l = [] \<Longrightarrow> currentBriefRevision l aid = 0"
  by (simp add: currentBriefRevision_def)

lemma demo_scope_owner:
  "memberships l = memberships demo_ledger \<Longrightarrow> assignments l = assignments demo_ledger \<Longrightarrow> ownershipAccepts l = [] \<Longrightarrow>
   liveMembership l ''lead1'' = Some (demo_member ''m1'' ''lead1'' Role_lead) \<and>
   requireScopeOwner l (demo_member ''m1'' ''lead1'' Role_lead) ''asg'' = Inr demo_assignment"
  using liveMembership_cong [of l demo_ledger] findAssignment_cong [of l demo_ledger]
  by (simp add: requireScopeOwner_Inr effectiveOwnerMatches_def ownerIs_def)

lemma demo_declares: "\<exists>evs p. decideDeskScope E demo_ledger (Scope_declare demo_declare) = Inr (evs, p)"
proof -
  have "\<exists>evs p. decideDeclare E demo_ledger (demo_member ''m1'' ''lead1'' Role_lead) demo_assignment demo_declare = Inr (evs, p)"
    by (simp add: decideDeclare_Inr demo_valid chosenPlan_def briefPinOk_def LIMIT_scopes_def Let_def)
  with demo_scope_owner [of demo_ledger] show ?thesis by (auto simp: scope_Inr)
qed

subsection \<open>A reviewed scope\<close>

definition demo_step :: "nat \<Rightarrow> scope_row_command \<Rightarrow> scope_state option \<Rightarrow> scope_state \<Rightarrow> string option \<Rightarrow> scope_discharge list \<Rightarrow> scope_transition" where
  "demo_step n c from to snapshot ds =
     \<lparr>tr_transitionId = ''stn'', tr_assignmentId = ''asg'', tr_scopeId = ''s1'', tr_requestId = ''r'', tr_revision = n,
      tr_command = c, tr_from = from, tr_to = to, tr_scopeRevision = 1, tr_briefRevision = 0, tr_mandateSha256 = None,
      tr_candidateSnapshot = snapshot, tr_candidateHead = None, tr_discharged = ds, tr_actorAgentId = ''lead1'',
      tr_taskCancellation = None\<rparr>"

definition demo_discharge :: "scope_discharge list" where
  "demo_discharge = [Discharge_axis Axis_spec ''v1'', Discharge_axis Axis_standards ''v2'']"

definition demo_rows :: "scope_transition list" where
  "demo_rows =
     [demo_step 1 Row_declare None SS_declared None [],
      demo_step 2 (Row_command SC_claim) (Some SS_declared) SS_claimed None [],
      demo_step 3 (Row_command SC_submit_for_review) (Some SS_claimed) SS_submitted_for_review (Some demo_sha) []]"

definition demo_approval :: "scope_transition list" where
  "demo_approval =
     [demo_step 4 (Row_command SC_review_observed) (Some SS_submitted_for_review) SS_review_observed None demo_discharge,
      demo_step 5 (Row_command SC_approve) (Some SS_review_observed) SS_approved None demo_discharge]"

definition demo_scope :: scope where
  "demo_scope = scopeRow demo_ledger (demo_member ''m1'' ''lead1'' Role_lead) demo_assignment demo_declare None"

definition demo_candidate :: candidate where
  "demo_candidate = \<lparr>c_candidateId = ''cand'', c_assignmentId = ''asg'', c_seatAgentId = ''peer1'', c_seatMembershipId = ''m3'',
     c_repository = ''/g'', c_snapshotSha256 = demo_sha, c_head = None, c_incomplete = [], c_measuredAt = ''t''\<rparr>"

definition demo_review :: "string \<Rightarrow> scope_review_axis \<Rightarrow> scope_review" where
  "demo_review i axis = \<lparr>rv_reviewId = i, rv_assignmentId = ''asg'', rv_scopeId = ''s1'', rv_requestId = i, rv_revision = 1,
     rv_scopeRevision = 1, rv_candidateSnapshot = demo_sha, rv_axis = Some axis, rv_lensId = None, rv_briefRevision = 0,
     rv_mandateSha256 = None, rv_verdict = Verdict_approve, rv_reviewerAgentId = ''peer2'', rv_reviewerSeatId = ''m4'',
     rv_findingsRef = None\<rparr>"

definition demo_submitted :: ledger where
  "demo_submitted = demo_ledger\<lparr>scopes := [demo_scope], scopeTransitions := demo_rows, candidates := [demo_candidate]\<rparr>"

definition demo_reviewed :: ledger where
  "demo_reviewed = demo_submitted\<lparr>scopeReviews := [demo_review ''v1'' Axis_spec, demo_review ''v2'' Axis_standards]\<rparr>"

definition demo_approved :: ledger where
  "demo_approved = demo_reviewed\<lparr>scopeTransitions := demo_rows @ demo_approval\<rparr>"

lemma demo_scope_sel [simp]:
  "sc_assignmentId demo_scope = ''asg''" "sc_scopeId demo_scope = ''s1''" "sc_revision demo_scope = 1"
  "sc_ownership demo_scope = Some demo_ownership" "sc_reviewPlan demo_scope = None" "sc_briefRevision demo_scope = 0"
  "sc_seatAgentId demo_scope = None" "sc_priorRevision demo_scope = None"
  by (simp_all add: demo_scope_def scopeRow_def Let_def declarationStream_def del: scopeRow_sel)

lemma demo_approved_streams:
  "declarationStream demo_approved ''asg'' ''s1'' = [demo_scope]"
  "transitionStream demo_approved ''asg'' ''s1'' =
     demo_rows @ [demo_step 4 (Row_command SC_review_observed) (Some SS_submitted_for_review) SS_review_observed None demo_discharge,
      demo_step 5 (Row_command SC_approve) (Some SS_review_observed) SS_approved None demo_discharge]"
  by (simp_all add: declarationStream_def transitionStream_def demo_approved_def demo_reviewed_def demo_submitted_def
      demo_rows_def demo_approval_def demo_step_def)

lemma demo_approved_other:
  "\<not> (a = ''asg'' \<and> s = ''s1'') \<Longrightarrow> declarationStream demo_approved a s = []"
  "\<not> (a = ''asg'' \<and> s = ''s1'') \<Longrightarrow> transitionStream demo_approved a s = []"
  by (auto simp: declarationStream_def transitionStream_def demo_approved_def demo_reviewed_def demo_submitted_def
      demo_rows_def demo_approval_def demo_step_def)

lemma demo_submitted_streams:
  "l \<in> {demo_submitted, demo_reviewed} \<Longrightarrow> declarationStream l ''asg'' ''s1'' = [demo_scope]"
  "l \<in> {demo_submitted, demo_reviewed} \<Longrightarrow> transitionStream l ''asg'' ''s1'' = demo_rows"
  by (auto simp: declarationStream_def transitionStream_def demo_reviewed_def demo_submitted_def
      demo_rows_def demo_approval_def demo_step_def)

end
