(* ===== verification/Desk_Scope_History.thy ===== *)
theory Desk_Scope_History
  imports Desk_Scope_Examples
begin

text \<open>
  The history of a scope: declarations and transitions are numbered 1..N, and the transitions form
  one legal run of the scope machine that opens with the declaration. Every accepted scope command
  keeps this, so an approval is always preceded by the review it rests on.
\<close>

subsection \<open>Legal runs\<close>

abbreviation scopeView :: "scope_transition \<Rightarrow> scope_state option \<times> scope_row_command \<times> scope_state" where
  "scopeView r \<equiv> (tr_from r, tr_command r, tr_to r)"

abbreviation legalStep :: "scope_state option \<Rightarrow> scope_transition \<Rightarrow> bool" where
  "legalStep \<equiv> legal_row scopeTransitionEdge (Row_declare, SS_declared) scopeView"

abbreviation legalChain :: "scope_state option \<Rightarrow> scope_transition list \<Rightarrow> bool" where
  "legalChain \<equiv> legal_rows scopeTransitionEdge (Row_declare, SS_declared) scopeView"

abbreviation chainEnd :: "scope_state option \<Rightarrow> scope_transition list \<Rightarrow> scope_state option" where
  "chainEnd \<equiv> rows_end scopeView"

text \<open>Every declaration names its immediate predecessor, the first one none: the lineage check the store
  makes of every stream.\<close>

definition linkedDeclarations :: "scope list \<Rightarrow> bool" where
  "linkedDeclarations rows \<longleftrightarrow>
     list_all (\<lambda>r. sc_priorRevision r = (if sc_revision r = 1 then None else Some (sc_revision r - 1))) rows"

lemma linkedDeclarations_simps [simp]:
  "linkedDeclarations []"
  "linkedDeclarations [r] \<longleftrightarrow> sc_priorRevision r = (if sc_revision r = 1 then None else Some (sc_revision r - 1))"
  "linkedDeclarations (xs @ [r]) \<longleftrightarrow> linkedDeclarations xs \<and>
     sc_priorRevision r = (if sc_revision r = 1 then None else Some (sc_revision r - 1))"
  by (simp_all add: linkedDeclarations_def)

definition scopeKeyOk :: "ledger \<Rightarrow> string \<Rightarrow> string \<Rightarrow> bool" where
  "scopeKeyOk l aid sid \<longleftrightarrow>
     map sc_revision (declarationStream l aid sid) = [1..<Suc (length (declarationStream l aid sid))] \<and>
     map tr_revision (transitionStream l aid sid) = [1..<Suc (length (transitionStream l aid sid))] \<and>
     linkedDeclarations (declarationStream l aid sid) \<and>
     legalChain None (transitionStream l aid sid) \<and>
     (declarationStream l aid sid = [] \<longleftrightarrow> transitionStream l aid sid = [])"

definition scopeHistoryOk :: "ledger \<Rightarrow> bool" where
  "scopeHistoryOk l \<longleftrightarrow> (\<forall>aid sid. scopeKeyOk l aid sid)"

lemma scopeKeyOk_alt:
  "scopeKeyOk l aid sid \<longleftrightarrow> declared.numbered l (aid, sid) \<and> moved.numbered l (aid, sid) \<and>
     linkedDeclarations (declarationStream l aid sid) \<and> legalChain None (transitionStream l aid sid) \<and>
     (declarationStream l aid sid = [] \<longleftrightarrow> transitionStream l aid sid = [])"
  by (simp add: scopeKeyOk_def declared.numbered_def moved.numbered_def del: upt_Suc)

lemma chainEnd_moved: "chainEnd None (transitionStream l a s) = map_option tr_to (last_opt (transitionStream l a s))"
  by (simp add: rows_end_None)

subsection \<open>Every command keeps the history\<close>

lemma keyOk_push_transition_other:
  "\<not> (tr_assignmentId r = a \<and> tr_scopeId r = s) \<Longrightarrow> scopeKeyOk (pushTransition l r) a s \<longleftrightarrow> scopeKeyOk l a s"
  using moved.push_other [of r "(a, s)" l] by (auto simp: scopeKeyOk_def)

lemma keyOk_push_scope_other:
  "\<not> (sc_assignmentId r = a \<and> sc_scopeId r = s) \<Longrightarrow> scopeKeyOk (pushScope l r) a s \<longleftrightarrow> scopeKeyOk l a s"
  using declared.push_other [of r "(a, s)" l] by (auto simp: scopeKeyOk_def)

lemma push_transition_key:
  assumes n: "moved.numbered l (aid, sid)" and dn: "declared.numbered l (aid, sid)"
    and c: "legalChain None (transitionStream l aid sid)"
    and r: "tr_assignmentId r = aid" "tr_scopeId r = sid" "tr_revision r = Suc (moved.current l (aid, sid))"
    and d: "declarationStream l aid sid \<noteq> []" and ln: "linkedDeclarations (declarationStream l aid sid)"
    and legal: "legalStep (map_option tr_to (last_opt (transitionStream l aid sid))) r"
  shows "scopeKeyOk (pushTransition l r) aid sid"
proof -
  have st: "transitionStream (pushTransition l r) aid sid = transitionStream l aid sid @ [r]"
    using moved.push_current [OF n, of r] r by simp
  have "moved.numbered (pushTransition l r) (aid, sid)"
    using moved.push_numbered [OF n, of r] r by simp
  moreover have "declared.numbered (pushTransition l r) (aid, sid)" using dn by (simp add: declared.numbered_def)
  ultimately show ?thesis using st c d ln legal by (simp add: scopeKeyOk_alt legal_rows_append chainEnd_moved)
qed

lemma push_scope_key:
  assumes k: "scopeKeyOk l aid sid"
    and r: "sc_assignmentId r = aid" "sc_scopeId r = sid" "sc_revision r = Suc (declared.current l (aid, sid))"
  shows "declared.numbered (pushScope l r) (aid, sid)"
    and "declarationStream (pushScope l r) aid sid = declarationStream l aid sid @ [r]"
    and "moved.numbered (pushScope l r) (aid, sid)"
  using k r declared.push_numbered [of l "(aid, sid)" r] declared.push_current [of l "(aid, sid)" r]
  by (auto simp: scopeKeyOk_alt moved.numbered_def)

definition afterDeclare :: "desk_env \<Rightarrow> ledger \<Rightarrow> membership \<Rightarrow> scope_declare_command \<Rightarrow> scope \<Rightarrow> ledger" where
  "afterDeclare E l m c row =
     (if sc_revision row = 1 then pushTransition (pushScope l row) (declareTransition E m c row) else pushScope l row)"

lemma declare_facts:
  assumes "decideDeskScope E l (Scope_declare c) = Inr (evs, p)"
  obtains m a plan where "liveMembership l (sd_actorAgentId c) = Some m"
    and "findAssignment l (sd_assignmentId c) = Some a" and "a_assignmentId a = sd_assignmentId c"
    and "effectiveOwnerMatches l a m" and "a_state a = AS_open" and "scope_declare_ok c"
    and "validateOwnership E l a (sd_scopeId c) (sd_ownership c) = None"
    and "apply_tables l p = afterDeclare E l m c (scopeRow l m a c plan)"
proof -
  from assms obtain m a plan where f: "liveMembership l (sd_actorAgentId c) = Some m"
    "findAssignment l (sd_assignmentId c) = Some a" "effectiveOwnerMatches l a m" "a_state a = AS_open" "scope_declare_ok c"
    "validateOwnership E l a (sd_scopeId c) (sd_ownership c) = None"
    and p: "p = no_tables\<lparr>p_scopes := Some (scopes l @ [scopeRow l m a c plan]),
       p_scopeTransitions := Some (if sc_revision (scopeRow l m a c plan) = 1
         then scopeTransitions l @ [declareTransition E m c (scopeRow l m a c plan)] else scopeTransitions l)\<rparr>"
    by (auto simp: scope_Inr requireScopeOwner_Inr decideDeclare_Inr Let_def)
  have "apply_tables l p = afterDeclare E l m c (scopeRow l m a c plan)"
    by (simp add: p apply_tables_def no_tables_def afterDeclare_def pushScope_def pushTransition_def)
  with that f findAssignmentD [OF f(2)] show ?thesis by blast
qed

lemma transition_facts:
  assumes "decideDeskScope E l (Scope_transition c) = Inr (evs, p)"
  obtains m a latest current to pin discharged where "liveMembership l (st_actorAgentId c) = Some m"
    and "findAssignment l (st_assignmentId c) = Some a" and "a_assignmentId a = st_assignmentId c"
    and "effectiveOwnerMatches l a m" and "a_state a = AS_open"
    and "last_opt (declarationStream l (st_assignmentId c) (st_scopeId c)) = Some latest"
    and "sc_briefRevision latest = currentBriefRevision l (st_assignmentId c)"
    and "last_opt (transitionStream l (st_assignmentId c) (st_scopeId c)) = Some current"
    and "scopeTransitionEdge (tr_to current) (Row_command (st_transition c)) = Some to"
    and "resolveCandidatePin E l latest c = Inr pin"
    and "resolveGate E l a (declarationStream l (st_assignmentId c) (st_scopeId c)) latest c = Inr discharged"
    and "apply_tables l p = pushTransition l (transitionRow E l m c latest (tr_to current) to pin discharged)"
proof -
  from assms obtain m a latest current to pin discharged where f: "liveMembership l (st_actorAgentId c) = Some m"
    "findAssignment l (st_assignmentId c) = Some a" "effectiveOwnerMatches l a m" "a_state a = AS_open"
    "last_opt (declarationStream l (st_assignmentId c) (st_scopeId c)) = Some latest"
    "sc_briefRevision latest = currentBriefRevision l (st_assignmentId c)"
    "last_opt (transitionStream l (st_assignmentId c) (st_scopeId c)) = Some current"
    "scopeTransitionEdge (tr_to current) (Row_command (st_transition c)) = Some to"
    "resolveCandidatePin E l latest c = Inr pin"
    "resolveGate E l a (declarationStream l (st_assignmentId c) (st_scopeId c)) latest c = Inr discharged"
    and p: "p = no_tables\<lparr>p_scopeTransitions := Some (scopeTransitions l @ [transitionRow E l m c latest (tr_to current) to pin discharged])\<rparr>"
    unfolding scope_Inr requireScopeOwner_Inr decideTransition_Inr Let_def by blast
  have "apply_tables l p = pushTransition l (transitionRow E l m c latest (tr_to current) to pin discharged)"
    by (simp add: p apply_tables_def no_tables_def pushTransition_def)
  with that f findAssignmentD [OF f(2)] show ?thesis by blast
qed

lemma review_facts:
  assumes "decideDeskScope E l (Scope_review c) = Inr (evs, p)"
  obtains a seat latest round where "findAssignment l (sv_assignmentId c) = Some a" and "a_state a = AS_open"
    and "ot_agentId (effectiveOwner l a) \<noteq> sv_actorAgentId c"
    and "find (\<lambda>s. seat_agentId s = sv_actorAgentId c) (a_seats a) = Some seat"
    and "last_opt (declarationStream l (sv_assignmentId c) (sv_scopeId c)) = Some latest"
    and "sc_seatAgentId latest \<noteq> Some (sv_actorAgentId c)"
    and "map_option ow_writerAgentId (sc_ownership latest) \<noteq> Some (sv_actorAgentId c)"
    and "activeRound (transitionStream l (sv_assignmentId c) (sv_scopeId c)) = Some round"
    and "sv_scopeRevision c = rd_scopeRevision round" and "\<not> reviewRoundStale E l c latest round"
    and "Some (sv_candidateSnapshot c) = rd_candidateSnapshot round"
    and "list_ex (\<lambda>q. req_axis q = sv_axis c \<and> req_lensId q = sv_lensId c) (requiredReviews latest)"
    and "apply_tables l p = l\<lparr>scopeReviews := scopeReviews l @ [reviewRow E l c round seat]\<rparr>"
proof -
  from assms obtain a seat latest round where f: "findAssignment l (sv_assignmentId c) = Some a" "a_state a = AS_open"
    "ot_agentId (effectiveOwner l a) \<noteq> sv_actorAgentId c"
    "find (\<lambda>s. seat_agentId s = sv_actorAgentId c) (a_seats a) = Some seat"
    "last_opt (declarationStream l (sv_assignmentId c) (sv_scopeId c)) = Some latest"
    "sc_seatAgentId latest \<noteq> Some (sv_actorAgentId c)"
    "map_option ow_writerAgentId (sc_ownership latest) \<noteq> Some (sv_actorAgentId c)"
    "activeRound (transitionStream l (sv_assignmentId c) (sv_scopeId c)) = Some round"
    "sv_scopeRevision c = rd_scopeRevision round" "\<not> reviewRoundStale E l c latest round"
    "Some (sv_candidateSnapshot c) = rd_candidateSnapshot round"
    "list_ex (\<lambda>q. req_axis q = sv_axis c \<and> req_lensId q = sv_lensId c) (requiredReviews latest)"
    and p: "p = no_tables\<lparr>p_scopeReviews := Some (scopeReviews l @ [reviewRow E l c round seat])\<rparr>"
    unfolding scope_Inr decideScopeReview_Inr Let_def by blast
  have "apply_tables l p = l\<lparr>scopeReviews := scopeReviews l @ [reviewRow E l c round seat]\<rparr>"
    by (simp add: p apply_tables_def no_tables_def)
  with that f show ?thesis by blast
qed

text \<open>The row a declaration appends is linked to the latest one of its stream.\<close>

lemma scopeRow_linked:
  assumes "scopeKeyOk l (sd_assignmentId c) (sd_scopeId c)"
  shows "sc_priorRevision (scopeRow l m a c plan) =
    (if sc_revision (scopeRow l m a c plan) = 1 then None else Some (sc_revision (scopeRow l m a c plan) - 1))"
proof (cases "last_opt (declarationStream l (sd_assignmentId c) (sd_scopeId c))")
  case None
  then show ?thesis by (simp add: scopeRow_def Let_def declared.current_def)
next
  case (Some latest)
  then have "latest \<in> set (declarationStream l (sd_assignmentId c) (sd_scopeId c))" by (rule last_opt_SomeD)
  then have "0 < sc_revision latest"
    using declared.numbered_le [of l "(sd_assignmentId c, sd_scopeId c)" latest] assms by (simp add: scopeKeyOk_alt)
  with Some show ?thesis by (simp add: scopeRow_def Let_def declared.current_def)
qed

lemma afterDeclare_history:
  assumes h: "scopeHistoryOk l"
  shows "scopeHistoryOk (afterDeclare E l m c (scopeRow l m a c plan))"
  unfolding scopeHistoryOk_def
proof (intro allI)
  fix x y
  let ?row = "scopeRow l m a c plan" and ?t = "declareTransition E m c (scopeRow l m a c plan)"
  let ?aid = "sd_assignmentId c" and ?sid = "sd_scopeId c"
  have k: "\<And>x y. scopeKeyOk l x y" using h by (simp add: scopeHistoryOk_def)
  note pushed = push_scope_key [OF k [of ?aid ?sid], of ?row, simplified]
  show "scopeKeyOk (afterDeclare E l m c ?row) x y"
  proof (cases "x = ?aid \<and> y = ?sid")
    case False
    then show ?thesis using k by (auto simp: afterDeclare_def keyOk_push_transition_other keyOk_push_scope_other)
  next
    case True
    show ?thesis
    proof (cases "sc_revision ?row = 1")
      case True
      then have "declarationStream l ?aid ?sid = []"
        using k [of ?aid ?sid] declared.current_length [of l "(?aid, ?sid)"] by (simp add: scopeKeyOk_alt)
      then have e: "transitionStream l ?aid ?sid = []" using k [of ?aid ?sid] by (simp add: scopeKeyOk_alt)
      have "scopeKeyOk (pushTransition (pushScope l ?row) ?t) ?aid ?sid"
        using pushed e k [of ?aid ?sid] scopeRow_linked [OF k, of m a c plan]
        by (intro push_transition_key) (simp_all add: legal_row_def moved.current_def scopeKeyOk_alt)
      with True \<open>x = ?aid \<and> y = ?sid\<close> show ?thesis by (simp add: afterDeclare_def)
    next
      case False
      then have "transitionStream l ?aid ?sid \<noteq> []"
        using k [of ?aid ?sid] by (auto simp: scopeKeyOk_alt declared.current_def)
      then have "scopeKeyOk (pushScope l ?row) ?aid ?sid"
        using pushed k [of ?aid ?sid] scopeRow_linked [OF k, of m a c plan] by (simp add: scopeKeyOk_alt)
      with False \<open>x = ?aid \<and> y = ?sid\<close> show ?thesis by (simp add: afterDeclare_def)
    qed
  qed
qed

lemma scope_history_kept:
  assumes "decideDeskScope E l cmd = Inr (evs, p)" and h: "scopeHistoryOk l"
  shows "scopeHistoryOk (apply_tables l p)"
proof (cases cmd)
  case (Scope_declare c)
  with assms(1) obtain m a plan where "apply_tables l p = afterDeclare E l m c (scopeRow l m a c plan)"
    using declare_facts [of E l c evs p] by metis
  with afterDeclare_history [OF h] show ?thesis by simp
next
  case (Scope_review c)
  with assms(1) obtain round seat where "apply_tables l p = l\<lparr>scopeReviews := scopeReviews l @ [reviewRow E l c round seat]\<rparr>"
    using review_facts [of E l c evs p] by metis
  with h show ?thesis by (simp add: scopeHistoryOk_def scopeKeyOk_def declarationStream_def transitionStream_def)
next
  case (Scope_transition c)
  let ?aid = "st_assignmentId c" and ?sid = "st_scopeId c"
  from Scope_transition assms(1) obtain m latest current to pin discharged where
      d: "last_opt (declarationStream l ?aid ?sid) = Some latest"
    and t: "last_opt (transitionStream l ?aid ?sid) = Some current"
    and e: "scopeTransitionEdge (tr_to current) (Row_command (st_transition c)) = Some to"
    and p: "apply_tables l p = pushTransition l (transitionRow E l m c latest (tr_to current) to pin discharged)"
    using transition_facts [of E l c evs p] by metis
  let ?row = "transitionRow E l m c latest (tr_to current) to pin discharged"
  have k: "\<And>x y. scopeKeyOk l x y" using h by (simp add: scopeHistoryOk_def)
  have "scopeKeyOk (pushTransition l ?row) ?aid ?sid"
    using k [of ?aid ?sid] d t e by (intro push_transition_key) (auto simp: scopeKeyOk_alt legal_row_def)
  moreover have "\<not> (x = ?aid \<and> y = ?sid) \<Longrightarrow> scopeKeyOk (pushTransition l ?row) x y" for x y
    using k by (subst keyOk_push_transition_other) auto
  ultimately show ?thesis unfolding p scopeHistoryOk_def by metis
qed

text \<open>C4. The scope history is an invariant: whatever scope command is accepted, every scope's declarations
  and transitions stay numbered 1..N without gaps, every declaration names the one before it as its
  prior revision (the first one none), and the transitions stay one legal run of the scope machine,
  opened by the declaration.\<close>

theorem scope_history_preserved:
  assumes "decideDeskScope E l cmd = Inr (evs, p)" and h: "scopeHistoryOk l"
  shows "scopeHistoryOk (apply_tables l p)"
  using assms by (rule scope_history_kept)

lemma demo_history: "scopeHistoryOk demo_ledger"
  by (simp add: scopeHistoryOk_def scopeKeyOk_def declarationStream_def transitionStream_def)

lemma scope_history_preserved_witness:
  "\<exists>evs p. decideDeskScope demo_env demo_ledger (Scope_declare demo_declare) = Inr (evs, p) \<and>
     scopeHistoryOk (apply_tables demo_ledger p)"
  using demo_declares [of demo_env] scope_history_preserved [OF _ demo_history] by blast

subsection \<open>What a state implies about its past\<close>

lemma scope_walk_crosses:
  assumes "legalChain (Some s) rs" and "chainEnd (Some s) rs = Some t" and "s \<in> X" and "t \<notin> X"
    and "\<And>u k v. u \<in> X \<Longrightarrow> scopeTransitionEdge u k = Some v \<Longrightarrow> k \<noteq> Row_command c \<Longrightarrow> v \<in> X"
  shows "\<exists>r \<in> set rs. tr_command r = Row_command c"
  using scope_machine.rows_cross [OF assms(1-4), of "Row_command c"] assms(5) by simp

lemma scope_row_edges:
  "scopeTransitionEdge u k = Some v \<longleftrightarrow>
     (k = Row_task_cancel \<and> u \<noteq> SS_closed \<and> v = SS_closed) \<or> (\<exists>c. k = Row_command c \<and> (u, c, v) \<in> set SCOPE_TRANSITIONS)"
proof (cases k)
  case (Row_command c)
  then show ?thesis by (simp only: scope_edge_iff scope_row_command.distinct scope_row_command.inject) blast
qed auto

lemma submit_target:
  "scopeTransitionEdge u (Row_command SC_submit_for_review) = Some v \<Longrightarrow> v = SS_submitted_for_review"
  by (simp only: scope_edge_iff) (auto simp: SCOPE_TRANSITIONS_def)

lemma submit_needed:
  assumes "legalChain (Some s) rs" and "chainEnd (Some s) rs = Some t"
    and "s \<in> {SS_declared, SS_claimed, SS_closed}" and "t \<notin> {SS_declared, SS_claimed, SS_closed}"
  shows "\<exists>r \<in> set rs. tr_command r = Row_command SC_submit_for_review"
  using assms by (rule scope_walk_crosses) (auto simp: scope_row_edges SCOPE_TRANSITIONS_def)

lemma observe_needed:
  assumes "legalChain (Some s) rs" and "chainEnd (Some s) rs = Some t"
    and "s \<in> {SS_submitted_for_review, SS_rejected, SS_advanced, SS_closed}"
    and "t \<notin> {SS_submitted_for_review, SS_rejected, SS_advanced, SS_closed}"
    and "\<forall>r \<in> set rs. tr_command r \<noteq> Row_command SC_submit_for_review"
  shows "\<exists>r \<in> set rs. tr_command r = Row_command SC_review_observed"
  using assms(1-4) by (rule scope_walk_crosses) (auto simp: scope_row_edges SCOPE_TRANSITIONS_def)

text \<open>C13. No approval without a review of the candidate in question: when a scope stands approved, its latest
  submission for review was followed by a review-observed transition.\<close>

theorem approved_was_observed:
  assumes "scopeHistoryOk l" and "scopeMachineState l aid sid = SS_approved"
  shows "\<exists>pre sub mid obs post. transitionStream l aid sid = pre @ sub # mid @ obs # post \<and>
    tr_command sub = Row_command SC_submit_for_review \<and> tr_command obs = Row_command SC_review_observed \<and>
    (\<forall>r \<in> set (mid @ obs # post). tr_command r \<noteq> Row_command SC_submit_for_review)"
proof -
  let ?s = "transitionStream l aid sid" and ?sub = "\<lambda>r. tr_command r = Row_command SC_submit_for_review"
  have legal: "legalChain None ?s" using assms(1) by (simp add: scopeHistoryOk_def scopeKeyOk_def)
  have fin: "chainEnd None ?s = Some SS_approved"
    using assms(2) by (auto simp: scopeMachineState_def rows_end_def split: option.splits)
  then obtain r0 rest where s: "?s = r0 # rest" by (cases ?s) auto
  with legal fin have l0: "legalChain (Some SS_declared) rest" and f0: "chainEnd (Some SS_declared) rest = Some SS_approved"
    by (auto simp: legal_row_def)
  from submit_needed [OF l0 f0] have "\<exists>r \<in> set ?s. ?sub r" using s by auto
  then obtain pre sub post where d: "?s = pre @ sub # post" and sub: "?sub sub" and no: "\<forall>r \<in> set post. \<not> ?sub r"
    using split_list_last_prop [of ?s ?sub] by blast
  from legal d have "legalStep (chainEnd None pre) sub" and lp: "legalChain (Some (tr_to sub)) post"
    by (simp_all add: legal_rows_append)
  then have t: "tr_to sub = SS_submitted_for_review"
    using sub submit_target by (auto simp: legal_row_def simp del: scopeTransitionEdge.simps split: option.splits)
  have "chainEnd (Some (tr_to sub)) post = Some SS_approved" using fin d by (simp add: rows_end_append)
  from observe_needed [OF lp this] t no obtain obs where "obs \<in> set post" and "tr_command obs = Row_command SC_review_observed"
    by auto
  then obtain mid post' where "post = mid @ obs # post'" by (meson split_list)
  with d sub no \<open>tr_command obs = _\<close> show ?thesis by blast
qed

lemma approved_was_observed_witness:
  "scopeMachineState demo_approved ''asg'' ''s1'' = SS_approved \<and>
   (\<exists>pre sub mid obs post. transitionStream demo_approved ''asg'' ''s1'' = pre @ sub # mid @ obs # post \<and>
      tr_command sub = Row_command SC_submit_for_review \<and> tr_command obs = Row_command SC_review_observed)"
proof -
  have s: "scopeMachineState demo_approved ''asg'' ''s1'' = SS_approved"
    by (simp add: scopeMachineState_def demo_approved_streams demo_rows_def demo_step_def)
  have "scopeHistoryOk demo_approved"
    unfolding scopeHistoryOk_def
  proof (intro allI)
    fix a s
    show "scopeKeyOk demo_approved a s"
    proof (cases "a = ''asg'' \<and> s = ''s1''")
      case True
      then show ?thesis
        by (simp add: scopeKeyOk_def demo_approved_streams demo_rows_def legal_row_def demo_step_def SCOPE_TRANSITIONS_def)
    next
      case False
      then show ?thesis by (simp add: scopeKeyOk_def demo_approved_other)
    qed
  qed
  from s approved_was_observed [OF this s] show ?thesis by blast
qed

end
