(* ===== verification/Desk_Scope_Review.thy ===== *)
theory Desk_Scope_Review
  imports Desk_Scope_History
begin

text \<open>
  Review gates: which observations discharge a gated transition, who may write an observation, and
  which candidate a review round binds.
\<close>

subsection \<open>Discharges\<close>

lemma reviewOrder_key:
  "reviewOrder E l a b \<le> 0 \<Longrightarrow> reviewEventSeq l a \<le> reviewEventSeq l b"
  "\<not> reviewOrder E l a b \<le> 0 \<Longrightarrow> reviewEventSeq l b \<le> reviewEventSeq l a"
  by (auto simp: reviewOrder_def Let_def split: if_splits)

lemma latest_review:
  assumes "last_opt (sort_by (reviewOrder E l) rs) = Some r"
  shows "r \<in> set rs" and "x \<in> set rs \<Longrightarrow> reviewEventSeq l x \<le> reviewEventSeq l r"
proof -
  show "r \<in> set rs" using last_opt_SomeD [OF assms] by simp
  have "sorted (map (reviewEventSeq l) (sort_by (reviewOrder E l) rs))"
    by (rule sort_by_sorted [of "reviewOrder E l"]) (rule reviewOrder_key, assumption)+
  then show "x \<in> set rs \<Longrightarrow> reviewEventSeq l x \<le> reviewEventSeq l r"
    using last_sorted_max [OF _ assms, of "reviewEventSeq l" x] by simp
qed

definition carries :: "ledger \<Rightarrow> scope_review list \<Rightarrow> review_requirement \<Rightarrow> scope_discharge \<Rightarrow> bool" where
  \<comment> \<open>the discharge names the latest eligible observation that meets the requirement\<close>
  "carries l eligible required d \<longleftrightarrow>
     (\<exists>r \<in> set eligible. meets r required \<and> d = dischargeOf required (rv_reviewId r) \<and>
        (\<forall>x \<in> set eligible. meets x required \<longrightarrow> reviewEventSeq l x \<le> reviewEventSeq l r))"

lemma dischargeAll_carries:
  "dischargeAll E l eligible required = Some ds \<Longrightarrow> list_all2 (carries l eligible) required ds"
proof (induction required arbitrary: ds)
  case (Cons q qs)
  from Cons.prems obtain r ds' where r: "last_opt (sort_by (reviewOrder E l) (filter (\<lambda>r. meets r q) eligible)) = Some r"
    and d: "dischargeAll E l eligible qs = Some ds'" "ds = dischargeOf q (rv_reviewId r) # ds'"
    by (auto split: option.splits)
  have "carries l eligible q (dischargeOf q (rv_reviewId r))"
    using latest_review [OF r] by (auto simp: carries_def)
  with Cons.IH [OF d(1)] d(2) show ?case by simp
qed simp

lemma last_sorted_find:
  fixes k :: "'a \<Rightarrow> nat"
  assumes "last_opt rows = Some r"
  shows "find (\<lambda>x. k x = k r) rows \<noteq> None"
  using last_opt_SomeD [OF assms] by (auto simp: find_None_iff)

lemma qualification_active:
  "rq_activeRound (currentScopeReviewQualification E l a sid b) = activeRound (transitionStream l (a_assignmentId a) sid)"
  by (simp add: currentScopeReviewQualification_def Let_def)

lemma qualification_discharged:
  assumes "rq_discharged (currentScopeReviewQualification E l a sid b) = Some ds"
    and "last_opt (declarationStream l (a_assignmentId a) sid) = Some d"
    and "activeRound (transitionStream l (a_assignmentId a) sid) = Some r"
  shows "dischargeAll E l (eligibleReviews l (a_assignmentId a) sid r d (currentReviewExclusions l a d)) (requiredReviews d) = Some ds"
  using assms by (auto simp: currentScopeReviewQualification_def qualifyRoundReviews_def Let_def split: if_splits)

lemma resolveGate_Inr:
  assumes "resolveGate E l a declarations latest c = Inr ds" and "st_transition c \<in> set SCOPE_REVIEW_GATED_COMMANDS"
    and "last_opt (declarationStream l (a_assignmentId a) (st_scopeId c)) = Some latest"
  obtains round where "activeRound (transitionStream l (a_assignmentId a) (st_scopeId c)) = Some round"
    and "rd_scopeRevision round = sc_revision latest"
    and "rd_briefRevision round = currentBriefRevision l (st_assignmentId c)"
    and "rd_mandateSha256 round = mandateDigest E latest"
    and "list_all2 (carries l (eligibleReviews l (a_assignmentId a) (st_scopeId c) round latest (currentReviewExclusions l a latest)))
          (requiredReviews latest) ds"
proof -
  let ?q = "currentScopeReviewQualification E l a (st_scopeId c) False"
  from assms(1,2) obtain round where r: "rq_activeRound ?q = Some round" "rd_scopeRevision round = sc_revision latest"
    "rd_briefRevision round = currentBriefRevision l (st_assignmentId c)" "rd_mandateSha256 round = mandateDigest E latest"
    and d: "rq_discharged ?q = Some ds"
    by (auto simp: resolveGate_def Let_def accepted)
  have a: "activeRound (transitionStream l (a_assignmentId a) (st_scopeId c)) = Some round"
    using r(1) by (simp add: qualification_active)
  from dischargeAll_carries [OF qualification_discharged [OF d assms(3) a]] a r that show ?thesis by blast
qed

definition independentOf :: "ledger \<Rightarrow> assignment \<Rightarrow> scope \<Rightarrow> string \<Rightarrow> bool" where
  \<comment> \<open>neither the effective owner of the assignment nor the declared writer of the scope\<close>
  "independentOf l a declaration agent \<longleftrightarrow>
     agent \<noteq> ot_agentId (effectiveOwner l a) \<and>
     map_option ow_writerAgentId (sc_ownership declaration) \<noteq> Some agent"

lemma eligible_iff:
  "r \<in> set (eligibleReviews l aid sid round d (currentReviewExclusions l a d)) \<longleftrightarrow>
   r \<in> set (scopeReviews l) \<and> rv_assignmentId r = aid \<and> rv_scopeId r = sid \<and> boundTo round r \<and>
   independentOf l a d (rv_reviewerAgentId r) \<and> list_ex (meets r) (requiredReviews d)"
  by (cases "sc_ownership d") (auto simp: eligibleReviews_def currentReviewExclusions_def independentOf_def)

text \<open>C1. The review gate is complete and independent: an accepted review-observed, approve, advance or
  close commits one discharge per review the current plan requires, in order; each names the
  latest recorded observation on that axis or lens that is pinned to exactly the active round (its
  declaration revision, brief, mandate and candidate) and was written by neither the current owner
  nor the scope's writer.\<close>

theorem gated_transition_discharges:
  assumes "decideDeskScope E l (Scope_transition c) = Inr (evs, p)"
    and "st_transition c \<in> set SCOPE_REVIEW_GATED_COMMANDS"
  shows "\<exists>a latest round row. findAssignment l (st_assignmentId c) = Some a \<and>
    last_opt (declarationStream l (st_assignmentId c) (st_scopeId c)) = Some latest \<and>
    activeRound (transitionStream l (st_assignmentId c) (st_scopeId c)) = Some round \<and>
    rd_scopeRevision round = sc_revision latest \<and> rd_mandateSha256 round = mandateDigest E latest \<and>
    rd_briefRevision round = currentBriefRevision l (st_assignmentId c) \<and>
    scopeTransitions (apply_tables l p) = scopeTransitions l @ [row] \<and>
    list_all2 (\<lambda>required d. \<exists>r \<in> set (scopeReviews l). d = dischargeOf required (rv_reviewId r) \<and>
        meets r required \<and> rv_assignmentId r = st_assignmentId c \<and> rv_scopeId r = st_scopeId c \<and>
        boundTo round r \<and> independentOf l a latest (rv_reviewerAgentId r))
      (requiredReviews latest) (tr_discharged row)"
proof -
  from assms(1) obtain m a latest and current :: scope_transition and to pin ds where a: "findAssignment l (st_assignmentId c) = Some a"
    "a_assignmentId a = st_assignmentId c"
    and d: "last_opt (declarationStream l (st_assignmentId c) (st_scopeId c)) = Some latest"
    and g: "resolveGate E l a (declarationStream l (st_assignmentId c) (st_scopeId c)) latest c = Inr ds"
    and p: "apply_tables l p = pushTransition l (transitionRow E l m c latest (tr_to current) to pin ds)"
    by (rule transition_facts) (rule that)
  from resolveGate_Inr [OF g assms(2)] a d obtain round where
      r: "activeRound (transitionStream l (st_assignmentId c) (st_scopeId c)) = Some round"
      "rd_scopeRevision round = sc_revision latest" "rd_briefRevision round = currentBriefRevision l (st_assignmentId c)"
      "rd_mandateSha256 round = mandateDigest E latest"
    and c: "list_all2 (carries l (eligibleReviews l (st_assignmentId c) (st_scopeId c) round latest (currentReviewExclusions l a latest)))
          (requiredReviews latest) ds" by metis
  have "list_all2 (\<lambda>required d. \<exists>r \<in> set (scopeReviews l). d = dischargeOf required (rv_reviewId r) \<and>
        meets r required \<and> rv_assignmentId r = st_assignmentId c \<and> rv_scopeId r = st_scopeId c \<and>
        boundTo round r \<and> independentOf l a latest (rv_reviewerAgentId r)) (requiredReviews latest) ds"
    by (rule list_all2_mono [OF c]) (auto simp: carries_def eligible_iff)
  with a d r p show ?thesis by (intro exI [of _ a] exI [of _ latest] exI [of _ round]) (simp add: pushTransition_def)
qed

definition demo_observe :: scope_transition_command where
  "demo_observe = \<lparr>st_requestId = ''o1'', st_actorAgentId = ''lead1'', st_assignmentId = ''asg'', st_scopeId = ''s1'',
     st_transition = SC_review_observed, st_scopeRevision = 1, st_candidateSnapshot = None, st_candidateHead = None,
     st_briefRevision = None\<rparr>"

definition demo_review_command :: scope_review_command where
  "demo_review_command = \<lparr>sv_requestId = ''v1'', sv_actorAgentId = ''peer2'', sv_assignmentId = ''asg'', sv_scopeId = ''s1'',
     sv_scopeRevision = 1, sv_candidateSnapshot = demo_sha, sv_axis = Some Axis_spec, sv_lensId = None,
     sv_briefRevision = None, sv_verdict = Verdict_approve, sv_findingsRef = None\<rparr>"

lemma demo_observe_sel [simp]:
  "st_actorAgentId demo_observe = ''lead1''" "st_assignmentId demo_observe = ''asg''" "st_scopeId demo_observe = ''s1''"
  "st_transition demo_observe = SC_review_observed" "st_scopeRevision demo_observe = 1"
  "st_candidateSnapshot demo_observe = None" "st_candidateHead demo_observe = None" "st_briefRevision demo_observe = None"
  "scope_transition_ok demo_observe"
  by (simp_all add: demo_observe_def scope_transition_ok_def between_len_def desk_defs)

lemma demo_review_command_sel [simp]:
  "sv_actorAgentId demo_review_command = ''peer2''" "sv_assignmentId demo_review_command = ''asg''"
  "sv_scopeId demo_review_command = ''s1''" "sv_scopeRevision demo_review_command = 1"
  "sv_candidateSnapshot demo_review_command = demo_sha" "sv_axis demo_review_command = Some Axis_spec"
  "sv_lensId demo_review_command = None" "sv_briefRevision demo_review_command = None"
  "scope_review_ok demo_review_command"
  by (simp_all add: demo_review_command_def scope_review_ok_def between_len_def desk_defs)

definition demo_round :: round_pin where
  "demo_round = \<lparr>rd_scopeRevision = 1, rd_candidateSnapshot = Some demo_sha, rd_candidateHead = None,
     rd_briefRevision = 0, rd_mandateSha256 = None\<rparr>"

lemma demo_active [simp]: "activeRound demo_rows = Some demo_round"
  by (simp add: activeRound_def demo_rows_def roundStep_def demo_step_def pinOf_def demo_round_def)

lemma demo_mandate [simp]: "mandateDigest E demo_scope = None"
  by (simp add: mandateDigest_def planSha256_def)

lemma demo_required [simp]: "requiredReviews demo_scope = [Req_axis Axis_spec, Req_axis Axis_standards]"
  by (simp add: requiredReviews_def SCOPE_REVIEW_AXES_def)

lemma demo_reviewed_tables [simp]:
  "ownershipAccepts demo_reviewed = []" "memberships demo_reviewed = memberships demo_ledger"
  "assignments demo_reviewed = [demo_assignment]" "briefRevisions demo_reviewed = []"
  "scopeReviews demo_reviewed = [demo_review ''v1'' Axis_spec, demo_review ''v2'' Axis_standards]"
  "ownershipAccepts demo_submitted = []" "memberships demo_submitted = memberships demo_ledger"
  "assignments demo_submitted = [demo_assignment]" "briefRevisions demo_submitted = []" "scopeReviews demo_submitted = []"
  by (simp_all add: demo_reviewed_def demo_submitted_def)

lemma demo_exclusions: "currentReviewExclusions demo_reviewed demo_assignment demo_scope = [''lead1'', ''peer1'']"
  by (simp add: currentReviewExclusions_def)

lemma demo_eligible:
  "eligibleReviews demo_reviewed ''asg'' ''s1'' demo_round demo_scope [''lead1'', ''peer1''] =
     [demo_review ''v1'' Axis_spec, demo_review ''v2'' Axis_standards]"
  by (simp add: eligibleReviews_def demo_review_def boundTo_def demo_round_def meets_def)

lemma demo_discharged:
  "rq_discharged (currentScopeReviewQualification E demo_reviewed demo_assignment ''s1'' False) = Some demo_discharge"
proof -
  have q: "qualifyRoundReviews E demo_reviewed ''asg'' ''s1'' demo_round demo_scope [''lead1'', ''peer1''] =
      ([''v1'', ''v2''], Some demo_discharge)"
    by (simp add: qualifyRoundReviews_def demo_eligible) (simp add: demo_review_def meets_def sort_by_def demo_discharge_def)
  show ?thesis
    by (simp add: currentScopeReviewQualification_def Let_def demo_submitted_streams demo_exclusions q)
      (simp add: demo_round_def)
qed

lemma demo_observes: "\<exists>evs p. decideDeskScope demo_env demo_reviewed (Scope_transition demo_observe) = Inr (evs, p)"
proof -
  have edge: "scopeTransitionEdge SS_submitted_for_review (Row_command SC_review_observed) = Some SS_review_observed"
    by (simp only: scope_edge_iff) (simp add: SCOPE_TRANSITIONS_def)
  have cur: "last_opt demo_rows = Some (demo_step 3 (Row_command SC_submit_for_review) (Some SS_claimed) SS_submitted_for_review (Some demo_sha) [])"
    by (simp add: demo_rows_def)
  have "resolveGate demo_env demo_reviewed demo_assignment [demo_scope] demo_scope demo_observe = Inr demo_discharge"
    by (simp add: resolveGate_def demo_discharged qualification_active demo_submitted_streams SCOPE_REVIEW_GATED_COMMANDS_def)
      (simp add: demo_round_def)
  then have "\<exists>evs p. decideTransition demo_env demo_reviewed (demo_member ''m1'' ''lead1'' Role_lead) demo_assignment demo_observe = Inr (evs, p)"
    using edge cur by (simp add: decideTransition_Inr demo_submitted_streams resolveCandidatePin_def briefPinOk_def Let_def
        del: scopeTransitionEdge.simps) (simp add: demo_step_def del: scopeTransitionEdge.simps)
  with demo_scope_owner [of demo_reviewed] show ?thesis by (auto simp: scope_Inr)
qed

lemma gated_transition_discharges_witness:
  "\<exists>evs p latest row. decideDeskScope demo_env demo_reviewed (Scope_transition demo_observe) = Inr (evs, p) \<and>
     last_opt (declarationStream demo_reviewed ''asg'' ''s1'') = Some latest \<and>
     scopeTransitions (apply_tables demo_reviewed p) = scopeTransitions demo_reviewed @ [row] \<and>
     length (tr_discharged row) = length (requiredReviews latest)"
proof -
  obtain evs p where d: "decideDeskScope demo_env demo_reviewed (Scope_transition demo_observe) = Inr (evs, p)"
    using demo_observes by blast
  have "st_transition demo_observe \<in> set SCOPE_REVIEW_GATED_COMMANDS" by (simp add: SCOPE_REVIEW_GATED_COMMANDS_def)
  from gated_transition_discharges [OF d this] show ?thesis using d by (auto dest!: list_all2_lengthD)
qed

subsection \<open>Who may observe\<close>

lemma reviewRow_sel [simp]:
  "rv_reviewerAgentId (reviewRow E l c round seat) = sv_actorAgentId c" "rv_axis (reviewRow E l c round seat) = sv_axis c"
  "rv_lensId (reviewRow E l c round seat) = sv_lensId c" "rv_scopeRevision (reviewRow E l c round seat) = sv_scopeRevision c"
  "rv_candidateSnapshot (reviewRow E l c round seat) = sv_candidateSnapshot c"
  "rv_briefRevision (reviewRow E l c round seat) = rd_briefRevision round"
  "rv_mandateSha256 (reviewRow E l c round seat) = rd_mandateSha256 round"
  by (simp_all add: reviewRow_def)

text \<open>C12. Nobody reviews their own work: an accepted observation comes from a seat of the open assignment that
  is neither its effective owner, nor the scope's bound seat, nor its declared writer; the recorded
  row is pinned to the active round, which is current, and answers a requirement of the plan.\<close>

theorem review_is_independent:
  assumes "decideDeskScope E l (Scope_review c) = Inr (evs, p)"
  shows "\<exists>a latest round row. findAssignment l (sv_assignmentId c) = Some a \<and> a_state a = AS_open \<and>
    last_opt (declarationStream l (sv_assignmentId c) (sv_scopeId c)) = Some latest \<and>
    activeRound (transitionStream l (sv_assignmentId c) (sv_scopeId c)) = Some round \<and>
    scopeReviews (apply_tables l p) = scopeReviews l @ [row] \<and> rv_reviewerAgentId row = sv_actorAgentId c \<and>
    sv_actorAgentId c \<in> seat_agentId ` set (a_seats a) \<and> independentOf l a latest (sv_actorAgentId c) \<and>
    sc_seatAgentId latest \<noteq> Some (sv_actorAgentId c) \<and>
    rd_scopeRevision round = sc_revision latest \<and> rd_mandateSha256 round = mandateDigest E latest \<and>
    rd_briefRevision round = currentBriefRevision l (sv_assignmentId c) \<and>
    boundTo round row \<and> list_ex (meets row) (requiredReviews latest)"
proof -
  from assms obtain a seat latest round where f: "findAssignment l (sv_assignmentId c) = Some a" "a_state a = AS_open"
    "ot_agentId (effectiveOwner l a) \<noteq> sv_actorAgentId c"
    "find (\<lambda>s. seat_agentId s = sv_actorAgentId c) (a_seats a) = Some seat"
    "last_opt (declarationStream l (sv_assignmentId c) (sv_scopeId c)) = Some latest"
    "sc_seatAgentId latest \<noteq> Some (sv_actorAgentId c)"
    "map_option ow_writerAgentId (sc_ownership latest) \<noteq> Some (sv_actorAgentId c)"
    "activeRound (transitionStream l (sv_assignmentId c) (sv_scopeId c)) = Some round"
    "sv_scopeRevision c = rd_scopeRevision round" "\<not> reviewRoundStale E l c latest round"
    "Some (sv_candidateSnapshot c) = rd_candidateSnapshot round"
    "list_ex (\<lambda>q. req_axis q = sv_axis c \<and> req_lensId q = sv_lensId c) (requiredReviews latest)"
    and p: "apply_tables l p = l\<lparr>scopeReviews := scopeReviews l @ [reviewRow E l c round seat]\<rparr>"
    by (rule review_facts)
  let ?row = "reviewRow E l c round seat"
  have "sv_actorAgentId c \<in> seat_agentId ` set (a_seats a)" using find_SomeD [OF f(4)] by (metis imageI)
  moreover have "independentOf l a latest (sv_actorAgentId c)" using f(3,7) by (auto simp: independentOf_def)
  moreover have "boundTo round ?row" using f(9,11) by (simp add: boundTo_def)
  moreover have "list_ex (meets ?row) (requiredReviews latest)" using f(12) by (force simp: list_ex_iff meets_def)
  moreover have "rd_scopeRevision round = sc_revision latest \<and> rd_mandateSha256 round = mandateDigest E latest \<and>
      rd_briefRevision round = currentBriefRevision l (sv_assignmentId c)"
    using f(10) by (simp add: reviewRoundStale_def Let_def)
  ultimately show ?thesis using f(1,2,5,6,8) p
    by (intro exI [of _ a] exI [of _ latest] exI [of _ round] exI [of _ ?row]) simp
qed

lemma demo_reviews: "\<exists>evs p. decideDeskScope demo_env demo_submitted (Scope_review demo_review_command) = Inr (evs, p)"
proof -
  have live: "liveMembership demo_submitted ''peer2'' = Some (demo_member ''m4'' ''peer2'' Role_peer)"
    and a: "findAssignment demo_submitted ''asg'' = Some demo_assignment"
    using liveMembership_cong [of demo_submitted demo_ledger] findAssignment_cong [of demo_submitted demo_ledger] by simp_all
  have seat: "find (\<lambda>s. seat_agentId s = ''peer2'') (a_seats demo_assignment) = Some \<lparr>seat_agentId = ''peer2'', seat_membershipId = ''m4''\<rparr>"
    by (simp add: demo_assignment_def)
  have m: "find (\<lambda>m. m_membershipId m = ''m4'') (memberships demo_ledger) = Some (demo_member ''m4'' ''peer2'' Role_peer)"
    by (simp add: demo_defs)
  have "\<not> reviewRoundStale demo_env demo_submitted demo_review_command demo_scope demo_round"
    by (simp add: reviewRoundStale_def Let_def briefPinOk_def) (simp add: demo_round_def)
  moreover have "rd_scopeRevision demo_round = 1 \<and> rd_candidateSnapshot demo_round = Some demo_sha" by (simp add: demo_round_def)
  ultimately have "\<exists>evs p. decideScopeReview demo_env demo_submitted demo_review_command = Inr (evs, p)"
    using a seat m by (simp add: decideScopeReview_Inr demo_submitted_streams Let_def LIMIT_scopeReviews_def)
  with live show ?thesis by (auto simp: scope_Inr)
qed

lemma review_is_independent_witness:
  "\<exists>evs p row. decideDeskScope demo_env demo_submitted (Scope_review demo_review_command) = Inr (evs, p) \<and>
     scopeReviews (apply_tables demo_submitted p) = scopeReviews demo_submitted @ [row] \<and>
     rv_reviewerAgentId row = ''peer2''"
proof -
  obtain evs p where d: "decideDeskScope demo_env demo_submitted (Scope_review demo_review_command) = Inr (evs, p)"
    using demo_reviews by blast
  from review_is_independent [OF d] d show ?thesis by auto
qed

subsection \<open>Rounds bind observed candidates\<close>

lemma resolveCandidatePin_submit:
  assumes "resolveCandidatePin E l d c = Inr pin" and "st_transition c = SC_submit_for_review"
  obtains k where "k \<in> set (candidates l)" and "c_assignmentId k = st_assignmentId c"
    and "Some (c_snapshotSha256 k) = st_candidateSnapshot c" and "pin = (Some (c_snapshotSha256 k), c_head k)"
    and "sc_seatAgentId d \<noteq> None \<longrightarrow> sc_seatAgentId d = Some (c_seatAgentId k)"
    and "st_candidateHead c \<noteq> None \<longrightarrow> c_head k = st_candidateHead c"
    and "overlapProblem E l (st_assignmentId c) (st_scopeId c) (sc_ownership d) = None"
proof -
  from assms obtain s k where k: "st_candidateSnapshot c = Some s"
      "find (\<lambda>x. c_snapshotSha256 x = s \<and> c_assignmentId x = st_assignmentId c) (candidates l) = Some k"
    and r: "pin = (Some (c_snapshotSha256 k), c_head k)" "sc_seatAgentId d \<noteq> None \<longrightarrow> sc_seatAgentId d = Some (c_seatAgentId k)"
      "st_candidateHead c \<noteq> None \<longrightarrow> c_head k = st_candidateHead c"
      "overlapProblem E l (st_assignmentId c) (st_scopeId c) (sc_ownership d) = None"
    unfolding resolveCandidatePin_def by (auto simp: accepted)
  from find_SomeD [OF k(2)] k(1) r that show ?thesis by auto
qed

text \<open>A review round binds an observed candidate: an accepted submit-for-review opens a round whose pin is
  the snapshot and measured head of a recorded candidate of this assignment (of the bound seat,
  when the scope has one), under the current declaration, brief and mandate.\<close>

lemma submit_pins_candidate:
  assumes "decideDeskScope E l (Scope_transition c) = Inr (evs, p)" and "st_transition c = SC_submit_for_review"
    and "scopeHistoryOk l"
  shows "\<exists>latest. \<exists>k \<in> set (candidates l). last_opt (declarationStream l (st_assignmentId c) (st_scopeId c)) = Some latest \<and>
    c_assignmentId k = st_assignmentId c \<and>
    (sc_seatAgentId latest = None \<or> sc_seatAgentId latest = Some (c_seatAgentId k)) \<and>
    activeRound (transitionStream (apply_tables l p) (st_assignmentId c) (st_scopeId c)) = Some
      \<lparr>rd_scopeRevision = sc_revision latest, rd_candidateSnapshot = Some (c_snapshotSha256 k), rd_candidateHead = c_head k,
       rd_briefRevision = currentBriefRevision l (st_assignmentId c), rd_mandateSha256 = mandateDigest E latest\<rparr>"
proof -
  from assms(1) obtain m a latest and current :: scope_transition and to pin ds where
      d: "last_opt (declarationStream l (st_assignmentId c) (st_scopeId c)) = Some latest"
    and rp: "resolveCandidatePin E l latest c = Inr pin"
    and p: "apply_tables l p = pushTransition l (transitionRow E l m c latest (tr_to current) to pin ds)"
    by (rule transition_facts) (rule that)
  let ?row = "transitionRow E l m c latest (tr_to current) to pin ds"
  from assms(1) have "st_scopeRevision c = sc_revision latest" using d by (auto simp: scope_Inr decideTransition_Inr)
  moreover from resolveCandidatePin_submit [OF rp assms(2)] obtain k where k: "k \<in> set (candidates l)"
    "c_assignmentId k = st_assignmentId c" "pin = (Some (c_snapshotSha256 k), c_head k)"
    "sc_seatAgentId latest \<noteq> None \<longrightarrow> sc_seatAgentId latest = Some (c_seatAgentId k)" by metis
  moreover have "transitionStream (pushTransition l ?row) (st_assignmentId c) (st_scopeId c) =
      transitionStream l (st_assignmentId c) (st_scopeId c) @ [?row]"
    using moved.push_current [of l "(st_assignmentId c, st_scopeId c)" ?row] assms(3)
    by (simp add: scopeHistoryOk_def scopeKeyOk_alt)
  ultimately have "activeRound (transitionStream (pushTransition l ?row) (st_assignmentId c) (st_scopeId c)) = Some
      \<lparr>rd_scopeRevision = sc_revision latest, rd_candidateSnapshot = Some (c_snapshotSha256 k), rd_candidateHead = c_head k,
       rd_briefRevision = currentBriefRevision l (st_assignmentId c), rd_mandateSha256 = mandateDigest E latest\<rparr>"
    using assms(2) by (simp add: activeRound_def roundStep_def pinOf_def) (simp add: transitionRow_def)
  with d k p show ?thesis by auto
qed

lemma demo_candidate_sel [simp]:
  "candidates demo_submitted = [demo_candidate]" "c_snapshotSha256 demo_candidate = demo_sha"
  "c_assignmentId demo_candidate = ''asg''" "c_head demo_candidate = None"
  by (simp_all add: demo_submitted_def demo_candidate_def)

definition demo_submit :: scope_transition_command where
  "demo_submit = demo_observe\<lparr>st_requestId := ''o2'', st_transition := SC_submit_for_review, st_candidateSnapshot := Some demo_sha\<rparr>"

lemma demo_submit_sel [simp]:
  "st_actorAgentId demo_submit = ''lead1''" "st_assignmentId demo_submit = ''asg''" "st_scopeId demo_submit = ''s1''"
  "st_transition demo_submit = SC_submit_for_review" "st_scopeRevision demo_submit = 1"
  "st_candidateSnapshot demo_submit = Some demo_sha" "st_candidateHead demo_submit = None" "st_briefRevision demo_submit = None"
  "scope_transition_ok demo_submit"
  by (simp_all add: demo_submit_def) (simp add: demo_observe_def scope_transition_ok_def between_len_def desk_defs)

lemma demo_submitted_history: "scopeHistoryOk demo_submitted"
  unfolding scopeHistoryOk_def
proof (intro allI)
  fix a s
  show "scopeKeyOk demo_submitted a s"
  proof (cases "a = ''asg'' \<and> s = ''s1''")
    case True
    then show ?thesis
      by (simp add: scopeKeyOk_def demo_submitted_streams demo_rows_def legal_row_def demo_step_def SCOPE_TRANSITIONS_def)
  next
    case False
    then have "declarationStream demo_submitted a s = []" and "transitionStream demo_submitted a s = []"
      by (auto simp: declarationStream_def transitionStream_def demo_submitted_def demo_rows_def demo_step_def)
    then show ?thesis by (simp add: scopeKeyOk_def)
  qed
qed

lemma demo_latest_scopes: "scopes l = [demo_scope] \<Longrightarrow> latestScopeDeclarations l ''asg'' = [(''s1'', demo_scope)]"
  by (simp add: latestScopeDeclarations_def latestStep_def)

lemma demo_no_overlap: "overlapProblem E demo_submitted ''asg'' ''s1'' (Some demo_ownership) = None"
proof -
  have "latestScopeDeclarations demo_submitted ''asg'' = [(''s1'', demo_scope)]"
    by (rule demo_latest_scopes) (simp add: demo_submitted_def)
  then show ?thesis by (simp add: overlapProblem_def overlapConflicts_def sort_by_def)
qed

lemma demo_submits: "\<exists>evs p. decideDeskScope demo_env demo_submitted (Scope_transition demo_submit) = Inr (evs, p)"
proof -
  have edge: "scopeTransitionEdge SS_submitted_for_review (Row_command SC_submit_for_review) = Some SS_submitted_for_review"
    by (simp only: scope_edge_iff) (simp add: SCOPE_TRANSITIONS_def)
  have cur: "last_opt demo_rows = Some (demo_step 3 (Row_command SC_submit_for_review) (Some SS_claimed) SS_submitted_for_review (Some demo_sha) [])"
    by (simp add: demo_rows_def)
  have "resolveCandidatePin demo_env demo_submitted demo_scope demo_submit = Inr (Some demo_sha, None)"
    by (simp add: resolveCandidatePin_def demo_no_overlap)
  moreover have "resolveGate demo_env demo_submitted demo_assignment [demo_scope] demo_scope demo_submit = Inr []"
    by (simp add: resolveGate_def SCOPE_REVIEW_GATED_COMMANDS_def Let_def)
  ultimately have "\<exists>evs p. decideTransition demo_env demo_submitted (demo_member ''m1'' ''lead1'' Role_lead) demo_assignment demo_submit = Inr (evs, p)"
    using edge cur by (simp add: decideTransition_Inr demo_submitted_streams briefPinOk_def Let_def
        del: scopeTransitionEdge.simps) (simp add: demo_step_def del: scopeTransitionEdge.simps)
  with demo_scope_owner [of demo_submitted] show ?thesis by (auto simp: scope_Inr)
qed

lemma submit_pins_candidate_witness:
  "\<exists>evs p round. decideDeskScope demo_env demo_submitted (Scope_transition demo_submit) = Inr (evs, p) \<and>
     activeRound (transitionStream (apply_tables demo_submitted p) ''asg'' ''s1'') = Some round \<and>
     rd_candidateSnapshot round = Some demo_sha"
proof -
  obtain evs p where d: "decideDeskScope demo_env demo_submitted (Scope_transition demo_submit) = Inr (evs, p)"
    using demo_submits by blast
  have "\<forall>k \<in> set (candidates demo_submitted). c_snapshotSha256 k = demo_sha"
    by simp
  with submit_pins_candidate [OF d _ demo_submitted_history] d show ?thesis by auto
qed

end
