(* ===== verification/Desk_Scope_Exclusive.thy ===== *)
theory Desk_Scope_Exclusive
  imports Desk_Scope_Review
begin

text \<open>
  One writer per surface: the abstract promise behind \<open>validateOwnership\<close> and \<open>overlapProblem\<close>. Two
  different scopes that are moving on open assignments never claim overlapping paths, a common
  resource, state or module; and the dependencies declared inside an assignment never form a cycle.
\<close>

subsection \<open>The specification\<close>

definition clash :: "scope_ownership \<Rightarrow> scope_ownership \<Rightarrow> bool" where
  "clash a b \<longleftrightarrow>
     (\<exists>x \<in> set (ow_paths a). \<exists>y \<in> set (ow_paths b). workspacePathsOverlap x y) \<or>
     (\<exists>x \<in> set (ow_resources a). x \<in> set (ow_resources b)) \<or>
     (\<exists>x \<in> set (ow_stateOwners a). \<exists>y \<in> set (ow_stateOwners b). so_stateRef x = so_stateRef y \<or> so_moduleRef x = so_moduleRef y)"

definition openAssignment :: "ledger \<Rightarrow> string \<Rightarrow> bool" where
  "openAssignment l aid \<longleftrightarrow> (\<exists>a \<in> set (assignments l). a_assignmentId a = aid \<and> a_state a = AS_open)"

definition movingOwnership :: "ledger \<Rightarrow> string \<Rightarrow> string \<Rightarrow> scope_ownership option" where
  \<comment> \<open>the ownership of the scope's latest declaration while the scope is neither advanced nor closed\<close>
  "movingOwnership l aid sid =
     (case last_opt (declarationStream l aid sid) of
        None \<Rightarrow> None
      | Some d \<Rightarrow> if scopeMachineState l aid sid \<in> {SS_advanced, SS_closed} then None else sc_ownership d)"

definition exclusiveScopes :: "ledger \<Rightarrow> bool" where
  "exclusiveScopes l \<longleftrightarrow> (\<forall>aid sid aid' sid' ow ow'.
     (aid, sid) \<noteq> (aid', sid') \<and> openAssignment l aid \<and> openAssignment l aid' \<and>
     movingOwnership l aid sid = Some ow \<and> movingOwnership l aid' sid' = Some ow' \<longrightarrow> \<not> clash ow ow')"

lemma bex_swap:
  assumes "\<And>x y. R x y \<longleftrightarrow> R y x"
  shows "(\<exists>x \<in> A. \<exists>y \<in> B. R x y) \<longleftrightarrow> (\<exists>x \<in> B. \<exists>y \<in> A. R x y)"
  by (subst assms) blast

lemma clash_sym: "clash a b \<longleftrightarrow> clash b a"
proof -
  have p: "(\<exists>x \<in> set (ow_paths a). \<exists>y \<in> set (ow_paths b). workspacePathsOverlap x y) \<longleftrightarrow>
      (\<exists>x \<in> set (ow_paths b). \<exists>y \<in> set (ow_paths a). workspacePathsOverlap x y)"
    by (rule bex_swap) (rule workspacePathsOverlap_sym)
  have s: "(\<exists>x \<in> set (ow_stateOwners a). \<exists>y \<in> set (ow_stateOwners b). so_stateRef x = so_stateRef y \<or> so_moduleRef x = so_moduleRef y) \<longleftrightarrow>
      (\<exists>x \<in> set (ow_stateOwners b). \<exists>y \<in> set (ow_stateOwners a). so_stateRef x = so_stateRef y \<or> so_moduleRef x = so_moduleRef y)"
    by (rule bex_swap) auto
  show ?thesis unfolding clash_def p s by blast
qed

subsection \<open>Latest declarations\<close>

lemma latestStep_map_of:
  "map_of (latestStep m x) k = (if k = sc_scopeId x \<and> (case map_of m k of None \<Rightarrow> True | Some p \<Rightarrow> sc_revision p < sc_revision x)
     then Some x else map_of m k)"
  by (auto simp: latestStep_def split: option.split)

lemma latestStep_distinct: "distinct (map fst m) \<Longrightarrow> distinct (map fst (latestStep m x))"
  by (auto simp: latestStep_def split: option.split)

lemma foldl_latest:
  assumes "\<And>k. sorted_wrt (<) (map sc_revision (filter (\<lambda>r. sc_scopeId r = k) xs))"
  shows "map_of (foldl latestStep [] xs) k = last_opt (filter (\<lambda>r. sc_scopeId r = k) xs)"
    and "distinct (map fst (foldl latestStep [] xs))"
proof -
  have "(\<forall>k. map_of (foldl latestStep [] xs) k = last_opt (filter (\<lambda>r. sc_scopeId r = k) xs)) \<and>
      distinct (map fst (foldl latestStep [] xs))"
    using assms
  proof (induction xs rule: rev_induct)
    case (snoc x xs)
    have lt: "\<And>y. y \<in> set xs \<Longrightarrow> sc_scopeId y = sc_scopeId x \<Longrightarrow> sc_revision y < sc_revision x"
      using snoc.prems [of "sc_scopeId x"] by (auto simp: sorted_wrt_append)
    have "\<And>k. sorted_wrt (<) (map sc_revision (filter (\<lambda>r. sc_scopeId r = k) xs))"
      using snoc.prems by (auto simp: sorted_wrt_append)
    with snoc.IH have m: "\<And>k. map_of (foldl latestStep [] xs) k = last_opt (filter (\<lambda>r. sc_scopeId r = k) xs)"
      and d: "distinct (map fst (foldl latestStep [] xs))" by auto
    have "map_of (foldl latestStep [] (xs @ [x])) k = last_opt (filter (\<lambda>r. sc_scopeId r = k) (xs @ [x]))" for k
      using lt by (auto simp: latestStep_map_of m split: option.split dest: last_opt_SomeD)
    with latestStep_distinct [OF d] show ?case by simp
  qed simp
  then show "map_of (foldl latestStep [] xs) k = last_opt (filter (\<lambda>r. sc_scopeId r = k) xs)"
    and "distinct (map fst (foldl latestStep [] xs))" by auto
qed

lemma stream_of_rows:
  "filter (\<lambda>r. sc_scopeId r = sid) (sort_key sc_revision (filter (\<lambda>s. sc_assignmentId s = aid) (scopes l))) =
   declarationStream l aid sid"
proof -
  have "filter (\<lambda>r. sc_scopeId r = sid) (filter (\<lambda>s. sc_assignmentId s = aid) (scopes l)) =
      filter (\<lambda>s. sc_assignmentId s = aid \<and> sc_scopeId s = sid) (scopes l)"
    unfolding filter_filter by (rule filter_cong) auto
  then show ?thesis by (simp only: filter_sort declarationStream_def)
qed

lemma numbered_sorted:
  "declared.numbered l (aid, sid) \<Longrightarrow> sorted_wrt (<) (map sc_revision (declarationStream l aid sid))"
  by (simp add: declared.numbered_def del: upt_Suc)

lemma latest_declarations:
  assumes "scopeHistoryOk l"
  shows "map_of (latestScopeDeclarations l aid) sid = last_opt (declarationStream l aid sid)"
    and "distinct (map fst (latestScopeDeclarations l aid))"
proof -
  have "\<And>k. sorted_wrt (<) (map sc_revision (filter (\<lambda>r. sc_scopeId r = k)
      (sort_key sc_revision (filter (\<lambda>s. sc_assignmentId s = aid) (scopes l)))))"
    using assms numbered_sorted by (simp add: stream_of_rows scopeHistoryOk_def scopeKeyOk_alt)
  from foldl_latest [OF this] show "map_of (latestScopeDeclarations l aid) sid = last_opt (declarationStream l aid sid)"
    and "distinct (map fst (latestScopeDeclarations l aid))"
    by (simp_all add: latestScopeDeclarations_def stream_of_rows)
qed

lemma latest_values:
  assumes "scopeHistoryOk l"
  shows "d \<in> snd ` set (latestScopeDeclarations l aid) \<longleftrightarrow> (\<exists>sid. last_opt (declarationStream l aid sid) = Some d)"
proof -
  have "(k, d) \<in> set (latestScopeDeclarations l aid) \<longleftrightarrow> last_opt (declarationStream l aid k) = Some d" for k
    using latest_declarations [OF assms] by (metis map_of_eq_Some_iff)
  then show ?thesis by force
qed

lemma last_declaration_key:
  "last_opt (declarationStream l aid sid) = Some d \<Longrightarrow> sc_assignmentId d = aid \<and> sc_scopeId d = sid"
  by (auto simp: declarationStream_def dest!: last_opt_SomeD)

subsection \<open>\<open>overlapProblem\<close> decides the specification\<close>

lemma surfaceConflicts_Nil: "surfaceConflicts label a b = [] \<longleftrightarrow> \<not> clash a b"
  by (auto simp: surfaceConflicts_def clash_def)

lemma movingOwnership_Some:
  "movingOwnership l aid sid = Some ow \<longleftrightarrow> (\<exists>d. last_opt (declarationStream l aid sid) = Some d \<and> sc_ownership d = Some ow \<and>
     sc_scopeId d = sid \<and> scopeMachineState l (sc_assignmentId d) (sc_scopeId d) \<notin> {SS_advanced, SS_closed})"
  by (auto simp: movingOwnership_def dest: last_declaration_key split: option.splits if_splits)

lemma overlapConflicts_Nil:
  assumes "scopeHistoryOk l"
  shows "overlapConflicts E l aid sid own = [] \<longleftrightarrow>
    (\<forall>aid' sid' ow. openAssignment l aid' \<and> (aid', sid') \<noteq> (aid, sid) \<and> movingOwnership l aid' sid' = Some ow \<longrightarrow> \<not> clash own ow)"
proof -
  have "overlapConflicts E l aid sid own = [] \<longleftrightarrow>
    (\<forall>aid'. openAssignment l aid' \<longrightarrow> (\<forall>d \<in> snd ` set (latestScopeDeclarations l aid').
       (aid', sc_scopeId d) \<noteq> (aid, sid) \<longrightarrow> (\<forall>ow. sc_ownership d = Some ow \<longrightarrow>
         scopeMachineState l (sc_assignmentId d) (sc_scopeId d) \<notin> {SS_advanced, SS_closed} \<longrightarrow> \<not> clash own ow)))"
    unfolding overlapConflicts_def Let_def openAssignment_def concat_map_Nil set_sort_by set_map set_filter
    by (auto simp: surfaceConflicts_Nil split: option.splits if_splits)
  also have "\<dots> \<longleftrightarrow> (\<forall>aid' sid' ow. openAssignment l aid' \<and> (aid', sid') \<noteq> (aid, sid) \<and>
      movingOwnership l aid' sid' = Some ow \<longrightarrow> \<not> clash own ow)"
    unfolding latest_values [OF assms] Ball_def movingOwnership_Some by (blast dest: last_declaration_key)
  finally show ?thesis .
qed

subsection \<open>Exclusive ownership is an invariant\<close>

lemma exclusive_update:
  assumes ex: "exclusiveScopes l" and as: "assignments l' = assignments l"
    and other: "\<And>a s. (a, s) \<noteq> (aid, sid) \<Longrightarrow> movingOwnership l' a s = movingOwnership l a s"
    and key: "\<And>ow. movingOwnership l' aid sid = Some ow \<Longrightarrow> movingOwnership l aid sid = Some ow \<or>
       (\<forall>a s ow'. openAssignment l a \<and> (a, s) \<noteq> (aid, sid) \<and> movingOwnership l a s = Some ow' \<longrightarrow> \<not> clash ow ow')"
  shows "exclusiveScopes l'"
  unfolding exclusiveScopes_def
proof (intro allI impI)
  fix a s a' s' ow ow'
  assume h: "(a, s) \<noteq> (a', s') \<and> openAssignment l' a \<and> openAssignment l' a' \<and>
     movingOwnership l' a s = Some ow \<and> movingOwnership l' a' s' = Some ow'"
  have op: "openAssignment l x" if "openAssignment l' x" for x using that as by (simp add: openAssignment_def)
  have old: "(x, y) \<noteq> (x', y') \<Longrightarrow> openAssignment l x \<Longrightarrow> openAssignment l x' \<Longrightarrow> movingOwnership l x y = Some u \<Longrightarrow>
      movingOwnership l x' y' = Some v \<Longrightarrow> \<not> clash u v" for x y x' y' u v
    using ex unfolding exclusiveScopes_def by blast
  consider "(a, s) = (aid, sid)" | "(a', s') = (aid, sid)" | "(a, s) \<noteq> (aid, sid)" "(a', s') \<noteq> (aid, sid)" by blast
  then show "\<not> clash ow ow'"
  proof cases
    case 1
    then have o: "movingOwnership l a' s' = Some ow'" using h other by metis
    from 1 h have "movingOwnership l' aid sid = Some ow" by simp
    from key [OF this] show ?thesis
    proof (elim disjE)
      assume "movingOwnership l aid sid = Some ow"
      with 1 h o op show ?thesis using old [of a s a' s' ow ow'] by simp
    next
      assume k: "\<forall>a s ow'. openAssignment l a \<and> (a, s) \<noteq> (aid, sid) \<and> movingOwnership l a s = Some ow' \<longrightarrow> \<not> clash ow ow'"
      show ?thesis using k [rule_format, of a' s' ow'] 1 h o op by metis
    qed
  next
    case 2
    then have o: "movingOwnership l a s = Some ow" using h other by metis
    from 2 h have "movingOwnership l' aid sid = Some ow'" by simp
    from key [OF this] have "\<not> clash ow' ow"
    proof (elim disjE)
      assume "movingOwnership l aid sid = Some ow'"
      with 2 h o op show ?thesis using old [of a' s' a s ow' ow] by auto
    next
      assume k: "\<forall>a s ow'a. openAssignment l a \<and> (a, s) \<noteq> (aid, sid) \<and> movingOwnership l a s = Some ow'a \<longrightarrow> \<not> clash ow' ow'a"
      show ?thesis using k [rule_format, of a s ow] 2 h o op by metis
    qed
    then show ?thesis using clash_sym [of ow ow'] by simp
  next
    case 3
    then show ?thesis using old [of a s a' s' ow ow'] h other op by metis
  qed
qed

lemma moving_frame:
  "declarationStream l' a s = declarationStream l a s \<Longrightarrow> transitionStream l' a s = transitionStream l a s \<Longrightarrow>
   movingOwnership l' a s = movingOwnership l a s"
proof -
  assume d: "declarationStream l' a s = declarationStream l a s" and t: "transitionStream l' a s = transitionStream l a s"
  show ?thesis unfolding movingOwnership_def scopeMachineState_def d t by (rule refl)
qed

lemma afterDeclare_streams:
  assumes h: "scopeHistoryOk l"
  shows "(x, y) \<noteq> (sd_assignmentId c, sd_scopeId c) \<Longrightarrow>
      declarationStream (afterDeclare E l m c (scopeRow l m a c plan)) x y = declarationStream l x y \<and>
      transitionStream (afterDeclare E l m c (scopeRow l m a c plan)) x y = transitionStream l x y"
    and "last_opt (declarationStream (afterDeclare E l m c (scopeRow l m a c plan)) (sd_assignmentId c) (sd_scopeId c)) =
      Some (scopeRow l m a c plan)"
    and "assignments (afterDeclare E l m c (scopeRow l m a c plan)) = assignments l"
proof -
  let ?row = "scopeRow l m a c plan" and ?t = "declareTransition E m c (scopeRow l m a c plan)"
  let ?l = "afterDeclare E l m c ?row"
  have k: "scopeKeyOk l (sd_assignmentId c) (sd_scopeId c)" using h by (simp add: scopeHistoryOk_def)
  show "(x, y) \<noteq> (sd_assignmentId c, sd_scopeId c) \<Longrightarrow>
      declarationStream ?l x y = declarationStream l x y \<and> transitionStream ?l x y = transitionStream l x y"
    using declared.push_other [of ?row "(x, y)" l] moved.push_other [of ?t "(x, y)" "pushScope l ?row"]
    by (auto simp: afterDeclare_def)
  show "last_opt (declarationStream ?l (sd_assignmentId c) (sd_scopeId c)) = Some ?row"
    using push_scope_key(2) [OF k, of ?row] by (simp add: afterDeclare_def)
  show "assignments ?l = assignments l" by (simp add: afterDeclare_def pushScope_def pushTransition_def)
qed

lemma validateOwnership_None:
  assumes "validateOwnership E l a sid (Some ow) = None"
  shows "ownershipShapeProblem l a (Some ow) = None" and "dependencyProblem l (a_assignmentId a) sid (Some ow) = None"
    and "overlapConflicts E l (a_assignmentId a) sid ow = []"
  using assms by (auto simp: validateOwnership_def overlapProblem_def no_problem split: if_splits)

text \<open>C2. One writer per surface: among the scopes that are moving on open assignments, no two claim
  overlapping workspace paths, a common resource, or a common state or module. Every accepted scope
  command keeps this, resubmissions of an advanced scope included.\<close>

theorem scopes_stay_exclusive:
  assumes "decideDeskScope E l cmd = Inr (evs, p)" and h: "scopeHistoryOk l" and ex: "exclusiveScopes l"
  shows "exclusiveScopes (apply_tables l p)"
proof (cases cmd)
  case (Scope_declare c)
  let ?aid = "sd_assignmentId c" and ?sid = "sd_scopeId c"
  from Scope_declare assms(1) obtain m a plan where a: "a_assignmentId a = ?aid"
    and v: "validateOwnership E l a ?sid (sd_ownership c) = None"
    and p: "apply_tables l p = afterDeclare E l m c (scopeRow l m a c plan)"
    using declare_facts [of E l c evs p] by metis
  note st = afterDeclare_streams [OF h, where E = E and m = m and c = c and a = a and plan = plan]
  show ?thesis unfolding p
  proof (rule exclusive_update [OF ex st(3), of ?aid ?sid])
    fix ow assume "movingOwnership (afterDeclare E l m c (scopeRow l m a c plan)) ?aid ?sid = Some ow"
    then have "sd_ownership c = Some ow" using st(2) by (simp add: movingOwnership_def split: if_splits)
    then have "overlapConflicts E l ?aid ?sid ow = []" using validateOwnership_None(3) [of E l a ?sid ow] v a by simp
    then show "movingOwnership l ?aid ?sid = Some ow \<or>
       (\<forall>a s ow'. openAssignment l a \<and> (a, s) \<noteq> (?aid, ?sid) \<and> movingOwnership l a s = Some ow' \<longrightarrow> \<not> clash ow ow')"
      unfolding overlapConflicts_Nil [OF h] by blast
  qed (use st(1) moving_frame in blast)
next
  case (Scope_review c)
  with assms(1) obtain round seat where "apply_tables l p = l\<lparr>scopeReviews := scopeReviews l @ [reviewRow E l c round seat]\<rparr>"
    using review_facts [of E l c evs p] by metis
  moreover have "movingOwnership (l\<lparr>scopeReviews := x\<rparr>) a s = movingOwnership l a s" for x a s
    by (rule moving_frame) (simp_all add: declarationStream_def transitionStream_def)
  ultimately show ?thesis using ex unfolding exclusiveScopes_def openAssignment_def by simp
next
  case (Scope_transition c)
  let ?aid = "st_assignmentId c" and ?sid = "st_scopeId c"
  from Scope_transition assms(1) obtain m latest and current :: scope_transition and to pin ds where
      d: "last_opt (declarationStream l ?aid ?sid) = Some latest"
    and t: "last_opt (transitionStream l ?aid ?sid) = Some current"
    and e: "scopeTransitionEdge (tr_to current) (Row_command (st_transition c)) = Some to"
    and rp: "resolveCandidatePin E l latest c = Inr pin"
    and p: "apply_tables l p = pushTransition l (transitionRow E l m c latest (tr_to current) to pin ds)"
    using transition_facts [of E l c evs p] by metis
  let ?row = "transitionRow E l m c latest (tr_to current) to pin ds"
  have n: "moved.numbered l (?aid, ?sid)" using h by (simp add: scopeHistoryOk_def scopeKeyOk_alt)
  have st: "transitionStream (pushTransition l ?row) ?aid ?sid = transitionStream l ?aid ?sid @ [?row]"
    using moved.push_current [OF n, of ?row] by simp
  show ?thesis unfolding p
  proof (rule exclusive_update [OF ex, of _ ?aid ?sid])
    show "assignments (pushTransition l ?row) = assignments l" by (simp add: pushTransition_def)
    show "movingOwnership (pushTransition l ?row) a s = movingOwnership l a s" if "(a, s) \<noteq> (?aid, ?sid)" for a s
      using that moved.push_other [of ?row "(a, s)" l] by (intro moving_frame) auto
    fix ow assume "movingOwnership (pushTransition l ?row) ?aid ?sid = Some ow"
    then have o: "sc_ownership latest = Some ow" and act: "to \<noteq> SS_advanced" "to \<noteq> SS_closed"
      using d st by (auto simp: movingOwnership_def scopeMachineState_def split: if_splits)
    show "movingOwnership l ?aid ?sid = Some ow \<or>
       (\<forall>a s ow'. openAssignment l a \<and> (a, s) \<noteq> (?aid, ?sid) \<and> movingOwnership l a s = Some ow' \<longrightarrow> \<not> clash ow ow')"
    proof (cases "tr_to current \<in> {SS_advanced, SS_closed}")
      case True
      with e have "st_transition c = SC_submit_for_review"
        by (simp only: scope_edge_iff) (auto simp: SCOPE_TRANSITIONS_def)
      from resolveCandidatePin_submit [OF rp this] o have "overlapProblem E l ?aid ?sid (Some ow) = None" by metis
      then have "overlapConflicts E l ?aid ?sid ow = []" by (simp add: overlapProblem_def split: if_splits)
      then show ?thesis unfolding overlapConflicts_Nil [OF h] by blast
    next
      case False
      then show ?thesis using d t o by (simp add: movingOwnership_def scopeMachineState_def)
    qed
  qed
qed

lemma demo_exclusive: "exclusiveScopes demo_submitted"
proof -
  have "declarationStream demo_submitted a s = []" if "\<not> (a = ''asg'' \<and> s = ''s1'')" for a s
    using that by (auto simp: declarationStream_def demo_submitted_def)
  then have "movingOwnership demo_submitted a s = None" if "\<not> (a = ''asg'' \<and> s = ''s1'')" for a s
    using that by (simp add: movingOwnership_def)
  then show ?thesis unfolding exclusiveScopes_def by (metis option.distinct(1))
qed

lemma scopes_stay_exclusive_witness:
  "\<exists>evs p. decideDeskScope demo_env demo_submitted (Scope_transition demo_submit) = Inr (evs, p) \<and>
     exclusiveScopes (apply_tables demo_submitted p)"
  using demo_submits scopes_stay_exclusive [OF _ demo_submitted_history demo_exclusive] by blast

subsection \<open>Dependencies\<close>

definition dependsOn :: "ledger \<Rightarrow> string \<Rightarrow> (string \<times> string) set" where
  "dependsOn l aid = {(s, t). \<exists>d. last_opt (declarationStream l aid s) = Some d \<and> t \<in> set (declaredDependencies d)}"

lemma map_of_map_snd: "map_of (map (\<lambda>(k, x). (k, f x)) m) k = map_option f (map_of m k)"
  by (induction m) auto

lemma dependencyEdges_rel:
  assumes "scopeHistoryOk l"
  shows "edge_rel (dependencyEdges l aid sid deps) = {(s, t) \<in> dependsOn l aid. s \<noteq> sid} \<union> {sid} \<times> set deps"
proof (intro set_eqI, clarify)
  fix s t
  have "edges_of (dependencyEdges l aid sid deps) s = (if s = sid then deps
       else case last_opt (declarationStream l aid s) of None \<Rightarrow> [] | Some d \<Rightarrow> declaredDependencies d)"
    by (simp add: edges_of_def dependencyEdges_def map_of_map_snd latest_declarations(1) [OF assms] split: option.split)
  then show "(s, t) \<in> edge_rel (dependencyEdges l aid sid deps) \<longleftrightarrow>
      (s, t) \<in> {(s, t) \<in> dependsOn l aid. s \<noteq> sid} \<union> {sid} \<times> set deps"
    by (cases "last_opt (declarationStream l aid s)") (auto simp: edge_rel_def dependsOn_def)
qed

text \<open>C14. The depth-first search of \<open>dependencyProblem\<close> is exact: it accepts a declaration if and only if every
  dependency names another declared scope of the assignment and the dependency graph, with the new
  edges in place of the scope's old ones, has no cycle.\<close>

theorem dependencyProblem_exact:
  assumes "scopeHistoryOk l"
  shows "dependencyProblem l aid sid (Some ow) = None \<longleftrightarrow>
    (\<forall>d \<in> set (ow_dependsOnScopeIds ow). d \<noteq> sid \<and> declarationStream l aid d \<noteq> []) \<and>
    acyclic ({(s, t) \<in> dependsOn l aid. s \<noteq> sid} \<union> {sid} \<times> set (ow_dependsOnScopeIds ow))"
proof -
  show ?thesis
    unfolding dependencyProblem_def option.simps no_problem acyclic_edges_iff dependencyEdges_rel [OF assms]
    by (auto simp: list_ex_iff latest_declarations(1) [OF assms])
qed

lemma dependencyProblem_exact_witness:
  "dependencyProblem demo_submitted ''asg'' ''s2'' (Some (demo_ownership\<lparr>ow_dependsOnScopeIds := [''s1'']\<rparr>)) = None"
proof -
  have d: "dependsOn demo_submitted ''asg'' = {}"
    by (auto simp: dependsOn_def declarationStream_def demo_submitted_def declaredDependencies_def dest!: last_opt_SomeD)
  have "acyclic {(''s2'', ''s1'')}" by (simp add: acyclic_def trancl_def) (auto elim: tranclp.cases)
  then show ?thesis
    using dependencyProblem_exact [OF demo_submitted_history, of "''asg''" "''s2''" "demo_ownership\<lparr>ow_dependsOnScopeIds := [''s1'']\<rparr>"]
    by (simp add: d demo_submitted_streams)
qed

text \<open>C15. Scope dependencies stay acyclic: no sequence of accepted scope commands can make a scope of an
  assignment wait, directly or through others, for itself.\<close>

theorem dependencies_stay_acyclic:
  assumes "decideDeskScope E l cmd = Inr (evs, p)" and h: "scopeHistoryOk l" and ac: "\<forall>aid. acyclic (dependsOn l aid)"
  shows "acyclic (dependsOn (apply_tables l p) aid)"
proof (cases "\<exists>c. cmd = Scope_declare c")
  case False
  then have "scopes (apply_tables l p) = scopes l"
    using assms(1) by (cases cmd) (auto simp: scope_Inr decideTransition_Inr decideScopeReview_Inr Let_def)
  then have "dependsOn (apply_tables l p) aid = dependsOn l aid" by (simp add: dependsOn_def declarationStream_def)
  with ac show ?thesis by simp
next
  case True
  then obtain c where cmd: "cmd = Scope_declare c" by blast
  let ?aid = "sd_assignmentId c" and ?sid = "sd_scopeId c"
  from cmd assms(1) obtain m a plan where a: "a_assignmentId a = ?aid"
    and v: "validateOwnership E l a ?sid (sd_ownership c) = None"
    and p: "apply_tables l p = afterDeclare E l m c (scopeRow l m a c plan)"
    using declare_facts [of E l c evs p] by metis
  note st = afterDeclare_streams [OF h, where E = E and m = m and c = c and a = a and plan = plan]
  define deps where "deps = (case sd_ownership c of None \<Rightarrow> [] | Some ow \<Rightarrow> ow_dependsOnScopeIds ow)"
  have r: "dependsOn (apply_tables l p) aid =
      (if aid = ?aid then {(s, t) \<in> dependsOn l aid. s \<noteq> ?sid} \<union> {?sid} \<times> set deps else dependsOn l aid)" (is "?L = ?R")
  proof (intro set_eqI, clarify)
    fix s t
    show "(s, t) \<in> ?L \<longleftrightarrow> (s, t) \<in> ?R"
      using st(1) [of aid s] st(2) by (cases "aid = ?aid"; cases "s = ?sid")
        (auto simp: p dependsOn_def declaredDependencies_def deps_def)
  qed
  have "acyclic ({(s, t) \<in> dependsOn l ?aid. s \<noteq> ?sid} \<union> {?sid} \<times> set deps)"
  proof (cases "sd_ownership c")
    case None
    then show ?thesis using ac by (auto simp: deps_def intro: acyclic_subset [of "dependsOn l ?aid"])
  next
    case (Some ow)
    with v a have "dependencyProblem l ?aid ?sid (Some ow) = None" using validateOwnership_None(2) by metis
    then have "acyclic (edge_rel (dependencyEdges l ?aid ?sid (ow_dependsOnScopeIds ow)))"
      by (simp add: dependencyProblem_def no_problem acyclic_edges_iff)
    then show ?thesis by (simp add: dependencyEdges_rel [OF h] deps_def Some)
  qed
  with ac show ?thesis by (simp add: r)
qed

lemma dependencies_stay_acyclic_witness:
  "\<exists>evs p. decideDeskScope demo_env demo_ledger (Scope_declare demo_declare) = Inr (evs, p) \<and>
     acyclic (dependsOn (apply_tables demo_ledger p) ''asg'')"
proof -
  have "dependsOn demo_ledger aid = {}" for aid by (simp add: dependsOn_def declarationStream_def)
  then have "\<forall>aid. acyclic (dependsOn demo_ledger aid)" by (simp add: acyclic_def)
  with demo_declares [of demo_env] dependencies_stay_acyclic [OF _ demo_history] show ?thesis by blast
qed

end
