(* ===== verification/Desk_Store.thy ===== *)
theory Desk_Store
  imports Desk_Ledger Desk_Graph
begin

text \<open>
  The durable store kernel (plugin/server/desk-store.ts): the ledger document, the immutable event
  segments with their hash chain, and the commit protocol. A commit is a function from what is on
  disk to a plan: an answer without a write, or an event segment, a ledger and a receipt. The disk
  passes through the states of \<open>commitTrace\<close>: the segment is renamed first, the ledger second.

  Arguments stand for the parts of the check that are not modelled: \<open>sk_tables\<close> is the part of
  \<open>checkRefinements\<close> that speaks of the tables, \<open>sk_schema\<close> the schema parse of the document and
  \<open>sk_ledgerBytes\<close> the size it is serialised to; every theorem holds whatever they are. Only the
  current schema version is modelled, so no migration takes place.
\<close>

subsection \<open>Events and segments\<close>

record event_row =
  evt_seq :: nat
  evt_prevSha256 :: "string option"
  evt_sha256 :: string
  evt_at :: string
  evt_requestId :: string
  evt_actorKey :: string
  evt_assignmentId :: string
  evt_kind :: string
  evt_payload :: json

definition json_event :: "event_row \<Rightarrow> json" where
  \<comment> \<open>the event without its own digest\<close>
  "json_event e = JObj
     [(''seq'', json_nat (evt_seq e)), (''prevSha256'', json_opt JStr (evt_prevSha256 e)), (''at'', JStr (evt_at e)),
      (''requestId'', JStr (evt_requestId e)), (''actorKey'', JStr (evt_actorKey e)),
      (''assignmentId'', JStr (evt_assignmentId e)), (''kind'', JStr (evt_kind e)), (''payload'', evt_payload e)]"

definition eventDigest :: "desk_env \<Rightarrow> event_row \<Rightarrow> string" where
  "eventDigest E e = canonical_sha256 E (json_event e)"

definition utf8_length :: "string \<Rightarrow> nat" where
  \<comment> \<open>\<open>Buffer.byteLength(_, "utf8")\<close>\<close>
  "utf8_length s = sum_list (map (\<lambda>c. if (of_char c :: nat) < 128 then 1 else 2) s)"

fun is_object :: "json \<Rightarrow> bool" where
  "is_object (JObj _) = True"
| "is_object _ = False"

definition bounded_id :: "string \<Rightarrow> bool" where
  "bounded_id s \<longleftrightarrow> between_len 1 LIMIT_idLen s"

definition payload_ok :: "json \<Rightarrow> bool" where
  "payload_ok v \<longleftrightarrow> is_object v \<and> utf8_length (canonical_json v) \<le> LIMIT_eventPayloadBytes"

definition event_ok :: "desk_env \<Rightarrow> event_row \<Rightarrow> bool" where
  \<comment> \<open>\<open>EventSchema\<close>\<close>
  "event_ok E e \<longleftrightarrow>
     1 \<le> evt_seq e \<and> opt_ok is_sha (evt_prevSha256 e) \<and> is_sha (evt_sha256 e) \<and> time_ok E (evt_at e) \<and>
     bounded_id (evt_requestId e) \<and> bounded_id (evt_actorKey e) \<and> bounded_id (evt_assignmentId e) \<and>
     between_len 1 LIMIT_eventKind (evt_kind e) \<and> payload_ok (evt_payload e)"

record segment =
  sg_first :: nat
  sg_last :: nat
  sg_lines :: "event_row option list"

text \<open>
  A segment is a file of the events directory whose name matches \<open><first>-<last>.jsonl\<close>; its lines
  are the events they parse to, \<open>None\<close> for a line that is no event.
\<close>

record chain_state =
  ch_expected :: nat
  ch_prev :: "string option"
  ch_verified :: "event_row list"

fun verifyLines :: "desk_env \<Rightarrow> nat \<Rightarrow> nat \<Rightarrow> event_row option list \<Rightarrow> chain_state \<Rightarrow> chain_state option" where
  "verifyLines E tip seq [] s = Some s"
| "verifyLines E tip seq (None # rest) s = None"
| "verifyLines E tip seq (Some e # rest) s =
     (if \<not> event_ok E e then None
      else if evt_seq e \<noteq> seq then None
      else if evt_sha256 e \<noteq> eventDigest E e then None
      else if tip < evt_seq e then Some s
      else if evt_prevSha256 e \<noteq> ch_prev s then None
      else verifyLines E tip (seq + 1) rest
        \<lparr>ch_expected = ch_expected s + 1, ch_prev = Some (evt_sha256 e), ch_verified = ch_verified s @ [e]\<rparr>)"

fun verifySegments :: "desk_env \<Rightarrow> nat \<Rightarrow> segment list \<Rightarrow> chain_state \<Rightarrow> chain_state option" where
  "verifySegments E tip [] s = Some s"
| "verifySegments E tip (seg # rest) s =
     (if tip < sg_first seg then verifySegments E tip rest s
      else if sg_first seg \<noteq> ch_expected s then None
      else if length (sg_lines seg) \<noteq> sg_last seg - sg_first seg + 1 then None
      else case verifyLines E tip (sg_first seg) (sg_lines seg) s of
        None \<Rightarrow> None
      | Some s' \<Rightarrow> verifySegments E tip rest s')"

definition orderedSegments :: "segment list \<Rightarrow> segment list" where
  "orderedSegments segs = sort_key sg_first (filter (\<lambda>s. 1 \<le> sg_first s \<and> sg_first s \<le> sg_last s) segs)"

definition verifyChain :: "desk_env \<Rightarrow> ledger \<Rightarrow> segment list \<Rightarrow> event_row list option" where
  "verifyChain E l segs =
     (if lastEventSeq l = 0 then Some []
      else case verifySegments E (lastEventSeq l) (orderedSegments segs)
             \<lparr>ch_expected = 1, ch_prev = None, ch_verified = []\<rparr> of
        None \<Rightarrow> None
      | Some s \<Rightarrow>
          if ch_expected s - 1 = lastEventSeq l \<and> ch_prev s = lastEventSha256 l then Some (ch_verified s) else None)"

subsection \<open>The disk and reading it\<close>

datatype lock_state = Lock_free | Lock_live | Lock_stale

record store_disk =
  dk_ledger :: "ledger option"
  dk_segments :: "segment list"
  dk_lock :: lock_state

record store_checks =
  sk_tables :: "ledger \<Rightarrow> event_row list option \<Rightarrow> bool"
  sk_schema :: "ledger \<Rightarrow> bool"
  sk_ledgerBytes :: "ledger \<Rightarrow> nat"

definition repoKeyFor :: "desk_env \<Rightarrow> repo_binding \<Rightarrow> string" where
  "repoKeyFor E rb = sha256 E (rb_hostId rb @ ''|'' @ rb_gitCommonDir rb)"

definition repoBindingOk :: "desk_env \<Rightarrow> string \<Rightarrow> ledger \<Rightarrow> bool" where
  "repoBindingOk E key l \<longleftrightarrow> repoKey l = repoKeyFor E (repo l) \<and> repoKey l = key"

definition requestKey :: "request_record \<Rightarrow> string \<times> string \<times> string" where
  "requestKey q = (q_actorKey q, q_assignmentId q, q_requestId q)"

definition checkRefinements :: "desk_env \<Rightarrow> store_checks \<Rightarrow> string \<Rightarrow> ledger \<Rightarrow> event_row list option \<Rightarrow> bool" where
  "checkRefinements E K key l history \<longleftrightarrow>
     repoBindingOk E key l \<and>
     distinct (map requestKey (requests l)) \<and>
     list_all (\<lambda>q. opt_ok (\<lambda>(first, last). last \<le> lastEventSeq l) (q_eventSeqs q)) (requests l) \<and>
     (lastEventSeq l = 0 \<longleftrightarrow> lastEventSha256 l = None) \<and>
     sk_tables K l history"

datatype store_read = Read_absent | Read_ok ledger "event_row list" | Read_unsafe | Read_corrupt

definition readStore :: "desk_env \<Rightarrow> store_checks \<Rightarrow> string \<Rightarrow> store_disk \<Rightarrow> store_read" where
  "readStore E K key d =
     (if \<not> is_sha key then Read_unsafe
      else case dk_ledger d of
        None \<Rightarrow> Read_absent
      | Some l \<Rightarrow>
          if LIMIT_ledgerBytes < sk_ledgerBytes K l then Read_corrupt
          else if \<not> sk_schema K l then Read_corrupt
          else if \<not> repoBindingOk E key l then Read_unsafe
          else case verifyChain E l (dk_segments d) of
            None \<Rightarrow> Read_corrupt
          | Some h \<Rightarrow> if checkRefinements E K key l (Some h) then Read_ok l h else Read_corrupt)"

subsection \<open>Recovery capacity\<close>

text \<open>
  \<open>resolveDeskTaskCapacityReserve\<close> of plugin/server/desk-task-capacity.ts for an empty task table:
  the global recovery floor, and one terminal transition for every scope id whose latest row is
  not closed or advanced. Ids are looked up across assignments, as in the source.
\<close>

record capacity_reserve =
  cap_requests :: nat
  cap_taskEntries :: nat
  cap_bytes :: nat
  cap_scopeTransitions :: nat

definition auxRowBytes :: nat where "auxRowBytes = 32768 + LIMIT_eventPayloadBytes + 4096"

definition latestBy :: "('a \<Rightarrow> string) \<Rightarrow> ('a \<Rightarrow> nat) \<Rightarrow> 'a list \<Rightarrow> (string \<times> 'a) list" where
  "latestBy key rk rows = foldl (\<lambda>m row. case map_of m (key row) of
       None \<Rightarrow> map_set (key row) row m
     | Some prior \<Rightarrow> if rk prior < rk row then map_set (key row) row m else m) [] rows"

definition openScopeIds :: "ledger \<Rightarrow> string list" where
  "openScopeIds l =
     (let transitions = latestBy tr_scopeId tr_revision (scopeTransitions l) in
      filter (\<lambda>i. case map_of transitions i of
          None \<Rightarrow> True
        | Some t \<Rightarrow> tr_to t \<noteq> SS_closed \<and> tr_to t \<noteq> SS_advanced)
        (map fst (latestBy sc_scopeId sc_revision (scopes l))))"

definition capacityReserve :: "ledger \<Rightarrow> capacity_reserve" where
  "capacityReserve l =
     (let n = length (openScopeIds l) in
      \<lparr>cap_requests = 12, cap_taskEntries = 256, cap_bytes = 65536 + n * auxRowBytes, cap_scopeTransitions = n\<rparr>)"

definition capacityExceeded :: "ledger \<Rightarrow> capacity_reserve \<Rightarrow> bool" where
  \<comment> \<open>against the ledger that carries the next tables; its request table still lacks the new record\<close>
  "capacityExceeded next res \<longleftrightarrow>
     LIMIT_requests < length (requests next) + 1 + cap_requests res \<or>
     LIMIT_memberships < length (memberships next) \<or> LIMIT_scopes < length (scopes next) \<or>
     LIMIT_scopeTransitions < length (scopeTransitions next) + cap_scopeTransitions res \<or>
     list_ex (\<lambda>a. LIMIT_assignmentSeats < length (a_seats a)) (assignments next)"

subsection \<open>Envelopes, receipts and plans\<close>

record 'c envelope =
  en_repo :: repo_binding
  en_actorKey :: string
  en_assignmentId :: string
  en_requestId :: string
  en_command :: 'c

record receipt =
  rcp_receiptId :: string
  rcp_revision :: nat
  rcp_replayed :: bool
  rcp_eventSeqs :: "(nat \<times> nat) option"

type_synonym transact_result = "desk_error_code + receipt"

record commit_stamp =
  \<comment> \<open>the clock read for a fresh ledger, the clock read at the commit, and the fresh receipt id\<close>
  cx_freshAt :: string
  cx_at :: string
  cx_receiptId :: string

text \<open>
  What a command is and how it is decided: the JSON object of the command and the pure \<open>decide\<close>
  callback. \<open>decide\<close> sees the ledger, the command and, through \<open>verifiedDeskEvents\<close>, the verified
  history of that ledger.
\<close>

record 'c decider =
  dd_encode :: "'c \<Rightarrow> json"
  dd_decide :: "ledger \<Rightarrow> event_row list \<Rightarrow> 'c \<Rightarrow> decide_outcome"

definition json_repo :: "repo_binding \<Rightarrow> json" where
  "json_repo rb = JObj [(''hostId'', JStr (rb_hostId rb)), (''gitCommonDir'', JStr (rb_gitCommonDir rb))]"

definition envelope_ok :: "'c decider \<Rightarrow> 'c envelope \<Rightarrow> bool" where
  \<comment> \<open>\<open>EnvelopeSchema\<close>\<close>
  "envelope_ok D env \<longleftrightarrow>
     between_len 1 256 (rb_hostId (en_repo env)) \<and> between_len 1 256 (rb_gitCommonDir (en_repo env)) \<and>
     bounded_id (en_actorKey env) \<and> bounded_id (en_assignmentId env) \<and> bounded_id (en_requestId env) \<and>
     is_object (dd_encode D (en_command env))"

definition bodySha256 :: "desk_env \<Rightarrow> 'c decider \<Rightarrow> 'c envelope \<Rightarrow> string" where
  "bodySha256 E D env =
     canonical_sha256 E (JObj [(''repo'', json_repo (en_repo env)), (''command'', dd_encode D (en_command env))])"

datatype commit_plan =
    Plan_answer transact_result
  | Plan_fail
  | Plan_write "segment option" ledger transact_result

subsection \<open>The commit\<close>

definition priorRequest :: "ledger \<Rightarrow> 'c envelope \<Rightarrow> request_record option" where
  "priorRequest l env = find (\<lambda>q. q_actorKey q = en_actorKey env \<and> q_assignmentId q = en_assignmentId env \<and>
     q_requestId q = en_requestId env) (requests l)"

definition recordedAnswer :: "request_record \<Rightarrow> transact_result" where
  "recordedAnswer q = (case q_outcome q of
       RO_rejected \<Rightarrow> (case q_rejection q of Some c \<Rightarrow> Inl c | None \<Rightarrow> Inl INVALID_RECORD)
     | RO_committed \<Rightarrow> Inr \<lparr>rcp_receiptId = q_receiptId q, rcp_revision = q_revision q, rcp_replayed = True,
                            rcp_eventSeqs = q_eventSeqs q\<rparr>)"

definition checkDecideEvents :: "desk_event list \<Rightarrow> bool" where
  "checkDecideEvents evs \<longleftrightarrow> length evs \<le> LIMIT_eventsPerCommit \<and>
     list_all (\<lambda>e. between_len 1 LIMIT_eventKind (ev_kind e) \<and> payload_ok (ev_payload e)) evs"

definition builtEvent :: "desk_env \<Rightarrow> string \<Rightarrow> 'c envelope \<Rightarrow> nat \<Rightarrow> string option \<Rightarrow> desk_event \<Rightarrow> event_row" where
  "builtEvent E stamp env seq prev e =
     (let draft = \<lparr>evt_seq = seq, evt_prevSha256 = prev, evt_sha256 = [], evt_at = stamp,
            evt_requestId = en_requestId env, evt_actorKey = en_actorKey env,
            evt_assignmentId = en_assignmentId env, evt_kind = ev_kind e, evt_payload = ev_payload e\<rparr>
      in draft\<lparr>evt_sha256 := eventDigest E draft\<rparr>)"

fun buildEvents :: "desk_env \<Rightarrow> string \<Rightarrow> 'c envelope \<Rightarrow> nat \<Rightarrow> string option \<Rightarrow> desk_event list \<Rightarrow> event_row list" where
  "buildEvents E stamp env tip prev [] = []"
| "buildEvents E stamp env tip prev (e # rest) =
     (let b = builtEvent E stamp env (tip + 1) prev e in
      b # buildEvents E stamp env (tip + 1) (Some (evt_sha256 b)) rest)"

definition tipSha256 :: "string option \<Rightarrow> event_row list \<Rightarrow> string option" where
  "tipSha256 prev built = (case last_opt built of None \<Rightarrow> prev | Some e \<Rightarrow> Some (evt_sha256 e))"

definition outcomeEvents :: "decide_outcome \<Rightarrow> desk_event list" where
  "outcomeEvents dec = (case dec of Inl _ \<Rightarrow> [] | Inr (evs, _) \<Rightarrow> evs)"

definition outcomeTables :: "decide_outcome \<Rightarrow> table_patch" where
  "outcomeTables dec = (case dec of Inl _ \<Rightarrow> no_tables | Inr (_, p) \<Rightarrow> p)"

definition requestRow :: "desk_env \<Rightarrow> 'c decider \<Rightarrow> commit_stamp \<Rightarrow> 'c envelope \<Rightarrow> nat \<Rightarrow> (nat \<times> nat) option \<Rightarrow>
    desk_error_code option \<Rightarrow> request_record" where
  "requestRow E D cx env rn seqs code =
     \<lparr>q_actorKey = en_actorKey env, q_assignmentId = en_assignmentId env, q_requestId = en_requestId env,
      q_bodySha256 = bodySha256 E D env, q_receiptId = cx_receiptId cx, q_revision = rn,
      q_outcome = (if code = None then RO_committed else RO_rejected), q_eventSeqs = seqs, q_rejection = code\<rparr>"

definition segmentOf :: "event_row list \<Rightarrow> segment option" where
  "segmentOf built = (if built = [] then None else
     Some \<lparr>sg_first = evt_seq (hd built), sg_last = evt_seq (last built), sg_lines = map Some built\<rparr>)"

definition candidateLedger :: "desk_env \<Rightarrow> 'c decider \<Rightarrow> commit_stamp \<Rightarrow> 'c envelope \<Rightarrow> ledger \<Rightarrow> event_row list \<Rightarrow>
    decide_outcome \<Rightarrow> ledger" where
  "candidateLedger E D cx env l built dec =
     (let seqs = map_option (\<lambda>s. (sg_first s, sg_last s)) (segmentOf built);
          code = (case dec of Inl c \<Rightarrow> Some c | Inr _ \<Rightarrow> None) in
      (apply_tables l (outcomeTables dec))
        \<lparr>revision := revision l + 1, updatedAt := cx_at cx,
         lastEventSeq := lastEventSeq l + length built, lastEventSha256 := tipSha256 (lastEventSha256 l) built,
         requests := requests l @ [requestRow E D cx env (revision l + 1) seqs code]\<rparr>)"

definition commitDecided :: "desk_env \<Rightarrow> store_checks \<Rightarrow> string \<Rightarrow> 'c decider \<Rightarrow> commit_stamp \<Rightarrow> 'c envelope \<Rightarrow>
    ledger \<Rightarrow> event_row list \<Rightarrow> commit_plan" where
  \<comment> \<open>from the requests cap on: decide, the checks of the candidate, and the write it plans\<close>
  "commitDecided E K key D cx env l history =
     (if LIMIT_requests \<le> length (requests l) then Plan_answer (Inl INVALID_RECORD)
      else let dec = dd_decide D l history (en_command env); next = apply_tables l (outcomeTables dec) in
        if \<not> checkDecideEvents (outcomeEvents dec) then Plan_answer (Inl INVALID_RECORD)
        else if outcomeTables dec \<noteq> no_tables \<and> \<not> (sk_schema K next \<and> checkRefinements E K key next None)
        then Plan_answer (Inl INVALID_RECORD)
        else let res = capacityReserve next in
          if capacityExceeded next res then Plan_answer (Inl INVALID_RECORD)
          else let built = buildEvents E (cx_at cx) env (lastEventSeq l) (lastEventSha256 l) (outcomeEvents dec);
                   candidate = candidateLedger E D cx env l built dec in
            if \<not> checkRefinements E K key candidate (Some (history @ built)) then Plan_fail
            else if \<not> sk_schema K candidate then Plan_fail
            else if LIMIT_ledgerBytes - cap_bytes res < sk_ledgerBytes K candidate then Plan_answer (Inl INVALID_RECORD)
            else Plan_write (segmentOf built) candidate (case dec of
                Inl c \<Rightarrow> Inl c
              | Inr _ \<Rightarrow> Inr \<lparr>rcp_receiptId = cx_receiptId cx, rcp_revision = revision l + 1, rcp_replayed = False,
                               rcp_eventSeqs = map_option (\<lambda>s. (sg_first s, sg_last s)) (segmentOf built)\<rparr>))"

definition commitOn :: "desk_env \<Rightarrow> store_checks \<Rightarrow> string \<Rightarrow> 'c decider \<Rightarrow> commit_stamp \<Rightarrow> 'c envelope \<Rightarrow>
    segment list \<Rightarrow> ledger \<Rightarrow> commit_plan" where
  \<comment> \<open>idempotency first, then the chain is verified again, then the decision\<close>
  "commitOn E K key D cx env segs l = (case priorRequest l env of
       Some q \<Rightarrow> Plan_answer (if q_bodySha256 q \<noteq> bodySha256 E D env then Inl IDEMPOTENCY_CONFLICT else recordedAnswer q)
     | None \<Rightarrow> (case verifyChain E l segs of
         None \<Rightarrow> Plan_answer (Inl STATE_UNREADABLE)
       | Some history \<Rightarrow> commitDecided E K key D cx env l history))"

definition commitPlan :: "desk_env \<Rightarrow> store_checks \<Rightarrow> string \<Rightarrow> 'c decider \<Rightarrow> commit_stamp \<Rightarrow> 'c envelope \<Rightarrow>
    store_disk \<Rightarrow> commit_plan" where
  "commitPlan E K key D cx env d = (case dk_lock d of
       Lock_live \<Rightarrow> Plan_answer (Inl CAPABILITY_GAP)
     | Lock_stale \<Rightarrow> Plan_answer (Inl RECOVERY_REQUIRED)
     | Lock_free \<Rightarrow> (case readStore E K key d of
         Read_unsafe \<Rightarrow> Plan_answer (Inl STATE_UNREADABLE)
       | Read_corrupt \<Rightarrow> Plan_answer (Inl STATE_UNREADABLE)
       | Read_absent \<Rightarrow> commitOn E K key D cx env (dk_segments d) (emptyLedger (en_repo env) key (cx_freshAt cx))
       | Read_ok l _ \<Rightarrow>
           if repo l \<noteq> en_repo env then Plan_answer (Inl INVALID_RECORD)
           else commitOn E K key D cx env (dk_segments d) l))"

definition transactPlan :: "desk_env \<Rightarrow> store_checks \<Rightarrow> string \<Rightarrow> 'c decider \<Rightarrow> commit_stamp \<Rightarrow> 'c envelope \<Rightarrow>
    store_disk \<Rightarrow> commit_plan" where
  "transactPlan E K key D cx env d =
     (if \<not> is_sha key \<or> \<not> envelope_ok D env \<or> repoKeyFor E (en_repo env) \<noteq> key then Plan_answer (Inl INVALID_RECORD)
      else commitPlan E K key D cx env d)"

subsection \<open>Writing the plan\<close>

definition writeSegment :: "segment \<Rightarrow> segment list \<Rightarrow> segment list" where
  \<comment> \<open>the rename replaces a file of the same name and touches no other\<close>
  "writeSegment s segs = filter (\<lambda>t. \<not> (sg_first t = sg_first s \<and> sg_last t = sg_last s)) segs @ [s]"

fun commitTrace :: "commit_plan \<Rightarrow> store_disk \<Rightarrow> store_disk list" where
  \<comment> \<open>the states of the disk, in order, a crash or an I/O error may leave behind\<close>
  "commitTrace (Plan_write None l r) d = [d, d\<lparr>dk_ledger := Some l\<rparr>]"
| "commitTrace (Plan_write (Some s) l r) d =
     (let d' = d\<lparr>dk_segments := writeSegment s (dk_segments d)\<rparr> in [d, d', d'\<lparr>dk_ledger := Some l\<rparr>])"
| "commitTrace _ d = [d]"

fun planAnswer :: "commit_plan \<Rightarrow> transact_result option" where
  \<comment> \<open>\<open>None\<close>: the transaction throws \<open>IO_FAILURE\<close>\<close>
  "planAnswer (Plan_answer r) = Some r"
| "planAnswer Plan_fail = None"
| "planAnswer (Plan_write s l r) = Some r"

definition transact :: "desk_env \<Rightarrow> store_checks \<Rightarrow> string \<Rightarrow> 'c decider \<Rightarrow> commit_stamp \<Rightarrow> 'c envelope \<Rightarrow>
    store_disk \<Rightarrow> transact_result option \<times> store_disk" where
  "transact E K key D cx env d =
     (let p = transactPlan E K key D cx env d in (planAnswer p, last (commitTrace p d)))"

end
