(* ===== verification/Desk_Store_Log.thy ===== *)
theory Desk_Store_Log
  imports Desk_Store
begin

text \<open>
  The event log under a commit: which directories of segments carry no orphan, that the events a
  commit builds verify behind the tip they were built on, and that a segment renamed before its
  ledger is invisible to a reader of the old ledger.
\<close>

subsection \<open>Digests\<close>

lemma eventDigest_sha [simp]: "eventDigest E (e\<lparr>evt_sha256 := x\<rparr>) = eventDigest E e"
  by (simp add: eventDigest_def json_event_def)

lemma builtEvent_sel [simp]:
  "evt_seq (builtEvent E stamp env seq prev e) = seq"
  "evt_prevSha256 (builtEvent E stamp env seq prev e) = prev"
  "evt_at (builtEvent E stamp env seq prev e) = stamp"
  "evt_requestId (builtEvent E stamp env seq prev e) = en_requestId env"
  "evt_actorKey (builtEvent E stamp env seq prev e) = en_actorKey env"
  "evt_assignmentId (builtEvent E stamp env seq prev e) = en_assignmentId env"
  "evt_kind (builtEvent E stamp env seq prev e) = ev_kind e"
  "evt_payload (builtEvent E stamp env seq prev e) = ev_payload e"
  by (simp_all add: builtEvent_def Let_def)

lemma builtEvent_sha: "evt_sha256 (builtEvent E stamp env seq prev e) = eventDigest E (builtEvent E stamp env seq prev e)"
  unfolding builtEvent_def Let_def eventDigest_sha by simp

definition sha_hex :: "desk_env \<Rightarrow> bool" where
  \<comment> \<open>the digest function answers 64 lower-case hexadecimal characters\<close>
  "sha_hex E \<longleftrightarrow> (\<forall>s. is_sha (sha256 E s))"

lemma sha_hex_digest: "sha_hex E \<Longrightarrow> is_sha (eventDigest E e)"
  by (simp add: sha_hex_def eventDigest_def canonical_sha256_def)

subsection \<open>Segments\<close>

definition wellNamed :: "segment \<Rightarrow> bool" where
  "wellNamed s \<longleftrightarrow> 1 \<le> sg_first s \<and> sg_first s \<le> sg_last s"

definition diskTip :: "store_disk \<Rightarrow> nat" where
  "diskTip d = (case dk_ledger d of None \<Rightarrow> 0 | Some l \<Rightarrow> lastEventSeq l)"

definition orphanFree :: "store_disk \<Rightarrow> bool" where
  \<comment> \<open>every segment file ends at or below the tip of the committed ledger\<close>
  "orphanFree d \<longleftrightarrow> list_all (\<lambda>s. wellNamed s \<longrightarrow> sg_last s \<le> diskTip d) (dk_segments d)"

definition orphansAtTip :: "store_disk \<Rightarrow> bool" where
  \<comment> \<open>a segment file that is not committed starts right above the tip: what interrupted commits leave behind\<close>
  "orphansAtTip d \<longleftrightarrow> list_all (\<lambda>s. wellNamed s \<longrightarrow> sg_last s \<le> diskTip d \<or> sg_first s = Suc (diskTip d)) (dk_segments d)"

lemma orphanFree_atTip: "orphanFree d \<Longrightarrow> orphansAtTip d"
  by (auto simp: orphanFree_def orphansAtTip_def list_all_iff)

lemma orderedSegments_wellNamed: "orderedSegments segs = sort_key sg_first (filter wellNamed segs)"
  unfolding orderedSegments_def wellNamed_def by (rule refl)

lemma orderedSegments_snoc:
  assumes "\<And>t. t \<in> set segs \<Longrightarrow> wellNamed t \<Longrightarrow> sg_last t \<le> tip" and "sg_first s = Suc tip" and "wellNamed s"
  shows "orderedSegments (writeSegment s segs) = orderedSegments segs @ [s]"
proof -
  have keep: "filter wellNamed (filter (\<lambda>t. \<not> (sg_first t = sg_first s \<and> sg_last t = sg_last s)) segs) = filter wellNamed segs"
    unfolding filter_filter using assms by (intro filter_cong refl) (fastforce simp: wellNamed_def)
  have "sg_first t \<le> sg_first s" if "t \<in> set (filter wellNamed segs)" for t
    using that assms by (fastforce simp: wellNamed_def)
  then show ?thesis
    unfolding orderedSegments_wellNamed writeSegment_def filter_append keep
    using assms(3) by (simp add: sort_key_snoc_max)
qed

lemma verifySegments_append:
  "verifySegments E tip (a @ b) s = (case verifySegments E tip a s of None \<Rightarrow> None | Some s' \<Rightarrow> verifySegments E tip b s')"
  by (induction a arbitrary: s) (auto split: option.splits)

lemma verifyLines_tip:
  "seq + length ls \<le> Suc tip \<Longrightarrow> tip \<le> tip' \<Longrightarrow> verifyLines E tip' seq ls s = verifyLines E tip seq ls s"
proof (induction ls arbitrary: seq s)
  case (Cons x ls)
  then show ?case by (cases x) auto
qed simp

lemma verifySegments_tip:
  assumes "\<And>t. t \<in> set segs \<Longrightarrow> wellNamed t \<and> sg_last t \<le> tip" and "tip \<le> tip'"
  shows "verifySegments E tip' segs s = verifySegments E tip segs s"
  using assms(1)
proof (induction segs arbitrary: s)
  case (Cons t segs)
  have w: "wellNamed t" "sg_last t \<le> tip" using Cons.prems by auto
  then have lines: "length (sg_lines t) = sg_last t - sg_first t + 1 \<Longrightarrow>
      verifyLines E tip' (sg_first t) (sg_lines t) s = verifyLines E tip (sg_first t) (sg_lines t) s"
    using assms(2) by (intro verifyLines_tip) (auto simp: wellNamed_def)
  have "\<not> tip < sg_first t" "\<not> tip' < sg_first t" using w assms(2) by (auto simp: wellNamed_def)
  with lines Cons show ?case by (auto split: option.splits)
qed simp

text \<open>Verification looks at the well-named segments that start at or below the tip and at no others.\<close>

lemma verifySegments_below:
  "verifySegments E tip (filter (\<lambda>t. sg_first t \<le> tip) segs) s = verifySegments E tip segs s"
proof (induction segs arbitrary: s)
  case (Cons t segs)
  show ?case
  proof (cases "sg_first t \<le> tip")
    case True
    then show ?thesis by (simp add: Cons.IH split: option.split)
  qed (simp add: Cons.IH)
qed simp

lemma verifyChain_below:
  assumes "filter (\<lambda>t. wellNamed t \<and> sg_first t \<le> lastEventSeq l) segs = filter (\<lambda>t. wellNamed t \<and> sg_first t \<le> lastEventSeq l) segs'"
  shows "verifyChain E l segs = verifyChain E l segs'"
proof -
  have below: "filter (\<lambda>t. sg_first t \<le> lastEventSeq l) (orderedSegments xs) =
      sort_key sg_first (filter (\<lambda>t. wellNamed t \<and> sg_first t \<le> lastEventSeq l) xs)" for xs
    by (simp add: orderedSegments_wellNamed filter_sort conj_commute)
  have "verifySegments E (lastEventSeq l) (orderedSegments segs) s = verifySegments E (lastEventSeq l) (orderedSegments segs') s" for s
    by (subst (1 2) verifySegments_below [symmetric]) (simp only: below assms)
  then show ?thesis by (simp add: verifyChain_def)
qed

lemma verifySegments_above: "(\<And>t. t \<in> set segs \<Longrightarrow> tip < sg_first t) \<Longrightarrow> verifySegments E tip segs s = Some s"
  by (induction segs) auto

subsection \<open>The verified state\<close>

lemma verifyLines_sha:
  "verifyLines E tip seq ls s = Some s' \<Longrightarrow> opt_ok is_sha (ch_prev s) \<Longrightarrow> opt_ok is_sha (ch_prev s')"
proof (induction ls arbitrary: seq s)
  case (Cons x ls)
  then show ?case
  proof (cases x)
    case (Some e)
    with Cons.prems Cons.IH show ?thesis by (auto split: if_splits simp: event_ok_def)
  qed simp
qed simp

lemma verifySegments_sha:
  "verifySegments E tip segs s = Some s' \<Longrightarrow> opt_ok is_sha (ch_prev s) \<Longrightarrow> opt_ok is_sha (ch_prev s')"
proof (induction segs arbitrary: s)
  case (Cons t segs)
  then show ?case by (auto split: if_splits option.splits dest: verifyLines_sha)
qed simp

abbreviation chain_start :: chain_state where
  "chain_start \<equiv> \<lparr>ch_expected = 1, ch_prev = None, ch_verified = []\<rparr>"

lemma verifyChain_tip_sha:
  assumes "verifyChain E l segs = Some h" and "lastEventSeq l = 0 \<Longrightarrow> lastEventSha256 l = None"
  shows "opt_ok is_sha (lastEventSha256 l)"
proof (cases "lastEventSeq l = 0")
  case False
  with assms(1) obtain s where "verifySegments E (lastEventSeq l) (orderedSegments segs) chain_start = Some s"
    and "ch_prev s = lastEventSha256 l"
    by (auto simp: verifyChain_def split: option.splits if_splits)
  with verifySegments_sha show ?thesis by fastforce
qed (use assms(2) in simp)

text \<open>The chain as a state: what the segments up to the tip leave behind when they verify.\<close>

lemma verifyChain_state:
  assumes "verifyChain E l segs = Some h" and "lastEventSeq l = 0 \<Longrightarrow> lastEventSha256 l = None"
    and "\<And>t. t \<in> set segs \<Longrightarrow> wellNamed t \<Longrightarrow> sg_last t \<le> lastEventSeq l"
  shows "verifySegments E (lastEventSeq l) (orderedSegments segs) chain_start
    = Some \<lparr>ch_expected = Suc (lastEventSeq l), ch_prev = lastEventSha256 l, ch_verified = h\<rparr>"
proof (cases "lastEventSeq l = 0")
  case True
  have "filter wellNamed segs = []"
    using assms(3) True unfolding filter_empty_conv by (fastforce simp: wellNamed_def)
  with True assms show ?thesis by (simp add: orderedSegments_wellNamed verifyChain_def)
next
  case False
  with assms(1) obtain s where s: "verifySegments E (lastEventSeq l) (orderedSegments segs) chain_start = Some s"
    and "ch_expected s - 1 = lastEventSeq l" "ch_prev s = lastEventSha256 l" "ch_verified s = h"
    by (auto simp: verifyChain_def split: option.splits if_splits)
  with False have "ch_expected s = Suc (lastEventSeq l)" by simp
  with s \<open>ch_prev s = _\<close> \<open>ch_verified s = h\<close> show ?thesis by (cases s) simp
qed

subsection \<open>Built events\<close>

lemma buildEvents_length [simp]: "length (buildEvents E stamp env tip prev evs) = length evs"
  by (induction evs arbitrary: tip prev) (auto simp: Let_def)

lemma buildEvents_Nil [simp]: "buildEvents E stamp env tip prev evs = [] \<longleftrightarrow> evs = []"
  by (cases evs) (auto simp: Let_def)

lemma buildEvents_seqs: "map evt_seq (buildEvents E stamp env tip prev evs) = [Suc tip..<Suc tip + length evs]"
  by (induction evs arbitrary: tip prev) (auto simp: Let_def upt_conv_Cons simp del: upt_Suc)

lemma hd_buildEvents: "evs \<noteq> [] \<Longrightarrow> evt_seq (hd (buildEvents E stamp env tip prev evs)) = Suc tip"
  by (cases evs) (auto simp: Let_def)

lemma last_buildEvents: "evs \<noteq> [] \<Longrightarrow> evt_seq (last (buildEvents E stamp env tip prev evs)) = tip + length evs"
proof -
  let ?b = "buildEvents E stamp env tip prev evs"
  assume "evs \<noteq> []"
  then have "evt_seq (last ?b) = last (map evt_seq ?b)" by (simp add: last_map)
  moreover have "Suc 0 \<le> length evs" using \<open>evs \<noteq> []\<close> by (cases evs) auto
  ultimately show ?thesis by (simp add: buildEvents_seqs)
qed

definition stampable :: "desk_env \<Rightarrow> string \<Rightarrow> 'c envelope \<Rightarrow> bool" where
  "stampable E stamp env \<longleftrightarrow> time_ok E stamp \<and> bounded_id (en_requestId env) \<and> bounded_id (en_actorKey env) \<and>
     bounded_id (en_assignmentId env)"

lemma builtEvent_ok:
  assumes "sha_hex E" "stampable E stamp env" "opt_ok is_sha prev" "1 \<le> seq"
    and "between_len 1 LIMIT_eventKind (ev_kind e)" "payload_ok (ev_payload e)"
  shows "event_ok E (builtEvent E stamp env seq prev e)"
  using assms unfolding event_ok_def stampable_def
  by (simp add: builtEvent_sha sha_hex_digest)

lemma tipSha256_Cons: "tipSha256 prev (b # bs) = tipSha256 (Some (evt_sha256 b)) bs"
  by (cases bs) (simp_all add: tipSha256_def last_opt_def)

lemma verifyLines_built:
  assumes "sha_hex E" "stampable E stamp env"
    and "list_all (\<lambda>e. between_len 1 LIMIT_eventKind (ev_kind e) \<and> payload_ok (ev_payload e)) evs"
    and "opt_ok is_sha prev" and "tip + length evs \<le> limit"
  shows "verifyLines E limit (Suc tip) (map Some (buildEvents E stamp env tip prev evs))
      \<lparr>ch_expected = x, ch_prev = prev, ch_verified = h\<rparr>
    = Some \<lparr>ch_expected = x + length evs, ch_prev = tipSha256 prev (buildEvents E stamp env tip prev evs),
            ch_verified = h @ buildEvents E stamp env tip prev evs\<rparr>"
  using assms(3-5)
proof (induction evs arbitrary: tip prev x h)
  case Nil
  then show ?case by (simp add: tipSha256_def)
next
  case (Cons e evs)
  let ?b = "builtEvent E stamp env (Suc tip) prev e"
  have ok: "event_ok E ?b" using Cons.prems assms(1,2) by (intro builtEvent_ok) auto
  then have "opt_ok is_sha (Some (evt_sha256 ?b))" by (simp only: event_ok_def opt_ok.simps)
  from Cons.IH [OF _ this, of "Suc tip" "x + 1" "h @ [?b]"] Cons.prems ok
  show ?case by (simp add: Let_def tipSha256_Cons builtEvent_sha [symmetric])
qed

end
