(* ===== verification/Desk_Store_Commit.thy ===== *)
theory Desk_Store_Commit
  imports Desk_Store_Log Desk_Streams
begin

text \<open>
  The commit protocol: what a planned write was checked against, that the written ledger reads
  back together with its extended history, what a crash leaves behind, and what a repeated
  request is answered.
\<close>

subsection \<open>A planned write\<close>

definition baseLedger :: "desk_env \<Rightarrow> store_checks \<Rightarrow> string \<Rightarrow> commit_stamp \<Rightarrow> 'c envelope \<Rightarrow> store_disk \<Rightarrow>
    (ledger \<times> event_row list) option" where
  \<comment> \<open>the ledger and the history a transaction starts from; an absent ledger is empty\<close>
  "baseLedger E K key cx env d = (case readStore E K key d of
       Read_ok l h \<Rightarrow> Some (l, h)
     | Read_absent \<Rightarrow> Some (emptyLedger (en_repo env) key (cx_freshAt cx), [])
     | _ \<Rightarrow> None)"

definition builtFor :: "desk_env \<Rightarrow> 'c decider \<Rightarrow> commit_stamp \<Rightarrow> 'c envelope \<Rightarrow> ledger \<Rightarrow> event_row list \<Rightarrow> event_row list" where
  "builtFor E D cx env l h =
     buildEvents E (cx_at cx) env (lastEventSeq l) (lastEventSha256 l) (outcomeEvents (dd_decide D l h (en_command env)))"

definition receiptFor :: "desk_env \<Rightarrow> 'c decider \<Rightarrow> commit_stamp \<Rightarrow> 'c envelope \<Rightarrow> ledger \<Rightarrow> event_row list \<Rightarrow> transact_result" where
  "receiptFor E D cx env l h = (case dd_decide D l h (en_command env) of
       Inl c \<Rightarrow> Inl c
     | Inr _ \<Rightarrow> Inr \<lparr>rcp_receiptId = cx_receiptId cx, rcp_revision = revision l + 1, rcp_replayed = False,
         rcp_eventSeqs = map_option (\<lambda>s. (sg_first s, sg_last s)) (segmentOf (builtFor E D cx env l h))\<rparr>)"

lemma plan_if: "(if c then Plan_answer a else k) = Plan_write s l r \<longleftrightarrow> \<not> c \<and> k = Plan_write s l r"
  "(if c then Plan_fail else k) = Plan_write s l r \<longleftrightarrow> \<not> c \<and> k = Plan_write s l r"
  by auto

lemma commitDecided_write:
  assumes "commitDecided E K key D cx env l h = Plan_write s l' r"
  defines "dec \<equiv> dd_decide D l h (en_command env)"
  shows "length (requests l) < LIMIT_requests" "checkDecideEvents (outcomeEvents dec)"
    "s = segmentOf (builtFor E D cx env l h)" "l' = candidateLedger E D cx env l (builtFor E D cx env l h) dec"
    "r = receiptFor E D cx env l h" "sk_schema K l'" "sk_ledgerBytes K l' \<le> LIMIT_ledgerBytes"
    "checkRefinements E K key l' (Some (h @ builtFor E D cx env l h))"
  using assms(1)
  unfolding commitDecided_def Let_def plan_if dec_def builtFor_def receiptFor_def commit_plan.inject by auto

lemma repoKeyFor_empty: "repo (emptyLedger rb key t) = rb" "repoKey (emptyLedger rb key t) = key"
  "lastEventSeq (emptyLedger rb key t) = 0" "lastEventSha256 (emptyLedger rb key t) = None"
  "requests (emptyLedger rb key t) = []"
  by (simp_all add: emptyLedger_def)

lemma readStore_ok:
  "readStore E K key d = Read_ok l h \<longleftrightarrow> is_sha key \<and> dk_ledger d = Some l \<and>
     sk_ledgerBytes K l \<le> LIMIT_ledgerBytes \<and> sk_schema K l \<and> verifyChain E l (dk_segments d) = Some h \<and>
     checkRefinements E K key l (Some h)"
  by (auto simp: readStore_def checkRefinements_def split: option.splits if_splits)

lemma readStore_absent: "readStore E K key d = Read_absent \<longleftrightarrow> is_sha key \<and> dk_ledger d = None"
  by (auto simp: readStore_def split: option.splits if_splits)

text \<open>Everything a planned write rests on.\<close>

lemma transactPlan_write:
  assumes "transactPlan E K key D cx env d = Plan_write s l' r"
  obtains l h where "baseLedger E K key cx env d = Some (l, h)" "dk_lock d = Lock_free" "is_sha key"
    "envelope_ok D env" "repoKeyFor E (en_repo env) = key" "repo l = en_repo env" "repoKey l = key"
    "priorRequest l env = None" "verifyChain E l (dk_segments d) = Some h" "diskTip d = lastEventSeq l"
    "lastEventSeq l = 0 \<Longrightarrow> lastEventSha256 l = None"
    "commitDecided E K key D cx env l h = Plan_write s l' r"
proof -
  from assms have g: "is_sha key" "envelope_ok D env" "repoKeyFor E (en_repo env) = key"
    and c: "commitPlan E K key D cx env d = Plan_write s l' r"
    by (auto simp: transactPlan_def split: if_splits)
  from c have lock: "dk_lock d = Lock_free" by (simp add: commitPlan_def split: lock_state.splits)
  have on: "\<exists>h. priorRequest l env = None \<and> verifyChain E l (dk_segments d) = Some h \<and>
      commitDecided E K key D cx env l h = Plan_write s l' r"
    if "commitOn E K key D cx env (dk_segments d) l = Plan_write s l' r" for l
    using that by (auto simp: commitOn_def split: option.splits)
  from c lock consider
    (absent) "readStore E K key d = Read_absent"
      "commitOn E K key D cx env (dk_segments d) (emptyLedger (en_repo env) key (cx_freshAt cx)) = Plan_write s l' r"
  | (ok) l h where "readStore E K key d = Read_ok l h" "repo l = en_repo env"
      "commitOn E K key D cx env (dk_segments d) l = Plan_write s l' r"
    by (auto simp: commitPlan_def split: store_read.splits if_splits)
  then show ?thesis
  proof cases
    case absent
    let ?l = "emptyLedger (en_repo env) key (cx_freshAt cx)"
    from on [OF absent(2)] obtain h where h: "priorRequest ?l env = None" "verifyChain E ?l (dk_segments d) = Some h"
      "commitDecided E K key D cx env ?l h = Plan_write s l' r" by blast
    moreover from h(2) have "h = []" by (simp add: verifyChain_def repoKeyFor_empty)
    moreover have "diskTip d = lastEventSeq ?l"
      using absent(1) by (simp add: readStore_absent diskTip_def repoKeyFor_empty)
    ultimately show ?thesis
      using g lock absent(1) by (intro that [of ?l h]) (auto simp: baseLedger_def repoKeyFor_empty)
  next
    case ok
    from ok(1) have f: "dk_ledger d = Some l" "verifyChain E l (dk_segments d) = Some h" "checkRefinements E K key l (Some h)"
      by (auto simp: readStore_ok)
    with on [OF ok(3)] show ?thesis
      using g lock ok(1,2)
      by (intro that [of l h]) (auto simp: baseLedger_def diskTip_def checkRefinements_def repoBindingOk_def)
  qed
qed

lemma envelope_stampable: "envelope_ok D env \<Longrightarrow> time_ok E t \<Longrightarrow> stampable E t env"
  by (simp add: envelope_ok_def stampable_def)

subsection \<open>The chain across a commit\<close>

lemma segmentOf_some: "segmentOf (buildEvents E t env tip prev evs) =
    (if evs = [] then None else Some \<lparr>sg_first = Suc tip, sg_last = tip + length evs,
       sg_lines = map Some (buildEvents E t env tip prev evs)\<rparr>)"
  by (simp add: segmentOf_def hd_buildEvents last_buildEvents)

lemma verifyChain_extends:
  assumes chain: "verifyChain E l segs = Some h" and zero: "lastEventSeq l = 0 \<Longrightarrow> lastEventSha256 l = None"
    and clean: "\<And>t. t \<in> set segs \<Longrightarrow> wellNamed t \<Longrightarrow> sg_last t \<le> lastEventSeq l"
    and sha: "sha_hex E" and st: "stampable E t env"
    and evs: "list_all (\<lambda>e. between_len 1 LIMIT_eventKind (ev_kind e) \<and> payload_ok (ev_payload e)) evs" and ne: "evs \<noteq> []"
    and built: "b = buildEvents E t env (lastEventSeq l) (lastEventSha256 l) evs"
    and l': "lastEventSeq l' = lastEventSeq l + length b" "lastEventSha256 l' = tipSha256 (lastEventSha256 l) b"
    and s: "segmentOf b = Some s"
  shows "verifyChain E l' (writeSegment s segs) = Some (h @ b)"
proof -
  let ?tip = "lastEventSeq l" and ?tip' = "lastEventSeq l'"
  have sd: "s = \<lparr>sg_first = Suc ?tip, sg_last = ?tip + length evs, sg_lines = map Some b\<rparr>"
    using s ne by (simp add: built segmentOf_some)
  have len: "length b = length evs" "0 < length evs" using ne by (simp_all add: built)
  have ord: "orderedSegments (writeSegment s segs) = orderedSegments segs @ [s]"
  proof (rule orderedSegments_snoc)
    show "sg_last u \<le> ?tip" if "u \<in> set segs" "wellNamed u" for u using clean that .
    show "sg_first s = Suc ?tip" "wellNamed s" using len by (simp_all add: sd wellNamed_def Suc_le_eq)
  qed
  have old: "verifySegments E ?tip' (orderedSegments segs) chain_start
      = Some \<lparr>ch_expected = Suc ?tip, ch_prev = lastEventSha256 l, ch_verified = h\<rparr>"
    using verifyChain_state [OF chain zero clean] clean l'(1)
    by (subst verifySegments_tip [where tip = ?tip]) (auto simp: orderedSegments_wellNamed)
  have "verifyLines E ?tip' (Suc ?tip) (map Some b)
      \<lparr>ch_expected = Suc ?tip, ch_prev = lastEventSha256 l, ch_verified = h\<rparr>
    = Some \<lparr>ch_expected = Suc ?tip + length evs, ch_prev = tipSha256 (lastEventSha256 l) b, ch_verified = h @ b\<rparr>"
    unfolding built using verifyChain_tip_sha [OF chain zero] evs l'(1)
    by (intro verifyLines_built [OF sha st]) (auto simp: len built)
  then have "verifySegments E ?tip' (orderedSegments (writeSegment s segs)) chain_start
      = Some \<lparr>ch_expected = Suc ?tip', ch_prev = lastEventSha256 l', ch_verified = h @ b\<rparr>"
    unfolding ord verifySegments_append old using len l' by (simp add: sd)
  then show ?thesis using len l'(1) by (simp add: verifyChain_def)
qed

lemma verifyChain_orphan:
  \<comment> \<open>a segment above the tip is invisible\<close>
  assumes "sg_first s = Suc (lastEventSeq l)"
  shows "verifyChain E l (writeSegment s segs) = verifyChain E l segs"
  using assms by (intro verifyChain_below) (auto simp: writeSegment_def intro!: filter_cong)

text \<open>The same extension where other interrupted commits left segments just above the tip: the one of
  the same name is replaced, and with no other the history extends.\<close>

lemma verifyChain_extends_orphans:
  assumes chain: "verifyChain E l segs = Some h" and zero: "lastEventSeq l = 0 \<Longrightarrow> lastEventSha256 l = None"
    and tip: "\<And>t. t \<in> set segs \<Longrightarrow> wellNamed t \<Longrightarrow> sg_last t \<le> lastEventSeq l \<or> sg_first t = Suc (lastEventSeq l)"
    and same: "\<And>t. t \<in> set segs \<Longrightarrow> wellNamed t \<Longrightarrow> sg_first t = sg_first s \<Longrightarrow> sg_last t = sg_last s"
    and sha: "sha_hex E" and st: "stampable E t env"
    and evs: "list_all (\<lambda>e. between_len 1 LIMIT_eventKind (ev_kind e) \<and> payload_ok (ev_payload e)) evs" and ne: "evs \<noteq> []"
    and built: "b = buildEvents E t env (lastEventSeq l) (lastEventSha256 l) evs"
    and l': "lastEventSeq l' = lastEventSeq l + length b" "lastEventSha256 l' = tipSha256 (lastEventSha256 l) b"
    and s: "segmentOf b = Some s"
  shows "verifyChain E l' (writeSegment s segs) = Some (h @ b)"
proof -
  let ?old = "filter (\<lambda>u. wellNamed u \<longrightarrow> sg_last u \<le> lastEventSeq l) segs"
  have f: "sg_first s = Suc (lastEventSeq l)" using s ne by (auto simp: built segmentOf_some)
  have "filter (\<lambda>u. wellNamed u \<and> sg_first u \<le> lastEventSeq l) ?old = filter (\<lambda>u. wellNamed u \<and> sg_first u \<le> lastEventSeq l) segs"
    using tip unfolding filter_filter by (intro filter_cong refl) fastforce
  then have "verifyChain E l ?old = Some h" using chain by (subst verifyChain_below) simp_all
  from verifyChain_extends [OF this zero _ sha st evs ne built l' s]
  have v: "verifyChain E l' (writeSegment s ?old) = Some (h @ b)" by auto
  have "filter (\<lambda>u. wellNamed u \<and> sg_first u \<le> lastEventSeq l') (writeSegment s segs)
      = filter (\<lambda>u. wellNamed u \<and> sg_first u \<le> lastEventSeq l') (writeSegment s ?old)"
    unfolding writeSegment_def filter_append filter_filter
    using tip same f by (intro arg_cong2 [where f = append] filter_cong refl) (fastforce simp: wellNamed_def)
  with v show ?thesis by (subst verifyChain_below) simp_all
qed

lemma candidate_sel [simp]:
  "repo (candidateLedger E D cx env l b dec) = repo l" "repoKey (candidateLedger E D cx env l b dec) = repoKey l"
  "revision (candidateLedger E D cx env l b dec) = revision l + 1"
  "lastEventSeq (candidateLedger E D cx env l b dec) = lastEventSeq l + length b"
  "lastEventSha256 (candidateLedger E D cx env l b dec) = tipSha256 (lastEventSha256 l) b"
  by (simp_all add: candidateLedger_def Let_def)

lemma verifyChain_cong:
  "lastEventSeq l = lastEventSeq l' \<Longrightarrow> lastEventSha256 l = lastEventSha256 l' \<Longrightarrow> verifyChain E l segs = verifyChain E l' segs"
proof -
  assume s: "lastEventSeq l = lastEventSeq l'" and t: "lastEventSha256 l = lastEventSha256 l'"
  show ?thesis unfolding verifyChain_def s t by (rule refl)
qed

definition afterSegment :: "segment option \<Rightarrow> segment list \<Rightarrow> segment list" where
  "afterSegment s segs = (case s of None \<Rightarrow> segs | Some x \<Rightarrow> writeSegment x segs)"

lemma last_commitTrace:
  "last (commitTrace (Plan_write s l' r) d) = d\<lparr>dk_segments := afterSegment s (dk_segments d), dk_ledger := Some l'\<rparr>"
  by (cases s) (simp_all add: afterSegment_def Let_def)

text \<open>
  A commit overtakes an orphan if a segment file with the same first number and another last number
  is there already: the rename does not replace it.
\<close>

definition overtakesOrphan :: "segment option \<Rightarrow> segment list \<Rightarrow> bool" where
  "overtakesOrphan s segs \<longleftrightarrow> (case s of None \<Rightarrow> False
     | Some x \<Rightarrow> list_ex (\<lambda>t. wellNamed t \<and> sg_first t = sg_first x \<and> sg_last t \<noteq> sg_last x) segs)"

lemma orphanFree_overtakes:
  "orphanFree d \<Longrightarrow> (\<And>x. s = Some x \<Longrightarrow> sg_first x = Suc (diskTip d)) \<Longrightarrow> \<not> overtakesOrphan s (dk_segments d)"
  by (cases s) (fastforce simp: overtakesOrphan_def orphanFree_def list_ex_iff list_all_iff wellNamed_def)+

lemma write_reads_back:
  assumes "transactPlan E K key D cx env d = Plan_write s l' r" and "sha_hex E" and "time_ok E (cx_at cx)" and "orphansAtTip d"
    and "\<not> overtakesOrphan s (dk_segments d)" and "baseLedger E K key cx env d = Some (l, h)"
  shows "readStore E K key (last (commitTrace (Plan_write s l' r) d)) = Read_ok l' (h @ builtFor E D cx env l h)"
    and "orphansAtTip (last (commitTrace (Plan_write s l' r) d))"
    and "orphanFree d \<Longrightarrow> orphanFree (last (commitTrace (Plan_write s l' r) d))"
proof -
  from assms(1) obtain l0 h0 where b: "baseLedger E K key cx env d = Some (l0, h0)" and k: "is_sha key"
    and ok: "envelope_ok D env" and chain: "verifyChain E l0 (dk_segments d) = Some h0" and tip: "diskTip d = lastEventSeq l0"
    and zero: "lastEventSeq l0 = 0 \<Longrightarrow> lastEventSha256 l0 = None"
    and w: "commitDecided E K key D cx env l0 h0 = Plan_write s l' r"
    using transactPlan_write by metis
  have l0: "l0 = l" "h0 = h" using b assms(6) by auto
  note w = commitDecided_write [OF w, unfolded l0]
  have clean: "sg_last t \<le> lastEventSeq l \<or> sg_first t = Suc (lastEventSeq l)" if "t \<in> set (dk_segments d)" "wellNamed t" for t
    using assms(4) that tip by (auto simp: orphansAtTip_def list_all_iff l0)
  let ?evs = "outcomeEvents (dd_decide D l h (en_command env))"
  have same: "sg_last t = sg_last x" if "s = Some x" "t \<in> set (dk_segments d)" "wellNamed t" "sg_first t = sg_first x" for t x
    using assms(5) that by (auto simp: overtakesOrphan_def list_ex_iff)
  have v: "verifyChain E l' (afterSegment s (dk_segments d)) = Some (h @ builtFor E D cx env l h)"
  proof (cases "?evs = []")
    case True
    then have "builtFor E D cx env l h = []" by (simp add: builtFor_def)
    then show ?thesis
      using chain unfolding w(3) w(4) l0
      by (subst verifyChain_cong [where l' = l]) (simp_all add: afterSegment_def segmentOf_def tipSha256_def)
  next
    case False
    then obtain x where x: "segmentOf (builtFor E D cx env l h) = Some x" by (simp add: builtFor_def segmentOf_some)
    have "verifyChain E l' (writeSegment x (dk_segments d)) = Some (h @ builtFor E D cx env l h)"
      using w(2) chain zero same [of x] x w(3)
      by (intro verifyChain_extends_orphans [OF _ _ clean _ assms(2) envelope_stampable [OF ok assms(3)] _ False builtFor_def _ _ x])
        (auto simp: l0 checkDecideEvents_def w(4))
    then show ?thesis by (simp add: afterSegment_def w(3) x)
  qed
  then show "readStore E K key (last (commitTrace (Plan_write s l' r) d)) = Read_ok l' (h @ builtFor E D cx env l h)"
    unfolding readStore_ok last_commitTrace using k w(6-8) by simp
  have seg: "sg_first x = Suc (lastEventSeq l)" "sg_last x = lastEventSeq l'" if "s = Some x" for x
    using that by (auto simp: w(3,4) builtFor_def segmentOf_some split: if_splits)
  have tip': "diskTip (d\<lparr>dk_segments := afterSegment s (dk_segments d), dk_ledger := Some l'\<rparr>) = lastEventSeq l'"
    by (simp add: diskTip_def)
  have le: "lastEventSeq l \<le> lastEventSeq l'" by (simp add: w(4))
  have still: "s = None \<Longrightarrow> lastEventSeq l' = lastEventSeq l" by (simp add: w(4)) (simp add: w(3) segmentOf_def split: if_splits)
  show "orphansAtTip (last (commitTrace (Plan_write s l' r) d))"
    unfolding last_commitTrace orphansAtTip_def tip' list_all_iff
  proof (intro ballI impI)
    fix t
    assume t: "t \<in> set (dk_segments (d\<lparr>dk_segments := afterSegment s (dk_segments d), dk_ledger := Some l'\<rparr>))" "wellNamed t"
    show "sg_last t \<le> lastEventSeq l' \<or> sg_first t = Suc (lastEventSeq l')"
    proof (cases s)
      case None
      with t clean [of t] still show ?thesis by (simp add: afterSegment_def)
    next
      case (Some x)
      with t consider "t = x" | "t \<in> set (dk_segments d)" by (auto simp: afterSegment_def writeSegment_def)
      then show ?thesis
        using seg [OF Some] le clean [of t] same [OF Some, of t] t(2) by cases fastforce+
    qed
  qed
  show "orphanFree (last (commitTrace (Plan_write s l' r) d))" if "orphanFree d"
    unfolding last_commitTrace orphanFree_def tip' list_all_iff
  proof (intro ballI impI)
    fix t
    assume "t \<in> set (dk_segments (d\<lparr>dk_segments := afterSegment s (dk_segments d), dk_ledger := Some l'\<rparr>))" "wellNamed t"
    then have "(\<exists>x. s = Some x \<and> t = x) \<or> t \<in> set (dk_segments d)" by (auto simp: afterSegment_def writeSegment_def split: option.splits)
    with that \<open>wellNamed t\<close> tip le seg show "sg_last t \<le> lastEventSeq l'" by (fastforce simp: orphanFree_def list_all_iff l0)
  qed
qed

end
