(* ===== verification/Desk_Store_History.thy ===== *)
theory Desk_Store_History
  imports Desk_Store_Commit
begin

text \<open>
  What verifying the event log establishes: a history that verifies is numbered from 1, complete and
  linked by the digests, and two segment files that start at the same number below the tip never
  verify together.
\<close>

subsection \<open>A verified history is complete and linked\<close>

interpretation events: linked_ledger "\<lambda>h (k :: unit). h" "\<lambda>h e. h @ [e]" "\<lambda>_. ()" evt_seq evt_prevSha256 evt_sha256
  by unfold_locales simp_all

definition chained :: "desk_env \<Rightarrow> event_row list \<Rightarrow> bool" where
  \<comment> \<open>numbered from 1 without gaps, each event naming the digest of the one before, each digest recomputed\<close>
  "chained E h \<longleftrightarrow> map evt_seq h = [1..<Suc (length h)] \<and>
     (\<forall>i < length h. evt_prevSha256 (h ! i) = (if i = 0 then None else Some (evt_sha256 (h ! (i - 1))))) \<and>
     list_all (\<lambda>e. event_ok E e \<and> evt_sha256 e = eventDigest E e) h"

lemma chained_alt: "chained E h \<longleftrightarrow> events.linked h () \<and> list_all (\<lambda>e. event_ok E e \<and> evt_sha256 e = eventDigest E e) h"
  by (auto simp: chained_def events.linked_def events.numbered_def simp del: upt_Suc)

definition chainSound :: "desk_env \<Rightarrow> chain_state \<Rightarrow> bool" where
  "chainSound E s \<longleftrightarrow> chained E (ch_verified s) \<and> ch_expected s = Suc (length (ch_verified s)) \<and>
     ch_prev s = map_option evt_sha256 (last_opt (ch_verified s))"

lemma chainSound_step:
  assumes "chainSound E s" and "event_ok E e" and "evt_seq e = ch_expected s" and "evt_sha256 e = eventDigest E e"
    and "evt_prevSha256 e = ch_prev s"
  shows "chainSound E \<lparr>ch_expected = ch_expected s + 1, ch_prev = Some (evt_sha256 e), ch_verified = ch_verified s @ [e]\<rparr>"
proof -
  let ?h = "ch_verified s"
  have l: "events.linked ?h ()" and a: "list_all (\<lambda>e. event_ok E e \<and> evt_sha256 e = eventDigest E e) ?h"
    using assms(1) by (simp_all add: chainSound_def chained_alt)
  have "evt_seq e = Suc (events.current ?h ())"
    using assms(1,3) l events.current_length [of ?h "()"] by (simp add: chainSound_def events.linked_def)
  moreover have "evt_prevSha256 e = events.head ?h ()" using assms(1,5) by (simp add: chainSound_def events.head_def)
  ultimately have "events.linked (?h @ [e]) ()" by (intro events.push_linked [OF l]) simp_all
  with a assms show ?thesis by (simp add: chainSound_def chained_alt)
qed

lemma verifyLines_sound:
  assumes "verifyLines E tip seq ls s = Some s'" and "chainSound E s" and "seq = ch_expected s"
  shows "chainSound E s' \<and> ch_expected s \<le> ch_expected s' \<and> (ls \<noteq> [] \<and> seq \<le> tip \<longrightarrow> ch_expected s < ch_expected s')"
  using assms
proof (induction ls arbitrary: seq s)
  case (Cons x ls)
  from Cons.prems(1) obtain e where x: "x = Some e" by (cases x) auto
  let ?n = "\<lparr>ch_expected = ch_expected s + 1, ch_prev = Some (evt_sha256 e), ch_verified = ch_verified s @ [e]\<rparr>"
  from Cons.prems(1) have ok: "event_ok E e" "evt_seq e = seq" "evt_sha256 e = eventDigest E e"
    by (auto simp: x split: if_splits)
  show ?case
  proof (cases "tip < seq")
    case True
    with Cons.prems ok show ?thesis by (simp add: x)
  next
    case False
    with Cons.prems(1) ok have p: "evt_prevSha256 e = ch_prev s" and v: "verifyLines E tip (seq + 1) ls ?n = Some s'"
      by (auto simp: x split: if_splits)
    have "chainSound E ?n" using Cons.prems ok p by (intro chainSound_step) simp_all
    from Cons.IH [OF v this] Cons.prems(3) show ?thesis by simp
  qed
qed simp

text \<open>The segments below the tip that verify start at strictly increasing sequence numbers.\<close>

lemma verifySegments_sound:
  assumes "verifySegments E tip segs s = Some s'" and "chainSound E s"
  shows "chainSound E s' \<and> ch_expected s \<le> ch_expected s' \<and>
    (\<forall>t \<in> set segs. sg_first t \<le> tip \<longrightarrow> ch_expected s \<le> sg_first t) \<and>
    distinct (map sg_first (filter (\<lambda>t. sg_first t \<le> tip) segs))"
  using assms
proof (induction segs arbitrary: s)
  case (Cons t segs)
  show ?case
  proof (cases "tip < sg_first t")
    case True
    with Cons show ?thesis by auto
  next
    case False
    with Cons.prems(1) obtain u where f: "sg_first t = ch_expected s" and n: "length (sg_lines t) = sg_last t - sg_first t + 1"
      and u: "verifyLines E tip (sg_first t) (sg_lines t) s = Some u" and r: "verifySegments E tip segs u = Some s'"
      by (auto split: if_splits option.splits)
    from n have "sg_lines t \<noteq> []" by auto
    with verifyLines_sound [OF u Cons.prems(2)] f False
    have "chainSound E u" and lt: "ch_expected s < ch_expected u" by auto
    from Cons.IH [OF r this(1)] lt f False show ?thesis by fastforce
  qed
qed simp

lemma chainSound_start: "chainSound E chain_start"
  by (simp add: chainSound_def chained_def)

lemma read_history:
  assumes "readStore E K key d = Read_ok l h"
  shows "chained E h \<and> length h = lastEventSeq l \<and> map_option evt_sha256 (last_opt h) = lastEventSha256 l"
proof (cases "lastEventSeq l = 0")
  case True
  with assms show ?thesis by (auto simp: readStore_ok verifyChain_def checkRefinements_def chained_def)
next
  case False
  with assms obtain s where v: "verifySegments E (lastEventSeq l) (orderedSegments (dk_segments d)) chain_start = Some s"
    and "ch_expected s - 1 = lastEventSeq l" "ch_prev s = lastEventSha256 l" "ch_verified s = h"
    by (auto simp: readStore_ok verifyChain_def split: option.splits if_splits)
  with verifySegments_sound [OF v chainSound_start] show ?thesis by (auto simp: chainSound_def)
qed

subsection \<open>Two segments that start at the same number\<close>

lemma same_first_breaks:
  assumes "x \<in> set segs" and "y \<in> set segs" and "x \<noteq> y" and "sg_first x = sg_first y" and "wellNamed x" and "wellNamed y"
    and "sg_first x \<le> lastEventSeq l"
  shows "verifyChain E l segs = None"
proof (rule ccontr)
  assume "verifyChain E l segs \<noteq> None"
  moreover have "lastEventSeq l \<noteq> 0" using assms(5,7) by (auto simp: wellNamed_def)
  ultimately obtain s where "verifySegments E (lastEventSeq l) (orderedSegments segs) chain_start = Some s"
    by (auto simp: verifyChain_def split: option.splits)
  from verifySegments_sound [OF this chainSound_start]
  have "distinct (map sg_first (filter (\<lambda>t. sg_first t \<le> lastEventSeq l) (orderedSegments segs)))" by simp
  moreover have "{x, y} \<subseteq> set (filter (\<lambda>t. sg_first t \<le> lastEventSeq l) (orderedSegments segs))"
    using assms by (auto simp: orderedSegments_wellNamed)
  ultimately show False using assms(3,4) by (auto simp: distinct_map inj_on_def)
qed

text \<open>So a commit that overtakes an orphan leaves a store that reads as corrupt.\<close>

lemma overtaking_corrupts:
  assumes "transactPlan E K key D cx env d = Plan_write s l' r" and "overtakesOrphan s (dk_segments d)"
  shows "readStore E K key (last (commitTrace (Plan_write s l' r) d)) = Read_corrupt"
proof -
  from assms(1) obtain l h where b: "baseLedger E K key cx env d = Some (l, h)" and key: "is_sha key"
    and w: "commitDecided E K key D cx env l h = Plan_write s l' r"
    using transactPlan_write by metis
  note c = commitDecided_write [OF w]
  from assms(2) obtain x t where x: "s = Some x" and t: "t \<in> set (dk_segments d)" "wellNamed t" "sg_first t = sg_first x" "sg_last t \<noteq> sg_last x"
    by (auto simp: overtakesOrphan_def list_ex_iff split: option.splits)
  have w': "wellNamed x" "sg_first x \<le> lastEventSeq l'"
    using c(3) x by (auto simp: builtFor_def segmentOf_some wellNamed_def Suc_le_eq c(4) split: if_splits)
  have "t \<in> set (writeSegment x (dk_segments d))" "x \<in> set (writeSegment x (dk_segments d))"
    using t by (auto simp: writeSegment_def)
  from same_first_breaks [OF this _ t(3,2) w'(1)] t(3,4) w'(2) have "verifyChain E l' (writeSegment x (dk_segments d)) = None" by auto
  moreover have "repoBindingOk E key l'" using c(8) by (simp add: checkRefinements_def)
  ultimately show ?thesis
    using key unfolding x last_commitTrace by (simp add: readStore_def afterSegment_def)
qed

end
