(* ===== verification/Desk_Store_Examples.thy ===== *)
theory Desk_Store_Examples
  imports Desk_Store_History "HOL-Library.Code_Target_Nat"
begin

text \<open>
  A small store for the witnesses: a digest stand-in with 64 hexadecimal characters, a decider
  whose command is the number of events it emits (none: a rejection), and an empty disk.
\<close>

definition toy_sha :: "string \<Rightarrow> string" where
  "toy_sha s = replicate 63 (CHR ''0'') @ [hex_digit (length s mod 16)]"

definition toy_env :: desk_env where
  "toy_env = \<lparr>sha256 = toy_sha, locale_compare = (\<lambda>a b. 0), uuid_ok = (\<lambda>s. s \<noteq> []), time_ok = (\<lambda>s. s \<noteq> [])\<rparr>"

definition toy_checks :: store_checks where
  "toy_checks = \<lparr>sk_tables = (\<lambda>l h. True), sk_schema = (\<lambda>l. True), sk_ledgerBytes = (\<lambda>l. 1000 * length (requests l))\<rparr>"

definition toy_event :: desk_event where
  "toy_event = \<lparr>ev_kind = ''tick'', ev_payload = JObj []\<rparr>"

definition toy_decider :: "nat decider" where
  "toy_decider = \<lparr>dd_encode = (\<lambda>n. JObj [(''n'', json_nat n)]),
     dd_decide = (\<lambda>l h n. if n = 0 then Inl REVISION_CONFLICT else Inr (replicate n toy_event, no_tables))\<rparr>"

definition toy_repo :: repo_binding where
  "toy_repo = \<lparr>rb_hostId = ''h'', rb_gitCommonDir = ''/g''\<rparr>"

definition toy_key :: string where "toy_key = repoKeyFor toy_env toy_repo"

definition toy_stamp :: commit_stamp where
  "toy_stamp = \<lparr>cx_freshAt = ''t0'', cx_at = ''t1'', cx_receiptId = ''rc''\<rparr>"

definition toy_request :: "string \<Rightarrow> nat \<Rightarrow> nat envelope" where
  "toy_request rid n = \<lparr>en_repo = toy_repo, en_actorKey = ''lead1'', en_assignmentId = ''asg'', en_requestId = rid,
     en_command = n\<rparr>"

definition toy_disk :: store_disk where
  "toy_disk = \<lparr>dk_ledger = None, dk_segments = [], dk_lock = Lock_free\<rparr>"

lemma hex_digit_hex: "n < 16 \<Longrightarrow> is_hex (hex_digit n)"
  by (simp add: is_hex_def hex_digit_def Let_def of_char_of)

lemma toy_sha_hex [simp]: "sha_hex toy_env"
proof -
  have "is_sha (toy_sha s)" for s
    using hex_digit_hex [of "length s mod 16"] by (simp add: toy_sha_def is_sha_def list_all_iff is_hex_def)
  then show ?thesis by (simp add: sha_hex_def toy_env_def)
qed

lemma toy_time [simp]: "time_ok toy_env (cx_at toy_stamp)"
  by (simp add: toy_env_def toy_stamp_def)

lemma toy_orphanFree [simp]: "orphanFree toy_disk"
  by (simp add: orphanFree_def toy_disk_def)

lemmas toy_defs = toy_sha_def toy_env_def toy_checks_def toy_event_def toy_decider_def toy_repo_def toy_stamp_def
  toy_request_def toy_disk_def

lemma toy_first: "(case transactPlan toy_env toy_checks toy_key toy_decider toy_stamp (toy_request ''r1'' 2) toy_disk of
    Plan_write s l' r \<Rightarrow> r = Inr \<lparr>rcp_receiptId = ''rc'', rcp_revision = 1, rcp_replayed = False, rcp_eventSeqs = Some (1, 2)\<rparr>
  | _ \<Rightarrow> False)"
  by code_simp

end
