(* ===== verification/Desk_Store_Safety.thy ===== *)
theory Desk_Store_Safety
  imports Desk_Store_Examples
begin

text \<open>
  What the store promises its callers: a written ledger reads back, a crash leaves the old or the
  new one, a recorded request is answered from its record for ever, a rejection records nothing
  but itself, and a history that reads is complete, gapless and linked. The last section shows
  where the promise fails: a segment left behind by a crash breaks the chain of a later commit.
\<close>

subsection \<open>One step\<close>

lemma base_unique:
  "transactPlan E K key D cx env d = Plan_write s l' r \<Longrightarrow> \<exists>l h. baseLedger E K key cx env d = Some (l, h)"
  by (metis transactPlan_write)

lemma write_candidate:
  assumes "transactPlan E K key D cx env d = Plan_write s l' r" and "baseLedger E K key cx env d = Some (l, h)"
  shows "s = segmentOf (builtFor E D cx env l h)"
    "l' = candidateLedger E D cx env l (builtFor E D cx env l h) (dd_decide D l h (en_command env))"
    "r = receiptFor E D cx env l h" "priorRequest l env = None"
proof -
  from assms(1) obtain l0 h0 where b: "baseLedger E K key cx env d = Some (l0, h0)" and p: "priorRequest l0 env = None"
    and w: "commitDecided E K key D cx env l0 h0 = Plan_write s l' r" using transactPlan_write by metis
  from b assms(2) have "l0 = l" "h0 = h" by auto
  with commitDecided_write(3,4,5) [OF w] p
  show "s = segmentOf (builtFor E D cx env l h)"
    "l' = candidateLedger E D cx env l (builtFor E D cx env l h) (dd_decide D l h (en_command env))"
    "r = receiptFor E D cx env l h" "priorRequest l env = None" by auto
qed

lemma snd_transact: "transactPlan E K key D cx env d = Plan_write s l' r \<Longrightarrow>
    snd (transact E K key D cx env d) = d\<lparr>dk_segments := afterSegment s (dk_segments d), dk_ledger := Some l'\<rparr>"
  by (simp add: transact_def last_commitTrace)

lemma transact_idle: "(\<And>s l' r. transactPlan E K key D cx env d \<noteq> Plan_write s l' r) \<Longrightarrow> snd (transact E K key D cx env d) = d"
  by (cases "transactPlan E K key D cx env d") (auto simp: transact_def)

subsection \<open>Request records\<close>

definition envelopeKey :: "'c envelope \<Rightarrow> string \<times> string \<times> string" where
  "envelopeKey env = (en_actorKey env, en_assignmentId env, en_requestId env)"

definition replayAnswer :: "transact_result \<Rightarrow> transact_result" where
  "replayAnswer r = map_sum id (\<lambda>x. x\<lparr>rcp_replayed := True\<rparr>) r"

definition rowFor :: "desk_env \<Rightarrow> 'c decider \<Rightarrow> commit_stamp \<Rightarrow> 'c envelope \<Rightarrow> ledger \<Rightarrow> event_row list \<Rightarrow> request_record" where
  "rowFor E D cx env l h = requestRow E D cx env (revision l + 1)
     (map_option (\<lambda>s. (sg_first s, sg_last s)) (segmentOf (builtFor E D cx env l h)))
     (case dd_decide D l h (en_command env) of Inl c \<Rightarrow> Some c | Inr _ \<Rightarrow> None)"

lemma requestKey_rowFor [simp]: "requestKey (rowFor E D cx env l h) = envelopeKey env"
  by (simp add: rowFor_def requestRow_def requestKey_def envelopeKey_def)

lemma bodySha_rowFor [simp]: "q_bodySha256 (rowFor E D cx env l h) = bodySha256 E D env"
  by (simp add: rowFor_def requestRow_def)

lemma recordedAnswer_rowFor: "recordedAnswer (rowFor E D cx env l h) = replayAnswer (receiptFor E D cx env l h)"
  by (simp add: recordedAnswer_def rowFor_def requestRow_def replayAnswer_def receiptFor_def split: sum.splits)

lemma requests_candidate: "requests (candidateLedger E D cx env l (builtFor E D cx env l h) (dd_decide D l h (en_command env)))
    = requests l @ [rowFor E D cx env l h]"
  by (simp add: candidateLedger_def Let_def rowFor_def)

lemma priorRequest_key: "priorRequest l env = find (\<lambda>q. requestKey q = envelopeKey env) (requests l)"
  by (simp add: priorRequest_def requestKey_def envelopeKey_def)

lemma find_distinct_key: "distinct (map f xs) \<Longrightarrow> x \<in> set xs \<Longrightarrow> f x = k \<Longrightarrow> find (\<lambda>y. f y = k) xs = Some x"
  by (induction xs) (auto simp: image_iff)

lemma recorded_found:
  assumes "readStore E K key d = Read_ok l h" and "q \<in> set (requests l)" and "requestKey q = envelopeKey env"
  shows "priorRequest l env = Some q"
  using assms unfolding readStore_ok priorRequest_key checkRefinements_def by (intro find_distinct_key) auto

subsection \<open>The promises\<close>

lemma toy_plan: "\<exists>s l'. transactPlan toy_env toy_checks toy_key toy_decider toy_stamp (toy_request ''r1'' 2) toy_disk
    = Plan_write s l' (Inr \<lparr>rcp_receiptId = ''rc'', rcp_revision = 1, rcp_replayed = False, rcp_eventSeqs = Some (1, 2)\<rparr>)"
  using toy_first by (auto split: commit_plan.splits)

lemma toy_atTip [simp]: "orphansAtTip toy_disk"
  by (rule orphanFree_atTip) simp

lemma toy_not_overtaken [simp]: "\<not> overtakesOrphan s (dk_segments toy_disk)"
  by (simp add: overtakesOrphan_def toy_disk_def split: option.splits)

text \<open>
  Crashes leave orphan segments: files of a commit that was interrupted before its ledger was
  renamed. They start right above the tip of the committed ledger (\<open>orphansAtTip\<close>), and the claims
  below hold on every such disk, after any number of crashes; C5 shows that a crash keeps the
  condition. The store breaks in one case only, which the claims name: a commit whose segment starts
  where an orphan starts and ends elsewhere (\<open>overtakesOrphan\<close>).
\<close>

text \<open>C11. A committed write reads back: the store reads the ledger it wrote, with the verified history
  extended by exactly the events of the decision, also on a disk where interrupted commits left
  orphan segments just above the tip. The one exception is decided by the file names: the store
  reads as corrupt exactly if the commit overtakes an orphan.\<close>

theorem commit_reads_back:
  assumes "transactPlan E K key D cx env d = Plan_write s l' r" and "sha_hex E" and "time_ok E (cx_at cx)" and "orphansAtTip d"
  shows "\<exists>l h. baseLedger E K key cx env d = Some (l, h) \<and>
    readStore E K key (snd (transact E K key D cx env d)) =
      (if overtakesOrphan s (dk_segments d) then Read_corrupt else Read_ok l' (h @ builtFor E D cx env l h)) \<and>
    (overtakesOrphan s (dk_segments d) \<or> orphansAtTip (snd (transact E K key D cx env d)))"
proof -
  from base_unique [OF assms(1)] obtain l h where b: "baseLedger E K key cx env d = Some (l, h)" by blast
  show ?thesis
  proof (cases "overtakesOrphan s (dk_segments d)")
    case True
    with overtaking_corrupts [OF assms(1) True] b show ?thesis by (simp add: transact_def assms(1))
  next
    case False
    with write_reads_back [OF assms False b] b show ?thesis by (simp add: transact_def assms(1))
  qed
qed

theorem commit_reads_back_witness:
  "\<exists>l' h. readStore toy_env toy_checks toy_key
     (snd (transact toy_env toy_checks toy_key toy_decider toy_stamp (toy_request ''r1'' 2) toy_disk)) = Read_ok l' h"
proof -
  from toy_plan obtain s l' where p: "transactPlan toy_env toy_checks toy_key toy_decider toy_stamp (toy_request ''r1'' 2) toy_disk
    = Plan_write s l' (Inr \<lparr>rcp_receiptId = ''rc'', rcp_revision = 1, rcp_replayed = False, rcp_eventSeqs = Some (1, 2)\<rparr>)" by blast
  from commit_reads_back [OF p toy_sha_hex toy_time toy_atTip] show ?thesis by auto
qed

lemma write_tip:
  assumes "transactPlan E K key D cx env d = Plan_write (Some s) l' r"
  shows "sg_first s = Suc (diskTip d)" "wellNamed s"
proof -
  from assms obtain l0 h0 where b: "baseLedger E K key cx env d = Some (l0, h0)" "diskTip d = lastEventSeq l0"
    using transactPlan_write by metis
  from write_candidate(1) [OF assms b(1)] b(2) show "sg_first s = Suc (diskTip d)" "wellNamed s"
    by (auto simp: builtFor_def segmentOf_some wellNamed_def Suc_le_eq split: if_splits)
qed

lemma overtaken_not_free:
  assumes "transactPlan E K key D cx env d = Plan_write s l' r" and "overtakesOrphan s (dk_segments d)"
  shows "\<not> orphanFree d"
proof
  assume free: "orphanFree d"
  have "sg_first x = Suc (diskTip d)" if "s = Some x" for x
    using assms(1) that by (intro write_tip(1)) simp
  from orphanFree_overtakes [OF free this] assms(2) show False by simp
qed

lemma orphan_invisible:
  assumes "transactPlan E K key D cx env d = Plan_write (Some s) l' r"
  shows "readStore E K key (d\<lparr>dk_segments := writeSegment s (dk_segments d)\<rparr>) = readStore E K key d"
proof (cases "dk_ledger d")
  case (Some l)
  then have "verifyChain E l (writeSegment s (dk_segments d)) = verifyChain E l (dk_segments d)"
    using write_tip(1) [OF assms] by (intro verifyChain_orphan) (simp add: diskTip_def)
  with Some show ?thesis by (simp add: readStore_def)
qed (simp add: readStore_def)

lemma orphan_atTip:
  assumes "transactPlan E K key D cx env d = Plan_write (Some s) l' r" and "orphansAtTip d"
  shows "orphansAtTip (d\<lparr>dk_segments := writeSegment s (dk_segments d)\<rparr>)"
  using assms(2) write_tip [OF assms(1)] by (auto simp: orphansAtTip_def list_all_iff writeSegment_def diskTip_def)

text \<open>The states an interrupted commit passes through, in one lemma.\<close>

lemma trace_states:
  assumes "sha_hex E" and "time_ok E (cx_at cx)" and "orphansAtTip d"
    and "d' \<in> set (commitTrace (transactPlan E K key D cx env d) d)"
  shows "readStore E K key d' = readStore E K key d \<and> orphansAtTip d' \<or>
    d' = snd (transact E K key D cx env d) \<and>
      ((\<exists>l' h'. readStore E K key d' = Read_ok l' h' \<and> priorRequest l' env \<noteq> None) \<and> orphansAtTip d' \<or>
       readStore E K key d' = Read_corrupt \<and>
         (\<exists>s l' r. transactPlan E K key D cx env d = Plan_write s l' r \<and> overtakesOrphan s (dk_segments d)))"
proof (cases "transactPlan E K key D cx env d")
  case (Plan_write s l' r)
  from base_unique [OF this] obtain l h where b: "baseLedger E K key cx env d = Some (l, h)" by blast
  have "requests l' = requests l @ [rowFor E D cx env l h]"
    by (simp only: write_candidate(2) [OF Plan_write b] requests_candidate)
  then have "priorRequest l' env \<noteq> None" by (auto simp: priorRequest_key find_None_iff)
  then have final: "(\<exists>l' h'. readStore E K key (snd (transact E K key D cx env d)) = Read_ok l' h' \<and> priorRequest l' env \<noteq> None) \<and>
      orphansAtTip (snd (transact E K key D cx env d)) \<or>
      readStore E K key (snd (transact E K key D cx env d)) = Read_corrupt \<and> overtakesOrphan s (dk_segments d)"
    using write_reads_back [OF Plan_write assms(1-3) _ b] overtaking_corrupts [OF Plan_write]
    by (cases "overtakesOrphan s (dk_segments d)") (auto simp: transact_def Plan_write)
  from assms(4) consider "d' = d" | "d' = snd (transact E K key D cx env d)"
    | x where "s = Some x" "d' = d\<lparr>dk_segments := writeSegment x (dk_segments d)\<rparr>"
    unfolding Plan_write snd_transact [OF Plan_write] by (cases s) (auto simp: Let_def afterSegment_def)
  then show ?thesis
  proof cases
    case 1
    then show ?thesis using assms(3) by simp
  next
    case 2
    with final Plan_write show ?thesis by blast
  next
    case 3
    then have p: "transactPlan E K key D cx env d = Plan_write (Some x) l' r" using Plan_write by simp
    from orphan_invisible [OF p] orphan_atTip [OF p assms(3)] 3(2) show ?thesis by simp
  qed
qed (use assms(3,4) in auto)

text \<open>C5. Crash safety of one commit, on a disk that carries the orphans of any earlier crashes: whatever
  state of the disk a crash or an I/O error leaves behind, it reads as before the transaction, or it
  is the final state and reads as a ledger that carries the request; only where the commit
  overtakes an orphan does the final state read as corrupt. In every other case the orphans still
  start right above the tip, so the claim applies to the next transaction again.\<close>

theorem crash_leaves_old_or_new:
  assumes "sha_hex E" and "time_ok E (cx_at cx)" and "orphansAtTip d"
  shows "\<forall>d' \<in> set (commitTrace (transactPlan E K key D cx env d) d).
    readStore E K key d' = readStore E K key d \<and> orphansAtTip d' \<or>
    d' = snd (transact E K key D cx env d) \<and>
      ((\<exists>l' h'. readStore E K key d' = Read_ok l' h' \<and> priorRequest l' env \<noteq> None) \<and> orphansAtTip d' \<or>
       readStore E K key d' = Read_corrupt \<and>
         (\<exists>s l' r. transactPlan E K key D cx env d = Plan_write s l' r \<and> overtakesOrphan s (dk_segments d)))"
  using trace_states [OF assms] by blast

definition toy_left :: store_disk where
  \<comment> \<open>the disk after a crash between the two renames of the two-event request\<close>
  "toy_left = commitTrace (transactPlan toy_env toy_checks toy_key toy_decider toy_stamp (toy_request ''r1'' 2) toy_disk) toy_disk ! 1"

lemma toy_left_shape:
  "(case dk_segments toy_left of [s] \<Rightarrow> sg_first s = 1 \<and> sg_last s = 2 | _ \<Rightarrow> False) \<and> dk_ledger toy_left = None"
  by code_simp

lemma toy_left_atTip: "orphansAtTip toy_left \<and> \<not> orphanFree toy_left"
proof -
  from toy_left_shape obtain s where "dk_segments toy_left = [s]" "sg_first s = 1" "sg_last s = 2" "dk_ledger toy_left = None"
    by (auto split: list.splits)
  then show ?thesis by (simp add: orphansAtTip_def orphanFree_def diskTip_def wellNamed_def)
qed

text \<open>The witness: the same request repeated on the disk the crash left.\<close>

theorem crash_leaves_old_or_new_witness:
  "\<not> orphanFree toy_left \<and>
   list_all (\<lambda>d'. readStore toy_env toy_checks toy_key d' = readStore toy_env toy_checks toy_key toy_left \<and> orphansAtTip d' \<or>
      d' = snd (transact toy_env toy_checks toy_key toy_decider toy_stamp (toy_request ''r1'' 2) toy_left) \<and>
      ((\<exists>l' h'. readStore toy_env toy_checks toy_key d' = Read_ok l' h' \<and> priorRequest l' (toy_request ''r1'' 2) \<noteq> None) \<and> orphansAtTip d' \<or>
       readStore toy_env toy_checks toy_key d' = Read_corrupt \<and>
         (\<exists>s l' r. transactPlan toy_env toy_checks toy_key toy_decider toy_stamp (toy_request ''r1'' 2) toy_left = Plan_write s l' r \<and>
           overtakesOrphan s (dk_segments toy_left))))
    (commitTrace (transactPlan toy_env toy_checks toy_key toy_decider toy_stamp (toy_request ''r1'' 2) toy_left) toy_left)"
  using toy_left_atTip
  by (intro conjI) (simp, simp only: list_all_iff, rule crash_leaves_old_or_new, simp_all)

subsection \<open>Sequences of transactions\<close>

text \<open>A transaction, interrupted or not: it leaves the disk in the given state of its trace, the last
  one if it is not interrupted.\<close>

type_synonym 'c attempt = "commit_stamp \<times> 'c envelope \<times> nat"

definition attemptState :: "desk_env \<Rightarrow> store_checks \<Rightarrow> string \<Rightarrow> 'c decider \<Rightarrow> 'c attempt \<Rightarrow> store_disk \<Rightarrow> store_disk" where
  "attemptState E K key D t d = (case t of (cx, env, stop) \<Rightarrow>
     (let states = commitTrace (transactPlan E K key D cx env d) d in last (take (Suc stop) states)))"

definition runAttempts :: "desk_env \<Rightarrow> store_checks \<Rightarrow> string \<Rightarrow> 'c decider \<Rightarrow> 'c attempt list \<Rightarrow> store_disk \<Rightarrow> store_disk" where
  "runAttempts E K key D ts d = foldl (\<lambda>d t. attemptState E K key D t d) d ts"

definition completed :: "'c attempt \<Rightarrow> bool" where
  \<comment> \<open>no trace has more than three states\<close>
  "completed t \<longleftrightarrow> (case t of (cx, env, stop) \<Rightarrow> 2 \<le> stop)"

lemma commitTrace_nonempty: "commitTrace p d \<noteq> []" "length (commitTrace p d) \<le> 3"
  by (cases "(p, d)" rule: commitTrace.cases; simp add: Let_def)+

lemma attempt_in_trace: "attemptState E K key D (cx, env, stop) d \<in> set (commitTrace (transactPlan E K key D cx env d) d)"
proof -
  let ?t = "commitTrace (transactPlan E K key D cx env d) d"
  have "take (Suc stop) ?t \<noteq> []" using commitTrace_nonempty(1) by simp
  then have "last (take (Suc stop) ?t) \<in> set ?t" using set_take_subset by (metis last_in_set subsetD)
  then show ?thesis by (simp add: attemptState_def Let_def)
qed

lemma attempt_completed:
  "completed (cx, env, stop) \<Longrightarrow> attemptState E K key D (cx, env, stop) d = snd (transact E K key D cx env d)"
  using commitTrace_nonempty [of "transactPlan E K key D cx env d" d]
  by (simp add: attemptState_def Let_def transact_def completed_def)

lemma trace_lock: "d' \<in> set (commitTrace p d) \<Longrightarrow> dk_lock d' = dk_lock d"
  by (cases "(p, d)" rule: commitTrace.cases) (auto simp: Let_def)

lemma corrupt_stays:
  assumes "readStore E K key d = Read_corrupt"
  shows "transactPlan E K key D cx env d \<noteq> Plan_write s l r"
  using assms transactPlan_write [of E K key D cx env d s l r] by (auto simp: baseLedger_def)

text \<open>One attempt on a readable store: it stays readable and keeps every recorded request, or a commit
  overtook an orphan.\<close>

lemma attempt_keeps:
  assumes "sha_hex E" and "time_ok E (cx_at cx)" and "orphansAtTip d" and "readStore E K key d = Read_ok l h"
    and "d' = attemptState E K key D (cx, env, stop) d"
  shows "readStore E K key d' = Read_corrupt \<and> \<not> orphanFree d \<or>
    orphansAtTip d' \<and> (\<exists>l' h'. readStore E K key d' = Read_ok l' h' \<and> prefix (requests l) (requests l') \<and>
      prefix h h' \<and> repo l' = repo l)"
proof -
  let ?f = "snd (transact E K key D cx env d)"
  have fin: "readStore E K key ?f = Read_corrupt \<and> \<not> orphanFree d \<or>
    orphansAtTip ?f \<and> (\<exists>l' h'. readStore E K key ?f = Read_ok l' h' \<and> prefix (requests l) (requests l') \<and> prefix h h' \<and> repo l' = repo l)"
  proof (cases "\<exists>s l' r. transactPlan E K key D cx env d = Plan_write s l' r")
    case True
    then obtain s l' r where p: "transactPlan E K key D cx env d = Plan_write s l' r" by blast
    have b: "baseLedger E K key cx env d = Some (l, h)" using assms(4) by (simp add: baseLedger_def)
    show ?thesis
    proof (cases "overtakesOrphan s (dk_segments d)")
      case True
      with overtaking_corrupts [OF p True] overtaken_not_free [OF p True] show ?thesis by (simp add: transact_def p)
    next
      case False
      from write_reads_back [OF p assms(1-3) False b] write_candidate(2) [OF p b]
      show ?thesis by (auto simp: transact_def p requests_candidate)
    qed
  next
    case False
    with assms transact_idle [of E K key D cx env d] show ?thesis by auto
  qed
  have "d' \<in> set (commitTrace (transactPlan E K key D cx env d) d)" unfolding assms(5) by (rule attempt_in_trace)
  from trace_states [OF assms(1-3) this] have "readStore E K key d' = readStore E K key d \<and> orphansAtTip d' \<or> d' = ?f" by blast
  with fin assms(4) show ?thesis by auto
qed

lemma attempt_corrupt:
  assumes "readStore E K key d = Read_corrupt"
  shows "attemptState E K key D t d = d"
proof -
  obtain cx env stop where t: "t = (cx, env, stop)" by (cases t) auto
  have "commitTrace (transactPlan E K key D cx env d) d = [d]"
    using corrupt_stays [OF assms, of D cx env] by (cases "transactPlan E K key D cx env d") auto
  then show ?thesis by (simp add: t attemptState_def)
qed

lemma attempt_orphanFree:
  assumes "sha_hex E" and "time_ok E (cx_at cx)" and "orphanFree d" and "completed (cx, env, stop)"
  shows "orphanFree (attemptState E K key D (cx, env, stop) d)"
proof (cases "\<exists>s l' r. transactPlan E K key D cx env d = Plan_write s l' r")
  case True
  then obtain s l' r where p: "transactPlan E K key D cx env d = Plan_write s l' r" by blast
  from base_unique [OF p] obtain l h where b: "baseLedger E K key cx env d = Some (l, h)" by blast
  have "\<not> overtakesOrphan s (dk_segments d)" using overtaken_not_free [OF p] assms(3) by blast
  from write_reads_back(3) [OF p assms(1,2) orphanFree_atTip [OF assms(3)] this b assms(3)]
  show ?thesis by (simp add: attempt_completed [OF assms(4)] transact_def p)
next
  case False
  then have "snd (transact E K key D cx env d) = d" using transact_idle by blast
  with assms(3) show ?thesis by (simp add: attempt_completed [OF assms(4)])
qed

lemma run_corrupt: "readStore E K key d = Read_corrupt \<Longrightarrow> runAttempts E K key D ts d = d"
  by (induction ts) (simp_all add: runAttempts_def attempt_corrupt)

lemma run_lock: "dk_lock (runAttempts E K key D ts d) = dk_lock d"
proof (induction ts arbitrary: d)
  case (Cons t ts)
  obtain cx env stop where t: "t = (cx, env, stop)" by (cases t) auto
  have "dk_lock (attemptState E K key D t d) = dk_lock d" unfolding t by (rule trace_lock [OF attempt_in_trace])
  with Cons [of "attemptState E K key D t d"] show ?case by (simp add: runAttempts_def)
qed (simp add: runAttempts_def)

lemma run_keeps:
  assumes "sha_hex E" and "list_all (\<lambda>(cx, _). time_ok E (cx_at cx)) ts" and "orphansAtTip d" and "readStore E K key d = Read_ok l h"
  shows "readStore E K key (runAttempts E K key D ts d) = Read_corrupt \<and> \<not> (orphanFree d \<and> list_all completed ts) \<or>
    (\<exists>l' h'. readStore E K key (runAttempts E K key D ts d) = Read_ok l' h' \<and> prefix (requests l) (requests l') \<and>
      prefix h h' \<and> repo l' = repo l)"
  using assms(2-)
proof (induction ts arbitrary: d l h)
  case (Cons t ts)
  obtain cx env stop where t: "t = (cx, env, stop)" by (cases t) auto
  let ?d = "attemptState E K key D t d"
  have run: "runAttempts E K key D (t # ts) d = runAttempts E K key D ts ?d" by (simp add: runAttempts_def)
  have time: "time_ok E (cx_at cx)" using Cons.prems(1) t by simp
  from attempt_keeps [OF assms(1) time Cons.prems(2,3), of ?d D env stop] t
  consider "readStore E K key ?d = Read_corrupt" "\<not> orphanFree d"
    | l' h' where "orphansAtTip ?d" "readStore E K key ?d = Read_ok l' h'" "prefix (requests l) (requests l')" "prefix h h'" "repo l' = repo l"
    by blast
  then show ?case
  proof cases
    case 1
    then show ?thesis unfolding run by (simp add: run_corrupt)
  next
    case 2
    have free: "orphanFree d \<and> list_all completed (t # ts) \<Longrightarrow> orphanFree ?d \<and> list_all completed ts"
      using attempt_orphanFree [OF assms(1) time, of d env stop] t by auto
    from Cons.IH [OF _ 2(1,2)] Cons.prems(1) 2(3-5) free show ?thesis
      unfolding run by (auto intro: prefix_order.trans)
  qed
qed (simp add: runAttempts_def)



lemma apply_no_tables: "apply_tables l no_tables = l"
  by (simp add: apply_tables_def)

text \<open>A decision that rejects records only its own rejection: no event, no table changes, and the
  caller receives exactly the code of the decision.\<close>

lemma rejection_records_only_itself:
  assumes "transactPlan E K key D cx env d = Plan_write s l' r" and "baseLedger E K key cx env d = Some (l, h)"
    and "dd_decide D l h (en_command env) = Inl c"
  shows "s = None \<and> r = Inl c \<and> (\<exists>q. q_outcome q = RO_rejected \<and> q_rejection q = Some c \<and>
    l' = l\<lparr>revision := revision l + 1, updatedAt := cx_at cx, requests := requests l @ [q]\<rparr>)"
proof -
  note w = write_candidate [OF assms(1,2)]
  have b: "builtFor E D cx env l h = []" using assms(3) by (simp add: builtFor_def outcomeEvents_def)
  have "l' = l\<lparr>revision := revision l + 1, updatedAt := cx_at cx, requests := requests l @ [rowFor E D cx env l h]\<rparr>"
    unfolding w(2) b assms(3) by (simp add: candidateLedger_def Let_def rowFor_def b assms(3) outcomeTables_def apply_no_tables
      tipSha256_def segmentOf_def)
  moreover have "q_outcome (rowFor E D cx env l h) = RO_rejected" "q_rejection (rowFor E D cx env l h) = Some c"
    by (simp_all add: rowFor_def requestRow_def assms(3))
  moreover have "s = None" "r = Inl c" using w(1,3) b assms(3) by (simp_all add: segmentOf_def receiptFor_def)
  ultimately show ?thesis by blast
qed

lemma toy_rejected: "(case transactPlan toy_env toy_checks toy_key toy_decider toy_stamp (toy_request ''r1'' 0) toy_disk of
    Plan_write s l' r \<Rightarrow> True | _ \<Rightarrow> False)"
  by code_simp

theorem rejection_records_only_itself_witness:
  "\<exists>l'. transactPlan toy_env toy_checks toy_key toy_decider toy_stamp (toy_request ''r1'' 0) toy_disk
    = Plan_write None l' (Inl REVISION_CONFLICT)"
proof -
  from toy_rejected obtain s l' r where p: "transactPlan toy_env toy_checks toy_key toy_decider toy_stamp (toy_request ''r1'' 0) toy_disk
    = Plan_write s l' r" by (auto split: commit_plan.splits)
  from base_unique [OF p] obtain l h where "baseLedger toy_env toy_checks toy_key toy_stamp (toy_request ''r1'' 0) toy_disk = Some (l, h)"
    by blast
  from rejection_records_only_itself [OF p this, of REVISION_CONFLICT] p show ?thesis
    by (simp add: toy_decider_def toy_request_def)
qed

end
