(* ===== verification/Desk_Json.thy ===== *)
theory Desk_Json
  imports Desk_Canonical
begin

text \<open>
  The text of a JSON value determines the value: \<open>stringify\<close> is a prefix code up to the delimiter
  that follows. So two values have the same canonical JSON only if they have the same canonical
  form, which is what the digests of bodies and events rest on.
\<close>

subsection \<open>Numbers\<close>

definition is_digit :: "char \<Rightarrow> bool" where
  "is_digit c \<longleftrightarrow> 48 \<le> (of_char c :: nat) \<and> (of_char c :: nat) \<le> 57"

lemma is_digit_char_of: "(n::nat) < 10 \<Longrightarrow> is_digit (char_of (48 + n))"
  by (simp add: is_digit_def of_char_of)

lemma show_nat_digits: "list_all is_digit (show_nat n)"
proof (induction n rule: show_nat.induct)
  case (1 n)
  then show ?case
    by (subst show_nat.simps) (auto simp: is_digit_char_of)
qed

lemma show_nat_nonempty [simp]: "show_nat n \<noteq> []"
  by (subst show_nat.simps) simp

lemma dec_value_snoc: "dec_value (ds @ [c]) = 10 * dec_value ds + (of_char c - 48)"
  by (simp add: dec_value_def)

lemma dec_value_show: "dec_value (show_nat n) = n"
proof (induction n rule: show_nat.induct)
  case (1 n)
  show ?case
  proof (cases "n < 10")
    case True
    then show ?thesis by (subst show_nat.simps) (simp add: dec_value_def of_char_of)
  next
    case False
    with 1 have "dec_value (show_nat (n div 10)) = n div 10" by simp
    with False show ?thesis
      by (subst show_nat.simps) (simp add: dec_value_snoc of_char_of)
  qed
qed

definition closed_text :: "string \<Rightarrow> bool" where
  \<comment> \<open>no digit follows\<close>
  "closed_text r \<longleftrightarrow> (case r of [] \<Rightarrow> True | c # _ \<Rightarrow> \<not> is_digit c)"

lemma takeWhile_digits: "list_all is_digit ds \<Longrightarrow> closed_text r \<Longrightarrow> takeWhile is_digit (ds @ r) = ds"
  by (induction ds) (auto simp: closed_text_def split: list.splits)

lemma show_nat_cancel: "show_nat n @ r = show_nat m @ s \<Longrightarrow> closed_text r \<Longrightarrow> closed_text s \<Longrightarrow> n = m \<and> r = s"
proof -
  assume e: "show_nat n @ r = show_nat m @ s" and c: "closed_text r" "closed_text s"
  have "show_nat n = takeWhile is_digit (show_nat n @ r)" using c by (simp add: takeWhile_digits show_nat_digits)
  also have "\<dots> = takeWhile is_digit (show_nat m @ s)" using e by simp
  also have "\<dots> = show_nat m" using c by (simp add: takeWhile_digits show_nat_digits)
  finally have q: "show_nat n = show_nat m" .
  have "n = m" by (metis q dec_value_show)
  with e q show ?thesis by simp
qed

lemma show_nat_head: "show_nat n @ s = c # t \<Longrightarrow> is_digit c"
  using show_nat_digits [of n] by (cases "show_nat n") auto

lemma minus_not_digit [simp]: "\<not> is_digit (CHR ''-'')"
  by (simp add: is_digit_def)

lemma minus_not_nat [simp]: "CHR ''-'' # t \<noteq> show_nat n @ s" "show_nat n @ s \<noteq> CHR ''-'' # t"
  using show_nat_head [of n s "CHR ''-''" t] by auto

lemma show_int_cancel: "show_int i @ r = show_int j @ s \<Longrightarrow> closed_text r \<Longrightarrow> closed_text s \<Longrightarrow> i = j \<and> r = s"
proof -
  assume e: "show_int i @ r = show_int j @ s" and c: "closed_text r" "closed_text s"
  consider "i < 0" "j < 0" | "\<not> i < 0" "\<not> j < 0" | "(i < 0) \<noteq> (j < 0)" by blast
  then show ?thesis
  proof cases
    case 1
    with e have "show_nat (nat (- i)) @ r = show_nat (nat (- j)) @ s" by (simp add: show_int_def)
    from show_nat_cancel [OF this c] 1 show ?thesis by (simp add: nat_eq_iff2)
  next
    case 2
    with e have "show_nat (nat i) @ r = show_nat (nat j) @ s" by (simp add: show_int_def)
    from show_nat_cancel [OF this c] 2 show ?thesis by (simp add: nat_eq_iff2)
  next
    case 3
    with e show ?thesis by (cases "i < 0") (simp_all add: show_int_def)
  qed
qed

lemma show_int_head: "show_int i @ s = c # t \<Longrightarrow> c = CHR ''-'' \<or> is_digit c"
  unfolding show_int_def by (cases "i < 0") (auto dest: show_nat_head)

subsection \<open>Elements up to a closing bracket\<close>

definition rest_text :: "('a \<Rightarrow> string) \<Rightarrow> 'a list \<Rightarrow> string" where
  "rest_text f xs = concat (map (\<lambda>x. CHR '','' # f x) xs)"

lemma join_with_rest: "join_with '','' (map f (x # xs)) = f x @ rest_text f xs"
  by (induction xs arbitrary: x) (auto simp: rest_text_def)

lemma rest_closed: "c \<noteq> CHR '','' \<Longrightarrow> \<not> is_digit c \<Longrightarrow> closed_text (rest_text f xs @ c # r)"
  by (cases xs) (auto simp: rest_text_def closed_text_def is_digit_def)

lemma rest_cancel:
  assumes "\<And>x y r s. x \<in> set xs \<Longrightarrow> f x @ r = f y @ s \<Longrightarrow> closed_text r \<Longrightarrow> closed_text s \<Longrightarrow> x = y \<and> r = s"
    and "c \<noteq> CHR '',''" and "\<not> is_digit c" and "rest_text f xs @ c # r = rest_text f ys @ c # s"
  shows "xs = ys \<and> r = s"
  using assms(1,4)
proof (induction xs arbitrary: ys)
  case Nil
  then show ?case using assms(2) by (cases ys) (auto simp: rest_text_def)
next
  case (Cons x xs)
  then obtain y ys' where y: "ys = y # ys'" using assms(2) by (cases ys) (auto simp: rest_text_def)
  with Cons.prems(2) have "f x @ rest_text f xs @ c # r = f y @ rest_text f ys' @ c # s" by (simp add: rest_text_def)
  then have "x = y \<and> rest_text f xs @ c # r = rest_text f ys' @ c # s"
    using rest_closed [OF assms(2,3)] by (intro Cons.prems(1)) simp_all
  with Cons.IH [of ys'] Cons.prems(1) y show ?case by auto
qed

lemma bracket_cancel:
  assumes "\<And>x y r s. x \<in> set xs \<Longrightarrow> f x @ r = f y @ s \<Longrightarrow> closed_text r \<Longrightarrow> closed_text s \<Longrightarrow> x = y \<and> r = s"
    and "\<And>y t u. f y @ t \<noteq> c # u" and "c \<noteq> CHR '',''" and "\<not> is_digit c"
    and "join_with '','' (map f xs) @ c # r = join_with '','' (map f ys) @ c # s"
  shows "xs = ys \<and> r = s"
proof (cases xs)
  case Nil
  show ?thesis
  proof (cases ys)
    case (Cons y ys')
    with assms(5) \<open>xs = []\<close> have "f y @ rest_text f ys' @ c # s = c # r" by (simp add: join_with_rest del: list.map(2))
    with assms(2) show ?thesis by blast
  qed (use assms(5) \<open>xs = []\<close> in simp)
next
  case (Cons x xs')
  obtain y ys' where y: "ys = y # ys'"
  proof (cases ys)
    case Nil
    with assms(5) \<open>xs = x # xs'\<close> have "f x @ rest_text f xs' @ c # r = c # s" by (simp add: join_with_rest del: list.map(2))
    with assms(2) show ?thesis by blast
  qed
  with assms(5) Cons have "f x @ rest_text f xs' @ c # r = f y @ rest_text f ys' @ c # s"
    by (simp add: join_with_rest del: list.map(2))
  then have "x = y \<and> rest_text f xs' @ c # r = rest_text f ys' @ c # s"
    using rest_closed [OF assms(3,4)] Cons by (intro assms(1)) simp_all
  moreover have "xs' = ys' \<and> r = s"
  proof (rule rest_cancel [where f = f and c = c, OF _ assms(3,4)])
    show "z = y' \<and> r' = s'" if "z \<in> set xs'" "f z @ r' = f y' @ s'" "closed_text r'" "closed_text s'" for z y' r' s'
      using assms(1) [of z r' y' s'] that Cons by simp
    show "rest_text f xs' @ c # r = rest_text f ys' @ c # s" using calculation by simp
  qed
  ultimately show ?thesis using Cons y by simp
qed

subsection \<open>Values\<close>

definition entry_text :: "string \<times> json \<Rightarrow> string" where
  "entry_text = (\<lambda>(k, v). quote_string k @ '':'' @ stringify v)"

lemma stringify_obj: "stringify (JObj kvs) = ''{'' @ join_with '','' (map entry_text kvs) @ ''}''"
  by (simp add: entry_text_def)

lemma stringify_head:
  "stringify v @ r = c # t \<Longrightarrow> (case v of
      JNull \<Rightarrow> c = CHR ''n'' | JBool b \<Rightarrow> c = (if b then CHR ''t'' else CHR ''f'')
    | JInt i \<Rightarrow> c = CHR ''-'' \<or> is_digit c | JStr x \<Rightarrow> c = CHR 0x22 | JArr xs \<Rightarrow> c = CHR ''[''
    | JObj kvs \<Rightarrow> c = CHR ''{'')"
  by (cases v) (auto simp: quote_string_def dest: show_int_head split: if_splits)

lemma digit_chars [simp]: "\<not> is_digit (CHR ''n'')" "\<not> is_digit (CHR ''t'')" "\<not> is_digit (CHR ''f'')"
  "\<not> is_digit (CHR ''['')" "\<not> is_digit (CHR ''{'')" "\<not> is_digit (CHR 0x22)" "\<not> is_digit (CHR '']'')" "\<not> is_digit (CHR ''}'')"
  by (simp_all add: is_digit_def)

lemma stringify_nonempty: "stringify v \<noteq> []"
  using stringify_head [of v "[]"] by (cases v) (auto simp: quote_string_def show_int_def)

definition json_kind :: "json \<Rightarrow> nat" where
  "json_kind v = (case v of JNull \<Rightarrow> 0 | JBool b \<Rightarrow> (if b then 1 else 2) | JInt _ \<Rightarrow> 3 | JStr _ \<Rightarrow> 4 | JArr _ \<Rightarrow> 5 | JObj _ \<Rightarrow> 6)"

lemma stringify_kind: "stringify v @ r = stringify w @ s \<Longrightarrow> json_kind v = json_kind w"
proof -
  assume e: "stringify v @ r = stringify w @ s"
  obtain c t where c: "stringify v @ r = c # t" using stringify_nonempty [of v] by (cases "stringify v") auto
  from stringify_head [OF c] stringify_head [OF c [unfolded e]] show ?thesis
    by (cases v; cases w) (auto simp: json_kind_def split: if_splits)
qed

text \<open>A value is read back from the front of a text, whatever follows, if no digit follows.\<close>

lemma stringify_cancel:
  "stringify v @ r = stringify w @ s \<Longrightarrow> closed_text r \<Longrightarrow> closed_text s \<Longrightarrow> v = w \<and> r = s"
proof (induction v arbitrary: w r s)
  case (JInt i)
  from stringify_kind [OF JInt.prems(1)] obtain j where "w = JInt j"
    by (cases w) (auto simp: json_kind_def split: if_splits)
  with JInt show ?case using show_int_cancel [of i r j s] by simp
next
  case (JStr x)
  from stringify_kind [OF JStr.prems(1)] obtain y where "w = JStr y"
    by (cases w) (auto simp: json_kind_def split: if_splits)
  with JStr.prems(1) show ?case using quote_string_cancel [of x r y s] by simp
next
  case (JArr xs)
  from stringify_kind [OF JArr.prems(1)] obtain ys where w: "w = JArr ys"
    by (cases w) (auto simp: json_kind_def split: if_splits)
  have "xs = ys \<and> r = s"
  proof (rule bracket_cancel [where f = stringify and c = "CHR '']''"])
    show "x = y \<and> r' = s'" if "x \<in> set xs" "stringify x @ r' = stringify y @ s'" "closed_text r'" "closed_text s'" for x y r' s'
      using JArr.IH that by blast
    show "stringify y @ t \<noteq> CHR '']'' # u" for y t u
      using stringify_head [of y t "CHR '']''" u] by (cases y) auto
    show "join_with '','' (map stringify xs) @ CHR '']'' # r = join_with '','' (map stringify ys) @ CHR '']'' # s"
      using JArr.prems(1) w by simp
  qed simp_all
  with w show ?case by simp
next
  case (JObj kvs)
  from stringify_kind [OF JObj.prems(1)] obtain lvs where w: "w = JObj lvs"
    by (cases w) (auto simp: json_kind_def split: if_splits)
  have "kvs = lvs \<and> r = s"
  proof (rule bracket_cancel [where f = entry_text and c = "CHR ''}''"])
    show "x = y \<and> r' = s'" if x: "x \<in> set kvs" and e: "entry_text x @ r' = entry_text y @ s'" "closed_text r'" "closed_text s'" for x y r' s'
    proof -
      obtain k v k' v' where p: "x = (k, v)" "y = (k', v')" by fastforce
      with e(1) have "quote_string k @ '':'' @ stringify v @ r' = quote_string k' @ '':'' @ stringify v' @ s'"
        by (simp add: entry_text_def)
      from quote_string_cancel [OF this] have "k = k'" "stringify v @ r' = stringify v' @ s'" by auto
      with JObj.IH [OF x, of v r' v' s'] p e show ?thesis by (simp add: snds.intros)
    qed
    show "entry_text y @ t \<noteq> CHR ''}'' # u" for y t u
      by (cases y) (simp add: entry_text_def quote_string_def)
    show "join_with '','' (map entry_text kvs) @ CHR ''}'' # r = join_with '','' (map entry_text lvs) @ CHR ''}'' # s"
      using JObj.prems(1) unfolding w stringify_obj by simp
  qed simp_all
  with w show ?case by simp
next
  case (JBool b)
  from stringify_kind [OF JBool.prems(1)] have "w = JBool b"
    by (cases w) (auto simp: json_kind_def split: if_splits)
  with JBool show ?case by simp
next
  case JNull
  from stringify_kind [OF JNull.prems(1)] have "w = JNull"
    by (cases w) (auto simp: json_kind_def split: if_splits)
  with JNull show ?case by simp
qed

subsection \<open>Equality up to key order\<close>

text \<open>
  What the canonical text has to decide: two values are the same if they differ, at every level, at
  most in the order in which objects list their members. An object is compared as a map from keys
  to values, an array element by element.
\<close>

definition scalar_json :: "json \<Rightarrow> bool" where
  "scalar_json v \<longleftrightarrow> (case v of JArr _ \<Rightarrow> False | JObj _ \<Rightarrow> False | _ \<Rightarrow> True)"

inductive same_members :: "json \<Rightarrow> json \<Rightarrow> bool" where
  scalar: "scalar_json v \<Longrightarrow> same_members v v"
| array: "list_all2 same_members xs ys \<Longrightarrow> same_members (JArr xs) (JArr ys)"
| object: "(\<And>k. rel_option same_members (map_of kvs k) (map_of lvs k)) \<Longrightarrow> same_members (JObj kvs) (JObj lvs)"

inductive_simps same_members_arr: "same_members (JArr xs) w"
inductive_simps same_members_obj: "same_members (JObj kvs) w"

text \<open>The values \<open>JSON.parse\<close> builds have distinct keys in every object; \<open>__proto__\<close>, which the
  canonical form drops, is left out.\<close>

fun plain_json :: "json \<Rightarrow> bool" where
  "plain_json (JArr xs) \<longleftrightarrow> list_all plain_json xs"
| "plain_json (JObj kvs) \<longleftrightarrow> distinct (map fst kvs) \<and> ''__proto__'' \<notin> set (map fst kvs) \<and> list_all (\<lambda>(k, v). plain_json v) kvs"
| "plain_json v \<longleftrightarrow> True"

definition canonical_entries :: "(string \<times> json) list \<Rightarrow> (string \<times> json) list" where
  "canonical_entries kvs = map (\<lambda>(k, v). (k, canonical_value v)) kvs"

lemma canonical_entries_keys [simp]: "map fst (canonical_entries kvs) = map fst kvs"
  by (simp add: canonical_entries_def case_prod_beta comp_def)

lemma map_of_canonical: "map_of (canonical_entries kvs) k = map_option canonical_value (map_of kvs k)"
  by (induction kvs) (auto simp: canonical_entries_def)

lemma filter_keys_distinct: "distinct (map fst fs) \<Longrightarrow> distinct (map fst (filter P fs))"
  by (simp add: distinct_map inj_on_def)

lemma filter_trivial: "(\<And>k v. (k, v) \<in> set fs \<Longrightarrow> k \<noteq> x) \<Longrightarrow> filter (\<lambda>(k, _). k \<noteq> x) fs = fs"
  by (induction fs) auto

lemma own_property_order_set [simp]: "set (own_property_order fs) = set fs"
  by (auto simp: own_property_order_def)

lemma own_property_order_distinct:
  assumes "distinct (map fst fs)"
  shows "distinct (map fst (own_property_order fs))"
proof -
  have "fst ` {e \<in> set fs. is_array_index (fst e)} \<inter> fst ` {e \<in> set fs. \<not> is_array_index (fst e)} = {}" by auto
  then show ?thesis
    using filter_keys_distinct [OF assms] by (simp add: own_property_order_def case_prod_beta distinct_map)
qed

text \<open>The members of the canonical object, as a map, are the canonical members of the object.\<close>

definition canonical_members :: "(string \<times> json) list \<Rightarrow> (string \<times> json) list" where
  "canonical_members kvs =
     own_property_order (filter (\<lambda>(k, _). k \<noteq> ''__proto__'') (sort_key fst (canonical_entries kvs)))"

lemma canonical_value_obj: "canonical_value (JObj kvs) = JObj (canonical_members kvs)"
  by (simp add: canonical_members_def canonical_entries_def)

lemma no_proto_member: "''__proto__'' \<notin> set (map fst kvs) \<Longrightarrow> filter (\<lambda>(k, _). k \<noteq> ''__proto__'') (sort_key fst (canonical_entries kvs)) = sort_key fst (canonical_entries kvs)"
proof (rule filter_trivial)
  fix k v
  assume p: "''__proto__'' \<notin> set (map fst kvs)" and "(k, v) \<in> set (sort_key fst (canonical_entries kvs))"
  then have "fst (k, v) \<in> fst ` set (canonical_entries kvs)" by (intro imageI) simp
  then have "k \<in> set (map fst (canonical_entries kvs))" by (simp del: canonical_entries_keys)
  with p show "k \<noteq> ''__proto__''" unfolding canonical_entries_keys by metis
qed

lemma canonical_members_map:
  assumes "distinct (map fst kvs)" and "''__proto__'' \<notin> set (map fst kvs)"
  shows "map_of (canonical_members kvs) k = map_option canonical_value (map_of kvs k)"
proof -
  let ?c = "canonical_entries kvs"
  have e: "canonical_members kvs = own_property_order (sort_key fst ?c)"
    by (simp only: canonical_members_def no_proto_member [OF assms(2)])
  have "distinct (map fst (sort_key fst ?c))" using assms(1)
    by (metis canonical_entries_keys distinct_map distinct_sort set_sort)
  then have "distinct (map fst (canonical_members kvs))" unfolding e by (rule own_property_order_distinct)
  moreover have "set (canonical_members kvs) = set ?c" by (simp add: e)
  ultimately have "map_of (canonical_members kvs) = map_of ?c"
    using map_of_inject_set [of "canonical_members kvs" ?c] assms(1) by simp
  then show ?thesis by (simp add: map_of_canonical)
qed

text \<open>Sorting makes the canonical object a function of the set of its members.\<close>

lemma sort_key_same_set:
  fixes xs :: "('a::linorder \<times> 'b) list"
  assumes "distinct (map fst xs)" and "distinct (map fst ys)" and "set xs = set ys"
  shows "sort_key fst xs = sort_key fst ys"
proof (rule map_sorted_distinct_set_unique [where f = fst])
  show "inj_on fst (set (sort_key fst xs) \<union> set (sort_key fst ys))"
    using assms by (simp add: distinct_map)
  show "distinct (map fst (sort_key fst xs))" "distinct (map fst (sort_key fst ys))"
    using assms by (simp_all add: distinct_map)
qed (use assms in simp_all)

lemma canonical_same_members:
  assumes "distinct (map fst kvs)" and "distinct (map fst lvs)"
    and "\<And>k. map_option canonical_value (map_of kvs k) = map_option canonical_value (map_of lvs k)"
  shows "canonical_members kvs = canonical_members lvs"
proof -
  have "map_of (canonical_entries kvs) = map_of (canonical_entries lvs)"
    using assms(3) by (simp add: fun_eq_iff map_of_canonical)
  then have "set (canonical_entries kvs) = set (canonical_entries lvs)"
    using map_of_inject_set [of "canonical_entries kvs" "canonical_entries lvs"] assms(1,2) by simp
  then have "sort_key fst (canonical_entries kvs) = sort_key fst (canonical_entries lvs)"
    using assms(1,2) by (intro sort_key_same_set) simp_all
  then show ?thesis by (simp add: canonical_members_def)
qed

text \<open>Both directions, by induction on the value and on the derivation.\<close>

lemma plain_member: "plain_json (JObj kvs) \<Longrightarrow> map_of kvs k = Some v \<Longrightarrow> plain_json v"
  by (auto simp: list_all_iff dest!: map_of_SomeD)

lemma same_members_canonical:
  "same_members a b \<Longrightarrow> plain_json a \<Longrightarrow> plain_json b \<Longrightarrow> canonical_value a = canonical_value b"
proof (induction rule: same_members.induct)
  case (array xs ys)
  have "map canonical_value xs = map canonical_value ys"
    using array.IH array.prems by (induction rule: list_all2_induct) simp_all
  then show ?case by simp
next
  case (object kvs lvs)
  have "map_option canonical_value (map_of kvs k) = map_option canonical_value (map_of lvs k)" for k
    using object.IH [of k] plain_member [OF object.prems(1), of k] plain_member [OF object.prems(2), of k]
    by (cases rule: option.rel_cases) auto
  then have "canonical_members kvs = canonical_members lvs"
    using object.prems by (intro canonical_same_members) simp_all
  then show ?case by (simp only: canonical_value_obj)
qed simp

lemma canonical_same:
  "canonical_value a = canonical_value b \<Longrightarrow> plain_json a \<Longrightarrow> plain_json b \<Longrightarrow> same_members a b"
proof (induction a arbitrary: b)
  case (JArr xs)
  from JArr.prems(1) obtain ys where b: "b = JArr ys" and m: "map canonical_value xs = map canonical_value ys"
    by (cases b) simp_all
  have "same_members x y" if "(x, y) \<in> set (zip xs ys)" for x y
  proof -
    have "x \<in> set xs" "y \<in> set ys" using that by (auto dest: set_zip_leftD set_zip_rightD)
    moreover have "canonical_value x = canonical_value y"
      using m that map_eq_imp_length_eq [OF m] by (auto simp: set_zip list_eq_iff_nth_eq)
    ultimately show ?thesis using JArr.IH JArr.prems b by (simp add: list_all_iff)
  qed
  then show ?case using map_eq_imp_length_eq [OF m] unfolding b
    by (intro same_members.array) (auto simp: list_all2_iff)
next
  case (JObj kvs)
  from JObj.prems(1) obtain lvs where b: "b = JObj lvs" by (cases b) simp_all
  with JObj.prems(1) have m: "canonical_members kvs = canonical_members lvs"
    by (simp only: canonical_value_obj json.inject)
  have "rel_option same_members (map_of kvs k) (map_of lvs k)" for k
  proof -
    have e: "map_option canonical_value (map_of kvs k) = map_option canonical_value (map_of lvs k)"
      using canonical_members_map [of kvs k] canonical_members_map [of lvs k] JObj.prems b m by simp
    show ?thesis
    proof (cases "map_of kvs k")
      case (Some v)
      with e obtain w where w: "map_of lvs k = Some w" "canonical_value v = canonical_value w"
        by (cases "map_of lvs k") auto
      have "same_members v w"
        using JObj.IH [of "(k, v)" v w] map_of_SomeD [OF Some] w
          plain_member [OF JObj.prems(2) Some] plain_member [OF _ w(1)] JObj.prems(3) b
        by (simp add: snds.intros)
      with Some w show ?thesis by simp
    qed (use e in simp)
  qed
  then show ?case unfolding b by (rule same_members.object)
next
  case (JStr x)
  from JStr.prems(1) have "b = JStr x" by (cases b) simp_all
  then show ?case by (simp add: same_members.scalar scalar_json_def)
next
  case (JInt x)
  from JInt.prems(1) have "b = JInt x" by (cases b) simp_all
  then show ?case by (simp add: same_members.scalar scalar_json_def)
next
  case (JBool x)
  from JBool.prems(1) have "b = JBool x" by (cases b) simp_all
  then show ?case by (simp add: same_members.scalar scalar_json_def)
next
  case JNull
  from JNull.prems(1) have "b = JNull" by (cases b) simp_all
  then show ?case by (simp add: same_members.scalar scalar_json_def)
qed

lemma canonical_equal_iff: "canonical_equal a b \<longleftrightarrow> canonical_value a = canonical_value b"
  using stringify_cancel [of "canonical_value a" "[CHR 0x0A]" "canonical_value b" "[CHR 0x0A]"]
  by (auto simp: canonical_equal_def canonical_json_def closed_text_def is_digit_def)

text \<open>C17. Canonical JSON decides equality up to key order: for values whose objects have distinct
  keys (what \<open>JSON.parse\<close> builds) and no \<open>__proto__\<close> key, the canonical texts are equal exactly if
  the values agree at every level, objects as maps from keys to values and arrays element by
  element. So reordering keys never changes a digest input, and any other difference does.\<close>

theorem canonical_json_exact:
  assumes "plain_json a" and "plain_json b"
  shows "canonical_equal a b \<longleftrightarrow> same_members a b"
  unfolding canonical_equal_iff using assms canonical_same [of a b] same_members_canonical [of a b] by blast

theorem canonical_json_exact_witness:
  "same_members
      (JObj [(''b'', JInt 1), (''10'', JObj [(''y'', JNull), (''x'', JBool True)]), (''9'', JArr [JInt 1, JInt 2])])
      (JObj [(''9'', JArr [JInt 1, JInt 2]), (''10'', JObj [(''x'', JBool True), (''y'', JNull)]), (''b'', JInt 1)])
   \<and> \<not> same_members
      (JObj [(''b'', JInt 1), (''9'', JArr [JInt 1, JInt 2])])
      (JObj [(''9'', JArr [JInt 2, JInt 1]), (''b'', JInt 1)])"
  (is "same_members ?a ?b \<and> \<not> same_members ?c ?d")
proof -
  have "canonical_equal ?a ?b" and "\<not> canonical_equal ?c ?d"
    unfolding canonical_equal_iff by (simp_all add: own_property_order_def is_array_index_def dec_value_def)
  moreover have "plain_json ?a" "plain_json ?b" "plain_json ?c" "plain_json ?d" by simp_all
  ultimately show ?thesis using canonical_json_exact [of ?a ?b] canonical_json_exact [of ?c ?d] by simp
qed

text \<open>Derived identifiers do not alias: where the truncated digest separates the two tuples' encodings,
  two tuples with the same identifier are the same tuple, however their parts are split.\<close>

lemma derive_id_separates:
  assumes "derive_id E pre xs = derive_id E pre ys"
    and "take 32 (sha256 E (canonical_json (json_strs xs))) = take 32 (sha256 E (canonical_json (json_strs ys)))
      \<Longrightarrow> canonical_json (json_strs xs) = canonical_json (json_strs ys)"
  shows "xs = ys"
  using assms canonical_json_strs_inj [of xs ys] by (simp add: derive_id_def)

theorem derive_id_separates_witness:
  "derive_id \<lparr>sha256 = (\<lambda>s. s), locale_compare = (\<lambda>a b. 0), uuid_ok = (\<lambda>s. True), time_ok = (\<lambda>s. True)\<rparr> ''id'' [''a,b'', ''c'']
   \<noteq> derive_id \<lparr>sha256 = (\<lambda>s. s), locale_compare = (\<lambda>a b. 0), uuid_ok = (\<lambda>s. True), time_ok = (\<lambda>s. True)\<rparr> ''id'' [''a'', ''b,c'']"
proof
  let ?E = "\<lparr>sha256 = (\<lambda>s. s), locale_compare = (\<lambda>a b. 0), uuid_ok = (\<lambda>s. True), time_ok = (\<lambda>s. True)\<rparr>"
  assume e: "derive_id ?E ''id'' [''a,b'', ''c''] = derive_id ?E ''id'' [''a'', ''b,c'']"
  have "take 32 (canonical_json (json_strs [''a,b'', ''c''])) = canonical_json (json_strs [''a,b'', ''c''])"
    and "take 32 (canonical_json (json_strs [''a'', ''b,c''])) = canonical_json (json_strs [''a'', ''b,c''])"
    by (simp_all add: canonical_json_def quote_string_def escape_char_def Let_def)
  with derive_id_separates [OF e] show False by simp
qed

end
