(* ===== verification/Desk_Store_Chain.thy ===== *)
theory Desk_Store_Chain
  imports Desk_Store_Safety Desk_Json
begin

text \<open>
  The hash chain: a ledger that reads carries a complete, linked and digested history; two ledgers
  with the same tip carry the same history unless the hash collides; and a segment file left above
  the tip makes a later commit of another length unreadable.
\<close>

lemma toy_reads: "\<exists>l h. readStore toy_env toy_checks toy_key
    (snd (transact toy_env toy_checks toy_key toy_decider toy_stamp (toy_request ''r1'' 2) toy_disk)) = Read_ok l h"
proof -
  from toy_plan obtain s l' where p: "transactPlan toy_env toy_checks toy_key toy_decider toy_stamp (toy_request ''r1'' 2) toy_disk
    = Plan_write s l' (Inr \<lparr>rcp_receiptId = ''rc'', rcp_revision = 1, rcp_replayed = False, rcp_eventSeqs = Some (1, 2)\<rparr>)" by blast
  from base_unique [OF p] obtain l h where b: "baseLedger toy_env toy_checks toy_key toy_stamp (toy_request ''r1'' 2) toy_disk = Some (l, h)"
    by blast
  from write_reads_back(1) [OF p toy_sha_hex toy_time toy_atTip toy_not_overtaken b] show ?thesis by (auto simp: transact_def p)
qed

text \<open>C25. What reads is complete: a ledger that reads carries exactly the events 1 to lastEventSeq, each well formed, each
  with a recomputed digest and naming the digest of the event before it, and the last digest is the
  one the ledger records.\<close>

theorem read_history_is_chained:
  assumes "readStore E K key d = Read_ok l h"
  shows "chained E h \<and> length h = lastEventSeq l \<and> map_option evt_sha256 (last_opt h) = lastEventSha256 l"
  by (rule read_history [OF assms])

lemma read_history_is_chained_witness:
  "\<exists>l h. readStore toy_env toy_checks toy_key
     (snd (transact toy_env toy_checks toy_key toy_decider toy_stamp (toy_request ''r1'' 2) toy_disk)) = Read_ok l h \<and> chained toy_env h"
  using toy_reads read_history_is_chained by blast

subsection \<open>Tampering\<close>

definition eventText :: "event_row \<Rightarrow> string" where
  "eventText e = canonical_json (json_event e)"

definition sameEvent :: "event_row \<Rightarrow> event_row \<Rightarrow> bool" where
  "sameEvent a b \<longleftrightarrow> evt_seq a = evt_seq b \<and> evt_prevSha256 a = evt_prevSha256 b \<and> evt_sha256 a = evt_sha256 b \<and>
     evt_at a = evt_at b \<and> evt_requestId a = evt_requestId b \<and> evt_actorKey a = evt_actorKey b \<and>
     evt_assignmentId a = evt_assignmentId b \<and> evt_kind a = evt_kind b \<and>
     canonical_value (evt_payload a) = canonical_value (evt_payload b)"

lemma canonical_json_opt [simp]: "canonical_value (json_opt JStr x) = json_opt JStr x"
  by (cases x) simp_all

lemma json_event_value:
  "canonical_value (json_event e) = JObj
     [(''actorKey'', JStr (evt_actorKey e)), (''assignmentId'', JStr (evt_assignmentId e)), (''at'', JStr (evt_at e)),
      (''kind'', JStr (evt_kind e)), (''payload'', canonical_value (evt_payload e)),
      (''prevSha256'', json_opt JStr (evt_prevSha256 e)), (''requestId'', JStr (evt_requestId e)), (''seq'', json_nat (evt_seq e))]"
  by (simp add: json_event_def own_property_order_def is_array_index_def)

lemma json_opt_inject: "json_opt JStr x = json_opt JStr y \<Longrightarrow> x = y"
  by (cases x; cases y) simp_all

lemma eventText_exact: "eventText a = eventText b \<Longrightarrow> evt_sha256 a = evt_sha256 b \<Longrightarrow> sameEvent a b"
  using stringify_cancel [of "canonical_value (json_event a)" "[CHR 0x0A]" "canonical_value (json_event b)" "[CHR 0x0A]"]
  by (auto simp: eventText_def canonical_json_def closed_text_def is_digit_def json_event_value sameEvent_def dest: json_opt_inject)

definition digestsSeparate :: "desk_env \<Rightarrow> event_row list \<Rightarrow> event_row list \<Rightarrow> bool" where
  \<comment> \<open>no two different event texts at the same place of the two histories have the same digest\<close>
  "digestsSeparate E h h' \<longleftrightarrow> list_all (\<lambda>(a, b). sha256 E (eventText a) = sha256 E (eventText b) \<longrightarrow> eventText a = eventText b) (zip h h')"

lemma chained_snoc:
  "chained E (h @ [e]) \<Longrightarrow> chained E h \<and> evt_sha256 e = sha256 E (eventText e) \<and>
     evt_prevSha256 e = map_option evt_sha256 (last_opt h)"
proof -
  assume c: "chained E (h @ [e])"
  have s: "map evt_seq (h @ [e]) = [1..<Suc (length h)] @ [Suc (length h)]" using c by (simp add: chained_def)
  have p: "\<forall>i < Suc (length h). evt_prevSha256 ((h @ [e]) ! i) = (if i = 0 then None else Some (evt_sha256 ((h @ [e]) ! (i - 1))))"
    using c by (simp add: chained_def del: upt_Suc)
  have "evt_prevSha256 (h ! i) = (if i = 0 then None else Some (evt_sha256 (h ! (i - 1))))" if "i < length h" for i
    using p that by (auto simp: nth_append less_Suc_eq dest!: spec [of _ i])
  moreover have "evt_prevSha256 e = map_option evt_sha256 (last_opt h)"
    using p [rule_format, of "length h"] by (auto simp: nth_append last_opt_def last_conv_nth)
  ultimately show ?thesis
    using c s by (auto simp: chained_def eventDigest_def canonical_sha256_def eventText_def simp del: upt_Suc)
qed

lemma chained_determined:
  assumes "chained E h" "chained E h'" "length h = length h'" "digestsSeparate E h h'"
    and "map_option evt_sha256 (last_opt h) = map_option evt_sha256 (last_opt h')"
  shows "list_all2 sameEvent h h'"
  using assms
proof (induction h arbitrary: h' rule: rev_induct)
  case (snoc e h)
  then obtain g f where h': "h' = g @ [f]" by (cases h' rule: rev_cases) auto
  have len: "length h = length g" using snoc.prems(3) h' by simp
  have d: "evt_sha256 e = evt_sha256 f" using snoc.prems(5) h' by (simp add: last_opt_def)
  note c = chained_snoc [OF snoc.prems(1)] chained_snoc [OF snoc.prems(2) [unfolded h']]
  have "eventText e = eventText f" using snoc.prems(4) d c len by (simp add: digestsSeparate_def h')
  from eventText_exact [OF this d] have s: "sameEvent e f" .
  then have "map_option evt_sha256 (last_opt h) = map_option evt_sha256 (last_opt g)"
    using c by (simp add: sameEvent_def)
  with snoc.IH [of g] c len snoc.prems(4) s show ?case
    by (simp add: h' digestsSeparate_def list_all2_append)
qed simp

text \<open>The chain is tamper evident: two stores that both read, with the same tip number and the same tip digest, hold
  the same events - every field, payloads up to canonical form - unless the hash collides on two event texts at the same place.\<close>

lemma same_tip_same_history:
  assumes "readStore E K key d = Read_ok l h" and "readStore E K' key' d' = Read_ok l' h'"
    and "lastEventSeq l = lastEventSeq l'" and "lastEventSha256 l = lastEventSha256 l'" and "digestsSeparate E h h'"
  shows "list_all2 sameEvent h h'"
  using read_history [OF assms(1)] read_history [OF assms(2)] assms(3-5) by (intro chained_determined [of E]) auto

lemma same_tip_same_history_witness:
  "\<exists>l h. readStore toy_env toy_checks toy_key
     (snd (transact toy_env toy_checks toy_key toy_decider toy_stamp (toy_request ''r1'' 2) toy_disk)) = Read_ok l h \<and>
     list_all2 sameEvent h h"
proof -
  from toy_reads obtain l h where r: "readStore toy_env toy_checks toy_key
     (snd (transact toy_env toy_checks toy_key toy_decider toy_stamp (toy_request ''r1'' 2) toy_disk)) = Read_ok l h" by blast
  have "digestsSeparate toy_env h h" by (auto simp: digestsSeparate_def list_all_iff zip_same)
  from same_tip_same_history [OF r r refl refl this] r show ?thesis by blast
qed

subsection \<open>A segment left above the tip\<close>

text \<open>
  A crash, or an I/O error, between the rename of the segment and the rename of the ledger leaves a
  segment above the tip. The reader ignores it; the next writer does not remove it.
\<close>

text \<open>C24. An orphan segment corrupts a later commit: if a segment file of an uncommitted transaction is left just above the
  tip, then a later transaction whose decision emits another number of events is acknowledged and
  its write leaves a store that no longer reads.\<close>

theorem orphan_corrupts_later_commit:
  assumes "diskTip d + 1 = sg_first s" and "wellNamed s"
    and "transactPlan E K key D cx env (d\<lparr>dk_segments := writeSegment s (dk_segments d)\<rparr>) = Plan_write (Some s') l' r"
    and "sg_last s' \<noteq> sg_last s"
  shows "readStore E K key (snd (transact E K key D cx env (d\<lparr>dk_segments := writeSegment s (dk_segments d)\<rparr>))) = Read_corrupt"
proof -
  let ?d = "d\<lparr>dk_segments := writeSegment s (dk_segments d)\<rparr>"
  from assms(3) obtain l h where b: "baseLedger E K key cx env ?d = Some (l, h)" and key: "is_sha key"
    and tip: "diskTip ?d = lastEventSeq l" and w: "commitDecided E K key D cx env l h = Plan_write (Some s') l' r"
    using transactPlan_write by metis
  note c = commitDecided_write [OF w]
  have s': "sg_first s' = Suc (lastEventSeq l)" "wellNamed s'" "sg_first s' \<le> lastEventSeq l'"
    using c(3) by (auto simp: builtFor_def segmentOf_some wellNamed_def Suc_le_eq c(4) split: if_splits)
  have "diskTip ?d = diskTip d" by (simp add: diskTip_def)
  then have f: "sg_first s = sg_first s'" using assms(1) tip s'(1) by simp
  let ?segs = "writeSegment s' (dk_segments ?d)"
  have "s \<in> set ?segs" "s' \<in> set ?segs" using assms(4) by (auto simp: writeSegment_def)
  from same_first_breaks [OF this _ f assms(2) s'(2)] s'(3) f assms(4) have "verifyChain E l' ?segs = None" by auto
  moreover have "repoBindingOk E key l'" using c(8) by (simp add: checkRefinements_def)
  ultimately show ?thesis
    using key by (simp add: snd_transact [OF assms(3)] readStore_def afterSegment_def)
qed

definition toy_crashed :: store_disk where
  \<comment> \<open>the disk after a crash between the two renames of the two-event request\<close>
  "toy_crashed = commitTrace (transactPlan toy_env toy_checks toy_key toy_decider toy_stamp (toy_request ''r1'' 2) toy_disk) toy_disk ! 1"

lemma toy_crash_plan:
  "(case transactPlan toy_env toy_checks toy_key toy_decider toy_stamp (toy_request ''r2'' 1) toy_crashed of
     Plan_write (Some s) l' (Inr r) \<Rightarrow> sg_last s = 1 | _ \<Rightarrow> False) \<and>
   (case dk_segments toy_crashed of [s] \<Rightarrow> sg_first s = 1 \<and> sg_last s = 2 | _ \<Rightarrow> False) \<and> dk_ledger toy_crashed = None \<and>
   dk_lock toy_crashed = Lock_free"
  by code_simp

theorem orphan_corrupts_later_commit_witness:
  "\<exists>r. fst (transact toy_env toy_checks toy_key toy_decider toy_stamp (toy_request ''r2'' 1) toy_crashed) = Some (Inr r) \<and>
     readStore toy_env toy_checks toy_key
       (snd (transact toy_env toy_checks toy_key toy_decider toy_stamp (toy_request ''r2'' 1) toy_crashed)) = Read_corrupt"
proof -
  from toy_crash_plan obtain s s' l' r where s: "dk_segments toy_crashed = [s]" "sg_first s = 1" "sg_last s = 2"
    and e: "dk_ledger toy_crashed = None" "dk_lock toy_crashed = Lock_free" and "sg_last s' = 1"
    and p: "transactPlan toy_env toy_checks toy_key toy_decider toy_stamp (toy_request ''r2'' 1) toy_crashed = Plan_write (Some s') l' (Inr r)"
    by (auto split: commit_plan.splits option.splits sum.splits list.splits)
  have d: "toy_crashed = toy_disk\<lparr>dk_segments := writeSegment s (dk_segments toy_disk)\<rparr>"
    using s e by (simp add: toy_disk_def writeSegment_def)
  have "readStore toy_env toy_checks toy_key
      (snd (transact toy_env toy_checks toy_key toy_decider toy_stamp (toy_request ''r2'' 1) toy_crashed)) = Read_corrupt"
    using orphan_corrupts_later_commit [of toy_disk s, OF _ _ p [unfolded d]] s \<open>sg_last s' = 1\<close> unfolding d
    by (simp add: diskTip_def toy_disk_def wellNamed_def)
  with p show ?thesis by (simp add: transact_def)
qed

end
