(* ===== verification/Desk_Rollout.thy ===== *)
theory Desk_Rollout
  imports Desk_Assignment Desk_Scope_Exclusive
begin

text \<open>
  Rollouts (plugin/server/desk-rollout.ts): immutable declaration revisions that pin an observed
  candidate and its required checks, and an owner-driven state machine whose forward edges are
  gated on passed check runs, on the scope's standing approval and on an unchanged canary cohort.
\<close>

subsection \<open>Commands\<close>

record rollout_declare_command =
  rdc_requestId :: string
  rdc_assignmentId :: string
  rdc_scopeId :: string
  rdc_rolloutId :: string
  rdc_label :: string
  rdc_declarationSha256 :: string
  rdc_candidateSnapshot :: string
  rdc_candidateHead :: "string option"
  rdc_requiredChecks :: "required_check list"
  rdc_refs :: "string list"
  rdc_actorAgentId :: string

record rollout_transition_command =
  rtc_requestId :: string
  rtc_assignmentId :: string
  rtc_rolloutId :: string
  rtc_transition :: rollout_command
  rtc_rolloutRevision :: nat
  rtc_targetSnapshot :: "string option"
  rtc_evidenceRefs :: "string list"
  rtc_actorAgentId :: string

datatype desk_rollout_command =
    Rollout_declare rollout_declare_command
  | Rollout_transition rollout_transition_command

definition rollout_declare_ok :: "rollout_declare_command \<Rightarrow> bool" where
  "rollout_declare_ok c \<longleftrightarrow>
     between_len 1 deskRequestIdLen (rdc_requestId c) \<and> between_len 1 agentIdLen (rdc_actorAgentId c) \<and>
     between_len 1 deskEntityIdLen (rdc_assignmentId c) \<and> between_len 1 deskEntityIdLen (rdc_scopeId c) \<and>
     between_len 1 deskEntityIdLen (rdc_rolloutId c) \<and> between_len 1 deskScopeLabelLen (rdc_label c) \<and>
     is_sha (rdc_declarationSha256 c) \<and> is_sha (rdc_candidateSnapshot c) \<and> opt_ok is_git_head (rdc_candidateHead c) \<and>
     list_all (\<lambda>q. between_len 1 deskEntityIdLen (rq_checkId q) \<and> is_sha (rq_definitionDigest q)) (rdc_requiredChecks c) \<and>
     length (rdc_requiredChecks c) \<le> deskRolloutRequiredChecks \<and>
     list_all (between_len 1 deskCheckPointerLen) (rdc_refs c) \<and> length (rdc_refs c) \<le> deskScopeRefs"

definition rollout_transition_ok :: "rollout_transition_command \<Rightarrow> bool" where
  "rollout_transition_ok c \<longleftrightarrow>
     between_len 1 deskRequestIdLen (rtc_requestId c) \<and> between_len 1 agentIdLen (rtc_actorAgentId c) \<and>
     between_len 1 deskEntityIdLen (rtc_assignmentId c) \<and> between_len 1 deskEntityIdLen (rtc_rolloutId c) \<and>
     1 \<le> rtc_rolloutRevision c \<and> opt_ok is_sha (rtc_targetSnapshot c) \<and>
     list_all (between_len 1 deskCheckPointerLen) (rtc_evidenceRefs c) \<and> length (rtc_evidenceRefs c) \<le> deskCheckEvidence"

fun rollout_command_ok :: "desk_rollout_command \<Rightarrow> bool" where
  "rollout_command_ok (Rollout_declare c) = rollout_declare_ok c"
| "rollout_command_ok (Rollout_transition c) = rollout_transition_ok c"

fun rollout_actor :: "desk_rollout_command \<Rightarrow> string" where
  "rollout_actor (Rollout_declare c) = rdc_actorAgentId c"
| "rollout_actor (Rollout_transition c) = rtc_actorAgentId c"

fun rollout_assignment :: "desk_rollout_command \<Rightarrow> string" where
  "rollout_assignment (Rollout_declare c) = rdc_assignmentId c"
| "rollout_assignment (Rollout_transition c) = rtc_assignmentId c"

subsection \<open>Streams, cohorts and check evidence\<close>

definition rolloutDeclarations :: "ledger \<Rightarrow> string \<Rightarrow> string \<Rightarrow> rollout list" where
  \<comment> \<open>the module's \<open>declarationStream\<close>\<close>
  "rolloutDeclarations l aid rid =
     sort_key ro_revision (filter (\<lambda>r. ro_assignmentId r = aid \<and> ro_rolloutId r = rid) (rollouts l))"

definition rolloutMoves :: "ledger \<Rightarrow> string \<Rightarrow> string \<Rightarrow> rollout_transition list" where
  \<comment> \<open>the module's \<open>transitionStream\<close>\<close>
  "rolloutMoves l aid rid =
     sort_key rt_revision (filter (\<lambda>t. rt_assignmentId t = aid \<and> rt_rolloutId t = rid) (rolloutTransitions l))"

definition cohortSnapshot :: "desk_env \<Rightarrow> ledger \<Rightarrow> assignment \<Rightarrow> cohort" where
  \<comment> \<open>the ownership revision of a registered owner is kept as \<open>Some 0\<close> here and dropped by the pin\<close>
  "cohortSnapshot E l a =
     (let owner = effectiveOwner l a;
          members = sort (remdups (ot_agentId owner # map seat_agentId (a_seats a)));
          ar = assignmentStructuralRevision a;
          orev = ot_ownershipRevision owner;
          digest = sha256 E (canonical_json (JObj ([(''members'', json_strs members), (''assignmentRevision'', json_nat ar)] @
            (if orev = 0 then [] else [(''ownershipRevision'', json_nat orev)])))) in
      \<lparr>co_members = members, co_digest = digest, co_assignmentRevision = ar, co_ownershipRevision = Some orev\<rparr>)"

definition cohortPin :: "cohort \<Rightarrow> cohort" where
  "cohortPin c = c\<lparr>co_ownershipRevision := (if co_ownershipRevision c = Some 0 then None else co_ownershipRevision c)\<rparr>"

definition pinnedCohort :: "rollout_transition list \<Rightarrow> cohort option" where
  "pinnedCohort stream = foldl (\<lambda>pinned row.
     if rt_command row = RRow_command RC_start_canary \<and> rt_cohort row \<noteq> None then rt_cohort row else pinned) None stream"

definition passedRun :: "rollout \<Rightarrow> required_check \<Rightarrow> check_run \<Rightarrow> bool" where
  "passedRun d q r \<longleftrightarrow> cr_assignmentId r = ro_assignmentId d \<and> cr_rolloutId r = ro_rolloutId d \<and>
     cr_checkId r = rq_checkId q \<and> cr_status r = CR_passed \<and> cr_candidateSnapshot r = ro_candidateSnapshot d \<and>
     cr_definitionSha256 r = rq_definitionDigest q"

fun dischargeChecks :: "ledger \<Rightarrow> rollout \<Rightarrow> required_check list \<Rightarrow> discharged_check list option" where
  "dischargeChecks l d [] = Some []"
| "dischargeChecks l d (q # qs) =
     (case last_opt (sort_key cr_attempt (filter (passedRun d q) (checkRuns l))) of
        None \<Rightarrow> None
      | Some r \<Rightarrow> map_option (\<lambda>ds. \<lparr>dc_checkId = rq_checkId q, dc_runId = cr_runId r\<rparr> # ds) (dischargeChecks l d qs))"

definition resolveCheckDischarges :: "ledger \<Rightarrow> rollout \<Rightarrow> discharged_check list option" where
  "resolveCheckDischarges l d = dischargeChecks l d (ro_requiredChecks d)"

subsection \<open>Declaring\<close>

fun requiredChecksProblem :: "ledger \<Rightarrow> rollout_declare_command \<Rightarrow> string list \<Rightarrow> required_check list \<Rightarrow> desk_error_code option" where
  "requiredChecksProblem l cmd seen [] = None"
| "requiredChecksProblem l cmd seen (q # qs) =
     (if rq_checkId q \<in> set seen then Some INVALID_RECORD
      else if find (\<lambda>d. cd_assignmentId d = rdc_assignmentId cmd \<and> cd_checkId d = rq_checkId q \<and>
             cd_scopeId d = rdc_scopeId cmd \<and> cd_definitionSha256 d = rq_definitionDigest q) (checkDefinitions l) = None
        then Some INVALID_RECORD
      else requiredChecksProblem l cmd (rq_checkId q # seen) qs)"

definition rolloutRow :: "ledger \<Rightarrow> membership \<Rightarrow> assignment \<Rightarrow> rollout_declare_command \<Rightarrow> candidate \<Rightarrow> rollout" where
  "rolloutRow l actor a cmd c =
     (let latest = last_opt (rolloutDeclarations l (rdc_assignmentId cmd) (rdc_rolloutId cmd)) in
      \<lparr>ro_rolloutId = rdc_rolloutId cmd, ro_assignmentId = rdc_assignmentId cmd, ro_scopeId = rdc_scopeId cmd,
       ro_requestId = rdc_requestId cmd, ro_revision = (case latest of None \<Rightarrow> 0 | Some d \<Rightarrow> ro_revision d) + 1,
       ro_priorRevision = map_option ro_revision latest, ro_ownerMembershipId = m_membershipId actor,
       ro_ownerAgentId = actorAgent actor, ro_assignmentRevision = assignmentStructuralRevision a,
       ro_label = rdc_label cmd, ro_declarationSha256 = rdc_declarationSha256 cmd,
       ro_candidateSnapshot = c_snapshotSha256 c, ro_candidateHead = c_head c,
       ro_requiredChecks = rdc_requiredChecks cmd, ro_refs = rdc_refs cmd\<rparr>)"

definition rolloutOpening :: "desk_env \<Rightarrow> membership \<Rightarrow> rollout_declare_command \<Rightarrow> rollout_transition" where
  "rolloutOpening E actor cmd =
     \<lparr>rt_transitionId = derive_id E ''rtn'' [actorAgent actor, rdc_assignmentId cmd, rdc_rolloutId cmd, rdc_requestId cmd, ''declare''],
      rt_assignmentId = rdc_assignmentId cmd, rt_rolloutId = rdc_rolloutId cmd, rt_requestId = rdc_requestId cmd,
      rt_revision = 1, rt_command = RRow_declare, rt_from = None, rt_to = RS_declared, rt_rolloutRevision = 1,
      rt_actorAgentId = actorAgent actor, rt_cohort = None, rt_targetSnapshot = None, rt_targetHead = None,
      rt_evidenceRefs = [], rt_dischargedChecks = [], rt_dischargedReviews = [], rt_cohortDigestAtGate = None\<rparr>"

definition rolloutDeclaredEvent :: "rollout \<Rightarrow> desk_event" where
  "rolloutDeclaredEvent r = \<lparr>ev_kind = ''rollout-declared'', ev_payload = JObj
     [(''assignmentId'', JStr (ro_assignmentId r)), (''scopeId'', JStr (ro_scopeId r)), (''rolloutId'', JStr (ro_rolloutId r)),
      (''ownerAgentId'', JStr (ro_ownerAgentId r)), (''revision'', json_nat (ro_revision r)),
      (''candidateSnapshot'', JStr (ro_candidateSnapshot r))]\<rparr>"

definition decideRolloutDeclare ::
  "desk_env \<Rightarrow> ledger \<Rightarrow> membership \<Rightarrow> assignment \<Rightarrow> rollout_declare_command \<Rightarrow> decide_outcome" where
  "decideRolloutDeclare E l actor a cmd =
     (if LIMIT_rollouts \<le> length (rollouts l) then Inl INVALID_RECORD
      else case last_opt (declarationStream l (rdc_assignmentId cmd) (rdc_scopeId cmd)) of
        None \<Rightarrow> Inl SCOPE_CONFLICT
      | Some latestScope \<Rightarrow>
          (case find (\<lambda>c. c_snapshotSha256 c = rdc_candidateSnapshot cmd \<and> c_assignmentId c = rdc_assignmentId cmd) (candidates l) of
             None \<Rightarrow> Inl CANDIDATE_DRIFT
           | Some c \<Rightarrow>
               if sc_seatAgentId latestScope \<noteq> None \<and> Some (c_seatAgentId c) \<noteq> sc_seatAgentId latestScope
                 then Inl CANDIDATE_DRIFT
               else if rdc_candidateHead cmd \<noteq> None \<and> c_head c \<noteq> rdc_candidateHead cmd then Inl CANDIDATE_DRIFT
               else case requiredChecksProblem l cmd [] (rdc_requiredChecks cmd) of
                 Some e \<Rightarrow> Inl e
               | None \<Rightarrow>
                   if (case last_opt (rolloutDeclarations l (rdc_assignmentId cmd) (rdc_rolloutId cmd)) of
                         None \<Rightarrow> False | Some latest \<Rightarrow> ro_scopeId latest \<noteq> rdc_scopeId cmd) then Inl SCOPE_CONFLICT
                   else let row = rolloutRow l actor a cmd c in
                     Inr ([rolloutDeclaredEvent row],
                       no_tables\<lparr>p_rollouts := Some (rollouts l @ [row]),
                         p_rolloutTransitions := Some (if ro_revision row = 1
                           then rolloutTransitions l @ [rolloutOpening E actor cmd] else rolloutTransitions l)\<rparr>)))"

subsection \<open>Moving the machine\<close>

fun rollout_state_name :: "rollout_state \<Rightarrow> string" where
  "rollout_state_name RS_declared = ''declared''"
| "rollout_state_name RS_checks_running = ''checks-running''"
| "rollout_state_name RS_checks_passed = ''checks-passed''"
| "rollout_state_name RS_checks_failed = ''checks-failed''"
| "rollout_state_name RS_canary_ready = ''canary-ready''"
| "rollout_state_name RS_canary_running = ''canary-running''"
| "rollout_state_name RS_canary_passed = ''canary-passed''"
| "rollout_state_name RS_canary_failed = ''canary-failed''"
| "rollout_state_name RS_held = ''held''"
| "rollout_state_name RS_promoted = ''promoted''"
| "rollout_state_name RS_rolled_back = ''rolled-back''"
| "rollout_state_name RS_closed = ''closed''"

fun rollout_command_name :: "rollout_command \<Rightarrow> string" where
  "rollout_command_name RC_start_checks = ''start-checks''"
| "rollout_command_name RC_checks_passed = ''checks-passed''"
| "rollout_command_name RC_checks_failed = ''checks-failed''"
| "rollout_command_name RC_canary_ready = ''canary-ready''"
| "rollout_command_name RC_start_canary = ''start-canary''"
| "rollout_command_name RC_canary_passed = ''canary-passed''"
| "rollout_command_name RC_canary_failed = ''canary-failed''"
| "rollout_command_name RC_hold = ''hold''"
| "rollout_command_name RC_rollback = ''rollback''"
| "rollout_command_name RC_promote = ''promote''"
| "rollout_command_name RC_close = ''close''"

record rollout_pins =
  pn_cohort :: "cohort option"
  pn_targetSnapshot :: "string option"
  pn_targetHead :: "string option"

definition resolveRolloutPins ::
  "desk_env \<Rightarrow> ledger \<Rightarrow> assignment \<Rightarrow> rollout_transition_command \<Rightarrow> desk_error_code + rollout_pins" where
  "resolveRolloutPins E l a cmd =
     (if rtc_transition cmd = RC_start_canary then
        let snapshot = cohortSnapshot E l a in
        if LIMIT_cohortMembers < length (co_members snapshot) then Inl INVALID_RECORD
        else Inr \<lparr>pn_cohort = Some (cohortPin snapshot), pn_targetSnapshot = None, pn_targetHead = None\<rparr>
      else if rtc_transition cmd = RC_rollback then
        (case rtc_targetSnapshot cmd of
           None \<Rightarrow> Inl INVALID_RECORD
         | Some snapshot \<Rightarrow>
             (case find (\<lambda>c. c_snapshotSha256 c = snapshot \<and> c_assignmentId c = rtc_assignmentId cmd) (candidates l) of
                None \<Rightarrow> Inl CANDIDATE_DRIFT
              | Some t \<Rightarrow> Inr \<lparr>pn_cohort = None, pn_targetSnapshot = Some (c_snapshotSha256 t), pn_targetHead = c_head t\<rparr>))
      else if rtc_targetSnapshot cmd \<noteq> None then Inl INVALID_RECORD
      else Inr \<lparr>pn_cohort = None, pn_targetSnapshot = None, pn_targetHead = None\<rparr>)"

definition checkGate :: "ledger \<Rightarrow> rollout \<Rightarrow> rollout_command \<Rightarrow> desk_error_code + discharged_check list" where
  "checkGate l latest command =
     (if command \<in> set ROLLOUT_CHECK_GATED_COMMANDS then
        (case resolveCheckDischarges l latest of None \<Rightarrow> Inl CHECK_INCOMPLETE | Some ds \<Rightarrow> Inr ds)
      else Inr [])"

definition reviewGate ::
  "desk_env \<Rightarrow> ledger \<Rightarrow> assignment \<Rightarrow> rollout \<Rightarrow> rollout_transition_command \<Rightarrow> desk_error_code + scope_discharge list" where
  "reviewGate E l a latest cmd =
     (if rtc_transition cmd \<in> set ROLLOUT_REVIEW_GATED_COMMANDS then
        (case last_opt (declarationStream l (rtc_assignmentId cmd) (ro_scopeId latest)) of
           None \<Rightarrow> Inl SCOPE_CONFLICT
         | Some latestScope \<Rightarrow>
             if sc_briefRevision latestScope \<noteq> latestBriefRevision l (rtc_assignmentId cmd) then Inl REVIEW_INCOMPLETE
             else (case rq_standingApproval (currentScopeReviewQualification E l a (ro_scopeId latest) False) of
                None \<Rightarrow> Inl REVIEW_INCOMPLETE
              | Some approved \<Rightarrow>
                  if rd_scopeRevision approved \<noteq> sc_revision latestScope then Inl REVIEW_INCOMPLETE
                  else if rd_candidateSnapshot approved \<noteq> Some (ro_candidateSnapshot latest) \<or>
                      rd_candidateHead approved \<noteq> ro_candidateHead latest then Inl REVIEW_INCOMPLETE
                  else Inr (ap_discharged approved)))
      else Inr [])"

definition cohortGate ::
  "desk_env \<Rightarrow> ledger \<Rightarrow> assignment \<Rightarrow> rollout_transition list \<Rightarrow> rollout_command \<Rightarrow> desk_error_code + string option" where
  "cohortGate E l a transitions command =
     (if command \<in> set ROLLOUT_COHORT_GATED_COMMANDS then
        (case pinnedCohort transitions of
           None \<Rightarrow> Inl COHORT_DRIFT
         | Some pinned \<Rightarrow>
             let current = cohortSnapshot E l a in
             if co_digest current \<noteq> co_digest pinned then Inl COHORT_DRIFT else Inr (Some (co_digest current)))
      else Inr None)"

definition rolloutMoveRow ::
  "desk_env \<Rightarrow> ledger \<Rightarrow> membership \<Rightarrow> rollout_transition_command \<Rightarrow> rollout_state \<Rightarrow> rollout_state \<Rightarrow> rollout_pins \<Rightarrow>
   discharged_check list \<Rightarrow> scope_discharge list \<Rightarrow> string option \<Rightarrow> rollout_transition" where
  "rolloutMoveRow E l actor cmd from to pins checks reviews digest =
     \<lparr>rt_transitionId = derive_id E ''rtn'' [actorAgent actor, rtc_assignmentId cmd, rtc_rolloutId cmd, rtc_requestId cmd,
        rollout_command_name (rtc_transition cmd)],
      rt_assignmentId = rtc_assignmentId cmd, rt_rolloutId = rtc_rolloutId cmd, rt_requestId = rtc_requestId cmd,
      rt_revision = (case last_opt (rolloutMoves l (rtc_assignmentId cmd) (rtc_rolloutId cmd)) of
         None \<Rightarrow> 0 | Some t \<Rightarrow> rt_revision t) + 1,
      rt_command = RRow_command (rtc_transition cmd), rt_from = Some from, rt_to = to,
      rt_rolloutRevision = rtc_rolloutRevision cmd, rt_actorAgentId = actorAgent actor,
      rt_cohort = pn_cohort pins, rt_targetSnapshot = pn_targetSnapshot pins, rt_targetHead = pn_targetHead pins,
      rt_evidenceRefs = rtc_evidenceRefs cmd, rt_dischargedChecks = checks, rt_dischargedReviews = reviews,
      rt_cohortDigestAtGate = digest\<rparr>"

definition rolloutMovedEvent :: "rollout_transition \<Rightarrow> rollout_command \<Rightarrow> desk_event" where
  "rolloutMovedEvent r command = \<lparr>ev_kind = ''rollout-transitioned'', ev_payload = JObj
     [(''assignmentId'', JStr (rt_assignmentId r)), (''rolloutId'', JStr (rt_rolloutId r)),
      (''transitionId'', JStr (rt_transitionId r)), (''rolloutRevision'', json_nat (rt_rolloutRevision r)),
      (''command'', JStr (rollout_command_name command)),
      (''from'', json_opt (\<lambda>s. JStr (rollout_state_name s)) (rt_from r)), (''to'', JStr (rollout_state_name (rt_to r))),
      (''revision'', json_nat (rt_revision r)),
      (''dischargedChecks'', JArr (map (\<lambda>d. JObj [(''checkId'', JStr (dc_checkId d)), (''runId'', JStr (dc_runId d))]) (rt_dischargedChecks r))),
      (''dischargedReviews'', JArr (map json_discharge (rt_dischargedReviews r))),
      (''cohortDigestAtGate'', json_opt JStr (rt_cohortDigestAtGate r))]\<rparr>"

definition decideRolloutTransition ::
  "desk_env \<Rightarrow> ledger \<Rightarrow> membership \<Rightarrow> assignment \<Rightarrow> rollout_transition_command \<Rightarrow> decide_outcome" where
  "decideRolloutTransition E l actor a cmd =
     (case last_opt (rolloutDeclarations l (rtc_assignmentId cmd) (rtc_rolloutId cmd)) of
        None \<Rightarrow> Inl ROLLOUT_CONFLICT
      | Some latest \<Rightarrow>
          if rtc_rolloutRevision cmd \<noteq> ro_revision latest then Inl REVISION_CONFLICT
          else let transitions = rolloutMoves l (rtc_assignmentId cmd) (rtc_rolloutId cmd) in
          (case last_opt transitions of
             None \<Rightarrow> Inl ROLLOUT_CONFLICT
           | Some current \<Rightarrow>
               (case rolloutTransitionEdge (rt_to current) (rtc_transition cmd) of
                  None \<Rightarrow> Inl ROLLOUT_CONFLICT
                | Some to \<Rightarrow>
                    if LIMIT_rolloutTransitions \<le> length (rolloutTransitions l) then Inl INVALID_RECORD
                    else (case resolveRolloutPins E l a cmd of
                       Inl e \<Rightarrow> Inl e
                     | Inr pins \<Rightarrow>
                         (case checkGate l latest (rtc_transition cmd) of
                            Inl e \<Rightarrow> Inl e
                          | Inr checks \<Rightarrow>
                              (case reviewGate E l a latest cmd of
                                 Inl e \<Rightarrow> Inl e
                               | Inr reviews \<Rightarrow>
                                   (case cohortGate E l a transitions (rtc_transition cmd) of
                                      Inl e \<Rightarrow> Inl e
                                    | Inr digest \<Rightarrow>
                                        let row = rolloutMoveRow E l actor cmd (rt_to current) to pins checks reviews digest in
                                        Inr ([rolloutMovedEvent row (rtc_transition cmd)],
                                          no_tables\<lparr>p_rolloutTransitions := Some (rolloutTransitions l @ [row])\<rparr>))))))))"

definition decideDeskRollout :: "desk_env \<Rightarrow> ledger \<Rightarrow> desk_rollout_command \<Rightarrow> decide_outcome" where
  "decideDeskRollout E l cmd =
     (if \<not> rollout_command_ok cmd then Inl INVALID_RECORD
      else case requireActor l (rollout_actor cmd) of
        Inl e \<Rightarrow> Inl e
      | Inr actor \<Rightarrow>
          (case requireLead actor of
             Some e \<Rightarrow> Inl e
           | None \<Rightarrow>
               (case requireOwnedOpenAssignment l actor (rollout_assignment cmd) AUTHORITY_REQUIRED ACTOR_MISMATCH ROLLOUT_CONFLICT of
                  Inl e \<Rightarrow> Inl e
                | Inr a \<Rightarrow>
                    (case cmd of
                       Rollout_declare c \<Rightarrow> decideRolloutDeclare E l actor a c
                     | Rollout_transition c \<Rightarrow> decideRolloutTransition E l actor a c))))"

subsection \<open>Accepted commands\<close>

lemma rollout_Inr:
  "decideDeskRollout E l (Rollout_declare c) = Inr out \<longleftrightarrow> rollout_declare_ok c \<and> (\<exists>m a.
     liveMembership l (rdc_actorAgentId c) = Some m \<and> m_role m = Role_lead \<and> findAssignment l (rdc_assignmentId c) = Some a \<and>
     effectiveOwnerMatches l a m \<and> a_state a = AS_open \<and> decideRolloutDeclare E l m a c = Inr out)"
  "decideDeskRollout E l (Rollout_transition t) = Inr out \<longleftrightarrow> rollout_transition_ok t \<and> (\<exists>m a.
     liveMembership l (rtc_actorAgentId t) = Some m \<and> m_role m = Role_lead \<and> findAssignment l (rtc_assignmentId t) = Some a \<and>
     effectiveOwnerMatches l a m \<and> a_state a = AS_open \<and> decideRolloutTransition E l m a t = Inr out)"
  by (auto simp: decideDeskRollout_def accepted requireActor_Inr requireLead_None requireOwnedOpen_Inr)

definition scopeFixed :: "ledger \<Rightarrow> rollout_declare_command \<Rightarrow> bool" where
  \<comment> \<open>the rollout id is fresh or already bound to the command's scope\<close>
  "scopeFixed l c \<longleftrightarrow> (case last_opt (rolloutDeclarations l (rdc_assignmentId c) (rdc_rolloutId c)) of
     None \<Rightarrow> True | Some d \<Rightarrow> ro_scopeId d = rdc_scopeId c)"

lemma decideRolloutDeclare_Inr:
  "decideRolloutDeclare E l m a c = Inr (evs, p) \<longleftrightarrow>
   length (rollouts l) < LIMIT_rollouts \<and>
   (\<exists>sc. last_opt (declarationStream l (rdc_assignmentId c) (rdc_scopeId c)) = Some sc \<and>
   (\<exists>cand. find (\<lambda>x. c_snapshotSha256 x = rdc_candidateSnapshot c \<and> c_assignmentId x = rdc_assignmentId c) (candidates l) = Some cand \<and>
     \<not> (sc_seatAgentId sc \<noteq> None \<and> Some (c_seatAgentId cand) \<noteq> sc_seatAgentId sc) \<and>
     \<not> (rdc_candidateHead c \<noteq> None \<and> c_head cand \<noteq> rdc_candidateHead c) \<and>
     requiredChecksProblem l c [] (rdc_requiredChecks c) = None \<and> scopeFixed l c \<and>
     (let row = rolloutRow l m a c cand in
      evs = [rolloutDeclaredEvent row] \<and> p = no_tables\<lparr>p_rollouts := Some (rollouts l @ [row]),
        p_rolloutTransitions := Some (if ro_revision row = 1
          then rolloutTransitions l @ [rolloutOpening E m c] else rolloutTransitions l)\<rparr>)))"
proof -
  have flip: "(Inr y = Inr (evs, p)) = ((evs, p) = y)" for y :: "desk_event list \<times> table_patch" by auto
  have same: "\<not> (case last_opt (rolloutDeclarations l (rdc_assignmentId c) (rdc_rolloutId c)) of
      None \<Rightarrow> False | Some d \<Rightarrow> ro_scopeId d \<noteq> rdc_scopeId c) \<longleftrightarrow> scopeFixed l c"
    by (simp add: scopeFixed_def split: option.splits)
  show ?thesis
    unfolding decideRolloutDeclare_def Let_def accepted flip prod.inject same not_le by (rule refl)
qed

lemma decideRolloutTransition_Inr:
  "decideRolloutTransition E l m a c = Inr (evs, p) \<longleftrightarrow>
   (\<exists>latest current to pins checks reviews digest.
     last_opt (rolloutDeclarations l (rtc_assignmentId c) (rtc_rolloutId c)) = Some latest \<and>
     rtc_rolloutRevision c = ro_revision latest \<and>
     last_opt (rolloutMoves l (rtc_assignmentId c) (rtc_rolloutId c)) = Some current \<and>
     rolloutTransitionEdge (rt_to current) (rtc_transition c) = Some to \<and>
     length (rolloutTransitions l) < LIMIT_rolloutTransitions \<and>
     resolveRolloutPins E l a c = Inr pins \<and> checkGate l latest (rtc_transition c) = Inr checks \<and>
     reviewGate E l a latest c = Inr reviews \<and>
     cohortGate E l a (rolloutMoves l (rtc_assignmentId c) (rtc_rolloutId c)) (rtc_transition c) = Inr digest \<and>
     (let row = rolloutMoveRow E l m c (rt_to current) to pins checks reviews digest in
      evs = [rolloutMovedEvent row (rtc_transition c)] \<and>
      p = no_tables\<lparr>p_rolloutTransitions := Some (rolloutTransitions l @ [row])\<rparr>))"
proof -
  have flip: "(Inr y = Inr (evs, p)) = ((evs, p) = y)" for y :: "desk_event list \<times> table_patch" by auto
  show ?thesis
    unfolding decideRolloutTransition_def Let_def accepted flip prod.inject by auto
qed

end
