(* ===== verification/Desk_Rollout_Examples.thy ===== *)
theory Desk_Rollout_Examples
  imports Desk_Rollout "HOL-Library.Code_Target_Nat"
begin

text \<open>
  The approved scope of Desk_Scope_Examples with a rollout on it that stands at canary-passed, one
  required check and its passed run. Used by the witnesses of the rollout theories only.
\<close>

definition demo_required_check :: required_check where
  "demo_required_check = \<lparr>rq_checkId = ''k1'', rq_definitionDigest = demo_sha\<rparr>"

definition demo_rollout :: rollout where
  "demo_rollout = \<lparr>ro_rolloutId = ''ro1'', ro_assignmentId = ''asg'', ro_scopeId = ''s1'', ro_requestId = ''rd1'',
     ro_revision = 1, ro_priorRevision = None, ro_ownerMembershipId = ''m1'', ro_ownerAgentId = ''lead1'',
     ro_assignmentRevision = 1, ro_label = ''roll'', ro_declarationSha256 = demo_sha, ro_candidateSnapshot = demo_sha,
     ro_candidateHead = None, ro_requiredChecks = [demo_required_check], ro_refs = []\<rparr>"

definition demo_run :: check_run where
  "demo_run = \<lparr>cr_runId = ''run1'', cr_assignmentId = ''asg'', cr_rolloutId = ''ro1'', cr_checkId = ''k1'',
     cr_requestId = ''q'', cr_rolloutRevision = 1, cr_definitionRevision = 1, cr_definitionSha256 = demo_sha,
     cr_candidateSnapshot = demo_sha, cr_candidateHead = None, cr_environment = (''linux'', ''v''), cr_status = CR_passed,
     cr_attempt = 1, cr_retryOf = None, cr_actorAgentId = ''lead1'', cr_actorSeatId = ''m1'', cr_exitCode = Some 0,
     cr_timedOut = False, cr_durationMs = Some 1, cr_outputSha256 = None, cr_outputTail = None, cr_outputTruncated = False,
     cr_outputPointer = None, cr_evidenceRef = None, cr_gap = None\<rparr>"

definition demo_move :: "nat \<Rightarrow> rollout_row_command \<Rightarrow> rollout_state option \<Rightarrow> rollout_state \<Rightarrow> cohort option \<Rightarrow> rollout_transition" where
  "demo_move n c from to k =
     \<lparr>rt_transitionId = ''rtn'', rt_assignmentId = ''asg'', rt_rolloutId = ''ro1'', rt_requestId = ''r'', rt_revision = n,
      rt_command = c, rt_from = from, rt_to = to, rt_rolloutRevision = 1, rt_actorAgentId = ''lead1'', rt_cohort = k,
      rt_targetSnapshot = None, rt_targetHead = None, rt_evidenceRefs = [], rt_dischargedChecks = [],
      rt_dischargedReviews = [], rt_cohortDigestAtGate = None\<rparr>"

definition demo_cohort :: cohort where
  "demo_cohort = cohortPin (cohortSnapshot demo_env demo_approved demo_assignment)"

definition demo_moves :: "rollout_transition list" where
  "demo_moves =
     [demo_move 1 RRow_declare None RS_declared None,
      demo_move 2 (RRow_command RC_start_checks) (Some RS_declared) RS_checks_running None,
      demo_move 3 (RRow_command RC_checks_passed) (Some RS_checks_running) RS_checks_passed None,
      demo_move 4 (RRow_command RC_canary_ready) (Some RS_checks_passed) RS_canary_ready None,
      demo_move 5 (RRow_command RC_start_canary) (Some RS_canary_ready) RS_canary_running (Some demo_cohort),
      demo_move 6 (RRow_command RC_canary_passed) (Some RS_canary_running) RS_canary_passed None]"

definition demo_canary :: ledger where
  "demo_canary = demo_approved\<lparr>rollouts := [demo_rollout], rolloutTransitions := demo_moves, checkRuns := [demo_run]\<rparr>"

definition demo_promoted :: ledger where
  "demo_promoted = demo_canary\<lparr>rolloutTransitions := demo_moves @
     [demo_move 7 (RRow_command RC_promote) (Some RS_canary_passed) RS_promoted None]\<rparr>"

definition demo_promote :: rollout_transition_command where
  "demo_promote = \<lparr>rtc_requestId = ''p1'', rtc_assignmentId = ''asg'', rtc_rolloutId = ''ro1'', rtc_transition = RC_promote,
     rtc_rolloutRevision = 1, rtc_targetSnapshot = None, rtc_evidenceRefs = [], rtc_actorAgentId = ''lead1''\<rparr>"

definition demo_redeclare :: rollout_declare_command where
  "demo_redeclare = \<lparr>rdc_requestId = ''rd2'', rdc_assignmentId = ''asg'', rdc_scopeId = ''s1'', rdc_rolloutId = ''ro1'',
     rdc_label = ''again'', rdc_declarationSha256 = demo_sha, rdc_candidateSnapshot = demo_sha, rdc_candidateHead = None,
     rdc_requiredChecks = [], rdc_refs = [], rdc_actorAgentId = ''lead1''\<rparr>"

fun accepts :: "'a + 'b \<Rightarrow> bool" where
  "accepts (Inl e) = False"
| "accepts (Inr y) = True"

lemma acceptsD: "accepts (x :: 'e + 'a \<times> 'b) \<Longrightarrow> \<exists>evs p. x = Inr (evs, p)"
  by (cases x) auto

lemma demo_promotes: "accepts (decideDeskRollout demo_env demo_canary (Rollout_transition demo_promote))"
  by code_simp

lemma demo_redeclares: "accepts (decideDeskRollout demo_env demo_canary (Rollout_declare demo_redeclare))"
  by code_simp

end
