(* ===== verification/Desk_Rollout_History.thy ===== *)
theory Desk_Rollout_History
  imports Desk_Rollout_Examples
begin

text \<open>
  The history of a rollout: its declarations and its moves are numbered 1..N, the moves form one
  legal run of the rollout machine opened by the first declaration, and every declaration stays on
  the scope of the first. What a state then says about the past, and how long a history can get.
\<close>

subsection \<open>The streams\<close>

definition pushRollout :: "ledger \<Rightarrow> rollout \<Rightarrow> ledger" where
  "pushRollout l r = l\<lparr>rollouts := rollouts l @ [r]\<rparr>"

definition pushMove :: "ledger \<Rightarrow> rollout_transition \<Rightarrow> ledger" where
  "pushMove l r = l\<lparr>rolloutTransitions := rolloutTransitions l @ [r]\<rparr>"

interpretation rolled: revision_ledger "\<lambda>l (a, s). rolloutDeclarations l a s" pushRollout
    "\<lambda>r. (ro_assignmentId r, ro_rolloutId r)" ro_revision
  by unfold_locales (auto simp: rolloutDeclarations_def pushRollout_def intro!: sort_key_snoc_max split: if_splits)

interpretation shifted: revision_ledger "\<lambda>l (a, s). rolloutMoves l a s" pushMove
    "\<lambda>r. (rt_assignmentId r, rt_rolloutId r)" rt_revision
  by unfold_locales (auto simp: rolloutMoves_def pushMove_def intro!: sort_key_snoc_max split: if_splits)

lemma rollout_frame [simp]:
  "rolloutMoves (pushRollout l r) = rolloutMoves l"
  "rolloutDeclarations (pushMove l t) = rolloutDeclarations l"
  by (simp_all add: fun_eq_iff rolloutMoves_def rolloutDeclarations_def pushRollout_def pushMove_def)

lemma rolloutRow_sel [simp]:
  "ro_assignmentId (rolloutRow l m a c k) = rdc_assignmentId c" "ro_rolloutId (rolloutRow l m a c k) = rdc_rolloutId c"
  "ro_scopeId (rolloutRow l m a c k) = rdc_scopeId c" "ro_candidateSnapshot (rolloutRow l m a c k) = c_snapshotSha256 k"
  "ro_requiredChecks (rolloutRow l m a c k) = rdc_requiredChecks c"
  "ro_revision (rolloutRow l m a c k) = Suc (rolled.current l (rdc_assignmentId c, rdc_rolloutId c))"
  by (simp_all add: rolloutRow_def Let_def rolled.current_def)

lemma rolloutOpening_sel [simp]:
  "rt_assignmentId (rolloutOpening E m c) = rdc_assignmentId c" "rt_rolloutId (rolloutOpening E m c) = rdc_rolloutId c"
  "rt_revision (rolloutOpening E m c) = 1" "rt_command (rolloutOpening E m c) = RRow_declare"
  "rt_from (rolloutOpening E m c) = None" "rt_to (rolloutOpening E m c) = RS_declared"
  by (simp_all add: rolloutOpening_def)

lemma rolloutMoveRow_sel [simp]:
  "rt_assignmentId (rolloutMoveRow E l m c s t pins ks rs d) = rtc_assignmentId c"
  "rt_rolloutId (rolloutMoveRow E l m c s t pins ks rs d) = rtc_rolloutId c"
  "rt_command (rolloutMoveRow E l m c s t pins ks rs d) = RRow_command (rtc_transition c)"
  "rt_from (rolloutMoveRow E l m c s t pins ks rs d) = Some s" "rt_to (rolloutMoveRow E l m c s t pins ks rs d) = t"
  "rt_cohort (rolloutMoveRow E l m c s t pins ks rs d) = pn_cohort pins"
  "rt_targetSnapshot (rolloutMoveRow E l m c s t pins ks rs d) = pn_targetSnapshot pins"
  "rt_dischargedChecks (rolloutMoveRow E l m c s t pins ks rs d) = ks"
  "rt_dischargedReviews (rolloutMoveRow E l m c s t pins ks rs d) = rs"
  "rt_cohortDigestAtGate (rolloutMoveRow E l m c s t pins ks rs d) = d"
  "rt_rolloutRevision (rolloutMoveRow E l m c s t pins ks rs d) = rtc_rolloutRevision c"
  "rt_revision (rolloutMoveRow E l m c s t pins ks rs d) = Suc (shifted.current l (rtc_assignmentId c, rtc_rolloutId c))"
  by (simp_all add: rolloutMoveRow_def shifted.current_def)

subsection \<open>Legal runs\<close>

fun rolloutRowEdge :: "rollout_state \<Rightarrow> rollout_row_command \<Rightarrow> rollout_state option" where
  "rolloutRowEdge s RRow_declare = None"
| "rolloutRowEdge s (RRow_command c) = rolloutTransitionEdge s c"

interpretation rollout_rows: ranked_machine rolloutRowEdge "\<lambda>s. s = RS_closed" rollout_rank
proof
  fix s c t
  show "rolloutRowEdge s c = Some t \<Longrightarrow> rollout_rank t < rollout_rank s"
    by (cases c) (auto dest: rollout_machine.rank_lowers)
  show "s = RS_closed \<Longrightarrow> rolloutRowEdge s c = None"
    by (cases c) (auto intro: rollout_machine.terminal_stuck)
qed

lemma rollout_row_edges:
  "rolloutRowEdge u k = Some v \<longleftrightarrow> (\<exists>c. k = RRow_command c \<and> (u, c, v) \<in> set ROLLOUT_TRANSITIONS)"
  by (cases k) (auto simp: rollout_edge_iff)

abbreviation rolloutView :: "rollout_transition \<Rightarrow> rollout_state option \<times> rollout_row_command \<times> rollout_state" where
  "rolloutView r \<equiv> (rt_from r, rt_command r, rt_to r)"

abbreviation legalMoves :: "rollout_state option \<Rightarrow> rollout_transition list \<Rightarrow> bool" where
  "legalMoves \<equiv> legal_rows rolloutRowEdge (RRow_declare, RS_declared) rolloutView"

definition rolloutState :: "ledger \<Rightarrow> string \<Rightarrow> string \<Rightarrow> rollout_state option" where
  "rolloutState l aid rid = map_option rt_to (last_opt (rolloutMoves l aid rid))"

lemma rolloutState_end: "rows_end rolloutView None (rolloutMoves l aid rid) = rolloutState l aid rid"
  by (simp add: rows_end_None rolloutState_def)

definition rolloutKeyOk :: "ledger \<Rightarrow> string \<Rightarrow> string \<Rightarrow> bool" where
  "rolloutKeyOk l aid rid \<longleftrightarrow>
     map ro_revision (rolloutDeclarations l aid rid) = [1..<Suc (length (rolloutDeclarations l aid rid))] \<and>
     map rt_revision (rolloutMoves l aid rid) = [1..<Suc (length (rolloutMoves l aid rid))] \<and>
     legalMoves None (rolloutMoves l aid rid) \<and>
     (rolloutDeclarations l aid rid = [] \<longleftrightarrow> rolloutMoves l aid rid = []) \<and>
     (\<exists>sid. list_all (\<lambda>d. ro_scopeId d = sid) (rolloutDeclarations l aid rid))"

definition rolloutHistoryOk :: "ledger \<Rightarrow> bool" where
  "rolloutHistoryOk l \<longleftrightarrow> (\<forall>aid rid. rolloutKeyOk l aid rid)"

lemma rolloutKeyOk_alt:
  "rolloutKeyOk l aid rid \<longleftrightarrow> rolled.numbered l (aid, rid) \<and> shifted.numbered l (aid, rid) \<and>
     legalMoves None (rolloutMoves l aid rid) \<and>
     (rolloutDeclarations l aid rid = [] \<longleftrightarrow> rolloutMoves l aid rid = []) \<and>
     (\<exists>sid. list_all (\<lambda>d. ro_scopeId d = sid) (rolloutDeclarations l aid rid))"
  by (simp add: rolloutKeyOk_def rolled.numbered_def shifted.numbered_def del: upt_Suc)

subsection \<open>Every command keeps the history\<close>

lemma rolloutKey_push_other:
  "\<not> (rt_assignmentId t = x \<and> rt_rolloutId t = y) \<Longrightarrow> rolloutKeyOk (pushMove l t) x y \<longleftrightarrow> rolloutKeyOk l x y"
  "\<not> (ro_assignmentId r = x \<and> ro_rolloutId r = y) \<Longrightarrow> rolloutKeyOk (pushRollout l r) x y \<longleftrightarrow> rolloutKeyOk l x y"
  using shifted.push_other [of t "(x, y)" l] rolled.push_other [of r "(x, y)" l] by (auto simp: rolloutKeyOk_def)

lemma push_move_key:
  assumes n: "shifted.numbered l (aid, rid)" and dn: "rolled.numbered l (aid, rid)"
    and c: "legalMoves None (rolloutMoves l aid rid)"
    and s: "\<exists>sid. list_all (\<lambda>d. ro_scopeId d = sid) (rolloutDeclarations l aid rid)"
    and d: "rolloutDeclarations l aid rid \<noteq> []"
    and r: "rt_assignmentId r = aid" "rt_rolloutId r = rid" "rt_revision r = Suc (shifted.current l (aid, rid))"
    and legal: "legal_row rolloutRowEdge (RRow_declare, RS_declared) rolloutView (rolloutState l aid rid) r"
  shows "rolloutKeyOk (pushMove l r) aid rid"
proof -
  have st: "rolloutMoves (pushMove l r) aid rid = rolloutMoves l aid rid @ [r]"
    using shifted.push_current [OF n, of r] r by simp
  have "shifted.numbered (pushMove l r) (aid, rid)"
    using shifted.push_numbered [OF n, of r] r by simp
  moreover have "rolled.numbered (pushMove l r) (aid, rid)" using dn by (simp add: rolled.numbered_def)
  ultimately show ?thesis
    using st c d s legal by (simp add: rolloutKeyOk_alt legal_rows_append rolloutState_end)
qed

definition afterRolloutDeclare :: "desk_env \<Rightarrow> ledger \<Rightarrow> membership \<Rightarrow> rollout_declare_command \<Rightarrow> rollout \<Rightarrow> ledger" where
  "afterRolloutDeclare E l m c row =
     (if ro_revision row = 1 then pushMove (pushRollout l row) (rolloutOpening E m c) else pushRollout l row)"

lemma rollout_declare_facts:
  assumes "decideDeskRollout E l (Rollout_declare c) = Inr (evs, p)"
  obtains m a k where "findAssignment l (rdc_assignmentId c) = Some a" and "effectiveOwnerMatches l a m"
    and "a_state a = AS_open" and "scopeFixed l c" and "k \<in> set (candidates l)"
    and "c_snapshotSha256 k = rdc_candidateSnapshot c" and "c_assignmentId k = rdc_assignmentId c"
    and "apply_tables l p = afterRolloutDeclare E l m c (rolloutRow l m a c k)"
proof -
  from assms obtain m a k where f: "findAssignment l (rdc_assignmentId c) = Some a" "effectiveOwnerMatches l a m"
    "a_state a = AS_open" "scopeFixed l c"
    "find (\<lambda>x. c_snapshotSha256 x = rdc_candidateSnapshot c \<and> c_assignmentId x = rdc_assignmentId c) (candidates l) = Some k"
    and p: "p = no_tables\<lparr>p_rollouts := Some (rollouts l @ [rolloutRow l m a c k]),
       p_rolloutTransitions := Some (if ro_revision (rolloutRow l m a c k) = 1
         then rolloutTransitions l @ [rolloutOpening E m c] else rolloutTransitions l)\<rparr>"
    unfolding rollout_Inr decideRolloutDeclare_Inr Let_def by blast
  have "apply_tables l p = afterRolloutDeclare E l m c (rolloutRow l m a c k)"
    by (simp add: p apply_tables_def no_tables_def afterRolloutDeclare_def pushRollout_def pushMove_def)
  moreover have "k \<in> set (candidates l) \<and> c_snapshotSha256 k = rdc_candidateSnapshot c \<and> c_assignmentId k = rdc_assignmentId c"
    using find_SomeD [OF f(5)] by simp
  ultimately show ?thesis using that f(1-4) by blast
qed

lemma rollout_transition_facts:
  assumes "decideDeskRollout E l (Rollout_transition c) = Inr (evs, p)"
  obtains m a latest current to pins checks reviews digest where
    "findAssignment l (rtc_assignmentId c) = Some a" and "effectiveOwnerMatches l a m" and "a_state a = AS_open"
    and "last_opt (rolloutDeclarations l (rtc_assignmentId c) (rtc_rolloutId c)) = Some latest"
    and "rtc_rolloutRevision c = ro_revision latest"
    and "last_opt (rolloutMoves l (rtc_assignmentId c) (rtc_rolloutId c)) = Some current"
    and "rolloutTransitionEdge (rt_to current) (rtc_transition c) = Some to"
    and "resolveRolloutPins E l a c = Inr pins" and "checkGate l latest (rtc_transition c) = Inr checks"
    and "reviewGate E l a latest c = Inr reviews"
    and "cohortGate E l a (rolloutMoves l (rtc_assignmentId c) (rtc_rolloutId c)) (rtc_transition c) = Inr digest"
    and "apply_tables l p = pushMove l (rolloutMoveRow E l m c (rt_to current) to pins checks reviews digest)"
proof -
  from assms obtain m a latest current to pins checks reviews digest where f:
    "findAssignment l (rtc_assignmentId c) = Some a" "effectiveOwnerMatches l a m" "a_state a = AS_open"
    "last_opt (rolloutDeclarations l (rtc_assignmentId c) (rtc_rolloutId c)) = Some latest"
    "rtc_rolloutRevision c = ro_revision latest"
    "last_opt (rolloutMoves l (rtc_assignmentId c) (rtc_rolloutId c)) = Some current"
    "rolloutTransitionEdge (rt_to current) (rtc_transition c) = Some to"
    "resolveRolloutPins E l a c = Inr pins" "checkGate l latest (rtc_transition c) = Inr checks"
    "reviewGate E l a latest c = Inr reviews"
    "cohortGate E l a (rolloutMoves l (rtc_assignmentId c) (rtc_rolloutId c)) (rtc_transition c) = Inr digest"
    and p: "p = no_tables\<lparr>p_rolloutTransitions := Some (rolloutTransitions l @
       [rolloutMoveRow E l m c (rt_to current) to pins checks reviews digest])\<rparr>"
    unfolding rollout_Inr decideRolloutTransition_Inr Let_def by blast
  have "apply_tables l p = pushMove l (rolloutMoveRow E l m c (rt_to current) to pins checks reviews digest)"
    by (simp add: p apply_tables_def no_tables_def pushMove_def)
  with that f show ?thesis by blast
qed

lemma afterRolloutDeclare_key:
  assumes k: "\<And>x y. rolloutKeyOk l x y" and fixed: "scopeFixed l c"
  shows "rolloutKeyOk (afterRolloutDeclare E l m c (rolloutRow l m a c cand)) x y"
proof (cases "x = rdc_assignmentId c \<and> y = rdc_rolloutId c")
  case False
  then show ?thesis using k by (auto simp: afterRolloutDeclare_def rolloutKey_push_other)
next
  case True
  let ?row = "rolloutRow l m a c cand" and ?aid = "rdc_assignmentId c" and ?rid = "rdc_rolloutId c"
  have key: "rolloutKeyOk l ?aid ?rid" by (rule k)
  have st: "rolloutDeclarations (pushRollout l ?row) ?aid ?rid = rolloutDeclarations l ?aid ?rid @ [?row]"
    and dn: "rolled.numbered (pushRollout l ?row) (?aid, ?rid)"
    using key rolled.push_current [of l "(?aid, ?rid)" ?row] rolled.push_numbered [of l "(?aid, ?rid)" ?row]
    by (auto simp: rolloutKeyOk_alt)
  have mn: "shifted.numbered (pushRollout l ?row) (?aid, ?rid)"
    using key by (simp add: rolloutKeyOk_alt shifted.numbered_def)
  have sc: "\<exists>sid. list_all (\<lambda>d. ro_scopeId d = sid) (rolloutDeclarations (pushRollout l ?row) ?aid ?rid)"
    using key fixed by (auto simp: st rolloutKeyOk_alt scopeFixed_def last_opt_def list_all_iff split: if_splits)
  show ?thesis
  proof (cases "ro_revision ?row = 1")
    case fresh: True
    then have "rolloutDeclarations l ?aid ?rid = []"
      using key rolled.current_length [of l "(?aid, ?rid)"] by (simp add: rolloutKeyOk_alt)
    then have e: "rolloutMoves l ?aid ?rid = []" using key by (simp add: rolloutKeyOk_alt)
    have "rolloutKeyOk (pushMove (pushRollout l ?row) (rolloutOpening E m c)) ?aid ?rid"
      using mn dn sc e
      by (intro push_move_key) (simp_all add: st legal_row_def shifted.current_def rolloutState_def)
    with fresh True show ?thesis by (simp add: afterRolloutDeclare_def)
  next
    case False
    then have "rolloutMoves l ?aid ?rid \<noteq> []" using key by (auto simp: rolloutKeyOk_alt rolled.current_def)
    then have "rolloutKeyOk (pushRollout l ?row) ?aid ?rid"
      using key mn dn sc by (simp add: rolloutKeyOk_alt st)
    with False True show ?thesis by (simp add: afterRolloutDeclare_def)
  qed
qed

lemma rollout_history_kept:
  assumes "decideDeskRollout E l cmd = Inr (evs, p)" and h: "rolloutHistoryOk l"
  shows "rolloutHistoryOk (apply_tables l p)"
proof (cases cmd)
  case (Rollout_declare c)
  with assms(1) obtain m a k where "scopeFixed l c"
    and "apply_tables l p = afterRolloutDeclare E l m c (rolloutRow l m a c k)"
    using rollout_declare_facts [of E l c evs p] by metis
  with afterRolloutDeclare_key [of l c] h show ?thesis by (simp add: rolloutHistoryOk_def)
next
  case (Rollout_transition c)
  let ?aid = "rtc_assignmentId c" and ?rid = "rtc_rolloutId c"
  from Rollout_transition assms(1) obtain m latest current to pins checks reviews digest where
      d: "last_opt (rolloutDeclarations l ?aid ?rid) = Some latest"
    and t: "last_opt (rolloutMoves l ?aid ?rid) = Some current"
    and e: "rolloutTransitionEdge (rt_to current) (rtc_transition c) = Some to"
    and p: "apply_tables l p = pushMove l (rolloutMoveRow E l m c (rt_to current) to pins checks reviews digest)"
    using rollout_transition_facts [of E l c evs p] by metis
  let ?row = "rolloutMoveRow E l m c (rt_to current) to pins checks reviews digest"
  have k: "\<And>x y. rolloutKeyOk l x y" using h by (simp add: rolloutHistoryOk_def)
  have "rolloutKeyOk (pushMove l ?row) ?aid ?rid"
    using k [of ?aid ?rid] d t e
    by (intro push_move_key) (auto simp: rolloutKeyOk_alt legal_row_def rolloutState_def)
  moreover have "\<not> (x = ?aid \<and> y = ?rid) \<Longrightarrow> rolloutKeyOk (pushMove l ?row) x y" for x y
    using k by (subst rolloutKey_push_other) auto
  ultimately show ?thesis unfolding p rolloutHistoryOk_def by metis
qed

text \<open>C19. The rollout history is an invariant: whatever rollout command is accepted, every rollout's declarations and
  moves stay numbered 1..N, its moves stay one legal run of the rollout machine opened by the
  declaration, and its declarations stay on one scope.\<close>

theorem rollout_history_preserved:
  assumes "decideDeskRollout E l cmd = Inr (evs, p)" and h: "rolloutHistoryOk l"
  shows "rolloutHistoryOk (apply_tables l p)"
  using assms by (rule rollout_history_kept)

lemma demo_move_sel [simp]:
  "rt_revision (demo_move n c from to k) = n" "rt_command (demo_move n c from to k) = c" "rt_from (demo_move n c from to k) = from"
  "rt_to (demo_move n c from to k) = to" "rt_cohort (demo_move n c from to k) = k"
  "rt_assignmentId (demo_move n c from to k) = ''asg''" "rt_rolloutId (demo_move n c from to k) = ''ro1''"
  by (simp_all add: demo_move_def)

lemma demo_rollout_sel [simp]:
  "ro_assignmentId demo_rollout = ''asg''" "ro_rolloutId demo_rollout = ''ro1''" "ro_revision demo_rollout = 1"
  by (simp_all add: demo_rollout_def)

lemma demo_canary_tables [simp]:
  "rollouts demo_canary = [demo_rollout]" "rolloutTransitions demo_canary = demo_moves"
  "rollouts demo_promoted = [demo_rollout]"
  "rolloutTransitions demo_promoted = demo_moves @ [demo_move 7 (RRow_command RC_promote) (Some RS_canary_passed) RS_promoted None]"
  by (simp_all add: demo_canary_def demo_promoted_def)

lemma demo_canary_streams:
  "rolloutDeclarations demo_canary aid rid = (if aid = ''asg'' \<and> rid = ''ro1'' then [demo_rollout] else [])"
  "rolloutDeclarations demo_promoted aid rid = (if aid = ''asg'' \<and> rid = ''ro1'' then [demo_rollout] else [])"
  "rolloutMoves demo_canary aid rid = (if aid = ''asg'' \<and> rid = ''ro1'' then rolloutTransitions demo_canary else [])"
  "rolloutMoves demo_promoted aid rid = (if aid = ''asg'' \<and> rid = ''ro1'' then rolloutTransitions demo_promoted else [])"
  by (simp_all add: rolloutDeclarations_def rolloutMoves_def demo_moves_def)

lemma demo_canary_history: "rolloutHistoryOk demo_canary" "rolloutHistoryOk demo_promoted"
proof -
  have "rolloutKeyOk demo_canary aid rid \<and> rolloutKeyOk demo_promoted aid rid" for aid rid
    by (cases "aid = ''asg'' \<and> rid = ''ro1''")
      (simp_all add: rolloutKeyOk_def demo_canary_streams demo_moves_def legal_row_def rolloutTransitionEdge_def ROLLOUT_TRANSITIONS_def)
  then show "rolloutHistoryOk demo_canary" "rolloutHistoryOk demo_promoted" by (simp_all add: rolloutHistoryOk_def)
qed

lemma rollout_history_preserved_witness:
  "\<exists>evs p. decideDeskRollout demo_env demo_canary (Rollout_transition demo_promote) = Inr (evs, p) \<and>
     rolloutHistoryOk (apply_tables demo_canary p)"
  using acceptsD [OF demo_promotes] rollout_history_preserved [OF _ demo_canary_history(1)] by blast

subsection \<open>What a state implies about its past\<close>

lemma rows_end_snoc: "rows_end view st (xs @ [r]) = Some (snd (snd (view r)))"
  by (simp add: rows_end_append)

text \<open>Every state but the first has been entered over an edge: the run before it ends where that edge starts.\<close>

lemma rollout_entered:
  assumes "legalMoves None rs" and "rows_end rolloutView None rs = Some t" and "t \<noteq> RS_declared"
  obtains xs r s where "rs = xs @ [r]" and "legalMoves None xs" and "rows_end rolloutView None xs = Some s"
    and "rt_to r = t" and "rolloutRowEdge s (rt_command r) = Some t"
proof -
  from assms(2) obtain xs r where rs: "rs = xs @ [r]" by (cases rs rule: rev_cases) auto
  with assms have "legalMoves None xs" and t: "rt_to r = t"
    and "legal_row rolloutRowEdge (RRow_declare, RS_declared) rolloutView (rows_end rolloutView None xs) r"
    by (simp_all add: legal_rows_append rows_end_snoc)
  with assms(3) rs that show ?thesis by (auto simp: legal_row_def split: option.splits)
qed

lemma rollout_opened:
  assumes "legalMoves None rs" and "rows_end rolloutView None rs = Some RS_declared"
  shows "map rt_command rs = [RRow_declare]"
proof (cases rs rule: rev_cases)
  case (snoc xs r)
  with assms have "legal_row rolloutRowEdge (RRow_declare, RS_declared) rolloutView (rows_end rolloutView None xs) r"
    and "rt_to r = RS_declared"
    by (simp_all add: legal_rows_append rows_end_snoc)
  then have "rows_end rolloutView None xs = None" and "rt_command r = RRow_declare"
    by (auto simp: legal_row_def rollout_row_edges ROLLOUT_TRANSITIONS_def split: option.splits)
  with snoc show ?thesis by (auto simp: rows_end_def split: option.splits)
qed (use assms in simp)

definition only_way :: "rollout_state \<Rightarrow> rollout_state \<Rightarrow> rollout_command \<Rightarrow> bool" where
  "only_way s t c \<longleftrightarrow> list_all (\<lambda>(f, k, u). u = t \<longrightarrow> f = s \<and> k = c) ROLLOUT_TRANSITIONS"

lemma only_way_in:
  assumes "legalMoves None rs" and "rows_end rolloutView None rs = Some t" and "t \<noteq> RS_declared" and "only_way s t c"
  shows "\<exists>xs. map rt_command rs = map rt_command xs @ [RRow_command c] \<and> legalMoves None xs \<and>
    rows_end rolloutView None xs = Some s"
proof -
  from assms(1-3) obtain xs r s' where "rs = xs @ [r]" "legalMoves None xs" "rows_end rolloutView None xs = Some s'"
    "rolloutRowEdge s' (rt_command r) = Some t"
    by (rule rollout_entered)
  with assms(4) show ?thesis by (fastforce simp: rollout_row_edges only_way_def list_all_iff)
qed

lemma promotion_ways:
  "only_way RS_declared RS_checks_running RC_start_checks" "only_way RS_checks_running RS_checks_passed RC_checks_passed"
  "only_way RS_checks_passed RS_canary_ready RC_canary_ready" "only_way RS_canary_ready RS_canary_running RC_start_canary"
  "only_way RS_canary_running RS_canary_passed RC_canary_passed" "only_way RS_canary_passed RS_promoted RC_promote"
  by (simp_all add: only_way_def ROLLOUT_TRANSITIONS_def)

definition canaryScript :: "rollout_row_command list" where
  "canaryScript = [RRow_declare, RRow_command RC_start_checks, RRow_command RC_checks_passed,
     RRow_command RC_canary_ready, RRow_command RC_start_canary]"

lemma canary_running_script:
  assumes "legalMoves None rs" and "rows_end rolloutView None rs = Some RS_canary_running"
  shows "map rt_command rs = canaryScript"
proof -
  from only_way_in [OF assms _ promotion_ways(4)] obtain r4 where
    4: "map rt_command rs = map rt_command r4 @ [RRow_command RC_start_canary]" "legalMoves None r4"
       "rows_end rolloutView None r4 = Some RS_canary_ready" by auto
  from only_way_in [OF 4(2,3) _ promotion_ways(3)] obtain r3 where
    3: "map rt_command r4 = map rt_command r3 @ [RRow_command RC_canary_ready]" "legalMoves None r3"
       "rows_end rolloutView None r3 = Some RS_checks_passed" by auto
  from only_way_in [OF 3(2,3) _ promotion_ways(2)] obtain r2 where
    2: "map rt_command r3 = map rt_command r2 @ [RRow_command RC_checks_passed]" "legalMoves None r2"
       "rows_end rolloutView None r2 = Some RS_checks_running" by auto
  from only_way_in [OF 2(2,3) _ promotion_ways(1)] obtain r1 where
    1: "map rt_command r2 = map rt_command r1 @ [RRow_command RC_start_checks]" "legalMoves None r1"
       "rows_end rolloutView None r1 = Some RS_declared" by auto
  from rollout_opened [OF 1(2,3)] 1(1) 2(1) 3(1) 4(1) show ?thesis by (simp add: canaryScript_def)
qed

lemma canary_passed_script:
  assumes "legalMoves None rs" and "rows_end rolloutView None rs = Some RS_canary_passed"
  shows "map rt_command rs = canaryScript @ [RRow_command RC_canary_passed]"
  using only_way_in [OF assms _ promotion_ways(5)] canary_running_script by auto

text \<open>C21. Nothing is promoted around a gate: the moves of a rollout that stands promoted are exactly declare,
  start-checks, checks-passed, canary-ready, start-canary, canary-passed and promote, in this order.\<close>

theorem promoted_walked_every_gate:
  assumes "rolloutHistoryOk l" and "rolloutState l aid rid = Some RS_promoted"
  shows "map rt_command (rolloutMoves l aid rid) =
    RRow_declare # map RRow_command [RC_start_checks, RC_checks_passed, RC_canary_ready, RC_start_canary, RC_canary_passed, RC_promote]"
proof -
  have l: "legalMoves None (rolloutMoves l aid rid)" using assms(1) by (simp add: rolloutHistoryOk_def rolloutKeyOk_def)
  have e: "rows_end rolloutView None (rolloutMoves l aid rid) = Some RS_promoted"
    using assms(2) by (simp add: rolloutState_end)
  from only_way_in [OF l e _ promotion_ways(6)] canary_passed_script show ?thesis
    by (auto simp: canaryScript_def)
qed

lemma demo_promoted_state: "rolloutState demo_promoted ''asg'' ''ro1'' = Some RS_promoted"
  by (simp add: rolloutState_def demo_canary_streams)

lemma promoted_walked_every_gate_witness:
  "rolloutState demo_promoted ''asg'' ''ro1'' = Some RS_promoted \<and>
   RRow_command RC_canary_passed \<in> set (map rt_command (rolloutMoves demo_promoted ''asg'' ''ro1''))"
  using demo_promoted_state promoted_walked_every_gate [OF demo_canary_history(2) demo_promoted_state] by simp

text \<open>C23. A rollout ends: its history never holds more than nine rows, whatever commands are sent, and the
  machine does have a run of nine.\<close>

theorem rollout_history_bounded:
  assumes "rolloutHistoryOk l"
  shows "length (rolloutMoves l aid rid) \<le> 9"
proof -
  have "legalMoves None (rolloutMoves l aid rid)" using assms by (simp add: rolloutHistoryOk_def rolloutKeyOk_def)
  from rollout_rows.rows_bounded [OF this] show ?thesis by simp
qed

lemma rollout_history_bounded_witness:
  "length (rolloutMoves demo_promoted ''asg'' ''ro1'') \<le> 9 \<and>
   edge_walk rolloutTransitionEdge RS_declared [RC_start_checks, RC_checks_passed, RC_canary_ready, RC_start_canary,
     RC_canary_passed, RC_hold, RC_rollback, RC_close] = Some RS_closed"
  using rollout_history_bounded [OF demo_canary_history(2), of "''asg''" "''ro1''"]
  by (simp add: rolloutTransitionEdge_def ROLLOUT_TRANSITIONS_def)

end
