(* ===== verification/Desk_Rollout_Gates.thy ===== *)
theory Desk_Rollout_Gates
  imports Desk_Rollout_History
begin

text \<open>
  The gates of the rollout machine: what evidence a promotion has consulted, and that the canary
  cohort pinned by start-canary is the roster the later gates measure.
\<close>

subsection \<open>The check gate\<close>

lemma dischargeChecks_Some:
  "dischargeChecks l d qs = Some ds \<Longrightarrow>
   list_all2 (\<lambda>q x. dc_checkId x = rq_checkId q \<and> (\<exists>r \<in> set (checkRuns l). passedRun d q r \<and> dc_runId x = cr_runId r)) qs ds"
proof (induction qs arbitrary: ds)
  case (Cons q qs)
  from Cons.prems obtain r ds' where r: "last_opt (sort_key cr_attempt (filter (passedRun d q) (checkRuns l))) = Some r"
    and d: "dischargeChecks l d qs = Some ds'" "ds = \<lparr>dc_checkId = rq_checkId q, dc_runId = cr_runId r\<rparr> # ds'"
    by (auto split: option.splits)
  have "r \<in> set (checkRuns l) \<and> passedRun d q r" using last_opt_SomeD [OF r] by simp
  with Cons.IH [OF d(1)] d(2) show ?case by auto
qed simp

subsection \<open>The review gate\<close>

lemma standing_independent:
  assumes "rq_standingApproval (currentScopeReviewQualification E l a sid b) = Some ap"
    and "last_opt (declarationStream l (a_assignmentId a) sid) = Some sc"
  shows "list_all (\<lambda>d. \<exists>r \<in> set (scopeReviews l). rv_reviewId r = discharge_reviewId d \<and>
    rv_assignmentId r = a_assignmentId a \<and> rv_scopeId r = sid \<and> independentOf l a sc (rv_reviewerAgentId r)) (ap_discharged ap)"
proof -
  let ?active = "activeRound (transitionStream l (a_assignmentId a) sid)"
  from assms obtain round where "list_all (\<lambda>d. discharge_reviewId d \<in> set (map rv_reviewId
      (eligibleReviews l (a_assignmentId a) sid round sc (currentReviewExclusions l a sc)))) (ap_discharged ap)"
    by (cases ?active) (auto simp: currentScopeReviewQualification_def qualifyRoundReviews_def Let_def list_all_iff split: if_splits option.splits)
  then show ?thesis unfolding list_all_iff by (fastforce simp: eligible_iff)
qed

lemma reviewGate_promote:
  assumes "reviewGate E l a d c = Inr reviews" and "rtc_transition c = RC_promote"
  obtains sc ap where "last_opt (declarationStream l (rtc_assignmentId c) (ro_scopeId d)) = Some sc"
    and "sc_briefRevision sc = latestBriefRevision l (rtc_assignmentId c)"
    and "rq_standingApproval (currentScopeReviewQualification E l a (ro_scopeId d) False) = Some ap"
    and "rd_scopeRevision ap = sc_revision sc" and "rd_candidateSnapshot ap = Some (ro_candidateSnapshot d)"
    and "rd_candidateHead ap = ro_candidateHead d" and "reviews = ap_discharged ap"
  using assms by (auto simp: reviewGate_def ROLLOUT_REVIEW_GATED_COMMANDS_def accepted)

lemma cohortGate_gated:
  assumes "cohortGate E l a rows c = Inr digest" and "c \<in> set ROLLOUT_COHORT_GATED_COMMANDS"
  obtains pinned where "pinnedCohort rows = Some pinned" and "digest = Some (co_digest pinned)"
    and "co_digest (cohortSnapshot E l a) = co_digest pinned"
  using assms by (auto simp: cohortGate_def Let_def accepted)

text \<open>C18. Promotion is fully evidenced: an accepted promote leaves canary-passed and records one passed run of the pinned
  candidate and definition digest per required check, the scope's standing approval for exactly this candidate at the current
  scope and brief revisions, each of its reviews by a reviewer independent of owner and writer, and the cohort digest the
  canary started with, which the present roster still has.\<close>

theorem promote_requires_everything:
  assumes "decideDeskRollout E l (Rollout_transition c) = Inr (evs, p)" and "rtc_transition c = RC_promote"
  shows "\<exists>a d sc ap pinned row. findAssignment l (rtc_assignmentId c) = Some a \<and>
    last_opt (rolloutDeclarations l (rtc_assignmentId c) (rtc_rolloutId c)) = Some d \<and> rtc_rolloutRevision c = ro_revision d \<and>
    rolloutState l (rtc_assignmentId c) (rtc_rolloutId c) = Some RS_canary_passed \<and>
    rolloutTransitions (apply_tables l p) = rolloutTransitions l @ [row] \<and> rt_to row = RS_promoted \<and>
    list_all2 (\<lambda>q x. dc_checkId x = rq_checkId q \<and> (\<exists>r \<in> set (checkRuns l). passedRun d q r \<and> dc_runId x = cr_runId r))
      (ro_requiredChecks d) (rt_dischargedChecks row) \<and>
    last_opt (declarationStream l (rtc_assignmentId c) (ro_scopeId d)) = Some sc \<and>
    sc_briefRevision sc = latestBriefRevision l (rtc_assignmentId c) \<and>
    rq_standingApproval (currentScopeReviewQualification E l a (ro_scopeId d) False) = Some ap \<and>
    rd_scopeRevision ap = sc_revision sc \<and> rd_candidateSnapshot ap = Some (ro_candidateSnapshot d) \<and>
    rd_candidateHead ap = ro_candidateHead d \<and> rt_dischargedReviews row = ap_discharged ap \<and>
    list_all (\<lambda>x. \<exists>r \<in> set (scopeReviews l). rv_reviewId r = discharge_reviewId x \<and> rv_assignmentId r = rtc_assignmentId c \<and>
      rv_scopeId r = ro_scopeId d \<and> independentOf l a sc (rv_reviewerAgentId r)) (ap_discharged ap) \<and>
    pinnedCohort (rolloutMoves l (rtc_assignmentId c) (rtc_rolloutId c)) = Some pinned \<and>
    co_digest (cohortSnapshot E l a) = co_digest pinned \<and> rt_cohortDigestAtGate row = Some (co_digest pinned)"
proof -
  from assms(1) obtain m a d current to pins checks reviews digest where
      a: "findAssignment l (rtc_assignmentId c) = Some a"
    and d: "last_opt (rolloutDeclarations l (rtc_assignmentId c) (rtc_rolloutId c)) = Some d" "rtc_rolloutRevision c = ro_revision d"
    and t: "last_opt (rolloutMoves l (rtc_assignmentId c) (rtc_rolloutId c)) = Some current"
    and e: "rolloutTransitionEdge (rt_to current) (rtc_transition c) = Some to"
    and k: "checkGate l d (rtc_transition c) = Inr checks"
    and r: "reviewGate E l a d c = Inr reviews"
    and g: "cohortGate E l a (rolloutMoves l (rtc_assignmentId c) (rtc_rolloutId c)) (rtc_transition c) = Inr digest"
    and p: "apply_tables l p = pushMove l (rolloutMoveRow E l m c (rt_to current) to pins checks reviews digest)"
    using rollout_transition_facts [of E l c evs p] by metis
  have aid: "a_assignmentId a = rtc_assignmentId c" using findAssignmentD [OF a] by simp
  have s: "rt_to current = RS_canary_passed" "to = RS_promoted"
    using e assms(2) by (auto simp: rollout_edge_iff ROLLOUT_TRANSITIONS_def)
  have ks: "dischargeChecks l d (ro_requiredChecks d) = Some checks"
    using k assms(2) by (auto simp: checkGate_def ROLLOUT_CHECK_GATED_COMMANDS_def resolveCheckDischarges_def accepted)
  obtain pinned where "pinnedCohort (rolloutMoves l (rtc_assignmentId c) (rtc_rolloutId c)) = Some pinned"
      "digest = Some (co_digest pinned)" "co_digest (cohortSnapshot E l a) = co_digest pinned"
    using cohortGate_gated [OF g] assms(2) by (auto simp: ROLLOUT_COHORT_GATED_COMMANDS_def)
  moreover obtain sc ap where sc: "last_opt (declarationStream l (rtc_assignmentId c) (ro_scopeId d)) = Some sc"
      "sc_briefRevision sc = latestBriefRevision l (rtc_assignmentId c)"
    and ap: "rq_standingApproval (currentScopeReviewQualification E l a (ro_scopeId d) False) = Some ap"
      "rd_scopeRevision ap = sc_revision sc" "rd_candidateSnapshot ap = Some (ro_candidateSnapshot d)"
      "rd_candidateHead ap = ro_candidateHead d" "reviews = ap_discharged ap"
    using reviewGate_promote [OF r assms(2)] by metis
  moreover have "list_all (\<lambda>x. \<exists>r \<in> set (scopeReviews l). rv_reviewId r = discharge_reviewId x \<and> rv_assignmentId r = rtc_assignmentId c \<and>
      rv_scopeId r = ro_scopeId d \<and> independentOf l a sc (rv_reviewerAgentId r)) (ap_discharged ap)"
    using standing_independent [OF ap(1), of sc] sc(1) by (simp add: aid)
  ultimately show ?thesis
    using a d t s dischargeChecks_Some [OF ks]
    by (intro exI [of _ a] exI [of _ d] exI [of _ sc] exI [of _ ap] exI [of _ pinned] exI
        [of _ "rolloutMoveRow E l m c (rt_to current) to pins checks reviews digest"])
      (simp add: p pushMove_def rolloutState_def)
qed

lemma promote_requires_everything_witness:
  "\<exists>evs p d row. decideDeskRollout demo_env demo_canary (Rollout_transition demo_promote) = Inr (evs, p) \<and>
     last_opt (rolloutDeclarations demo_canary ''asg'' ''ro1'') = Some d \<and>
     rolloutTransitions (apply_tables demo_canary p) = rolloutTransitions demo_canary @ [row] \<and> rt_to row = RS_promoted \<and>
     list_all2 (\<lambda>q x. dc_checkId x = rq_checkId q \<and> list_ex (\<lambda>r. passedRun d q r \<and> dc_runId x = cr_runId r) (checkRuns demo_canary))
       (ro_requiredChecks d) (rt_dischargedChecks row)"
proof -
  obtain evs p where d: "decideDeskRollout demo_env demo_canary (Rollout_transition demo_promote) = Inr (evs, p)"
    using acceptsD [OF demo_promotes] by blast
  have "rtc_transition demo_promote = RC_promote" by (simp add: demo_promote_def)
  from promote_requires_everything [OF d this] d show ?thesis
    by (auto simp: demo_promote_def list_ex_iff)
qed

end
