(* ===== verification/Desk_Rollout_Cohort.thy ===== *)
theory Desk_Rollout_Cohort
  imports Desk_Rollout_Gates Desk_Json
begin

text \<open>
  The canary cohort: its digest is the digest of an exact text of roster, assignment revision and
  ownership revision, so a gate that compares digests compares rosters; and a fresh declaration
  revision does not move the machine, so it cannot pin another cohort.
\<close>

subsection \<open>The text a cohort digest covers\<close>

definition cohortText :: "string list \<Rightarrow> nat \<Rightarrow> nat \<Rightarrow> string" where
  "cohortText members ar orev = canonical_json (JObj ([(''members'', json_strs members), (''assignmentRevision'', json_nat ar)] @
     (if orev = 0 then [] else [(''ownershipRevision'', json_nat orev)])))"

lemma cohortText_value:
  "canonical_value (JObj ([(''members'', json_strs members), (''assignmentRevision'', json_nat ar)] @
     (if orev = 0 then [] else [(''ownershipRevision'', json_nat orev)]))) =
   JObj ([(''assignmentRevision'', json_nat ar), (''members'', json_strs members)] @
     (if orev = 0 then [] else [(''ownershipRevision'', json_nat orev)]))"
  by (simp add: own_property_order_def is_array_index_def o_def)

lemma canonical_json_cancel: "canonical_json v = canonical_json w \<Longrightarrow> canonical_value v = canonical_value w"
  using stringify_cancel [of "canonical_value v" "[CHR 0x0A]" "canonical_value w" "[CHR 0x0A]"]
  by (simp add: canonical_json_def closed_text_def is_digit_def)

lemma cohortText_inj:
  assumes "cohortText ms ar orev = cohortText ms' ar' orev'"
  shows "ms = ms' \<and> ar = ar' \<and> orev = orev'"
proof -
  from canonical_json_cancel [OF assms [unfolded cohortText_def]]
  have "JObj ([(''assignmentRevision'', json_nat ar), (''members'', json_strs ms)] @
      (if orev = 0 then [] else [(''ownershipRevision'', json_nat orev)])) =
    JObj ([(''assignmentRevision'', json_nat ar'), (''members'', json_strs ms')] @
      (if orev' = 0 then [] else [(''ownershipRevision'', json_nat orev')]))"
    unfolding cohortText_value .
  then show ?thesis by (auto simp: inj_map_eq_map inj_def split: if_splits)
qed

definition roster :: "ledger \<Rightarrow> assignment \<Rightarrow> string list" where
  "roster l a = sort (remdups (ot_agentId (effectiveOwner l a) # map seat_agentId (a_seats a)))"

definition ownerRevision :: "cohort \<Rightarrow> nat" where
  "ownerRevision k = (case co_ownershipRevision k of None \<Rightarrow> 0 | Some n \<Rightarrow> n)"

definition pinnedText :: "cohort \<Rightarrow> string" where
  "pinnedText k = cohortText (co_members k) (co_assignmentRevision k) (ownerRevision k)"

definition rosterText :: "ledger \<Rightarrow> assignment \<Rightarrow> string" where
  "rosterText l a = cohortText (roster l a) (assignmentStructuralRevision a) (ot_ownershipRevision (effectiveOwner l a))"

definition noCollision :: "desk_env \<Rightarrow> string \<Rightarrow> string \<Rightarrow> bool" where
  "noCollision E x y \<longleftrightarrow> (sha256 E x = sha256 E y \<longrightarrow> x = y)"

definition recomputes :: "desk_env \<Rightarrow> cohort \<Rightarrow> bool" where
  "recomputes E k \<longleftrightarrow> co_digest k = sha256 E (pinnedText k)"

lemma cohortSnapshot_sel:
  "co_members (cohortSnapshot E l a) = roster l a"
  "co_assignmentRevision (cohortSnapshot E l a) = assignmentStructuralRevision a"
  "ownerRevision (cohortSnapshot E l a) = ot_ownershipRevision (effectiveOwner l a)"
  "recomputes E (cohortSnapshot E l a)"
  by (simp_all add: cohortSnapshot_def Let_def roster_def ownerRevision_def recomputes_def pinnedText_def cohortText_def)

lemma cohortPin_sel:
  "co_members (cohortPin k) = co_members k" "co_digest (cohortPin k) = co_digest k"
  "co_assignmentRevision (cohortPin k) = co_assignmentRevision k" "ownerRevision (cohortPin k) = ownerRevision k"
  "recomputes E (cohortPin k) \<longleftrightarrow> recomputes E k"
  by (simp_all add: cohortPin_def ownerRevision_def recomputes_def pinnedText_def split: option.split)

subsection \<open>Pinned cohorts recompute\<close>

definition cohortRowOk :: "desk_env \<Rightarrow> rollout_transition \<Rightarrow> bool" where
  "cohortRowOk E t \<longleftrightarrow> (case rt_cohort t of
     None \<Rightarrow> rt_command t \<noteq> RRow_command RC_start_canary
   | Some k \<Rightarrow> rt_command t = RRow_command RC_start_canary \<and> recomputes E k \<and> length (co_members k) \<le> LIMIT_cohortMembers)"

definition cohortsOk :: "desk_env \<Rightarrow> ledger \<Rightarrow> bool" where
  "cohortsOk E l \<longleftrightarrow> list_all (cohortRowOk E) (rolloutTransitions l)"

lemma resolveRolloutPins_cohort:
  assumes "resolveRolloutPins E l a c = Inr pins"
  shows "pn_cohort pins = (if rtc_transition c = RC_start_canary then Some (cohortPin (cohortSnapshot E l a)) else None)"
    and "rtc_transition c = RC_start_canary \<Longrightarrow> length (roster l a) \<le> LIMIT_cohortMembers"
  using assms by (auto simp: resolveRolloutPins_def Let_def cohortSnapshot_sel split: if_splits option.splits)

text \<open>Every cohort on the ledger recomputes: whatever rollout command is accepted, exactly the start-canary
  moves carry a cohort, within the cohort cap, and its digest is that of its own members and revisions.\<close>

lemma cohorts_recompute:
  assumes "decideDeskRollout E l cmd = Inr (evs, p)" and k: "cohortsOk E l"
  shows "cohortsOk E (apply_tables l p)"
proof (cases cmd)
  case (Rollout_declare c)
  with assms(1) obtain m a cand where "apply_tables l p = afterRolloutDeclare E l m c (rolloutRow l m a c cand)"
    using rollout_declare_facts [of E l c evs p] by metis
  with k show ?thesis
    by (simp add: afterRolloutDeclare_def cohortsOk_def pushMove_def pushRollout_def cohortRowOk_def) (simp add: rolloutOpening_def)
next
  case (Rollout_transition c)
  with assms(1) obtain m a current to pins checks reviews digest where
      r: "resolveRolloutPins E l a c = Inr pins"
    and p: "apply_tables l p = pushMove l (rolloutMoveRow E l m c (rt_to (current :: rollout_transition)) to pins checks reviews digest)"
    using rollout_transition_facts [of E l c evs p] by metis
  have "cohortRowOk E (rolloutMoveRow E l m c (rt_to current) to pins checks reviews digest)"
    using resolveRolloutPins_cohort [OF r] by (simp add: cohortRowOk_def cohortPin_sel cohortSnapshot_sel)
  with k show ?thesis unfolding p by (simp add: cohortsOk_def pushMove_def)
qed

lemma demo_canary_cohorts: "cohortsOk demo_env demo_canary"
proof -
  have "recomputes demo_env demo_cohort" by (simp add: demo_cohort_def cohortPin_sel cohortSnapshot_sel)
  moreover have "length (co_members demo_cohort) \<le> LIMIT_cohortMembers" by code_simp
  ultimately show ?thesis
    by (simp add: cohortsOk_def demo_moves_def cohortRowOk_def)
qed

lemma cohorts_recompute_witness:
  "\<exists>evs p. decideDeskRollout demo_env demo_canary (Rollout_transition demo_promote) = Inr (evs, p) \<and>
     cohortsOk demo_env (apply_tables demo_canary p)"
  using acceptsD [OF demo_promotes] cohorts_recompute [OF _ demo_canary_cohorts] by blast

lemma pinned_foldl:
  "foldl (\<lambda>pinned row. if rt_command row = RRow_command RC_start_canary \<and> rt_cohort row \<noteq> None then rt_cohort row else pinned) z rows = Some k \<Longrightarrow>
   z = Some k \<or> (\<exists>r \<in> set rows. rt_command r = RRow_command RC_start_canary \<and> rt_cohort r = Some k)"
  by (induction rows arbitrary: z) (fastforce split: if_splits)+

lemma pinnedCohort_row:
  "pinnedCohort rows = Some k \<Longrightarrow> \<exists>r \<in> set rows. rt_command r = RRow_command RC_start_canary \<and> rt_cohort r = Some k"
  using pinned_foldl [of None rows k] by (simp add: pinnedCohort_def)

lemma pinnedCohort_exists:
  "r \<in> set rows \<Longrightarrow> rt_command r = RRow_command RC_start_canary \<Longrightarrow> rt_cohort r \<noteq> None \<Longrightarrow> pinnedCohort rows \<noteq> None"
proof (induction rows rule: rev_induct)
  case (snoc x xs)
  then show ?case by (auto simp: pinnedCohort_def)
qed simp

subsection \<open>The canary measures the roster it started with\<close>

text \<open>C20. The canary cohort is frozen: when canary-passed or promote is accepted, the rollout's one start-canary row pinned
  exactly the members, structural revision and ownership revision the assignment has now - digests agree only if rosters do,
  unless the hash collides on the two texts compared.\<close>

theorem canary_cohort_frozen:
  assumes "decideDeskRollout E l (Rollout_transition c) = Inr (evs, p)"
    and "rtc_transition c \<in> {RC_canary_passed, RC_promote}" and "cohortsOk E l"
    and "findAssignment l (rtc_assignmentId c) = Some a"
    and "list_all (\<lambda>row. case rt_cohort row of None \<Rightarrow> True | Some k \<Rightarrow> noCollision E (pinnedText k) (rosterText l a))
      (rolloutMoves l (rtc_assignmentId c) (rtc_rolloutId c))"
  shows "\<exists>k row. row \<in> set (rolloutMoves l (rtc_assignmentId c) (rtc_rolloutId c)) \<and>
    rt_command row = RRow_command RC_start_canary \<and> rt_cohort row = Some k \<and>
    co_members k = roster l a \<and> co_assignmentRevision k = assignmentStructuralRevision a \<and>
    ownerRevision k = ot_ownershipRevision (effectiveOwner l a)"
proof -
  let ?rows = "rolloutMoves l (rtc_assignmentId c) (rtc_rolloutId c)"
  from assms(1,4) obtain digest where g: "cohortGate E l a ?rows (rtc_transition c) = Inr digest"
    using rollout_transition_facts [of E l c evs p] by (metis option.inject)
  obtain k where k: "pinnedCohort ?rows = Some k" and d: "co_digest (cohortSnapshot E l a) = co_digest k"
    using cohortGate_gated [OF g] assms(2) by (auto simp: ROLLOUT_COHORT_GATED_COMMANDS_def)
  from pinnedCohort_row [OF k] obtain row where row: "row \<in> set ?rows"
    "rt_command row = RRow_command RC_start_canary" "rt_cohort row = Some k" by auto
  then have "recomputes E k" using assms(3) by (auto simp: cohortsOk_def list_all_iff rolloutMoves_def cohortRowOk_def)
  with d cohortSnapshot_sel [of E l a] have "sha256 E (pinnedText k) = sha256 E (rosterText l a)"
    by (simp add: recomputes_def pinnedText_def rosterText_def)
  moreover have "noCollision E (pinnedText k) (rosterText l a)" using assms(5) row by (auto simp: list_all_iff)
  ultimately have "pinnedText k = rosterText l a" by (simp add: noCollision_def)
  from cohortText_inj [OF this [unfolded pinnedText_def rosterText_def]] row show ?thesis by blast
qed

lemma canary_cohort_frozen_witness:
  "\<exists>k row. row \<in> set (rolloutMoves demo_canary ''asg'' ''ro1'') \<and> rt_cohort row = Some k \<and>
     co_members k = roster demo_canary demo_assignment"
proof -
  obtain evs p where d: "decideDeskRollout demo_env demo_canary (Rollout_transition demo_promote) = Inr (evs, p)"
    using acceptsD [OF demo_promotes] by blast
  have f: "findAssignment demo_canary (rtc_assignmentId demo_promote) = Some demo_assignment"
    by (simp add: demo_promote_def findAssignment_def demo_canary_def demo_approved_def)
  have n: "list_all (\<lambda>row. case rt_cohort row of None \<Rightarrow> True
      | Some k \<Rightarrow> noCollision demo_env (pinnedText k) (rosterText demo_canary demo_assignment))
      (rolloutMoves demo_canary (rtc_assignmentId demo_promote) (rtc_rolloutId demo_promote))"
    by (auto simp: list_all_iff noCollision_def demo_env_def split: option.split)
  from canary_cohort_frozen [OF d _ demo_canary_cohorts f n] show ?thesis by (auto simp: demo_promote_def)
qed

text \<open>C22. A fresh declaration revision is no way out of cohort drift: it leaves the moves of every rollout as they are,
  so the pinned cohort stays, and a rollout past start-canary never has a second one.\<close>

theorem fresh_revision_keeps_cohort:
  assumes "decideDeskRollout E l (Rollout_declare c) = Inr (evs, p)" and h: "rolloutHistoryOk l"
    and "rolloutState l (rdc_assignmentId c) (rdc_rolloutId c) \<in> {Some RS_canary_running, Some RS_canary_passed}"
  shows "rolloutMoves (apply_tables l p) aid rid = rolloutMoves l aid rid \<and>
    (\<forall>t u cs. edge_walk rolloutTransitionEdge RS_canary_running cs = Some t \<longrightarrow> rolloutTransitionEdge t RC_start_canary \<noteq> Some u)"
proof -
  from assms(1) obtain m a k where p: "apply_tables l p = afterRolloutDeclare E l m c (rolloutRow l m a c k)"
    using rollout_declare_facts [of E l c evs p] by metis
  have key: "rolloutKeyOk l (rdc_assignmentId c) (rdc_rolloutId c)" using h by (simp add: rolloutHistoryOk_def)
  from assms(3) have "rolloutMoves l (rdc_assignmentId c) (rdc_rolloutId c) \<noteq> []" by (auto simp: rolloutState_def)
  with key have "rolled.current l (rdc_assignmentId c, rdc_rolloutId c) \<noteq> 0"
    by (simp add: rolloutKeyOk_alt rolled.current_length)
  then have "rolloutMoves (apply_tables l p) aid rid = rolloutMoves l aid rid"
    by (simp add: p afterRolloutDeclare_def)
  moreover have "rolloutTransitionEdge t RC_start_canary \<noteq> Some u"
    if w: "edge_walk rolloutTransitionEdge RS_canary_running cs = Some t" for t u cs
  proof
    assume "rolloutTransitionEdge t RC_start_canary = Some u"
    then have "t = RS_canary_ready" by (auto simp: rollout_edge_iff ROLLOUT_TRANSITIONS_def)
    with rollout_machine.walk_rank [OF w] show False by simp
  qed
  ultimately show ?thesis by blast
qed

lemma fresh_revision_keeps_cohort_witness:
  "\<exists>evs p. decideDeskRollout demo_env demo_canary (Rollout_declare demo_redeclare) = Inr (evs, p) \<and>
     rolloutMoves (apply_tables demo_canary p) ''asg'' ''ro1'' = demo_moves"
proof -
  have "rolloutState demo_canary (rdc_assignmentId demo_redeclare) (rdc_rolloutId demo_redeclare) \<in>
      {Some RS_canary_running, Some RS_canary_passed}"
    by (simp add: rolloutState_def demo_canary_streams demo_redeclare_def demo_moves_def last_opt_def)
  with fresh_revision_keeps_cohort [OF _ demo_canary_history(1)] acceptsD [OF demo_redeclares]
  show ?thesis by (metis demo_canary_streams(3) demo_canary_tables(2))
qed

end
