(* ===== verification/Desk_Seat.thy ===== *)
theory Desk_Seat
  imports Desk_Examples Desk_Json
begin

text \<open>
  Seat memberships (plugin/server/desk-seat.ts): the pure decision behind mint, bind, register and
  revoke, with the sweep of expired rows that precedes each of them. The four seams that call it
  (git probe, time budget, warnings) are I/O and not modelled. A mint that carries a task ticket is
  checked against the task table, which is empty in this model, so it is always denied.
\<close>

subsection \<open>Dates\<close>

text \<open>
  \<open>Date.parse\<close> on the texts the \<open>Time\<close> schema admits: date, hours and minutes, optional seconds with
  an optional fraction, and \<open>Z\<close> or an offset. Fractions are cut to milliseconds.
\<close>

definition dec_at :: "nat \<Rightarrow> nat \<Rightarrow> string \<Rightarrow> int" where
  "dec_at i n s = int (dec_value (take n (drop i s)))"

definition daysFromCivil :: "int \<Rightarrow> int \<Rightarrow> int \<Rightarrow> int" where
  \<comment> \<open>days since 1970-01-01 in the proleptic Gregorian calendar\<close>
  "daysFromCivil year month day =
     (let y = (if month \<le> 2 then year - 1 else year);
          era = y div 400; yoe = y - era * 400;
          doy = (153 * (if 2 < month then month - 3 else month + 9) + 2) div 5 + day - 1;
          doe = yoe * 365 + yoe div 4 - yoe div 100 + doy
      in era * 146097 + doe - 719468)"

definition secondsPart :: "string \<Rightarrow> int \<times> string" where
  "secondsPart r = (if r \<noteq> [] \<and> hd r = CHR '':'' then (dec_at 1 2 r, drop 3 r) else (0, r))"

definition fractionPart :: "string \<Rightarrow> int \<times> string" where
  "fractionPart r = (if r \<noteq> [] \<and> hd r = CHR ''.''
     then (int (dec_value (take 3 (takeWhile is_digit (tl r) @ ''00''))), dropWhile is_digit (tl r)) else (0, r))"

definition offsetMinutes :: "string \<Rightarrow> int" where
  "offsetMinutes r = (if r \<noteq> [] \<and> hd r = CHR ''+'' then 60 * dec_at 1 2 r + dec_at 4 2 r
     else if r \<noteq> [] \<and> hd r = CHR ''-'' then - (60 * dec_at 1 2 r + dec_at 4 2 r) else 0)"

definition dateParse :: "string \<Rightarrow> int" where
  "dateParse s =
     (let (sec, r) = secondsPart (drop 16 s); (ms, r') = fractionPart r;
          minutes = (daysFromCivil (dec_at 0 4 s) (dec_at 5 2 s) (dec_at 8 2 s) * 24 + dec_at 11 2 s) * 60 + dec_at 14 2 s
      in ((minutes - offsetMinutes r') * 60 + sec) * 1000 + ms)"

subsection \<open>Commands\<close>

definition FAMILY_IDS :: "string list" where
  "FAMILY_IDS = [''codex'', ''pi'', ''devin'', ''claude'', ''opencode'', ''antigravity'']"

record seat_mint_command =
  sm_at :: string
  sm_membershipId :: string
  sm_bindingHandleSha256 :: string
  sm_provider :: string
  sm_family :: string
  sm_role :: desk_role
  sm_createCwd :: string
  sm_taskCreateTicketSha256 :: "string option"

record seat_bind_command =
  sb_at :: string
  sb_bindingHandleSha256 :: string
  sb_agentId :: string
  sb_workspaceId :: "string option"
  sb_provider :: string
  sb_cwd :: string

record seat_register_command =
  sg_at :: string
  sg_agentId :: string
  sg_workspaceId :: "string option"
  sg_provider :: string
  sg_cwd :: string

record seat_revoke_command =
  sk_at :: string
  sk_agentId :: string

datatype seat_command =
    Seat_mint seat_mint_command
  | Seat_bind seat_bind_command
  | Seat_register seat_register_command
  | Seat_revoke seat_revoke_command

fun seat_at :: "seat_command \<Rightarrow> string" where
  "seat_at (Seat_mint c) = sm_at c"
| "seat_at (Seat_bind c) = sb_at c"
| "seat_at (Seat_register c) = sg_at c"
| "seat_at (Seat_revoke c) = sk_at c"

fun seat_command_ok :: "desk_env \<Rightarrow> seat_command \<Rightarrow> bool" where
  "seat_command_ok E (Seat_mint c) \<longleftrightarrow>
     time_ok E (sm_at c) \<and> uuid_ok E (sm_membershipId c) \<and> is_sha (sm_bindingHandleSha256 c) \<and>
     between_len 1 LIMIT_idLen (sm_provider c) \<and> sm_family c \<in> set FAMILY_IDS \<and>
     between_len 1 LIMIT_pathLen (sm_createCwd c) \<and> opt_ok is_sha (sm_taskCreateTicketSha256 c)"
| "seat_command_ok E (Seat_bind c) \<longleftrightarrow>
     time_ok E (sb_at c) \<and> is_sha (sb_bindingHandleSha256 c) \<and> between_len 1 agentIdLen (sb_agentId c) \<and>
     opt_ok (between_len 1 LIMIT_idLen) (sb_workspaceId c) \<and> between_len 1 LIMIT_idLen (sb_provider c) \<and>
     between_len 1 LIMIT_pathLen (sb_cwd c)"
| "seat_command_ok E (Seat_register c) \<longleftrightarrow>
     time_ok E (sg_at c) \<and> between_len 1 agentIdLen (sg_agentId c) \<and>
     opt_ok (between_len 1 LIMIT_idLen) (sg_workspaceId c) \<and> between_len 1 LIMIT_idLen (sg_provider c) \<and>
     between_len 1 LIMIT_pathLen (sg_cwd c)"
| "seat_command_ok E (Seat_revoke c) \<longleftrightarrow> time_ok E (sk_at c) \<and> between_len 1 agentIdLen (sk_agentId c)"

subsection \<open>Field policy\<close>

datatype field_cell = COMPARE_EXACT | RECORD_CELL | JOIN | GATE | ROUTE | IGNORED

definition DESK_FIELD_POLICY_bind :: "(string \<times> field_cell) list" where
  "DESK_FIELD_POLICY_bind =
     [(''title'', IGNORED), (''labels'', IGNORED), (''tools'', IGNORED), (''mcpServers'', IGNORED),
      (''agentId'', RECORD_CELL), (''workspaceId'', RECORD_CELL), (''provider'', COMPARE_EXACT),
      (''cwd'', COMPARE_EXACT), (''reason'', GATE), (''purpose'', GATE), (''env'', JOIN)]"

definition DESK_FIELD_POLICY_register :: "(string \<times> field_cell) list" where
  "DESK_FIELD_POLICY_register =
     [(''id'', JOIN), (''workspaceId'', COMPARE_EXACT), (''parentAgentId'', IGNORED),
      (''provider'', COMPARE_EXACT), (''cwd'', COMPARE_EXACT), (''title'', IGNORED)]"

definition observedField :: "string \<Rightarrow> string option \<Rightarrow> string \<Rightarrow> string \<Rightarrow> string option" where
  \<comment> \<open>\<open>cmd[field]\<close> for the fields the policies compare; \<open>None\<close> is \<open>null\<close>\<close>
  "observedField provider workspace cwd f = (if f = ''provider'' then Some provider
     else if f = ''workspaceId'' then workspace else if f = ''cwd'' then Some cwd else None)"

definition storedField :: "membership \<Rightarrow> string \<Rightarrow> string option" where
  "storedField m f = (if f = ''provider'' then Some (m_provider m)
     else if f = ''workspaceId'' then m_workspaceId m else if f = ''cwd'' then Some (m_createCwd m) else None)"

definition fieldMismatch :: "(string \<times> field_cell) list \<Rightarrow> (string \<Rightarrow> string option) \<Rightarrow> membership \<Rightarrow> bool" where
  "fieldMismatch policy observed m \<longleftrightarrow> list_ex (\<lambda>(f, cell). cell = COMPARE_EXACT \<and> observed f \<noteq> storedField m f) policy"

subsection \<open>The vocabulary guard\<close>

fun bindingState :: "membership_state \<Rightarrow> seat_binding_state" where
  "bindingState MS_unbound_open = SB_unbound_open"
| "bindingState MS_host_confirmed = SB_host_confirmed"
| "bindingState MS_revoked = SB_revoked"

definition P2C_TARGET_STATES :: "seat_binding_state list" where
  "P2C_TARGET_STATES = [SB_unbound_open, SB_host_confirmed, SB_revoked]"

definition guardTransition :: "membership_state \<Rightarrow> membership_state \<Rightarrow> bool" where
  \<comment> \<open>\<open>False\<close>: the guard throws\<close>
  "guardTransition from to \<longleftrightarrow>
     bindingState to \<in> set P2C_TARGET_STATES \<and> canTransitionSeatBinding (bindingState from) (bindingState to)"

subsection \<open>The sweep\<close>

definition expired :: "int \<Rightarrow> membership \<Rightarrow> bool" where
  "expired atMs m \<longleftrightarrow> (case m_state m of
       MS_unbound_open \<Rightarrow> dateParse (m_createdAt m) + int LIMIT_unboundTtlMs < atMs
     | MS_host_confirmed \<Rightarrow> m_registeredAt m = None \<and>
         (case m_hostConfirmedAt m of None \<Rightarrow> False
          | Some t \<Rightarrow> dateParse t + int LIMIT_registrationWindowMs < atMs)
     | MS_revoked \<Rightarrow> False)"

definition sweepOrder :: "desk_env \<Rightarrow> membership \<Rightarrow> membership \<Rightarrow> int" where
  "sweepOrder E a b = (let d = locale_compare E (m_createdAt a) (m_createdAt b) in
     if d \<noteq> 0 then d else locale_compare E (m_membershipId a) (m_membershipId b))"

definition sweepDue :: "desk_env \<Rightarrow> membership list \<Rightarrow> string \<Rightarrow> membership list" where
  "sweepDue E ms at = take LIMIT_ttlSweepPerCommit (sort_by (sweepOrder E) (filter (expired (dateParse at)) ms))"

definition sweepReason :: "membership \<Rightarrow> revoke_reason" where
  "sweepReason m = (if m_state m = MS_unbound_open then RR_expired_unbound else RR_registration_timeout)"

fun revoke_reason_name :: "revoke_reason \<Rightarrow> string" where
  "revoke_reason_name RR_archived = ''archived''"
| "revoke_reason_name RR_expired_unbound = ''expired-unbound''"
| "revoke_reason_name RR_registration_mismatch = ''registration-mismatch''"
| "revoke_reason_name RR_registration_timeout = ''registration-timeout''"

definition revokedEvent :: "string \<Rightarrow> revoke_reason \<Rightarrow> desk_event" where
  "revokedEvent mid reason = \<lparr>ev_kind = ''seat-revoked'', ev_payload = JObj
     [(''membershipId'', JStr mid), (''reason'', JStr (revoke_reason_name reason))]\<rparr>"

definition revokedRow :: "string \<Rightarrow> revoke_reason \<Rightarrow> membership \<Rightarrow> membership" where
  "revokedRow at reason m = m\<lparr>m_state := MS_revoked, m_revokedAt := Some at, m_revokeReason := Some reason\<rparr>"

record seat_sweep =
  sw_table :: "membership list"
  sw_changed :: bool
  sw_events :: "desk_event list"

definition lastReason :: "membership list \<Rightarrow> string \<Rightarrow> revoke_reason option" where
  \<comment> \<open>\<open>new Map(due.map(..)).get(id)\<close>: a later entry of the same id wins\<close>
  "lastReason due mid = map_option sweepReason (last_opt (filter (\<lambda>m. m_membershipId m = mid) due))"

definition sweepExpired :: "desk_env \<Rightarrow> membership list \<Rightarrow> string \<Rightarrow> seat_sweep" where
  "sweepExpired E ms at =
     (let due = sweepDue E ms at in
      if due = [] then \<lparr>sw_table = ms, sw_changed = False, sw_events = []\<rparr>
      else \<lparr>sw_table = map (\<lambda>m. case lastReason due (m_membershipId m) of None \<Rightarrow> m | Some r \<Rightarrow> revokedRow at r m) ms,
            sw_changed = True,
            sw_events = map (\<lambda>m. revokedEvent (m_membershipId m)
              (case lastReason due (m_membershipId m) of None \<Rightarrow> sweepReason m | Some r \<Rightarrow> r)) due\<rparr>)"

subsection \<open>The decision\<close>

fun findIndex :: "('a \<Rightarrow> bool) \<Rightarrow> 'a list \<Rightarrow> nat option" where
  "findIndex P [] = None"
| "findIndex P (x # xs) = (if P x then Some 0 else map_option Suc (findIndex P xs))"

definition seatOutcome :: "desk_event list \<Rightarrow> membership list \<Rightarrow> decide_outcome" where
  "seatOutcome evs table = Inr (evs, no_tables\<lparr>p_memberships := Some table\<rparr>)"

definition seatOk :: "seat_sweep \<Rightarrow> decide_outcome" where
  \<comment> \<open>\<open>seatOk(swept)\<close> without an event: the table is present only if the sweep changed a row\<close>
  "seatOk sw = (if sw_changed sw then seatOutcome (sw_events sw) (sw_table sw) else Inr (sw_events sw, no_tables))"

definition mintedRow :: "seat_mint_command \<Rightarrow> membership" where
  "mintedRow c = \<lparr>m_membershipId = sm_membershipId c, m_state = MS_unbound_open,
     m_bindingHandleSha256 = sm_bindingHandleSha256 c, m_provider = sm_provider c, m_family = sm_family c,
     m_role = sm_role c, m_createCwd = sm_createCwd c, m_agentId = None, m_workspaceId = None,
     m_createdAt = sm_at c, m_hostConfirmedAt = None, m_registeredAt = None, m_revokedAt = None,
     m_revokeReason = None, m_capacityClaim = None\<rparr>"

definition seatMint :: "bool \<Rightarrow> seat_sweep \<Rightarrow> seat_mint_command \<Rightarrow> decide_outcome" where
  \<comment> \<open>\<open>ticketed\<close>: the caller passes a task mint context\<close>
  "seatMint ticketed sw c =
     (if sm_taskCreateTicketSha256 c \<noteq> None \<or> ticketed then Inl ACTOR_MISMATCH
      else if LIMIT_memberships \<le> length (sw_table sw) then Inl INVALID_RECORD
      else if list_ex (\<lambda>m. m_bindingHandleSha256 m = sm_bindingHandleSha256 c) (sw_table sw) then Inl INVALID_RECORD
      else seatOutcome (sw_events sw @ [\<lparr>ev_kind = ''seat-minted'', ev_payload = JObj [(''membershipId'', JStr (sm_membershipId c))]\<rparr>])
        (sw_table sw @ [mintedRow c]))"

definition boundRow :: "seat_bind_command \<Rightarrow> membership \<Rightarrow> membership" where
  "boundRow c m = m\<lparr>m_state := MS_host_confirmed, m_agentId := Some (sb_agentId c), m_workspaceId := sb_workspaceId c,
     m_hostConfirmedAt := Some (sb_at c)\<rparr>"

definition agentEvent :: "string \<Rightarrow> string \<Rightarrow> string \<Rightarrow> desk_event" where
  "agentEvent kind mid agent = \<lparr>ev_kind = kind, ev_payload = JObj
     [(''membershipId'', JStr mid), (''agentId'', JStr agent)]\<rparr>"

definition seatBind :: "seat_sweep \<Rightarrow> seat_bind_command \<Rightarrow> decide_outcome option" where
  "seatBind sw c = (case findIndex (\<lambda>m. m_bindingHandleSha256 m = sb_bindingHandleSha256 c) (sw_table sw) of
       None \<Rightarrow> Some (Inl ACTOR_MISMATCH)
     | Some i \<Rightarrow>
         let m = sw_table sw ! i in
         if m_state m = MS_revoked then Some (Inl STALE_EPOCH)
         else if fieldMismatch DESK_FIELD_POLICY_bind (observedField (sb_provider c) (sb_workspaceId c) (sb_cwd c)) m
           then Some (Inl ACTOR_MISMATCH)
         else if m_state m = MS_host_confirmed then
           (if m_agentId m = Some (sb_agentId c) then Some (seatOk sw) else Some (Inl ACTOR_MISMATCH))
         else if \<not> guardTransition (m_state m) MS_host_confirmed then None
         else if list_ex (\<lambda>o'. m_agentId o' = Some (sb_agentId c) \<and> m_state o' \<noteq> MS_revoked \<and>
             m_membershipId o' \<noteq> m_membershipId m) (sw_table sw) then Some (Inl ACTOR_MISMATCH)
         else Some (seatOutcome (sw_events sw @ [agentEvent ''seat-host-confirmed'' (m_membershipId m) (sb_agentId c)])
           ((sw_table sw)[i := boundRow c m])))"

definition liveIndex :: "seat_sweep \<Rightarrow> string \<Rightarrow> nat option" where
  "liveIndex sw agent = findIndex (\<lambda>m. m_agentId m = Some agent \<and> m_state m \<noteq> MS_revoked) (sw_table sw)"

definition seatRevokeAt :: "seat_sweep \<Rightarrow> nat \<Rightarrow> string \<Rightarrow> revoke_reason \<Rightarrow> decide_outcome option" where
  "seatRevokeAt sw i at reason =
     (let m = sw_table sw ! i in
      if \<not> guardTransition (m_state m) MS_revoked then None
      else Some (seatOutcome (sw_events sw @ [revokedEvent (m_membershipId m) reason])
        ((sw_table sw)[i := revokedRow at reason m])))"

definition seatRegister :: "seat_sweep \<Rightarrow> seat_register_command \<Rightarrow> decide_outcome option" where
  "seatRegister sw c = (case liveIndex sw (sg_agentId c) of
       None \<Rightarrow> Some (seatOk sw)
     | Some i \<Rightarrow>
         let m = sw_table sw ! i in
         if m_registeredAt m \<noteq> None then Some (seatOk sw)
         else if fieldMismatch DESK_FIELD_POLICY_register (observedField (sg_provider c) (sg_workspaceId c) (sg_cwd c)) m
           then seatRevokeAt sw i (sg_at c) RR_registration_mismatch
         else Some (seatOutcome (sw_events sw @ [agentEvent ''seat-registered'' (m_membershipId m) (sg_agentId c)])
           ((sw_table sw)[i := m\<lparr>m_registeredAt := Some (sg_at c)\<rparr>])))"

definition seatRevoke :: "seat_sweep \<Rightarrow> seat_revoke_command \<Rightarrow> decide_outcome option" where
  "seatRevoke sw c = (case liveIndex sw (sk_agentId c) of
       None \<Rightarrow> Some (seatOk sw)
     | Some i \<Rightarrow> seatRevokeAt sw i (sk_at c) RR_archived)"

definition decideSeatCommand :: "desk_env \<Rightarrow> bool \<Rightarrow> ledger \<Rightarrow> seat_command \<Rightarrow> decide_outcome option" where
  \<comment> \<open>\<open>None\<close>: the decision throws\<close>
  "decideSeatCommand E ticketed l cmd =
     (if \<not> seat_command_ok E cmd then Some (Inl INVALID_RECORD)
      else let sw = sweepExpired E (memberships l) (seat_at cmd) in
        (case cmd of
           Seat_mint c \<Rightarrow> Some (seatMint ticketed sw c)
         | Seat_bind c \<Rightarrow> seatBind sw c
         | Seat_register c \<Rightarrow> seatRegister sw c
         | Seat_revoke c \<Rightarrow> seatRevoke sw c))"

end
