(* ===== verification/Desk_Seat_Safety.thy ===== *)
theory Desk_Seat_Safety
  imports Desk_Seat "HOL-Library.Code_Target_Nat"
begin

text \<open>
  What the seat handshake guarantees: the decision never throws, at most one live membership per
  agent and one row per handle, and a membership only moves forward: its identity is fixed at mint,
  an agent is bound once and a revoked row is never touched again.
\<close>

subsection \<open>One row\<close>

definition liveRow :: "membership \<Rightarrow> bool" where
  "liveRow m \<longleftrightarrow> m_state m \<noteq> MS_revoked"

definition sameSeat :: "membership \<Rightarrow> membership \<Rightarrow> bool" where
  "sameSeat m n \<longleftrightarrow> m_membershipId n = m_membershipId m \<and> m_bindingHandleSha256 n = m_bindingHandleSha256 m \<and>
     m_provider n = m_provider m \<and> m_family n = m_family m \<and> m_role n = m_role m \<and> m_createCwd n = m_createCwd m \<and>
     m_createdAt n = m_createdAt m \<and> m_capacityClaim n = m_capacityClaim m"

definition rowEvolves :: "membership \<Rightarrow> membership \<Rightarrow> bool" where
  \<comment> \<open>the row is unchanged, revoked, bound to its agent, or registered\<close>
  "rowEvolves m n \<longleftrightarrow> n = m \<or> sameSeat m n \<and> liveRow m \<and>
     (m_state n = MS_revoked \<and> m_agentId n = m_agentId m \<and> m_registeredAt n = m_registeredAt m \<and> m_revokedAt n \<noteq> None
      \<or> m_state m = MS_unbound_open \<and> m_state n = MS_host_confirmed \<and> m_agentId n \<noteq> None \<and> m_hostConfirmedAt n \<noteq> None \<and>
        m_registeredAt n = m_registeredAt m
      \<or> m_state n = m_state m \<and> m_agentId n = m_agentId m \<and> m_agentId m \<noteq> None \<and> m_registeredAt m = None \<and> m_registeredAt n \<noteq> None \<and>
        m_hostConfirmedAt n = m_hostConfirmedAt m)"

definition rowCoherent :: "membership \<Rightarrow> bool" where
  "rowCoherent m \<longleftrightarrow> (case m_state m of
       MS_unbound_open \<Rightarrow> m_agentId m = None \<and> m_registeredAt m = None
     | MS_host_confirmed \<Rightarrow> m_agentId m \<noteq> None \<and> m_hostConfirmedAt m \<noteq> None
     | MS_revoked \<Rightarrow> m_revokedAt m \<noteq> None)"

lemma evolves_seat: "rowEvolves m n \<Longrightarrow> sameSeat m n"
  by (auto simp: rowEvolves_def sameSeat_def)

lemma evolves_live: "rowEvolves m n \<Longrightarrow> liveRow n \<Longrightarrow> liveRow m"
  by (auto simp: rowEvolves_def liveRow_def)

lemma evolves_agent: "rowEvolves m n \<Longrightarrow> rowCoherent m \<Longrightarrow> m_agentId m \<noteq> None \<Longrightarrow> m_agentId n = m_agentId m"
  by (auto simp: rowEvolves_def rowCoherent_def)

lemma evolves_coherent: "rowEvolves m n \<Longrightarrow> rowCoherent m \<Longrightarrow> rowCoherent n"
  by (cases "m_state m"; cases "m_state n") (auto simp: rowEvolves_def rowCoherent_def liveRow_def)

lemma revoked_evolves: "liveRow m \<Longrightarrow> rowEvolves m (revokedRow at r m)"
  by (simp add: rowEvolves_def revokedRow_def sameSeat_def)

lemma bound_evolves: "m_state m = MS_unbound_open \<Longrightarrow> rowEvolves m (boundRow c m)"
  by (simp add: rowEvolves_def boundRow_def sameSeat_def liveRow_def)

lemma registered_evolves: "liveRow m \<Longrightarrow> m_agentId m \<noteq> None \<Longrightarrow> m_registeredAt m = None \<Longrightarrow> rowEvolves m (m\<lparr>m_registeredAt := Some t\<rparr>)"
  by (simp add: rowEvolves_def sameSeat_def)

subsection \<open>The table\<close>

definition evolves :: "membership list \<Rightarrow> membership list \<Rightarrow> bool" where
  "evolves ms ns \<longleftrightarrow> list_all2 rowEvolves ms ns"

definition oneLivePerAgent :: "membership list \<Rightarrow> bool" where
  "oneLivePerAgent ms \<longleftrightarrow> (\<forall>x \<in> set ms. \<forall>y \<in> set ms. liveRow x \<and> liveRow y \<and> m_agentId x \<noteq> None \<and>
     m_agentId x = m_agentId y \<longrightarrow> m_membershipId x = m_membershipId y)"

definition seatsOk :: "membership list \<Rightarrow> bool" where
  "seatsOk ms \<longleftrightarrow> distinct (map m_membershipId ms) \<and> distinct (map m_bindingHandleSha256 ms) \<and>
     oneLivePerAgent ms \<and> list_all rowCoherent ms"

lemma evolves_refl [simp]: "evolves ms ms"
  by (simp add: evolves_def list_all2_refl rowEvolves_def)

lemma evolves_update: "evolves ms ns \<Longrightarrow> i < length ns \<Longrightarrow> rowEvolves (ms ! i) v \<Longrightarrow> evolves ms (ns[i := v])"
  unfolding evolves_def by (auto simp: list_all2_conv_all_nth nth_list_update)

lemma evolves_map:
  assumes "evolves ms ns" shows "map m_membershipId ns = map m_membershipId ms" "map m_bindingHandleSha256 ns = map m_bindingHandleSha256 ms"
  using assms unfolding evolves_def
  by (auto simp: list_all2_conv_all_nth sameSeat_def dest!: evolves_seat intro!: nth_equalityI)

lemma evolves_origin: "evolves ms ns \<Longrightarrow> n \<in> set ns \<Longrightarrow> \<exists>m \<in> set ms. rowEvolves m n"
  unfolding evolves_def by (metis in_set_conv_nth list_all2_conv_all_nth)

lemma findIndex_Some: "findIndex P xs = Some i \<Longrightarrow> i < length xs \<and> P (xs ! i)"
  by (induction xs arbitrary: i) (auto split: if_splits)

subsection \<open>The sweep\<close>

lemma sweepDue_expired: "m \<in> set (sweepDue E ms at) \<Longrightarrow> m \<in> set ms \<and> expired (dateParse at) m"
  unfolding sweepDue_def by (drule in_set_takeD) simp

lemma expired_live: "expired t m \<Longrightarrow> liveRow m"
  by (auto simp: expired_def liveRow_def)

lemma same_id_same_row: "distinct (map f xs) \<Longrightarrow> x \<in> set xs \<Longrightarrow> y \<in> set xs \<Longrightarrow> f x = f y \<Longrightarrow> x = y"
  by (auto simp: distinct_map inj_on_def)

lemma lastReason_row:
  assumes "lastReason (sweepDue E ms at) (m_membershipId m) = Some r" and "m \<in> set ms" and "distinct (map m_membershipId ms)"
  shows "m \<in> set (sweepDue E ms at) \<and> expired (dateParse at) m \<and> r = sweepReason m"
proof -
  from assms(1) obtain n where n: "n \<in> set (sweepDue E ms at)" "m_membershipId n = m_membershipId m" "r = sweepReason n"
    unfolding lastReason_def map_option_case by (force split: option.splits dest: last_opt_SomeD)
  with sweepDue_expired [OF n(1)] same_id_same_row [OF assms(3) _ assms(2)] have "n = m" by blast
  with n sweepDue_expired [OF n(1)] show ?thesis by simp
qed

lemma sweep_evolves:
  assumes "distinct (map m_membershipId ms)"
  shows "evolves ms (sw_table (sweepExpired E ms at))"
proof -
  have "rowEvolves m (case lastReason (sweepDue E ms at) (m_membershipId m) of None \<Rightarrow> m | Some r \<Rightarrow> revokedRow at r m)"
    if "m \<in> set ms" for m
    using lastReason_row [OF _ that assms, of E at] revoked_evolves expired_live
    by (auto simp: rowEvolves_def [of m m] split: option.split)
  then show ?thesis
    by (auto simp: sweepExpired_def Let_def evolves_def list_all2_conv_all_nth rowEvolves_def [of x x for x])
qed

lemma oneLive_from:
  assumes "oneLivePerAgent ms" and "\<And>n. n \<in> set ns \<Longrightarrow> liveRow n \<Longrightarrow> m_agentId n \<noteq> None \<Longrightarrow>
      \<exists>m \<in> set ms. liveRow m \<and> m_agentId m = m_agentId n \<and> m_membershipId m = m_membershipId n"
  shows "oneLivePerAgent ns"
  unfolding oneLivePerAgent_def
proof (intro ballI impI)
  fix x y assume x: "x \<in> set ns" and y: "y \<in> set ns"
    and h: "liveRow x \<and> liveRow y \<and> m_agentId x \<noteq> None \<and> m_agentId x = m_agentId y"
  from assms(2) [OF x] h obtain a where a: "a \<in> set ms" "liveRow a" "m_agentId a = m_agentId x" "m_membershipId a = m_membershipId x" by blast
  from assms(2) [OF y] h obtain b where b: "b \<in> set ms" "liveRow b" "m_agentId b = m_agentId y" "m_membershipId b = m_membershipId y" by metis
  from assms(1) a b h show "m_membershipId x = m_membershipId y" unfolding oneLivePerAgent_def by metis
qed

lemma coherent_evolves:
  assumes "evolves ms ns" and "list_all rowCoherent ms"
  shows "list_all rowCoherent ns"
  unfolding list_all_iff
proof
  fix n assume "n \<in> set ns"
  from evolves_origin [OF assms(1) this] obtain m where "m \<in> set ms" "rowEvolves m n" by blast
  with assms(2) show "rowCoherent n" using evolves_coherent by (auto simp: list_all_iff)
qed

lemma seatsOk_evolves:
  assumes "seatsOk ms" and "evolves ms ns" and "oneLivePerAgent ns"
  shows "seatsOk ns"
  using assms evolves_map [OF assms(2)] coherent_evolves [OF assms(2)] by (simp add: seatsOk_def)

lemma sweep_live: "n \<in> set (sw_table (sweepExpired E ms at)) \<Longrightarrow> liveRow n \<Longrightarrow> n \<in> set ms"
  by (auto simp: sweepExpired_def Let_def revokedRow_def liveRow_def split: if_splits option.splits)

lemma sweep_ok:
  assumes "seatsOk ms"
  shows "seatsOk (sw_table (sweepExpired E ms at))"
proof (rule seatsOk_evolves [OF assms])
  show "evolves ms (sw_table (sweepExpired E ms at))" using assms by (intro sweep_evolves) (simp add: seatsOk_def)
  have "oneLivePerAgent ms" using assms by (simp add: seatsOk_def)
  then show "oneLivePerAgent (sw_table (sweepExpired E ms at))"
    by (rule oneLive_from) (use sweep_live in blast)
qed

subsection \<open>The commands\<close>

lemma guard_revoke: "m_state m \<noteq> MS_revoked \<Longrightarrow> guardTransition (m_state m) MS_revoked"
  by (cases "m_state m") (simp_all add: guardTransition_def P2C_TARGET_STATES_def canTransitionSeatBinding_def)

lemma guard_bind: "guardTransition MS_unbound_open MS_host_confirmed"
  by (simp add: guardTransition_def P2C_TARGET_STATES_def canTransitionSeatBinding_def)

lemma not_bound: "m_state m \<noteq> MS_revoked \<Longrightarrow> m_state m \<noteq> MS_host_confirmed \<Longrightarrow> m_state m = MS_unbound_open"
  by (cases "m_state m") simp_all

lemma liveIndex_Some: "liveIndex sw agent = Some i \<Longrightarrow>
    i < length (sw_table sw) \<and> m_agentId (sw_table sw ! i) = Some agent \<and> liveRow (sw_table sw ! i)"
  by (auto simp: liveIndex_def liveRow_def dest!: findIndex_Some)

lemma seatRevokeAt_live: "liveIndex sw agent = Some i \<Longrightarrow> seatRevokeAt sw i at r =
    Some (seatOutcome (sw_events sw @ [revokedEvent (m_membershipId (sw_table sw ! i)) r])
      ((sw_table sw)[i := revokedRow at r (sw_table sw ! i)]))"
proof -
  assume "liveIndex sw agent = Some i"
  then have "m_state (sw_table sw ! i) \<noteq> MS_revoked" using liveIndex_Some by (simp add: liveRow_def)
  from guard_revoke [OF this] show ?thesis by (simp add: seatRevokeAt_def Let_def)
qed

lemma bind_guard:
  "m_state m \<noteq> MS_revoked \<Longrightarrow> m_state m \<noteq> MS_host_confirmed \<Longrightarrow> guardTransition (m_state m) MS_host_confirmed"
  by (metis not_bound guard_bind)

lemma seatBind_total: "seatBind sw c \<noteq> None"
proof (cases "findIndex (\<lambda>m. m_bindingHandleSha256 m = sb_bindingHandleSha256 c) (sw_table sw)")
  case (Some i)
  define m where "m = sw_table sw ! i"
  show ?thesis unfolding seatBind_def Some Let_def option.case m_def [symmetric] using bind_guard [of m]
    by (cases "m_state m") simp_all
qed (simp add: seatBind_def)

lemma seatRegister_total: "seatRegister sw c \<noteq> None"
  unfolding seatRegister_def Let_def by (cases "liveIndex sw (sg_agentId c)") (simp_all add: seatRevokeAt_live)

lemma seatRevoke_total: "seatRevoke sw c \<noteq> None"
  unfolding seatRevoke_def by (cases "liveIndex sw (sk_agentId c)") (simp_all add: seatRevokeAt_live)

text \<open>C28. The seat decision is total: the vocabulary guard that would throw is never reached with a transition it refuses,
  whatever the ledger holds and whatever command is sent.\<close>

theorem seat_decision_never_throws: "decideSeatCommand E ticketed l cmd \<noteq> None"
proof (cases cmd)
  case (Seat_bind c)
  then show ?thesis using seatBind_total by (simp add: decideSeatCommand_def Let_def)
next
  case (Seat_register c)
  then show ?thesis using seatRegister_total by (simp add: decideSeatCommand_def Let_def)
next
  case (Seat_revoke c)
  then show ?thesis using seatRevoke_total by (simp add: decideSeatCommand_def Let_def)
qed (simp add: decideSeatCommand_def Let_def)

text \<open>What an accepted command does to the swept table: nothing, one row appended, or one row replaced.\<close>

inductive seatEffect :: "seat_command \<Rightarrow> membership list \<Rightarrow> membership list \<Rightarrow> bool" where
  idle: "seatEffect cmd ms ms"
| minted: "\<not> list_ex (\<lambda>m. m_bindingHandleSha256 m = sm_bindingHandleSha256 c) ms \<Longrightarrow>
    seatEffect (Seat_mint c) ms (ms @ [mintedRow c])"
| bound: "i < length ms \<Longrightarrow> m_state (ms ! i) = MS_unbound_open \<Longrightarrow> m_bindingHandleSha256 (ms ! i) = sb_bindingHandleSha256 c \<Longrightarrow>
    m_provider (ms ! i) = sb_provider c \<Longrightarrow> m_createCwd (ms ! i) = sb_cwd c \<Longrightarrow>
    \<not> list_ex (\<lambda>o'. m_agentId o' = Some (sb_agentId c) \<and> m_state o' \<noteq> MS_revoked \<and> m_membershipId o' \<noteq> m_membershipId (ms ! i)) ms \<Longrightarrow>
    seatEffect (Seat_bind c) ms (ms[i := boundRow c (ms ! i)])"
| registered: "i < length ms \<Longrightarrow> liveRow (ms ! i) \<Longrightarrow> m_agentId (ms ! i) = Some (sg_agentId c) \<Longrightarrow> m_registeredAt (ms ! i) = None \<Longrightarrow>
    seatEffect (Seat_register c) ms (ms[i := (ms ! i)\<lparr>m_registeredAt := Some (sg_at c)\<rparr>])"
| revoked: "i < length ms \<Longrightarrow> liveRow (ms ! i) \<Longrightarrow> seatEffect cmd ms (ms[i := revokedRow t r (ms ! i)])"

lemma apply_seat [simp]:
  "memberships (apply_tables l (no_tables\<lparr>p_memberships := Some ms\<rparr>)) = ms" "memberships (apply_tables l no_tables) = memberships l"
  by (simp_all add: apply_tables_def no_tables_def)

lemma unchanged_sweep: "\<not> sw_changed (sweepExpired E ms at) \<Longrightarrow> sw_table (sweepExpired E ms at) = ms"
  by (simp add: sweepExpired_def Let_def split: if_splits)

lemma seatOk_effect:
  "seatOk (sweepExpired E (memberships l) at) = Inr (evs, p) \<Longrightarrow>
   memberships (apply_tables l p) = sw_table (sweepExpired E (memberships l) at)"
  by (auto simp: seatOk_def seatOutcome_def unchanged_sweep split: if_splits)

lemma seatOutcome_Inr: "seatOutcome es ms = Inr (evs, p) \<Longrightarrow> memberships (apply_tables l p) = ms"
  by (auto simp: seatOutcome_def)

lemma bind_compares: "fieldMismatch DESK_FIELD_POLICY_bind (observedField p w c) m \<longleftrightarrow> m_provider m \<noteq> p \<or> m_createCwd m \<noteq> c"
  by (auto simp: fieldMismatch_def DESK_FIELD_POLICY_bind_def observedField_def storedField_def)

lemma bind_effect:
  assumes "seatBind (sweepExpired E (memberships l) at) c = Some (Inr (evs, p))"
  shows "seatEffect (Seat_bind c) (sw_table (sweepExpired E (memberships l) at)) (memberships (apply_tables l p))"
proof -
  let ?sw = "sweepExpired E (memberships l) at"
  from assms obtain i where i: "findIndex (\<lambda>m. m_bindingHandleSha256 m = sb_bindingHandleSha256 c) (sw_table ?sw) = Some i"
    unfolding seatBind_def by (cases "findIndex (\<lambda>m. m_bindingHandleSha256 m = sb_bindingHandleSha256 c) (sw_table ?sw)") auto
  let ?m = "sw_table ?sw ! i"
  note f = findIndex_Some [OF i]
  from assms have live: "m_state ?m \<noteq> MS_revoked" and cmp: "m_provider ?m = sb_provider c" "m_createCwd ?m = sb_cwd c"
    unfolding seatBind_def i by (simp_all add: Let_def bind_compares split: if_splits)
  show ?thesis
  proof (cases "m_state ?m = MS_host_confirmed")
    case True
    with assms live cmp have idle: "seatOk ?sw = Inr (evs, p)"
      unfolding seatBind_def i by (simp add: Let_def bind_compares split: if_splits)
    show ?thesis unfolding seatOk_effect [OF idle] by (rule seatEffect.idle)
  next
    case False
    with assms live cmp have no: "\<not> list_ex (\<lambda>o'. m_agentId o' = Some (sb_agentId c) \<and> m_state o' \<noteq> MS_revoked \<and>
          m_membershipId o' \<noteq> m_membershipId ?m) (sw_table ?sw)"
      and out: "seatOutcome (sw_events ?sw @ [agentEvent ''seat-host-confirmed'' (m_membershipId ?m) (sb_agentId c)])
          ((sw_table ?sw)[i := boundRow c ?m]) = Inr (evs, p)"
      unfolding seatBind_def i by (simp_all add: Let_def bind_compares bind_guard split: if_splits)
    show ?thesis
      unfolding seatOutcome_Inr [OF out] using not_bound [OF live False] f cmp no by (intro seatEffect.bound) auto
  qed
qed

lemma register_effect:
  assumes "seatRegister (sweepExpired E (memberships l) at) c = Some (Inr (evs, p))"
  shows "seatEffect (Seat_register c) (sw_table (sweepExpired E (memberships l) at)) (memberships (apply_tables l p))"
proof (cases "liveIndex (sweepExpired E (memberships l) at) (sg_agentId c)")
  case None
  with assms have idle: "seatOk (sweepExpired E (memberships l) at) = Inr (evs, p)" by (simp add: seatRegister_def)
  show ?thesis unfolding seatOk_effect [OF idle] by (rule seatEffect.idle)
next
  case (Some i)
  let ?sw = "sweepExpired E (memberships l) at"
  note f = liveIndex_Some [OF Some]
  from assms Some consider "seatOk ?sw = Inr (evs, p)"
    | es r where "seatOutcome es ((sw_table ?sw)[i := revokedRow (sg_at c) r (sw_table ?sw ! i)]) = Inr (evs, p)"
    | es where "m_registeredAt (sw_table ?sw ! i) = None"
        "seatOutcome es ((sw_table ?sw)[i := (sw_table ?sw ! i)\<lparr>m_registeredAt := Some (sg_at c)\<rparr>]) = Inr (evs, p)"
    unfolding seatRegister_def by (auto simp: Let_def seatRevokeAt_live [OF Some] split: if_splits)
  then show ?thesis
  proof cases
    case 1
    show ?thesis unfolding seatOk_effect [OF 1] by (rule seatEffect.idle)
  next
    case 2
    show ?thesis unfolding seatOutcome_Inr [OF 2] using f by (intro seatEffect.revoked) auto
  next
    case 3
    show ?thesis unfolding seatOutcome_Inr [OF 3(2)] using f 3(1) by (intro seatEffect.registered) auto
  qed
qed

lemma seat_effect:
  assumes "decideSeatCommand E ticketed l cmd = Some (Inr (evs, p))"
  shows "seatEffect cmd (sw_table (sweepExpired E (memberships l) (seat_at cmd))) (memberships (apply_tables l p))"
proof (cases cmd)
  case (Seat_mint c)
  with assms obtain es where n: "\<not> list_ex (\<lambda>m. m_bindingHandleSha256 m = sm_bindingHandleSha256 c) (sw_table (sweepExpired E (memberships l) (sm_at c)))"
    and out: "seatOutcome es (sw_table (sweepExpired E (memberships l) (sm_at c)) @ [mintedRow c]) = Inr (evs, p)"
    by (auto simp: decideSeatCommand_def seatMint_def Let_def split: if_splits)
  show ?thesis unfolding seatOutcome_Inr [OF out] Seat_mint using n by (simp add: seatEffect.minted)
next
  case (Seat_bind c)
  with assms bind_effect show ?thesis by (simp add: decideSeatCommand_def Let_def split: if_splits)
next
  case (Seat_register c)
  with assms register_effect show ?thesis by (simp add: decideSeatCommand_def Let_def split: if_splits)
next
  case (Seat_revoke c)
  let ?sw = "sweepExpired E (memberships l) (sk_at c)"
  from assms Seat_revoke have r: "seatRevoke ?sw c = Some (Inr (evs, p))"
    by (simp add: decideSeatCommand_def Let_def split: if_splits)
  show ?thesis
  proof (cases "liveIndex ?sw (sk_agentId c)")
    case None
    with r have idle: "seatOk ?sw = Inr (evs, p)" by (simp add: seatRevoke_def)
    show ?thesis unfolding seatOk_effect [OF idle] Seat_revoke seat_at.simps by (rule seatEffect.idle)
  next
    case (Some i)
    with r obtain es where out: "seatOutcome es ((sw_table ?sw)[i := revokedRow (sk_at c) RR_archived (sw_table ?sw ! i)]) = Inr (evs, p)"
      by (auto simp: seatRevoke_def seatRevokeAt_live [OF Some])
    show ?thesis unfolding seatOutcome_Inr [OF out] Seat_revoke seat_at.simps
      using liveIndex_Some [OF Some] by (intro seatEffect.revoked) auto
  qed
qed

subsection \<open>The guarantees\<close>

lemma sweep_nth_live:
  "i < length ms \<Longrightarrow> liveRow (sw_table (sweepExpired E ms at) ! i) \<Longrightarrow> sw_table (sweepExpired E ms at) ! i = ms ! i"
  by (auto simp: sweepExpired_def Let_def revokedRow_def liveRow_def split: if_splits option.splits)

lemma sweep_length: "length (sw_table (sweepExpired E ms at)) = length ms"
  by (simp add: sweepExpired_def Let_def)

lemma effect_evolves:
  assumes "seatEffect cmd (sw_table (sweepExpired E ms at)) ns" and "distinct (map m_membershipId ms)"
  shows "\<exists>old new. ns = old @ new \<and> evolves ms old \<and> (new = [] \<or> (\<exists>c. cmd = Seat_mint c \<and> new = [mintedRow c]))"
proof -
  let ?sw = "sw_table (sweepExpired E ms at)"
  note e = sweep_evolves [OF assms(2), of E at]
  have upd: "evolves ms (?sw[i := v])" if "i < length ?sw" "liveRow (?sw ! i)" "rowEvolves (?sw ! i) v" for i v
    using that sweep_nth_live [of i ms E at] by (intro evolves_update [OF e]) (simp_all add: sweep_length)
  show ?thesis
    using assms(1)
  proof cases
    case (bound i c)
    then have "liveRow (?sw ! i)" by (simp add: liveRow_def)
    with upd [OF bound(3) this bound_evolves [OF bound(4)]] bound(2) show ?thesis by (metis append_Nil2)
  next
    case (registered i c)
    with upd [OF registered(3,4) registered_evolves [OF registered(4)]] show ?thesis by (metis append_Nil2 option.distinct(1))
  next
    case (revoked i t r)
    with upd [OF revoked(2,3) revoked_evolves [OF revoked(3)]] show ?thesis by (metis append_Nil2)
  qed (use e in auto)
qed

definition mintFresh :: "ledger \<Rightarrow> seat_command \<Rightarrow> bool" where
  \<comment> \<open>a minted membership id is new to the desk: the caller draws it with \<open>randomUUID\<close>\<close>
  "mintFresh l cmd \<longleftrightarrow> (case cmd of Seat_mint c \<Rightarrow> sm_membershipId c \<notin> set (map m_membershipId (memberships l)) | _ \<Rightarrow> True)"

text \<open>C27. Memberships only move forward: an accepted seat command appends at most the one minted row, and every row that was
  there keeps its identity and is left alone, revoked, bound to an agent or registered - a revoked row is never touched.\<close>

theorem memberships_move_forward:
  assumes "decideSeatCommand E ticketed l cmd = Some (Inr (evs, p))" and "distinct (map m_membershipId (memberships l))"
  shows "\<exists>old new. memberships (apply_tables l p) = old @ new \<and> list_all2 rowEvolves (memberships l) old \<and>
    (new = [] \<or> (\<exists>c. cmd = Seat_mint c \<and> new = [mintedRow c]))"
  using effect_evolves [OF seat_effect [OF assms(1)] assms(2)] unfolding evolves_def by blast

lemma oneLive_update:
  assumes "oneLivePerAgent ms" and "i < length ms"
    and "liveRow v \<Longrightarrow> m_agentId v \<noteq> None \<Longrightarrow> liveRow (ms ! i) \<and> m_agentId (ms ! i) = m_agentId v \<and> m_membershipId (ms ! i) = m_membershipId v"
  shows "oneLivePerAgent (ms[i := v])"
proof (rule oneLive_from [OF assms(1)])
  fix n assume "n \<in> set (ms[i := v])" "liveRow n" "m_agentId n \<noteq> None"
  moreover from this(1) have "n = v \<or> n \<in> set ms" using set_update_subset_insert by fastforce
  ultimately show "\<exists>m \<in> set ms. liveRow m \<and> m_agentId m = m_agentId n \<and> m_membershipId m = m_membershipId n"
    using assms(2,3) by (metis nth_mem)
qed

lemma oneLive_bound:
  assumes "oneLivePerAgent ms" and "i < length ms"
    and "\<not> list_ex (\<lambda>o'. m_agentId o' = Some (sb_agentId c) \<and> m_state o' \<noteq> MS_revoked \<and> m_membershipId o' \<noteq> m_membershipId (ms ! i)) ms"
  shows "oneLivePerAgent (ms[i := boundRow c (ms ! i)])"
  unfolding oneLivePerAgent_def
proof (intro ballI impI)
  let ?v = "boundRow c (ms ! i)"
  have v: "m_agentId ?v = Some (sb_agentId c)" "m_membershipId ?v = m_membershipId (ms ! i)" by (simp_all add: boundRow_def)
  fix x y assume "x \<in> set (ms[i := ?v])" "y \<in> set (ms[i := ?v])"
    and h: "liveRow x \<and> liveRow y \<and> m_agentId x \<noteq> None \<and> m_agentId x = m_agentId y"
  then have "x = ?v \<or> x \<in> set ms" "y = ?v \<or> y \<in> set ms" using set_update_subset_insert by fastforce+
  moreover have "m_membershipId z = m_membershipId (ms ! i)" if "z \<in> set ms" "liveRow z" "m_agentId z = Some (sb_agentId c)" for z
    using assms(3) that by (auto simp: list_ex_iff liveRow_def)
  ultimately show "m_membershipId x = m_membershipId y" using h v assms(1) unfolding oneLivePerAgent_def by metis
qed

lemma minted_ok:
  assumes "seatsOk ms" and "sm_membershipId c \<notin> set (map m_membershipId ms)"
    and "\<not> list_ex (\<lambda>m. m_bindingHandleSha256 m = sm_bindingHandleSha256 c) ms"
  shows "seatsOk (ms @ [mintedRow c])"
proof -
  have v: "m_agentId (mintedRow c) = None" "m_membershipId (mintedRow c) = sm_membershipId c"
    "m_bindingHandleSha256 (mintedRow c) = sm_bindingHandleSha256 c" "rowCoherent (mintedRow c)"
    by (simp_all add: mintedRow_def rowCoherent_def)
  have "oneLivePerAgent ms" using assms(1) by (simp add: seatsOk_def)
  then have "oneLivePerAgent (ms @ [mintedRow c])" by (rule oneLive_from) (use v(1) in auto)
  moreover have "sm_bindingHandleSha256 c \<notin> set (map m_bindingHandleSha256 ms)" using assms(3) by (auto simp: list_ex_iff)
  ultimately show ?thesis using assms(1,2) v by (simp add: seatsOk_def)
qed

lemma seatEffect_ok:
  assumes "seatEffect cmd ms ns" and "seatsOk ms"
    and "\<And>c. cmd = Seat_mint c \<Longrightarrow> sm_membershipId c \<notin> set (map m_membershipId ms)"
  shows "seatsOk ns"
proof -
  have one: "oneLivePerAgent ms" using assms(2) by (simp add: seatsOk_def)
  show ?thesis
    using assms(1)
  proof cases
    case (minted c)
    with assms minted_ok show ?thesis by simp
  next
    case (bound i c)
    show ?thesis
      unfolding bound(2) using bound
      by (intro seatsOk_evolves [OF assms(2)] evolves_update evolves_refl bound_evolves oneLive_bound [OF one]) auto
  next
    case (registered i c)
    show ?thesis
      unfolding registered(2) using registered
      by (intro seatsOk_evolves [OF assms(2)] evolves_update evolves_refl registered_evolves oneLive_update [OF one]) (auto simp: liveRow_def)
  next
    case (revoked i t r)
    show ?thesis
      unfolding revoked(1) using revoked
      by (intro seatsOk_evolves [OF assms(2)] evolves_update evolves_refl revoked_evolves oneLive_update [OF one])
        (auto simp: liveRow_def revokedRow_def)
  qed (use assms(2) in simp)
qed

lemma seat_keeps_ok:
  assumes "decideSeatCommand E ticketed l cmd = Some (Inr (evs, p))" and "seatsOk (memberships l)" and "mintFresh l cmd"
  shows "seatsOk (memberships (apply_tables l p))"
proof (rule seatEffect_ok [OF seat_effect [OF assms(1)] sweep_ok [OF assms(2)]])
  have "distinct (map m_membershipId (memberships l))" using assms(2) by (simp add: seatsOk_def)
  note ids = evolves_map(1) [OF sweep_evolves [OF this, of E "seat_at cmd"]]
  show "sm_membershipId c \<notin> set (map m_membershipId (sw_table (sweepExpired E (memberships l) (seat_at cmd))))"
    if "cmd = Seat_mint c" for c
    unfolding ids using assms(3) that by (simp add: mintFresh_def)
qed

text \<open>C26. Seats stay unambiguous: whatever seat command is accepted, membership ids and binding handles stay distinct, no
  agent holds two live memberships, and the fields of a row agree with its state.\<close>

theorem seats_stay_unambiguous:
  assumes "decideSeatCommand E ticketed l cmd = Some (Inr (evs, p))" and "seatsOk (memberships l)" and "mintFresh l cmd"
  shows "seatsOk (memberships (apply_tables l p))"
  by (rule seat_keeps_ok [OF assms])

subsection \<open>A desk with a seat\<close>

definition demo_mint :: seat_mint_command where
  "demo_mint = \<lparr>sm_at = ''2024-05-01T10:00:00.000Z'', sm_membershipId = ''m9'', sm_bindingHandleSha256 = replicate 64 (CHR ''b''),
     sm_provider = ''slp-codex-peer'', sm_family = ''codex'', sm_role = Role_peer, sm_createCwd = ''/w'', sm_taskCreateTicketSha256 = None\<rparr>"

definition demo_bind :: seat_bind_command where
  "demo_bind = \<lparr>sb_at = ''2024-05-01T10:00:05.000Z'', sb_bindingHandleSha256 = replicate 64 (CHR ''b''), sb_agentId = ''peer9'',
     sb_workspaceId = None, sb_provider = ''slp-codex-peer'', sb_cwd = ''/w''\<rparr>"

definition demo_seated :: ledger where
  "demo_seated = (emptyLedger \<lparr>rb_hostId = ''h'', rb_gitCommonDir = ''/g''\<rparr> ''key'' ''t0'')\<lparr>memberships := [mintedRow demo_mint]\<rparr>"

lemma demo_binds: "(case decideSeatCommand demo_env False demo_seated (Seat_bind demo_bind) of
    Some (Inr (evs, p)) \<Rightarrow> map m_agentId (memberships (apply_tables demo_seated p)) = [Some ''peer9''] | _ \<Rightarrow> False)"
  by code_simp

lemma demo_seated_ok: "seatsOk (memberships demo_seated)"
  by (simp add: demo_seated_def seatsOk_def oneLivePerAgent_def rowCoherent_def mintedRow_def)

lemma seats_stay_unambiguous_witness:
  "\<exists>evs p. decideSeatCommand demo_env False demo_seated (Seat_bind demo_bind) = Some (Inr (evs, p)) \<and>
     map m_agentId (memberships (apply_tables demo_seated p)) = [Some ''peer9''] \<and> seatsOk (memberships (apply_tables demo_seated p))"
proof -
  from demo_binds obtain evs p where d: "decideSeatCommand demo_env False demo_seated (Seat_bind demo_bind) = Some (Inr (evs, p))"
    and "map m_agentId (memberships (apply_tables demo_seated p)) = [Some ''peer9'']"
    by (auto simp del: apply_tables_def split: option.splits sum.splits)
  moreover have "mintFresh demo_seated (Seat_bind demo_bind)" by (simp add: mintFresh_def)
  from seats_stay_unambiguous [OF d demo_seated_ok this] have "seatsOk (memberships (apply_tables demo_seated p))" .
  ultimately show ?thesis by (intro exI conjI)
qed

lemma memberships_move_forward_witness:
  "\<exists>evs p old. decideSeatCommand demo_env False demo_seated (Seat_bind demo_bind) = Some (Inr (evs, p)) \<and>
     memberships (apply_tables demo_seated p) = old \<and> list_all2 rowEvolves (memberships demo_seated) old"
proof -
  from demo_binds obtain evs p where d: "decideSeatCommand demo_env False demo_seated (Seat_bind demo_bind) = Some (Inr (evs, p))"
    by (auto split: option.splits sum.splits)
  have "distinct (map m_membershipId (memberships demo_seated))" using demo_seated_ok by (simp add: seatsOk_def)
  from memberships_move_forward [OF d this] d show ?thesis by auto
qed

end
