(* ===== verification/Desk_Schema.thy ===== *)
theory Desk_Schema
  imports Desk_Vocabulary Desk_Canonical
begin

text \<open>
  JSON Schema, as far as the schemas published by plugin/server/runtime/report-semantics.ts and
  plugin/server/runtime/cli/report-records.ts use it. A \<open>schema\<close> is the syntax tree of such a
  literal, one constructor per keyword; an object literal with several keywords is the
  conjunction \<open>All_of\<close> of them, \<open>if\<close>/\<open>then\<close>/\<open>else\<close> belong together, and
  \<open>additionalProperties: false\<close> carries the names its sibling \<open>properties\<close> declares. A pattern is
  the language it matches. \<open>satisfies\<close> is the meaning the standard (draft 2020-12) gives to the
  keywords; it is the specification the hand-written validators are compared with, not code of
  the repository. Annotations (\<open>$schema\<close>, \<open>title\<close>, \<open>description\<close>, \<open>format\<close> and
  \<open>x-\<close> keys) constrain nothing and are left out.

  The values are those of \<open>json\<close>: numbers are integers.
\<close>

datatype schema =
    Of_type string
  | Const json
  | Enum "json list"
  | Min_length nat
  | Pattern "string \<Rightarrow> bool"
  | Minimum int
  | Min_items nat
  | Max_items nat
  | Items schema
  | Contains schema
  | Required "string list"
  | Properties "(string \<times> schema) list"
  | No_additional "string list"
  | All_of "schema list"
  | Any_of "schema list"
  | One_of "schema list"
  | Not_of schema
  | If_then_else schema schema schema

definition any_value :: schema where
  \<comment> \<open>the empty schema, and a missing \<open>else\<close>\<close>
  "any_value = All_of []"

fun type_of :: "json \<Rightarrow> string" where
  "type_of JNull = ''null''"
| "type_of (JBool b) = ''boolean''"
| "type_of (JInt i) = ''integer''"
| "type_of (JStr s) = ''string''"
| "type_of (JArr xs) = ''array''"
| "type_of (JObj kvs) = ''object''"

fun satisfies :: "schema \<Rightarrow> json \<Rightarrow> bool" where
  "satisfies (Of_type t) v \<longleftrightarrow> type_of v = t"
| "satisfies (Const c) v \<longleftrightarrow> v = c"
| "satisfies (Enum cs) v \<longleftrightarrow> v \<in> set cs"
| "satisfies (Min_length n) v \<longleftrightarrow> (case v of JStr s \<Rightarrow> n \<le> length s | _ \<Rightarrow> True)"
| "satisfies (Pattern P) v \<longleftrightarrow> (case v of JStr s \<Rightarrow> P s | _ \<Rightarrow> True)"
| "satisfies (Minimum m) v \<longleftrightarrow> (case v of JInt i \<Rightarrow> m \<le> i | _ \<Rightarrow> True)"
| "satisfies (Min_items n) v \<longleftrightarrow> (case v of JArr xs \<Rightarrow> n \<le> length xs | _ \<Rightarrow> True)"
| "satisfies (Max_items n) v \<longleftrightarrow> (case v of JArr xs \<Rightarrow> length xs \<le> n | _ \<Rightarrow> True)"
| "satisfies (Items s) v \<longleftrightarrow> (case v of JArr xs \<Rightarrow> list_all (satisfies s) xs | _ \<Rightarrow> True)"
| "satisfies (Contains s) v \<longleftrightarrow> (case v of JArr xs \<Rightarrow> list_ex (satisfies s) xs | _ \<Rightarrow> True)"
| "satisfies (Required ks) v \<longleftrightarrow> (case v of JObj kvs \<Rightarrow> list_all (\<lambda>k. map_of kvs k \<noteq> None) ks | _ \<Rightarrow> True)"
| "satisfies (Properties ps) v \<longleftrightarrow> (case v of
     JObj kvs \<Rightarrow> list_all (\<lambda>(k, s). case map_of kvs k of None \<Rightarrow> True | Some x \<Rightarrow> satisfies s x) ps | _ \<Rightarrow> True)"
| "satisfies (No_additional ks) v \<longleftrightarrow> (case v of JObj kvs \<Rightarrow> list_all (\<lambda>(k, _). k \<in> set ks) kvs | _ \<Rightarrow> True)"
| "satisfies (All_of ss) v \<longleftrightarrow> list_all (\<lambda>s. satisfies s v) ss"
| "satisfies (Any_of ss) v \<longleftrightarrow> list_ex (\<lambda>s. satisfies s v) ss"
| "satisfies (One_of ss) v \<longleftrightarrow> length (filter (\<lambda>s. satisfies s v) ss) = 1"
| "satisfies (Not_of s) v \<longleftrightarrow> \<not> satisfies s v"
| "satisfies (If_then_else c t e) v \<longleftrightarrow> (if satisfies c v then satisfies t v else satisfies e v)"

lemma satisfies_any_value [simp]: "satisfies any_value v"
  by (simp add: any_value_def)

lemma type_of_eq [simp]:
  "type_of v = ''null'' \<longleftrightarrow> v = JNull"
  "type_of v = ''string'' \<longleftrightarrow> (\<exists>s. v = JStr s)"
  "type_of v = ''array'' \<longleftrightarrow> (\<exists>xs. v = JArr xs)"
  "type_of v = ''object'' \<longleftrightarrow> (\<exists>kvs. v = JObj kvs)"
  "type_of v = ''integer'' \<longleftrightarrow> (\<exists>i. v = JInt i)"
  by (cases v; simp)+

lemma one_of_two [simp]:
  "satisfies (One_of [a, b]) v \<longleftrightarrow> (satisfies a v \<noteq> satisfies b v)"
  by simp

declare satisfies.simps(16) [simp del]

end
