(* ===== verification/Desk_Report.thy ===== *)
theory Desk_Report
  imports Desk_Schema
begin

text \<open>
  The optional structured report of a handback (plugin/server/runtime/report-semantics.ts): the
  JSON Schema the module publishes and the hand-written validator the desk and the command line
  run. Both are translated as they stand; \<open>Desk_Report_Exact\<close> compares them.

  A value read from a property is a \<open>json option\<close>, \<open>None\<close> for \<open>undefined\<close>. The validator pushes
  issues to an array; here every function returns the issues it pushes, in order, and a function
  that reads a value for its caller takes the caller's continuation. The texts of the messages
  are not modelled.
\<close>

type_synonym object_value = "(string \<times> json) list"

record record_issue =
  ri_code :: string
  ri_field :: "string option"

type_synonym issues = "record_issue list"

definition SLP_REPORT_FORMAT :: string where "SLP_REPORT_FORMAT = ''slp-report''"
definition SLP_REPORT_VERSION :: int where "SLP_REPORT_VERSION = 1"
definition SLP_REPORT_PURPOSES :: "string list" where
  "SLP_REPORT_PURPOSES = [''execution'', ''review'', ''adjudication'']"

subsection \<open>The published schema\<close>

definition non_space :: "string \<Rightarrow> bool" where
  \<comment> \<open>the pattern \<open>\S\<close>\<close>
  "non_space s = list_ex (\<lambda>c. \<not> is_trim_char c) s"

definition nb :: schema where
  "nb = All_of [Of_type ''string'', Min_length 1, Pattern non_space]"

definition nullableNb :: schema where
  "nullableNb = Any_of [Of_type ''null'', nb]"

definition stringList :: schema where
  "stringList = All_of [Of_type ''array'', Items nb]"

definition objectSchema :: "string list \<Rightarrow> (string \<times> schema) list \<Rightarrow> schema list \<Rightarrow> schema" where
  "objectSchema required properties extra =
     All_of ([Of_type ''object'', Required required, Properties properties, No_additional (map fst properties)] @ extra)"

definition arraySchema :: "schema \<Rightarrow> nat option \<Rightarrow> schema" where
  "arraySchema items minItems = All_of ([Of_type ''array'', Items items] @ (case minItems of None \<Rightarrow> [] | Some n \<Rightarrow> [Min_items n]))"

abbreviation enumSchema :: "string list \<Rightarrow> schema" where
  "enumSchema cs \<equiv> Enum (map JStr cs)"

abbreviation constAt :: "string \<Rightarrow> json \<Rightarrow> schema" where
  \<comment> \<open>\<open>{ properties: { [key]: { const: value } }, required: [key] }\<close>\<close>
  "constAt key v \<equiv> All_of [Properties [(key, Const v)], Required [key]]"

definition evidenceSchema :: schema where
  "evidenceSchema = objectSchema [''summary'', ''source'', ''basis'', ''ref'']
     [(''summary'', nb), (''source'', nb), (''basis'', enumSchema [''observed'', ''self-report'', ''inference'']), (''ref'', nb)] []"

definition findingSchema :: schema where
  "findingSchema = objectSchema [''id'', ''state'', ''obligation'', ''evidence'', ''remedy'']
     [(''id'', nb), (''state'', enumSchema [''hypothesis'', ''confirmed'']), (''obligation'', nb),
      (''evidence'', arraySchema evidenceSchema (Some 1)), (''remedy'', nb)]
     [All_of [If_then_else (constAt ''state'' (JStr ''confirmed''))
        (Properties [(''evidence'', Contains (constAt ''basis'' (JStr ''observed'')))]) any_value]]"

definition executionSchema :: schema where
  "executionSchema = objectSchema [''result'', ''completed'', ''unfinished'']
     [(''result'', nb), (''completed'', stringList),
      (''unfinished'', arraySchema (objectSchema [''item'', ''state'', ''ownerId'', ''reason'']
         [(''item'', nb), (''state'', enumSchema [''open'', ''blocked'', ''waiting'']), (''ownerId'', nullableNb), (''reason'', nb)] []) None)] []"

definition mandateSchema :: schema where
  "mandateSchema = objectSchema [''id'', ''assignmentRevision'', ''scopeRevision'', ''candidateRef'']
     [(''id'', nb), (''assignmentRevision'', nb), (''scopeRevision'', nb), (''candidateRef'', nb)] []"

definition reviewSchema :: schema where
  "reviewSchema = objectSchema [''outcome'', ''mandate'', ''findingRefs'']
     [(''outcome'', nb), (''mandate'', mandateSchema), (''findingRefs'', stringList)] []"

definition decisionSchema :: schema where
  "decisionSchema = objectSchema
     [''proposition'', ''ruling'', ''reason'', ''supportingEvidence'', ''contraryEvidence'', ''unresolvedRisk'',
      ''affectedRevision'', ''affectedOwners'', ''notificationRefs'', ''outcomeRefs'']
     [(''proposition'', nb), (''ruling'', nb), (''reason'', nb), (''supportingEvidence'', stringList), (''contraryEvidence'', stringList),
      (''unresolvedRisk'', nb), (''affectedRevision'', nb), (''affectedOwners'', stringList), (''notificationRefs'', stringList),
      (''outcomeRefs'', stringList)] []"

definition unresolvedSchema :: schema where
  "unresolvedSchema = objectSchema [''proposition'', ''reason'', ''ownerId'']
     [(''proposition'', nb), (''reason'', nb), (''ownerId'', nullableNb)] []"

definition adjudicationRule :: schema where
  "adjudicationRule = Any_of
       [All_of [Properties [(''state'', Const (JStr ''decided'')), (''decisions'', Min_items 1)], Required [''state'', ''decisions'']],
        All_of [Properties [(''state'', Const (JStr ''pending'')), (''unresolved'', Min_items 1)], Required [''state'', ''unresolved'']],
        All_of [Properties [(''state'', Const (JStr ''no-material-decision'')), (''decisions'', Max_items 0), (''unresolved'', Max_items 0)],
          Required [''state'', ''decisions'', ''unresolved'']]]"

definition adjudicationSchema :: schema where
  "adjudicationSchema = objectSchema [''summary'', ''state'', ''decisions'', ''unresolved'']
     [(''summary'', nb), (''state'', enumSchema [''decided'', ''pending'', ''no-material-decision'']),
      (''decisions'', arraySchema decisionSchema None), (''unresolved'', arraySchema unresolvedSchema None)]
     [adjudicationRule]"

definition assignmentSchema :: schema where
  "assignmentSchema = objectSchema
     [''id'', ''revision'', ''scopeRevision'', ''sourceRef'', ''objective'', ''acceptance'', ''authority'', ''scope'']
     [(''id'', nullableNb), (''revision'', nullableNb), (''scopeRevision'', nullableNb), (''sourceRef'', nullableNb), (''objective'', nb),
      (''acceptance'', arraySchema nb (Some 1)),
      (''authority'', arraySchema (objectSchema [''claim'', ''sourceRef''] [(''claim'', nb), (''sourceRef'', nb)] []) (Some 1)),
      (''scope'', objectSchema [''owned'', ''excluded''] [(''owned'', arraySchema nb (Some 1)), (''excluded'', stringList)] [])] []"

definition ownerSchema :: schema where
  "ownerSchema = objectSchema [''surface'', ''ownerId'', ''role'', ''state'', ''basis'', ''sourceRef'']
     [(''surface'', nb), (''ownerId'', nullableNb), (''role'', nullableNb),
      (''state'', enumSchema [''active'', ''paused'', ''unverified'', ''unassigned'']),
      (''basis'', enumSchema [''assignment'', ''host-observation'', ''self-report'', ''unknown'']), (''sourceRef'', nullableNb)] []"

definition dependencySchema :: schema where
  "dependencySchema = objectSchema [''need'', ''state'', ''ownerId'', ''sourceRef'']
     [(''need'', nb), (''state'', enumSchema [''ready'', ''open'', ''blocked'', ''unknown'']), (''ownerId'', nullableNb), (''sourceRef'', nullableNb)] []"

definition resourceSchema :: schema where
  "resourceSchema = objectSchema [''kind'', ''id'', ''ownerId'', ''state'', ''sourceRef'']
     [(''kind'', nb), (''id'', nb), (''ownerId'', nullableNb), (''state'', enumSchema [''retained'', ''paused'', ''unknown'', ''released'']),
      (''sourceRef'', nullableNb)] []"

definition nextActionSchema :: schema where
  "nextActionSchema = objectSchema [''state'', ''action'', ''ownerId'']
     [(''state'', enumSchema [''ready'', ''blocked'', ''none'']), (''action'', nullableNb), (''ownerId'', nullableNb)]
     [All_of [If_then_else (constAt ''state'' (JStr ''none''))
        (Properties [(''action'', Of_type ''null''), (''ownerId'', Of_type ''null'')])
        (Properties [(''action'', nb)])]]"

definition reportProperties :: "(string \<times> schema) list" where
  "reportProperties =
     [(''format'', Const (JStr SLP_REPORT_FORMAT)), (''version'', Const (JInt SLP_REPORT_VERSION)), (''purpose'', enumSchema SLP_REPORT_PURPOSES),
      (''assignment'', assignmentSchema), (''assumptions'', stringList),
      (''unknowns'', arraySchema (objectSchema [''question'', ''impact'', ''ownerId'']
         [(''question'', nb), (''impact'', nb), (''ownerId'', nullableNb)] []) None),
      (''selfReport'', objectSchema [''read'', ''ran''] [(''read'', stringList), (''ran'', stringList)] []),
      (''execution'', One_of [executionSchema, Of_type ''null'']),
      (''review'', One_of [reviewSchema, Of_type ''null'']),
      (''adjudication'', One_of [adjudicationSchema, Of_type ''null'']),
      (''findings'', arraySchema findingSchema None), (''owners'', arraySchema ownerSchema None),
      (''dependencies'', arraySchema dependencySchema None), (''nextAction'', nextActionSchema),
      (''resources'', arraySchema resourceSchema None)]"

definition purposeRule :: "string \<Rightarrow> (string \<times> schema) list \<Rightarrow> schema" where
  "purposeRule purpose branches = If_then_else (constAt ''purpose'' (JStr purpose)) (Properties branches) any_value"

definition reportFields :: "string list" where
  "reportFields = [''format'', ''version'', ''purpose'', ''assignment'', ''assumptions'', ''unknowns'', ''selfReport'',
     ''execution'', ''review'', ''adjudication'', ''findings'', ''owners'', ''dependencies'', ''nextAction'', ''resources'']"

definition SLP_REPORT_V1_SCHEMA :: schema where
  "SLP_REPORT_V1_SCHEMA = objectSchema reportFields reportProperties
     [All_of
       [purposeRule ''execution'' [(''execution'', executionSchema), (''review'', Of_type ''null''), (''adjudication'', Of_type ''null'')],
        purposeRule ''review'' [(''execution'', Of_type ''null''), (''review'', reviewSchema), (''adjudication'', Of_type ''null'')],
        purposeRule ''adjudication'' [(''execution'', Of_type ''null''), (''review'', Of_type ''null''), (''adjudication'', adjudicationSchema)]]]"

subsection \<open>Reading a value\<close>

definition nonBlank :: "json option \<Rightarrow> bool" where
  "nonBlank v = (case v of Some (JStr s) \<Rightarrow> nonblank s | _ \<Rightarrow> False)"

definition err :: "string \<Rightarrow> issues" where
  "err field = [\<lparr>ri_code = ''invalid-report'', ri_field = Some field\<rparr>]"

definition dot :: "string \<Rightarrow> string \<Rightarrow> string" where
  "dot field key = field @ ''.'' @ key"

definition nth_of :: "string \<Rightarrow> nat \<Rightarrow> string" where
  "nth_of field i = field @ ''['' @ show_nat i @ '']''"

definition keysAt :: "object_value \<Rightarrow> string \<Rightarrow> string list \<Rightarrow> issues" where
  "keysAt row field allowed = concat (map (\<lambda>(k, _). if k \<in> set allowed then [] else err (dot field k)) row)"

definition objectAt :: "json option \<Rightarrow> string \<Rightarrow> (object_value \<Rightarrow> issues) \<Rightarrow> issues" where
  "objectAt v field visit = (case v of Some (JObj row) \<Rightarrow> visit row | _ \<Rightarrow> err field)"

definition requiredAt :: "object_value \<Rightarrow> string \<Rightarrow> string \<Rightarrow> (json option \<Rightarrow> issues) \<Rightarrow> issues" where
  "requiredAt row key field use =
     (case map_of row key of None \<Rightarrow> err (dot field key) @ use None | Some v \<Rightarrow> use (Some v))"

definition stringAt :: "json option \<Rightarrow> string \<Rightarrow> bool \<Rightarrow> issues" where
  "stringAt v field nullable = (if nullable \<and> v = Some JNull then [] else if nonBlank v then [] else err field)"

definition enumAt :: "json option \<Rightarrow> string \<Rightarrow> string list \<Rightarrow> issues" where
  "enumAt v field choices = (case v of Some (JStr s) \<Rightarrow> if s \<in> set choices then [] else err field | _ \<Rightarrow> err field)"

definition itemIssues :: "(nat \<Rightarrow> json \<Rightarrow> issues) \<Rightarrow> json list \<Rightarrow> issues" where
  \<comment> \<open>\<open>value.forEach((item, index) => ...)\<close>\<close>
  "itemIssues visit xs = concat (map (\<lambda>(i, x). visit i x) (enumerate 0 xs))"

definition listAt :: "json option \<Rightarrow> string \<Rightarrow> nat \<Rightarrow> issues" where
  "listAt v field minimum = (case v of
       Some (JArr xs) \<Rightarrow> (if length xs < minimum then err field else []) @ itemIssues (\<lambda>i x. stringAt (Some x) (nth_of field i) False) xs
     | _ \<Rightarrow> err field)"

definition listValue :: "json option \<Rightarrow> string list option" where
  \<comment> \<open>the strings \<open>listAt\<close> returns\<close>
  "listValue v = (case v of Some (JArr xs) \<Rightarrow> Some (List.map_filter (\<lambda>x. case x of JStr s \<Rightarrow> Some s | _ \<Rightarrow> None) xs) | _ \<Rightarrow> None)"

definition rowsAt :: "json option \<Rightarrow> string \<Rightarrow> (object_value \<Rightarrow> string \<Rightarrow> issues) \<Rightarrow> issues" where
  "rowsAt v field visit = (case v of
       Some (JArr xs) \<Rightarrow> itemIssues (\<lambda>i x. objectAt (Some x) (nth_of field i) (\<lambda>row. visit row (nth_of field i))) xs
     | _ \<Rightarrow> err field)"

text \<open>The shape \<open>stringAt(requiredAt(row, key, ...), field + '.' + key, ...)\<close> and its relatives.\<close>

abbreviation textAt :: "object_value \<Rightarrow> string \<Rightarrow> string \<Rightarrow> issues" where
  "textAt row key field \<equiv> requiredAt row key field (\<lambda>v. stringAt v (dot field key) False)"

abbreviation nullableAt :: "object_value \<Rightarrow> string \<Rightarrow> string \<Rightarrow> issues" where
  "nullableAt row key field \<equiv> requiredAt row key field (\<lambda>v. stringAt v (dot field key) True)"

abbreviation choiceAt :: "object_value \<Rightarrow> string \<Rightarrow> string \<Rightarrow> string list \<Rightarrow> issues" where
  "choiceAt row key field choices \<equiv> requiredAt row key field (\<lambda>v. enumAt v (dot field key) choices)"

abbreviation textsAt :: "object_value \<Rightarrow> string \<Rightarrow> string \<Rightarrow> nat \<Rightarrow> issues" where
  "textsAt row key field minimum \<equiv> requiredAt row key field (\<lambda>v. listAt v (dot field key) minimum)"

subsection \<open>Findings\<close>

definition validateEvidence :: "json option \<Rightarrow> string \<Rightarrow> issues" where
  "validateEvidence v field = objectAt v field (\<lambda>row.
     keysAt row field [''summary'', ''source'', ''basis'', ''ref''] @
     textAt row ''summary'' field @ textAt row ''source'' field @
     choiceAt row ''basis'' field [''observed'', ''self-report'', ''inference''] @
     textAt row ''ref'' field)"

definition evidenceBasis :: "json \<Rightarrow> json option" where
  \<comment> \<open>the value \<open>validateEvidence\<close> returns\<close>
  "evidenceBasis x = (case x of JObj row \<Rightarrow> map_of row ''basis'' | _ \<Rightarrow> None)"

definition findingEvidence :: "json option \<Rightarrow> json option \<Rightarrow> string \<Rightarrow> issues" where
  "findingEvidence evidence state field = (case evidence of
       Some (JArr xs) \<Rightarrow> (if xs = [] then err (dot field ''evidence'') else []) @
         itemIssues (\<lambda>i x. validateEvidence (Some x) (nth_of (dot field ''evidence'') i)) xs @
         (if state = Some (JStr ''confirmed'') \<and> Some (JStr ''observed'') \<notin> set (map evidenceBasis xs)
          then err (dot field ''evidence'') else [])
     | _ \<Rightarrow> err (dot field ''evidence''))"

definition knownIds :: "string list \<Rightarrow> json option \<Rightarrow> string list" where
  "knownIds ids v = (case v of Some (JStr s) \<Rightarrow> if trim s \<noteq> [] then ids @ [s] else ids | _ \<Rightarrow> ids)"

definition duplicateId :: "string list \<Rightarrow> json option \<Rightarrow> string \<Rightarrow> issues" where
  "duplicateId ids v field = (case v of
       Some (JStr s) \<Rightarrow> if trim s \<noteq> [] \<and> s \<in> set ids then err (dot field ''id'') else []
     | _ \<Rightarrow> [])"

definition validateFinding :: "string list \<Rightarrow> object_value \<Rightarrow> string \<Rightarrow> issues" where
  "validateFinding ids row field =
     keysAt row field [''id'', ''state'', ''obligation'', ''evidence'', ''remedy''] @
     requiredAt row ''id'' field (\<lambda>v. stringAt v (dot field ''id'') False @ duplicateId ids v field) @
     choiceAt row ''state'' field [''hypothesis'', ''confirmed''] @
     textAt row ''obligation'' field @
     requiredAt row ''evidence'' field (\<lambda>v. findingEvidence v (map_of row ''state'') field) @
     textAt row ''remedy'' field"

fun validateFindingRows :: "string \<Rightarrow> nat \<Rightarrow> string list \<Rightarrow> json list \<Rightarrow> issues \<times> string list" where
  "validateFindingRows field i ids [] = ([], ids)"
| "validateFindingRows field i ids (x # xs) = (case x of
       JObj row \<Rightarrow> (let (es, out) = validateFindingRows field (Suc i) (knownIds ids (map_of row ''id'')) xs in
         (validateFinding ids row (nth_of field i) @ es, out))
     | _ \<Rightarrow> (let (es, out) = validateFindingRows field (Suc i) ids xs in (err (nth_of field i) @ es, out)))"

definition validateFindings :: "json option \<Rightarrow> issues \<times> string list" where
  "validateFindings v = (case v of
       Some (JArr xs) \<Rightarrow> validateFindingRows ''report.findings'' 0 [] xs
     | _ \<Rightarrow> (err ''report.findings'', []))"

subsection \<open>Assignment and the common part\<close>

definition validateAssignment :: "json option \<Rightarrow> issues" where
  "validateAssignment v = (let field = ''report.assignment'' in objectAt v field (\<lambda>row.
     keysAt row field [''id'', ''revision'', ''scopeRevision'', ''sourceRef'', ''objective'', ''acceptance'', ''authority'', ''scope''] @
     nullableAt row ''id'' field @ nullableAt row ''revision'' field @ nullableAt row ''scopeRevision'' field @ nullableAt row ''sourceRef'' field @
     textAt row ''objective'' field @
     textsAt row ''acceptance'' field 1 @
     requiredAt row ''authority'' field (\<lambda>authority.
       (if authority = Some (JArr []) then err (dot field ''authority'') else []) @
       rowsAt authority (dot field ''authority'') (\<lambda>r at.
         keysAt r at [''claim'', ''sourceRef''] @ textAt r ''claim'' at @ textAt r ''sourceRef'' at)) @
     requiredAt row ''scope'' field (\<lambda>scope. objectAt scope (dot field ''scope'') (\<lambda>r.
       keysAt r (dot field ''scope'') [''owned'', ''excluded''] @
       textsAt r ''owned'' (dot field ''scope'') 1 @ textsAt r ''excluded'' (dot field ''scope'') 0))))"

definition validateNextAction :: "json option \<Rightarrow> issues" where
  "validateNextAction v = (let field = ''report.nextAction'' in objectAt v field (\<lambda>row.
     keysAt row field [''state'', ''action'', ''ownerId''] @
     choiceAt row ''state'' field [''ready'', ''blocked'', ''none''] @
     requiredAt row ''action'' field (\<lambda>_. []) @ requiredAt row ''ownerId'' field (\<lambda>_. []) @
     (if map_of row ''state'' = Some (JStr ''none'')
      then (if map_of row ''action'' \<noteq> Some JNull then err (dot field ''action'') else []) @
           (if map_of row ''ownerId'' \<noteq> Some JNull then err (dot field ''ownerId'') else [])
      else stringAt (map_of row ''action'') (dot field ''action'') False @
           stringAt (map_of row ''ownerId'') (dot field ''ownerId'') True)))"

definition validateCommon :: "object_value \<Rightarrow> issues" where
  "validateCommon report =
     textsAt report ''assumptions'' ''report'' 0 @
     requiredAt report ''unknowns'' ''report'' (\<lambda>v. rowsAt v ''report.unknowns'' (\<lambda>row field.
       keysAt row field [''question'', ''impact'', ''ownerId''] @
       textAt row ''question'' field @ textAt row ''impact'' field @ nullableAt row ''ownerId'' field)) @
     requiredAt report ''selfReport'' ''report'' (\<lambda>v. objectAt v ''report.selfReport'' (\<lambda>self.
       keysAt self ''report.selfReport'' [''read'', ''ran''] @
       textsAt self ''read'' ''report.selfReport'' 0 @ textsAt self ''ran'' ''report.selfReport'' 0)) @
     requiredAt report ''owners'' ''report'' (\<lambda>v. rowsAt v ''report.owners'' (\<lambda>row field.
       keysAt row field [''surface'', ''ownerId'', ''role'', ''state'', ''basis'', ''sourceRef''] @
       textAt row ''surface'' field @ nullableAt row ''ownerId'' field @ nullableAt row ''role'' field @
       choiceAt row ''state'' field [''active'', ''paused'', ''unverified'', ''unassigned''] @
       choiceAt row ''basis'' field [''assignment'', ''host-observation'', ''self-report'', ''unknown''] @
       nullableAt row ''sourceRef'' field)) @
     requiredAt report ''dependencies'' ''report'' (\<lambda>v. rowsAt v ''report.dependencies'' (\<lambda>row field.
       keysAt row field [''need'', ''state'', ''ownerId'', ''sourceRef''] @
       textAt row ''need'' field @ choiceAt row ''state'' field [''ready'', ''open'', ''blocked'', ''unknown''] @
       nullableAt row ''ownerId'' field @ nullableAt row ''sourceRef'' field)) @
     requiredAt report ''nextAction'' ''report'' validateNextAction @
     requiredAt report ''resources'' ''report'' (\<lambda>v. rowsAt v ''report.resources'' (\<lambda>row field.
       keysAt row field [''kind'', ''id'', ''ownerId'', ''state'', ''sourceRef''] @
       textAt row ''kind'' field @ textAt row ''id'' field @ nullableAt row ''ownerId'' field @
       choiceAt row ''state'' field [''retained'', ''paused'', ''unknown'', ''released''] @ nullableAt row ''sourceRef'' field))"

subsection \<open>The three purposes\<close>

definition validateExecution :: "json option \<Rightarrow> issues" where
  "validateExecution v = (let field = ''report.execution'' in objectAt v field (\<lambda>row.
     keysAt row field [''result'', ''completed'', ''unfinished''] @
     textAt row ''result'' field @ textsAt row ''completed'' field 0 @
     requiredAt row ''unfinished'' field (\<lambda>u. rowsAt u (dot field ''unfinished'') (\<lambda>item at.
       keysAt item at [''item'', ''state'', ''ownerId'', ''reason''] @
       textAt item ''item'' at @ choiceAt item ''state'' at [''open'', ''blocked'', ''waiting''] @
       nullableAt item ''ownerId'' at @ textAt item ''reason'' at))))"

definition candidatePin :: "object_value \<Rightarrow> json option" where
  \<comment> \<open>\<open>candidate.head ?? candidate.snapshotSha256\<close>\<close>
  "candidatePin c = (case map_of c ''head'' of None \<Rightarrow> map_of c ''snapshotSha256'' | Some JNull \<Rightarrow> map_of c ''snapshotSha256'' | Some h \<Rightarrow> Some h)"

definition mismatchAt :: "json option \<Rightarrow> json option \<Rightarrow> string \<Rightarrow> issues" where
  "mismatchAt v other field = (if nonBlank v \<and> v \<noteq> other then err field else [])"

definition validateMandate :: "object_value \<Rightarrow> object_value \<Rightarrow> json option \<Rightarrow> issues" where
  "validateMandate mandate report candidate = (let field = ''report.review.mandate'' in
     keysAt mandate field [''id'', ''assignmentRevision'', ''scopeRevision'', ''candidateRef''] @
     textAt mandate ''id'' field @ textAt mandate ''assignmentRevision'' field @
     textAt mandate ''scopeRevision'' field @ textAt mandate ''candidateRef'' field @
     (case map_of report ''assignment'' of
        Some (JObj a) \<Rightarrow>
          mismatchAt (map_of mandate ''assignmentRevision'') (map_of a ''revision'') (dot field ''assignmentRevision'') @
          mismatchAt (map_of mandate ''scopeRevision'') (map_of a ''scopeRevision'') (dot field ''scopeRevision'')
      | _ \<Rightarrow> []) @
     (case candidate of
        Some (JObj c) \<Rightarrow> mismatchAt (map_of mandate ''candidateRef'') (candidatePin c) (dot field ''candidateRef'')
      | _ \<Rightarrow> err ''candidate''))"

definition unresolvedRefs :: "json option \<Rightarrow> string list \<Rightarrow> issues" where
  "unresolvedRefs v ids = (case listValue v of
       None \<Rightarrow> []
     | Some refs \<Rightarrow> concat (map (\<lambda>(i, r). if r \<in> set ids then [] else err (nth_of ''report.review.findingRefs'' i)) (enumerate 0 refs)))"

definition validateReview :: "json option \<Rightarrow> object_value \<Rightarrow> json option \<Rightarrow> string list \<Rightarrow> issues" where
  "validateReview v report candidate ids = (let field = ''report.review'' in objectAt v field (\<lambda>row.
     keysAt row field [''outcome'', ''mandate'', ''findingRefs''] @
     textAt row ''outcome'' field @
     requiredAt row ''mandate'' field (\<lambda>m. objectAt m (dot field ''mandate'') (\<lambda>mandate. validateMandate mandate report candidate)) @
     textsAt row ''findingRefs'' field 0 @
     unresolvedRefs (map_of row ''findingRefs'') ids))"

definition emptyArray :: "json option \<Rightarrow> bool" where
  "emptyArray v \<longleftrightarrow> v = Some (JArr [])"

definition nonemptyArray :: "json option \<Rightarrow> bool" where
  "nonemptyArray v = (case v of Some (JArr xs) \<Rightarrow> xs \<noteq> [] | _ \<Rightarrow> False)"

definition validateAdjudication :: "json option \<Rightarrow> issues" where
  "validateAdjudication v = (let field = ''report.adjudication'' in objectAt v field (\<lambda>row.
     let state = map_of row ''state''; decisions = map_of row ''decisions''; unresolved = map_of row ''unresolved'' in
     keysAt row field [''summary'', ''state'', ''decisions'', ''unresolved''] @
     textAt row ''summary'' field @
     choiceAt row ''state'' field [''decided'', ''pending'', ''no-material-decision''] @
     requiredAt row ''decisions'' field (\<lambda>ds. rowsAt ds (dot field ''decisions'') (\<lambda>d at.
       keysAt d at [''proposition'', ''ruling'', ''reason'', ''supportingEvidence'', ''contraryEvidence'', ''unresolvedRisk'',
         ''affectedRevision'', ''affectedOwners'', ''notificationRefs'', ''outcomeRefs''] @
       textAt d ''proposition'' at @ textAt d ''ruling'' at @ textAt d ''reason'' at @ textAt d ''unresolvedRisk'' at @ textAt d ''affectedRevision'' at @
       textsAt d ''supportingEvidence'' at 0 @ textsAt d ''contraryEvidence'' at 0 @ textsAt d ''affectedOwners'' at 0 @
       textsAt d ''notificationRefs'' at 0 @ textsAt d ''outcomeRefs'' at 0)) @
     requiredAt row ''unresolved'' field (\<lambda>us. rowsAt us (dot field ''unresolved'') (\<lambda>u at.
       keysAt u at [''proposition'', ''reason'', ''ownerId''] @
       textAt u ''proposition'' at @ textAt u ''reason'' at @ nullableAt u ''ownerId'' at)) @
     (if state = Some (JStr ''decided'') \<and> emptyArray decisions then err (dot field ''decisions'') else []) @
     (if state = Some (JStr ''pending'') \<and> emptyArray unresolved then err (dot field ''unresolved'') else []) @
     (if state = Some (JStr ''no-material-decision'') \<and> (nonemptyArray decisions \<or> nonemptyArray unresolved) then err field else [])))"

subsection \<open>The validator\<close>

definition constField :: "object_value \<Rightarrow> string \<Rightarrow> json \<Rightarrow> issues" where
  "constField report key v = (case map_of report key of
       None \<Rightarrow> err (dot ''report'' key)
     | Some x \<Rightarrow> if x \<noteq> v then err (dot ''report'' key) else [])"

definition nullField :: "object_value \<Rightarrow> string \<Rightarrow> issues" where
  "nullField report key = (if map_of report key \<noteq> Some JNull then err (dot ''report'' key) else [])"

definition validatePurpose :: "object_value \<Rightarrow> json option \<Rightarrow> string list \<Rightarrow> issues" where
  "validatePurpose report candidate ids = (let purpose = map_of report ''purpose'' in
     if purpose = Some (JStr ''execution'') then
       validateExecution (map_of report ''execution'') @ nullField report ''review'' @ nullField report ''adjudication''
     else if purpose = Some (JStr ''review'') then
       nullField report ''execution'' @ validateReview (map_of report ''review'') report candidate ids @ nullField report ''adjudication'' @
       (case map_of report ''assignment'' of
          Some (JObj a) \<Rightarrow> if \<not> nonBlank (map_of a ''revision'') \<or> \<not> nonBlank (map_of a ''scopeRevision'') then err ''report.assignment'' else []
        | _ \<Rightarrow> [])
     else if purpose = Some (JStr ''adjudication'') then
       nullField report ''execution'' @ nullField report ''review'' @ validateAdjudication (map_of report ''adjudication'')
     else nullField report ''execution'' @ nullField report ''review'' @ nullField report ''adjudication'')"

definition validateSlpReportV1 :: "json option \<Rightarrow> json option \<Rightarrow> issues" where
  \<comment> \<open>the errors; the verdict is \<open>errors.length === 0\<close>, and there are no warnings\<close>
  "validateSlpReportV1 v candidate = objectAt v ''report'' (\<lambda>report.
     keysAt report ''report'' reportFields @
     constField report ''format'' (JStr SLP_REPORT_FORMAT) @
     constField report ''version'' (JInt SLP_REPORT_VERSION) @
     choiceAt report ''purpose'' ''report'' SLP_REPORT_PURPOSES @
     requiredAt report ''assignment'' ''report'' validateAssignment @
     validateCommon report @
     requiredAt report ''findings'' ''report'' (\<lambda>v. fst (validateFindings v)) @
     requiredAt report ''execution'' ''report'' (\<lambda>_. []) @ requiredAt report ''review'' ''report'' (\<lambda>_. []) @
     requiredAt report ''adjudication'' ''report'' (\<lambda>_. []) @
     validatePurpose report candidate (snd (validateFindings (map_of report ''findings''))))"

end
