(* ===== verification/Desk_Record.thy ===== *)
theory Desk_Record
  imports Desk_Report
begin

text \<open>
  Report records, version 1: the validator both adapters share
  (plugin/server/runtime/report-records.ts) and the JSON Schema the command line publishes
  (\<open>recordSchema\<close> of plugin/server/runtime/cli/report-records.ts).

  The host is the record \<open>host_env\<close>: the platform (\<open>isAbsolute\<close> of \<open>node:path\<close> is that of the
  platform) and whether \<open>Date.parse\<close> accepts a text. The validator's seams are the other fields of
  \<open>validate_options\<close>: the verifier's repository, the evidence reader, \<open>realpath\<close> (\<open>None\<close> when it
  throws) and the digest of bytes read from disk. \<open>desk_options\<close> is the desk's call, which supplies
  no seam. The hash of a text is \<open>sha256\<close> of the environment. Two lists are returned, errors and
  warnings.
\<close>

datatype evidence_result = Evidence_ok string | Evidence_outside | Evidence_unreadable

record host_env =
  vo_windows :: bool
  vo_dateParses :: "string \<Rightarrow> bool"

record validate_options = host_env +
  vo_repo :: "string option"
  vo_readEvidence :: "(string \<Rightarrow> string \<Rightarrow> evidence_result) option"
  vo_realpath :: "(string \<Rightarrow> string option) option"
  vo_bytesSha256 :: "string \<Rightarrow> string"

definition RECORD_KINDS :: "string list" where "RECORD_KINDS = [''handback'', ''settlement'']"

definition HANDBACK_VERDICTS :: "string list" where
  "HANDBACK_VERDICTS = [''APPROVE'', ''FINDINGS'', ''BLOCKED'', ''REOPEN_REQUEST'', ''DEPENDENCY_REQUEST'']"

definition SETTLEMENT_VIA :: "string list" where
  "SETTLEMENT_VIA = [''paseo-logs'', ''host-transcript'', ''sessions-db'', ''unreadable'', ''unchecked'']"

subsection \<open>Patterns and paths\<close>

definition is_slash :: "char \<Rightarrow> bool" where
  "is_slash c \<longleftrightarrow> (of_char c :: nat) \<in> {47, 92}"

definition is_letter :: "char \<Rightarrow> bool" where
  "is_letter c \<longleftrightarrow> (let n = of_char c :: nat in (65 \<le> n \<and> n \<le> 90) \<or> (97 \<le> n \<and> n \<le> 122))"

definition ascii_digit :: "char \<Rightarrow> bool" where
  "ascii_digit c \<longleftrightarrow> (let n = of_char c :: nat in 48 \<le> n \<and> n \<le> 57)"

definition drive_prefix :: "string \<Rightarrow> bool" where
  "drive_prefix s \<longleftrightarrow> (case s of a # b # _ \<Rightarrow> is_letter a \<and> b = CHR '':'' | _ \<Rightarrow> False)"

definition win32_isAbsolute :: "string \<Rightarrow> bool" where
  "win32_isAbsolute s \<longleftrightarrow> (case s of [] \<Rightarrow> False | a # _ \<Rightarrow>
     is_slash a \<or> (drive_prefix s \<and> (case s of _ # _ # c # _ \<Rightarrow> is_slash c | _ \<Rightarrow> False)))"

definition posix_isAbsolute :: "string \<Rightarrow> bool" where
  "posix_isAbsolute s \<longleftrightarrow> (case s of [] \<Rightarrow> False | a # _ \<Rightarrow> a = CHR ''/'')"

definition isAbsolute :: "validate_options \<Rightarrow> string \<Rightarrow> bool" where
  "isAbsolute V s = (if vo_windows V then win32_isAbsolute s else posix_isAbsolute s)"

fun path_parts :: "string \<Rightarrow> string list" where
  \<comment> \<open>the pieces between slashes and backslashes\<close>
  "path_parts [] = [[]]"
| "path_parts (c # s) = (if is_slash c then [] # path_parts s
     else (case path_parts s of [] \<Rightarrow> [[c]] | p # ps \<Rightarrow> (c # p) # ps))"

definition repository_relative :: "string \<Rightarrow> bool" where
  \<comment> \<open>\<open>REPOSITORY_RELATIVE_PATH_PATTERN\<close>\<close>
  "repository_relative s \<longleftrightarrow> non_space s \<and> \<not> (s \<noteq> [] \<and> is_slash (hd s)) \<and> \<not> drive_prefix s \<and> ''..'' \<notin> set (path_parts s)"

definition utc_timestamp :: "string \<Rightarrow> bool" where
  \<comment> \<open>\<open>UTC_TIMESTAMP_PATTERN\<close>\<close>
  "utc_timestamp s \<longleftrightarrow> 12 \<le> length s \<and> list_all ascii_digit (take 4 s) \<and> s ! 4 = CHR ''-'' \<and>
     list_all ascii_digit (take 2 (drop 5 s)) \<and> s ! 7 = CHR ''-'' \<and> list_all ascii_digit (take 2 (drop 8 s)) \<and>
     s ! 10 = CHR ''T'' \<and> last s = CHR ''Z'' \<and> list_all (\<lambda>c. (of_char c :: nat) \<notin> {10, 13}) (drop 11 s)"

subsection \<open>Issues\<close>

type_synonym verdict = "issues \<times> issues"

definition bad :: "string \<Rightarrow> verdict" where
  "bad field = ([\<lparr>ri_code = ''invalid-record'', ri_field = Some field\<rparr>], [])"

definition bad_code :: "string \<Rightarrow> string \<Rightarrow> verdict" where
  "bad_code code field = ([\<lparr>ri_code = code, ri_field = Some field\<rparr>], [])"

definition warn :: "string \<Rightarrow> string \<Rightarrow> verdict" where
  "warn code field = ([], [\<lparr>ri_code = code, ri_field = Some field\<rparr>])"

definition fine :: verdict where
  "fine = ([], [])"

definition gather :: "verdict list \<Rightarrow> verdict" where
  "gather vs = (concat (map fst vs), concat (map snd vs))"

definition bad_if :: "bool \<Rightarrow> string \<Rightarrow> verdict" where
  "bad_if b field = (if b then bad field else fine)"

definition nonempty :: "json option \<Rightarrow> bool" where
  "nonempty v = nonBlank v"

definition absolutePath :: "validate_options \<Rightarrow> json option \<Rightarrow> bool" where
  "absolutePath V v = (case v of Some (JStr s) \<Rightarrow> isAbsolute V s | _ \<Rightarrow> False)"

definition safeOutputRef :: "validate_options \<Rightarrow> json option \<Rightarrow> bool" where
  "safeOutputRef V v = (case v of
     Some (JStr s) \<Rightarrow> repository_relative s \<and> \<not> isAbsolute V s \<and> \<not> win32_isAbsolute s | _ \<Rightarrow> False)"

definition nullableText :: "json option \<Rightarrow> string \<Rightarrow> verdict" where
  \<comment> \<open>\<open>v !== undefined && v !== null && !nonempty(v)\<close>\<close>
  "nullableText v field = bad_if (v \<noteq> None \<and> v \<noteq> Some JNull \<and> \<not> nonempty v) field"

definition missingKeys :: "object_value \<Rightarrow> string \<Rightarrow> string list \<Rightarrow> verdict" where
  "missingKeys row pre ks = gather (map (\<lambda>k. bad_if (map_of row k = None) (pre @ k)) ks)"

definition textPattern :: "(string \<Rightarrow> bool) \<Rightarrow> json option \<Rightarrow> bool" where
  \<comment> \<open>\<open>typeof v === "string" && PATTERN.test(v)\<close>\<close>
  "textPattern P v = (case v of Some (JStr s) \<Rightarrow> P s | _ \<Rightarrow> False)"

subsection \<open>Candidates\<close>

definition strings :: "json option \<Rightarrow> bool" where
  "strings v = (case v of Some (JArr xs) \<Rightarrow> list_all (\<lambda>x. case x of JStr _ \<Rightarrow> True | _ \<Rightarrow> False) xs | _ \<Rightarrow> False)"

definition validateCandidate :: "validate_options \<Rightarrow> json option \<Rightarrow> string \<Rightarrow> verdict" where
  "validateCandidate V candidate field = (case candidate of
       Some JNull \<Rightarrow> fine
     | Some (JObj c) \<Rightarrow>
         let repository = map_of c ''repository''; snap = map_of c ''snapshotSha256''; head = map_of c ''head'';
             incomplete = map_of c ''incomplete'' in
         gather
           [bad_if (\<not> nonempty repository \<or> \<not> absolutePath V repository) (dot field ''repository''),
            bad_if ((snap \<noteq> None) = (head \<noteq> None)) field,
            bad_if (snap \<noteq> None \<and> \<not> textPattern is_sha snap) (dot field ''snapshotSha256''),
            bad_if (head \<noteq> None \<and> \<not> textPattern is_git_head head) (dot field ''head''),
            (if incomplete \<noteq> None \<and> \<not> strings incomplete then bad (dot field ''incomplete'')
             else if nonemptyArray incomplete then warn ''candidate-incomplete'' field else fine)]
     | _ \<Rightarrow> bad field)"

definition warnRepositoryMismatch :: "validate_options \<Rightarrow> json option \<Rightarrow> string \<Rightarrow> (string \<times> string) list \<Rightarrow> verdict \<times> (string \<times> string) list" where
  \<comment> \<open>the last argument and the second result: the mismatches reported so far\<close>
  "warnRepositoryMismatch V repository field reported =
     (case (repository, vo_repo V, vo_realpath V) of
        (Some (JStr r), Some repo, Some real) \<Rightarrow>
          if isAbsolute V r \<and> isAbsolute V repo then
            (case (real r, real repo) of
               (Some declaredRoot, Some verifierRoot) \<Rightarrow>
                 if declaredRoot \<noteq> verifierRoot \<and> (declaredRoot, verifierRoot) \<notin> set reported
                 then (warn ''repository-mismatch'' field, (declaredRoot, verifierRoot) # reported) else (fine, reported)
             | _ \<Rightarrow> (fine, reported))
          else (fine, reported)
      | _ \<Rightarrow> (fine, reported))"

subsection \<open>Checks\<close>

definition candidateRepository :: "json option \<Rightarrow> json option" where
  "candidateRepository v = (case v of Some (JObj c) \<Rightarrow> map_of c ''repository'' | _ \<Rightarrow> None)"

definition evidenceRepo :: "validate_options \<Rightarrow> json option \<Rightarrow> json option \<Rightarrow> json option" where
  "evidenceRepo V checkCandidate recordRepository = (case vo_repo V of
       Some repo \<Rightarrow> Some (JStr repo)
     | None \<Rightarrow> (case candidateRepository checkCandidate of
         None \<Rightarrow> recordRepository | Some JNull \<Rightarrow> recordRepository | Some r \<Rightarrow> Some r))"

datatype found_evidence =
    Found string
    \<comment> \<open>the digest of the evidence\<close>
  | Absent
  | Reported
    \<comment> \<open>no evidence, and an issue has been pushed (or the reference is invalid)\<close>

definition checkEvidence :: "desk_env \<Rightarrow> validate_options \<Rightarrow> object_value \<Rightarrow> string \<Rightarrow> json option \<Rightarrow> verdict \<times> found_evidence" where
  "checkEvidence E V check field recordRepository = (case map_of check ''output'' of
       Some (JStr text) \<Rightarrow> (fine, Found (sha256 E text))
     | _ \<Rightarrow> (case map_of check ''outputRef'' of
         None \<Rightarrow> (fine, Absent)
       | Some (JStr ref) \<Rightarrow>
           if \<not> safeOutputRef V (Some (JStr ref)) then (fine, Reported)
           else (case evidenceRepo V (map_of check ''candidate'') recordRepository of
               Some (JStr root) \<Rightarrow>
                 if \<not> isAbsolute V root then (warn ''check-evidence-missing'' (dot field ''outputRef''), Reported)
                 else (case (case vo_readEvidence V of None \<Rightarrow> Evidence_unreadable | Some read \<Rightarrow> read root ref) of
                     Evidence_outside \<Rightarrow> (bad (dot field ''outputRef''), Reported)
                   | Evidence_ok bytes \<Rightarrow> (fine, Found (vo_bytesSha256 V bytes))
                   | Evidence_unreadable \<Rightarrow> (warn ''check-evidence-missing'' (dot field ''outputRef''), Reported))
             | _ \<Rightarrow> (warn ''check-evidence-missing'' (dot field ''outputRef''), Reported))
       | Some _ \<Rightarrow> (fine, Reported)))"

definition compareEvidence :: "object_value \<Rightarrow> string \<Rightarrow> found_evidence \<Rightarrow> verdict" where
  "compareEvidence check field evidence = (case evidence of
       Absent \<Rightarrow> warn ''check-evidence-missing'' field
     | Reported \<Rightarrow> fine
     | Found digest \<Rightarrow> (case map_of check ''sha'' of
         None \<Rightarrow> warn ''check-evidence-missing'' (dot field ''sha'')
       | Some JNull \<Rightarrow> warn ''check-evidence-missing'' (dot field ''sha'')
       | Some (JStr s) \<Rightarrow> if is_sha s \<and> digest \<noteq> s then bad_code ''sha-mismatch'' (dot field ''sha'') else fine
       | Some _ \<Rightarrow> fine))"

definition validateCheck :: "desk_env \<Rightarrow> validate_options \<Rightarrow> json option \<Rightarrow> object_value \<Rightarrow> string \<Rightarrow> (string \<times> string) list \<Rightarrow>
    verdict \<times> (string \<times> string) list" where
  "validateCheck E V recordRepository check field reported =
     (let cmd = map_of check ''cmd''; exit = map_of check ''exit''; sha = map_of check ''sha''; output = map_of check ''output'';
          outputRef = map_of check ''outputRef''; candidate = map_of check ''candidate'';
          (mismatch, reported') = (if candidate \<noteq> None
             then warnRepositoryMismatch V (candidateRepository candidate) (dot (dot field ''candidate'') ''repository'') reported
             else (fine, reported));
          (found, evidence) = checkEvidence E V check field recordRepository in
      (gather
         [missingKeys check (field @ ''.'') [''cmd'', ''exit'', ''sha''],
          bad_if (\<not> nonempty cmd) (dot field ''cmd''),
          bad_if (case exit of Some (JInt _) \<Rightarrow> False | _ \<Rightarrow> True) (dot field ''exit''),
          bad_if (sha \<noteq> None \<and> sha \<noteq> Some JNull \<and> \<not> textPattern is_sha sha) (dot field ''sha''),
          bad_if (output \<noteq> None \<and> \<not> textPattern (\<lambda>_. True) output) (dot field ''output''),
          bad_if (outputRef \<noteq> None \<and> \<not> safeOutputRef V outputRef) (dot field ''outputRef''),
          (if candidate \<noteq> None then validateCandidate V candidate (dot field ''candidate'') else fine),
          mismatch, found, compareEvidence check field evidence],
       reported'))"

fun validateCheckRows :: "desk_env \<Rightarrow> validate_options \<Rightarrow> json option \<Rightarrow> nat \<Rightarrow> (string \<times> string) list \<Rightarrow> json list \<Rightarrow> verdict" where
  "validateCheckRows E V repository i reported [] = fine"
| "validateCheckRows E V repository i reported (x # xs) = (case x of
       JObj check \<Rightarrow> (let (v, reported') = validateCheck E V repository check (nth_of ''checks'' i) reported in
         gather [v, validateCheckRows E V repository (Suc i) reported' xs])
     | _ \<Rightarrow> gather [bad (nth_of ''checks'' i), validateCheckRows E V repository (Suc i) reported xs])"

definition validateChecks :: "desk_env \<Rightarrow> validate_options \<Rightarrow> json option \<Rightarrow> (string \<times> string) list \<Rightarrow> json option \<Rightarrow> verdict" where
  "validateChecks E V repository reported v = (case v of
       Some (JArr xs) \<Rightarrow> validateCheckRows E V repository 0 reported xs
     | _ \<Rightarrow> bad ''checks'')"

subsection \<open>The two kinds of record\<close>

definition validateHandback :: "desk_env \<Rightarrow> validate_options \<Rightarrow> object_value \<Rightarrow> verdict" where
  "validateHandback E V r =
     (let candidate = map_of r ''candidate'';
          (mismatch, reported) = (if candidate \<noteq> None
             then warnRepositoryMismatch V (candidateRepository candidate) ''candidate.repository'' [] else (fine, [])) in
      gather
        [missingKeys r [] [''seat'', ''verdict'', ''candidate'', ''checks''],
         (case map_of r ''seat'' of
            None \<Rightarrow> fine
          | Some (JObj seat) \<Rightarrow> gather
              [bad_if (\<not> nonempty (map_of seat ''role'')) ''seat.role'',
               bad_if (\<not> nonempty (map_of seat ''disposition'')) ''seat.disposition'',
               nullableText (map_of seat ''agentId'') ''seat.agentId'']
          | Some _ \<Rightarrow> bad ''seat''),
         bad_if (map_of r ''verdict'' \<noteq> None \<and> map_of r ''verdict'' \<noteq> Some JNull \<and>
           \<not> textPattern (\<lambda>s. s \<in> set HANDBACK_VERDICTS) (map_of r ''verdict'')) ''verdict'',
         (if candidate \<noteq> None then validateCandidate V candidate ''candidate'' else fine),
         mismatch,
         (if map_of r ''checks'' \<noteq> None
          then validateChecks E V (candidateRepository candidate) reported (map_of r ''checks'') else fine),
         (case map_of r ''timeline'' of
            None \<Rightarrow> fine
          | Some (JObj timeline) \<Rightarrow> nullableText (map_of timeline ''sessionId'') ''timeline.sessionId''
          | Some _ \<Rightarrow> bad ''timeline''),
         (case map_of r ''report'' of None \<Rightarrow> fine | Some report \<Rightarrow> (validateSlpReportV1 (Some report) candidate, []))])"

definition validateExport :: "validate_options \<Rightarrow> json option \<Rightarrow> verdict" where
  "validateExport V v = (case v of
       None \<Rightarrow> fine
     | Some JNull \<Rightarrow> fine
     | Some (JObj x) \<Rightarrow> gather
         [bad_if (\<not> safeOutputRef V (map_of x ''path'')) ''timeline.export.path'',
          bad_if (\<not> textPattern is_sha (map_of x ''sha256'')) ''timeline.export.sha256'',
          bad_if (case map_of x ''bytes'' of Some (JInt n) \<Rightarrow> n < 0 | _ \<Rightarrow> True) ''timeline.export.bytes'']
     | Some _ \<Rightarrow> bad ''timeline.export'')"

definition validateTimeline :: "validate_options \<Rightarrow> object_value \<Rightarrow> verdict" where
  "validateTimeline V timeline = gather
     [missingKeys timeline ''timeline.'' [''nativeHandle'', ''sessionId'', ''via'', ''export'', ''gap''],
      nullableText (map_of timeline ''nativeHandle'') ''timeline.nativeHandle'',
      nullableText (map_of timeline ''sessionId'') ''timeline.sessionId'',
      bad_if (map_of timeline ''via'' \<noteq> None \<and> \<not> textPattern (\<lambda>s. s \<in> set SETTLEMENT_VIA) (map_of timeline ''via'')) ''timeline.via'',
      validateExport V (map_of timeline ''export''),
      nullableText (map_of timeline ''gap'') ''timeline.gap'']"

definition validateSettlement :: "validate_options \<Rightarrow> object_value \<Rightarrow> verdict" where
  "validateSettlement V r = gather
     [bad_if (map_of r ''report'' \<noteq> None) ''report'',
      missingKeys r [] [''task'', ''seat'', ''timeline'', ''recordedBy'', ''at''],
      nullableText (map_of r ''task'') ''task'',
      (case map_of r ''seat'' of
         None \<Rightarrow> fine
       | Some (JObj seat) \<Rightarrow> gather
           [bad_if (\<not> nonempty (map_of seat ''provider'')) ''seat.provider'',
            bad_if (\<not> nonempty (map_of seat ''title'')) ''seat.title'',
            nullableText (map_of seat ''agentId'') ''seat.agentId'']
       | Some _ \<Rightarrow> bad ''seat''),
      (case map_of r ''timeline'' of
         None \<Rightarrow> fine
       | Some (JObj timeline) \<Rightarrow> validateTimeline V timeline
       | Some _ \<Rightarrow> bad ''timeline''),
      bad_if (map_of r ''recordedBy'' \<noteq> None \<and> \<not> nonempty (map_of r ''recordedBy'')) ''recordedBy'',
      bad_if (map_of r ''at'' \<noteq> None \<and>
        \<not> textPattern (\<lambda>s. nonblank s \<and> utc_timestamp s \<and> vo_dateParses V s) (map_of r ''at'')) ''at'']"

definition validateReportRecordV1 :: "desk_env \<Rightarrow> validate_options \<Rightarrow> json \<Rightarrow> verdict" where
  "validateReportRecordV1 E V v = (case v of
       JObj r \<Rightarrow> gather
         [(case map_of r ''version'' of
             None \<Rightarrow> bad ''version''
           | Some x \<Rightarrow> if x \<noteq> JInt 1 then bad_code ''unsupported-version'' ''version'' else fine),
          (case map_of r ''kind'' of
             None \<Rightarrow> bad ''kind''
           | Some x \<Rightarrow> if \<not> textPattern (\<lambda>s. s \<in> set RECORD_KINDS) (Some x) then bad_code ''unknown-kind'' ''kind'' else fine),
          (if map_of r ''kind'' = Some (JStr ''handback'') then validateHandback E V r
           else if map_of r ''kind'' = Some (JStr ''settlement'') then validateSettlement V r
           else fine)]
     | _ \<Rightarrow> ([\<lparr>ri_code = ''invalid-record'', ri_field = None\<rparr>], []))"

definition record_valid :: "verdict \<Rightarrow> bool" where
  "record_valid v \<longleftrightarrow> fst v = []"

definition desk_options :: "host_env \<Rightarrow> validate_options" where
  \<comment> \<open>the desk's call supplies no seam: no evidence is read and no path resolved\<close>
  "desk_options H = \<lparr>vo_windows = vo_windows H, vo_dateParses = vo_dateParses H, vo_repo = None, vo_readEvidence = None,
     vo_realpath = None, vo_bytesSha256 = id\<rparr>"

subsection \<open>The published schema\<close>

definition nonBlankStringSchema :: schema where
  "nonBlankStringSchema = All_of [Of_type ''string'', Min_length 1, Pattern non_space]"

definition nullableNonBlankStringSchema :: schema where
  "nullableNonBlankStringSchema = Any_of [Of_type ''null'', nonBlankStringSchema]"

definition absoluteRepositoryPath :: "host_env \<Rightarrow> string \<Rightarrow> bool" where
  \<comment> \<open>\<open>absoluteRepositoryPathPattern\<close>\<close>
  "absoluteRepositoryPath H s \<longleftrightarrow> (if vo_windows H
     then (drive_prefix s \<and> (case s of _ # _ # c # _ \<Rightarrow> is_slash c | _ \<Rightarrow> False)) \<or> take 2 s = [CHR 0x5C, CHR 0x5C]
     else take 1 s = ''/'')"

definition shaSchema :: schema where
  "shaSchema = All_of [Of_type ''string'', Pattern is_sha]"

definition candidateSchema :: "host_env \<Rightarrow> schema" where
  "candidateSchema H = One_of
     [Of_type ''null'',
      All_of
        [Of_type ''object'', Required [''repository''],
         Properties
           [(''repository'', All_of [Of_type ''string'', Min_length 1, Pattern non_space, All_of [Pattern (absoluteRepositoryPath H)]]),
            (''head'', All_of [Of_type ''string'', Pattern is_git_head]),
            (''snapshotSha256'', shaSchema),
            (''incomplete'', All_of [Of_type ''array'', Items (Of_type ''string'')])],
         One_of
           [All_of [Required [''head''], Not_of (Required [''snapshotSha256''])],
            All_of [Required [''snapshotSha256''], Not_of (Required [''head''])]]]]"

definition checkSchema :: "host_env \<Rightarrow> schema" where
  "checkSchema H = All_of
     [Of_type ''object'', Required [''cmd'', ''exit'', ''sha''],
      Properties
        [(''cmd'', nonBlankStringSchema), (''exit'', Of_type ''integer''), (''sha'', One_of [shaSchema, Of_type ''null'']),
         (''output'', Of_type ''string''), (''outputRef'', All_of [Of_type ''string'', Pattern repository_relative]),
         (''candidate'', candidateSchema H)]]"

definition handbackSchema :: "host_env \<Rightarrow> schema" where
  "handbackSchema H = All_of
     [Of_type ''object'', Required [''version'', ''kind'', ''seat'', ''verdict'', ''candidate'', ''checks''],
      Properties
        [(''version'', Const (JInt 1)), (''kind'', Const (JStr ''handback'')),
         (''seat'', All_of [Of_type ''object'', Required [''role'', ''disposition''],
            Properties [(''agentId'', nullableNonBlankStringSchema), (''role'', nonBlankStringSchema), (''disposition'', nonBlankStringSchema)]]),
         (''verdict'', Enum (map JStr HANDBACK_VERDICTS @ [JNull])),
         (''candidate'', candidateSchema H),
         (''checks'', All_of [Of_type ''array'', Items (checkSchema H)]),
         (''timeline'', All_of [Of_type ''object'', Properties [(''sessionId'', nullableNonBlankStringSchema)]]),
         (''report'', SLP_REPORT_V1_SCHEMA)],
      All_of [If_then_else
        (All_of [Properties [(''report'', constAt ''purpose'' (JStr ''review''))], Required [''report'']])
        (Properties [(''candidate'', Of_type ''object'')]) any_value]]"

definition settlementSchema :: schema where
  "settlementSchema = All_of
     [Of_type ''object'', Required [''version'', ''kind'', ''task'', ''seat'', ''timeline'', ''recordedBy'', ''at''],
      Not_of (Required [''report'']),
      Properties
        [(''version'', Const (JInt 1)), (''kind'', Const (JStr ''settlement'')), (''task'', nullableNonBlankStringSchema),
         (''seat'', All_of [Of_type ''object'', Required [''provider'', ''title''],
            Properties [(''agentId'', nullableNonBlankStringSchema), (''provider'', nonBlankStringSchema), (''title'', nonBlankStringSchema)]]),
         (''timeline'', All_of [Of_type ''object'', Required [''nativeHandle'', ''sessionId'', ''via'', ''export'', ''gap''],
            Properties
              [(''nativeHandle'', nullableNonBlankStringSchema), (''sessionId'', nullableNonBlankStringSchema),
               (''via'', enumSchema SETTLEMENT_VIA),
               (''export'', One_of
                 [Of_type ''null'',
                  All_of [Of_type ''object'', Required [''path'', ''sha256'', ''bytes''],
                    Properties [(''path'', All_of [Of_type ''string'', Pattern repository_relative]), (''sha256'', shaSchema),
                      (''bytes'', All_of [Of_type ''integer'', Minimum 0])]]]),
               (''gap'', nullableNonBlankStringSchema)]]),
         (''recordedBy'', nonBlankStringSchema), (''at'', All_of [Of_type ''string'', Pattern utc_timestamp])]]"

definition recordSchema :: "host_env \<Rightarrow> schema" where
  "recordSchema H = One_of [handbackSchema H, settlementSchema]"

end
