(* ===== verification/Desk_Report_Exact.thy ===== *)
theory Desk_Report_Exact
  imports Desk_Report
begin

text \<open>
  The hand-written validator against the published schema: it raises no issue on a report exactly
  if the schema accepts the report and the rules the schema cannot express hold
  (\<open>crossRules\<close>). One lemma per piece of the validator, in the same order; the facts in
  \<open>exact\<close> are what makes each of them a short proof.
\<close>

named_theorems exact "when a piece of the validator raises no issue"

definition accepted :: "schema \<Rightarrow> json option \<Rightarrow> bool" where
  "accepted s v = (case v of None \<Rightarrow> False | Some x \<Rightarrow> satisfies s x)"

lemma accepted_simps [simp]: "accepted s (Some x) = satisfies s x" "\<not> accepted s None"
  by (simp_all add: accepted_def)

lemma accepted_iff: "accepted s v \<longleftrightarrow> (\<exists>x. v = Some x \<and> satisfies s x)"
  by (cases v) simp_all

lemma enumerate_all: "(\<forall>y \<in> set (enumerate 0 xs). P y) \<longleftrightarrow> (\<forall>i < length xs. P (i, xs ! i))"
  unfolding Ball_def in_set_enumerate_eq by auto

subsection \<open>Texts\<close>

lemma trim_empty: "trim s = [] \<longleftrightarrow> (\<forall>c \<in> set s. is_trim_char c)"
proof
  assume "trim s = []"
  then have a: "\<forall>c \<in> set (rev (dropWhile is_trim_char s)). is_trim_char c" by (simp add: trim_def)
  show "\<forall>c \<in> set s. is_trim_char c"
  proof (cases "dropWhile is_trim_char s")
    case Nil
    then show ?thesis by simp
  next
    case (Cons c cs)
    then have "\<not> is_trim_char c" by (simp add: dropWhile_eq_Cons_conv)
    with a Cons show ?thesis by simp
  qed
next
  assume "\<forall>c \<in> set s. is_trim_char c"
  then show "trim s = []" by (auto simp: trim_def dest: set_dropWhileD)
qed

lemma nonblank_non_space: "nonblank s \<longleftrightarrow> non_space s"
  by (simp add: nonblank_def non_space_def trim_empty list_ex_iff)

lemma non_space_nonempty: "non_space s \<Longrightarrow> Suc 0 \<le> length s"
  by (cases s) (simp_all add: non_space_def)

lemma satisfies_nb: "satisfies nb v \<longleftrightarrow> (\<exists>s. v = JStr s \<and> nonblank s)"
  by (cases v) (auto simp: nb_def nonblank_non_space dest: non_space_nonempty)

lemma satisfies_nullable: "satisfies nullableNb v \<longleftrightarrow> v = JNull \<or> satisfies nb v"
  by (simp add: nullableNb_def)

lemma nonBlank_accepted: "nonBlank v \<longleftrightarrow> accepted nb v"
  by (auto simp: nonBlank_def accepted_iff satisfies_nb split: option.splits json.splits)

lemma err_not_Nil [simp]: "err f \<noteq> []"
  by (simp add: err_def)

lemma stringAt_exact [exact]: "stringAt v f False = [] \<longleftrightarrow> accepted nb v" "stringAt v f True = [] \<longleftrightarrow> accepted nullableNb v"
  by (cases v; auto simp: stringAt_def nonBlank_accepted satisfies_nullable)+

lemma enumAt_exact [exact]: "enumAt v f cs = [] \<longleftrightarrow> accepted (enumSchema cs) v"
  by (auto simp: enumAt_def accepted_def split: option.splits json.splits)

lemma requiredAt_exact [exact]: "requiredAt row key f use = [] \<longleftrightarrow> map_of row key \<noteq> None \<and> use (map_of row key) = []"
  by (auto simp: requiredAt_def split: option.splits)

lemma objectAt_exact [exact]: "objectAt v f visit = [] \<longleftrightarrow> (\<exists>row. v = Some (JObj row) \<and> visit row = [])"
  by (auto simp: objectAt_def split: option.splits json.splits)

lemma keysAt_exact [exact]: "keysAt row f ks = [] \<longleftrightarrow> list_all (\<lambda>(k, _). k \<in> set ks) row"
  by (auto simp: keysAt_def concat_map_Nil list_all_iff split: if_splits)

subsection \<open>Arrays and objects\<close>

lemma itemIssues_exact: "itemIssues visit xs = [] \<longleftrightarrow> (\<forall>i < length xs. visit i (xs ! i) = [])"
  by (simp only: itemIssues_def concat_map_Nil enumerate_all split_conv)

lemma satisfies_array: "satisfies (arraySchema s None) v \<longleftrightarrow> (\<exists>xs. v = JArr xs \<and> list_all (satisfies s) xs)"
  "satisfies (arraySchema s (Some n)) v \<longleftrightarrow> (\<exists>xs. v = JArr xs \<and> list_all (satisfies s) xs \<and> n \<le> length xs)"
  by (auto simp: arraySchema_def)

lemma satisfies_stringList: "satisfies stringList v \<longleftrightarrow> satisfies (arraySchema nb None) v"
  by (simp add: stringList_def arraySchema_def)

lemma listAt_exact [exact]:
  "listAt v f 0 = [] \<longleftrightarrow> accepted stringList v"
  "listAt v f (Suc n) = [] \<longleftrightarrow> accepted (arraySchema nb (Some (Suc n))) v"
  by (auto simp: listAt_def accepted_iff satisfies_stringList satisfies_array itemIssues_exact stringAt_exact list_all_length
      split: option.splits json.splits)

lemma rowsAt_exact [exact]:
  "rowsAt v f visit = [] \<longleftrightarrow>
    (\<exists>xs. v = Some (JArr xs) \<and> (\<forall>i < length xs. \<exists>row. xs ! i = JObj row \<and> visit row (nth_of f i) = []))"
  by (auto simp: rowsAt_def itemIssues_exact objectAt_exact split: option.splits json.splits)

lemma accepted_array:
  "accepted (arraySchema s None) v \<longleftrightarrow> (\<exists>xs. v = Some (JArr xs) \<and> (\<forall>i < length xs. satisfies s (xs ! i)))"
  "accepted (arraySchema s (Some n)) v \<longleftrightarrow> (\<exists>xs. v = Some (JArr xs) \<and> (\<forall>i < length xs. satisfies s (xs ! i)) \<and> n \<le> length xs)"
  by (auto simp: accepted_iff satisfies_array list_all_length)

lemma satisfies_object:
  assumes "set required = set (map fst properties)"
  shows "satisfies (objectSchema required properties extra) v \<longleftrightarrow>
    (\<exists>row. v = JObj row \<and> list_all (\<lambda>(k, _). k \<in> set required) row \<and>
      list_all (\<lambda>(k, s). accepted s (map_of row k)) properties) \<and> list_all (\<lambda>s. satisfies s v) extra"
proof -
  have "list_all (\<lambda>k. map_of row k \<noteq> None) required \<and>
      list_all (\<lambda>(k, s). case map_of row k of None \<Rightarrow> True | Some x \<Rightarrow> satisfies s x) properties \<longleftrightarrow>
      list_all (\<lambda>(k, s). accepted s (map_of row k)) properties" for row
    using assms by (fastforce simp: list_all_iff accepted_def split: option.splits)
  moreover have "list_all (\<lambda>(k, _). k \<in> set (map fst properties)) row = list_all (\<lambda>(k, _). k \<in> set required) row" for row :: "(string \<times> json) list"
    using assms by (simp only:)
  ultimately show ?thesis by (cases v) (simp_all add: objectSchema_def, blast)
qed

lemma accepted_object:
  assumes "set required = set (map fst properties)"
  shows "accepted (objectSchema required properties extra) v \<longleftrightarrow>
    (\<exists>row. v = Some (JObj row) \<and> list_all (\<lambda>(k, _). k \<in> set required) row \<and>
      list_all (\<lambda>(k, s). accepted s (map_of row k)) properties \<and> list_all (\<lambda>s. satisfies s (JObj row)) extra)"
  unfolding accepted_iff satisfies_object [OF assms] by auto

lemma accepted_present [simp]: "v \<noteq> None \<and> accepted s v \<longleftrightarrow> accepted s v" "(\<exists>y. v = Some y) \<and> accepted s v \<longleftrightarrow> accepted s v"
  by (auto simp: accepted_iff)

lemma present_absorb [simp]: "(\<exists>y. v = Some y) \<and> (\<exists>x. v = Some (f x) \<and> P x) \<longleftrightarrow> (\<exists>x. v = Some (f x) \<and> P x)"
  by auto

lemma accepted_null [simp]: "accepted (Of_type ''null'') v \<longleftrightarrow> v = Some JNull"
  by (auto simp: accepted_iff)

lemmas object_exact = exact accepted_object satisfies_object accepted_array

subsection \<open>The pieces\<close>

lemma evidence_exact [exact]: "validateEvidence v f = [] \<longleftrightarrow> accepted evidenceSchema v"
  by (simp add: validateEvidence_def evidenceSchema_def object_exact)

lemma execution_exact [exact]: "validateExecution v = [] \<longleftrightarrow> accepted executionSchema v"
  by (simp add: validateExecution_def executionSchema_def Let_def object_exact)

lemma nonempty_array:
  "v \<noteq> Some (JArr []) \<and> (\<exists>xs. v = Some (JArr xs) \<and> P xs) \<longleftrightarrow> (\<exists>xs. v = Some (JArr xs) \<and> P xs \<and> Suc 0 \<le> length xs)"
  by (auto simp: Suc_le_eq)

lemma if_err_Nil [simp]: "(if b then err f else []) = [] \<longleftrightarrow> \<not> b"
  by simp

lemma assignment_exact [exact]: "validateAssignment v = [] \<longleftrightarrow> accepted assignmentSchema v"
  by (simp add: validateAssignment_def assignmentSchema_def Let_def object_exact nonempty_array split del: if_split)

lemma accepted_const [simp]: "accepted (Const c) v \<longleftrightarrow> v = Some c"
  by (auto simp: accepted_iff)

lemma satisfies_constAt: "satisfies (constAt key v) (JObj row) \<longleftrightarrow> map_of row key = Some v"
  by (auto split: option.splits)

lemma satisfies_rule:
  "satisfies (If_then_else (constAt key v) (Properties ps) e) (JObj row) \<longleftrightarrow>
    (if map_of row key = Some v then satisfies (Properties ps) (JObj row) else satisfies e (JObj row))"
  by (simp only: satisfies.simps(18) satisfies_constAt)

lemma properties_present:
  "list_all (\<lambda>(k, _). map_of row k \<noteq> None) ps \<Longrightarrow>
    satisfies (Properties ps) (JObj row) \<longleftrightarrow> list_all (\<lambda>(k, s). accepted s (map_of row k)) ps"
  by (fastforce simp: list_all_iff accepted_def split: option.splits)

lemma satisfied_present: "accepted s v \<Longrightarrow> \<exists>y. v = Some y"
  by (cases v) simp_all

lemma accepted_nullable: "accepted nullableNb v \<longleftrightarrow> v = Some JNull \<or> accepted nb v"
  by (auto simp: accepted_iff satisfies_nullable)

lemma next_action_rule:
  "(if state = Some (JStr ''none'') then action = Some JNull \<and> owner = Some JNull else accepted nb action \<and> accepted nullableNb owner) \<and>
     action \<noteq> None \<and> owner \<noteq> None \<longleftrightarrow>
   accepted nullableNb action \<and> accepted nullableNb owner \<and>
     (if state = Some (JStr ''none'') then action = Some JNull \<and> owner = Some JNull else accepted nb action)"
  by (auto simp: accepted_nullable dest: satisfied_present)

lemma next_action_exact [exact]: "validateNextAction v = [] \<longleftrightarrow> accepted nextActionSchema v"
proof -
  have rule: "satisfies (If_then_else (constAt ''state'' c) (Properties [(''action'', Of_type ''null''), (''ownerId'', Of_type ''null'')])
      (Properties [(''action'', nb)])) (JObj row) \<longleftrightarrow>
    (if map_of row ''state'' = Some c then map_of row ''action'' = Some JNull \<and> map_of row ''ownerId'' = Some JNull
     else accepted nb (map_of row ''action''))"
    if "accepted nullableNb (map_of row ''action'')" "accepted nullableNb (map_of row ''ownerId'')" for row c
    unfolding satisfies_rule using that [THEN satisfied_present] by (subst (1 2) properties_present) simp_all
  let ?keys = "\<lambda>row. list_all (\<lambda>(k, _). k \<in> set [''state'', ''action'', ''ownerId'']) row \<and>
      accepted (enumSchema [''ready'', ''blocked'', ''none'']) (map_of row ''state'')"
  have "validateNextAction v = [] \<longleftrightarrow> (\<exists>row. v = Some (JObj row) \<and> ?keys row \<and>
     (if map_of row ''state'' = Some (JStr ''none'') then map_of row ''action'' = Some JNull \<and> map_of row ''ownerId'' = Some JNull
      else accepted nb (map_of row ''action'') \<and> accepted nullableNb (map_of row ''ownerId'')) \<and>
     map_of row ''action'' \<noteq> None \<and> map_of row ''ownerId'' \<noteq> None)"
    by (auto simp: validateNextAction_def Let_def exact)
  also have "\<dots> \<longleftrightarrow> (\<exists>row. v = Some (JObj row) \<and> ?keys row \<and>
     accepted nullableNb (map_of row ''action'') \<and> accepted nullableNb (map_of row ''ownerId'') \<and>
     (if map_of row ''state'' = Some (JStr ''none'') then map_of row ''action'' = Some JNull \<and> map_of row ''ownerId'' = Some JNull
      else accepted nb (map_of row ''action'')))"
    by (simp only: next_action_rule)
  also have "\<dots> \<longleftrightarrow> accepted nextActionSchema v"
    unfolding nextActionSchema_def by (subst accepted_object) (auto simp add: rule simp del: satisfies.simps(18))
  finally show ?thesis .
qed

lemma mandate_shape:
  "validateMandate m report candidate = [] \<longleftrightarrow> satisfies mandateSchema (JObj m) \<and>
     (\<forall>a. map_of report ''assignment'' = Some (JObj a) \<longrightarrow>
        map_of m ''assignmentRevision'' = map_of a ''revision'' \<and> map_of m ''scopeRevision'' = map_of a ''scopeRevision'') \<and>
     (\<exists>c. candidate = Some (JObj c) \<and> map_of m ''candidateRef'' = candidatePin c)"
  by (auto simp add: validateMandate_def mandateSchema_def Let_def object_exact mismatchAt_def nonBlank_accepted
      split: option.splits json.splits if_splits)

lemma accepted_min_items: "accepted (arraySchema s None) v \<Longrightarrow> accepted (Min_items 1) v \<longleftrightarrow> \<not> emptyArray v"
  by (auto simp: accepted_iff satisfies_array emptyArray_def Suc_le_eq)

lemma accepted_max_items: "accepted (arraySchema s None) v \<Longrightarrow> accepted (Max_items 0) v \<longleftrightarrow> \<not> nonemptyArray v"
  by (auto simp: accepted_iff satisfies_array nonemptyArray_def)

lemma satisfies_named:
  assumes "list_all (\<lambda>(k, _). map_of row k \<noteq> None) ps"
  shows "satisfies (All_of [Properties ps, Required (map fst ps)]) (JObj row) \<longleftrightarrow> list_all (\<lambda>(k, s). accepted s (map_of row k)) ps"
  using assms properties_present [OF assms] by (simp add: list_all_iff split_beta del: satisfies.simps(12))

lemma decision_rows:
  "rowsAt ds f (\<lambda>d at. keysAt d at [''proposition'', ''ruling'', ''reason'', ''supportingEvidence'', ''contraryEvidence'', ''unresolvedRisk'',
       ''affectedRevision'', ''affectedOwners'', ''notificationRefs'', ''outcomeRefs''] @
     textAt d ''proposition'' at @ textAt d ''ruling'' at @ textAt d ''reason'' at @ textAt d ''unresolvedRisk'' at @ textAt d ''affectedRevision'' at @
     textsAt d ''supportingEvidence'' at 0 @ textsAt d ''contraryEvidence'' at 0 @ textsAt d ''affectedOwners'' at 0 @
     textsAt d ''notificationRefs'' at 0 @ textsAt d ''outcomeRefs'' at 0) = [] \<longleftrightarrow> accepted (arraySchema decisionSchema None) ds"
  by (simp add: decisionSchema_def object_exact) (simp add: conj_ac)

lemma unresolved_rows:
  "rowsAt us f (\<lambda>u at. keysAt u at [''proposition'', ''reason'', ''ownerId''] @
     textAt u ''proposition'' at @ textAt u ''reason'' at @ nullableAt u ''ownerId'' at) = [] \<longleftrightarrow> accepted (arraySchema unresolvedSchema None) us"
  by (simp add: unresolvedSchema_def object_exact)

lemma adjudication_exact [exact]: "validateAdjudication v = [] \<longleftrightarrow> accepted adjudicationSchema v"
proof -
  let ?shape = "\<lambda>row. list_all (\<lambda>(k, _). k \<in> set [''summary'', ''state'', ''decisions'', ''unresolved'']) row \<and>
     accepted nb (map_of row ''summary'') \<and> accepted (enumSchema [''decided'', ''pending'', ''no-material-decision'']) (map_of row ''state'') \<and>
     accepted (arraySchema decisionSchema None) (map_of row ''decisions'') \<and>
     accepted (arraySchema unresolvedSchema None) (map_of row ''unresolved'')"
  have rules: "satisfies adjudicationRule (JObj row) \<longleftrightarrow>
      (map_of row ''state'' = Some (JStr ''decided'') \<longrightarrow> \<not> emptyArray (map_of row ''decisions'')) \<and>
      (map_of row ''state'' = Some (JStr ''pending'') \<longrightarrow> \<not> emptyArray (map_of row ''unresolved'')) \<and>
      (map_of row ''state'' = Some (JStr ''no-material-decision'') \<longrightarrow>
         \<not> nonemptyArray (map_of row ''decisions'') \<and> \<not> nonemptyArray (map_of row ''unresolved''))"
    if shape: "?shape row" for row
  proof -
    note present = shape [THEN conjunct2, THEN conjunct2]
    have some: "map_of row ''state'' \<noteq> None" "map_of row ''decisions'' \<noteq> None" "map_of row ''unresolved'' \<noteq> None"
      using present satisfied_present by blast+
    from some have named: "satisfies (All_of [Properties [(''state'', Const c), (k, s)], Required [''state'', k]]) (JObj row) \<longleftrightarrow>
        map_of row ''state'' = Some c \<and> accepted s (map_of row k)" if "map_of row k \<noteq> None" for c k s
      using satisfies_named [of row "[(''state'', Const c), (k, s)]"] that by simp
    from some have three: "satisfies (All_of [Properties [(''state'', Const c), (''decisions'', s), (''unresolved'', s)],
          Required [''state'', ''decisions'', ''unresolved'']]) (JObj row) \<longleftrightarrow>
        map_of row ''state'' = Some c \<and> accepted s (map_of row ''decisions'') \<and> accepted s (map_of row ''unresolved'')" for c s
      using satisfies_named [of row "[(''state'', Const c), (''decisions'', s), (''unresolved'', s)]"] by simp
    have state: "map_of row ''state'' \<in> {Some (JStr ''decided''), Some (JStr ''pending''), Some (JStr ''no-material-decision'')}"
      using present by (auto simp: accepted_iff)
    show ?thesis
      unfolding adjudicationRule_def satisfies.simps(15) list_ex_Nil_iff list_ex_Cons_iff named [OF some(2)] named [OF some(3)] three
      using state accepted_min_items accepted_max_items present by auto
  qed
  have "validateAdjudication v = [] \<longleftrightarrow> (\<exists>row. v = Some (JObj row) \<and> ?shape row \<and>
      (map_of row ''state'' = Some (JStr ''decided'') \<longrightarrow> \<not> emptyArray (map_of row ''decisions'')) \<and>
      (map_of row ''state'' = Some (JStr ''pending'') \<longrightarrow> \<not> emptyArray (map_of row ''unresolved'')) \<and>
      (map_of row ''state'' = Some (JStr ''no-material-decision'') \<longrightarrow>
         \<not> nonemptyArray (map_of row ''decisions'') \<and> \<not> nonemptyArray (map_of row ''unresolved'')))"
    by (simp add: validateAdjudication_def Let_def decision_rows unresolved_rows exact del: rowsAt_exact)
  also have "\<dots> \<longleftrightarrow> accepted adjudicationSchema v"
    unfolding adjudicationSchema_def by (subst accepted_object) (auto simp add: rules)
  finally show ?thesis .
qed

subsection \<open>Findings\<close>

lemma evidence_row: "satisfies evidenceSchema x \<Longrightarrow> \<exists>row. x = JObj row"
  by (auto simp: evidenceSchema_def objectSchema_def)

lemma evidence_observed:
  assumes "satisfies evidenceSchema x"
  shows "evidenceBasis x = Some (JStr ''observed'') \<longleftrightarrow> satisfies (constAt ''basis'' (JStr ''observed'')) x"
  using evidence_row [OF assms] satisfies_constAt by (auto simp: evidenceBasis_def simp del: satisfies.simps)

lemma finding_evidence_exact:
  "findingEvidence v state f = [] \<longleftrightarrow> accepted (arraySchema evidenceSchema (Some 1)) v \<and>
     (state = Some (JStr ''confirmed'') \<longrightarrow> accepted (Contains (constAt ''basis'' (JStr ''observed''))) v)"
proof (cases "\<exists>xs. v = Some (JArr xs)")
  case True
  then obtain xs where v: "v = Some (JArr xs)" by blast
  have items: "itemIssues (\<lambda>i x. validateEvidence (Some x) (nth_of g i)) xs = [] \<longleftrightarrow> (\<forall>x \<in> set xs. satisfies evidenceSchema x)" for g
    by (simp add: itemIssues_exact evidence_exact all_set_conv_all_nth)
  have basis: "Some (JStr ''observed'') \<in> set (map evidenceBasis xs) \<longleftrightarrow> (\<exists>x \<in> set xs. satisfies (constAt ''basis'' (JStr ''observed'')) x)"
    if "\<forall>x \<in> set xs. satisfies evidenceSchema x"
    using evidence_observed that by (force simp del: satisfies.simps)
  have s: "accepted (arraySchema evidenceSchema (Some 1)) v \<longleftrightarrow> (\<forall>x \<in> set xs. satisfies evidenceSchema x) \<and> xs \<noteq> []"
    by (auto simp: v satisfies_array list_all_iff Suc_le_eq)
  have c: "accepted (Contains k) v \<longleftrightarrow> (\<exists>x \<in> set xs. satisfies k x)" for k
    by (simp add: v list_ex_iff)
  show ?thesis
    unfolding s c using basis by (auto simp add: findingEvidence_def v items simp del: satisfies.simps set_map)
next
  case False
  then show ?thesis by (auto simp: findingEvidence_def accepted_iff satisfies_array split: option.splits json.splits)
qed

lemma finding_exact:
  "validateFinding ids row f = [] \<longleftrightarrow> satisfies findingSchema (JObj row) \<and> set (knownIds [] (map_of row ''id'')) \<inter> set ids = {}"
proof -
  have rule: "satisfies (All_of [If_then_else (constAt ''state'' c) (Properties [(''evidence'', s)]) any_value]) (JObj row) \<longleftrightarrow>
      (map_of row ''state'' = Some c \<longrightarrow> accepted s (map_of row ''evidence''))" if "map_of row ''evidence'' \<noteq> None" for c s
    using that satisfies_rule [of "''state''" c "[(''evidence'', s)]" any_value row] by (auto simp del: satisfies.simps(18))
  have known: "accepted nb v \<Longrightarrow> duplicateId ids v f = [] \<longleftrightarrow> set (knownIds [] v) \<inter> set ids = {}" for v
    by (auto simp: duplicateId_def knownIds_def split: option.splits json.splits)
  have "satisfies findingSchema (JObj row) \<longleftrightarrow>
      list_all (\<lambda>(k, _). k \<in> set [''id'', ''state'', ''obligation'', ''evidence'', ''remedy'']) row \<and>
      accepted nb (map_of row ''id'') \<and> accepted (enumSchema [''hypothesis'', ''confirmed'']) (map_of row ''state'') \<and>
      accepted nb (map_of row ''obligation'') \<and> accepted (arraySchema evidenceSchema (Some 1)) (map_of row ''evidence'') \<and>
      accepted nb (map_of row ''remedy'') \<and>
      (map_of row ''state'' = Some (JStr ''confirmed'') \<longrightarrow> accepted (Contains (constAt ''basis'' (JStr ''observed''))) (map_of row ''evidence''))"
    unfolding findingSchema_def by (subst satisfies_object) (auto simp add: rule dest: satisfied_present simp del: satisfies.simps(9-18))
  then show ?thesis
    unfolding validateFinding_def append_is_Nil_conv exact finding_evidence_exact
    using known by (auto dest: satisfied_present)
qed

definition findingId :: "json \<Rightarrow> string list" where
  \<comment> \<open>the id of a finding, if it has one that is not blank\<close>
  "findingId x = (case x of JObj row \<Rightarrow> knownIds [] (map_of row ''id'') | _ \<Rightarrow> [])"

lemma knownIds_append: "knownIds ids v = ids @ knownIds [] v"
  by (simp add: knownIds_def split: option.splits json.splits)

lemma findingId_distinct: "distinct (findingId x)"
  by (auto simp: findingId_def knownIds_def split: json.splits option.splits)

lemma finding_rows_ids: "snd (validateFindingRows f i ids xs) = ids @ concat (map findingId xs)"
proof (induction f i ids xs rule: validateFindingRows.induct)
  case (2 f i ids x xs)
  then show ?case
    by (cases x) (simp_all add: findingId_def knownIds_append [of ids] split_beta Let_def)
qed simp

lemma finding_is_object: "satisfies findingSchema x \<Longrightarrow> \<exists>row. x = JObj row"
  by (auto simp: findingSchema_def objectSchema_def)

lemma finding_rows_exact:
  "fst (validateFindingRows f i ids xs) = [] \<longleftrightarrow> list_all (satisfies findingSchema) xs \<and>
     distinct (concat (map findingId xs)) \<and> set (concat (map findingId xs)) \<inter> set ids = {}"
proof (induction f i ids xs rule: validateFindingRows.induct)
  case (2 f i ids x xs)
  show ?case
  proof (cases "\<exists>row. x = JObj row")
    case True
    then obtain row where x: "x = JObj row" by blast
    have k: "set (knownIds ids (map_of row ''id'')) = set ids \<union> set (findingId x)"
      by (simp add: x findingId_def knownIds_append [of ids])
    let ?F = "concat (map findingId xs)"
    have step: "fst (validateFindingRows f i ids (x # xs)) = [] \<longleftrightarrow>
        (satisfies findingSchema x \<and> set (findingId x) \<inter> set ids = {}) \<and>
        fst (validateFindingRows f (Suc i) (knownIds ids (map_of row ''id'')) xs) = []"
      by (simp add: x finding_exact findingId_def split_beta Let_def del: satisfies.simps)
    have "distinct (concat (map findingId (x # xs))) \<longleftrightarrow> distinct ?F \<and> set (findingId x) \<inter> set ?F = {}"
      and "set (concat (map findingId (x # xs))) = set (findingId x) \<union> set ?F"
      by (simp_all add: findingId_distinct)
    then show ?thesis unfolding step 2(6) [OF x] k list_all_Cons_iff by blast
  next
    case False
    then have "\<not> satisfies findingSchema x" using finding_is_object by blast
    with False show ?thesis by (cases x) (simp_all add: split_beta Let_def)
  qed
qed simp

lemma findings_exact:
  "fst (validateFindings v) = [] \<longleftrightarrow> accepted (arraySchema findingSchema None) v \<and> distinct (snd (validateFindings v))"
  by (auto simp add: validateFindings_def finding_rows_exact finding_rows_ids accepted_iff satisfies_array
      simp del: satisfies.simps split: option.splits json.splits)

subsection \<open>The report\<close>

fun prop_at :: "json option \<Rightarrow> string list \<Rightarrow> json option" where
  "prop_at v [] = v"
| "prop_at (Some (JObj row)) (k # ks) = prop_at (map_of row k) ks"
| "prop_at _ (k # ks) = None"

definition findingIds :: "json \<Rightarrow> string list" where
  "findingIds report = (case prop_at (Some report) [''findings''] of Some (JArr xs) \<Rightarrow> concat (map findingId xs) | _ \<Rightarrow> [])"

definition reviewRules :: "json option \<Rightarrow> json \<Rightarrow> bool" where
  \<comment> \<open>a review names the revisions of its assignment, the candidate of its envelope and findings of its report\<close>
  "reviewRules candidate report \<longleftrightarrow>
     (let at = prop_at (Some report); mandate = (\<lambda>k. at [''review'', ''mandate'', k]) in
      nonBlank (at [''assignment'', ''revision'']) \<and> nonBlank (at [''assignment'', ''scopeRevision'']) \<and>
      mandate ''assignmentRevision'' = at [''assignment'', ''revision''] \<and>
      mandate ''scopeRevision'' = at [''assignment'', ''scopeRevision''] \<and>
      (\<exists>c. candidate = Some (JObj c) \<and> mandate ''candidateRef'' = candidatePin c) \<and>
      (\<forall>refs. listValue (at [''review'', ''findingRefs'']) = Some refs \<longrightarrow> set refs \<subseteq> set (findingIds report)))"

definition crossRules :: "json option \<Rightarrow> json \<Rightarrow> bool" where
  "crossRules candidate report \<longleftrightarrow> distinct (findingIds report) \<and>
     (prop_at (Some report) [''purpose''] = Some (JStr ''review'') \<longrightarrow> reviewRules candidate report)"

lemma findings_ids: "snd (validateFindings (map_of row ''findings'')) = findingIds (JObj row)"
  by (simp add: validateFindings_def findingIds_def finding_rows_ids split: option.splits json.splits)

lemma constField_exact [exact]: "constField row k c = [] \<longleftrightarrow> accepted (Const c) (map_of row k)"
  by (simp add: constField_def split: option.splits)

lemma nullField_exact [exact]: "nullField row k = [] \<longleftrightarrow> accepted (Of_type ''null'') (map_of row k)"
  by (simp add: nullField_def)

lemma unresolvedRefs_exact: "unresolvedRefs v ids = [] \<longleftrightarrow> (\<forall>refs. listValue v = Some refs \<longrightarrow> set refs \<subseteq> set ids)"
proof (cases "listValue v")
  case (Some refs)
  have "unresolvedRefs v ids = [] \<longleftrightarrow> (\<forall>i < length refs. refs ! i \<in> set ids)"
    by (auto simp: unresolvedRefs_def Some concat_map_Nil enumerate_all)
  then show ?thesis by (auto simp: Some subset_code(1) all_set_conv_all_nth)
qed (simp add: unresolvedRefs_def)

definition commonFields :: "string list" where
  "commonFields = [''assumptions'', ''unknowns'', ''selfReport'', ''owners'', ''dependencies'', ''nextAction'', ''resources'']"

definition commonOk :: "object_value \<Rightarrow> bool" where
  "commonOk row \<longleftrightarrow> list_all (\<lambda>(k, s). accepted s (map_of row k)) (filter (\<lambda>(k, _). k \<in> set commonFields) reportProperties)"

lemma common_exact: "validateCommon row = [] \<longleftrightarrow> commonOk row"
  by (simp add: commonOk_def commonFields_def validateCommon_def reportProperties_def ownerSchema_def dependencySchema_def
      resourceSchema_def object_exact next_action_exact)

lemma accepted_branch: "accepted (One_of [s, Of_type ''null'']) v \<longleftrightarrow> accepted s v \<noteq> (v = Some JNull)" if "v \<noteq> None"
  using that by (auto simp: accepted_def)

lemma review_exact:
  assumes "map_of row ''assignment'' = Some (JObj a)"
  shows "validateReview (map_of row ''review'') row candidate (findingIds (JObj row)) = [] \<and>
       nonBlank (map_of a ''revision'') \<and> nonBlank (map_of a ''scopeRevision'') \<longleftrightarrow>
     accepted reviewSchema (map_of row ''review'') \<and> reviewRules candidate (JObj row)"
proof -
  have "accepted reviewSchema v \<longleftrightarrow> (\<exists>r m. v = Some (JObj r) \<and> list_all (\<lambda>(k, _). k \<in> set [''outcome'', ''mandate'', ''findingRefs'']) r \<and>
      accepted nb (map_of r ''outcome'') \<and> map_of r ''mandate'' = Some (JObj m) \<and> satisfies mandateSchema (JObj m) \<and>
      accepted stringList (map_of r ''findingRefs''))" for v
    unfolding reviewSchema_def
    by (subst accepted_object) (auto simp: accepted_iff mandateSchema_def satisfies_object)
  moreover have "validateReview v row candidate ids = [] \<longleftrightarrow> (\<exists>r m. v = Some (JObj r) \<and> list_all (\<lambda>(k, _). k \<in> set [''outcome'', ''mandate'', ''findingRefs'']) r \<and>
      accepted nb (map_of r ''outcome'') \<and> map_of r ''mandate'' = Some (JObj m) \<and> validateMandate m row candidate = [] \<and>
      accepted stringList (map_of r ''findingRefs'') \<and>
      (\<forall>refs. listValue (map_of r ''findingRefs'') = Some refs \<longrightarrow> set refs \<subseteq> set ids))" for v ids
    by (auto simp: validateReview_def Let_def exact unresolvedRefs_exact)
  ultimately show ?thesis
    unfolding mandate_shape by (auto simp add: reviewRules_def Let_def assms simp del: satisfies.simps)
qed

lemma report_fields:
  "list_all (\<lambda>(k, s). accepted s (map_of row k)) reportProperties \<longleftrightarrow>
     accepted (Const (JStr SLP_REPORT_FORMAT)) (map_of row ''format'') \<and> accepted (Const (JInt SLP_REPORT_VERSION)) (map_of row ''version'') \<and>
     accepted (enumSchema SLP_REPORT_PURPOSES) (map_of row ''purpose'') \<and> accepted assignmentSchema (map_of row ''assignment'') \<and> commonOk row \<and>
     accepted (arraySchema findingSchema None) (map_of row ''findings'') \<and>
     accepted (One_of [executionSchema, Of_type ''null'']) (map_of row ''execution'') \<and>
     accepted (One_of [reviewSchema, Of_type ''null'']) (map_of row ''review'') \<and>
     accepted (One_of [adjudicationSchema, Of_type ''null'']) (map_of row ''adjudication'')"
  unfolding commonOk_def commonFields_def reportProperties_def
  by (simp del: accepted_const One_nat_def) (simp only: conj_ac)

lemma purpose_rules:
  assumes "accepted (enumSchema SLP_REPORT_PURPOSES) (map_of row ''purpose'')"
    and "map_of row ''execution'' \<noteq> None" and "map_of row ''review'' \<noteq> None" and "map_of row ''adjudication'' \<noteq> None"
  shows "satisfies (purposeRule p ps) (JObj row) \<longleftrightarrow> (map_of row ''purpose'' = Some (JStr p) \<longrightarrow> satisfies (Properties ps) (JObj row))"
  unfolding purposeRule_def satisfies_rule by simp

lemma branch_rules:
  assumes "map_of row ''execution'' \<noteq> None" and "map_of row ''review'' \<noteq> None" and "map_of row ''adjudication'' \<noteq> None"
  shows "satisfies (Properties [(''execution'', e), (''review'', r), (''adjudication'', a)]) (JObj row) \<longleftrightarrow>
    accepted e (map_of row ''execution'') \<and> accepted r (map_of row ''review'') \<and> accepted a (map_of row ''adjudication'')"
  using assms by (subst properties_present) simp_all

lemma no_null [simp]:
  "\<not> satisfies executionSchema JNull" "\<not> satisfies reviewSchema JNull" "\<not> satisfies adjudicationSchema JNull"
  by (simp_all add: executionSchema_def reviewSchema_def adjudicationSchema_def objectSchema_def)

definition reportShape :: "object_value \<Rightarrow> bool" where
  \<comment> \<open>what does not depend on the purpose\<close>
  "reportShape row \<longleftrightarrow> list_all (\<lambda>(k, _). k \<in> set reportFields) row \<and>
     accepted (Const (JStr SLP_REPORT_FORMAT)) (map_of row ''format'') \<and>
     accepted (Const (JInt SLP_REPORT_VERSION)) (map_of row ''version'') \<and>
     accepted (enumSchema SLP_REPORT_PURPOSES) (map_of row ''purpose'') \<and> accepted assignmentSchema (map_of row ''assignment'') \<and>
     commonOk row \<and> accepted (arraySchema findingSchema None) (map_of row ''findings'') \<and>
     map_of row ''execution'' \<noteq> None \<and> map_of row ''review'' \<noteq> None \<and> map_of row ''adjudication'' \<noteq> None"

abbreviation branchesOk :: "object_value \<Rightarrow> schema \<Rightarrow> schema \<Rightarrow> schema \<Rightarrow> bool" where
  "branchesOk row e r a \<equiv>
     accepted e (map_of row ''execution'') \<and> accepted r (map_of row ''review'') \<and> accepted a (map_of row ''adjudication'')"

abbreviation null_schema :: schema where
  "null_schema \<equiv> Of_type ''null''"

abbreviation purposeIs :: "object_value \<Rightarrow> string \<Rightarrow> bool" where
  "purposeIs row p \<equiv> map_of row ''purpose'' = Some (JStr p)"

lemma validator_split:
  "validateSlpReportV1 (Some (JObj row)) candidate = [] \<longleftrightarrow> reportShape row \<and> distinct (findingIds (JObj row)) \<and>
     validatePurpose row candidate (findingIds (JObj row)) = []"
  unfolding validateSlpReportV1_def reportShape_def
  by (simp add: exact common_exact findings_exact findings_ids del: accepted_const) (auto dest: satisfied_present)

lemma schema_split:
  "satisfies SLP_REPORT_V1_SCHEMA (JObj row) \<longleftrightarrow> reportShape row \<and>
     branchesOk row (One_of [executionSchema, null_schema]) (One_of [reviewSchema, null_schema]) (One_of [adjudicationSchema, null_schema]) \<and>
     (purposeIs row ''execution'' \<longrightarrow> branchesOk row executionSchema null_schema null_schema) \<and>
     (purposeIs row ''review'' \<longrightarrow> branchesOk row null_schema reviewSchema null_schema) \<and>
     (purposeIs row ''adjudication'' \<longrightarrow> branchesOk row null_schema null_schema adjudicationSchema)" (is "_ \<longleftrightarrow> ?rhs")
proof -
  have set: "set reportFields = set (map fst reportProperties)"
    by (simp add: reportFields_def reportProperties_def)
  have "satisfies SLP_REPORT_V1_SCHEMA (JObj row) \<longleftrightarrow>
      list_all (\<lambda>(k, _). k \<in> set reportFields) row \<and> list_all (\<lambda>(k, s). accepted s (map_of row k)) reportProperties \<and>
      satisfies (purposeRule ''execution'' [(''execution'', executionSchema), (''review'', null_schema), (''adjudication'', null_schema)]) (JObj row) \<and>
      satisfies (purposeRule ''review'' [(''execution'', null_schema), (''review'', reviewSchema), (''adjudication'', null_schema)]) (JObj row) \<and>
      satisfies (purposeRule ''adjudication'' [(''execution'', null_schema), (''review'', null_schema), (''adjudication'', adjudicationSchema)]) (JObj row)"
    unfolding SLP_REPORT_V1_SCHEMA_def satisfies_object [OF set]
    by (simp del: satisfies.simps(1-13,15-18) accepted_const)
  also have "\<dots> \<longleftrightarrow> ?rhs"
    using purpose_rules branch_rules unfolding report_fields reportShape_def by (smt (verit) accepted_simps(2))
  finally show ?thesis .
qed

lemma purpose_exact:
  assumes "reportShape row"
  shows "validatePurpose row candidate (findingIds (JObj row)) = [] \<longleftrightarrow>
     branchesOk row (One_of [executionSchema, null_schema]) (One_of [reviewSchema, null_schema]) (One_of [adjudicationSchema, null_schema]) \<and>
     (purposeIs row ''execution'' \<longrightarrow> branchesOk row executionSchema null_schema null_schema) \<and>
     (purposeIs row ''review'' \<longrightarrow> branchesOk row null_schema reviewSchema null_schema \<and> reviewRules candidate (JObj row)) \<and>
     (purposeIs row ''adjudication'' \<longrightarrow> branchesOk row null_schema null_schema adjudicationSchema)"
proof -
  note present = assms [unfolded reportShape_def, THEN conjunct2, THEN conjunct2, THEN conjunct2]
  from present obtain a where a: "map_of row ''assignment'' = Some (JObj a)"
    by (auto simp: accepted_iff assignmentSchema_def objectSchema_def)
  have some: "map_of row ''execution'' \<noteq> None" "map_of row ''review'' \<noteq> None" "map_of row ''adjudication'' \<noteq> None"
    using present by simp_all
  from present consider "purposeIs row ''execution''" | "purposeIs row ''review''" | "purposeIs row ''adjudication''"
    by (auto simp: accepted_iff SLP_REPORT_PURPOSES_def)
  then show ?thesis
  proof cases
    case 1
    then show ?thesis using some by (auto simp add: validatePurpose_def exact accepted_branch simp del: satisfies.simps)
  next
    case 2
    then show ?thesis using some review_exact [OF a, of candidate]
      by (auto simp add: validatePurpose_def exact accepted_branch a simp del: satisfies.simps)
  next
    case 3
    then show ?thesis using some by (auto simp add: validatePurpose_def exact accepted_branch simp del: satisfies.simps)
  qed
qed

text \<open>C29. The published JSON Schema of the structured report and the hand-written validator agree: on any
  value the validator raises no issue exactly if the schema accepts the value and the rules the schema cannot
  express hold, which are that finding ids are distinct and that a review names its own assignment's
  revisions, its envelope's candidate and findings of its own report.\<close>

theorem report_validator_exact:
  "validateSlpReportV1 (Some report) candidate = [] \<longleftrightarrow> satisfies SLP_REPORT_V1_SCHEMA report \<and> crossRules candidate report"
proof (cases "\<exists>row. report = JObj row")
  case False
  then show ?thesis
    by (auto simp: validateSlpReportV1_def objectAt_def SLP_REPORT_V1_SCHEMA_def objectSchema_def split: json.splits)
next
  case True
  then obtain row where row: "report = JObj row" by blast
  show ?thesis unfolding row validator_split schema_split crossRules_def using purpose_exact [of row candidate] by auto
qed

end
