(* ===== verification/Desk_Record_Exact.thy ===== *)
theory Desk_Record_Exact
  imports Desk_Record Desk_Report_Exact Desk_Examples "HOL-Library.Code_Target_Nat"
begin

text \<open>
  The shared record validator against the schema the command line publishes. Called as the desk
  calls it, on a POSIX host, it accepts a record exactly if the schema does and the rules a schema
  cannot express hold (\<open>recordRules\<close>): inline output hashes to the digest beside it, the report's
  cross rules, and a timestamp \<open>Date.parse\<close> reads. On Windows the two disagree
  (\<open>windows_schema_is_stricter\<close>).
\<close>

definition optional :: "schema \<Rightarrow> json option \<Rightarrow> bool" where
  "optional s v = (case v of None \<Rightarrow> True | Some x \<Rightarrow> satisfies s x)"

lemma optional_simps [simp]: "optional s None" "optional s (Some x) = satisfies s x"
  by (simp_all add: optional_def)

lemma optional_present [simp]: "(\<exists>y. v = Some y) \<and> optional s v \<longleftrightarrow> accepted s v"
  by (cases v) simp_all

lemma accepted_optional: "accepted s v \<longleftrightarrow> v \<noteq> None \<and> optional s v"
  by (cases v) simp_all

lemma satisfies_properties: "satisfies (Properties ps) (JObj row) \<longleftrightarrow> list_all (\<lambda>(k, s). optional s (map_of row k)) ps"
  by (simp add: optional_def list_all_iff split_beta)

lemma open_object:
  assumes "list_all (\<lambda>k. k \<in> set (map fst ps)) required"
  shows "satisfies (All_of (Of_type ''object'' # Required required # Properties ps # rest)) v \<longleftrightarrow>
    (\<exists>row. v = JObj row \<and>
      list_all (\<lambda>(k, s). if k \<in> set required then accepted s (map_of row k) else optional s (map_of row k)) ps \<and>
      list_all (\<lambda>s. satisfies s v) rest)"
proof -
  have split: "(if k \<in> set required then accepted s (map_of row k) else optional s (map_of row k)) \<longleftrightarrow>
      (k \<in> set required \<longrightarrow> map_of row k \<noteq> None) \<and> optional s (map_of row k)" for row k s
    by (cases "map_of row k") simp_all
  have "list_all (\<lambda>k. map_of row k \<noteq> None) required \<and> list_all (\<lambda>(k, s). optional s (map_of row k)) ps \<longleftrightarrow>
      list_all (\<lambda>(k, s). if k \<in> set required then accepted s (map_of row k) else optional s (map_of row k)) ps" for row
    using assms unfolding split list_all_iff by (auto; force)
  moreover have "satisfies (All_of (Of_type ''object'' # Required required # Properties ps # rest)) v \<longleftrightarrow>
      (\<exists>row. v = JObj row \<and> (list_all (\<lambda>k. map_of row k \<noteq> None) required \<and> list_all (\<lambda>(k, s). optional s (map_of row k)) ps) \<and>
        list_all (\<lambda>s. satisfies s v) rest)"
    by (auto simp add: satisfies_properties simp del: satisfies.simps(12))
  ultimately show ?thesis by simp
qed

subsection \<open>Verdicts\<close>

definition clean :: "verdict \<Rightarrow> bool" where
  "clean v \<longleftrightarrow> fst v = []"

lemma clean_simps [simp]:
  "clean fine" "\<not> clean (bad f)" "\<not> clean (bad_code c f)" "clean (warn c f)" "clean (bad_if b f) \<longleftrightarrow> \<not> b"
  "clean (gather vs) \<longleftrightarrow> list_all clean vs" "clean (xs, ws) \<longleftrightarrow> xs = []"
  by (auto simp: clean_def fine_def bad_def bad_code_def warn_def bad_if_def gather_def concat_map_Nil list_all_iff)

lemma clean_missing [simp]: "clean (missingKeys row p ks) \<longleftrightarrow> list_all (\<lambda>k. map_of row k \<noteq> None) ks"
  by (simp add: missingKeys_def list_all_iff)

lemma texts: "nonBlankStringSchema = nb" "nullableNonBlankStringSchema = nullableNb"
  by (simp_all add: nonBlankStringSchema_def nullableNonBlankStringSchema_def nb_def nullableNb_def)

lemma nonempty_accepted: "nonempty v \<longleftrightarrow> accepted nb v"
  by (simp add: nonempty_def nonBlank_accepted)

lemma clean_nullable [simp]: "clean (nullableText v f) \<longleftrightarrow> optional nullableNb v"
  by (cases v) (auto simp: nullableText_def nonempty_accepted satisfies_nullable)

lemma textPattern_accepted: "textPattern P v \<longleftrightarrow> accepted (All_of [Of_type ''string'', Pattern P]) v"
  by (cases v) (auto simp: textPattern_def split: json.splits)

lemma relative_not_absolute:
  assumes "repository_relative s"
  shows "\<not> win32_isAbsolute s" "\<not> isAbsolute V s"
proof -
  show "\<not> win32_isAbsolute s"
    using assms by (cases s) (auto simp: repository_relative_def win32_isAbsolute_def)
  moreover have "posix_isAbsolute s \<Longrightarrow> win32_isAbsolute s"
    by (cases s) (auto simp: posix_isAbsolute_def win32_isAbsolute_def is_slash_def)
  ultimately show "\<not> isAbsolute V s" by (auto simp: isAbsolute_def)
qed

lemma safeOutputRef_accepted: "safeOutputRef V v \<longleftrightarrow> accepted (All_of [Of_type ''string'', Pattern repository_relative]) v"
  by (cases v) (auto simp: safeOutputRef_def relative_not_absolute split: json.splits)

subsection \<open>Candidates\<close>

lemma posix_repository:
  assumes "\<not> vo_windows V" and "\<not> vo_windows H"
  shows "nonempty v \<and> absolutePath V v \<longleftrightarrow>
    accepted (All_of [Of_type ''string'', Min_length 1, Pattern non_space, All_of [Pattern (absoluteRepositoryPath H)]]) v"
proof -
  have "isAbsolute V s \<longleftrightarrow> absoluteRepositoryPath H s" for s
    using assms by (cases s) (simp_all add: isAbsolute_def posix_isAbsolute_def absoluteRepositoryPath_def)
  then show ?thesis
    by (cases v) (auto simp: nonempty_accepted satisfies_nb absolutePath_def nonblank_non_space dest: non_space_nonempty split: json.splits)
qed

lemma strings_accepted: "strings v \<longleftrightarrow> accepted (All_of [Of_type ''array'', Items (Of_type ''string'')]) v"
  by (cases v) (auto simp: strings_def list_all_iff split: json.splits)

definition pathSchema :: "host_env \<Rightarrow> schema" where
  "pathSchema H = All_of [Of_type ''string'', Min_length 1, Pattern non_space, All_of [Pattern (absoluteRepositoryPath H)]]"

lemma candidate_exact:
  assumes "\<not> vo_windows V" and "\<not> vo_windows H"
  shows "clean (validateCandidate V c f) \<longleftrightarrow> accepted (candidateSchema H) c"
proof (cases "\<exists>row. c = Some (JObj row)")
  case True
  then obtain row where c: "c = Some (JObj row)" by blast
  let ?sha = "map_of row ''snapshotSha256''" and ?head = "map_of row ''head''" and ?inc = "map_of row ''incomplete''"
  have "clean (validateCandidate V c f) \<longleftrightarrow>
      accepted (pathSchema H) (map_of row ''repository'') \<and> (?sha \<noteq> None) \<noteq> (?head \<noteq> None) \<and>
      optional shaSchema ?sha \<and> optional (All_of [Of_type ''string'', Pattern is_git_head]) ?head \<and>
      optional (All_of [Of_type ''array'', Items (Of_type ''string'')]) ?inc"
    unfolding pathSchema_def posix_repository [OF assms, symmetric] shaSchema_def
    by (cases ?sha; cases ?head; cases ?inc)
      (auto simp add: c validateCandidate_def Let_def textPattern_accepted strings_accepted simp del: satisfies.simps)
  also have "\<dots> \<longleftrightarrow> accepted (candidateSchema H) c"
    unfolding candidateSchema_def pathSchema_def [symmetric] c accepted_simps one_of_two satisfies.simps(1)
    by (subst open_object) (auto simp add: shaSchema_def simp del: satisfies.simps(12))
  finally show ?thesis .
next
  case False
  then show ?thesis
    by (auto simp: validateCandidate_def candidateSchema_def accepted_def split: option.splits json.splits)
qed

subsection \<open>Checks\<close>

definition checkDigestOk :: "desk_env \<Rightarrow> object_value \<Rightarrow> bool" where
  "checkDigestOk E check \<longleftrightarrow> (\<forall>text s. map_of check ''output'' = Some (JStr text) \<longrightarrow> map_of check ''sha'' = Some (JStr s) \<longrightarrow>
     s = sha256 E text)"

lemma clean_mismatch [simp]: "clean (fst (warnRepositoryMismatch V r f rep))"
  by (auto simp: warnRepositoryMismatch_def Let_def split: option.splits json.splits)

lemma clean_maybe_mismatch: "clean (fst (if b then warnRepositoryMismatch V r f rep else (fine, rep'))) \<longleftrightarrow> True"
  by simp

lemma desk_evidence:
  "clean (fst (checkEvidence E (desk_options H) check f repository))"
  "snd (checkEvidence E (desk_options H) check f repository) = Found d \<longleftrightarrow> (\<exists>text. map_of check ''output'' = Some (JStr text) \<and> d = sha256 E text)"
  by (auto simp: checkEvidence_def desk_options_def split: option.splits json.splits)

lemma compare_exact:
  "clean (compareEvidence check f ev) \<longleftrightarrow> (\<forall>d s. ev = Found d \<longrightarrow> map_of check ''sha'' = Some (JStr s) \<longrightarrow> is_sha s \<longrightarrow> s = d)"
  by (auto simp: compareEvidence_def split: found_evidence.splits option.splits json.splits)

lemma desk_windows [simp]: "vo_windows (desk_options H) = vo_windows H" "vo_dateParses (desk_options H) = vo_dateParses H"
  by (simp_all add: desk_options_def)

lemma check_exact:
  assumes "\<not> vo_windows H"
  shows "clean (fst (validateCheck E (desk_options H) repository check f reported)) \<longleftrightarrow>
    satisfies (checkSchema H) (JObj check) \<and> checkDigestOk E check"
proof -
  let ?sha = "map_of check ''sha''"
  have sha: "?sha \<noteq> None \<and> \<not> (?sha \<noteq> None \<and> ?sha \<noteq> Some JNull \<and> \<not> textPattern is_sha ?sha) \<longleftrightarrow>
      accepted (One_of [shaSchema, Of_type ''null'']) ?sha"
    by (cases ?sha) (auto simp: textPattern_accepted shaSchema_def)
  have schema: "satisfies (checkSchema H) (JObj check) \<longleftrightarrow>
      accepted nb (map_of check ''cmd'') \<and> accepted (Of_type ''integer'') (map_of check ''exit'') \<and>
      accepted (One_of [shaSchema, Of_type ''null'']) ?sha \<and> optional (Of_type ''string'') (map_of check ''output'') \<and>
      optional (All_of [Of_type ''string'', Pattern repository_relative]) (map_of check ''outputRef'') \<and>
      optional (candidateSchema H) (map_of check ''candidate'')"
    unfolding checkSchema_def texts by (subst open_object) (auto simp del: satisfies.simps)
  have digest: "accepted (One_of [shaSchema, Of_type ''null'']) ?sha \<Longrightarrow>
      clean (compareEvidence check f (snd (checkEvidence E (desk_options H) check f repository))) \<longleftrightarrow> checkDigestOk E check"
  proof -
    assume "accepted (One_of [shaSchema, Of_type ''null'']) ?sha"
    then have "?sha = Some (JStr s) \<Longrightarrow> is_sha s" for s by (simp add: shaSchema_def)
    then show ?thesis unfolding compare_exact desk_evidence(2) checkDigestOk_def by metis
  qed
  have cand: "clean (if map_of check ''candidate'' \<noteq> None then validateCandidate (desk_options H) (map_of check ''candidate'') g else fine) \<longleftrightarrow>
      optional (candidateSchema H) (map_of check ''candidate'')" for g
    using candidate_exact [of "desk_options H" H] assms by (cases "map_of check ''candidate''") auto
  have exit: "(case map_of check ''exit'' of Some (JInt _) \<Rightarrow> False | _ \<Rightarrow> True) \<longleftrightarrow> \<not> accepted (Of_type ''integer'') (map_of check ''exit'')"
    by (auto simp: accepted_def split: option.splits json.splits)
  have out: "(map_of check ''output'' \<noteq> None \<and> \<not> textPattern (\<lambda>_. True) (map_of check ''output'')) \<longleftrightarrow>
      \<not> optional (Of_type ''string'') (map_of check ''output'')"
    by (cases "map_of check ''output''") (auto simp: textPattern_def split: json.splits)
  have ref: "(map_of check ''outputRef'' \<noteq> None \<and> \<not> safeOutputRef (desk_options H) (map_of check ''outputRef'')) \<longleftrightarrow>
      \<not> optional (All_of [Of_type ''string'', Pattern repository_relative]) (map_of check ''outputRef'')"
    unfolding safeOutputRef_accepted by (cases "map_of check ''outputRef''") simp_all
  have "clean (fst (validateCheck E (desk_options H) repository check f reported)) \<longleftrightarrow>
      accepted nb (map_of check ''cmd'') \<and> accepted (Of_type ''integer'') (map_of check ''exit'') \<and>
      accepted (One_of [shaSchema, Of_type ''null'']) ?sha \<and> optional (Of_type ''string'') (map_of check ''output'') \<and>
      optional (All_of [Of_type ''string'', Pattern repository_relative]) (map_of check ''outputRef'') \<and>
      optional (candidateSchema H) (map_of check ''candidate'') \<and>
      clean (compareEvidence check f (snd (checkEvidence E (desk_options H) check f repository)))"
  proof -
    have "clean (fst (validateCheck E (desk_options H) repository check f reported)) \<longleftrightarrow>
        (map_of check ''cmd'' \<noteq> None \<and> map_of check ''exit'' \<noteq> None \<and> ?sha \<noteq> None) \<and> accepted nb (map_of check ''cmd'') \<and>
        accepted (Of_type ''integer'') (map_of check ''exit'') \<and> \<not> (?sha \<noteq> None \<and> ?sha \<noteq> Some JNull \<and> \<not> textPattern is_sha ?sha) \<and>
        optional (Of_type ''string'') (map_of check ''output'') \<and>
        optional (All_of [Of_type ''string'', Pattern repository_relative]) (map_of check ''outputRef'') \<and>
        optional (candidateSchema H) (map_of check ''candidate'') \<and>
        clean (compareEvidence check f (snd (checkEvidence E (desk_options H) check f repository)))"
      unfolding validateCheck_def Let_def split_beta fst_conv clean_simps list_all_Cons_iff list_all_Nil_iff exit out ref cand
        clean_missing clean_maybe_mismatch nonempty_accepted
      using desk_evidence(1) [of E H check f repository] by satx
    then show ?thesis unfolding sha [symmetric] unfolding accepted_optional by satx
  qed
  then show ?thesis unfolding schema using digest by auto
qed

definition digestsOk :: "desk_env \<Rightarrow> json option \<Rightarrow> bool" where
  "digestsOk E v \<longleftrightarrow> (\<forall>xs check. v = Some (JArr xs) \<longrightarrow> JObj check \<in> set xs \<longrightarrow> checkDigestOk E check)"

lemma check_is_object: "satisfies (checkSchema H) x \<Longrightarrow> \<exists>row. x = JObj row"
  by (auto simp: checkSchema_def)

lemma check_rows_exact:
  assumes "\<not> vo_windows H"
  shows "clean (validateCheckRows E (desk_options H) repository i reported xs) \<longleftrightarrow>
    list_all (satisfies (checkSchema H)) xs \<and> digestsOk E (Some (JArr xs))"
proof (induction xs arbitrary: i reported)
  case (Cons x xs)
  have digests: "digestsOk E (Some (JArr (x # xs))) \<longleftrightarrow> (\<forall>c. x = JObj c \<longrightarrow> checkDigestOk E c) \<and> digestsOk E (Some (JArr xs))"
    by (auto simp: digestsOk_def)
  show ?case
  proof (cases "\<exists>c. x = JObj c")
    case True
    then obtain c where x: "x = JObj c" by blast
    show ?thesis
      unfolding digests unfolding x by (simp add: split_beta Let_def check_exact [OF assms] Cons.IH del: satisfies.simps) blast
  next
    case False
    then have "\<not> satisfies (checkSchema H) x" using check_is_object by blast
    with False show ?thesis by (cases x) (simp_all del: satisfies.simps)
  qed
qed (simp add: digestsOk_def)

lemma checks_exact:
  assumes "\<not> vo_windows H"
  shows "clean (validateChecks E (desk_options H) repository reported v) \<longleftrightarrow>
    accepted (All_of [Of_type ''array'', Items (checkSchema H)]) v \<and> digestsOk E v"
  by (cases v) (auto simp: validateChecks_def check_rows_exact [OF assms] split: json.splits)

subsection \<open>The two kinds\<close>

definition handbackSeat :: schema where
  "handbackSeat = All_of [Of_type ''object'', Required [''role'', ''disposition''],
     Properties [(''agentId'', nullableNonBlankStringSchema), (''role'', nonBlankStringSchema), (''disposition'', nonBlankStringSchema)]]"

definition settlementSeat :: schema where
  "settlementSeat = All_of [Of_type ''object'', Required [''provider'', ''title''],
     Properties [(''agentId'', nullableNonBlankStringSchema), (''provider'', nonBlankStringSchema), (''title'', nonBlankStringSchema)]]"

lemma object_case:
  assumes "\<And>row. clean (visit row) \<longleftrightarrow> satisfies s (JObj row)" and "\<And>x. satisfies s x \<Longrightarrow> \<exists>row. x = JObj row"
  shows "clean (case v of None \<Rightarrow> fine | Some (JObj row) \<Rightarrow> visit row | Some _ \<Rightarrow> bad f) \<longleftrightarrow> optional s v"
proof (cases v)
  case (Some x)
  then show ?thesis using assms(1) assms(2) [of x] by (cases x) auto
qed simp

lemma handback_seat:
  "clean (case v of None \<Rightarrow> fine | Some (JObj seat) \<Rightarrow> gather [bad_if (\<not> nonempty (map_of seat ''role'')) ''seat.role'',
       bad_if (\<not> nonempty (map_of seat ''disposition'')) ''seat.disposition'', nullableText (map_of seat ''agentId'') ''seat.agentId'']
     | Some _ \<Rightarrow> bad f) \<longleftrightarrow> optional handbackSeat v"
proof (rule object_case)
  fix seat
  show "clean (gather [bad_if (\<not> nonempty (map_of seat ''role'')) ''seat.role'',
       bad_if (\<not> nonempty (map_of seat ''disposition'')) ''seat.disposition'', nullableText (map_of seat ''agentId'') ''seat.agentId'']) \<longleftrightarrow>
    satisfies handbackSeat (JObj seat)"
    unfolding handbackSeat_def by (subst open_object) (auto simp add: texts nonempty_accepted simp del: satisfies.simps)
qed (auto simp: handbackSeat_def)

lemma settlement_seat:
  "clean (case v of None \<Rightarrow> fine | Some (JObj seat) \<Rightarrow> gather [bad_if (\<not> nonempty (map_of seat ''provider'')) ''seat.provider'',
       bad_if (\<not> nonempty (map_of seat ''title'')) ''seat.title'', nullableText (map_of seat ''agentId'') ''seat.agentId'']
     | Some _ \<Rightarrow> bad f) \<longleftrightarrow> optional settlementSeat v"
proof (rule object_case)
  fix seat
  show "clean (gather [bad_if (\<not> nonempty (map_of seat ''provider'')) ''seat.provider'',
       bad_if (\<not> nonempty (map_of seat ''title'')) ''seat.title'', nullableText (map_of seat ''agentId'') ''seat.agentId'']) \<longleftrightarrow>
    satisfies settlementSeat (JObj seat)"
    unfolding settlementSeat_def by (subst open_object) (auto simp add: texts nonempty_accepted simp del: satisfies.simps)
qed (auto simp: settlementSeat_def)

definition sessionSchema :: schema where
  "sessionSchema = All_of [Of_type ''object'', Properties [(''sessionId'', nullableNonBlankStringSchema)]]"

lemma handback_timeline:
  "clean (case v of None \<Rightarrow> fine | Some (JObj t) \<Rightarrow> nullableText (map_of t ''sessionId'') g | Some _ \<Rightarrow> bad f) \<longleftrightarrow> optional sessionSchema v"
proof (rule object_case)
  show "clean (nullableText (map_of t ''sessionId'') g) \<longleftrightarrow> satisfies sessionSchema (JObj t)" for t
    unfolding sessionSchema_def satisfies.simps(14) list_all_Cons_iff satisfies_properties by (simp add: texts)
qed (auto simp: sessionSchema_def)

definition exportSchema :: schema where
  "exportSchema = All_of [Of_type ''object'', Required [''path'', ''sha256'', ''bytes''],
     Properties [(''path'', All_of [Of_type ''string'', Pattern repository_relative]), (''sha256'', shaSchema),
       (''bytes'', All_of [Of_type ''integer'', Minimum 0])]]"

lemma export_exact: "clean (validateExport V v) \<longleftrightarrow> optional (One_of [Of_type ''null'', exportSchema]) v"
proof -
  have row: "clean (gather [bad_if (\<not> safeOutputRef V (map_of x ''path'')) ''timeline.export.path'',
      bad_if (\<not> textPattern is_sha (map_of x ''sha256'')) ''timeline.export.sha256'',
      bad_if (case map_of x ''bytes'' of Some (JInt n) \<Rightarrow> n < 0 | _ \<Rightarrow> True) ''timeline.export.bytes'']) \<longleftrightarrow> satisfies exportSchema (JObj x)" for x
  proof -
    have "(case map_of x ''bytes'' of Some (JInt n) \<Rightarrow> n < 0 | _ \<Rightarrow> True) \<longleftrightarrow> \<not> accepted (All_of [Of_type ''integer'', Minimum 0]) (map_of x ''bytes'')"
      by (auto simp: accepted_def split: option.splits json.splits)
    then show ?thesis
      unfolding exportSchema_def by (subst open_object) (auto simp add: safeOutputRef_accepted textPattern_accepted shaSchema_def simp del: satisfies.simps)
  qed
  have "satisfies exportSchema x \<Longrightarrow> \<exists>row. x = JObj row" for x by (auto simp: exportSchema_def)
  then show ?thesis
    using row by (cases v; cases "the v") (auto simp add: validateExport_def simp del: clean_simps(6) split: json.splits)
qed

definition timelineSchema :: schema where
  "timelineSchema = All_of [Of_type ''object'', Required [''nativeHandle'', ''sessionId'', ''via'', ''export'', ''gap''],
     Properties
       [(''nativeHandle'', nullableNonBlankStringSchema), (''sessionId'', nullableNonBlankStringSchema),
        (''via'', enumSchema SETTLEMENT_VIA), (''export'', One_of [Of_type ''null'', exportSchema]),
        (''gap'', nullableNonBlankStringSchema)]]"

lemma required_optional: "v \<noteq> None \<Longrightarrow> optional s v \<longleftrightarrow> accepted s v"
  by (cases v) simp_all

lemma enum_pattern: "textPattern (\<lambda>s. s \<in> set cs) v \<longleftrightarrow> accepted (enumSchema cs) v"
  by (cases v) (auto simp: textPattern_def split: json.splits)

lemma settlement_timeline:
  "clean (case v of None \<Rightarrow> fine | Some (JObj t) \<Rightarrow> validateTimeline V t | Some _ \<Rightarrow> bad f) \<longleftrightarrow> optional timelineSchema v"
proof (rule object_case)
  fix t
  show "clean (validateTimeline V t) \<longleftrightarrow> satisfies timelineSchema (JObj t)"
  proof -
    let ?p = "map_of t"
    have "satisfies timelineSchema (JObj t) \<longleftrightarrow> accepted nullableNb (?p ''nativeHandle'') \<and> accepted nullableNb (?p ''sessionId'') \<and>
        accepted (enumSchema SETTLEMENT_VIA) (?p ''via'') \<and> accepted (One_of [Of_type ''null'', exportSchema]) (?p ''export'') \<and>
        accepted nullableNb (?p ''gap'')"
      unfolding timelineSchema_def texts by (subst open_object) (simp_all del: satisfies.simps one_of_two)
    moreover have "clean (validateTimeline V t) \<longleftrightarrow>
        (?p ''nativeHandle'' \<noteq> None \<and> ?p ''sessionId'' \<noteq> None \<and> ?p ''via'' \<noteq> None \<and> ?p ''export'' \<noteq> None \<and> ?p ''gap'' \<noteq> None) \<and>
        optional nullableNb (?p ''nativeHandle'') \<and> optional nullableNb (?p ''sessionId'') \<and> accepted (enumSchema SETTLEMENT_VIA) (?p ''via'') \<and>
        optional (One_of [Of_type ''null'', exportSchema]) (?p ''export'') \<and> optional nullableNb (?p ''gap'')"
      unfolding validateTimeline_def enum_pattern clean_simps list_all_Cons_iff list_all_Nil_iff clean_missing clean_nullable export_exact by satx
    ultimately show ?thesis unfolding accepted_optional by satx
  qed
qed (auto simp: timelineSchema_def)

text \<open>The two branches of the published schema, their nested literals named.\<close>

lemma settlementSchema_named: "settlementSchema = All_of
    [Of_type ''object'', Required [''version'', ''kind'', ''task'', ''seat'', ''timeline'', ''recordedBy'', ''at''],
     Not_of (Required [''report'']),
     Properties
       [(''version'', Const (JInt 1)), (''kind'', Const (JStr ''settlement'')), (''task'', nullableNonBlankStringSchema),
        (''seat'', settlementSeat), (''timeline'', timelineSchema),
        (''recordedBy'', nonBlankStringSchema), (''at'', All_of [Of_type ''string'', Pattern utc_timestamp])]]"
  by (simp add: settlementSchema_def settlementSeat_def timelineSchema_def exportSchema_def)

lemma utc_nonblank: "utc_timestamp s \<Longrightarrow> nonblank s"
proof -
  assume "utc_timestamp s"
  then have "CHR ''T'' \<in> set s" by (auto simp: utc_timestamp_def intro: nth_mem [of 10 s, THEN back_subst [of "\<lambda>c. c \<in> set s"]])
  then show "nonblank s" by (force simp: nonblank_non_space non_space_def list_ex_iff is_trim_char_def)
qed

lemma settlement_fields:
  "satisfies settlementSchema (JObj r) \<longleftrightarrow> map_of r ''report'' = None \<and>
     accepted (Const (JInt 1)) (map_of r ''version'') \<and> accepted (Const (JStr ''settlement'')) (map_of r ''kind'') \<and>
     accepted nullableNb (map_of r ''task'') \<and> accepted settlementSeat (map_of r ''seat'') \<and>
     accepted timelineSchema (map_of r ''timeline'') \<and> accepted nb (map_of r ''recordedBy'') \<and>
     accepted (All_of [Of_type ''string'', Pattern utc_timestamp]) (map_of r ''at'')"
proof -
  have "satisfies settlementSchema (JObj r) \<longleftrightarrow> map_of r ''report'' = None \<and>
      satisfies (All_of (Of_type ''object'' # Required [''version'', ''kind'', ''task'', ''seat'', ''timeline'', ''recordedBy'', ''at''] #
        Properties [(''version'', Const (JInt 1)), (''kind'', Const (JStr ''settlement'')), (''task'', nullableNonBlankStringSchema),
          (''seat'', settlementSeat), (''timeline'', timelineSchema), (''recordedBy'', nonBlankStringSchema),
          (''at'', All_of [Of_type ''string'', Pattern utc_timestamp])] # [])) (JObj r)"
    unfolding settlementSchema_named by (auto simp add: satisfies_properties simp del: satisfies.simps(12))
  then show ?thesis unfolding texts by (subst (asm) open_object) (auto simp del: satisfies.simps)
qed

lemma settlement_exact:
  assumes "map_of r ''version'' = Some (JInt 1)" and "map_of r ''kind'' = Some (JStr ''settlement'')"
  shows "clean (validateSettlement (desk_options H) r) \<longleftrightarrow> satisfies settlementSchema (JObj r) \<and>
    (\<forall>s. map_of r ''at'' = Some (JStr s) \<longrightarrow> vo_dateParses H s)"
proof -
  have kind: "accepted (Const (JInt 1)) (map_of r ''version'')" "accepted (Const (JStr ''settlement'')) (map_of r ''kind'')"
    using assms by simp_all
  have at: "map_of r ''at'' \<noteq> None \<and>
      \<not> (map_of r ''at'' \<noteq> None \<and> \<not> textPattern (\<lambda>s. nonblank s \<and> utc_timestamp s \<and> vo_dateParses H s) (map_of r ''at'')) \<longleftrightarrow>
      accepted (All_of [Of_type ''string'', Pattern utc_timestamp]) (map_of r ''at'') \<and> (\<forall>s. map_of r ''at'' = Some (JStr s) \<longrightarrow> vo_dateParses H s)"
    by (cases "map_of r ''at''") (auto simp: textPattern_def utc_nonblank split: json.splits)
  have "clean (validateSettlement (desk_options H) r) \<longleftrightarrow> map_of r ''report'' = None \<and>
      (map_of r ''task'' \<noteq> None \<and> map_of r ''seat'' \<noteq> None \<and> map_of r ''timeline'' \<noteq> None \<and> map_of r ''recordedBy'' \<noteq> None) \<and>
      optional nullableNb (map_of r ''task'') \<and> optional settlementSeat (map_of r ''seat'') \<and> optional timelineSchema (map_of r ''timeline'') \<and>
      accepted nb (map_of r ''recordedBy'') \<and>
      (map_of r ''at'' \<noteq> None \<and>
        \<not> (map_of r ''at'' \<noteq> None \<and> \<not> textPattern (\<lambda>s. nonblank s \<and> utc_timestamp s \<and> vo_dateParses H s) (map_of r ''at'')))"
    unfolding validateSettlement_def clean_simps list_all_Cons_iff list_all_Nil_iff clean_missing clean_nullable settlement_seat
      settlement_timeline desk_windows append_Nil
    unfolding nonempty_accepted by satx
  then show ?thesis
    unfolding at settlement_fields using kind unfolding accepted_optional by satx
qed

lemma handbackSchema_named: "handbackSchema H = All_of
    [Of_type ''object'', Required [''version'', ''kind'', ''seat'', ''verdict'', ''candidate'', ''checks''],
     Properties
       [(''version'', Const (JInt 1)), (''kind'', Const (JStr ''handback'')), (''seat'', handbackSeat),
        (''verdict'', Enum (map JStr HANDBACK_VERDICTS @ [JNull])), (''candidate'', candidateSchema H),
        (''checks'', All_of [Of_type ''array'', Items (checkSchema H)]), (''timeline'', sessionSchema),
        (''report'', SLP_REPORT_V1_SCHEMA)],
     All_of [If_then_else
       (All_of [Properties [(''report'', constAt ''purpose'' (JStr ''review''))], Required [''report'']])
       (Properties [(''candidate'', Of_type ''object'')]) any_value]]"
  by (simp add: handbackSchema_def handbackSeat_def sessionSchema_def)

lemma review_needs_candidate:
  "satisfies (If_then_else
       (All_of [Properties [(''report'', K)], Required [''report'']])
       (Properties [(''candidate'', Of_type ''object'')]) any_value) (JObj r) \<longleftrightarrow>
   (\<forall>report. map_of r ''report'' = Some report \<longrightarrow> satisfies K report \<longrightarrow>
      optional (Of_type ''object'') (map_of r ''candidate''))"
  unfolding satisfies.simps(14,18) list_all_Cons_iff list_all_Nil_iff satisfies_properties
  by (cases "map_of r ''report''") (auto simp add: satisfies.simps(11) simp del: satisfies.simps(1-10,12-18))

lemma handback_fields:
  "satisfies (handbackSchema H) (JObj r) \<longleftrightarrow>
     accepted (Const (JInt 1)) (map_of r ''version'') \<and> accepted (Const (JStr ''handback'')) (map_of r ''kind'') \<and>
     accepted handbackSeat (map_of r ''seat'') \<and> accepted (Enum (map JStr HANDBACK_VERDICTS @ [JNull])) (map_of r ''verdict'') \<and>
     accepted (candidateSchema H) (map_of r ''candidate'') \<and> accepted (All_of [Of_type ''array'', Items (checkSchema H)]) (map_of r ''checks'') \<and>
     optional sessionSchema (map_of r ''timeline'') \<and> optional SLP_REPORT_V1_SCHEMA (map_of r ''report'') \<and>
     (\<forall>report. map_of r ''report'' = Some report \<longrightarrow> satisfies (constAt ''purpose'' (JStr ''review'')) report \<longrightarrow>
        optional (Of_type ''object'') (map_of r ''candidate''))"
  unfolding handbackSchema_named
  by (subst open_object) (simp_all add: review_needs_candidate satisfies.simps(14) del: satisfies.simps(1-13,15-18) one_of_two)

definition recordRules :: "desk_env \<Rightarrow> host_env \<Rightarrow> json \<Rightarrow> bool" where
  \<comment> \<open>what the published schema cannot express\<close>
  "recordRules E H record \<longleftrightarrow> (case record of
       JObj r \<Rightarrow>
         (map_of r ''kind'' = Some (JStr ''handback'') \<longrightarrow> digestsOk E (map_of r ''checks'') \<and>
            (\<forall>report. map_of r ''report'' = Some report \<longrightarrow> crossRules (map_of r ''candidate'') report)) \<and>
         (map_of r ''kind'' = Some (JStr ''settlement'') \<longrightarrow> (\<forall>s. map_of r ''at'' = Some (JStr s) \<longrightarrow> vo_dateParses H s))
     | _ \<Rightarrow> True)"

lemma cross_needs_candidate:
  assumes "crossRules candidate report" and "satisfies (constAt ''purpose'' (JStr ''review'')) report" and "satisfies SLP_REPORT_V1_SCHEMA report"
  shows "optional (Of_type ''object'') candidate"
proof -
  from assms(3) obtain row where "report = JObj row" by (auto simp: SLP_REPORT_V1_SCHEMA_def objectSchema_def)
  then have "prop_at (Some report) [''purpose''] = Some (JStr ''review'')" using assms(2) satisfies_constAt by simp
  with assms(1) show ?thesis by (auto simp: crossRules_def reviewRules_def Let_def)
qed

lemma verdict_accepted:
  "v \<noteq> None \<and> \<not> (v \<noteq> None \<and> v \<noteq> Some JNull \<and> \<not> textPattern (\<lambda>s. s \<in> set cs) v) \<longleftrightarrow> accepted (Enum (map JStr cs @ [JNull])) v"
  by (cases v) (auto simp: textPattern_def split: json.splits)

lemma handback_exact:
  assumes "\<not> vo_windows H" and "map_of r ''version'' = Some (JInt 1)" and "map_of r ''kind'' = Some (JStr ''handback'')"
  shows "clean (validateHandback E (desk_options H) r) \<longleftrightarrow> satisfies (handbackSchema H) (JObj r) \<and> digestsOk E (map_of r ''checks'') \<and>
    (\<forall>report. map_of r ''report'' = Some report \<longrightarrow> crossRules (map_of r ''candidate'') report)"
proof -
  let ?p = "map_of r" and ?V = "desk_options H"
  have kind: "accepted (Const (JInt 1)) (?p ''version'')" "accepted (Const (JStr ''handback'')) (?p ''kind'')"
    using assms(2,3) by simp_all
  have report: "clean (case ?p ''report'' of None \<Rightarrow> fine | Some report \<Rightarrow> (validateSlpReportV1 (Some report) (?p ''candidate''), [])) \<longleftrightarrow>
      optional SLP_REPORT_V1_SCHEMA (?p ''report'') \<and> (\<forall>report. ?p ''report'' = Some report \<longrightarrow> crossRules (?p ''candidate'') report)"
    by (cases "?p ''report''") (simp_all add: report_validator_exact)
  have cand: "clean (if ?p ''candidate'' \<noteq> None then validateCandidate ?V (?p ''candidate'') f else fine) \<longleftrightarrow> optional (candidateSchema H) (?p ''candidate'')" for f
    using candidate_exact [of ?V H] assms(1) by (cases "?p ''candidate''") auto
  have checks: "clean (if ?p ''checks'' \<noteq> None then validateChecks E ?V d rep (?p ''checks'') else fine) \<longleftrightarrow>
      optional (All_of [Of_type ''array'', Items (checkSchema H)]) (?p ''checks'') \<and> digestsOk E (?p ''checks'')" for d rep
    using checks_exact [OF assms(1)] by (cases "?p ''checks''") (auto simp: digestsOk_def)
  have "clean (validateHandback E ?V r) \<longleftrightarrow>
      (?p ''seat'' \<noteq> None \<and> ?p ''candidate'' \<noteq> None \<and> ?p ''checks'' \<noteq> None) \<and> optional handbackSeat (?p ''seat'') \<and>
      (?p ''verdict'' \<noteq> None \<and> \<not> (?p ''verdict'' \<noteq> None \<and> ?p ''verdict'' \<noteq> Some JNull \<and> \<not> textPattern (\<lambda>s. s \<in> set HANDBACK_VERDICTS) (?p ''verdict''))) \<and>
      optional (candidateSchema H) (?p ''candidate'') \<and>
      (optional (All_of [Of_type ''array'', Items (checkSchema H)]) (?p ''checks'') \<and> digestsOk E (?p ''checks'')) \<and>
      optional sessionSchema (?p ''timeline'') \<and>
      (optional SLP_REPORT_V1_SCHEMA (?p ''report'') \<and> (\<forall>report. ?p ''report'' = Some report \<longrightarrow> crossRules (?p ''candidate'') report))"
    unfolding validateHandback_def Let_def split_beta clean_simps list_all_Cons_iff list_all_Nil_iff clean_missing clean_nullable handback_seat
      handback_timeline report cand checks clean_maybe_mismatch append_Nil by satx
  moreover have "(\<forall>report. ?p ''report'' = Some report \<longrightarrow> satisfies (constAt ''purpose'' (JStr ''review'')) report \<longrightarrow>
      optional (Of_type ''object'') (?p ''candidate''))"
    if "optional SLP_REPORT_V1_SCHEMA (?p ''report'')" "\<forall>report. ?p ''report'' = Some report \<longrightarrow> crossRules (?p ''candidate'') report"
    using that cross_needs_candidate by (metis optional_simps(2))
  ultimately show ?thesis
    unfolding verdict_accepted handback_fields using kind unfolding accepted_optional by satx
qed

text \<open>C30. The published JSON Schema of report records and the validator the desk runs agree: on a POSIX
  host the validator, called without seams, accepts a value exactly if the schema does and the rules a schema
  cannot express hold, which are that inline output hashes to the digest beside it, the cross rules of the
  structured report, and that a settlement's timestamp is one \<open>Date.parse\<close> reads.\<close>

theorem record_validator_exact:
  assumes "\<not> vo_windows H"
  shows "record_valid (validateReportRecordV1 E (desk_options H) record) \<longleftrightarrow> satisfies (recordSchema H) record \<and> recordRules E H record"
proof (cases "\<exists>r. record = JObj r")
  case True
  then obtain r where r: "record = JObj r" by blast
  have c: "record_valid v \<longleftrightarrow> clean v" for v by (simp add: record_valid_def clean_def)
  have kinds: "satisfies (handbackSchema H) record \<Longrightarrow> map_of r ''kind'' = Some (JStr ''handback'') \<and> map_of r ''version'' = Some (JInt 1)"
    "satisfies settlementSchema record \<Longrightarrow> map_of r ''kind'' = Some (JStr ''settlement'') \<and> map_of r ''version'' = Some (JInt 1)"
    unfolding r handback_fields settlement_fields by simp_all
  show ?thesis
  proof (cases "map_of r ''version'' = Some (JInt 1) \<and> map_of r ''kind'' \<in> {Some (JStr ''handback''), Some (JStr ''settlement'')}")
    case True
    then show ?thesis
      using kinds handback_exact [OF assms, of r E] settlement_exact [of r H]
      by (auto simp add: c r validateReportRecordV1_def recordSchema_def recordRules_def textPattern_def RECORD_KINDS_def
          simp del: satisfies.simps)
  next
    case False
    then have "\<not> clean (validateReportRecordV1 E (desk_options H) record)"
      by (auto simp: r validateReportRecordV1_def textPattern_def RECORD_KINDS_def split: option.splits json.splits if_splits)
    then show ?thesis using kinds False by (auto simp add: c recordSchema_def simp del: satisfies.simps)
  qed
next
  case False
  then show ?thesis
    by (cases "record") (auto simp: record_valid_def validateReportRecordV1_def recordSchema_def handbackSchema_named settlementSchema_named)
qed

subsection \<open>A review handback\<close>

definition demo_host :: host_env where
  "demo_host = \<lparr>vo_windows = False, vo_dateParses = utc_timestamp\<rparr>"

definition demo_head :: string where
  "demo_head = replicate 40 (CHR ''a'')"

definition demo_report :: json where
  "demo_report = JObj
     [(''format'', JStr ''slp-report''), (''version'', JInt 1), (''purpose'', JStr ''review''),
      (''assignment'', JObj [(''id'', JStr ''asg''), (''revision'', JStr ''rev-3''), (''scopeRevision'', JStr ''scope-2''), (''sourceRef'', JNull),
         (''objective'', JStr ''Review the parser''), (''acceptance'', JArr [JStr ''No open finding'']),
         (''authority'', JArr [JObj [(''claim'', JStr ''brief''), (''sourceRef'', JStr ''brief.md'')]]),
         (''scope'', JObj [(''owned'', JArr [JStr ''src'']), (''excluded'', JArr [])])]),
      (''assumptions'', JArr []), (''unknowns'', JArr []),
      (''selfReport'', JObj [(''read'', JArr []), (''ran'', JArr [JStr ''npm test''])]),
      (''execution'', JNull),
      (''review'', JObj [(''outcome'', JStr ''One finding''),
         (''mandate'', JObj [(''id'', JStr ''m1''), (''assignmentRevision'', JStr ''rev-3''), (''scopeRevision'', JStr ''scope-2''), (''candidateRef'', JStr demo_head)]),
         (''findingRefs'', JArr [JStr ''f1''])]),
      (''adjudication'', JNull),
      (''findings'', JArr [JObj [(''id'', JStr ''f1''), (''state'', JStr ''confirmed''), (''obligation'', JStr ''Bound the loop''),
         (''evidence'', JArr [JObj [(''summary'', JStr ''It spins''), (''source'', JStr ''run''), (''basis'', JStr ''observed''), (''ref'', JStr ''log.txt'')]]),
         (''remedy'', JStr ''Add a cap'')]]),
      (''owners'', JArr []), (''dependencies'', JArr []),
      (''nextAction'', JObj [(''state'', JStr ''none''), (''action'', JNull), (''ownerId'', JNull)]),
      (''resources'', JArr [])]"

definition demo_record :: json where
  "demo_record = JObj
     [(''version'', JInt 1), (''kind'', JStr ''handback''), (''seat'', JObj [(''role'', JStr ''peer''), (''disposition'', JStr ''reviewer'')]),
      (''verdict'', JStr ''FINDINGS''), (''candidate'', JObj [(''repository'', JStr ''/w''), (''head'', JStr demo_head)]),
      (''checks'', JArr [JObj [(''cmd'', JStr ''npm test''), (''exit'', JInt 0), (''sha'', JNull), (''outputRef'', JStr ''logs/test.txt'')]]),
      (''report'', demo_report)]"

lemma demo_record_valid: "record_valid (validateReportRecordV1 demo_env (desk_options demo_host) demo_record)"
  by code_simp

lemma record_validator_exact_witness:
  "satisfies (recordSchema demo_host) demo_record \<and> recordRules demo_env demo_host demo_record"
  using demo_record_valid record_validator_exact [of demo_host demo_env demo_record] by (simp add: demo_host_def)

text \<open>
  On Windows the validator takes any path \<open>isAbsolute\<close> takes, rooted ones without a drive included,
  which the published pattern does not match.
\<close>

lemma windows_schema_is_stricter:
  assumes "vo_windows H"
  shows "clean (validateCandidate (desk_options H) (Some (JObj [(''repository'', JStr ''/w''), (''head'', JStr demo_head)])) f)"
    and "\<not> satisfies (candidateSchema H) (JObj [(''repository'', JStr ''/w''), (''head'', JStr demo_head)])"
proof -
  have head: "is_git_head demo_head" by (simp add: is_git_head_def demo_head_def is_hex_def list_all_iff)
  show "clean (validateCandidate (desk_options H) (Some (JObj [(''repository'', JStr ''/w''), (''head'', JStr demo_head)])) f)"
    using assms head by (simp add: validateCandidate_def Let_def nonempty_accepted satisfies_nb nonblank_non_space non_space_def is_trim_char_def
        absolutePath_def isAbsolute_def win32_isAbsolute_def is_slash_def textPattern_def nonemptyArray_def)
  show "\<not> satisfies (candidateSchema H) (JObj [(''repository'', JStr ''/w''), (''head'', JStr demo_head)])"
    using assms by (simp add: candidateSchema_def absoluteRepositoryPath_def drive_prefix_def)
qed

end
