(* ===== verification/Desk_Handback.thy ===== *)
theory Desk_Handback
  imports Desk_Command Desk_Store Desk_Record
begin

text \<open>
  Assignments and handbacks (plugin/server/desk-handback.ts): register, attach and close an
  assignment, submit a claimed record, observe it. The bounded subprocess that measures a
  candidate between the two commits is I/O; its classified outcome is the command's \<open>capture\<close>.

  An episode is advisory metadata selected outside the decision (plugin/server/desk-episode.ts); the
  selection is an argument of the decision. Events already committed are the verified history,
  \<open>None\<close> when \<open>verifiedDeskEvents\<close> knows the ledger no history.
\<close>

subsection \<open>Episodes\<close>

record episode =
  ep_episodeId :: string
  ep_rootAgentId :: string

record episode_selection =
  es_episode :: "episode option"
  es_warnings :: "string list"
  es_basis :: string

definition hex_any :: "char \<Rightarrow> bool" where
  "hex_any c \<longleftrightarrow> is_hex c \<or> (let n = of_char c :: nat in 65 \<le> n \<and> n \<le> 70)"

definition episode_uuid :: "string \<Rightarrow> bool" where
  \<comment> \<open>the case-insensitive pattern \<open>uuid\<close> of runtime/episode.ts\<close>
  "episode_uuid s \<longleftrightarrow> (let ps = split_on (CHR ''-'') s in
     map length ps = [8, 4, 4, 4, 12] \<and> list_all (list_all hex_any) ps \<and>
     hd (ps ! 2) \<in> set ''12345678'' \<and> hd (ps ! 3) \<in> set ''89abAB'')"

definition plain_id :: "string \<Rightarrow> bool" where
  \<comment> \<open>\<open>id\<close>: no control characters\<close>
  "plain_id s \<longleftrightarrow> s \<noteq> [] \<and> length s \<le> 256 \<and> list_all (\<lambda>c. let n = of_char c :: nat in 32 \<le> n \<and> n \<noteq> 127) s"

definition property :: "json \<Rightarrow> string \<Rightarrow> json option" where
  "property v k = (case v of JObj row \<Rightarrow> map_of row k | _ \<Rightarrow> None)"

definition readEpisode :: "json option \<Rightarrow> episode option" where
  "readEpisode v = (case v of
       Some (JObj row) \<Rightarrow> (case (map_of row ''episodeId'', map_of row ''rootAgentId'') of
           (Some (JStr e), Some (JStr r)) \<Rightarrow>
             if episode_uuid e \<and> plain_id r then Some \<lparr>ep_episodeId = e, ep_rootAgentId = r\<rparr> else None
         | _ \<Rightarrow> None)
     | _ \<Rightarrow> None)"

definition json_episode :: "episode \<Rightarrow> (string \<times> json) list" where
  "json_episode e = [(''episodeId'', JStr (ep_episodeId e)), (''rootAgentId'', JStr (ep_rootAgentId e))]"

subsection \<open>Commands\<close>

record register_command =
  gc_requestId :: string
  gc_actorAgentId :: string
  gc_authorityRef :: string
  gc_objective :: "string option"

record attach_command =
  tc_requestId :: string
  tc_actorAgentId :: string
  tc_assignmentId :: string
  tc_agentId :: string

record close_command =
  cc_requestId :: string
  cc_actorAgentId :: string
  cc_assignmentId :: string

record submit_command =
  uc_requestId :: string
  uc_actorAgentId :: string
  uc_assignmentId :: string
  uc_recordV1 :: json
  uc_candidateId :: "string option"

datatype capture_reason = Spawn_failed | Timed_out | Exited | Byte_cap | Invalid_output

fun capture_reason_name :: "capture_reason \<Rightarrow> string" where
  "capture_reason_name Spawn_failed = ''spawn-failed''"
| "capture_reason_name Timed_out = ''timeout''"
| "capture_reason_name Exited = ''exit''"
| "capture_reason_name Byte_cap = ''byte-cap''"
| "capture_reason_name Invalid_output = ''invalid-output''"

record capture_base =
  cp_repository :: string
  cp_measuredAt :: string

record capture_ok = capture_base +
  cp_snapshotSha256 :: string
  cp_head :: "string option"
  cp_incomplete :: "string list"

record capture_failed = capture_base +
  cp_reason :: capture_reason
  cp_detail :: string

datatype observed_capture = Capture_ok capture_ok | Capture_failed capture_failed

fun capture_repository :: "observed_capture \<Rightarrow> string" where
  "capture_repository (Capture_ok c) = cp_repository c"
| "capture_repository (Capture_failed c) = cp_repository c"

record observe_command =
  vc_requestId :: string
  vc_actorAgentId :: string
  vc_handbackId :: string
  vc_capture :: observed_capture

datatype handback_command =
    Assignment_register register_command
  | Assignment_attach attach_command
  | Assignment_close close_command
  | Handback_submit submit_command
  | Handback_observe observe_command

definition absolute_path :: "string \<Rightarrow> bool" where
  \<comment> \<open>\<open>AbsolutePath\<close>\<close>
  "absolute_path s \<longleftrightarrow> between_len 1 LIMIT_pathLen s \<and>
     (take 1 s = ''/'' \<or> (drive_prefix s \<and> (case s of _ # _ # c # _ \<Rightarrow> is_slash c | _ \<Rightarrow> False)))"

abbreviation command_id :: "string \<Rightarrow> bool" where
  "command_id \<equiv> between_len 1 LIMIT_idLen"

fun capture_schema_ok :: "desk_env \<Rightarrow> observed_capture \<Rightarrow> bool" where
  "capture_schema_ok E (Capture_ok c) \<longleftrightarrow>
     absolute_path (cp_repository c) \<and> time_ok E (cp_measuredAt c) \<and> is_sha (cp_snapshotSha256 c) \<and> opt_ok is_git_head (cp_head c) \<and>
     length (cp_incomplete c) \<le> LIMIT_snapshotIncomplete \<and> list_all (between_len 1 LIMIT_pathLen) (cp_incomplete c)"
| "capture_schema_ok E (Capture_failed c) \<longleftrightarrow>
     absolute_path (cp_repository c) \<and> time_ok E (cp_measuredAt c) \<and> between_len 1 LIMIT_captureDetailLen (cp_detail c)"

fun handback_command_ok :: "desk_env \<Rightarrow> handback_command \<Rightarrow> bool" where
  "handback_command_ok E (Assignment_register c) \<longleftrightarrow>
     command_id (gc_requestId c) \<and> between_len 1 agentIdLen (gc_actorAgentId c) \<and>
     between_len 1 LIMIT_authorityRefLen (gc_authorityRef c) \<and> opt_ok (between_len 1 LIMIT_objectiveLen) (gc_objective c)"
| "handback_command_ok E (Assignment_attach c) \<longleftrightarrow>
     command_id (tc_requestId c) \<and> between_len 1 agentIdLen (tc_actorAgentId c) \<and> command_id (tc_assignmentId c) \<and>
     between_len 1 agentIdLen (tc_agentId c)"
| "handback_command_ok E (Assignment_close c) \<longleftrightarrow>
     command_id (cc_requestId c) \<and> between_len 1 agentIdLen (cc_actorAgentId c) \<and> command_id (cc_assignmentId c)"
| "handback_command_ok E (Handback_submit c) \<longleftrightarrow>
     command_id (uc_requestId c) \<and> between_len 1 agentIdLen (uc_actorAgentId c) \<and> command_id (uc_assignmentId c) \<and>
     is_object (uc_recordV1 c) \<and> opt_ok command_id (uc_candidateId c)"
| "handback_command_ok E (Handback_observe c) \<longleftrightarrow>
     command_id (vc_requestId c) \<and> between_len 1 agentIdLen (vc_actorAgentId c) \<and> command_id (vc_handbackId c) \<and>
     capture_schema_ok E (vc_capture c)"

fun handback_actor :: "handback_command \<Rightarrow> string" where
  "handback_actor (Assignment_register c) = gc_actorAgentId c"
| "handback_actor (Assignment_attach c) = tc_actorAgentId c"
| "handback_actor (Assignment_close c) = cc_actorAgentId c"
| "handback_actor (Handback_submit c) = uc_actorAgentId c"
| "handback_actor (Handback_observe c) = vc_actorAgentId c"

subsection \<open>Assignments\<close>

definition registeredRow :: "desk_env \<Rightarrow> membership \<Rightarrow> register_command \<Rightarrow> assignment" where
  "registeredRow E actor c =
     \<lparr>a_assignmentId = derive_id E ''asg'' [actorAgent actor, gc_requestId c], a_requestId = gc_requestId c,
      a_authorityRef = gc_authorityRef c, a_objective = gc_objective c, a_ownerMembershipId = m_membershipId actor,
      a_ownerAgentId = actorAgent actor, a_workspaceId = m_workspaceId actor, a_state = AS_open, a_seats = []\<rparr>"

definition registeredEvent :: "desk_env \<Rightarrow> episode_selection option \<Rightarrow> assignment \<Rightarrow> desk_event" where
  "registeredEvent E selection row =
     \<lparr>ev_kind = ''assignment-registered'', ev_payload = JObj
       ([(''assignmentId'', JStr (a_assignmentId row)), (''ownerAgentId'', JStr (a_ownerAgentId row)),
         (''authorityRef'', JStr (a_authorityRef row)), (''registrationSha256'', JStr (assignmentRegistrationSha256 E row))] @
        (case selection of
           None \<Rightarrow> []
         | Some s \<Rightarrow>
             (case es_episode s of None \<Rightarrow> [] | Some e \<Rightarrow> json_episode e) @
             [(''episodeRootAssignment'', JBool (map_option ep_rootAgentId (es_episode s) = Some (a_ownerAgentId row))),
              (''episodeBasis'', JStr (es_basis s)), (''metadataWarnings'', json_strs (es_warnings s))]))\<rparr>"

definition openedEvents :: "episode_selection option \<Rightarrow> desk_event list" where
  "openedEvents selection = (case selection of
       Some s \<Rightarrow> (case es_episode s of
           Some e \<Rightarrow> if es_basis s \<in> {''creator-unlabelled-unformed'', ''new-root-assignment''}
             then [\<lparr>ev_kind = ''episode-opened'', ev_payload = JObj (json_episode e)\<rparr>] else []
         | None \<Rightarrow> [])
     | None \<Rightarrow> [])"

definition decideRegister :: "desk_env \<Rightarrow> ledger \<Rightarrow> episode_selection option \<Rightarrow> membership \<Rightarrow> register_command \<Rightarrow> decide_outcome" where
  "decideRegister E l selection actor c =
     (case requireLead actor of
        Some e \<Rightarrow> Inl e
      | None \<Rightarrow>
          if LIMIT_assignments \<le> length (assignments l) then Inl INVALID_RECORD
          else let row = registeredRow E actor c in
            if list_ex (\<lambda>a. a_assignmentId a = a_assignmentId row) (assignments l) then Inl INVALID_RECORD
            else Inr (registeredEvent E selection row # openedEvents selection,
              no_tables\<lparr>p_assignments := Some (assignments l @ [row])\<rparr>))"

definition ownedByActor :: "ledger \<Rightarrow> membership \<Rightarrow> string \<Rightarrow> desk_error_code + assignment" where
  \<comment> \<open>lead role, registered assignment, exact custody: the guards attach and close share\<close>
  "ownedByActor l actor aid =
     (case requireLead actor of
        Some e \<Rightarrow> Inl e
      | None \<Rightarrow> (case findAssignment l aid of
          None \<Rightarrow> Inl AUTHORITY_REQUIRED
        | Some a \<Rightarrow> if \<not> effectiveOwnerMatches l a actor then Inl AUTHORITY_REQUIRED else Inr a))"

definition updateAssignment :: "string \<Rightarrow> (assignment \<Rightarrow> assignment) \<Rightarrow> assignment list \<Rightarrow> assignment list" where
  "updateAssignment aid f as = map (\<lambda>a. if a_assignmentId a = aid then f a else a) as"

definition seatOf :: "membership \<Rightarrow> assignment_seat" where
  "seatOf target = \<lparr>seat_agentId = actorAgent target, seat_membershipId = m_membershipId target\<rparr>"

definition decideAttach :: "ledger \<Rightarrow> membership \<Rightarrow> attach_command \<Rightarrow> decide_outcome" where
  "decideAttach l actor c =
     (case ownedByActor l actor (tc_assignmentId c) of
        Inl e \<Rightarrow> Inl e
      | Inr a \<Rightarrow>
          if a_state a \<noteq> AS_open then Inl AUTHORITY_REQUIRED
          else if list_ex (\<lambda>s. seat_agentId s = tc_agentId c) (a_seats a) then Inr ([], no_tables)
          else (case liveMembership l (tc_agentId c) of
             None \<Rightarrow> Inl INVALID_RECORD
           | Some target \<Rightarrow>
               if LIMIT_assignmentSeats \<le> length (a_seats a) then Inl INVALID_RECORD
               else let seat = seatOf target in
                 Inr ([\<lparr>ev_kind = ''assignment-seat-attached'', ev_payload = JObj
                        [(''assignmentId'', JStr (tc_assignmentId c)), (''agentId'', JStr (seat_agentId seat)),
                         (''membershipId'', JStr (seat_membershipId seat))]\<rparr>],
                   no_tables\<lparr>p_assignments :=
                     Some (updateAssignment (tc_assignmentId c) (\<lambda>a. a\<lparr>a_seats := a_seats a @ [seat]\<rparr>) (assignments l))\<rparr>)))"

definition closedEpisode :: "event_row list option \<Rightarrow> string \<Rightarrow> desk_event list" where
  "closedEpisode history aid =
     (let events = (case history of None \<Rightarrow> [] | Some es \<Rightarrow> es);
          registration = find (\<lambda>e. evt_kind e = ''assignment-registered'' \<and> property (evt_payload e) ''assignmentId'' = Some (JStr aid)) events in
      (case readEpisode (map_option evt_payload registration) of
         None \<Rightarrow> []
       | Some ep \<Rightarrow>
           if (case registration of None \<Rightarrow> False | Some r \<Rightarrow> property (evt_payload r) ''episodeRootAssignment'' = Some (JBool True)) \<and>
              \<not> list_ex (\<lambda>e. evt_kind e = ''episode-closed'' \<and> property (evt_payload e) ''episodeId'' = Some (JStr (ep_episodeId ep))) events
           then [\<lparr>ev_kind = ''episode-closed'', ev_payload = JObj (json_episode ep @ [(''outcome'', JStr ''unknown'')])\<rparr>]
           else []))"

definition decideClose :: "ledger \<Rightarrow> event_row list option \<Rightarrow> membership \<Rightarrow> close_command \<Rightarrow> decide_outcome" where
  "decideClose l history actor c =
     (case ownedByActor l actor (cc_assignmentId c) of
        Inl e \<Rightarrow> Inl e
      | Inr a \<Rightarrow>
          if a_state a = AS_closed then Inr ([], no_tables)
          else Inr (\<lparr>ev_kind = ''assignment-closed'', ev_payload = JObj [(''assignmentId'', JStr (cc_assignmentId c))]\<rparr> #
              closedEpisode history (cc_assignmentId c),
            no_tables\<lparr>p_assignments :=
              Some (updateAssignment (cc_assignmentId c) (\<lambda>a. a\<lparr>a_state := AS_closed\<rparr>) (assignments l))\<rparr>))"

subsection \<open>Handbacks\<close>

definition nextHandbackRevision :: "ledger \<Rightarrow> string \<Rightarrow> string \<Rightarrow> nat" where
  "nextHandbackRevision l aid agent =
     foldl (\<lambda>m h. max m (h_revision h)) 0 (filter (\<lambda>h. h_assignmentId h = aid \<and> h_agentId h = agent) (handbacks l)) + 1"

definition warningGaps :: "issues \<Rightarrow> string list" where
  "warningGaps ws = take LIMIT_handbackGaps (map (\<lambda>w. ''record-warning:'' @ ri_code w) ws)"

definition submittedRow :: "desk_env \<Rightarrow> ledger \<Rightarrow> membership \<Rightarrow> submit_command \<Rightarrow> issues \<Rightarrow> handback" where
  "submittedRow E l actor c warnings =
     \<lparr>h_handbackId = derive_id E ''hb'' [actorAgent actor, uc_assignmentId c, uc_requestId c],
      h_assignmentId = uc_assignmentId c, h_agentId = actorAgent actor, h_seatMembershipId = m_membershipId actor,
      h_requestId = uc_requestId c, h_revision = nextHandbackRevision l (uc_assignmentId c) (actorAgent actor),
      h_record = uc_recordV1 c, h_recordSha256 = canonical_sha256 E (uc_recordV1 c), h_claimedCandidateId = uc_candidateId c,
      h_observed = \<lparr>ob_status = OS_pending, ob_candidateId = None, ob_repository = m_createCwd actor, ob_measuredAt = None, ob_error = None\<rparr>,
      h_gaps = warningGaps warnings\<rparr>"

definition submittedEvent :: "handback \<Rightarrow> desk_event" where
  "submittedEvent r =
     \<lparr>ev_kind = ''handback-submitted'', ev_payload = JObj
       [(''handbackId'', JStr (h_handbackId r)), (''assignmentId'', JStr (h_assignmentId r)), (''agentId'', JStr (h_agentId r)),
        (''revision'', json_nat (h_revision r)), (''recordSha256'', JStr (h_recordSha256 r)),
        (''claimedCandidateId'', json_opt JStr (h_claimedCandidateId r))]\<rparr>"

definition decideSubmit :: "desk_env \<Rightarrow> host_env \<Rightarrow> ledger \<Rightarrow> membership \<Rightarrow> submit_command \<Rightarrow> decide_outcome" where
  "decideSubmit E H l actor c =
     (case findAssignment l (uc_assignmentId c) of
        None \<Rightarrow> Inl AUTHORITY_REQUIRED
      | Some a \<Rightarrow>
          if a_state a \<noteq> AS_open then Inl AUTHORITY_REQUIRED
          else if \<not> list_ex (\<lambda>s. Some (seat_agentId s) = m_agentId actor) (a_seats a) then Inl AUTHORITY_REQUIRED
          else let validation = validateReportRecordV1 E (desk_options H) (uc_recordV1 c) in
            if \<not> record_valid validation then Inl INVALID_RECORD
            else if property (uc_recordV1 c) ''kind'' \<noteq> Some (JStr ''handback'') then Inl INVALID_RECORD
            else if LIMIT_handbackRecordBytes < utf8_length (canonical_json (uc_recordV1 c)) then Inl INVALID_RECORD
            else if (case uc_candidateId c of None \<Rightarrow> False
               | Some cid \<Rightarrow> \<not> list_ex (\<lambda>k. c_candidateId k = cid \<and> c_assignmentId k = uc_assignmentId c) (candidates l)) then Inl INVALID_RECORD
            else if LIMIT_handbacks \<le> length (handbacks l) then Inl INVALID_RECORD
            else let row = submittedRow E l actor c (snd validation) in
              Inr ([submittedEvent row], no_tables\<lparr>p_handbacks := Some (handbacks l @ [row])\<rparr>))"

definition observedRow :: "handback_observed \<Rightarrow> string list \<Rightarrow> handback \<Rightarrow> handback" where
  "observedRow observed gaps h = h\<lparr>h_observed := observed, h_gaps := gaps\<rparr>"

definition updateHandback :: "string \<Rightarrow> (handback \<Rightarrow> handback) \<Rightarrow> handback list \<Rightarrow> handback list" where
  "updateHandback hid f hs = map (\<lambda>h. if h_handbackId h = hid then f h else h) hs"

definition capturedCandidate :: "desk_env \<Rightarrow> handback \<Rightarrow> capture_ok \<Rightarrow> candidate" where
  "capturedCandidate E h c =
     \<lparr>c_candidateId = derive_id E ''cand'' [h_handbackId h], c_assignmentId = h_assignmentId h, c_seatAgentId = h_agentId h,
      c_seatMembershipId = h_seatMembershipId h, c_repository = cp_repository c, c_snapshotSha256 = cp_snapshotSha256 c,
      c_head = cp_head c, c_incomplete = cp_incomplete c, c_measuredAt = cp_measuredAt c\<rparr>"

definition observedEvent :: "string \<Rightarrow> string \<Rightarrow> string option \<Rightarrow> desk_event" where
  "observedEvent hid status candidateId =
     \<lparr>ev_kind = ''handback-observed'', ev_payload = JObj
       ([(''handbackId'', JStr hid), (''status'', JStr status)] @
        (case candidateId of None \<Rightarrow> [] | Some c \<Rightarrow> [(''candidateId'', JStr c)]))\<rparr>"

definition failedObservation :: "capture_failed \<Rightarrow> handback_observed" where
  "failedObservation k =
     \<lparr>ob_status = OS_failed, ob_candidateId = None, ob_repository = cp_repository k, ob_measuredAt = Some (cp_measuredAt k),
      ob_error = Some (take LIMIT_captureDetailLen (capture_reason_name (cp_reason k) @ '': '' @ cp_detail k))\<rparr>"

definition failedGaps :: "handback \<Rightarrow> capture_failed \<Rightarrow> string list" where
  "failedGaps h k = take LIMIT_handbackGaps (h_gaps h @ [''observed-capture-failed:'' @ capture_reason_name (cp_reason k)])"

definition observeFailed :: "ledger \<Rightarrow> handback \<Rightarrow> string \<Rightarrow> capture_failed \<Rightarrow> decide_outcome" where
  "observeFailed l h hid k = Inr ([observedEvent hid ''failed'' None],
     no_tables\<lparr>p_handbacks := Some (updateHandback hid (observedRow (failedObservation k) (failedGaps h k)) (handbacks l))\<rparr>)"

definition okObservation :: "candidate \<Rightarrow> capture_ok \<Rightarrow> handback_observed" where
  "okObservation candidate k =
     \<lparr>ob_status = OS_ok, ob_candidateId = Some (c_candidateId candidate), ob_repository = cp_repository k,
      ob_measuredAt = Some (cp_measuredAt k), ob_error = None\<rparr>"

definition capturedEvent :: "string \<Rightarrow> candidate \<Rightarrow> desk_event" where
  "capturedEvent hid candidate =
     \<lparr>ev_kind = ''candidate-captured'', ev_payload = JObj
       [(''candidateId'', JStr (c_candidateId candidate)), (''handbackId'', JStr hid),
        (''snapshotSha256'', JStr (c_snapshotSha256 candidate)), (''head'', json_opt JStr (c_head candidate))]\<rparr>"

definition observeOk :: "desk_env \<Rightarrow> ledger \<Rightarrow> handback \<Rightarrow> string \<Rightarrow> capture_ok \<Rightarrow> decide_outcome" where
  "observeOk E l h hid k =
     (if LIMIT_candidates \<le> length (candidates l) then Inl INVALID_RECORD
      else let candidate = capturedCandidate E h k in
        Inr ([capturedEvent hid candidate, observedEvent hid ''ok'' (Some (c_candidateId candidate))],
          no_tables\<lparr>p_handbacks := Some (updateHandback hid (\<lambda>h. observedRow (okObservation candidate k) (h_gaps h) h) (handbacks l)),
                    p_candidates := Some (candidates l @ [candidate])\<rparr>))"

definition decideObserve :: "desk_env \<Rightarrow> ledger \<Rightarrow> membership \<Rightarrow> observe_command \<Rightarrow> decide_outcome" where
  "decideObserve E l actor c =
     (case find (\<lambda>h. h_handbackId h = vc_handbackId c) (handbacks l) of
        None \<Rightarrow> Inl INVALID_RECORD
      | Some h \<Rightarrow>
          if Some (h_agentId h) \<noteq> m_agentId actor then Inl AUTHORITY_REQUIRED
          else if ob_status (h_observed h) \<noteq> OS_pending then Inr ([], no_tables)
          else if capture_repository (vc_capture c) \<noteq> ob_repository (h_observed h) then Inl INVALID_RECORD
          else (case vc_capture c of
             Capture_failed k \<Rightarrow> observeFailed l h (vc_handbackId c) k
           | Capture_ok k \<Rightarrow> observeOk E l h (vc_handbackId c) k))"

subsection \<open>The decision\<close>

definition decideDeskHandback ::
  "desk_env \<Rightarrow> host_env \<Rightarrow> episode_selection option \<Rightarrow> event_row list option \<Rightarrow> ledger \<Rightarrow> handback_command \<Rightarrow> decide_outcome" where
  "decideDeskHandback E H selection history l cmd =
     (if \<not> handback_command_ok E cmd then Inl INVALID_RECORD
      else case requireActor l (handback_actor cmd) of
        Inl e \<Rightarrow> Inl e
      | Inr actor \<Rightarrow>
        (case cmd of
           Assignment_register c \<Rightarrow> decideRegister E l selection actor c
         | Assignment_attach c \<Rightarrow> decideAttach l actor c
         | Assignment_close c \<Rightarrow> decideClose l history actor c
         | Handback_submit c \<Rightarrow> decideSubmit E H l actor c
         | Handback_observe c \<Rightarrow> decideObserve E l actor c))"

end
