(* ===== verification/Desk_Check.thy ===== *)
theory Desk_Check
  imports Desk_Rollout
begin

text \<open>
  Check definitions and check runs (plugin/server/desk-check-runner.ts): immutable definition
  revisions, and one result row per execution of a definition against a rollout's pinned candidate.
  Executing a check is a host subprocess; its measured outcome is part of the committed command.
  The decision re-validates every precondition of the run, so an outcome measured under a pin that
  moved in the meantime is refused.
\<close>

subsection \<open>Commands\<close>

record check_declare_command =
  kd_requestId :: string
  kd_assignmentId :: string
  kd_scopeId :: string
  kd_checkId :: string
  kd_checkClass :: check_class
  kd_label :: string
  kd_definitionSha256 :: string
  kd_limits :: check_limits
  kd_requiredEvidence :: "string list"
  kd_refs :: "string list"
  kd_actorAgentId :: string

record check_outcome =
  ko_status :: check_run_status
  ko_exitCode :: "int option"
  ko_timedOut :: bool
  ko_durationMs :: "nat option"
  ko_outputSha256 :: "string option"
  ko_outputTail :: "string option"
  ko_outputTruncated :: bool
  ko_outputPointer :: "string option"
  ko_gap :: "(string \<times> string) option"

record check_run_command =
  kr_requestId :: string
  kr_assignmentId :: string
  kr_rolloutId :: string
  kr_checkId :: string
  kr_definitionRevision :: nat
  kr_evidenceRef :: "string option"
  kr_actorAgentId :: string
  kr_rolloutRevision :: nat
  kr_candidateSnapshot :: string
  kr_candidateHead :: "string option"
  kr_environment :: "string \<times> string"
    \<comment> \<open>node and platform\<close>
  kr_outcome :: check_outcome

datatype desk_check_command = Check_declare check_declare_command | Check_run_commit check_run_command

definition check_limits_ok :: "check_limits \<Rightarrow> bool" where
  "check_limits_ok m \<longleftrightarrow> 1 \<le> cl_timeoutMs m \<and> cl_timeoutMs m \<le> 60000 \<and>
     1 \<le> cl_maxOutputBytes m \<and> cl_maxOutputBytes m \<le> 1048576 \<and> cl_maxRetries m \<le> 1"

definition check_declare_ok :: "check_declare_command \<Rightarrow> bool" where
  "check_declare_ok c \<longleftrightarrow>
     between_len 1 deskRequestIdLen (kd_requestId c) \<and> between_len 1 agentIdLen (kd_actorAgentId c) \<and>
     between_len 1 deskEntityIdLen (kd_assignmentId c) \<and> between_len 1 deskEntityIdLen (kd_scopeId c) \<and>
     between_len 1 deskEntityIdLen (kd_checkId c) \<and> between_len 1 deskScopeLabelLen (kd_label c) \<and>
     is_sha (kd_definitionSha256 c) \<and> check_limits_ok (kd_limits c) \<and>
     list_all (between_len 1 deskCheckPointerLen) (kd_requiredEvidence c) \<and> length (kd_requiredEvidence c) \<le> deskCheckEvidence \<and>
     list_all (between_len 1 deskCheckPointerLen) (kd_refs c) \<and> length (kd_refs c) \<le> deskScopeRefs"

definition check_outcome_ok :: "check_outcome \<Rightarrow> bool" where
  "check_outcome_ok k \<longleftrightarrow>
     opt_ok is_sha (ko_outputSha256 k) \<and> opt_ok (\<lambda>s. length s \<le> deskCheckOutputTailLen) (ko_outputTail k) \<and>
     opt_ok (between_len 1 deskCheckPointerLen) (ko_outputPointer k) \<and>
     opt_ok (\<lambda>(capability, detail). between_len 1 128 capability \<and> between_len 1 gapLen detail) (ko_gap k)"

definition check_run_ok :: "check_run_command \<Rightarrow> bool" where
  "check_run_ok c \<longleftrightarrow>
     between_len 1 deskRequestIdLen (kr_requestId c) \<and> between_len 1 agentIdLen (kr_actorAgentId c) \<and>
     between_len 1 deskEntityIdLen (kr_assignmentId c) \<and> between_len 1 deskEntityIdLen (kr_rolloutId c) \<and>
     between_len 1 deskEntityIdLen (kr_checkId c) \<and> 1 \<le> kr_definitionRevision c \<and>
     opt_ok (between_len 1 deskCheckPointerLen) (kr_evidenceRef c) \<and> 1 \<le> kr_rolloutRevision c \<and>
     is_sha (kr_candidateSnapshot c) \<and> opt_ok is_git_head (kr_candidateHead c) \<and>
     between_len 1 64 (fst (kr_environment c)) \<and> between_len 1 64 (snd (kr_environment c)) \<and> check_outcome_ok (kr_outcome c)"

fun check_command_ok :: "desk_check_command \<Rightarrow> bool" where
  "check_command_ok (Check_declare c) = check_declare_ok c"
| "check_command_ok (Check_run_commit c) = check_run_ok c"

fun check_actor :: "desk_check_command \<Rightarrow> string" where
  "check_actor (Check_declare c) = kd_actorAgentId c"
| "check_actor (Check_run_commit c) = kr_actorAgentId c"

fun check_assignment :: "desk_check_command \<Rightarrow> string" where
  "check_assignment (Check_declare c) = kd_assignmentId c"
| "check_assignment (Check_run_commit c) = kr_assignmentId c"

subsection \<open>Streams\<close>

definition definitionStream :: "ledger \<Rightarrow> string \<Rightarrow> string \<Rightarrow> check_definition list" where
  "definitionStream l aid cid =
     sort_key cd_revision (filter (\<lambda>d. cd_assignmentId d = aid \<and> cd_checkId d = cid) (checkDefinitions l))"

definition latestRolloutDeclaration :: "ledger \<Rightarrow> string \<Rightarrow> string \<Rightarrow> rollout option" where
  "latestRolloutDeclaration l aid rid =
     last_opt (sort_key ro_revision (filter (\<lambda>r. ro_assignmentId r = aid \<and> ro_rolloutId r = rid) (rollouts l)))"

definition currentRolloutState :: "ledger \<Rightarrow> string \<Rightarrow> string \<Rightarrow> rollout_state option" where
  \<comment> \<open>the module's \<open>rolloutState\<close>\<close>
  "currentRolloutState l aid rid = map_option rt_to
     (last_opt (sort_key rt_revision (filter (\<lambda>t. rt_assignmentId t = aid \<and> rt_rolloutId t = rid) (rolloutTransitions l))))"

definition sameRetryStream :: "string \<Rightarrow> string \<Rightarrow> string \<Rightarrow> string \<Rightarrow> check_run \<Rightarrow> bool" where
  "sameRetryStream aid rid cid snap r \<longleftrightarrow>
     cr_assignmentId r = aid \<and> cr_rolloutId r = rid \<and> cr_checkId r = cid \<and> cr_candidateSnapshot r = snap"

definition retryStream :: "ledger \<Rightarrow> string \<Rightarrow> string \<Rightarrow> string \<Rightarrow> string \<Rightarrow> check_run list" where
  "retryStream l aid rid cid snap = sort_key cr_attempt (filter (sameRetryStream aid rid cid snap) (checkRuns l))"

subsection \<open>Declaring a check\<close>

fun check_class_name :: "check_class \<Rightarrow> string" where
  "check_class_name CC_ledger_integrity = ''ledger-integrity''"
| "check_class_name CC_repo_payload_check = ''repo-payload-check''"
| "check_class_name CC_repo_git_head = ''repo-git-head''"

definition definitionRow :: "ledger \<Rightarrow> membership \<Rightarrow> assignment \<Rightarrow> check_declare_command \<Rightarrow> check_definition" where
  "definitionRow l actor a c =
     (let latest = last_opt (definitionStream l (kd_assignmentId c) (kd_checkId c)) in
      \<lparr>cd_checkId = kd_checkId c, cd_assignmentId = kd_assignmentId c, cd_scopeId = kd_scopeId c, cd_requestId = kd_requestId c,
       cd_revision = (case latest of None \<Rightarrow> 0 | Some d \<Rightarrow> cd_revision d) + 1, cd_priorRevision = map_option cd_revision latest,
       cd_ownerMembershipId = m_membershipId actor, cd_ownerAgentId = actorAgent actor,
       cd_assignmentRevision = assignmentStructuralRevision a, cd_checkClass = kd_checkClass c, cd_label = kd_label c,
       cd_definitionSha256 = kd_definitionSha256 c, cd_limits = kd_limits c, cd_requiredEvidence = kd_requiredEvidence c,
       cd_refs = kd_refs c\<rparr>)"

definition declaredCheckEvent :: "check_definition \<Rightarrow> desk_event" where
  "declaredCheckEvent r =
     \<lparr>ev_kind = ''check-declared'', ev_payload = JObj
       [(''assignmentId'', JStr (cd_assignmentId r)), (''scopeId'', JStr (cd_scopeId r)), (''checkId'', JStr (cd_checkId r)),
        (''checkClass'', JStr (check_class_name (cd_checkClass r))), (''ownerAgentId'', JStr (cd_ownerAgentId r)),
        (''revision'', json_nat (cd_revision r))]\<rparr>"

definition decideCheckDeclare :: "ledger \<Rightarrow> membership \<Rightarrow> assignment \<Rightarrow> check_declare_command \<Rightarrow> decide_outcome" where
  "decideCheckDeclare l actor a c =
     (if LIMIT_checkDefinitions \<le> length (checkDefinitions l) then Inl INVALID_RECORD
      else if \<not> list_ex (\<lambda>s. sc_assignmentId s = kd_assignmentId c \<and> sc_scopeId s = kd_scopeId c) (scopes l) then Inl SCOPE_CONFLICT
      else if (case last_opt (definitionStream l (kd_assignmentId c) (kd_checkId c)) of
           None \<Rightarrow> False | Some d \<Rightarrow> cd_scopeId d \<noteq> kd_scopeId c) then Inl SCOPE_CONFLICT
      else let row = definitionRow l actor a c in
        Inr ([declaredCheckEvent row], no_tables\<lparr>p_checkDefinitions := Some (checkDefinitions l @ [row])\<rparr>))"

subsection \<open>Committing a run\<close>

definition retryProblem :: "check_definition \<Rightarrow> check_run list \<Rightarrow> desk_error_code option" where
  "retryProblem d prior = (case prior of
       [] \<Rightarrow> None
     | first # _ \<Rightarrow>
         if cr_definitionRevision first \<noteq> cd_revision d then Some REVISION_CONFLICT
         else if list_ex (\<lambda>r. cr_status r = CR_passed) prior then Some ROLLOUT_CONFLICT
         else if 1 + cl_maxRetries (cd_limits d) \<le> length prior then Some RETRY_EXHAUSTED
         else None)"

definition checkRunEligibility ::
  "ledger \<Rightarrow> assignment \<Rightarrow> check_run_command \<Rightarrow> desk_error_code + (check_definition \<times> rollout \<times> check_run list)" where
  \<comment> \<open>with the execution pins present, as the decision calls it\<close>
  "checkRunEligibility l a c =
     (if LIMIT_checkRuns \<le> length (checkRuns l) then Inl INVALID_RECORD
      else (case latestRolloutDeclaration l (a_assignmentId a) (kr_rolloutId c) of
        None \<Rightarrow> Inl ROLLOUT_CONFLICT
      | Some decl \<Rightarrow>
        if kr_rolloutRevision c \<noteq> ro_revision decl then Inl REVISION_CONFLICT
        else if kr_candidateSnapshot c \<noteq> ro_candidateSnapshot decl \<or> kr_candidateHead c \<noteq> ro_candidateHead decl then Inl CANDIDATE_DRIFT
        else let defs = definitionStream l (a_assignmentId a) (kr_checkId c) in
          (case find (\<lambda>d. cd_revision d = kr_definitionRevision c) defs of
             None \<Rightarrow> Inl INVALID_RECORD
           | Some def \<Rightarrow>
             if map_option cd_revision (last_opt defs) \<noteq> Some (kr_definitionRevision c) then Inl REVISION_CONFLICT
             else if cd_scopeId def \<noteq> ro_scopeId decl then Inl SCOPE_CONFLICT
             else if currentRolloutState l (a_assignmentId a) (kr_rolloutId c) \<noteq> Some RS_checks_running then Inl ROLLOUT_CONFLICT
             else let prior = retryStream l (a_assignmentId a) (kr_rolloutId c) (kr_checkId c) (ro_candidateSnapshot decl) in
               (case retryProblem def prior of
                  Some e \<Rightarrow> Inl e
                | None \<Rightarrow> Inr (def, decl, prior)))))"

definition runRow :: "desk_env \<Rightarrow> membership \<Rightarrow> check_run_command \<Rightarrow> check_definition \<Rightarrow> rollout \<Rightarrow> check_run list \<Rightarrow> check_run" where
  "runRow E actor c def decl prior =
     (let k = kr_outcome c in
      \<lparr>cr_runId = derive_id E ''run'' [actorAgent actor, kr_assignmentId c, kr_rolloutId c, kr_checkId c, kr_requestId c],
       cr_assignmentId = kr_assignmentId c, cr_rolloutId = kr_rolloutId c, cr_checkId = kr_checkId c, cr_requestId = kr_requestId c,
       cr_rolloutRevision = ro_revision decl, cr_definitionRevision = cd_revision def,
       cr_definitionSha256 = cd_definitionSha256 def, cr_candidateSnapshot = ro_candidateSnapshot decl,
       cr_candidateHead = ro_candidateHead decl, cr_environment = kr_environment c, cr_status = ko_status k,
       cr_attempt = length prior + 1, cr_retryOf = map_option cr_runId (last_opt prior), cr_actorAgentId = actorAgent actor,
       cr_actorSeatId = m_membershipId actor, cr_exitCode = ko_exitCode k, cr_timedOut = ko_timedOut k,
       cr_durationMs = ko_durationMs k, cr_outputSha256 = ko_outputSha256 k, cr_outputTail = ko_outputTail k,
       cr_outputTruncated = ko_outputTruncated k, cr_outputPointer = ko_outputPointer k, cr_evidenceRef = kr_evidenceRef c,
       cr_gap = ko_gap k\<rparr>)"

fun check_status_name :: "check_run_status \<Rightarrow> string" where
  "check_status_name CR_passed = ''passed''"
| "check_status_name CR_failed = ''failed''"
| "check_status_name CR_blocked = ''blocked''"
| "check_status_name CR_error = ''error''"

definition committedRunEvent :: "check_run \<Rightarrow> desk_event" where
  "committedRunEvent r =
     \<lparr>ev_kind = ''check-run-committed'', ev_payload = JObj
       [(''assignmentId'', JStr (cr_assignmentId r)), (''rolloutId'', JStr (cr_rolloutId r)), (''checkId'', JStr (cr_checkId r)),
        (''runId'', JStr (cr_runId r)), (''status'', JStr (check_status_name (cr_status r))), (''attempt'', json_nat (cr_attempt r)),
        (''actorAgentId'', JStr (cr_actorAgentId r))]\<rparr>"

definition decideCheckRun :: "desk_env \<Rightarrow> ledger \<Rightarrow> membership \<Rightarrow> assignment \<Rightarrow> check_run_command \<Rightarrow> decide_outcome" where
  "decideCheckRun E l actor a c =
     (case checkRunEligibility l a c of
        Inl e \<Rightarrow> Inl e
      | Inr (def, decl, prior) \<Rightarrow>
          let run = runRow E actor c def decl prior in
          Inr ([committedRunEvent run], no_tables\<lparr>p_checkRuns := Some (checkRuns l @ [run])\<rparr>))"

definition decideDeskCheck :: "desk_env \<Rightarrow> ledger \<Rightarrow> desk_check_command \<Rightarrow> decide_outcome" where
  "decideDeskCheck E l cmd =
     (if \<not> check_command_ok cmd then Inl INVALID_RECORD
      else case requireActor l (check_actor cmd) of
        Inl e \<Rightarrow> Inl e
      | Inr actor \<Rightarrow>
        (case requireLead actor of
           Some e \<Rightarrow> Inl e
         | None \<Rightarrow>
           (case requireOwnedOpenAssignment l actor (check_assignment cmd) AUTHORITY_REQUIRED ACTOR_MISMATCH ROLLOUT_CONFLICT of
              Inl e \<Rightarrow> Inl e
            | Inr a \<Rightarrow>
              (case cmd of
                 Check_declare c \<Rightarrow> decideCheckDeclare l actor a c
               | Check_run_commit c \<Rightarrow> decideCheckRun E l actor a c))))"

end
