(* ===== verification/Desk_Tables.thy ===== *)
theory Desk_Tables
  imports Desk_Rollout
begin

text \<open>
  The store's own reading of the tables (\<open>checkRefinements\<close> of plugin/server/desk-store.ts): what a
  document must satisfy beyond its row schemas. Every violation is answered the same way, so a
  table is accepted iff the conjunction below holds; the code's sets and maps become \<open>distinct\<close>
  lists of keys and lookups by key. The store evaluates it on every read and on the tables a
  decision proposes, before it writes them.

  Held here: memberships, assignments, candidates, handbacks, settlements, check definitions,
  rollout declarations and check runs. The scope, rollout-transition, brief and ownership tables
  have invariants of their own; tying a capacity claim to its event is not modelled.
\<close>

subsection \<open>Memberships\<close>

definition membershipRowOk :: "membership \<Rightarrow> bool" where
  "membershipRowOk m \<longleftrightarrow>
     (case m_state m of
        MS_unbound_open \<Rightarrow> m_agentId m = None \<and> m_workspaceId m = None \<and> m_hostConfirmedAt m = None \<and>
          m_registeredAt m = None \<and> m_revokedAt m = None
      | MS_host_confirmed \<Rightarrow> m_agentId m \<noteq> None \<and> m_hostConfirmedAt m \<noteq> None \<and> m_revokedAt m = None
      | MS_revoked \<Rightarrow> m_revokedAt m \<noteq> None \<and> m_revokeReason m \<noteq> None) \<and>
     \<not> (m_registeredAt m \<noteq> None \<and> m_hostConfirmedAt m = None)"

definition liveSeat :: "membership \<Rightarrow> bool" where
  "liveSeat m \<longleftrightarrow> m_agentId m \<noteq> None \<and> m_state m \<noteq> MS_revoked"

definition membershipsOk :: "membership list \<Rightarrow> bool" where
  "membershipsOk ms \<longleftrightarrow> list_all membershipRowOk ms \<and> distinct (map m_bindingHandleSha256 ms) \<and>
     distinct (map m_membershipId ms) \<and> distinct (map m_agentId (filter liveSeat ms))"

definition membershipById :: "ledger \<Rightarrow> string \<Rightarrow> membership option" where
  "membershipById l mid = find (\<lambda>m. m_membershipId m = mid) (memberships l)"

definition seatLink :: "ledger \<Rightarrow> string \<Rightarrow> string \<Rightarrow> bool" where
  \<comment> \<open>the membership a row names carries the agent the row names\<close>
  "seatLink l mid agent \<longleftrightarrow> (case membershipById l mid of None \<Rightarrow> False | Some m \<Rightarrow> m_agentId m = Some agent)"

definition leadLink :: "ledger \<Rightarrow> string \<Rightarrow> string \<Rightarrow> bool" where
  "leadLink l mid agent \<longleftrightarrow> (case membershipById l mid of
     None \<Rightarrow> False | Some m \<Rightarrow> m_agentId m = Some agent \<and> m_role m = Role_lead)"

subsection \<open>Assignments and their lineage\<close>

definition assignmentRowOk :: "ledger \<Rightarrow> assignment \<Rightarrow> bool" where
  "assignmentRowOk l a \<longleftrightarrow> leadLink l (a_ownerMembershipId a) (a_ownerAgentId a) \<and>
     distinct (map seat_membershipId (a_seats a)) \<and> distinct (map seat_agentId (a_seats a)) \<and>
     list_all (\<lambda>s. seatLink l (seat_membershipId s) (seat_agentId s)) (a_seats a)"

definition assignmentsOk :: "ledger \<Rightarrow> bool" where
  "assignmentsOk l \<longleftrightarrow> distinct (map a_assignmentId (assignments l)) \<and>
     distinct (map (\<lambda>a. (a_ownerAgentId a, a_requestId a)) (assignments l)) \<and> list_all (assignmentRowOk l) (assignments l)"

definition lineageTuples :: "ledger \<Rightarrow> string \<Rightarrow> (string \<times> string) list" where
  "lineageTuples l aid = (case findAssignment l aid of
       None \<Rightarrow> []
     | Some a \<Rightarrow> map (\<lambda>t. (ot_agentId t, ot_membershipId t))
         (lineageOwners a (filter (\<lambda>r. ac_assignmentId r = aid) (ownershipAccepts l))))"

definition inLineageTuple :: "ledger \<Rightarrow> string \<Rightarrow> string \<Rightarrow> string \<Rightarrow> bool" where
  "inLineageTuple l aid agent mid \<longleftrightarrow> (agent, mid) \<in> set (lineageTuples l aid)"

definition inLineageAgent :: "ledger \<Rightarrow> string \<Rightarrow> string \<Rightarrow> bool" where
  "inLineageAgent l aid agent \<longleftrightarrow> agent \<in> set (map fst (lineageTuples l aid))"

definition seatedOn :: "ledger \<Rightarrow> string \<Rightarrow> string \<Rightarrow> bool" where
  "seatedOn l aid agent \<longleftrightarrow> (case findAssignment l aid of
     None \<Rightarrow> False | Some a \<Rightarrow> list_ex (\<lambda>s. seat_agentId s = agent) (a_seats a))"

definition revisionWithin :: "ledger \<Rightarrow> string \<Rightarrow> nat \<Rightarrow> bool" where
  \<comment> \<open>a pinned assignment revision may lag, never lead\<close>
  "revisionWithin l aid n \<longleftrightarrow> (case findAssignment l aid of
     None \<Rightarrow> False | Some a \<Rightarrow> 1 \<le> n \<and> n \<le> assignmentStructuralRevision a)"

subsection \<open>Candidates and handbacks\<close>

definition candidateById :: "ledger \<Rightarrow> string \<Rightarrow> candidate option" where
  "candidateById l cid = find (\<lambda>c. c_candidateId c = cid) (candidates l)"

definition candidateRowOk :: "ledger \<Rightarrow> candidate \<Rightarrow> bool" where
  "candidateRowOk l c \<longleftrightarrow> seatLink l (c_seatMembershipId c) (c_seatAgentId c) \<and> seatedOn l (c_assignmentId c) (c_seatAgentId c)"

definition candidatesOk :: "ledger \<Rightarrow> bool" where
  "candidatesOk l \<longleftrightarrow> distinct (map c_candidateId (candidates l)) \<and> list_all (candidateRowOk l) (candidates l)"

definition claimedLink :: "ledger \<Rightarrow> handback \<Rightarrow> bool" where
  "claimedLink l h \<longleftrightarrow> opt_ok (\<lambda>cid. case candidateById l cid of
     None \<Rightarrow> False | Some c \<Rightarrow> c_assignmentId c = h_assignmentId h) (h_claimedCandidateId h)"

definition observedLink :: "ledger \<Rightarrow> handback \<Rightarrow> bool" where
  "observedLink l h \<longleftrightarrow> opt_ok (\<lambda>cid. case candidateById l cid of
     None \<Rightarrow> False | Some c \<Rightarrow> c_assignmentId c = h_assignmentId h \<and> c_seatMembershipId c = h_seatMembershipId h)
     (ob_candidateId (h_observed h))"

definition handbackRowOk :: "desk_env \<Rightarrow> ledger \<Rightarrow> handback \<Rightarrow> bool" where
  "handbackRowOk E l h \<longleftrightarrow> seatLink l (h_seatMembershipId h) (h_agentId h) \<and> seatedOn l (h_assignmentId h) (h_agentId h) \<and>
     h_recordSha256 h = canonical_sha256 E (h_record h) \<and> claimedLink l h \<and> observedLink l h"

definition handbacksOk :: "desk_env \<Rightarrow> ledger \<Rightarrow> bool" where
  "handbacksOk E l \<longleftrightarrow> distinct (map h_handbackId (handbacks l)) \<and>
     distinct (map (\<lambda>h. (h_assignmentId h, h_agentId h, h_revision h)) (handbacks l)) \<and>
     distinct (map (\<lambda>h. (h_assignmentId h, h_agentId h, h_requestId h)) (handbacks l)) \<and>
     list_all (handbackRowOk E l) (handbacks l)"

subsection \<open>Settlements\<close>

definition settledSeat :: "ledger \<Rightarrow> settlement \<Rightarrow> bool" where
  "settledSeat l s \<longleftrightarrow> (case findAssignment l (s_assignmentId s) of
       None \<Rightarrow> False
     | Some a \<Rightarrow> (case find (\<lambda>t. seat_agentId t = s_seatAgentId s) (a_seats a) of
         None \<Rightarrow> False | Some t \<Rightarrow> seat_membershipId t = s_seatMembershipId s)) \<and>
     (case membershipById l (s_seatMembershipId s) of
        None \<Rightarrow> False | Some m \<Rightarrow> m_agentId m = Some (s_seatAgentId s) \<and> m_provider m = s_seatProvider s)"

definition settledRefs :: "ledger \<Rightarrow> settlement \<Rightarrow> bool" where
  "settledRefs l s \<longleftrightarrow>
     list_all (\<lambda>ref. case find (\<lambda>h. h_handbackId h = ref) (handbacks l) of
       None \<Rightarrow> False | Some h \<Rightarrow> h_assignmentId h = s_assignmentId s \<and> h_agentId h = s_seatAgentId s) (s_handbackRefs s) \<and>
     list_all (\<lambda>ref. case candidateById l ref of
       None \<Rightarrow> False | Some c \<Rightarrow> c_assignmentId c = s_assignmentId s \<and> c_seatAgentId c = s_seatAgentId s) (s_candidateRefs s)"

definition exportCoherent :: "settlement \<Rightarrow> bool" where
  \<comment> \<open>an export nobody could verify never reads completed and is named as a gap\<close>
  "exportCoherent s \<longleftrightarrow> (let unverified = ''transcript-export-unverified'' \<in> set (s_gaps s) in
     case tl_export (s_timeline s) of
       None \<Rightarrow> s_exportVerification s = None
     | Some _ \<Rightarrow> (case s_exportVerification s of
         None \<Rightarrow> False
       | Some (EV_unavailable _) \<Rightarrow> s_status s \<noteq> ST_completed \<and> unverified
       | Some (EV_verified _) \<Rightarrow> \<not> unverified))"

definition settlementRowOk :: "ledger \<Rightarrow> settlement \<Rightarrow> bool" where
  "settlementRowOk l s \<longleftrightarrow> leadLink l (s_ownerMembershipId s) (s_ownerAgentId s) \<and>
     inLineageTuple l (s_assignmentId s) (s_ownerAgentId s) (s_ownerMembershipId s) \<and>
     settledSeat l s \<and> settledRefs l s \<and> exportCoherent s"

definition settlementsOk :: "ledger \<Rightarrow> bool" where
  "settlementsOk l \<longleftrightarrow> distinct (map s_settlementId (settlements l)) \<and>
     distinct (map (\<lambda>s. (s_assignmentId s, s_seatAgentId s, s_revision s)) (settlements l)) \<and>
     distinct (map (\<lambda>s. (s_assignmentId s, s_ownerAgentId s, s_requestId s)) (settlements l)) \<and>
     list_all (settlementRowOk l) (settlements l)"

subsection \<open>Check definitions and rollout declarations\<close>

definition scopeDeclared :: "ledger \<Rightarrow> string \<Rightarrow> string \<Rightarrow> bool" where
  "scopeDeclared l aid sid \<longleftrightarrow> list_ex (\<lambda>s. sc_assignmentId s = aid \<and> sc_scopeId s = sid) (scopes l)"

definition linkedRevision :: "nat \<Rightarrow> nat option \<Rightarrow> bool" where
  \<comment> \<open>the first revision has no predecessor, every other names the one before it\<close>
  "linkedRevision n prior \<longleftrightarrow> (if n = 1 then prior = None else prior = Some (n - 1))"

definition linkedStream :: "('r \<Rightarrow> nat) \<Rightarrow> ('r \<Rightarrow> nat option) \<Rightarrow> 'r list \<Rightarrow> bool" where
  \<comment> \<open>revisions are 1..n without a gap and the lineage is linked\<close>
  "linkedStream revision_of prior rs \<longleftrightarrow> contiguous (map revision_of rs) \<and> list_all (\<lambda>r. linkedRevision (revision_of r) (prior r)) rs"

definition ownedRow :: "ledger \<Rightarrow> string \<Rightarrow> string \<Rightarrow> string \<Rightarrow> string \<Rightarrow> nat \<Rightarrow> bool" where
  \<comment> \<open>what check definitions and rollout declarations share: owner, lineage, scope, pinned revision\<close>
  "ownedRow l aid agent mid sid n \<longleftrightarrow>
     leadLink l mid agent \<and> inLineageTuple l aid agent mid \<and> scopeDeclared l aid sid \<and> revisionWithin l aid n"

definition sameDefinition :: "check_definition \<Rightarrow> check_definition \<Rightarrow> bool" where
  "sameDefinition d e \<longleftrightarrow> cd_assignmentId e = cd_assignmentId d \<and> cd_checkId e = cd_checkId d"

definition checkDefinitionsOk :: "ledger \<Rightarrow> bool" where
  "checkDefinitionsOk l \<longleftrightarrow>
     distinct (map (\<lambda>d. (cd_assignmentId d, cd_ownerAgentId d, cd_requestId d)) (checkDefinitions l)) \<and>
     list_all (\<lambda>d. ownedRow l (cd_assignmentId d) (cd_ownerAgentId d) (cd_ownerMembershipId d) (cd_scopeId d) (cd_assignmentRevision d))
       (checkDefinitions l) \<and>
     list_all (\<lambda>d. linkedStream cd_revision cd_priorRevision (filter (sameDefinition d) (checkDefinitions l))) (checkDefinitions l)"

definition requiredResolves :: "ledger \<Rightarrow> rollout \<Rightarrow> required_check \<Rightarrow> bool" where
  "requiredResolves l r q \<longleftrightarrow> list_ex (\<lambda>d. cd_assignmentId d = ro_assignmentId r \<and> cd_checkId d = rq_checkId q \<and>
     cd_scopeId d = ro_scopeId r \<and> cd_definitionSha256 d = rq_definitionDigest q) (checkDefinitions l)"

definition rolloutRowOk :: "ledger \<Rightarrow> rollout \<Rightarrow> bool" where
  "rolloutRowOk l r \<longleftrightarrow>
     ownedRow l (ro_assignmentId r) (ro_ownerAgentId r) (ro_ownerMembershipId r) (ro_scopeId r) (ro_assignmentRevision r) \<and>
     list_ex (\<lambda>c. c_snapshotSha256 c = ro_candidateSnapshot r \<and> c_assignmentId c = ro_assignmentId r) (candidates l) \<and>
     distinct (map rq_checkId (ro_requiredChecks r)) \<and> list_all (requiredResolves l r) (ro_requiredChecks r)"

definition sameRollout :: "rollout \<Rightarrow> rollout \<Rightarrow> bool" where
  "sameRollout r s \<longleftrightarrow> ro_assignmentId s = ro_assignmentId r \<and> ro_rolloutId s = ro_rolloutId r"

definition rolloutsOk :: "ledger \<Rightarrow> bool" where
  "rolloutsOk l \<longleftrightarrow>
     distinct (map (\<lambda>r. (ro_assignmentId r, ro_ownerAgentId r, ro_requestId r)) (rollouts l)) \<and>
     list_all (rolloutRowOk l) (rollouts l) \<and>
     list_all (\<lambda>r. linkedStream ro_revision ro_priorRevision (filter (sameRollout r) (rollouts l))) (rollouts l)"

subsection \<open>Check runs\<close>

definition definitionAt :: "ledger \<Rightarrow> string \<Rightarrow> string \<Rightarrow> nat \<Rightarrow> check_definition option" where
  "definitionAt l aid cid n =
     find (\<lambda>d. cd_assignmentId d = aid \<and> cd_checkId d = cid \<and> cd_revision d = n) (checkDefinitions l)"

definition declarationAt :: "ledger \<Rightarrow> string \<Rightarrow> string \<Rightarrow> nat \<Rightarrow> rollout option" where
  "declarationAt l aid rid n = find (\<lambda>r. ro_assignmentId r = aid \<and> ro_rolloutId r = rid \<and> ro_revision r = n) (rollouts l)"

definition evidenceCarried :: "check_definition \<Rightarrow> check_run \<Rightarrow> bool" where
  \<comment> \<open>a passed run of a definition that requires evidence carries the evidence pointer\<close>
  "evidenceCarried d r \<longleftrightarrow> \<not> (cr_status r = CR_passed \<and> cd_requiredEvidence d \<noteq> [] \<and> cr_evidenceRef r = None)"

definition checkRunRowOk :: "ledger \<Rightarrow> check_run \<Rightarrow> bool" where
  "checkRunRowOk l r \<longleftrightarrow>
     (case (definitionAt l (cr_assignmentId r) (cr_checkId r) (cr_definitionRevision r),
            declarationAt l (cr_assignmentId r) (cr_rolloutId r) (cr_rolloutRevision r)) of
        (Some d, Some decl) \<Rightarrow> cd_definitionSha256 d = cr_definitionSha256 r \<and> cr_candidateSnapshot r = ro_candidateSnapshot decl \<and>
          cr_candidateHead r = ro_candidateHead decl \<and> ro_scopeId decl = cd_scopeId d \<and> evidenceCarried d r
      | _ \<Rightarrow> False) \<and>
     findAssignment l (cr_assignmentId r) \<noteq> None \<and>
     inLineageAgent l (cr_assignmentId r) (cr_actorAgentId r) \<and> seatLink l (cr_actorSeatId r) (cr_actorAgentId r)"

definition sameRetry :: "check_run \<Rightarrow> check_run \<Rightarrow> bool" where
  "sameRetry r s \<longleftrightarrow> cr_assignmentId s = cr_assignmentId r \<and> cr_rolloutId s = cr_rolloutId r \<and> cr_checkId s = cr_checkId r \<and>
     cr_candidateSnapshot s = cr_candidateSnapshot r"

fun retryLinked :: "nat \<Rightarrow> string option \<Rightarrow> check_run list \<Rightarrow> bool" where
  \<comment> \<open>attempts count from the index, each names the run before it\<close>
  "retryLinked i prior [] \<longleftrightarrow> True"
| "retryLinked i prior (r # rs) \<longleftrightarrow> cr_attempt r = i + 1 \<and> cr_retryOf r = prior \<and> retryLinked (i + 1) (Some (cr_runId r)) rs"

definition retryStreamOk :: "ledger \<Rightarrow> check_run list \<Rightarrow> bool" where
  \<comment> \<open>the runs of one stream, sorted by attempt\<close>
  "retryStreamOk l rs \<longleftrightarrow> (case rs of
       [] \<Rightarrow> True
     | first # _ \<Rightarrow>
         list_all (\<lambda>r. cr_definitionRevision r = cr_definitionRevision first \<and> cr_definitionSha256 r = cr_definitionSha256 first) rs \<and>
         (case definitionAt l (cr_assignmentId first) (cr_checkId first) (cr_definitionRevision first) of
            None \<Rightarrow> False
          | Some d \<Rightarrow> length rs \<le> 1 + cl_maxRetries (cd_limits d)) \<and>
         retryLinked 0 None rs)"

definition checkRunsOk :: "ledger \<Rightarrow> bool" where
  "checkRunsOk l \<longleftrightarrow> distinct (map cr_runId (checkRuns l)) \<and>
     distinct (map (\<lambda>r. (cr_assignmentId r, cr_actorAgentId r, cr_requestId r)) (checkRuns l)) \<and>
     list_all (checkRunRowOk l) (checkRuns l) \<and>
     list_all (\<lambda>r. retryStreamOk l (sort_key cr_attempt (filter (sameRetry r) (checkRuns l)))) (checkRuns l)"

subsection \<open>The tables together\<close>

definition tablesOk :: "desk_env \<Rightarrow> ledger \<Rightarrow> bool" where
  "tablesOk E l \<longleftrightarrow> membershipsOk (memberships l) \<and> assignmentsOk l \<and> candidatesOk l \<and> handbacksOk E l \<and> settlementsOk l \<and>
     checkDefinitionsOk l \<and> rolloutsOk l \<and> checkRunsOk l"

end
