(* ===== verification/Desk_Tables_Grow.thy ===== *)
theory Desk_Tables_Grow
  imports Desk_Tables
begin

text \<open>
  Commands only ever extend the desk: a membership keeps its identity, an assignment its
  registration and its seats, rows are appended. \<open>deskGrows\<close> says so through the lookups the table
  checks use, and every row check is monotone along it: what held of a row keeps holding, whatever
  else is appended. A command then owes the store only its own new rows.
\<close>

subsection \<open>Growth\<close>

definition sameSeatIdentity :: "membership \<Rightarrow> membership \<Rightarrow> bool" where
  "sameSeatIdentity m n \<longleftrightarrow> m_role n = m_role m \<and> m_provider n = m_provider m \<and>
     (m_agentId m \<noteq> None \<longrightarrow> m_agentId n = m_agentId m)"

definition assignmentGrows :: "assignment \<Rightarrow> assignment \<Rightarrow> bool" where
  "assignmentGrows a b \<longleftrightarrow> a_assignmentId b = a_assignmentId a \<and> a_requestId b = a_requestId a \<and>
     a_ownerAgentId b = a_ownerAgentId a \<and> a_ownerMembershipId b = a_ownerMembershipId a \<and>
     prefix (a_seats a) (a_seats b) \<and> assignmentStructuralRevision a \<le> assignmentStructuralRevision b"

definition sameClaim :: "handback \<Rightarrow> handback \<Rightarrow> bool" where
  "sameClaim h k \<longleftrightarrow> h_handbackId k = h_handbackId h \<and> h_assignmentId k = h_assignmentId h \<and> h_agentId k = h_agentId h"

definition deskGrows :: "ledger \<Rightarrow> ledger \<Rightarrow> bool" where
  "deskGrows l l' \<longleftrightarrow>
     (\<forall>mid m. membershipById l mid = Some m \<longrightarrow> (\<exists>n. membershipById l' mid = Some n \<and> sameSeatIdentity m n)) \<and>
     (\<forall>aid a. findAssignment l aid = Some a \<longrightarrow> (\<exists>b. findAssignment l' aid = Some b \<and> assignmentGrows a b)) \<and>
     (\<forall>hid h. find (\<lambda>h. h_handbackId h = hid) (handbacks l) = Some h \<longrightarrow>
        (\<exists>k. find (\<lambda>h. h_handbackId h = hid) (handbacks l') = Some k \<and> sameClaim h k)) \<and>
     set (ownershipAccepts l) \<subseteq> set (ownershipAccepts l') \<and> set (scopes l) \<subseteq> set (scopes l') \<and>
     prefix (candidates l) (candidates l') \<and> prefix (checkDefinitions l) (checkDefinitions l') \<and> prefix (rollouts l) (rollouts l')"

lemma find_prefix: "prefix xs ys \<Longrightarrow> find P xs = Some x \<Longrightarrow> find P ys = Some x"
  by (auto simp: prefix_def)

lemma list_ex_mono: "list_ex P xs \<Longrightarrow> set xs \<subseteq> set ys \<Longrightarrow> list_ex P ys"
  by (auto simp: list_ex_iff)

lemma list_ex_prefix: "list_ex P xs \<Longrightarrow> prefix xs ys \<Longrightarrow> list_ex P ys"
  by (erule list_ex_mono) (auto simp: prefix_def)

lemma sameSeatIdentity_refl [simp]: "sameSeatIdentity m m"
  by (simp add: sameSeatIdentity_def)

lemma assignmentGrows_refl [simp]: "assignmentGrows a a"
  by (simp add: assignmentGrows_def)

lemma sameClaim_refl [simp]: "sameClaim h h"
  by (simp add: sameClaim_def)

named_theorems grow_mono "row checks preserved when the desk grows"

lemma seatLink_grows [grow_mono]: "deskGrows l l' \<Longrightarrow> seatLink l mid agent \<Longrightarrow> seatLink l' mid agent"
  by (auto simp: deskGrows_def seatLink_def sameSeatIdentity_def split: option.splits) fastforce+

lemma leadLink_grows [grow_mono]: "deskGrows l l' \<Longrightarrow> leadLink l mid agent \<Longrightarrow> leadLink l' mid agent"
  by (auto simp: deskGrows_def leadLink_def sameSeatIdentity_def split: option.splits) fastforce+

lemma candidateById_grows: "deskGrows l l' \<Longrightarrow> candidateById l cid = Some c \<Longrightarrow> candidateById l' cid = Some c"
  by (auto simp: deskGrows_def candidateById_def intro: find_prefix)

lemma findAssignment_grows:
  assumes "deskGrows l l'" and "findAssignment l aid = Some a"
  obtains b where "findAssignment l' aid = Some b" and "assignmentGrows a b"
  using assms unfolding deskGrows_def by blast

lemma seatedOn_grows [grow_mono]: "deskGrows l l' \<Longrightarrow> seatedOn l aid agent \<Longrightarrow> seatedOn l' aid agent"
  by (auto simp: seatedOn_def assignmentGrows_def split: option.splits elim!: findAssignment_grows intro: list_ex_prefix)

lemma revisionWithin_grows [grow_mono]: "deskGrows l l' \<Longrightarrow> revisionWithin l aid n \<Longrightarrow> revisionWithin l' aid n"
  by (auto simp: revisionWithin_def assignmentGrows_def split: option.splits elim!: findAssignment_grows)

lemma scopeDeclared_grows [grow_mono]: "deskGrows l l' \<Longrightarrow> scopeDeclared l aid sid \<Longrightarrow> scopeDeclared l' aid sid"
  by (auto simp: deskGrows_def scopeDeclared_def intro: list_ex_mono)

lemma lineageTuples_set:
  "set (lineageTuples l aid) = (case findAssignment l aid of
     None \<Rightarrow> {}
   | Some a \<Rightarrow> insert (a_ownerAgentId a, a_ownerMembershipId a)
       ((\<lambda>r. (ac_toAgentId r, ac_toMembershipId r)) ` {r \<in> set (ownershipAccepts l). ac_assignmentId r = aid}))"
  by (auto simp: lineageTuples_def lineageOwners_def split: option.split)

lemma lineageTuples_grows:
  assumes "deskGrows l l'"
  shows "set (lineageTuples l aid) \<subseteq> set (lineageTuples l' aid)"
proof (cases "findAssignment l aid")
  case (Some a)
  with assms obtain b where "findAssignment l' aid = Some b" and "assignmentGrows a b" by (rule findAssignment_grows)
  moreover have "set (ownershipAccepts l) \<subseteq> set (ownershipAccepts l')" using assms by (simp add: deskGrows_def)
  ultimately show ?thesis using Some unfolding lineageTuples_set by (auto simp: assignmentGrows_def)
qed (simp add: lineageTuples_set)

lemma inLineageTuple_grows [grow_mono]: "deskGrows l l' \<Longrightarrow> inLineageTuple l aid agent mid \<Longrightarrow> inLineageTuple l' aid agent mid"
  using lineageTuples_grows by (auto simp: inLineageTuple_def)

lemma inLineageAgent_grows [grow_mono]: "deskGrows l l' \<Longrightarrow> inLineageAgent l aid agent \<Longrightarrow> inLineageAgent l' aid agent"
  using lineageTuples_grows by (fastforce simp: inLineageAgent_def)

lemma ownedRow_grows [grow_mono]: "deskGrows l l' \<Longrightarrow> ownedRow l aid agent mid sid n \<Longrightarrow> ownedRow l' aid agent mid sid n"
  by (simp add: ownedRow_def grow_mono)

subsection \<open>Rows\<close>

lemma candidateRow_grows [grow_mono]: "deskGrows l l' \<Longrightarrow> candidateRowOk l c \<Longrightarrow> candidateRowOk l' c"
  by (simp add: candidateRowOk_def grow_mono)

lemma handbackRow_grows [grow_mono]: "deskGrows l l' \<Longrightarrow> handbackRowOk E l h \<Longrightarrow> handbackRowOk E l' h"
  by (cases "h_claimedCandidateId h"; cases "ob_candidateId (h_observed h)")
    (auto simp: handbackRowOk_def claimedLink_def observedLink_def grow_mono split: option.splits dest: candidateById_grows)

lemma settledSeat_grows [grow_mono]:
  assumes "deskGrows l l'" and "settledSeat l s"
  shows "settledSeat l' s"
proof -
  from assms(2) obtain a t m where a: "findAssignment l (s_assignmentId s) = Some a"
    and t: "find (\<lambda>t. seat_agentId t = s_seatAgentId s) (a_seats a) = Some t" "seat_membershipId t = s_seatMembershipId s"
    and m: "membershipById l (s_seatMembershipId s) = Some m" "m_agentId m = Some (s_seatAgentId s)" "m_provider m = s_seatProvider s"
    by (auto simp: settledSeat_def split: option.splits)
  from assms(1) a obtain b where "findAssignment l' (s_assignmentId s) = Some b" and "assignmentGrows a b"
    by (rule findAssignment_grows)
  moreover from assms(1) m(1) obtain n where "membershipById l' (s_seatMembershipId s) = Some n" and "sameSeatIdentity m n"
    unfolding deskGrows_def by blast
  ultimately show ?thesis
    using t m by (auto simp: settledSeat_def assignmentGrows_def sameSeatIdentity_def dest: find_prefix)
qed

lemma settledRefs_grows [grow_mono]:
  assumes "deskGrows l l'" and "settledRefs l s"
  shows "settledRefs l' s"
proof -
  have h: "\<exists>k. find (\<lambda>h. h_handbackId h = ref) (handbacks l') = Some k \<and> sameClaim h k"
    if "find (\<lambda>h. h_handbackId h = ref) (handbacks l) = Some h" for ref h
    using assms(1) that unfolding deskGrows_def by blast
  show ?thesis
    using assms(2) candidateById_grows [OF assms(1)]
    by (fastforce simp: settledRefs_def list_all_iff sameClaim_def split: option.splits dest: h)
qed

lemma settlementRow_grows [grow_mono]: "deskGrows l l' \<Longrightarrow> settlementRowOk l s \<Longrightarrow> settlementRowOk l' s"
  by (simp add: settlementRowOk_def grow_mono)

lemma rolloutRow_grows [grow_mono]:
  assumes "deskGrows l l'" and "rolloutRowOk l r"
  shows "rolloutRowOk l' r"
proof -
  have "prefix (candidates l) (candidates l')" and d: "prefix (checkDefinitions l) (checkDefinitions l')"
    using assms(1) by (simp_all add: deskGrows_def)
  with assms(2) show ?thesis
    by (auto simp: rolloutRowOk_def ownedRow_grows [OF assms(1)] list_all_iff requiredResolves_def intro: list_ex_prefix)
qed

lemma definitionAt_grows: "deskGrows l l' \<Longrightarrow> definitionAt l aid cid n = Some d \<Longrightarrow> definitionAt l' aid cid n = Some d"
  by (auto simp: deskGrows_def definitionAt_def intro: find_prefix)

lemma declarationAt_grows: "deskGrows l l' \<Longrightarrow> declarationAt l aid cid n = Some d \<Longrightarrow> declarationAt l' aid cid n = Some d"
  by (auto simp: deskGrows_def declarationAt_def intro: find_prefix)

lemma checkRunRow_grows [grow_mono]:
  assumes "deskGrows l l'" and "checkRunRowOk l r"
  shows "checkRunRowOk l' r"
proof -
  from assms(2) obtain d decl a where "definitionAt l (cr_assignmentId r) (cr_checkId r) (cr_definitionRevision r) = Some d"
    and "declarationAt l (cr_assignmentId r) (cr_rolloutId r) (cr_rolloutRevision r) = Some decl"
    and "findAssignment l (cr_assignmentId r) = Some a"
    by (auto simp: checkRunRowOk_def split: option.splits)
  note keep = definitionAt_grows [OF assms(1) this(1)] declarationAt_grows [OF assms(1) this(2)] this
  obtain b where "findAssignment l' (cr_assignmentId r) = Some b" using findAssignment_grows [OF assms(1) keep(5)] by blast
  with assms(2) keep show ?thesis
    by (simp add: checkRunRowOk_def inLineageAgent_grows [OF assms(1)] seatLink_grows [OF assms(1)])
qed

lemma retryStream_grows [grow_mono]: "deskGrows l l' \<Longrightarrow> retryStreamOk l rs \<Longrightarrow> retryStreamOk l' rs"
  by (auto simp: retryStreamOk_def split: list.splits option.splits dest: definitionAt_grows)

lemma assignmentRow_grows [grow_mono]: "deskGrows l l' \<Longrightarrow> assignmentRowOk l a \<Longrightarrow> assignmentRowOk l' a"
  by (auto simp: assignmentRowOk_def grow_mono list_all_iff)

subsection \<open>Tables\<close>

text \<open>A table that carries over, and a table one row is appended to.\<close>

lemma rows_grow: "deskGrows l l' \<Longrightarrow> (\<And>x. P l x \<Longrightarrow> P l' x) \<Longrightarrow> list_all (P l) xs \<Longrightarrow> list_all (P l') xs"
  by (auto simp: list_all_iff)

lemma distinct_snoc: "distinct (map f xs) \<Longrightarrow> f x \<notin> f ` set xs \<Longrightarrow> distinct (map f (xs @ [x]))"
  by simp

lemma carried_tables:
  assumes "deskGrows l l'"
  shows "assignments l' = assignments l \<Longrightarrow> assignmentsOk l \<Longrightarrow> assignmentsOk l'"
    and "candidates l' = candidates l \<Longrightarrow> candidatesOk l \<Longrightarrow> candidatesOk l'"
    and "handbacks l' = handbacks l \<Longrightarrow> handbacksOk E l \<Longrightarrow> handbacksOk E l'"
    and "settlements l' = settlements l \<Longrightarrow> settlementsOk l \<Longrightarrow> settlementsOk l'"
    and "checkDefinitions l' = checkDefinitions l \<Longrightarrow> checkDefinitionsOk l \<Longrightarrow> checkDefinitionsOk l'"
    and "rollouts l' = rollouts l \<Longrightarrow> rolloutsOk l \<Longrightarrow> rolloutsOk l'"
    and "checkRuns l' = checkRuns l \<Longrightarrow> checkRunsOk l \<Longrightarrow> checkRunsOk l'"
  by (auto simp: assignmentsOk_def candidatesOk_def handbacksOk_def settlementsOk_def checkDefinitionsOk_def
      rolloutsOk_def checkRunsOk_def list_all_iff grow_mono [OF assms])

lemma tablesOk_carried:
  assumes "deskGrows l l'" and "tablesOk E l" and "membershipsOk (memberships l')"
    and "assignments l' = assignments l \<or> assignmentsOk l'" and "candidates l' = candidates l \<or> candidatesOk l'"
    and "handbacks l' = handbacks l \<or> handbacksOk E l'" and "settlements l' = settlements l \<or> settlementsOk l'"
    and "checkDefinitions l' = checkDefinitions l \<or> checkDefinitionsOk l'" and "rollouts l' = rollouts l \<or> rolloutsOk l'"
    and "checkRuns l' = checkRuns l \<or> checkRunsOk l'"
  shows "tablesOk E l'"
  using assms(2-10) carried_tables [OF assms(1)] unfolding tablesOk_def by blast

lemma candidates_snoc:
  assumes "deskGrows l l'" and "candidatesOk l" and "candidates l' = candidates l @ [c]"
    and "candidateRowOk l' c" and "c_candidateId c \<notin> c_candidateId ` set (candidates l)"
  shows "candidatesOk l'"
  using assms by (auto simp: candidatesOk_def list_all_iff grow_mono)

lemma handbacks_snoc:
  assumes "deskGrows l l'" and "handbacksOk E l" and "handbacks l' = handbacks l @ [h]" and "handbackRowOk E l' h"
    and "h_handbackId h \<notin> h_handbackId ` set (handbacks l)"
    and "(h_assignmentId h, h_agentId h, h_revision h) \<notin> (\<lambda>h. (h_assignmentId h, h_agentId h, h_revision h)) ` set (handbacks l)"
    and "(h_assignmentId h, h_agentId h, h_requestId h) \<notin> (\<lambda>h. (h_assignmentId h, h_agentId h, h_requestId h)) ` set (handbacks l)"
  shows "handbacksOk E l'"
  using assms(2,4-7) unfolding handbacksOk_def assms(3) map_append list_all_append distinct_append
  by (auto simp: list_all_iff grow_mono [OF assms(1)])

lemma settlements_snoc:
  assumes "deskGrows l l'" and "settlementsOk l" and "settlements l' = settlements l @ [s]" and "settlementRowOk l' s"
    and "s_settlementId s \<notin> s_settlementId ` set (settlements l)"
    and "(s_assignmentId s, s_seatAgentId s, s_revision s) \<notin> (\<lambda>s. (s_assignmentId s, s_seatAgentId s, s_revision s)) ` set (settlements l)"
    and "(s_assignmentId s, s_ownerAgentId s, s_requestId s) \<notin> (\<lambda>s. (s_assignmentId s, s_ownerAgentId s, s_requestId s)) ` set (settlements l)"
  shows "settlementsOk l'"
  using assms(2,4-7) unfolding settlementsOk_def assms(3) map_append list_all_append distinct_append
  by (auto simp: list_all_iff grow_mono [OF assms(1)])

lemma linkedStream_snoc:
  assumes "linkedStream k p rs" and "k r = length rs + 1" and "p r = (if rs = [] then None else Some (length rs))"
  shows "linkedStream k p (rs @ [r])"
proof -
  have c: "distinct (map k rs)" "set (map k rs) = {1..length rs}"
    using assms(1) contiguous_iff [of "map k rs"] by (auto simp: linkedStream_def)
  have "contiguous (map k (rs @ [r]))"
  proof (rule contiguousI)
    show "distinct (map k (rs @ [r]))" using c assms(2) by auto
    show "set (map k (rs @ [r])) = {1..length (map k (rs @ [r]))}" using c(2) assms(2) by auto
  qed
  then show ?thesis using assms by (simp add: linkedStream_def linkedRevision_def)
qed

subsection \<open>Commands that extend\<close>

lemma find_map_same: "(\<And>x. P (g x) = P x) \<Longrightarrow> find P (map g xs) = map_option g (find P xs)"
  by (induction xs) auto

lemma find_distinct: "x \<in> set xs \<Longrightarrow> distinct (map f xs) \<Longrightarrow> find (\<lambda>y. f y = f x) xs = Some x"
  by (induction xs) (auto simp: image_iff)

lemma find_snoc_fresh: "f x \<notin> f ` set xs \<Longrightarrow> find (\<lambda>y. f y = f x) (xs @ [x]) = Some x"
  by (induction xs) auto

lemma find_ex: "x \<in> set xs \<Longrightarrow> P x \<Longrightarrow> \<exists>y. find P xs = Some y"
  by (induction xs) auto

lemma foldl_max_ge: "m \<le> foldl (\<lambda>m x. max m (f x)) m xs" "x \<in> set xs \<Longrightarrow> f x \<le> foldl (\<lambda>m x. max m (f x)) (m :: nat) xs"
proof -
  show a: "m \<le> foldl (\<lambda>m x. max m (f x)) m xs" for m :: nat and xs
  proof (induction xs arbitrary: m)
    case (Cons y ys)
    show ?case using Cons.IH [of "max m (f y)"] by simp
  qed simp
  show "x \<in> set xs \<Longrightarrow> f x \<le> foldl (\<lambda>m x. max m (f x)) m xs"
  proof (induction xs arbitrary: m)
    case (Cons y ys)
    then show ?case using a [of "max m (f y)" ys] by (cases "x = y") auto
  qed simp
qed

lemma deskGrows_extend:
  assumes "memberships l' = memberships l"
    and "\<And>aid a. findAssignment l aid = Some a \<Longrightarrow> \<exists>b. findAssignment l' aid = Some b \<and> assignmentGrows a b"
    and "\<And>hid h. find (\<lambda>h. h_handbackId h = hid) (handbacks l) = Some h \<Longrightarrow>
      \<exists>k. find (\<lambda>h. h_handbackId h = hid) (handbacks l') = Some k \<and> sameClaim h k"
    and "set (ownershipAccepts l) \<subseteq> set (ownershipAccepts l')" and "set (scopes l) \<subseteq> set (scopes l')"
    and "prefix (candidates l) (candidates l')" and "prefix (checkDefinitions l) (checkDefinitions l')"
    and "prefix (rollouts l) (rollouts l')"
  shows "deskGrows l l'"
  using assms unfolding deskGrows_def membershipById_def by auto

lemma findAssignment_prefix:
  "prefix (assignments l) (assignments l') \<Longrightarrow> findAssignment l aid = Some a \<Longrightarrow>
   \<exists>b. findAssignment l' aid = Some b \<and> assignmentGrows a b"
  unfolding findAssignment_def by (intro exI [of _ a] conjI) (simp_all only: find_prefix assignmentGrows_refl)

lemma findHandback_prefix:
  "prefix (handbacks l) (handbacks l') \<Longrightarrow> find (\<lambda>h. h_handbackId h = hid) (handbacks l) = Some h \<Longrightarrow>
   \<exists>k. find (\<lambda>h. h_handbackId h = hid) (handbacks l') = Some k \<and> sameClaim h k"
  by (intro exI [of _ h] conjI) (simp_all only: find_prefix sameClaim_refl)

lemma deskGrows_prefix:
  assumes "memberships l' = memberships l" and "prefix (assignments l) (assignments l')" and "prefix (handbacks l) (handbacks l')"
    and "set (ownershipAccepts l) \<subseteq> set (ownershipAccepts l')" and "set (scopes l) \<subseteq> set (scopes l')"
    and "prefix (candidates l) (candidates l')" and "prefix (checkDefinitions l) (checkDefinitions l')"
    and "prefix (rollouts l) (rollouts l')"
  shows "deskGrows l l'"
  using assms by (intro deskGrows_extend findAssignment_prefix findHandback_prefix) simp_all

subsection \<open>Actors\<close>

lemma requireActor_facts:
  assumes "requireActor l agent = Inr actor"
  shows "actor \<in> set (memberships l)" and "m_agentId actor = Some agent" and "actorAgent actor = agent" and "liveSeat actor"
  using assms by (auto simp: requireActor_def liveMembership_def liveSeat_def actorAgent_def split: option.splits dest!: find_SomeD)

lemma membershipById_in:
  "membershipsOk (memberships l) \<Longrightarrow> m \<in> set (memberships l) \<Longrightarrow> membershipById l (m_membershipId m) = Some m"
  by (simp add: membershipsOk_def membershipById_def find_distinct)

lemma actor_links:
  assumes "requireActor l agent = Inr actor" and "membershipsOk (memberships l)"
  shows "seatLink l (m_membershipId actor) agent" and "m_role actor = Role_lead \<Longrightarrow> leadLink l (m_membershipId actor) agent"
  using membershipById_in [OF assms(2) requireActor_facts(1) [OF assms(1)]] requireActor_facts(2) [OF assms(1)]
  by (simp_all add: seatLink_def leadLink_def)

lemma custodyWalk_source:
  "(ot_agentId (custodyWalk owner rows), ot_membershipId (custodyWalk owner rows)) \<in>
     insert (ot_agentId owner, ot_membershipId owner) ((\<lambda>r. (ac_toAgentId r, ac_toMembershipId r)) ` set rows)"
  by (induction owner rows rule: custodyWalk.induct) auto

lemma owner_inLineage:
  assumes "findAssignment l aid = Some a" and "effectiveOwnerMatches l a actor" and "m_agentId actor = Some agent"
  shows "inLineageTuple l aid agent (m_membershipId actor)"
proof -
  have id: "a_assignmentId a = aid" using assms(1) by (auto simp: findAssignment_def dest: find_SomeD)
  have "agent = ot_agentId (effectiveOwner l a)" and "m_membershipId actor = ot_membershipId (effectiveOwner l a)"
    using assms(2,3) by (simp_all add: effectiveOwnerMatches_def ownerIs_def)
  then show ?thesis
    using custodyWalk_source [of "registeredOwner a" "acceptStream l aid"] assms(1)
    by (auto simp: inLineageTuple_def lineageTuples_set effectiveOwner_def id registeredOwner_def acceptStream_def)
qed

lemma inLineage_agent: "inLineageTuple l aid agent mid \<Longrightarrow> inLineageAgent l aid agent"
  by (force simp: inLineageTuple_def inLineageAgent_def)

subsection \<open>One table replaced\<close>

lemma apply_one_table:
  "apply_tables l no_tables = l"
  "apply_tables l (no_tables\<lparr>p_memberships := Some ms\<rparr>) = l\<lparr>memberships := ms\<rparr>"
  "apply_tables l (no_tables\<lparr>p_assignments := Some as\<rparr>) = l\<lparr>assignments := as\<rparr>"
  "apply_tables l (no_tables\<lparr>p_handbacks := Some hs\<rparr>) = l\<lparr>handbacks := hs\<rparr>"
  "apply_tables l (no_tables\<lparr>p_handbacks := Some hs, p_candidates := Some cs\<rparr>) = l\<lparr>handbacks := hs, candidates := cs\<rparr>"
  "apply_tables l (no_tables\<lparr>p_settlements := Some ss\<rparr>) = l\<lparr>settlements := ss\<rparr>"
  "apply_tables l (no_tables\<lparr>p_checkDefinitions := Some ds\<rparr>) = l\<lparr>checkDefinitions := ds\<rparr>"
  "apply_tables l (no_tables\<lparr>p_checkRuns := Some rs\<rparr>) = l\<lparr>checkRuns := rs\<rparr>"
  by (cases l; simp add: apply_tables_def no_tables_def)+

end
