(* ===== verification/Desk_Check_Tables.thy ===== *)
theory Desk_Check_Tables
  imports Desk_Check Desk_Tables_Grow
begin

text \<open>
  Check definitions and check runs against the store's table checks. A definition always fits. A
  run fits unless it passed a definition that requires evidence and carries none: the decision
  accepts that run, the store's checks refuse it.
\<close>

subsection \<open>Linked streams\<close>

lemma linkedStream_head:
  assumes "linkedStream k p rs"
  shows "map_option k (last_opt (sort_key k rs)) = (if rs = [] then None else Some (length rs))"
proof (cases "rs = []")
  case False
  have m: "map k (sort_key k rs) = [1..<Suc (length rs)]"
    using assms contiguous_sorted_iff [of k rs] by (simp add: linkedStream_def)
  have ne: "sort_key k rs \<noteq> []" using False by (metis length_0_conv length_sort)
  then have "k (last (sort_key k rs)) = last (map k (sort_key k rs))" by (simp add: last_map)
  moreover have "1 \<le> length rs" using False by (cases rs) simp_all
  ultimately show ?thesis using m False ne by (simp add: last_opt_def)
qed simp

lemma linkedStream_unique:
  "linkedStream k p rs \<Longrightarrow> x \<in> set rs \<Longrightarrow> y \<in> set rs \<Longrightarrow> k x = k y \<Longrightarrow> x = y"
  using contiguous_iff [of "map k rs"] by (auto simp: linkedStream_def distinct_map dest: inj_onD)

lemma definitionStream_linked:
  assumes "checkDefinitionsOk l"
  shows "linkedStream cd_revision cd_priorRevision (filter (\<lambda>d. cd_assignmentId d = aid \<and> cd_checkId d = cid) (checkDefinitions l))"
proof (cases "filter (\<lambda>d. cd_assignmentId d = aid \<and> cd_checkId d = cid) (checkDefinitions l)")
  case Nil
  then show ?thesis unfolding Nil by (simp add: linkedStream_def)
next
  case (Cons d ds)
  then have d: "d \<in> set (checkDefinitions l)" "cd_assignmentId d = aid" "cd_checkId d = cid" by (auto simp: filter_eq_Cons_iff)
  have "sameDefinition d = (\<lambda>e. cd_assignmentId e = aid \<and> cd_checkId e = cid)" using d by (auto simp: sameDefinition_def)
  with assms d(1) show ?thesis by (auto simp: checkDefinitionsOk_def list_all_iff)
qed

lemma rolloutStream_linked:
  assumes "rolloutsOk l"
  shows "linkedStream ro_revision ro_priorRevision (filter (\<lambda>r. ro_assignmentId r = aid \<and> ro_rolloutId r = rid) (rollouts l))"
proof (cases "filter (\<lambda>r. ro_assignmentId r = aid \<and> ro_rolloutId r = rid) (rollouts l)")
  case Nil
  then show ?thesis unfolding Nil by (simp add: linkedStream_def)
next
  case (Cons d ds)
  then have d: "d \<in> set (rollouts l)" "ro_assignmentId d = aid" "ro_rolloutId d = rid" by (auto simp: filter_eq_Cons_iff)
  have "sameRollout d = (\<lambda>e. ro_assignmentId e = aid \<and> ro_rolloutId e = rid)" using d by (auto simp: sameRollout_def)
  with assms d(1) show ?thesis by (auto simp: rolloutsOk_def list_all_iff)
qed

lemma definitionAt_in:
  assumes "checkDefinitionsOk l" and "d \<in> set (checkDefinitions l)"
  shows "definitionAt l (cd_assignmentId d) (cd_checkId d) (cd_revision d) = Some d"
proof -
  obtain e where e: "definitionAt l (cd_assignmentId d) (cd_checkId d) (cd_revision d) = Some e"
    unfolding definitionAt_def using assms(2)
    by (metis (mono_tags, lifting) find_ex)
  then have "e \<in> set (checkDefinitions l)" "cd_assignmentId e = cd_assignmentId d" "cd_checkId e = cd_checkId d" "cd_revision e = cd_revision d"
    by (auto simp: definitionAt_def dest: find_SomeD)
  with assms(2) have "e = d"
    by (intro linkedStream_unique [OF definitionStream_linked [OF assms(1), of "cd_assignmentId d" "cd_checkId d"]]) auto
  with e show ?thesis by simp
qed

lemma declarationAt_in:
  assumes "rolloutsOk l" and "d \<in> set (rollouts l)"
  shows "declarationAt l (ro_assignmentId d) (ro_rolloutId d) (ro_revision d) = Some d"
proof -
  obtain e where e: "declarationAt l (ro_assignmentId d) (ro_rolloutId d) (ro_revision d) = Some e"
    unfolding declarationAt_def using assms(2)
    by (metis (mono_tags, lifting) find_ex)
  then have "e \<in> set (rollouts l)" "ro_assignmentId e = ro_assignmentId d" "ro_rolloutId e = ro_rolloutId d" "ro_revision e = ro_revision d"
    by (auto simp: declarationAt_def dest: find_SomeD)
  with assms(2) have "e = d"
    by (intro linkedStream_unique [OF rolloutStream_linked [OF assms(1), of "ro_assignmentId d" "ro_rolloutId d"]]) auto
  with e show ?thesis by simp
qed

subsection \<open>Definitions\<close>

lemma check_decided:
  assumes "decideDeskCheck E l cmd = Inr (evs, p)"
  obtains actor a where "requireActor l (check_actor cmd) = Inr actor" and "m_role actor = Role_lead"
    and "findAssignment l (check_assignment cmd) = Some a" and "effectiveOwnerMatches l a actor" and "a_state a = AS_open"
    and "(case cmd of Check_declare c \<Rightarrow> decideCheckDeclare l actor a c | Check_run_commit c \<Rightarrow> decideCheckRun E l actor a c) = Inr (evs, p)"
  using assms unfolding decideDeskCheck_def requireOwnedOpenAssignment_def accepted requireLead_None by auto

lemma declare_check_accepted:
  assumes "decideCheckDeclare l actor a c = Inr (evs, p)"
  shows "scopeDeclared l (kd_assignmentId c) (kd_scopeId c)"
    and "p = no_tables\<lparr>p_checkDefinitions := Some (checkDefinitions l @ [definitionRow l actor a c])\<rparr>"
    and "evs = [declaredCheckEvent (definitionRow l actor a c)]"
  using assms unfolding decideCheckDeclare_def Let_def accepted by (auto simp: scopeDeclared_def)

definition definitionFresh :: "ledger \<Rightarrow> check_declare_command \<Rightarrow> bool" where
  "definitionFresh l c \<longleftrightarrow> list_all (\<lambda>d. \<not> (cd_assignmentId d = kd_assignmentId c \<and> cd_ownerAgentId d = kd_actorAgentId c \<and>
     cd_requestId d = kd_requestId c)) (checkDefinitions l)"

lemma declare_check_keeps:
  assumes "decideCheckDeclare l actor a c = Inr (evs, p)" and "tablesOk E l" and "requireActor l (kd_actorAgentId c) = Inr actor"
    and "m_role actor = Role_lead" and "findAssignment l (kd_assignmentId c) = Some a" and "effectiveOwnerMatches l a actor"
    and "definitionFresh l c"
  shows "tablesOk E (apply_tables l p)"
proof -
  let ?row = "definitionRow l actor a c"
  note dec = declare_check_accepted [OF assms(1)]
  define l' where "l' = l\<lparr>checkDefinitions := checkDefinitions l @ [?row]\<rparr>"
  have grows: "deskGrows l l'" by (rule deskGrows_prefix) (simp_all add: l'_def)
  have agent: "actorAgent actor = kd_actorAgentId c" by (rule requireActor_facts(3) [OF assms(3)])
  have ms: "membershipsOk (memberships l)" and ds: "checkDefinitionsOk l" using assms(2) by (simp_all add: tablesOk_def)
  let ?same = "\<lambda>d. cd_assignmentId d = kd_assignmentId c \<and> cd_checkId d = kd_checkId c"
  let ?old = "filter ?same (checkDefinitions l)"
  have linked: "linkedStream cd_revision cd_priorRevision ?old" by (rule definitionStream_linked [OF ds])
  have key: "cd_assignmentId ?row = kd_assignmentId c" "cd_checkId ?row = kd_checkId c" "cd_ownerAgentId ?row = kd_actorAgentId c"
    "cd_ownerMembershipId ?row = m_membershipId actor" "cd_scopeId ?row = kd_scopeId c" "cd_requestId ?row = kd_requestId c"
    "cd_assignmentRevision ?row = assignmentStructuralRevision a"
    by (simp_all add: definitionRow_def Let_def agent)
  have head: "map_option cd_revision (last_opt (definitionStream l (kd_assignmentId c) (kd_checkId c))) = (if ?old = [] then None else Some (length ?old))"
    using linkedStream_head [OF linked] by (simp add: definitionStream_def)
  have "cd_priorRevision ?row = (if ?old = [] then None else Some (length ?old))"
    using head by (simp add: definitionRow_def Let_def)
  moreover have "cd_revision ?row = length ?old + 1"
    using head by (cases "last_opt (definitionStream l (kd_assignmentId c) (kd_checkId c))") (auto simp: definitionRow_def Let_def split: if_splits)
  ultimately have "linkedStream cd_revision cd_priorRevision (?old @ [?row])" by (intro linkedStream_snoc [OF linked])
  moreover have "filter (sameDefinition d) (checkDefinitions l') =
      (if sameDefinition d ?row then ?old @ [?row] else filter (sameDefinition d) (checkDefinitions l))" for d
    by (auto simp: l'_def sameDefinition_def key intro!: filter_cong)
  ultimately have streams: "list_all (\<lambda>d. linkedStream cd_revision cd_priorRevision (filter (sameDefinition d) (checkDefinitions l'))) (checkDefinitions l')"
    using ds by (auto simp: checkDefinitionsOk_def list_all_iff l'_def sameDefinition_def)
  have "ownedRow l (kd_assignmentId c) (kd_actorAgentId c) (m_membershipId actor) (kd_scopeId c) (assignmentStructuralRevision a)"
    using actor_links(2) [OF assms(3) ms assms(4)] owner_inLineage [OF assms(5,6) requireActor_facts(2) [OF assms(3)]] dec(1) assms(5)
    by (simp add: ownedRow_def revisionWithin_def assignmentStructuralRevision_def)
  then have "ownedRow l' (kd_assignmentId c) (kd_actorAgentId c) (m_membershipId actor) (kd_scopeId c) (assignmentStructuralRevision a)"
    by (rule ownedRow_grows [OF grows])
  moreover have "(kd_assignmentId c, kd_actorAgentId c, kd_requestId c) \<notin>
      (\<lambda>d. (cd_assignmentId d, cd_ownerAgentId d, cd_requestId d)) ` set (checkDefinitions l)"
    using assms(7) by (auto simp: definitionFresh_def list_all_iff)
  ultimately have "checkDefinitionsOk l'"
    using ds streams unfolding checkDefinitionsOk_def
    by (auto simp: l'_def key list_all_iff ownedRow_grows [OF grows, unfolded l'_def])
  then show ?thesis
    unfolding dec(2) apply_one_table l'_def [symmetric]
    by (intro tablesOk_carried [OF grows assms(2)]) (simp_all add: l'_def ms)
qed

subsection \<open>Runs\<close>

lemma retryLinked_snoc:
  "retryLinked i prior (rs @ [r]) \<longleftrightarrow> retryLinked i prior rs \<and> cr_attempt r = i + length rs + 1 \<and>
     cr_retryOf r = (case last_opt rs of None \<Rightarrow> prior | Some x \<Rightarrow> Some (cr_runId x))"
  by (induction i prior rs rule: retryLinked.induct) (auto simp: last_opt_Cons split: option.splits)

lemma retryLinked_bound: "retryLinked i prior rs \<Longrightarrow> x \<in> set rs \<Longrightarrow> cr_attempt x \<le> i + length rs"
  by (induction i prior rs rule: retryLinked.induct) auto

lemma retryStream_linked:
  assumes "checkRunsOk l" and "retryStream l aid rid cid snap = r # rs"
  shows "retryStreamOk l (r # rs)"
proof -
  have "r \<in> set (retryStream l aid rid cid snap)" using assms(2) by simp
  then have r: "r \<in> set (checkRuns l)" "sameRetryStream aid rid cid snap r" by (auto simp: retryStream_def)
  then have "sameRetry r = sameRetryStream aid rid cid snap" by (auto simp: sameRetry_def sameRetryStream_def)
  with assms r(1) show ?thesis by (auto simp: checkRunsOk_def list_all_iff retryStream_def)
qed

lemma run_eligible:
  assumes "checkRunEligibility l a c = Inr (def, decl, prior)"
  shows "latestRolloutDeclaration l (a_assignmentId a) (kr_rolloutId c) = Some decl"
    and "find (\<lambda>d. cd_revision d = kr_definitionRevision c) (definitionStream l (a_assignmentId a) (kr_checkId c)) = Some def"
    and "cd_scopeId def = ro_scopeId decl"
    and "prior = retryStream l (a_assignmentId a) (kr_rolloutId c) (kr_checkId c) (ro_candidateSnapshot decl)"
    and "retryProblem def prior = None"
    and "currentRolloutState l (a_assignmentId a) (kr_rolloutId c) = Some RS_checks_running"
    and "length (checkRuns l) < LIMIT_checkRuns" and "kr_rolloutRevision c = ro_revision decl"
    and "kr_candidateSnapshot c = ro_candidateSnapshot decl" and "kr_candidateHead c = ro_candidateHead decl"
    and "map_option cd_revision (last_opt (definitionStream l (a_assignmentId a) (kr_checkId c))) = Some (kr_definitionRevision c)"
  using assms unfolding checkRunEligibility_def Let_def accepted by auto

lemma runRow_sel:
  "cr_runId (runRow E actor c def decl prior) =
     derive_id E ''run'' [actorAgent actor, kr_assignmentId c, kr_rolloutId c, kr_checkId c, kr_requestId c]"
  "cr_assignmentId (runRow E actor c def decl prior) = kr_assignmentId c"
  "cr_rolloutId (runRow E actor c def decl prior) = kr_rolloutId c" "cr_checkId (runRow E actor c def decl prior) = kr_checkId c"
  "cr_requestId (runRow E actor c def decl prior) = kr_requestId c" "cr_rolloutRevision (runRow E actor c def decl prior) = ro_revision decl"
  "cr_definitionRevision (runRow E actor c def decl prior) = cd_revision def"
  "cr_definitionSha256 (runRow E actor c def decl prior) = cd_definitionSha256 def"
  "cr_candidateSnapshot (runRow E actor c def decl prior) = ro_candidateSnapshot decl"
  "cr_candidateHead (runRow E actor c def decl prior) = ro_candidateHead decl"
  "cr_status (runRow E actor c def decl prior) = ko_status (kr_outcome c)"
  "cr_attempt (runRow E actor c def decl prior) = length prior + 1"
  "cr_retryOf (runRow E actor c def decl prior) = map_option cr_runId (last_opt prior)"
  "cr_actorAgentId (runRow E actor c def decl prior) = actorAgent actor"
  "cr_actorSeatId (runRow E actor c def decl prior) = m_membershipId actor"
  "cr_evidenceRef (runRow E actor c def decl prior) = kr_evidenceRef c"
  by (simp_all add: runRow_def Let_def)

definition runFresh :: "desk_env \<Rightarrow> ledger \<Rightarrow> check_run_command \<Rightarrow> bool" where
  "runFresh E l c \<longleftrightarrow> list_all (\<lambda>r.
     \<not> (cr_assignmentId r = kr_assignmentId c \<and> cr_actorAgentId r = kr_actorAgentId c \<and> cr_requestId r = kr_requestId c) \<and>
     cr_runId r \<noteq> derive_id E ''run'' [kr_actorAgentId c, kr_assignmentId c, kr_rolloutId c, kr_checkId c, kr_requestId c]) (checkRuns l)"

definition evidenceSupplied :: "ledger \<Rightarrow> check_run_command \<Rightarrow> bool" where
  \<comment> \<open>what the store's check asks of a passed run and the decision does not look at\<close>
  "evidenceSupplied l c \<longleftrightarrow> (case definitionAt l (kr_assignmentId c) (kr_checkId c) (kr_definitionRevision c) of
     None \<Rightarrow> True
   | Some d \<Rightarrow> \<not> (ko_status (kr_outcome c) = CR_passed \<and> cd_requiredEvidence d \<noteq> [] \<and> kr_evidenceRef c = None))"

lemma retryStream_extended:
  assumes "checkRunsOk l" and d: "definitionAt l aid cid (cd_revision d) = Some d"
    and prior: "prior = retryStream l aid rid cid snap" and "retryProblem d prior = None"
    and r: "cr_assignmentId r = aid" "cr_checkId r = cid" "cr_definitionRevision r = cd_revision d" "cr_definitionSha256 r = cd_definitionSha256 d"
      "cr_attempt r = length prior + 1" "cr_retryOf r = map_option cr_runId (last_opt prior)"
  shows "retryStreamOk l (prior @ [r])" and "\<forall>x \<in> set prior. cr_attempt x \<le> cr_attempt r"
proof -
  have "retryStreamOk l (prior @ [r]) \<and> (\<forall>x \<in> set prior. cr_attempt x \<le> cr_attempt r)"
  proof (cases prior)
    case Nil
    then show ?thesis using r d by (simp add: retryStreamOk_def)
  next
    case (Cons x xs)
    have ok: "retryStreamOk l prior" unfolding Cons by (rule retryStream_linked [OF assms(1) prior [unfolded Cons, symmetric]])
    have x: "x \<in> set (checkRuns l)" "cr_assignmentId x = aid" "cr_checkId x = cid"
    proof -
      have "x \<in> set (retryStream l aid rid cid snap)" using prior Cons by (metis list.set_intros(1))
      then show "x \<in> set (checkRuns l)" "cr_assignmentId x = aid" "cr_checkId x = cid"
        by (auto simp: retryStream_def sameRetryStream_def)
    qed
    from assms(4) have rev: "cr_definitionRevision x = cd_revision d" and len: "length prior < 1 + cl_maxRetries (cd_limits d)"
      by (auto simp: retryProblem_def Cons split: if_splits)
    have "checkRunRowOk l x" using assms(1) x(1) by (simp add: checkRunsOk_def list_all_iff)
    then have sha: "cr_definitionSha256 x = cd_definitionSha256 d"
      using d by (auto simp: checkRunRowOk_def x rev split: option.splits)
    from ok have linked: "retryLinked 0 None prior" by (simp add: retryStreamOk_def Cons)
    have "retryLinked 0 None (prior @ [r])"
      using linked r(5,6) unfolding retryLinked_snoc by (cases "last_opt prior") simp_all
    moreover have "cr_attempt y \<le> cr_attempt r" if "y \<in> set prior" for y
      using retryLinked_bound [OF linked that] r(5) by simp
    ultimately show ?thesis
      using ok len d rev sha r by (auto simp: retryStreamOk_def Cons x)
  qed
  then show "retryStreamOk l (prior @ [r])" and "\<forall>x \<in> set prior. cr_attempt x \<le> cr_attempt r" by blast+
qed

lemma check_run_keeps:
  assumes "decideCheckRun E l actor a c = Inr (evs, p)" and "tablesOk E l" and "requireActor l (kr_actorAgentId c) = Inr actor"
    and "findAssignment l (kr_assignmentId c) = Some a" and "effectiveOwnerMatches l a actor"
    and "runFresh E l c" and "evidenceSupplied l c"
  shows "tablesOk E (apply_tables l p)"
proof -
  from assms(1) obtain def decl prior where el: "checkRunEligibility l a c = Inr (def, decl, prior)"
    and p: "p = no_tables\<lparr>p_checkRuns := Some (checkRuns l @ [runRow E actor c def decl prior])\<rparr>"
    unfolding decideCheckRun_def Let_def accepted by auto
  let ?row = "runRow E actor c def decl prior"
  note e = run_eligible [OF el]
  define l' where "l' = l\<lparr>checkRuns := checkRuns l @ [?row]\<rparr>"
  have grows: "deskGrows l l'" by (rule deskGrows_prefix) (simp_all add: l'_def)
  have agent: "actorAgent actor = kr_actorAgentId c" by (rule requireActor_facts(3) [OF assms(3)])
  have aid: "a_assignmentId a = kr_assignmentId c" using assms(4) by (auto simp: findAssignment_def dest: find_SomeD)
  have ms: "membershipsOk (memberships l)" and rs: "checkRunsOk l" and ds: "checkDefinitionsOk l" and ro: "rolloutsOk l"
    using assms(2) by (simp_all add: tablesOk_def)
  from e(2) have d: "def \<in> set (checkDefinitions l)" "cd_assignmentId def = kr_assignmentId c" "cd_checkId def = kr_checkId c"
    "cd_revision def = kr_definitionRevision c"
    by (auto simp: definitionStream_def aid dest!: find_SomeD)
  from e(1) have r: "decl \<in> set (rollouts l)" "ro_assignmentId decl = kr_assignmentId c" "ro_rolloutId decl = kr_rolloutId c"
    by (auto simp: latestRolloutDeclaration_def aid dest!: last_opt_SomeD)
  have at: "definitionAt l (kr_assignmentId c) (kr_checkId c) (cd_revision def) = Some def"
    using definitionAt_in [OF ds d(1)] d by simp
  have decl: "declarationAt l (kr_assignmentId c) (kr_rolloutId c) (ro_revision decl) = Some decl"
    using declarationAt_in [OF ro r(1)] r by simp
  have "evidenceCarried def ?row"
    using assms(7) at d(4) by (simp add: evidenceSupplied_def evidenceCarried_def runRow_sel)
  moreover have "inLineageAgent l (kr_assignmentId c) (kr_actorAgentId c)"
    by (rule inLineage_agent [OF owner_inLineage [OF assms(4,5) requireActor_facts(2) [OF assms(3)]]])
  ultimately have "checkRunRowOk l ?row"
    using at decl e(3) assms(4) actor_links(1) [OF assms(3) ms] by (simp add: checkRunRowOk_def runRow_sel agent)
  then have row: "checkRunRowOk l' ?row" by (rule checkRunRow_grows [OF grows])
  let ?same = "sameRetryStream (kr_assignmentId c) (kr_rolloutId c) (kr_checkId c) (ro_candidateSnapshot decl)"
  have prior: "prior = sort_key cr_attempt (filter ?same (checkRuns l))" using e(4) by (simp add: retryStream_def aid)
  have ext: "retryStreamOk l (prior @ [?row])" "\<forall>x \<in> set prior. cr_attempt x \<le> cr_attempt ?row"
    using retryStream_extended [OF rs at e(4) [unfolded aid] e(5), of ?row] by (simp_all add: runRow_sel)
  have "sort_key cr_attempt (filter (sameRetry x) (checkRuns l')) =
      (if sameRetry x ?row then prior @ [?row] else sort_key cr_attempt (filter (sameRetry x) (checkRuns l)))" for x
  proof (cases "sameRetry x ?row")
    case True
    then have "sameRetry x = ?same" by (auto simp: sameRetry_def sameRetryStream_def runRow_sel)
    moreover have "?same ?row" by (simp add: sameRetryStream_def runRow_sel)
    ultimately show ?thesis
      using True ext(2) by (simp add: l'_def prior sort_key_snoc_max)
  qed (simp add: l'_def)
  moreover have "sameRetry ?row ?row" by (simp add: sameRetry_def)
  moreover have "retryStreamOk l' (sort_key cr_attempt (filter (sameRetry x) (checkRuns l)))" if "x \<in> set (checkRuns l)" for x
    using rs that by (intro retryStream_grows [OF grows]) (simp add: checkRunsOk_def list_all_iff)
  moreover have "retryStreamOk l' (prior @ [?row])" by (rule retryStream_grows [OF grows ext(1)])
  moreover have "set (checkRuns l') = insert ?row (set (checkRuns l))" by (simp add: l'_def)
  ultimately have "list_all (\<lambda>x. retryStreamOk l' (sort_key cr_attempt (filter (sameRetry x) (checkRuns l')))) (checkRuns l')"
    by (simp add: list_all_iff)
  moreover have "(kr_assignmentId c, kr_actorAgentId c, kr_requestId c) \<notin>
      (\<lambda>r. (cr_assignmentId r, cr_actorAgentId r, cr_requestId r)) ` set (checkRuns l)"
    and "cr_runId ?row \<notin> cr_runId ` set (checkRuns l)"
    using assms(6) by (auto simp: runFresh_def list_all_iff runRow_sel agent)
  ultimately have "checkRunsOk l'"
    using rs row unfolding checkRunsOk_def
    by (auto simp: l'_def runRow_sel agent list_all_iff checkRunRow_grows [OF grows, unfolded l'_def])
  then show ?thesis
    unfolding p apply_one_table l'_def [symmetric]
    by (intro tablesOk_carried [OF grows assms(2)]) (simp_all add: l'_def ms)
qed

end
