(* ===== verification/Desk_Check_Gap.thy ===== *)
theory Desk_Check_Gap
  imports Desk_Check_Tables Desk_Rollout_Examples
begin

text \<open>
  The one accepted command the store turns down: a run that passed a definition requiring evidence
  and carries no evidence pointer. Neither the eligibility gate nor the decision looks at the
  pointer, so the check executes and only the table checks refuse its row.
\<close>

text \<open>C34. A passed run whose definition requires evidence and that supplies none is accepted by the
  decision, and the tables it proposes are never what the store accepts: the executed run cannot be
  committed.\<close>

theorem unevidenced_run_is_lost:
  assumes "decideDeskCheck E l (Check_run_commit c) = Inr (evs, p)" and "tablesOk E l" and "\<not> evidenceSupplied l c"
  shows "\<not> tablesOk E (apply_tables l p)"
proof
  assume ok: "tablesOk E (apply_tables l p)"
  from assms(1) obtain actor a where a: "requireActor l (kr_actorAgentId c) = Inr actor"
    and "findAssignment l (kr_assignmentId c) = Some a" and d: "decideCheckRun E l actor a c = Inr (evs, p)"
    by (rule check_decided) auto
  from d obtain def decl prior where el: "checkRunEligibility l a c = Inr (def, decl, prior)"
    and p: "p = no_tables\<lparr>p_checkRuns := Some (checkRuns l @ [runRow E actor c def decl prior])\<rparr>"
    unfolding decideCheckRun_def Let_def accepted by auto
  let ?row = "runRow E actor c def decl prior"
  have "cd_revision def = kr_definitionRevision c"
    using run_eligible(2) [OF el] by (auto dest: find_SomeD)
  moreover from assms(3) obtain d where d: "definitionAt l (kr_assignmentId c) (kr_checkId c) (kr_definitionRevision c) = Some d"
    and lack: "ko_status (kr_outcome c) = CR_passed" "cd_requiredEvidence d \<noteq> []" "kr_evidenceRef c = None"
    by (auto simp: evidenceSupplied_def split: option.splits)
  moreover have "checkRunRowOk (apply_tables l p) ?row"
    using ok by (simp add: p tablesOk_def checkRunsOk_def)
  moreover have "definitionAt (apply_tables l p) = definitionAt l" by (simp add: fun_eq_iff definitionAt_def p)
  ultimately show False
    by (auto simp: checkRunRowOk_def runRow_sel evidenceCarried_def split: option.splits)
qed

definition demo_check :: check_definition where
  "demo_check = \<lparr>cd_checkId = ''k1'', cd_assignmentId = ''asg'', cd_scopeId = ''s1'', cd_requestId = ''kd1'', cd_revision = 1,
     cd_priorRevision = None, cd_ownerMembershipId = ''m1'', cd_ownerAgentId = ''lead1'', cd_assignmentRevision = 1,
     cd_checkClass = CC_ledger_integrity, cd_label = ''ledger'', cd_definitionSha256 = demo_sha,
     cd_limits = \<lparr>cl_timeoutMs = 1000, cl_maxOutputBytes = 1000, cl_maxRetries = 1\<rparr>, cd_requiredEvidence = [''log''], cd_refs = []\<rparr>"

text \<open>A desk whose rollout runs its checks: one check is defined, none has run.\<close>

definition demo_desk :: ledger where
  "demo_desk = demo_canary\<lparr>memberships := map (\<lambda>m. m\<lparr>m_bindingHandleSha256 := m_membershipId m\<rparr>) (memberships demo_canary),
     checkDefinitions := [demo_check], rolloutTransitions := take 2 demo_moves, checkRuns := []\<rparr>"

definition demo_outcome :: check_outcome where
  "demo_outcome = \<lparr>ko_status = CR_passed, ko_exitCode = Some 0, ko_timedOut = False, ko_durationMs = Some 5,
     ko_outputSha256 = Some demo_sha, ko_outputTail = Some [], ko_outputTruncated = False, ko_outputPointer = None, ko_gap = None\<rparr>"

definition demo_run_command :: "string option \<Rightarrow> check_run_command" where
  "demo_run_command evidence = \<lparr>kr_requestId = ''kr1'', kr_assignmentId = ''asg'', kr_rolloutId = ''ro1'', kr_checkId = ''k1'',
     kr_definitionRevision = 1, kr_evidenceRef = evidence, kr_actorAgentId = ''lead1'', kr_rolloutRevision = 1,
     kr_candidateSnapshot = demo_sha, kr_candidateHead = None, kr_environment = (''v20'', ''linux''), kr_outcome = demo_outcome\<rparr>"

lemma demo_desk_ok: "tablesOk demo_env demo_desk"
  unfolding tablesOk_def by (intro conjI) code_simp+

lemma demo_run_accepted: "(case decideDeskCheck demo_env demo_desk (Check_run_commit (demo_run_command evidence)) of Inl e \<Rightarrow> False | Inr out \<Rightarrow> True)"
  if "evidence = None \<or> evidence = Some ''log-1''"
  using that by (elim disjE; simp only:; code_simp)

lemma demo_run_lacks: "\<not> evidenceSupplied demo_desk (demo_run_command None)"
  by code_simp

lemma unevidenced_run_is_lost_witness:
  "\<exists>evs p. decideDeskCheck demo_env demo_desk (Check_run_commit (demo_run_command None)) = Inr (evs, p) \<and>
     \<not> tablesOk demo_env (apply_tables demo_desk p)"
proof -
  from demo_run_accepted [of None] obtain evs p
    where d: "decideDeskCheck demo_env demo_desk (Check_run_commit (demo_run_command None)) = Inr (evs, p)"
    by (auto split: sum.splits)
  from unevidenced_run_is_lost [OF d demo_desk_ok demo_run_lacks] d show ?thesis by blast
qed

end
