(* ===== verification/Desk_Tables_Others.thy ===== *)
theory Desk_Tables_Others
  imports Desk_Tables_Grow Desk_Check_Tables Desk_Seat_Safety Desk_Rollout_History Desk_Scope_History
begin

text \<open>
  The remaining commands against the store's table checks: seats change the membership table,
  rollouts append declarations, and ownership, brief and scope commands only make the desk grow.
\<close>

subsection \<open>Memberships\<close>

lemma live_distinct_iff:
  assumes "distinct (map m_membershipId ms)"
  shows "distinct (map m_agentId (filter liveSeat ms)) \<longleftrightarrow> oneLivePerAgent ms"
proof -
  have ids: "inj_on m_membershipId (set ms)" and d: "distinct ms" using assms by (simp_all add: distinct_map)
  have "distinct (map m_agentId (filter liveSeat ms)) \<longleftrightarrow>
    (\<forall>x \<in> set ms. \<forall>y \<in> set ms. liveSeat x \<and> liveSeat y \<and> m_agentId x = m_agentId y \<longrightarrow> x = y)"
    using d by (auto simp: distinct_map inj_on_def)
  also have "\<dots> \<longleftrightarrow> oneLivePerAgent ms"
  proof
    assume "\<forall>x \<in> set ms. \<forall>y \<in> set ms. liveSeat x \<and> liveSeat y \<and> m_agentId x = m_agentId y \<longrightarrow> x = y"
    then show "oneLivePerAgent ms" unfolding oneLivePerAgent_def liveRow_def liveSeat_def by metis
  next
    assume "oneLivePerAgent ms"
    then show "\<forall>x \<in> set ms. \<forall>y \<in> set ms. liveSeat x \<and> liveSeat y \<and> m_agentId x = m_agentId y \<longrightarrow> x = y"
      using ids unfolding oneLivePerAgent_def liveRow_def liveSeat_def by (metis inj_onD)
  qed
  finally show ?thesis .
qed

lemma row_coherent: "membershipRowOk m \<Longrightarrow> rowCoherent m"
  by (auto simp: membershipRowOk_def rowCoherent_def split: membership_state.splits)

lemma membershipsOk_iff: "membershipsOk ms \<longleftrightarrow> seatsOk ms \<and> list_all membershipRowOk ms"
  using live_distinct_iff [of ms] by (auto simp: membershipsOk_def seatsOk_def list_all_iff intro: row_coherent)

lemma revoked_row: "membershipRowOk m \<Longrightarrow> membershipRowOk (revokedRow at r m)"
  by (auto simp: membershipRowOk_def revokedRow_def split: membership_state.splits)

lemma sweep_rows: "list_all membershipRowOk ms \<Longrightarrow> list_all membershipRowOk (sw_table (sweepExpired E ms at))"
  by (auto simp: sweepExpired_def Let_def list_all_iff revoked_row split: option.splits)

lemma update_rows: "list_all P xs \<Longrightarrow> P v \<Longrightarrow> list_all P (xs[i := v])"
  by (auto simp: list_all_iff dest!: set_update_subset_insert [THEN subsetD])

lemma effect_rows:
  assumes "seatEffect cmd ms ns" and "list_all membershipRowOk ms"
  shows "list_all membershipRowOk ns"
  using assms(1)
proof cases
  case (minted c)
  then show ?thesis using assms(2) by (simp add: mintedRow_def membershipRowOk_def)
next
  case (bound i c)
  have "membershipRowOk (ms ! i)" using assms(2) bound(3) by (simp add: list_all_length)
  then have "membershipRowOk (boundRow c (ms ! i))" using bound(4) by (simp add: membershipRowOk_def boundRow_def)
  then show ?thesis unfolding bound(2) by (rule update_rows [OF assms(2)])
next
  case (registered i c)
  have "membershipRowOk (ms ! i)" using assms(2) registered(3) by (simp add: list_all_length)
  then have "membershipRowOk ((ms ! i)\<lparr>m_registeredAt := Some (sg_at c)\<rparr>)"
    using registered(4,5) by (cases "m_state (ms ! i)") (simp_all add: membershipRowOk_def liveRow_def)
  then show ?thesis unfolding registered(2) by (rule update_rows [OF assms(2)])
next
  case (revoked i t r)
  have "membershipRowOk (ms ! i)" using assms(2) revoked(2) by (simp add: list_all_length)
  then show ?thesis unfolding revoked(1) by (intro update_rows [OF assms(2)] revoked_row)
qed (use assms(2) in simp)

lemma find_list_all2:
  "list_all2 R xs ys \<Longrightarrow> find P xs = Some x \<Longrightarrow> (\<And>x y. R x y \<Longrightarrow> P y = P x) \<Longrightarrow> \<exists>y. find P ys = Some y \<and> R x y"
  by (induction rule: list_all2_induct) (auto split: if_splits)

lemma evolves_identity: "rowEvolves m n \<Longrightarrow> rowCoherent m \<Longrightarrow> sameSeatIdentity m n"
  using evolves_seat [of m n] evolves_agent [of m n] by (auto simp: sameSeatIdentity_def sameSeat_def)

lemma seat_patch:
  assumes "decideSeatCommand E ticketed l cmd = Some (Inr (evs, p))"
  shows "p = no_tables \<or> (\<exists>ms. p = no_tables\<lparr>p_memberships := Some ms\<rparr>)"
proof -
  have outcome: "seatOutcome es ms = Inr (evs, p) \<Longrightarrow> ?thesis" for es ms by (auto simp: seatOutcome_def)
  have ok: "seatOk sw = Inr (evs, p) \<Longrightarrow> ?thesis" for sw by (auto simp: seatOk_def outcome split: if_splits)
  have revoke: "seatRevokeAt sw i at r = Some (Inr (evs, p)) \<Longrightarrow> ?thesis" for sw i at r
    by (auto simp: seatRevokeAt_def Let_def outcome split: if_splits)
  show ?thesis
    using assms ok outcome revoke
    by (cases cmd)
      (auto simp: decideSeatCommand_def Let_def seatMint_def seatBind_def seatRegister_def seatRevoke_def split: if_splits option.splits)
qed

lemma seat_grows:
  assumes "decideSeatCommand E ticketed l cmd = Some (Inr (evs, p))" and "membershipsOk (memberships l)"
  shows "deskGrows l (apply_tables l p)"
proof -
  have ok: "seatsOk (memberships l)" "list_all rowCoherent (memberships l)"
    using assms(2) by (auto simp: membershipsOk_iff seatsOk_def)
  then have "distinct (map m_membershipId (memberships l))" by (simp add: seatsOk_def)
  from effect_evolves [OF seat_effect [OF assms(1)] this] obtain old new where
    ms: "memberships (apply_tables l p) = old @ new" and e: "evolves (memberships l) old" by blast
  have seats: "\<exists>n. membershipById (apply_tables l p) mid = Some n \<and> sameSeatIdentity m n" if m: "membershipById l mid = Some m" for mid m
  proof -
    have "m \<in> set (memberships l)" using m by (auto simp: membershipById_def dest: find_SomeD)
    then have c: "rowCoherent m" using ok(2) by (simp add: list_all_iff)
    have "\<exists>n. find (\<lambda>m. m_membershipId m = mid) old = Some n \<and> rowEvolves m n"
      using e m unfolding evolves_def membershipById_def
      by (rule find_list_all2) (auto dest!: evolves_seat simp: sameSeat_def)
    then show ?thesis using evolves_identity [OF _ c] ms by (auto simp: membershipById_def simp del: apply_tables_sel)
  qed
  have rest: "assignments (apply_tables l p) = assignments l" "handbacks (apply_tables l p) = handbacks l"
    "ownershipAccepts (apply_tables l p) = ownershipAccepts l" "scopes (apply_tables l p) = scopes l"
    "candidates (apply_tables l p) = candidates l" "checkDefinitions (apply_tables l p) = checkDefinitions l"
    "rollouts (apply_tables l p) = rollouts l"
    using seat_patch [OF assms(1)] by auto
  show ?thesis
    unfolding deskGrows_def findAssignment_def rest using seats by auto
qed

lemma seat_keeps:
  assumes "decideSeatCommand E ticketed l cmd = Some (Inr (evs, p))" and "tablesOk E l" and "mintFresh l cmd"
  shows "tablesOk E (apply_tables l p)"
proof -
  have ms: "membershipsOk (memberships l)" using assms(2) by (simp add: tablesOk_def)
  have "list_all membershipRowOk (memberships (apply_tables l p))"
    using effect_rows [OF seat_effect [OF assms(1)] sweep_rows] ms unfolding membershipsOk_iff by blast
  with seat_keeps_ok [OF assms(1) _ assms(3)] ms have "membershipsOk (memberships (apply_tables l p))"
    unfolding membershipsOk_iff by blast
  then show ?thesis
    using seat_patch [OF assms(1)]
    by (intro tablesOk_carried [OF seat_grows [OF assms(1) ms] assms(2)]) auto
qed

subsection \<open>Rollout declarations\<close>

lemma requiredChecks_accepted:
  assumes "requiredChecksProblem l c seen qs = None"
  shows "distinct (map rq_checkId qs) \<and> (\<forall>q \<in> set qs. rq_checkId q \<notin> set seen) \<and>
    list_all (\<lambda>q. list_ex (\<lambda>d. cd_assignmentId d = rdc_assignmentId c \<and> cd_checkId d = rq_checkId q \<and>
      cd_scopeId d = rdc_scopeId c \<and> cd_definitionSha256 d = rq_definitionDigest q) (checkDefinitions l)) qs"
  using assms
  by (induction l c seen qs rule: requiredChecksProblem.induct)
    (auto simp: list_ex_iff split: if_splits dest!: find_SomeD)

lemma declared_scope:
  assumes "last_opt (declarationStream l aid sid) = Some sc"
  shows "scopeDeclared l aid sid"
  using last_opt_SomeD [OF assms] by (auto simp: declarationStream_def scopeDeclared_def list_ex_iff)

definition declarationFresh :: "ledger \<Rightarrow> rollout_declare_command \<Rightarrow> bool" where
  "declarationFresh l c \<longleftrightarrow> list_all (\<lambda>r. \<not> (ro_assignmentId r = rdc_assignmentId c \<and>
     ro_ownerAgentId r = rdc_actorAgentId c \<and> ro_requestId r = rdc_requestId c)) (rollouts l)"

lemma rolloutRow_key [simp]:
  "ro_ownerAgentId (rolloutRow l m a c k) = actorAgent m" "ro_ownerMembershipId (rolloutRow l m a c k) = m_membershipId m"
  "ro_requestId (rolloutRow l m a c k) = rdc_requestId c" "ro_assignmentRevision (rolloutRow l m a c k) = assignmentStructuralRevision a"
  by (simp_all add: rolloutRow_def Let_def)

lemma rolloutRow_linked:
  fixes l c m a k
  defines "old \<equiv> filter (\<lambda>r. ro_assignmentId r = rdc_assignmentId c \<and> ro_rolloutId r = rdc_rolloutId c) (rollouts l)"
  assumes "rolloutsOk l"
  shows "linkedStream ro_revision ro_priorRevision (old @ [rolloutRow l m a c k])"
proof -
  have linked: "linkedStream ro_revision ro_priorRevision old" unfolding old_def by (rule rolloutStream_linked [OF assms(2)])
  have head: "map_option ro_revision (last_opt (rolloutDeclarations l (rdc_assignmentId c) (rdc_rolloutId c))) =
      (if old = [] then None else Some (length old))"
    using linkedStream_head [OF linked] by (simp add: rolloutDeclarations_def old_def)
  then have "ro_priorRevision (rolloutRow l m a c k) = (if old = [] then None else Some (length old))"
    by (simp add: rolloutRow_def Let_def)
  moreover have "ro_revision (rolloutRow l m a c k) = length old + 1"
    using head by (cases "last_opt (rolloutDeclarations l (rdc_assignmentId c) (rdc_rolloutId c))")
      (auto simp: rolloutRow_def Let_def split: if_splits)
  ultimately show ?thesis by (intro linkedStream_snoc [OF linked])
qed

lemma rollout_declare_keeps:
  assumes "decideDeskRollout E l (Rollout_declare c) = Inr (evs, p)" and "tablesOk E l" and "declarationFresh l c"
  shows "tablesOk E (apply_tables l p)"
proof -
  from assms(1) obtain m a sc k where m: "liveMembership l (rdc_actorAgentId c) = Some m" "m_role m = Role_lead"
    and a: "findAssignment l (rdc_assignmentId c) = Some a" "effectiveOwnerMatches l a m"
    and sc: "last_opt (declarationStream l (rdc_assignmentId c) (rdc_scopeId c)) = Some sc"
    and k: "find (\<lambda>x. c_snapshotSha256 x = rdc_candidateSnapshot c \<and> c_assignmentId x = rdc_assignmentId c) (candidates l) = Some k"
    and q: "requiredChecksProblem l c [] (rdc_requiredChecks c) = None"
    and p: "p = no_tables\<lparr>p_rollouts := Some (rollouts l @ [rolloutRow l m a c k]),
      p_rolloutTransitions := Some (if ro_revision (rolloutRow l m a c k) = 1
        then rolloutTransitions l @ [rolloutOpening E m c] else rolloutTransitions l)\<rparr>"
    by (auto simp: rollout_Inr decideRolloutDeclare_Inr Let_def)
  let ?row = "rolloutRow l m a c k"
  have actor: "requireActor l (rdc_actorAgentId c) = Inr m" using m(1) by (simp add: requireActor_Inr)
  have agent: "actorAgent m = rdc_actorAgentId c" by (rule requireActor_facts(3) [OF actor])
  define l' where "l' = apply_tables l p"
  have sel: "rollouts l' = rollouts l @ [?row]" "memberships l' = memberships l" "assignments l' = assignments l"
    "handbacks l' = handbacks l" "ownershipAccepts l' = ownershipAccepts l" "scopes l' = scopes l" "candidates l' = candidates l"
    "checkDefinitions l' = checkDefinitions l" "settlements l' = settlements l" "checkRuns l' = checkRuns l"
    by (simp_all add: l'_def p)
  have grows: "deskGrows l l'" by (rule deskGrows_prefix) (simp_all add: sel)
  have ms: "membershipsOk (memberships l)" and ro: "rolloutsOk l" using assms(2) by (simp_all add: tablesOk_def)
  have "ownedRow l (rdc_assignmentId c) (rdc_actorAgentId c) (m_membershipId m) (rdc_scopeId c) (assignmentStructuralRevision a)"
    using actor_links(2) [OF actor ms m(2)] owner_inLineage [OF a requireActor_facts(2) [OF actor]] declared_scope [OF sc] a(1)
    by (simp add: ownedRow_def revisionWithin_def assignmentStructuralRevision_def)
  moreover from k have "k \<in> set (candidates l)" "c_snapshotSha256 k = rdc_candidateSnapshot c" "c_assignmentId k = rdc_assignmentId c"
    by (auto dest: find_SomeD)
  ultimately have "rolloutRowOk l ?row"
    using requiredChecks_accepted [OF q] by (auto simp: rolloutRowOk_def requiredResolves_def agent list_ex_iff list_all_iff)
  then have row: "rolloutRowOk l' ?row" by (rule rolloutRow_grows [OF grows])
  let ?old = "filter (\<lambda>r. ro_assignmentId r = rdc_assignmentId c \<and> ro_rolloutId r = rdc_rolloutId c) (rollouts l)"
  have stream: "filter (sameRollout r) (rollouts l') = (if sameRollout r ?row then ?old @ [?row] else filter (sameRollout r) (rollouts l))" for r
    by (auto simp: sel sameRollout_def intro!: filter_cong)
  have streams: "list_all (\<lambda>r. linkedStream ro_revision ro_priorRevision (filter (sameRollout r) (rollouts l'))) (rollouts l')"
    using rolloutRow_linked [OF ro, of c m a k] ro unfolding stream by (auto simp: rolloutsOk_def list_all_iff sel sameRollout_def)
  have "(rdc_assignmentId c, rdc_actorAgentId c, rdc_requestId c) \<notin>
      (\<lambda>r. (ro_assignmentId r, ro_ownerAgentId r, ro_requestId r)) ` set (rollouts l)"
    using assms(3) by (auto simp: declarationFresh_def list_all_iff)
  then have keys: "distinct (map (\<lambda>r. (ro_assignmentId r, ro_ownerAgentId r, ro_requestId r)) (rollouts l'))"
    using ro by (auto simp: sel rolloutsOk_def agent)
  have rows: "list_all (rolloutRowOk l') (rollouts l')"
    using ro row by (auto simp: sel rolloutsOk_def list_all_iff rolloutRow_grows [OF grows])
  have "rolloutsOk l'" unfolding rolloutsOk_def using keys rows streams by blast
  then show ?thesis
    unfolding l'_def [symmetric] by (intro tablesOk_carried [OF grows assms(2)]) (simp_all add: sel ms)
qed

subsection \<open>Commands whose tables the checks only grow over\<close>

lemma only_grows:
  assumes "tablesOk E l" and "memberships l' = memberships l" and "assignments l' = assignments l" and "handbacks l' = handbacks l"
    and "candidates l' = candidates l" and "checkDefinitions l' = checkDefinitions l" and "rollouts l' = rollouts l"
    and "settlements l' = settlements l" and "checkRuns l' = checkRuns l"
    and "prefix (ownershipAccepts l) (ownershipAccepts l')" and "prefix (scopes l) (scopes l')"
  shows "tablesOk E l'"
proof -
  have "deskGrows l l'" using assms(2-11) by (intro deskGrows_prefix) (auto simp: prefix_def)
  then show ?thesis
    using assms by (intro tablesOk_carried [of l l' E]) (simp_all add: tablesOk_def)
qed

lemma rollout_move_keeps:
  assumes "decideDeskRollout E l (Rollout_transition c) = Inr (evs, p)" and "tablesOk E l"
  shows "tablesOk E (apply_tables l p)"
  using assms(1)
proof (rule rollout_transition_facts)
qed (auto simp: pushMove_def intro!: only_grows [OF assms(2)])

lemma ownership_keeps:
  assumes "decideDeskOwnership E l cmd = Inr (evs, p)" and "tablesOk E l"
  shows "tablesOk E (apply_tables l p)"
  using assms by (cases cmd) (auto simp: ownership_Inr decideOffer_Inr decideAccept_Inr intro!: only_grows [OF assms(2)])

lemma assignment_keeps:
  assumes "decideDeskAssignment E l cmd = Inr (evs, p)" and "tablesOk E l"
  shows "tablesOk E (apply_tables l p)"
proof (cases cmd)
  case (Assignment_amend c)
  show ?thesis using assms(1) unfolding Assignment_amend
    by (rule amend_facts) (auto simp: pushBrief_def intro!: only_grows [OF assms(2)])
next
  case (Decision_append c)
  show ?thesis using assms(1) unfolding Decision_append
    by (rule decision_facts) (auto simp: pushDecision_def intro!: only_grows [OF assms(2)])
qed

lemma scope_keeps:
  assumes "decideDeskScope E l cmd = Inr (evs, p)" and "tablesOk E l"
  shows "tablesOk E (apply_tables l p)"
proof (cases cmd)
  case (Scope_declare c)
  show ?thesis using assms(1) unfolding Scope_declare
    by (rule declare_facts) (auto simp: afterDeclare_def pushScope_def pushTransition_def intro!: only_grows [OF assms(2)])
next
  case (Scope_transition c)
  show ?thesis using assms(1) unfolding Scope_transition
    by (rule transition_facts) (auto simp: pushTransition_def intro!: only_grows [OF assms(2)])
next
  case (Scope_review c)
  show ?thesis using assms(1) unfolding Scope_review
    by (rule review_facts) (auto intro!: only_grows [OF assms(2)])
qed

end
