(* ===== verification/Desk_Handback_Tables.thy ===== *)
theory Desk_Handback_Tables
  imports Desk_Handback Desk_Tables_Grow
begin

text \<open>
  Assignment and handback commands keep the tables the store's checks accept: what a decision
  proposes, \<open>checkRefinements\<close> takes. Each branch shows that the desk grows and that the rows it
  writes satisfy their own checks.
\<close>

subsection \<open>What an accepted command established\<close>

lemma register_accepted:
  assumes "decideRegister E l sel actor c = Inr (evs, p)"
  shows "m_role actor = Role_lead" and "a_assignmentId (registeredRow E actor c) \<notin> a_assignmentId ` set (assignments l)"
    and "p = no_tables\<lparr>p_assignments := Some (assignments l @ [registeredRow E actor c])\<rparr>"
    and "length (assignments l) < LIMIT_assignments"
  using assms unfolding decideRegister_def Let_def accepted requireLead_None
  by (auto simp: list_ex_iff)

lemma ownedByActor_accepted:
  "ownedByActor l actor aid = Inr a \<longleftrightarrow>
     m_role actor = Role_lead \<and> findAssignment l aid = Some a \<and> effectiveOwnerMatches l a actor"
  unfolding ownedByActor_def accepted requireLead_None by auto

lemma attach_accepted:
  assumes "decideAttach l actor c = Inr (evs, p)"
  obtains a where "ownedByActor l actor (tc_assignmentId c) = Inr a" and "a_state a = AS_open" and "p = no_tables"
      and "evs = []"
  | a target where "ownedByActor l actor (tc_assignmentId c) = Inr a" and "a_state a = AS_open"
      and "\<not> list_ex (\<lambda>s. seat_agentId s = tc_agentId c) (a_seats a)" and "liveMembership l (tc_agentId c) = Some target"
      and "length (a_seats a) < LIMIT_assignmentSeats"
      and "p = no_tables\<lparr>p_assignments :=
        Some (updateAssignment (tc_assignmentId c) (\<lambda>a. a\<lparr>a_seats := a_seats a @ [seatOf target]\<rparr>) (assignments l))\<rparr>"
  using assms unfolding decideAttach_def Let_def accepted
  by (auto split: if_splits option.splits)

lemma close_accepted:
  assumes "decideClose l history actor c = Inr (evs, p)"
  obtains a where "ownedByActor l actor (cc_assignmentId c) = Inr a" and "a_state a = AS_closed" and "p = no_tables"
  | a where "ownedByActor l actor (cc_assignmentId c) = Inr a" and "a_state a = AS_open"
      and "p = no_tables\<lparr>p_assignments :=
        Some (updateAssignment (cc_assignmentId c) (\<lambda>a. a\<lparr>a_state := AS_closed\<rparr>) (assignments l))\<rparr>"
proof -
  from assms obtain a where a: "ownedByActor l actor (cc_assignmentId c) = Inr a"
    unfolding decideClose_def accepted by auto
  show thesis
    using assms a that by (cases "a_state a") (auto simp: decideClose_def)
qed

lemma submit_accepted:
  assumes "decideSubmit E H l actor c = Inr (evs, p)"
  obtains a where "findAssignment l (uc_assignmentId c) = Some a" and "a_state a = AS_open"
    and "list_ex (\<lambda>s. Some (seat_agentId s) = m_agentId actor) (a_seats a)"
    and "record_valid (validateReportRecordV1 E (desk_options H) (uc_recordV1 c))"
    and "property (uc_recordV1 c) ''kind'' = Some (JStr ''handback'')"
    and "utf8_length (canonical_json (uc_recordV1 c)) \<le> LIMIT_handbackRecordBytes"
    and "opt_ok (\<lambda>cid. list_ex (\<lambda>k. c_candidateId k = cid \<and> c_assignmentId k = uc_assignmentId c) (candidates l)) (uc_candidateId c)"
    and "length (handbacks l) < LIMIT_handbacks"
    and "evs = [submittedEvent (submittedRow E l actor c (snd (validateReportRecordV1 E (desk_options H) (uc_recordV1 c))))]"
    and "p = no_tables\<lparr>p_handbacks :=
      Some (handbacks l @ [submittedRow E l actor c (snd (validateReportRecordV1 E (desk_options H) (uc_recordV1 c)))])\<rparr>"
proof -
  from assms obtain a where a: "findAssignment l (uc_assignmentId c) = Some a"
    unfolding decideSubmit_def Let_def accepted by blast
  show thesis
    using assms unfolding decideSubmit_def Let_def a option.case accepted prod.inject sum.inject
    by (intro that [OF a]) (auto split: option.splits)
qed

lemma observe_accepted:
  assumes "decideObserve E l actor c = Inr (evs, p)"
  obtains (repeated) h where "find (\<lambda>h. h_handbackId h = vc_handbackId c) (handbacks l) = Some h"
      and "Some (h_agentId h) = m_agentId actor" and "ob_status (h_observed h) \<noteq> OS_pending" and "evs = []" and "p = no_tables"
  | (failed) h k where "find (\<lambda>h. h_handbackId h = vc_handbackId c) (handbacks l) = Some h"
      and "Some (h_agentId h) = m_agentId actor" and "ob_status (h_observed h) = OS_pending" and "vc_capture c = Capture_failed k"
      and "observeFailed l h (vc_handbackId c) k = Inr (evs, p)" and "cp_repository k = ob_repository (h_observed h)"
  | (ok) h k where "find (\<lambda>h. h_handbackId h = vc_handbackId c) (handbacks l) = Some h"
      and "Some (h_agentId h) = m_agentId actor" and "ob_status (h_observed h) = OS_pending" and "vc_capture c = Capture_ok k"
      and "observeOk E l h (vc_handbackId c) k = Inr (evs, p)" and "cp_repository k = ob_repository (h_observed h)"
proof -
  from assms obtain h where h: "find (\<lambda>h. h_handbackId h = vc_handbackId c) (handbacks l) = Some h"
    unfolding decideObserve_def accepted by auto
  show thesis
  proof (cases "ob_status (h_observed h) = OS_pending")
    case True
    then show thesis using assms h failed [OF h] ok [OF h]
      by (cases "vc_capture c") (auto simp: decideObserve_def split: if_splits)
  next
    case False
    then show thesis using assms h by (intro repeated [OF h]) (auto simp: decideObserve_def split: if_splits)
  qed
qed

subsection \<open>Assignments\<close>

lemma register_keeps:
  assumes "decideRegister E l sel actor c = Inr (evs, p)" and "requireActor l (gc_actorAgentId c) = Inr actor" and "tablesOk E l"
    and "list_all (\<lambda>a. \<not> (a_ownerAgentId a = gc_actorAgentId c \<and> a_requestId a = gc_requestId c)) (assignments l)"
  shows "tablesOk E (apply_tables l p)"
proof -
  let ?row = "registeredRow E actor c"
  note reg = register_accepted [OF assms(1)]
  define l' where "l' = l\<lparr>assignments := assignments l @ [?row]\<rparr>"
  have l': "apply_tables l p = l'" by (simp add: reg(3) l'_def apply_one_table)
  have grows: "deskGrows l l'" by (rule deskGrows_prefix) (simp_all add: l'_def)
  have agent: "actorAgent actor = gc_actorAgentId c" by (rule requireActor_facts(3) [OF assms(2)])
  have ms: "membershipsOk (memberships l)" using assms(3) by (simp add: tablesOk_def)
  have "assignmentRowOk l' ?row"
    using leadLink_grows [OF grows actor_links(2) [OF assms(2) ms reg(1)]] by (simp add: assignmentRowOk_def registeredRow_def agent)
  moreover have "assignmentsOk l" using assms(3) by (simp add: tablesOk_def)
  moreover have "(a_ownerAgentId ?row, a_requestId ?row) \<notin> (\<lambda>a. (a_ownerAgentId a, a_requestId a)) ` set (assignments l)"
    using assms(4) by (auto simp: registeredRow_def agent list_all_iff)
  ultimately have "assignmentsOk l'"
    using reg(2) by (auto simp: assignmentsOk_def l'_def list_all_iff assignmentRow_grows [OF grows, unfolded l'_def])
  then show ?thesis
    unfolding l' by (intro tablesOk_carried [OF grows assms(3)]) (simp_all add: l'_def ms)
qed

lemma findAssignment_update:
  assumes "\<And>a. a_assignmentId (f a) = a_assignmentId a"
  shows "findAssignment (l\<lparr>assignments := updateAssignment aid f (assignments l)\<rparr>) k =
    map_option (\<lambda>a. if a_assignmentId a = aid then f a else a) (findAssignment l k)"
  unfolding findAssignment_def updateAssignment_def by (simp add: find_map_same assms)

lemma update_grows:
  assumes "\<And>a. assignmentGrows a (f a)"
  shows "deskGrows l (l\<lparr>assignments := updateAssignment aid f (assignments l)\<rparr>)"
proof (rule deskGrows_extend)
  fix k a assume "findAssignment l k = Some a"
  then show "\<exists>b. findAssignment (l\<lparr>assignments := updateAssignment aid f (assignments l)\<rparr>) k = Some b \<and> assignmentGrows a b"
    using assms by (subst findAssignment_update) (auto simp: assignmentGrows_def)
qed (auto intro: exI)

lemma update_keeps:
  assumes f: "\<And>a. assignmentGrows a (f a)" and "tablesOk E l"
    and row: "\<And>a. findAssignment l aid = Some a \<Longrightarrow> assignmentRowOk l a \<Longrightarrow> assignmentRowOk l (f a)"
  shows "tablesOk E (l\<lparr>assignments := updateAssignment aid f (assignments l)\<rparr>)"
proof -
  define l' where "l' = l\<lparr>assignments := updateAssignment aid f (assignments l)\<rparr>"
  have grows: "deskGrows l l'" unfolding l'_def using f by (rule update_grows)
  have ok: "assignmentsOk l" using assms(2) by (simp add: tablesOk_def)
  have keys: "map g (updateAssignment aid f (assignments l)) = map g (assignments l)" if "\<And>a. g (f a) = g a" for g :: "assignment \<Rightarrow> 'k"
    using that by (simp add: updateAssignment_def)
  have "assignmentRowOk l' a" if "a \<in> set (assignments l')" for a
  proof -
    from that obtain b where b: "b \<in> set (assignments l)" and a: "a = (if a_assignmentId b = aid then f b else b)"
      by (auto simp: l'_def updateAssignment_def)
    from b ok have r: "assignmentRowOk l b" by (simp add: assignmentsOk_def list_all_iff)
    have "findAssignment l (a_assignmentId b) = Some b"
      using b ok by (simp add: assignmentsOk_def findAssignment_def find_distinct)
    with row r have "assignmentRowOk l a" by (auto simp: a)
    then show ?thesis by (rule assignmentRow_grows [OF grows])
  qed
  moreover have "a_assignmentId (f a) = a_assignmentId a" "a_ownerAgentId (f a) = a_ownerAgentId a" "a_requestId (f a) = a_requestId a" for a
    using f [of a] by (simp_all add: assignmentGrows_def)
  ultimately have "assignmentsOk l'"
    using ok by (simp add: assignmentsOk_def list_all_iff) (simp add: l'_def keys)
  then show ?thesis
    using assms(2) unfolding l'_def [symmetric]
    by (intro tablesOk_carried [OF grows assms(2)]) (simp_all add: l'_def tablesOk_def)
qed

lemma attach_keeps:
  assumes "decideAttach l actor c = Inr (evs, p)" and "tablesOk E l"
  shows "tablesOk E (apply_tables l p)"
  using assms(1)
proof (cases rule: attach_accepted)
  case (2 a target)
  have ms: "membershipsOk (memberships l)" using assms(2) by (simp add: tablesOk_def)
  have target: "requireActor l (tc_agentId c) = Inr target" using 2(4) by (simp add: requireActor_def)
  have a: "findAssignment l (tc_assignmentId c) = Some a" using 2(1) by (simp add: ownedByActor_accepted)
  have agent: "seat_agentId (seatOf target) = tc_agentId c"
    by (simp add: seatOf_def requireActor_facts(3) [OF target])
  have link: "seatLink l (seat_membershipId (seatOf target)) (tc_agentId c)"
    using actor_links(1) [OF target ms] by (simp add: seatOf_def)
  have "assignmentRowOk l (b\<lparr>a_seats := a_seats b @ [seatOf target]\<rparr>)"
    if b: "findAssignment l (tc_assignmentId c) = Some b" and row: "assignmentRowOk l b" for b
  proof -
    have "seat_agentId s \<noteq> tc_agentId c" if "s \<in> set (a_seats b)" for s
      using 2(3) a b that by (auto simp: list_ex_iff)
    moreover have "seat_membershipId s \<noteq> seat_membershipId (seatOf target)" if "s \<in> set (a_seats b)" for s
    proof
      assume same: "seat_membershipId s = seat_membershipId (seatOf target)"
      have "seatLink l (seat_membershipId s) (seat_agentId s)" using row that by (auto simp: assignmentRowOk_def list_all_iff)
      with link have "seat_agentId s = tc_agentId c" by (auto simp: seatLink_def same split: option.splits)
      with \<open>s \<in> set (a_seats b) \<Longrightarrow> seat_agentId s \<noteq> tc_agentId c\<close> that show False by simp
    qed
    ultimately have "seat_agentId (seatOf target) \<notin> seat_agentId ` set (a_seats b)"
      and "seat_membershipId (seatOf target) \<notin> seat_membershipId ` set (a_seats b)"
      unfolding agent by force+
    then show ?thesis using row link agent by (simp add: assignmentRowOk_def)
  qed
  then show ?thesis
    unfolding 2(6) apply_one_table
    by (intro update_keeps [OF _ assms(2)]) (auto simp: assignmentGrows_def assignmentStructuralRevision_def)
qed (use assms(2) in \<open>simp add: apply_one_table\<close>)

lemma close_keeps:
  assumes "decideClose l history actor c = Inr (evs, p)" and "tablesOk E l"
  shows "tablesOk E (apply_tables l p)"
  using assms(1)
proof (cases rule: close_accepted)
  case (2 a)
  then show ?thesis
    unfolding 2(3) apply_one_table
    by (intro update_keeps [OF _ assms(2)])
      (auto simp: assignmentGrows_def assignmentStructuralRevision_def assignmentRowOk_def)
qed (use assms(2) in \<open>simp add: apply_one_table\<close>)

subsection \<open>Handbacks\<close>

lemma nextHandbackRevision_fresh:
  "(aid, agent, nextHandbackRevision l aid agent) \<notin> (\<lambda>h. (h_assignmentId h, h_agentId h, h_revision h)) ` set (handbacks l)"
proof
  assume "(aid, agent, nextHandbackRevision l aid agent) \<in> (\<lambda>h. (h_assignmentId h, h_agentId h, h_revision h)) ` set (handbacks l)"
  then obtain h where "h \<in> set (filter (\<lambda>h. h_assignmentId h = aid \<and> h_agentId h = agent) (handbacks l))"
    and r: "h_revision h = nextHandbackRevision l aid agent" by auto
  from foldl_max_ge(2) [OF this(1), of h_revision 0] r show False by (simp add: nextHandbackRevision_def)
qed

lemma submit_keeps:
  assumes "decideSubmit E H l actor c = Inr (evs, p)" and "requireActor l (uc_actorAgentId c) = Inr actor" and "tablesOk E l"
    and "list_all (\<lambda>h. \<not> (h_assignmentId h = uc_assignmentId c \<and> h_agentId h = uc_actorAgentId c \<and> h_requestId h = uc_requestId c))
      (handbacks l)"
    and "derive_id E ''hb'' [uc_actorAgentId c, uc_assignmentId c, uc_requestId c] \<notin> h_handbackId ` set (handbacks l)"
  shows "tablesOk E (apply_tables l p)"
  using assms(1)
proof (cases rule: submit_accepted)
  case (1 a)
  let ?row = "submittedRow E l actor c (snd (validateReportRecordV1 E (desk_options H) (uc_recordV1 c)))"
  define l' where "l' = l\<lparr>handbacks := handbacks l @ [?row]\<rparr>"
  have grows: "deskGrows l l'" by (rule deskGrows_prefix) (simp_all add: l'_def)
  have agent: "actorAgent actor = uc_actorAgentId c" by (rule requireActor_facts(3) [OF assms(2)])
  have ms: "membershipsOk (memberships l)" and hs: "handbacksOk E l" using assms(3) by (simp_all add: tablesOk_def)
  have row: "h_assignmentId ?row = uc_assignmentId c" "h_agentId ?row = uc_actorAgentId c" "h_requestId ?row = uc_requestId c"
    "h_seatMembershipId ?row = m_membershipId actor" "h_claimedCandidateId ?row = uc_candidateId c"
    "h_recordSha256 ?row = canonical_sha256 E (h_record ?row)" "ob_candidateId (h_observed ?row) = None"
    "h_handbackId ?row = derive_id E ''hb'' [uc_actorAgentId c, uc_assignmentId c, uc_requestId c]"
    "h_revision ?row = nextHandbackRevision l (uc_assignmentId c) (uc_actorAgentId c)"
    by (simp_all add: submittedRow_def agent)
  have "seatedOn l (uc_assignmentId c) (uc_actorAgentId c)"
    using 1(1,3) requireActor_facts(2) [OF assms(2)] by (simp add: seatedOn_def)
  moreover have "claimedLink l ?row"
  proof (cases "uc_candidateId c")
    case (Some cid)
    with 1(7) obtain k where k: "k \<in> set (candidates l)" "c_candidateId k = cid" "c_assignmentId k = uc_assignmentId c"
      by (auto simp: list_ex_iff)
    have "candidateById l cid = Some k"
      using assms(3) k(1) unfolding candidateById_def k(2) [symmetric] by (intro find_distinct) (simp_all add: tablesOk_def candidatesOk_def)
    with Some k show ?thesis by (simp add: claimedLink_def row)
  qed (simp add: claimedLink_def row)
  ultimately have "handbackRowOk E l ?row"
    using actor_links(1) [OF assms(2) ms] by (simp add: handbackRowOk_def observedLink_def row)
  then have "handbackRowOk E l' ?row" by (rule handbackRow_grows [OF grows])
  moreover have "(h_assignmentId ?row, h_agentId ?row, h_requestId ?row) \<notin> (\<lambda>h. (h_assignmentId h, h_agentId h, h_requestId h)) ` set (handbacks l)"
    using assms(4) by (auto simp: row list_all_iff)
  ultimately have "handbacksOk E l'"
    using assms(5) nextHandbackRevision_fresh
    by (intro handbacks_snoc [OF grows hs, where h = ?row]) (simp_all add: l'_def row del: image_iff)
  then show ?thesis
    unfolding 1(10) apply_one_table l'_def [symmetric]
    by (intro tablesOk_carried [OF grows assms(3)]) (simp_all add: l'_def ms)
qed

lemma findHandback_update:
  assumes "\<And>h. sameClaim h (f h)"
  shows "find (\<lambda>h. h_handbackId h = k) (updateHandback hid f hs) =
    map_option (\<lambda>h. if h_handbackId h = hid then f h else h) (find (\<lambda>h. h_handbackId h = k) hs)"
  unfolding updateHandback_def using assms by (intro find_map_same) (simp add: sameClaim_def)

lemma observedRow_sel [simp]:
  "h_handbackId (observedRow ob gs h) = h_handbackId h" "h_assignmentId (observedRow ob gs h) = h_assignmentId h"
  "h_agentId (observedRow ob gs h) = h_agentId h" "h_seatMembershipId (observedRow ob gs h) = h_seatMembershipId h"
  "h_requestId (observedRow ob gs h) = h_requestId h" "h_revision (observedRow ob gs h) = h_revision h"
  "h_record (observedRow ob gs h) = h_record h" "h_recordSha256 (observedRow ob gs h) = h_recordSha256 h"
  "h_claimedCandidateId (observedRow ob gs h) = h_claimedCandidateId h"
  "h_observed (observedRow ob gs h) = ob" "h_gaps (observedRow ob gs h) = gs"
  by (simp_all add: observedRow_def)

lemma claimedLink_iff:
  "claimedLink l h \<longleftrightarrow> (\<forall>cid. h_claimedCandidateId h = Some cid \<longrightarrow>
     (\<exists>c. candidateById l cid = Some c \<and> c_assignmentId c = h_assignmentId h))"
  by (cases "h_claimedCandidateId h") (auto simp: claimedLink_def split: option.split)

lemma observedLink_iff:
  "observedLink l h \<longleftrightarrow> (\<forall>cid. ob_candidateId (h_observed h) = Some cid \<longrightarrow>
     (\<exists>c. candidateById l cid = Some c \<and> c_assignmentId c = h_assignmentId h \<and> c_seatMembershipId c = h_seatMembershipId h))"
  by (cases "ob_candidateId (h_observed h)") (auto simp: observedLink_def split: option.split)

lemma observedRow_links:
  "claimedLink l (observedRow ob gs h) = claimedLink l h"
  "observedLink l (observedRow ob gs h) = observedLink l (h\<lparr>h_observed := ob\<rparr>)"
  by (simp_all add: claimedLink_iff observedLink_iff)

text \<open>An observation rewrites the observed part of one row and may append a candidate.\<close>

lemma observed_keeps:
  assumes "tablesOk E l" and cands: "candidates l' = candidates l @ cs" "candidatesOk l \<Longrightarrow> candidatesOk l'"
    and hbs: "handbacks l' = updateHandback hid (\<lambda>h. observedRow ob (gaps h) h) (handbacks l)"
    and same: "memberships l' = memberships l" "assignments l' = assignments l" "ownershipAccepts l' = ownershipAccepts l"
      "scopes l' = scopes l" "checkDefinitions l' = checkDefinitions l" "rollouts l' = rollouts l" "settlements l' = settlements l"
      "checkRuns l' = checkRuns l"
    and ob: "\<And>h. h \<in> set (handbacks l) \<Longrightarrow> h_handbackId h = hid \<Longrightarrow> observedLink l' (h\<lparr>h_observed := ob\<rparr>)"
  shows "tablesOk E l'"
proof -
  have sc: "sameClaim h (observedRow ob (gaps h) h)" for h by (simp add: sameClaim_def observedRow_def)
  have grows: "deskGrows l l'"
  proof (rule deskGrows_extend)
    fix k h assume "find (\<lambda>h. h_handbackId h = k) (handbacks l) = Some h"
    then show "\<exists>h'. find (\<lambda>h. h_handbackId h = k) (handbacks l') = Some h' \<and> sameClaim h h'"
      using sc unfolding hbs findHandback_update [of "\<lambda>h. observedRow ob (gaps h) h", OF sc] by simp
  qed (auto simp: same cands(1) findAssignment_def)
  have hs: "handbacksOk E l" using assms(1) by (simp add: tablesOk_def)
  have keys: "map g (handbacks l') = map g (handbacks l)" if "\<And>h gs. g (observedRow ob gs h) = g h" for g :: "handback \<Rightarrow> 'k"
    using that by (simp add: hbs updateHandback_def)
  have "handbackRowOk E l' h" if "h \<in> set (handbacks l')" for h
  proof -
    from that obtain k where k: "k \<in> set (handbacks l)" and h: "h = (if h_handbackId k = hid then observedRow ob (gaps k) k else k)"
      by (auto simp: hbs updateHandback_def)
    from k hs have "handbackRowOk E l' k" by (auto simp: handbacksOk_def list_all_iff grow_mono [OF grows])
    with ob [OF k] show ?thesis
      by (auto simp: h handbackRowOk_def observedRow_links)
  qed
  then have "handbacksOk E l'"
    using hs unfolding handbacksOk_def by (simp add: list_all_iff keys)
  with cands(2) assms(1) show ?thesis
    by (intro tablesOk_carried [OF grows assms(1)]) (simp_all add: same tablesOk_def)
qed

lemma observe_keeps:
  assumes "decideObserve E l actor c = Inr (evs, p)" and "tablesOk E l"
    and "derive_id E ''cand'' [vc_handbackId c] \<notin> c_candidateId ` set (candidates l)"
  shows "tablesOk E (apply_tables l p)"
  using assms(1)
proof (cases rule: observe_accepted)
  case (failed h k)
  define l' where "l' = apply_tables l p"
  have l': "l' = l\<lparr>handbacks := updateHandback (vc_handbackId c) (observedRow (failedObservation k) (failedGaps h k)) (handbacks l)\<rparr>"
    using failed(5) by (auto simp: observeFailed_def apply_one_table l'_def)
  have "candidatesOk l \<Longrightarrow> candidatesOk l'"
    by (simp add: l' candidatesOk_def list_all_iff candidateRowOk_def seatLink_def membershipById_def seatedOn_def findAssignment_def)
  then show ?thesis
    unfolding l'_def [symmetric]
    by (intro observed_keeps [OF assms(2), where cs = "[]" and hid = "vc_handbackId c" and ob = "failedObservation k"
        and gaps = "\<lambda>_. failedGaps h k"]) (simp_all add: l' observedLink_def failedObservation_def)
next
  case (ok h k)
  let ?cand = "capturedCandidate E h k"
  define l' where "l' = apply_tables l p"
  let ?ob = "okObservation ?cand k"
  have l': "l' = l\<lparr>handbacks := updateHandback (vc_handbackId c) (\<lambda>h. observedRow ?ob (h_gaps h) h) (handbacks l),
      candidates := candidates l @ [?cand]\<rparr>"
    using ok(5) by (auto simp: observeOk_def Let_def apply_one_table l'_def split: if_splits)
  from ok(1) have h: "h \<in> set (handbacks l)" "h_handbackId h = vc_handbackId c" by (auto dest: find_SomeD)
  have hs: "handbacksOk E l" and cs: "candidatesOk l" using assms(2) by (simp_all add: tablesOk_def)
  have row: "handbackRowOk E l h" using hs h(1) by (simp add: handbacksOk_def list_all_iff)
  have fresh: "c_candidateId ?cand \<notin> c_candidateId ` set (candidates l)"
    using assms(3) h(2) by (simp add: capturedCandidate_def)
  have link: "candidateById l' (c_candidateId ?cand) = Some ?cand"
    using fresh unfolding candidateById_def l' by (simp add: find_snoc_fresh)
  have same: "seatLink l' = seatLink l" "seatedOn l' = seatedOn l"
    by (simp_all add: fun_eq_iff seatLink_def membershipById_def seatedOn_def findAssignment_def l')
  have sel: "candidates l' = candidates l @ [?cand]"
    "handbacks l' = updateHandback (vc_handbackId c) (\<lambda>h. observedRow ?ob (h_gaps h) h) (handbacks l)"
    "memberships l' = memberships l" "assignments l' = assignments l" "ownershipAccepts l' = ownershipAccepts l"
    "scopes l' = scopes l" "checkDefinitions l' = checkDefinitions l" "rollouts l' = rollouts l" "settlements l' = settlements l"
    "checkRuns l' = checkRuns l"
    by (simp_all add: l')
  have "candidateRowOk l' = candidateRowOk l" by (simp add: fun_eq_iff candidateRowOk_def same)
  moreover have "candidateRowOk l ?cand"
    using row by (simp add: candidateRowOk_def handbackRowOk_def capturedCandidate_def)
  ultimately have cs': "candidatesOk l'" using cs fresh by (simp add: candidatesOk_def sel)
  have "observedLink l' (g\<lparr>h_observed := ?ob\<rparr>)" if g: "g \<in> set (handbacks l)" "h_handbackId g = vc_handbackId c" for g
  proof -
    have "inj_on h_handbackId (set (handbacks l))" using hs by (simp add: handbacksOk_def distinct_map)
    then have "g = h" by (rule inj_onD) (use g h in simp_all)
    moreover have "c_assignmentId ?cand = h_assignmentId h" "c_seatMembershipId ?cand = h_seatMembershipId h"
      by (simp_all add: capturedCandidate_def)
    moreover have "ob_candidateId ?ob = Some (c_candidateId ?cand)" by (simp add: okObservation_def)
    ultimately show ?thesis using link by (simp add: observedLink_iff)
  qed
  then show ?thesis
    unfolding l'_def [symmetric]
    by (rule observed_keeps [OF assms(2) sel(1) cs' sel(2-10)])
qed (use assms(2) in \<open>simp add: apply_one_table\<close>)

subsection \<open>Every command\<close>

fun handbackFresh :: "desk_env \<Rightarrow> ledger \<Rightarrow> handback_command \<Rightarrow> bool" where
  \<comment> \<open>no row was written under the command's request, and its derived id names no row\<close>
  "handbackFresh E l (Assignment_register c) \<longleftrightarrow>
     list_all (\<lambda>a. \<not> (a_ownerAgentId a = gc_actorAgentId c \<and> a_requestId a = gc_requestId c)) (assignments l)"
| "handbackFresh E l (Handback_submit c) \<longleftrightarrow>
     list_all (\<lambda>h. \<not> (h_assignmentId h = uc_assignmentId c \<and> h_agentId h = uc_actorAgentId c \<and> h_requestId h = uc_requestId c) \<and>
       h_handbackId h \<noteq> derive_id E ''hb'' [uc_actorAgentId c, uc_assignmentId c, uc_requestId c]) (handbacks l)"
| "handbackFresh E l (Handback_observe c) \<longleftrightarrow>
     list_all (\<lambda>k. c_candidateId k \<noteq> derive_id E ''cand'' [vc_handbackId c]) (candidates l)"
| "handbackFresh E l _ \<longleftrightarrow> True"

lemma handback_decided:
  assumes "decideDeskHandback E H sel history l cmd = Inr (evs, p)"
  obtains actor where "handback_command_ok E cmd" and "requireActor l (handback_actor cmd) = Inr actor"
    and "(case cmd of
           Assignment_register c \<Rightarrow> decideRegister E l sel actor c
         | Assignment_attach c \<Rightarrow> decideAttach l actor c
         | Assignment_close c \<Rightarrow> decideClose l history actor c
         | Handback_submit c \<Rightarrow> decideSubmit E H l actor c
         | Handback_observe c \<Rightarrow> decideObserve E l actor c) = Inr (evs, p)"
  using assms unfolding decideDeskHandback_def accepted by auto

lemma handback_keeps:
  assumes "decideDeskHandback E H sel history l cmd = Inr (evs, p)" and "tablesOk E l" and "handbackFresh E l cmd"
  shows "tablesOk E (apply_tables l p)"
  using assms(1)
proof (cases rule: handback_decided)
  case (1 actor)
  then show ?thesis
  proof (cases cmd)
    case (Assignment_register c)
    with 1 assms(2,3) show ?thesis by (auto intro: register_keeps)
  next
    case (Assignment_attach c)
    with 1 assms(2) show ?thesis by (auto intro: attach_keeps)
  next
    case (Assignment_close c)
    with 1 assms(2) show ?thesis by (auto intro: close_keeps)
  next
    case (Handback_submit c)
    with 1 have d: "decideSubmit E H l actor c = Inr (evs, p)" and a: "requireActor l (uc_actorAgentId c) = Inr actor" by auto
    show ?thesis using assms(3) by (intro submit_keeps [OF d a assms(2)]) (auto simp: Handback_submit list_all_iff)
  next
    case (Handback_observe c)
    with 1 have d: "decideObserve E l actor c = Inr (evs, p)" by auto
    show ?thesis using assms(3) by (intro observe_keeps [OF d assms(2)]) (auto simp: Handback_observe list_all_iff)
  qed
qed

end
