(* ===== verification/Desk_Settlement.thy ===== *)
theory Desk_Settlement
  imports Desk_Ownership Desk_Record
begin

text \<open>
  Settlements (plugin/server/desk-settlement.ts): the receiving owner attests, revision by revision,
  what became of a seat's work. The status of a row and its gaps are computed, never claimed, and
  the record a row exports is the one the decision validated. The verdict on a claimed transcript
  export is the runner's artifact seam: an argument of the command.
\<close>

subsection \<open>Command\<close>

datatype export_status = XS_verified | XS_absent | XS_outside_root | XS_mismatch | XS_unavailable

record export_verdict =
  xv_status :: export_status
  xv_detail :: "string option"

record settlement_command =
  stc_requestId :: string
  stc_actorAgentId :: string
  stc_assignmentId :: string
  stc_seatAgentId :: string
  stc_seatTitle :: string
  stc_at :: string
  stc_deliveryRef :: "string option"
  stc_reworkClosureRef :: "string option"
  stc_sinkRef :: "string option"
  stc_decisionRef :: "string option"
  stc_handbackRefs :: "string list"
  stc_candidateRefs :: "string list"
  stc_resources :: "settlement_resource list"
  stc_timeline :: settlement_timeline
  stc_exportVerification :: "export_verdict option"

abbreviation settlement_pointer :: "string \<Rightarrow> bool" where
  "settlement_pointer \<equiv> between_len 1 deskSettlementPointerLen"

definition settlement_timeline_ok :: "settlement_timeline \<Rightarrow> bool" where
  "settlement_timeline_ok t \<longleftrightarrow>
     opt_ok (between_len 1 deskTimelineFieldLen) (tl_nativeHandle t) \<and> opt_ok (between_len 1 deskTimelineFieldLen) (tl_sessionId t) \<and>
     opt_ok (\<lambda>x. between_len 1 deskExportPathLen (se_path x) \<and> is_sha (se_sha256 x) \<and> se_bytes x \<le> 2 ^ 53 - 1) (tl_export t) \<and>
     opt_ok (between_len 1 gapLen) (tl_gap t)"

definition settlement_command_ok :: "desk_env \<Rightarrow> settlement_command \<Rightarrow> bool" where
  "settlement_command_ok E c \<longleftrightarrow>
     between_len 1 LIMIT_idLen (stc_requestId c) \<and> between_len 1 agentIdLen (stc_actorAgentId c) \<and>
     between_len 1 LIMIT_idLen (stc_assignmentId c) \<and> between_len 1 agentIdLen (stc_seatAgentId c) \<and>
     between_len 1 deskSettlementTitleLen (stc_seatTitle c) \<and> time_ok E (stc_at c) \<and>
     opt_ok settlement_pointer (stc_deliveryRef c) \<and> opt_ok settlement_pointer (stc_reworkClosureRef c) \<and>
     opt_ok settlement_pointer (stc_sinkRef c) \<and> opt_ok settlement_pointer (stc_decisionRef c) \<and>
     list_all (between_len 1 LIMIT_idLen) (stc_handbackRefs c) \<and> length (stc_handbackRefs c) \<le> deskSettlementRefs \<and>
     list_all (between_len 1 LIMIT_idLen) (stc_candidateRefs c) \<and> length (stc_candidateRefs c) \<le> deskSettlementRefs \<and>
     list_all settlement_resource_ok (stc_resources c) \<and> length (stc_resources c) \<le> deskSettlementResources \<and>
     settlement_timeline_ok (stc_timeline c) \<and>
     opt_ok (\<lambda>v. opt_ok (between_len 1 gapLen) (xv_detail v)) (stc_exportVerification c)"

subsection \<open>The exported record\<close>

fun via_name :: "settlement_via \<Rightarrow> string" where
  "via_name Via_paseo_logs = ''paseo-logs''"
| "via_name Via_host_transcript = ''host-transcript''"
| "via_name Via_sessions_db = ''sessions-db''"
| "via_name Via_unreadable = ''unreadable''"
| "via_name Via_unchecked = ''unchecked''"

definition buildSettlementRecordFields ::
  "string \<Rightarrow> string \<Rightarrow> string \<Rightarrow> string \<Rightarrow> settlement_timeline \<Rightarrow> string \<Rightarrow> string \<Rightarrow> json" where
  \<comment> \<open>the fields of \<open>SettlementCommandFields\<close>, the seat's provider, the owner\<close>
  "buildSettlementRecordFields assignmentId seatAgentId seatTitle at t seatProvider ownerAgentId = JObj
     [(''version'', JInt 1), (''kind'', JStr ''settlement''), (''task'', JStr assignmentId),
      (''seat'', JObj [(''provider'', JStr seatProvider), (''title'', JStr seatTitle), (''agentId'', JStr seatAgentId)]),
      (''timeline'', JObj
        [(''nativeHandle'', json_opt JStr (tl_nativeHandle t)), (''sessionId'', json_opt JStr (tl_sessionId t)),
         (''via'', JStr (via_name (tl_via t))),
         (''export'', json_opt (\<lambda>x. JObj [(''path'', JStr (se_path x)), (''sha256'', JStr (se_sha256 x)), (''bytes'', json_nat (se_bytes x))])
           (tl_export t)),
         (''gap'', json_opt JStr (tl_gap t))]),
      (''recordedBy'', JStr ownerAgentId), (''at'', JStr at)]"

definition commandRecord :: "settlement_command \<Rightarrow> string \<Rightarrow> string \<Rightarrow> json" where
  "commandRecord c seatProvider ownerAgentId = buildSettlementRecordFields (stc_assignmentId c) (stc_seatAgentId c) (stc_seatTitle c)
     (stc_at c) (stc_timeline c) seatProvider ownerAgentId"

definition buildSettlementRecord :: "settlement \<Rightarrow> json" where
  "buildSettlementRecord row = buildSettlementRecordFields (s_assignmentId row) (s_seatAgentId row) (s_seatTitle row)
     (s_at row) (s_timeline row) (s_seatProvider row) (s_ownerAgentId row)"

subsection \<open>References, verdict and status\<close>

definition handbackRefResolves :: "ledger \<Rightarrow> settlement_command \<Rightarrow> string \<Rightarrow> bool" where
  "handbackRefResolves l c ref \<longleftrightarrow> (case find (\<lambda>h. h_handbackId h = ref) (handbacks l) of
     None \<Rightarrow> False | Some h \<Rightarrow> h_assignmentId h = stc_assignmentId c \<and> h_agentId h = stc_seatAgentId c)"

definition candidateRefResolves :: "ledger \<Rightarrow> settlement_command \<Rightarrow> string \<Rightarrow> bool" where
  "candidateRefResolves l c ref \<longleftrightarrow> (case find (\<lambda>k. c_candidateId k = ref) (candidates l) of
     None \<Rightarrow> False | Some k \<Rightarrow> c_assignmentId k = stc_assignmentId c \<and> c_seatAgentId k = stc_seatAgentId c)"

definition exportVerdictProblem :: "settlement_command \<Rightarrow> desk_error_code option" where
  "exportVerdictProblem c = (case (tl_export (stc_timeline c), stc_exportVerification c) of
       (None, None) \<Rightarrow> None
     | (None, Some _) \<Rightarrow> Some INVALID_RECORD
     | (Some _, None) \<Rightarrow> Some INVALID_RECORD
     | (Some _, Some v) \<Rightarrow> if xv_status v \<noteq> XS_verified \<and> xv_status v \<noteq> XS_unavailable then Some INVALID_RECORD else None)"

definition unknownResources :: "settlement_command \<Rightarrow> nat" where
  "unknownResources c = length (filter (\<lambda>r. sr_disposition r = RD_unknown) (stc_resources c))"

definition exportProven :: "settlement_command \<Rightarrow> bool" where
  "exportProven c \<longleftrightarrow> tl_export (stc_timeline c) \<noteq> None \<and>
     (case stc_exportVerification c of Some v \<Rightarrow> xv_status v = XS_verified | None \<Rightarrow> False)"

definition transcriptCovered :: "settlement_command \<Rightarrow> bool" where
  "transcriptCovered c \<longleftrightarrow> (if tl_export (stc_timeline c) = None
     then tl_nativeHandle (stc_timeline c) \<noteq> None \<and> tl_gap (stc_timeline c) \<noteq> None
     else exportProven c)"

definition settlementGaps :: "settlement_command \<Rightarrow> string list" where
  "settlementGaps c =
     (if stc_deliveryRef c = None then [''delivery-evidence-missing''] else []) @
     (if stc_reworkClosureRef c = None then [''rework-closure-evidence-missing''] else []) @
     (if 0 < unknownResources c then [''resource-dispositions-unknown:'' @ show_nat (unknownResources c)] else []) @
     (if stc_sinkRef c = None then [''sink-pointer-missing''] else []) @
     (if tl_export (stc_timeline c) = None then [''transcript-export-unavailable''] else []) @
     (if tl_export (stc_timeline c) \<noteq> None \<and> \<not> exportProven c then [''transcript-export-unverified''] else []) @
     (if stc_decisionRef c = None then [''decision-reference-missing''] else [])"

definition settlementStatus :: "settlement_command \<Rightarrow> settlement_status" where
  "settlementStatus c =
     (if stc_deliveryRef c = None then ST_blocked
      else if stc_reworkClosureRef c = None \<or> stc_sinkRef c = None \<or> 0 < unknownResources c \<or> \<not> transcriptCovered c then ST_partial
      else ST_completed)"

fun settlement_status_name :: "settlement_status \<Rightarrow> string" where
  "settlement_status_name ST_completed = ''completed''"
| "settlement_status_name ST_partial = ''partial''"
| "settlement_status_name ST_blocked = ''blocked''"

subsection \<open>The decision\<close>

definition nextSettlementRevision :: "ledger \<Rightarrow> string \<Rightarrow> string \<Rightarrow> nat" where
  "nextSettlementRevision l aid agent =
     foldl (\<lambda>m s. max m (s_revision s)) 0 (filter (\<lambda>s. s_assignmentId s = aid \<and> s_seatAgentId s = agent) (settlements l)) + 1"

definition committedVerdict :: "export_verdict \<Rightarrow> export_verification" where
  \<comment> \<open>only \<open>verified\<close> and \<open>unavailable\<close> reach the row\<close>
  "committedVerdict v = (if xv_status v = XS_verified then EV_verified (xv_detail v) else EV_unavailable (xv_detail v))"

definition settledRow :: "desk_env \<Rightarrow> ledger \<Rightarrow> membership \<Rightarrow> assignment_seat \<Rightarrow> membership \<Rightarrow> settlement_command \<Rightarrow> settlement" where
  "settledRow E l actor seat seatRow c =
     \<lparr>s_settlementId = derive_id E ''stl'' [actorAgent actor, stc_assignmentId c, stc_seatAgentId c, stc_requestId c],
      s_assignmentId = stc_assignmentId c, s_requestId = stc_requestId c,
      s_revision = nextSettlementRevision l (stc_assignmentId c) (stc_seatAgentId c),
      s_ownerMembershipId = m_membershipId actor, s_ownerAgentId = actorAgent actor, s_seatAgentId = stc_seatAgentId c,
      s_seatMembershipId = seat_membershipId seat, s_seatProvider = m_provider seatRow, s_seatTitle = stc_seatTitle c,
      s_at = stc_at c, s_deliveryRef = stc_deliveryRef c, s_reworkClosureRef = stc_reworkClosureRef c, s_sinkRef = stc_sinkRef c,
      s_decisionRef = stc_decisionRef c, s_handbackRefs = stc_handbackRefs c, s_candidateRefs = stc_candidateRefs c,
      s_resources = stc_resources c, s_timeline = stc_timeline c,
      s_exportVerification = (if tl_export (stc_timeline c) = None then None else map_option committedVerdict (stc_exportVerification c)),
      s_status = settlementStatus c, s_gaps = settlementGaps c\<rparr>"

definition settledEvent :: "settlement \<Rightarrow> desk_event" where
  "settledEvent r =
     \<lparr>ev_kind = ''settlement-recorded'', ev_payload = JObj
       [(''settlementId'', JStr (s_settlementId r)), (''assignmentId'', JStr (s_assignmentId r)), (''seatAgentId'', JStr (s_seatAgentId r)),
        (''ownerAgentId'', JStr (s_ownerAgentId r)), (''revision'', json_nat (s_revision r)),
        (''status'', JStr (settlement_status_name (s_status r)))]\<rparr>"

definition settleSeat ::
  "desk_env \<Rightarrow> host_env \<Rightarrow> ledger \<Rightarrow> membership \<Rightarrow> assignment_seat \<Rightarrow> membership \<Rightarrow> settlement_command \<Rightarrow> decide_outcome" where
  \<comment> \<open>the guards and the row, once the settled seat's membership is resolved\<close>
  "settleSeat E H l actor seat seatRow c =
     (if \<not> list_all (handbackRefResolves l c) (stc_handbackRefs c) then Inl INVALID_RECORD
      else if \<not> list_all (candidateRefResolves l c) (stc_candidateRefs c) then Inl INVALID_RECORD
      else if \<not> distinct (stc_handbackRefs c) \<or> \<not> distinct (stc_candidateRefs c) \<or> \<not> distinct (map sr_ref (stc_resources c)) then Inl INVALID_RECORD
      else if LIMIT_settlements \<le> length (settlements l) then Inl INVALID_RECORD
      else (case exportVerdictProblem c of
         Some e \<Rightarrow> Inl e
       | None \<Rightarrow>
           if \<not> record_valid (validateReportRecordV1 E (desk_options H) (commandRecord c (m_provider seatRow) (actorAgent actor))) then Inl INVALID_RECORD
           else let row = settledRow E l actor seat seatRow c in
             Inr ([settledEvent row], no_tables\<lparr>p_settlements := Some (settlements l @ [row])\<rparr>)))"

definition decideDeskSettlement :: "desk_env \<Rightarrow> host_env \<Rightarrow> ledger \<Rightarrow> settlement_command \<Rightarrow> decide_outcome" where
  "decideDeskSettlement E H l c =
     (if \<not> settlement_command_ok E c then Inl INVALID_RECORD
      else case requireActor l (stc_actorAgentId c) of
        Inl e \<Rightarrow> Inl e
      | Inr actor \<Rightarrow>
        (case requireLead actor of
           Some e \<Rightarrow> Inl e
         | None \<Rightarrow>
           (case findAssignment l (stc_assignmentId c) of
              None \<Rightarrow> Inl AUTHORITY_REQUIRED
            | Some a \<Rightarrow>
                if \<not> effectiveOwnerMatches l a actor then Inl AUTHORITY_REQUIRED
                else (case find (\<lambda>s. seat_agentId s = stc_seatAgentId c) (a_seats a) of
                   None \<Rightarrow> Inl INVALID_RECORD
                 | Some seat \<Rightarrow>
                   (case find (\<lambda>m. m_membershipId m = seat_membershipId seat) (memberships l) of
                      None \<Rightarrow> Inl INVALID_RECORD
                    | Some seatRow \<Rightarrow>
                        if m_agentId seatRow \<noteq> Some (stc_seatAgentId c) then Inl INVALID_RECORD
                        else settleSeat E H l actor seat seatRow c)))))"

subsection \<open>The status view\<close>

record status_settlement =
  ss_settlementId :: string
  ss_seatAgentId :: string
  ss_revision :: nat
  ss_status :: settlement_status
  ss_gapsCount :: nat
  ss_exportVerified :: bool

definition statusSettlement :: "settlement \<Rightarrow> status_settlement" where
  "statusSettlement s =
     \<lparr>ss_settlementId = s_settlementId s, ss_seatAgentId = s_seatAgentId s, ss_revision = s_revision s, ss_status = s_status s,
      ss_gapsCount = length (s_gaps s),
      ss_exportVerified = (case s_exportVerification s of Some (EV_verified _) \<Rightarrow> True | _ \<Rightarrow> False)\<rparr>"

definition visibleSettlements :: "ledger \<Rightarrow> membership \<Rightarrow> assignment \<Rightarrow> settlement list" where
  "visibleSettlements l row a = (case deskWorkflowParticipant l row a of
       None \<Rightarrow> []
     | Some p \<Rightarrow> filter (\<lambda>s. s_assignmentId s = a_assignmentId a \<and> (p \<noteq> P_attached_seat \<or> Some (s_seatAgentId s) = m_agentId row))
         (settlements l))"

definition seatSettlementsView :: "ledger \<Rightarrow> membership \<Rightarrow> nat \<Rightarrow> (string \<times> status_settlement list) list \<times> nat" where
  \<comment> \<open>the assignments with a visible row, and the number of them whose rows were cut at the limit\<close>
  "seatSettlementsView l row limit =
     (let shown = filter (\<lambda>(aid, rows). rows \<noteq> []) (map (\<lambda>a. (a_assignmentId a, visibleSettlements l row a)) (assignments l)) in
      (map (\<lambda>(aid, rows). (aid, map statusSettlement (take limit rows))) shown,
       length (filter (\<lambda>(aid, rows). limit < length rows) shown)))"

end
