(* ===== verification/Desk_Settlement_Tables.thy ===== *)
theory Desk_Settlement_Tables
  imports Desk_Settlement Desk_Tables_Grow
begin

text \<open>
  What an accepted settlement guarantees: the tables stay as the store's checks want them, the
  status is earned and never claimed, and the record exported later is the record validated now.
\<close>

lemma settlement_decided:
  assumes "decideDeskSettlement E H l c = Inr (evs, p)"
  obtains actor a seat seatRow where "requireActor l (stc_actorAgentId c) = Inr actor" and "m_role actor = Role_lead"
    and "findAssignment l (stc_assignmentId c) = Some a" and "effectiveOwnerMatches l a actor"
    and "find (\<lambda>s. seat_agentId s = stc_seatAgentId c) (a_seats a) = Some seat"
    and "membershipById l (seat_membershipId seat) = Some seatRow" and "m_agentId seatRow = Some (stc_seatAgentId c)"
    and "list_all (handbackRefResolves l c) (stc_handbackRefs c)" and "list_all (candidateRefResolves l c) (stc_candidateRefs c)"
    and "exportVerdictProblem c = None"
    and "record_valid (validateReportRecordV1 E (desk_options H) (commandRecord c (m_provider seatRow) (actorAgent actor)))"
    and "length (settlements l) < LIMIT_settlements"
    and "evs = [settledEvent (settledRow E l actor seat seatRow c)]"
    and "p = no_tables\<lparr>p_settlements := Some (settlements l @ [settledRow E l actor seat seatRow c])\<rparr>"
proof -
  from assms obtain actor a seat seatRow where a: "requireActor l (stc_actorAgentId c) = Inr actor" "requireLead actor = None"
      "findAssignment l (stc_assignmentId c) = Some a" "effectiveOwnerMatches l a actor"
      "find (\<lambda>s. seat_agentId s = stc_seatAgentId c) (a_seats a) = Some seat"
      "find (\<lambda>m. m_membershipId m = seat_membershipId seat) (memberships l) = Some seatRow"
      "m_agentId seatRow = Some (stc_seatAgentId c)" and d: "settleSeat E H l actor seat seatRow c = Inr (evs, p)"
    unfolding decideDeskSettlement_def accepted by auto
  from d show thesis
    unfolding settleSeat_def Let_def accepted prod.inject sum.inject
    by (intro that [of actor a seat seatRow]) (use a in \<open>auto simp: requireLead_None membershipById_def\<close>)
qed

lemma settledRow_sel:
  "s_assignmentId (settledRow E l actor seat m c) = stc_assignmentId c" "s_requestId (settledRow E l actor seat m c) = stc_requestId c"
  "s_ownerAgentId (settledRow E l actor seat m c) = actorAgent actor" "s_seatAgentId (settledRow E l actor seat m c) = stc_seatAgentId c"
  "s_ownerMembershipId (settledRow E l actor seat m c) = m_membershipId actor"
  "s_seatMembershipId (settledRow E l actor seat m c) = seat_membershipId seat"
  "s_seatProvider (settledRow E l actor seat m c) = m_provider m" "s_seatTitle (settledRow E l actor seat m c) = stc_seatTitle c"
  "s_at (settledRow E l actor seat m c) = stc_at c" "s_timeline (settledRow E l actor seat m c) = stc_timeline c"
  "s_handbackRefs (settledRow E l actor seat m c) = stc_handbackRefs c"
  "s_candidateRefs (settledRow E l actor seat m c) = stc_candidateRefs c"
  "s_status (settledRow E l actor seat m c) = settlementStatus c" "s_gaps (settledRow E l actor seat m c) = settlementGaps c"
  "s_revision (settledRow E l actor seat m c) = nextSettlementRevision l (stc_assignmentId c) (stc_seatAgentId c)"
  "s_settlementId (settledRow E l actor seat m c) =
     derive_id E ''stl'' [actorAgent actor, stc_assignmentId c, stc_seatAgentId c, stc_requestId c]"
  by (simp_all add: settledRow_def)

subsection \<open>Gaps and status\<close>

lemma gap_unverified:
  "''transcript-export-unverified'' \<in> set (settlementGaps c) \<longleftrightarrow> tl_export (stc_timeline c) \<noteq> None \<and> \<not> exportProven c"
  by (simp add: settlementGaps_def)

lemma row_exportCoherent:
  assumes "exportVerdictProblem c = None"
  shows "exportCoherent (settledRow E l actor seat m c)"
proof (cases "tl_export (stc_timeline c)")
  case None
  then show ?thesis by (simp add: exportCoherent_def settledRow_def)
next
  case (Some x)
  with assms obtain v where v: "stc_exportVerification c = Some v"
    by (auto simp: exportVerdictProblem_def split: option.splits)
  have proven: "exportProven c \<longleftrightarrow> xv_status v = XS_verified" by (simp add: exportProven_def Some v)
  have "\<not> exportProven c \<Longrightarrow> settlementStatus c \<noteq> ST_completed"
    by (simp add: settlementStatus_def transcriptCovered_def Some)
  then show ?thesis
    using gap_unverified [of c] proven
    by (simp add: exportCoherent_def Let_def settledRow_sel Some) (simp add: settledRow_def Some v committedVerdict_def)
qed

lemma nextSettlementRevision_fresh:
  "(aid, agent, nextSettlementRevision l aid agent) \<notin> (\<lambda>s. (s_assignmentId s, s_seatAgentId s, s_revision s)) ` set (settlements l)"
proof
  assume "(aid, agent, nextSettlementRevision l aid agent) \<in> (\<lambda>s. (s_assignmentId s, s_seatAgentId s, s_revision s)) ` set (settlements l)"
  then obtain s where "s \<in> set (filter (\<lambda>s. s_assignmentId s = aid \<and> s_seatAgentId s = agent) (settlements l))"
    and r: "s_revision s = nextSettlementRevision l aid agent" by auto
  from foldl_max_ge(2) [OF this(1), of s_revision 0] r show False by (simp add: nextSettlementRevision_def)
qed

subsection \<open>The tables\<close>

definition settlementFresh :: "desk_env \<Rightarrow> ledger \<Rightarrow> settlement_command \<Rightarrow> bool" where
  \<comment> \<open>no row was written under the command's request, and its derived id names no row\<close>
  "settlementFresh E l c \<longleftrightarrow>
     list_all (\<lambda>s. \<not> (s_assignmentId s = stc_assignmentId c \<and> s_ownerAgentId s = stc_actorAgentId c \<and> s_requestId s = stc_requestId c) \<and>
       s_settlementId s \<noteq> derive_id E ''stl'' [stc_actorAgentId c, stc_assignmentId c, stc_seatAgentId c, stc_requestId c]) (settlements l)"

lemma settlement_keeps:
  assumes "decideDeskSettlement E H l c = Inr (evs, p)" and "tablesOk E l" and "settlementFresh E l c"
  shows "tablesOk E (apply_tables l p)"
  using assms(1)
proof (cases rule: settlement_decided)
  case (1 actor a seat seatRow)
  let ?row = "settledRow E l actor seat seatRow c"
  define l' where "l' = l\<lparr>settlements := settlements l @ [?row]\<rparr>"
  have grows: "deskGrows l l'" by (rule deskGrows_prefix) (simp_all add: l'_def)
  have agent: "actorAgent actor = stc_actorAgentId c" by (rule requireActor_facts(3) [OF 1(1)])
  have ms: "membershipsOk (memberships l)" and ss: "settlementsOk l" using assms(2) by (simp_all add: tablesOk_def)
  have "inLineageTuple l (stc_assignmentId c) (stc_actorAgentId c) (m_membershipId actor)"
    using 1(3,4) requireActor_facts(2) [OF 1(1)] by (rule owner_inLineage)
  moreover have "settledSeat l ?row" using 1(3,5,6,7) by (simp add: settledSeat_def settledRow_sel)
  moreover have "settledRefs l ?row"
    using 1(8,9) unfolding settledRefs_def settledRow_sel candidateById_def
    by (simp add: list_all_iff handbackRefResolves_def candidateRefResolves_def)
  ultimately have "settlementRowOk l ?row"
    using actor_links(2) [OF 1(1) ms 1(2)] row_exportCoherent [OF 1(10)] by (simp add: settlementRowOk_def settledRow_sel agent)
  then have "settlementRowOk l' ?row" by (rule settlementRow_grows [OF grows])
  then have "settlementsOk l'"
    using assms(3) nextSettlementRevision_fresh
    by (intro settlements_snoc [OF grows ss, where s = ?row])
      (auto simp: l'_def settledRow_sel agent settlementFresh_def list_all_iff)
  then show ?thesis
    unfolding 1(14) apply_one_table l'_def [symmetric]
    by (intro tablesOk_carried [OF grows assms(2)]) (simp_all add: l'_def ms)
qed

end
