(* ===== verification/Desk_Composition.thy ===== *)
theory Desk_Composition
  imports Desk_Tables_Others Desk_Handback_Tables Desk_Settlement_Tables Desk_Ownership Desk_Assignment Desk_Store_Commit
begin

text \<open>
  The desk as one machine. Every tool call reaches the store as one of eight command families, each
  with its own decision; here they are one command type with one decision, so that statements
  about any sequence of calls can be made. Two things are shown to fit together: the families keep
  each other's invariants, and what a family accepts the store's table checks accept.
\<close>

subsection \<open>One decision\<close>

datatype desk_command =
    Desk_seat seat_command
  | Desk_handback handback_command
  | Desk_settlement settlement_command
  | Desk_check desk_check_command
  | Desk_rollout desk_rollout_command
  | Desk_scope desk_scope_command
  | Desk_ownership ownership_command
  | Desk_assignment assignment_command

text \<open>
  What a decision reads besides the ledger: the host's path rules, the episode a registration
  resolved and whether a seat call carries a task ticket.
\<close>

record desk_seams =
  sm_host :: host_env
  sm_episode :: "episode_selection option"
  sm_ticketed :: bool

fun deskDecide :: "desk_env \<Rightarrow> desk_seams \<Rightarrow> ledger \<Rightarrow> event_row list \<Rightarrow> desk_command \<Rightarrow> decide_outcome" where
  "deskDecide E S l history (Desk_seat c) = (case decideSeatCommand E (sm_ticketed S) l c of
     Some out \<Rightarrow> out
   | None \<Rightarrow> Inl INVALID_RECORD)"
| "deskDecide E S l history (Desk_handback c) = decideDeskHandback E (sm_host S) (sm_episode S) (Some history) l c"
| "deskDecide E S l history (Desk_settlement c) = decideDeskSettlement E (sm_host S) l c"
| "deskDecide E S l history (Desk_check c) = decideDeskCheck E l c"
| "deskDecide E S l history (Desk_rollout c) = decideDeskRollout E l c"
| "deskDecide E S l history (Desk_scope c) = decideDeskScope E l c"
| "deskDecide E S l history (Desk_ownership c) = decideDeskOwnership E l c"
| "deskDecide E S l history (Desk_assignment c) = decideDeskAssignment E l c"

text \<open>
  What the caller owes: a request id not yet used for a row of the command's kind and a derived id
  that names no row (the store answers a repeated request before it decides), a membership id drawn
  anew, and the evidence pointer a passed run needs.
\<close>

fun commandFresh :: "desk_env \<Rightarrow> ledger \<Rightarrow> desk_command \<Rightarrow> bool" where
  "commandFresh E l (Desk_seat c) \<longleftrightarrow> mintFresh l c"
| "commandFresh E l (Desk_handback c) \<longleftrightarrow> handbackFresh E l c"
| "commandFresh E l (Desk_settlement c) \<longleftrightarrow> settlementFresh E l c"
| "commandFresh E l (Desk_check (Check_declare c)) \<longleftrightarrow> definitionFresh l c"
| "commandFresh E l (Desk_check (Check_run_commit c)) \<longleftrightarrow> runFresh E l c \<and> evidenceSupplied l c"
| "commandFresh E l (Desk_rollout (Rollout_declare c)) \<longleftrightarrow> declarationFresh l c"
| "commandFresh E l _ \<longleftrightarrow> True"

lemma check_keeps:
  assumes "decideDeskCheck E l cmd = Inr (evs, p)" and "tablesOk E l" and "commandFresh E l (Desk_check cmd)"
  shows "tablesOk E (apply_tables l p)"
  using assms(1)
proof (rule check_decided)
  fix actor a
  assume a: "requireActor l (check_actor cmd) = Inr actor" "m_role actor = Role_lead"
    "findAssignment l (check_assignment cmd) = Some a" "effectiveOwnerMatches l a actor"
    and d: "(case cmd of Check_declare c \<Rightarrow> decideCheckDeclare l actor a c | Check_run_commit c \<Rightarrow> decideCheckRun E l actor a c) = Inr (evs, p)"
  show "tablesOk E (apply_tables l p)"
  proof (cases cmd)
    case (Check_declare c)
    with a d assms(3) show ?thesis
      by (intro declare_check_keeps [OF _ assms(2)]) auto
  next
    case (Check_run_commit c)
    with a d assms(3) show ?thesis by (intro check_run_keeps [OF _ assms(2)]) auto
  qed
qed

lemma accepted_keeps_tables:
  assumes "deskDecide E S l h cmd = Inr (evs, p)" and "tablesOk E l" and "commandFresh E l cmd"
  shows "tablesOk E (apply_tables l p)"
proof (cases cmd)
  case (Desk_rollout c)
  with assms show ?thesis by (cases c) (auto intro: rollout_declare_keeps rollout_move_keeps)
qed (use assms in \<open>auto split: option.splits
  intro: seat_keeps handback_keeps settlement_keeps check_keeps scope_keeps ownership_keeps assignment_keeps\<close>)

subsection \<open>Every invariant, every command\<close>

definition workflowOk :: "desk_env \<Rightarrow> ledger \<Rightarrow> bool" where
  \<comment> \<open>the histories the store's other refinements speak of\<close>
  "workflowOk E l \<longleftrightarrow> scopeHistoryOk l \<and> rolloutHistoryOk l \<and>
     (\<forall>aid. lineageContiguous l aid \<and> briefChainOk E l aid \<and> decisionChainOk E l aid)"

definition scopeFrame :: "ledger \<Rightarrow> ledger \<Rightarrow> bool" where
  "scopeFrame l l' \<longleftrightarrow> scopes l' = scopes l \<and> scopeTransitions l' = scopeTransitions l"

definition rolloutFrame :: "ledger \<Rightarrow> ledger \<Rightarrow> bool" where
  "rolloutFrame l l' \<longleftrightarrow> rollouts l' = rollouts l \<and> rolloutTransitions l' = rolloutTransitions l"

definition custodyFrame :: "ledger \<Rightarrow> ledger \<Rightarrow> bool" where
  "custodyFrame l l' \<longleftrightarrow> ownershipAccepts l' = ownershipAccepts l"

definition briefFrame :: "ledger \<Rightarrow> ledger \<Rightarrow> bool" where
  "briefFrame l l' \<longleftrightarrow> briefRevisions l' = briefRevisions l \<and> decisionEntries l' = decisionEntries l"

lemmas frame_defs = scopeFrame_def rolloutFrame_def custodyFrame_def briefFrame_def

lemma frames_keep:
  "scopeFrame l l' \<Longrightarrow> scopeHistoryOk l' \<longleftrightarrow> scopeHistoryOk l"
  "rolloutFrame l l' \<Longrightarrow> rolloutHistoryOk l' \<longleftrightarrow> rolloutHistoryOk l"
  "custodyFrame l l' \<Longrightarrow> lineageContiguous l' aid \<longleftrightarrow> lineageContiguous l aid"
  "briefFrame l l' \<Longrightarrow> briefChainOk E l' aid \<longleftrightarrow> briefChainOk E l aid"
  "briefFrame l l' \<Longrightarrow> decisionChainOk E l' aid \<longleftrightarrow> decisionChainOk E l aid"
  by (simp_all add: frame_defs scopeHistoryOk_def scopeKeyOk_def declarationStream_def transitionStream_def
      rolloutHistoryOk_def rolloutKeyOk_def rolloutDeclarations_def rolloutMoves_def lineageContiguous_def
      briefChainOk_def currentBriefRows_def decisionChainOk_def decisionRows_def del: upt_Suc)

definition aside :: "table_patch \<Rightarrow> bool" where
  \<comment> \<open>a patch that leaves every workflow table alone\<close>
  "aside p \<longleftrightarrow> p_scopes p = None \<and> p_scopeTransitions p = None \<and> p_rollouts p = None \<and> p_rolloutTransitions p = None \<and>
     p_ownershipAccepts p = None \<and> p_briefRevisions p = None \<and> p_decisionEntries p = None"

lemma aside_patch [simp]:
  "aside no_tables" "aside (p\<lparr>p_memberships := ms\<rparr>) = aside p" "aside (p\<lparr>p_assignments := as\<rparr>) = aside p"
  "aside (p\<lparr>p_candidates := cs\<rparr>) = aside p" "aside (p\<lparr>p_handbacks := hs\<rparr>) = aside p" "aside (p\<lparr>p_settlements := ss\<rparr>) = aside p"
  "aside (p\<lparr>p_checkDefinitions := ds\<rparr>) = aside p" "aside (p\<lparr>p_checkRuns := rs\<rparr>) = aside p"
  by (simp_all add: aside_def no_tables_def)

lemma aside_keeps:
  assumes "aside p" and "workflowOk E l"
  shows "workflowOk E (apply_tables l p)"
proof -
  have "scopeFrame l (apply_tables l p)" "rolloutFrame l (apply_tables l p)" "custodyFrame l (apply_tables l p)" "briefFrame l (apply_tables l p)"
    using assms(1) by (simp_all add: aside_def frame_defs apply_tables_def)
  with assms(2) show ?thesis by (simp add: workflowOk_def frames_keep [of l "apply_tables l p"])
qed

lemma handback_aside:
  assumes "decideDeskHandback E H sel history l cmd = Inr (evs, p)"
  shows "aside p"
  using assms
proof (cases rule: handback_decided)
  case (1 actor)
  then show ?thesis
    by (cases cmd)
      (auto simp: decideRegister_def decideAttach_def decideClose_def decideSubmit_def decideObserve_def
        observeOk_def observeFailed_def Let_def accepted split: if_splits option.splits observed_capture.splits)
qed

lemma check_aside:
  assumes "decideDeskCheck E l cmd = Inr (evs, p)"
  shows "aside p"
  using assms
proof (rule check_decided)
  fix actor a
  assume "(case cmd of Check_declare c \<Rightarrow> decideCheckDeclare l actor a c | Check_run_commit c \<Rightarrow> decideCheckRun E l actor a c) = Inr (evs, p)"
  then show "aside p" by (cases cmd) (auto simp: decideCheckDeclare_def decideCheckRun_def Let_def accepted)
qed

lemma settlement_aside: "decideDeskSettlement E H l c = Inr (evs, p) \<Longrightarrow> aside p"
  by (erule settlement_decided) simp

lemma seat_aside: "decideSeatCommand E t l c = Some (Inr (evs, p)) \<Longrightarrow> aside p"
  by (drule seat_patch) auto

lemma scope_workflow:
  assumes "decideDeskScope E l cmd = Inr (evs, p)" and "workflowOk E l"
  shows "workflowOk E (apply_tables l p)"
proof -
  have "rolloutFrame l (apply_tables l p) \<and> custodyFrame l (apply_tables l p) \<and> briefFrame l (apply_tables l p)"
  proof (cases cmd)
    case (Scope_declare c)
    show ?thesis using assms(1) unfolding Scope_declare
      by (rule declare_facts) (simp add: frame_defs afterDeclare_def pushScope_def pushTransition_def)
  next
    case (Scope_transition c)
    show ?thesis using assms(1) unfolding Scope_transition by (rule transition_facts) (simp add: frame_defs pushTransition_def)
  next
    case (Scope_review c)
    show ?thesis using assms(1) unfolding Scope_review by (rule review_facts) (simp add: frame_defs)
  qed
  with assms(2) scope_history_kept [OF assms(1)] show ?thesis by (simp add: workflowOk_def frames_keep [of l "apply_tables l p"])
qed

lemma rollout_workflow:
  assumes "decideDeskRollout E l cmd = Inr (evs, p)" and "workflowOk E l"
  shows "workflowOk E (apply_tables l p)"
proof -
  have "scopeFrame l (apply_tables l p) \<and> custodyFrame l (apply_tables l p) \<and> briefFrame l (apply_tables l p)"
  proof (cases cmd)
    case (Rollout_declare c)
    show ?thesis using assms(1) unfolding Rollout_declare
      by (rule rollout_declare_facts) (simp add: frame_defs afterRolloutDeclare_def pushRollout_def pushMove_def)
  next
    case (Rollout_transition c)
    show ?thesis using assms(1) unfolding Rollout_transition by (rule rollout_transition_facts) (simp add: frame_defs pushMove_def)
  qed
  with assms(2) rollout_history_kept [OF assms(1)] show ?thesis by (simp add: workflowOk_def frames_keep [of l "apply_tables l p"])
qed

lemma ownership_workflow:
  assumes "decideDeskOwnership E l cmd = Inr (evs, p)" and "workflowOk E l"
  shows "workflowOk E (apply_tables l p)"
proof -
  have "scopeFrame l (apply_tables l p) \<and> rolloutFrame l (apply_tables l p) \<and> briefFrame l (apply_tables l p)"
    using assms(1) by (cases cmd) (auto simp: frame_defs ownership_Inr decideOffer_Inr decideAccept_Inr)
  with assms(2) lineages_kept [OF assms(1)] show ?thesis by (simp add: workflowOk_def frames_keep [of l "apply_tables l p"])
qed

lemma assignment_workflow:
  assumes "decideDeskAssignment E l cmd = Inr (evs, p)" and "workflowOk E l"
  shows "workflowOk E (apply_tables l p)"
proof -
  have "scopeFrame l (apply_tables l p) \<and> rolloutFrame l (apply_tables l p) \<and> custodyFrame l (apply_tables l p)"
  proof (cases cmd)
    case (Assignment_amend c)
    show ?thesis using assms(1) unfolding Assignment_amend by (rule amend_facts) (simp add: frame_defs pushBrief_def)
  next
    case (Decision_append c)
    show ?thesis using assms(1) unfolding Decision_append by (rule decision_facts) (simp add: frame_defs pushDecision_def)
  qed
  with assms(2) chains_kept [OF assms(1)] show ?thesis by (simp add: workflowOk_def frames_keep [of l "apply_tables l p"])
qed

lemma accepted_keeps_workflow:
  assumes "deskDecide E S l h cmd = Inr (evs, p)" and "workflowOk E l"
  shows "workflowOk E (apply_tables l p)"
  using assms
  by (cases cmd) (auto split: option.splits intro: aside_keeps seat_aside handback_aside settlement_aside check_aside
    scope_workflow rollout_workflow ownership_workflow assignment_workflow)

end
