(* ===== verification/Desk_Run.thy ===== *)
theory Desk_Run
  imports Desk_Composition Desk_Store_Examples Desk_Seat_Safety
begin

text \<open>
  Runs of the whole desk, and one command through the store: the invariants every ledger a run
  reaches has, and that a command the decision accepts is committed, never turned down by the
  store's own table checks.
\<close>

subsection \<open>Runs\<close>

text \<open>
  A run starts from the empty ledger and takes accepted commands of any family, in any order. The
  header of the document (revision, times, event tip, request records) is left arbitrary: no
  statement about the tables rests on it.
\<close>

definition stamped :: "ledger \<Rightarrow> nat \<Rightarrow> string \<Rightarrow> nat \<Rightarrow> string option \<Rightarrow> request_record list \<Rightarrow> ledger" where
  "stamped l n at m tip qs =
     l\<lparr>revision := n, updatedAt := at, lastEventSeq := m, lastEventSha256 := tip, requests := qs\<rparr>"

inductive deskRun :: "desk_env \<Rightarrow> ledger \<Rightarrow> bool" for E :: desk_env where
  start: "deskRun E (emptyLedger rb key t)"
| step: "deskRun E l \<Longrightarrow> deskDecide E S l h cmd = Inr (evs, p) \<Longrightarrow> commandFresh E l cmd \<Longrightarrow>
    deskRun E (stamped (apply_tables l p) n at m tip qs)"

inductive_cases deskRun_elim: "deskRun E l"

lemma empty_tables: "tablesOk E (emptyLedger rb key t)" "workflowOk E (emptyLedger rb key t)"
  by (simp_all add: tablesOk_def membershipsOk_def assignmentsOk_def candidatesOk_def handbacksOk_def settlementsOk_def
      checkDefinitionsOk_def rolloutsOk_def checkRunsOk_def workflowOk_def scopeHistoryOk_def scopeKeyOk_def declarationStream_def
      transitionStream_def rolloutHistoryOk_def rolloutKeyOk_def rolloutDeclarations_def rolloutMoves_def lineageContiguous_def
      briefChainOk_def currentBriefRows_def decisionChainOk_def decisionRows_def emptyLedger_def contiguous_def)

lemma same_tables:
  assumes "memberships l' = memberships l" and "assignments l' = assignments l" and "handbacks l' = handbacks l"
    and "candidates l' = candidates l" and "checkDefinitions l' = checkDefinitions l" and "rollouts l' = rollouts l"
    and "settlements l' = settlements l" and "checkRuns l' = checkRuns l"
    and "ownershipAccepts l' = ownershipAccepts l" and "scopes l' = scopes l"
    and "scopeTransitions l' = scopeTransitions l" and "rolloutTransitions l' = rolloutTransitions l"
    and "briefRevisions l' = briefRevisions l" and "decisionEntries l' = decisionEntries l"
  shows "tablesOk E l \<Longrightarrow> tablesOk E l'" and "workflowOk E l \<Longrightarrow> workflowOk E l'"
proof -
  show "tablesOk E l'" if "tablesOk E l" using assms by (intro only_grows [OF that]) simp_all
  show "workflowOk E l'" if "workflowOk E l"
    using that assms by (simp add: workflowOk_def frames_keep [of l l'] frame_defs)
qed

text \<open>C3. The composition of the whole desk: whatever sequence of seat, handback, settlement, check,
  rollout, scope, ownership and assignment commands is accepted from the empty ledger, every row the
  store's table checks read stays in order, every scope and rollout history stays one legal run,
  and custody, brief and decision chains stay gapless and linked. The commands of the sequence are
  those of \<open>commandFresh\<close>: a command that writes a row under a request id or a derived or random id
  uses one no row of its kind has (the store answers a repeated request before it decides, so this
  fails only on a hash or UUID collision), and a check.run that passes carries the evidence its
  definition demands. The decision does not look at the evidence; C34 is what happens without it.\<close>

theorem run_keeps_every_invariant:
  assumes "deskRun E l"
  shows "tablesOk E l \<and> scopeHistoryOk l \<and> rolloutHistoryOk l \<and>
    (\<forall>aid. lineageContiguous l aid \<and> briefChainOk E l aid \<and> decisionChainOk E l aid)"
proof -
  from assms have "tablesOk E l \<and> workflowOk E l"
  proof induction
    case (step l S h cmd evs p n at m tip qs)
    then have "tablesOk E (apply_tables l p)" "workflowOk E (apply_tables l p)"
      using accepted_keeps_tables [OF step(2)] accepted_keeps_workflow [OF step(2)] by simp_all
    then show ?case
      by (intro conjI same_tables [of "stamped (apply_tables l p) n at m tip qs"]) (simp_all add: stamped_def)
  qed (simp add: empty_tables)
  then show ?thesis by (simp add: workflowOk_def)
qed

definition mint_seams :: desk_seams where
  "mint_seams = \<lparr>sm_host = \<lparr>vo_windows = False, vo_dateParses = (\<lambda>s. True)\<rparr>, sm_episode = None, sm_ticketed = False\<rparr>"

definition mint_start :: ledger where
  "mint_start = emptyLedger toy_repo toy_key ''t0''"

lemma mint_accepted: "(case deskDecide toy_env mint_seams mint_start [] (Desk_seat (Seat_mint demo_mint)) of
    Inl e \<Rightarrow> False
  | Inr (evs, p) \<Rightarrow> map m_membershipId (memberships (apply_tables mint_start p)) = [''m9''])"
  by code_simp

lemma mint_fresh: "commandFresh toy_env mint_start (Desk_seat (Seat_mint demo_mint))"
  by (simp add: mintFresh_def mint_start_def emptyLedger_def)

lemma run_keeps_every_invariant_witness:
  "\<exists>l. deskRun toy_env l \<and> map m_membershipId (memberships l) = [''m9''] \<and> tablesOk toy_env l \<and> rolloutHistoryOk l"
proof -
  from mint_accepted obtain evs p where d: "deskDecide toy_env mint_seams mint_start [] (Desk_seat (Seat_mint demo_mint)) = Inr (evs, p)"
    and m: "map m_membershipId (memberships (apply_tables mint_start p)) = [''m9'']"
    by (auto simp del: deskDecide.simps split: sum.splits prod.splits)
  have "deskRun toy_env mint_start" unfolding mint_start_def by (rule deskRun.start)
  from deskRun.step [OF this d mint_fresh] have run: "deskRun toy_env (stamped (apply_tables mint_start p) 1 ''t1'' 0 None [])" .
  moreover have "map m_membershipId (memberships (stamped (apply_tables mint_start p) 1 ''t1'' 0 None [])) = [''m9'']"
    using m by (simp add: stamped_def)
  ultimately show ?thesis using run_keeps_every_invariant [OF run] by (intro exI conjI) (assumption | blast)+
qed

subsection \<open>Through the store\<close>

text \<open>The store sees a command as its JSON object, the decision as what that object parses to.\<close>

definition deskDecider :: "desk_env \<Rightarrow> desk_seams \<Rightarrow> (json \<times> desk_command) decider" where
  "deskDecider E S = \<lparr>dd_encode = fst, dd_decide = (\<lambda>l history c. deskDecide E S l history (snd c))\<rparr>"

text \<open>The part of \<open>checkRefinements\<close> that does not look at the tables.\<close>

definition headerOk :: "desk_env \<Rightarrow> string \<Rightarrow> ledger \<Rightarrow> bool" where
  "headerOk E key l \<longleftrightarrow> repoBindingOk E key l \<and> distinct (map requestKey (requests l)) \<and>
     list_all (\<lambda>q. opt_ok (\<lambda>(first, last). last \<le> lastEventSeq l) (q_eventSeqs q)) (requests l) \<and>
     (lastEventSeq l = 0 \<longleftrightarrow> lastEventSha256 l = None)"

lemma checkRefinements_header: "checkRefinements E K key l hist \<longleftrightarrow> headerOk E key l \<and> sk_tables K l hist"
  by (simp add: checkRefinements_def headerOk_def)

definition commitRoom :: "desk_env \<Rightarrow> store_checks \<Rightarrow> 'c decider \<Rightarrow> commit_stamp \<Rightarrow> 'c envelope \<Rightarrow> ledger \<Rightarrow>
    desk_event list \<Rightarrow> table_patch \<Rightarrow> bool" where
  \<comment> \<open>what else the commit asks for: caps, event and document schemas, bytes\<close>
  "commitRoom E K D cx env l evs p \<longleftrightarrow>
     (let next = apply_tables l p; res = capacityReserve next;
          built = buildEvents E (cx_at cx) env (lastEventSeq l) (lastEventSha256 l) evs;
          candidate = candidateLedger E D cx env l built (Inr (evs, p)) in
      length (requests l) < LIMIT_requests \<and> checkDecideEvents evs \<and> \<not> capacityExceeded next res \<and>
      sk_schema K next \<and> sk_schema K candidate \<and> sk_ledgerBytes K candidate \<le> LIMIT_ledgerBytes - cap_bytes res)"

definition otherTablesPass :: "(ledger \<Rightarrow> event_row list option \<Rightarrow> bool) \<Rightarrow> desk_env \<Rightarrow> 'c decider \<Rightarrow> commit_stamp \<Rightarrow> 'c envelope \<Rightarrow>
    ledger \<Rightarrow> event_row list \<Rightarrow> desk_event list \<Rightarrow> table_patch \<Rightarrow> bool" where
  \<comment> \<open>the checks beyond \<open>tablesOk\<close> take the proposed tables and the candidate with its history\<close>
  "otherTablesPass others E D cx env l h evs p \<longleftrightarrow>
     (let built = buildEvents E (cx_at cx) env (lastEventSeq l) (lastEventSha256 l) evs in
      others (apply_tables l p) None \<and> others (candidateLedger E D cx env l built (Inr (evs, p))) (Some (h @ built)))"

text \<open>
  The contract between a decision and the store: the store checks the tables of what the decision
  proposes, the decision promises that they pass. Under it an accepted command is committed.
\<close>

locale sound_decider =
  fixes E :: desk_env
    and K :: store_checks
    and D :: "'c decider"
    and good :: "ledger \<Rightarrow> bool"
    and others :: "ledger \<Rightarrow> event_row list option \<Rightarrow> bool"
    and fresh :: "ledger \<Rightarrow> 'c \<Rightarrow> bool"
  assumes checked: "sk_tables K l hist \<longleftrightarrow> good l \<and> others l hist"
    and sound: "dd_decide D l h c = Inr (evs, p) \<Longrightarrow> good l \<Longrightarrow> fresh l c \<Longrightarrow> good (apply_tables l p)"
    and header: "good l \<Longrightarrow> good (stamped l n at m tip qs)"
    and empty: "good (emptyLedger rb key t)"
begin

lemma base_good:
  assumes "baseLedger E K key cx env d = Some (l, h)"
  shows "good l"
  using assms by (auto simp: baseLedger_def readStore_ok checkRefinements_def checked empty split: store_read.splits)

lemma proposal_passes:
  assumes "headerOk E key l" and "good l" and "dd_decide D l h c = Inr (evs, p)" and "fresh l c"
    and "others (apply_tables l p) None"
  shows "checkRefinements E K key (apply_tables l p) None"
  using assms(1,5) sound [OF assms(3,2,4)] by (auto simp: checkRefinements_header headerOk_def checked repoBindingOk_def)

lemma candidate_stamped:
  "candidateLedger E D cx env l b dec = stamped (apply_tables l (outcomeTables dec)) (revision l + 1) (cx_at cx)
     (lastEventSeq l + length b) (tipSha256 (lastEventSha256 l) b) (requests (candidateLedger E D cx env l b dec))"
  by (simp add: candidateLedger_def stamped_def Let_def)

lemma candidate_passes:
  assumes "headerOk E key l" and "good l" and "dd_decide D l h (en_command env) = Inr (evs, p)" and "fresh l (en_command env)"
    and "priorRequest l env = None" and "others (candidateLedger E D cx env l b (Inr (evs, p))) hist'" and b: "b = buildEvents E t env (lastEventSeq l) (lastEventSha256 l) evs"
  shows "checkRefinements E K key (candidateLedger E D cx env l b (Inr (evs, p))) hist'"
proof -
  let ?c = "candidateLedger E D cx env l b (Inr (evs, p))"
  have "good (apply_tables l p)" by (rule sound [OF assms(3,2,4)])
  then have "good ?c" by (subst candidate_stamped) (simp add: header outcomeTables_def)
  moreover obtain q where q: "requests ?c = requests l @ [q]" "q_actorKey q = en_actorKey env" "q_assignmentId q = en_assignmentId env" "q_requestId q = en_requestId env"
    "q_eventSeqs q = map_option (\<lambda>s. (sg_first s, sg_last s)) (segmentOf b)"
    by (auto simp: candidateLedger_def Let_def requestRow_def)
  moreover have "requestKey q \<notin> requestKey ` set (requests l)"
    using assms(5) q(2-4) by (auto simp: priorRequest_def requestKey_def find_None_iff)
  moreover have "opt_ok (\<lambda>(first, last). last \<le> lastEventSeq ?c) (q_eventSeqs q)"
    by (simp add: q(5) b segmentOf_some)
  moreover have "tipSha256 (lastEventSha256 l) b = None \<longleftrightarrow> lastEventSha256 l = None \<and> evs = []"
    by (auto simp: tipSha256_def b last_opt_def)
  moreover have "opt_ok (\<lambda>(first, last). last \<le> lastEventSeq ?c) (q_eventSeqs x)"
    if "opt_ok (\<lambda>(first, last). last \<le> lastEventSeq l) (q_eventSeqs x)" for x
    using that by (cases "q_eventSeqs x") auto
  ultimately show ?thesis
    using assms(1,6) by (auto simp: checkRefinements_header headerOk_def checked repoBindingOk_def list_all_iff b)
qed

lemma verified_base:
  assumes "baseLedger E K key cx env d = Some (l, h)" and "repoKeyFor E (en_repo env) = key"
  shows "verifyChain E l (dk_segments d) = Some h" and "headerOk E key l"
  using assms
  by (auto simp: baseLedger_def readStore_ok checkRefinements_header headerOk_def repoKeyFor_empty verifyChain_def repoBindingOk_def
      split: store_read.splits)

lemma commit_planned:
  assumes b: "baseLedger E K key cx env d = Some (l, h)" and "dk_lock d = Lock_free" and "is_sha key"
    and "envelope_ok D env" and "repoKeyFor E (en_repo env) = key" and "repo l = en_repo env" and "priorRequest l env = None"
    and d: "dd_decide D l h (en_command env) = Inr (evs, p)" and f: "fresh l (en_command env)"
    and room: "commitRoom E K D cx env l evs p" and rest: "otherTablesPass others E D cx env l h evs p"
  shows "transactPlan E K key D cx env d =
    (let built = buildEvents E (cx_at cx) env (lastEventSeq l) (lastEventSha256 l) evs in
     Plan_write (segmentOf built) (candidateLedger E D cx env l built (Inr (evs, p)))
       (Inr \<lparr>rcp_receiptId = cx_receiptId cx, rcp_revision = revision l + 1, rcp_replayed = False,
          rcp_eventSeqs = map_option (\<lambda>s. (sg_first s, sg_last s)) (segmentOf built)\<rparr>))"
proof -
  have hist: "headerOk E key l" by (rule verified_base [OF b assms(5)])
  have chain: "verifyChain E l (dk_segments d) = Some h" by (rule verified_base [OF b assms(5)])
  have good: "good l" by (rule base_good [OF b])
  have decided: "commitOn E K key D cx env (dk_segments d) l = commitDecided E K key D cx env l h"
    by (simp add: commitOn_def assms(7) chain)
  have "transactPlan E K key D cx env d = commitOn E K key D cx env (dk_segments d) l"
    using b assms(2-6) by (auto simp: transactPlan_def commitPlan_def baseLedger_def split: store_read.splits)
  also have "\<dots> = (let built = buildEvents E (cx_at cx) env (lastEventSeq l) (lastEventSha256 l) evs in
     Plan_write (segmentOf built) (candidateLedger E D cx env l built (Inr (evs, p)))
       (Inr \<lparr>rcp_receiptId = cx_receiptId cx, rcp_revision = revision l + 1, rcp_replayed = False,
          rcp_eventSeqs = map_option (\<lambda>s. (sg_first s, sg_last s)) (segmentOf built)\<rparr>))"
    unfolding decided commitDecided_def Let_def d
    using room rest proposal_passes [OF hist good d f] candidate_passes [OF hist good d f assms(7) _ refl]
    by (simp add: commitRoom_def otherTablesPass_def Let_def outcomeEvents_def outcomeTables_def d)
  finally show ?thesis .
qed

end

lemma stamped_tables: "tablesOk E l \<Longrightarrow> tablesOk E (stamped l n at m tip qs)"
  by (rule same_tables) (simp_all add: stamped_def)

interpretation deskStore: sound_decider E "K\<lparr>sk_tables := (\<lambda>l hist. tablesOk E l \<and> others l hist)\<rparr>" "deskDecider E S" "tablesOk E"
    others "\<lambda>l c. commandFresh E l (snd c)"
  for E K S others
  by unfold_locales (auto simp: deskDecider_def empty_tables stamped_tables intro: accepted_keeps_tables)


definition mint_envelope :: "(json \<times> desk_command) envelope" where
  "mint_envelope = \<lparr>en_repo = toy_repo, en_actorKey = ''desk-seat'', en_assignmentId = ''desk-seat'', en_requestId = ''u1'',
     en_command = (JObj [], Desk_seat (Seat_mint demo_mint))\<rparr>"

definition mint_others :: "ledger \<Rightarrow> event_row list option \<Rightarrow> bool" where
  \<comment> \<open>a further check of the document: the history is as long as the tip says\<close>
  "mint_others l hist \<longleftrightarrow> opt_ok (\<lambda>h. length h = lastEventSeq l) hist"

definition mint_store :: store_checks where
  "mint_store = toy_checks\<lparr>sk_tables := (\<lambda>l hist. tablesOk toy_env l \<and> mint_others l hist)\<rparr>"

definition mint_decider :: "(json \<times> desk_command) decider" where
  "mint_decider = deskDecider toy_env mint_seams"

lemma mint_base: "baseLedger toy_env mint_store toy_key toy_stamp mint_envelope toy_disk = Some (mint_start, [])"
  by code_simp

lemma mint_room: "(case deskDecide toy_env mint_seams mint_start [] (Desk_seat (Seat_mint demo_mint)) of
    Inl e \<Rightarrow> False
  | Inr (evs, p) \<Rightarrow> commitRoom toy_env mint_store mint_decider toy_stamp mint_envelope mint_start evs p \<and>
      otherTablesPass mint_others toy_env mint_decider toy_stamp mint_envelope mint_start [] evs p)"
  by code_simp

lemma mint_guards: "is_sha toy_key" "envelope_ok mint_decider mint_envelope" "repoKeyFor toy_env (en_repo mint_envelope) = toy_key"
  "repo mint_start = en_repo mint_envelope" "priorRequest mint_start mint_envelope = None" "dk_lock toy_disk = Lock_free"
  by code_simp+


end
