(* ===== verification/Desk_Runner.thy ===== *)
theory Desk_Runner
  imports Desk_Run
begin

text \<open>
  The tool runners: what a desk tool call does around the store. Every runner reads the ledger,
  builds the command object and its envelope, transacts, reads the ledger again and answers from
  the committed row, found by the durable request key. \<open>deskRunner\<close> is that frame; a runner is the
  frame with its command object and its response.

  The result schemas the ownership and assignment runners parse their answers with are not
  modelled: they re-check bounds the row schemas already have.
\<close>

subsection \<open>The frame\<close>

record run_ctx =
  rx_repoKey :: string
  rx_row :: membership

definition ctxAgent :: "run_ctx \<Rightarrow> string" where
  \<comment> \<open>\<open>ctx.row.agentId as string\<close>: the bridge dispatches rows bound to an agent\<close>
  "ctxAgent ctx = actorAgent (rx_row ctx)"

type_synonym answer = "desk_error_code + json"

definition readLedger :: "desk_env \<Rightarrow> store_checks \<Rightarrow> string \<Rightarrow> store_disk \<Rightarrow> desk_error_code + ledger" where
  "readLedger E K key d = (case readStore E K key d of Read_ok l history \<Rightarrow> Inr l | _ \<Rightarrow> Inl STATE_UNREADABLE)"

definition runnerEnvelope :: "run_ctx \<Rightarrow> ledger \<Rightarrow> string \<Rightarrow> string \<Rightarrow> 'c \<Rightarrow> 'c envelope" where
  "runnerEnvelope ctx l aid rid c =
     \<lparr>en_repo = repo l, en_actorKey = ''agent:'' @ ctxAgent ctx, en_assignmentId = aid, en_requestId = rid, en_command = c\<rparr>"

definition answerAfter :: "desk_env \<Rightarrow> store_checks \<Rightarrow> string \<Rightarrow> (ledger \<Rightarrow> receipt \<Rightarrow> json option) \<Rightarrow> receipt \<Rightarrow> store_disk \<Rightarrow> answer" where
  \<comment> \<open>the response from the ledger read after the commit; a missing row is a capability gap\<close>
  "answerAfter E K key respond rcp d = (case readLedger E K key d of
       Inl e \<Rightarrow> Inl e
     | Inr after \<Rightarrow> (case respond after rcp of None \<Rightarrow> Inl CAPABILITY_GAP | Some j \<Rightarrow> Inr j))"

definition transactAnswer :: "desk_env \<Rightarrow> desk_seams \<Rightarrow> store_checks \<Rightarrow> string \<Rightarrow> commit_stamp \<Rightarrow> (json \<times> desk_command) envelope \<Rightarrow>
    (ledger \<Rightarrow> receipt \<Rightarrow> json option) \<Rightarrow> store_disk \<Rightarrow> answer option \<times> store_disk" where
  \<comment> \<open>the second half of every runner: transact, read again, answer from the committed row; the answer
    is \<open>None\<close> where the store throws\<close>
  "transactAnswer E S K key cx env respond d = (case transact E K key (deskDecider E S) cx env d of
       (None, d') \<Rightarrow> (None, d')
     | (Some (Inl e), d') \<Rightarrow> (Some (Inl e), d')
     | (Some (Inr rcp), d') \<Rightarrow> (Some (answerAfter E K key respond rcp d'), d'))"

definition deskRunner :: "desk_env \<Rightarrow> desk_seams \<Rightarrow> store_checks \<Rightarrow> commit_stamp \<Rightarrow> run_ctx \<Rightarrow> string \<Rightarrow> string \<Rightarrow>
    (ledger \<Rightarrow> json) \<Rightarrow> desk_command \<Rightarrow> (ledger \<Rightarrow> receipt \<Rightarrow> json option) \<Rightarrow> store_disk \<Rightarrow> answer option \<times> store_disk" where
  "deskRunner E S K cx ctx aid rid body cmd respond d = (case readLedger E K (rx_repoKey ctx) d of
       Inl e \<Rightarrow> (Some (Inl e), d)
     | Inr l \<Rightarrow> transactAnswer E S K (rx_repoKey ctx) cx (runnerEnvelope ctx l aid rid (body l, cmd)) respond d)"

type_synonym 'i runner = "desk_env \<Rightarrow> desk_seams \<Rightarrow> store_checks \<Rightarrow> commit_stamp \<Rightarrow> run_ctx \<Rightarrow> 'i \<Rightarrow> store_disk \<Rightarrow> answer option \<times> store_disk"

text \<open>
  A runner's input is the command it builds: the runner overwrites the acting agent with the
  caller's, whatever the input holds there.
\<close>

definition ok_answer :: "(string \<times> json) list \<Rightarrow> json" where
  "ok_answer fs = JObj ((''ok'', JBool True) # fs)"

fun assignment_state_name :: "assignment_state \<Rightarrow> string" where
  "assignment_state_name AS_open = ''open''"
| "assignment_state_name AS_closed = ''closed''"

fun opt_field :: "string \<Rightarrow> ('a \<Rightarrow> json) \<Rightarrow> 'a option \<Rightarrow> (string \<times> json) list" where
  \<comment> \<open>a field spread into the object only where it is supplied\<close>
  "opt_field k f None = []"
| "opt_field k f (Some x) = [(k, f x)]"

subsection \<open>Assignments and handbacks\<close>

definition assignmentRegisterResponse :: "run_ctx \<Rightarrow> register_command \<Rightarrow> ledger \<Rightarrow> receipt \<Rightarrow> json option" where
  "assignmentRegisterResponse ctx c after rcp = (case find (\<lambda>a. a_requestId a = gc_requestId c \<and> a_ownerAgentId a = ctxAgent ctx) (assignments after) of
        None \<Rightarrow> None
      | Some a \<Rightarrow> Some (ok_answer [(''receiptId'', JStr (rcp_receiptId rcp)),
          (''assignmentId'', JStr (a_assignmentId a)), (''state'', JStr (assignment_state_name (a_state a)))]))"

definition runAssignmentRegister :: "register_command runner" where
  "runAssignmentRegister E S K cx ctx c =
     deskRunner E S K cx ctx ''assignment-admin'' (gc_requestId c)
       (\<lambda>l. JObj [(''kind'', JStr ''assignment.register''), (''requestId'', JStr (gc_requestId c)),
          (''actorAgentId'', JStr (ctxAgent ctx)), (''authorityRef'', JStr (gc_authorityRef c)),
          (''objective'', json_opt JStr (gc_objective c))])
       (Desk_handback (Assignment_register (c\<lparr>gc_actorAgentId := ctxAgent ctx\<rparr>)))
       (assignmentRegisterResponse ctx c)"

definition assignmentAttachResponse :: "run_ctx \<Rightarrow> attach_command \<Rightarrow> ledger \<Rightarrow> receipt \<Rightarrow> json option" where
  "assignmentAttachResponse ctx c after rcp = (case findAssignment after (tc_assignmentId c) of
        None \<Rightarrow> None
      | Some a \<Rightarrow> (case find (\<lambda>s. seat_agentId s = tc_agentId c) (a_seats a) of
          None \<Rightarrow> None
        | Some s \<Rightarrow> Some (ok_answer [(''receiptId'', JStr (rcp_receiptId rcp)),
            (''assignmentId'', JStr (a_assignmentId a)), (''state'', JStr (assignment_state_name (a_state a))),
            (''seat'', JObj [(''agentId'', JStr (seat_agentId s)), (''membershipId'', JStr (seat_membershipId s))])])))"

definition runAssignmentAttach :: "attach_command runner" where
  "runAssignmentAttach E S K cx ctx c =
     deskRunner E S K cx ctx (tc_assignmentId c) (tc_requestId c)
       (\<lambda>l. JObj [(''kind'', JStr ''assignment.attach''), (''requestId'', JStr (tc_requestId c)),
          (''actorAgentId'', JStr (ctxAgent ctx)), (''assignmentId'', JStr (tc_assignmentId c)), (''agentId'', JStr (tc_agentId c))])
       (Desk_handback (Assignment_attach (c\<lparr>tc_actorAgentId := ctxAgent ctx\<rparr>)))
       (assignmentAttachResponse ctx c)"

definition assignmentCloseResponse :: "run_ctx \<Rightarrow> close_command \<Rightarrow> ledger \<Rightarrow> receipt \<Rightarrow> json option" where
  "assignmentCloseResponse ctx c after rcp = (case findAssignment after (cc_assignmentId c) of
        None \<Rightarrow> None
      | Some a \<Rightarrow> Some (ok_answer [(''receiptId'', JStr (rcp_receiptId rcp)),
          (''assignmentId'', JStr (a_assignmentId a)), (''state'', JStr (assignment_state_name (a_state a)))]))"

definition runAssignmentClose :: "close_command runner" where
  "runAssignmentClose E S K cx ctx c =
     deskRunner E S K cx ctx (cc_assignmentId c) (cc_requestId c)
       (\<lambda>l. JObj [(''kind'', JStr ''assignment.close''), (''requestId'', JStr (cc_requestId c)),
          (''actorAgentId'', JStr (ctxAgent ctx)), (''assignmentId'', JStr (cc_assignmentId c))])
       (Desk_handback (Assignment_close (c\<lparr>cc_actorAgentId := ctxAgent ctx\<rparr>)))
       (assignmentCloseResponse ctx c)"

subsection \<open>Ownership\<close>

definition requireLiveCaller :: "ledger \<Rightarrow> run_ctx \<Rightarrow> desk_error_code option" where
  \<comment> \<open>no receipt is answered to a membership that is no longer the live exact row\<close>
  "requireLiveCaller l ctx = (case m_agentId (rx_row ctx) of
       None \<Rightarrow> Some ACTOR_MISMATCH
     | Some agent \<Rightarrow> (case liveMembership l agent of
         None \<Rightarrow> Some STALE_EPOCH
       | Some live \<Rightarrow> if m_membershipId live \<noteq> m_membershipId (rx_row ctx) then Some STALE_EPOCH else None))"

definition guardedRunner :: "desk_env \<Rightarrow> desk_seams \<Rightarrow> store_checks \<Rightarrow> commit_stamp \<Rightarrow> run_ctx \<Rightarrow> string \<Rightarrow> string \<Rightarrow>
    (ledger \<Rightarrow> json) \<Rightarrow> desk_command \<Rightarrow> (ledger \<Rightarrow> receipt \<Rightarrow> json option) \<Rightarrow> store_disk \<Rightarrow> answer option \<times> store_disk" where
  \<comment> \<open>the frame behind the caller check\<close>
  "guardedRunner E S K cx ctx aid rid body cmd respond d = (case readLedger E K (rx_repoKey ctx) d of
       Inl e \<Rightarrow> (Some (Inl e), d)
     | Inr l \<Rightarrow> (case requireLiveCaller l ctx of
         Some e \<Rightarrow> (Some (Inl e), d)
       | None \<Rightarrow> deskRunner E S K cx ctx aid rid body cmd respond d))"

definition assignmentOfferResponse :: "run_ctx \<Rightarrow> offer_command \<Rightarrow> ledger \<Rightarrow> receipt \<Rightarrow> json option" where
  "assignmentOfferResponse ctx c after rcp = (case find (\<lambda>r. of_assignmentId r = oc_assignmentId c \<and> of_requestId r = oc_requestId c \<and>
          of_fromAgentId r = ctxAgent ctx) (ownershipOffers after) of
        None \<Rightarrow> None
      | Some r \<Rightarrow> Some (ok_answer [(''receiptId'', JStr (rcp_receiptId rcp)),
          (''assignmentId'', JStr (of_assignmentId r)), (''offerId'', JStr (of_offerId r)),
          (''ownershipRevision'', json_nat (of_ownershipRevision r))]))"

definition runAssignmentOffer :: "offer_command runner" where
  "runAssignmentOffer E S K cx ctx c =
     guardedRunner E S K cx ctx (oc_assignmentId c) (oc_requestId c)
       (\<lambda>l. JObj [(''kind'', JStr ''ownership.offer''), (''requestId'', JStr (oc_requestId c)), (''assignmentId'', JStr (oc_assignmentId c)),
          (''expectedOwnershipRevision'', json_nat (oc_expectedOwnershipRevision c)), (''targetAgentId'', JStr (oc_targetAgentId c)),
          (''targetMembershipId'', JStr (oc_targetMembershipId c)), (''authorityRef'', JStr (oc_authorityRef c)),
          (''contextRef'', JStr (oc_contextRef c)), (''actorAgentId'', JStr (ctxAgent ctx))])
       (Desk_ownership (Ownership_offer (c\<lparr>oc_actorAgentId := ctxAgent ctx\<rparr>)))
       (assignmentOfferResponse ctx c)"

definition assignmentAcceptResponse :: "run_ctx \<Rightarrow> accept_command \<Rightarrow> ledger \<Rightarrow> receipt \<Rightarrow> json option" where
  "assignmentAcceptResponse ctx c after rcp = (case find (\<lambda>r. ac_assignmentId r = xc_assignmentId c \<and> ac_requestId r = xc_requestId c \<and>
          ac_toAgentId r = ctxAgent ctx) (ownershipAccepts after) of
        None \<Rightarrow> None
      | Some r \<Rightarrow> Some (ok_answer [(''receiptId'', JStr (rcp_receiptId rcp)),
          (''assignmentId'', JStr (ac_assignmentId r)), (''offerId'', JStr (ac_offerId r)), (''acceptId'', JStr (ac_acceptId r)),
          (''ownershipRevision'', json_nat (ac_ownershipRevision r)), (''gaps'', json_strs (ac_gaps r))]))"

definition runAssignmentAccept :: "accept_command runner" where
  "runAssignmentAccept E S K cx ctx c =
     guardedRunner E S K cx ctx (xc_assignmentId c) (xc_requestId c)
       (\<lambda>l. JObj [(''kind'', JStr ''ownership.accept''), (''requestId'', JStr (xc_requestId c)), (''assignmentId'', JStr (xc_assignmentId c)),
          (''offerId'', JStr (xc_offerId c)), (''expectedOwnershipRevision'', json_nat (xc_expectedOwnershipRevision c)),
          (''expectedLedgerRevision'', json_nat (xc_expectedLedgerRevision c)),
          (''expectedBriefRevision'', json_nat (xc_expectedBriefRevision c)), (''acknowledgment'', JStr (xc_acknowledgment c)),
          (''settlementRef'', json_opt JStr (xc_settlementRef c)), (''resources'', JArr (map json_resource (xc_resources c))),
          (''actorAgentId'', JStr (ctxAgent ctx))])
       (Desk_ownership (Ownership_accept (c\<lparr>xc_actorAgentId := ctxAgent ctx\<rparr>)))
       (assignmentAcceptResponse ctx c)"

subsection \<open>Briefs and decisions\<close>

definition assignmentAmendResponse :: "run_ctx \<Rightarrow> amend_command \<Rightarrow> ledger \<Rightarrow> receipt \<Rightarrow> json option" where
  "assignmentAmendResponse ctx c after rcp = (case find (\<lambda>r. b_assignmentId r = am_assignmentId c \<and> b_requestId r = am_requestId c \<and>
          b_actorAgentId r = ctxAgent ctx) (briefRevisions after) of
        None \<Rightarrow> None
      | Some r \<Rightarrow> Some (ok_answer [(''assignmentId'', JStr (b_assignmentId r)), (''revision'', json_nat (b_revision r)),
          (''entrySha256'', JStr (b_entrySha256 r)), (''receiptId'', JStr (rcp_receiptId rcp))]))"

definition runAssignmentAmend :: "amend_command runner" where
  "runAssignmentAmend E S K cx ctx c =
     deskRunner E S K cx ctx (am_assignmentId c) (am_requestId c)
       (\<lambda>l. JObj [(''kind'', JStr ''assignment.amend''), (''requestId'', JStr (am_requestId c)), (''assignmentId'', JStr (am_assignmentId c)),
          (''expectedBriefRevision'', json_nat (am_expectedBriefRevision c)), (''brief'', json_brief (am_brief c)),
          (''changeReason'', JStr (am_changeReason c)), (''authorityRef'', JStr (am_authorityRef c)),
          (''affectedOwners'', json_strs (am_affectedOwners c)), (''actorAgentId'', JStr (ctxAgent ctx))])
       (Desk_assignment (Assignment_amend (c\<lparr>am_actorAgentId := ctxAgent ctx\<rparr>)))
       (assignmentAmendResponse ctx c)"

definition decisionAppendResponse :: "run_ctx \<Rightarrow> decision_command \<Rightarrow> ledger \<Rightarrow> receipt \<Rightarrow> json option" where
  "decisionAppendResponse ctx c after rcp = (case find (\<lambda>r. d_assignmentId r = dd_assignmentId c \<and> d_requestId r = dd_requestId c \<and>
          d_actorAgentId r = ctxAgent ctx) (decisionEntries after) of
        None \<Rightarrow> None
      | Some r \<Rightarrow> Some (ok_answer [(''assignmentId'', JStr (d_assignmentId r)), (''decisionId'', JStr (d_decisionId r)),
          (''revision'', json_nat (d_revision r)), (''entrySha256'', JStr (d_entrySha256 r)), (''receiptId'', JStr (rcp_receiptId rcp))]))"

definition runDecisionAppend :: "decision_command runner" where
  "runDecisionAppend E S K cx ctx c =
     deskRunner E S K cx ctx (dd_assignmentId c) (dd_requestId c)
       (\<lambda>l. JObj [(''kind'', JStr ''decision.append''), (''requestId'', JStr (dd_requestId c)), (''assignmentId'', JStr (dd_assignmentId c)),
          (''expectedBriefRevision'', json_nat (dd_expectedBriefRevision c)), (''authorityRef'', JStr (dd_authorityRef c)),
          (''decision'', json_decision (dd_decision c)), (''actorAgentId'', JStr (ctxAgent ctx))])
       (Desk_assignment (Decision_append (c\<lparr>dd_actorAgentId := ctxAgent ctx\<rparr>)))
       (decisionAppendResponse ctx c)"

subsection \<open>Scopes\<close>

definition scopeDeclareFields :: "run_ctx \<Rightarrow> scope_declare_command \<Rightarrow> (string \<times> json) list" where
  "scopeDeclareFields ctx c =
     [(''kind'', JStr ''scope.declare''), (''requestId'', JStr (sd_requestId c)), (''actorAgentId'', JStr (ctxAgent ctx)),
      (''assignmentId'', JStr (sd_assignmentId c)), (''scopeId'', JStr (sd_scopeId c)), (''label'', JStr (sd_label c)),
      (''declarationSha256'', JStr (sd_declarationSha256 c)), (''refs'', json_strs (sd_refs c)),
      (''seatAgentId'', json_opt JStr (sd_seatAgentId c))] @
     opt_field ''expectedBriefRevision'' json_nat (sd_expectedBriefRevision c) @
     [(''ownership'', json_opt json_ownership (sd_ownership c))]"

definition scopeDeclareBody :: "desk_env \<Rightarrow> run_ctx \<Rightarrow> scope_declare_command \<Rightarrow> ledger \<Rightarrow> json" where
  \<comment> \<open>a request recorded by a historical runner keeps its bytes: omission was normalised to null before hashing\<close>
  "scopeDeclareBody E ctx c l =
     (let shared = scopeDeclareFields ctx c;
          marked = JObj (shared @ opt_field ''reviewPlan'' (json_opt json_plan) (sd_reviewPlan c) @
            [(''reviewPlanInput'', JStr (if sd_reviewPlan c = None then ''omitted'' else ''explicit''))]);
          legacy = JObj (shared @ [(''reviewPlan'', json_opt json_plan (Option.bind (sd_reviewPlan c) id))]) in
      case find (\<lambda>q. q_actorKey q = ''agent:'' @ ctxAgent ctx \<and> q_assignmentId q = sd_assignmentId c \<and>
          q_requestId q = sd_requestId c) (requests l) of
        None \<Rightarrow> marked
      | Some q \<Rightarrow> if q_bodySha256 q = canonical_sha256 E (JObj [(''repo'', json_repo (repo l)), (''command'', legacy)])
          then legacy else marked)"

definition scopeDeclareResponse :: "run_ctx \<Rightarrow> scope_declare_command \<Rightarrow> ledger \<Rightarrow> receipt \<Rightarrow> json option" where
  "scopeDeclareResponse ctx c after rcp = (case find (\<lambda>r. sc_requestId r = sd_requestId c \<and> sc_assignmentId r = sd_assignmentId c \<and>
          sc_ownerAgentId r = ctxAgent ctx) (scopes after) of
        None \<Rightarrow> None
      | Some r \<Rightarrow> Some (ok_answer [(''scopeId'', JStr (sc_scopeId r)), (''revision'', json_nat (sc_revision r)),
          (''receiptId'', JStr (rcp_receiptId rcp))]))"

definition runScopeDeclare :: "scope_declare_command runner" where
  "runScopeDeclare E S K cx ctx c =
     deskRunner E S K cx ctx (sd_assignmentId c) (sd_requestId c) (scopeDeclareBody E ctx c)
       (Desk_scope (Scope_declare (c\<lparr>sd_actorAgentId := ctxAgent ctx\<rparr>)))
       (scopeDeclareResponse ctx c)"

definition scopeTransitionResponse :: "run_ctx \<Rightarrow> scope_transition_command \<Rightarrow> ledger \<Rightarrow> receipt \<Rightarrow> json option" where
  "scopeTransitionResponse ctx c after rcp = (case find (\<lambda>r. tr_requestId r = st_requestId c \<and> tr_assignmentId r = st_assignmentId c \<and>
          tr_actorAgentId r = ctxAgent ctx) (scopeTransitions after) of
        None \<Rightarrow> None
      | Some r \<Rightarrow> Some (ok_answer [(''transitionId'', JStr (tr_transitionId r)), (''scopeId'', JStr (tr_scopeId r)),
          (''revision'', json_nat (tr_revision r)), (''state'', JStr (scope_state_name (tr_to r))),
          (''receiptId'', JStr (rcp_receiptId rcp)), (''discharged'', JArr (map json_discharge (tr_discharged r)))]))"

definition runScopeTransition :: "scope_transition_command runner" where
  "runScopeTransition E S K cx ctx c =
     deskRunner E S K cx ctx (st_assignmentId c) (st_requestId c)
       (\<lambda>l. JObj ([(''kind'', JStr ''scope.transition''), (''requestId'', JStr (st_requestId c)), (''actorAgentId'', JStr (ctxAgent ctx)),
          (''assignmentId'', JStr (st_assignmentId c)), (''scopeId'', JStr (st_scopeId c)),
          (''transition'', JStr (scope_command_name (st_transition c))), (''scopeRevision'', json_nat (st_scopeRevision c)),
          (''candidateSnapshot'', json_opt JStr (st_candidateSnapshot c)), (''candidateHead'', json_opt JStr (st_candidateHead c))] @
          opt_field ''briefRevision'' json_nat (st_briefRevision c)))
       (Desk_scope (Scope_transition (c\<lparr>st_actorAgentId := ctxAgent ctx\<rparr>)))
       (scopeTransitionResponse ctx c)"

definition scopeReviewResponse :: "run_ctx \<Rightarrow> scope_review_command \<Rightarrow> ledger \<Rightarrow> receipt \<Rightarrow> json option" where
  "scopeReviewResponse ctx c after rcp = (case find (\<lambda>r. rv_requestId r = sv_requestId c \<and> rv_assignmentId r = sv_assignmentId c \<and>
          rv_reviewerAgentId r = ctxAgent ctx) (scopeReviews after) of
        None \<Rightarrow> None
      | Some r \<Rightarrow> Some (ok_answer [(''reviewId'', JStr (rv_reviewId r)), (''scopeId'', JStr (rv_scopeId r)),
          (''axis'', json_opt (\<lambda>a. JStr (axis_name a)) (rv_axis r)), (''lensId'', json_opt JStr (rv_lensId r)),
          (''revision'', json_nat (rv_revision r)), (''receiptId'', JStr (rcp_receiptId rcp))]))"

definition runScopeReview :: "scope_review_command runner" where
  "runScopeReview E S K cx ctx c =
     deskRunner E S K cx ctx (sv_assignmentId c) (sv_requestId c)
       (\<lambda>l. JObj ([(''kind'', JStr ''scope.review''), (''requestId'', JStr (sv_requestId c)), (''actorAgentId'', JStr (ctxAgent ctx)),
          (''assignmentId'', JStr (sv_assignmentId c)), (''scopeId'', JStr (sv_scopeId c)), (''scopeRevision'', json_nat (sv_scopeRevision c)),
          (''candidateSnapshot'', JStr (sv_candidateSnapshot c))] @
          opt_field ''axis'' (\<lambda>a. JStr (axis_name a)) (sv_axis c) @ opt_field ''lensId'' JStr (sv_lensId c) @
          opt_field ''briefRevision'' json_nat (sv_briefRevision c) @
          [(''verdict'', JStr (verdict_name (sv_verdict c))), (''findingsRef'', json_opt JStr (sv_findingsRef c))]))
       (Desk_scope (Scope_review (c\<lparr>sv_actorAgentId := ctxAgent ctx\<rparr>)))
       (scopeReviewResponse ctx c)"

end
