(* ===== verification/Desk_Runner_Settle.thy ===== *)
theory Desk_Runner_Settle
  imports Desk_Runner
begin

text \<open>
  The runners of rollouts, settlements and check definitions, and the read-only settlement export.
\<close>

subsection \<open>Rollouts\<close>

definition rolloutDeclareResponse :: "run_ctx \<Rightarrow> rollout_declare_command \<Rightarrow> ledger \<Rightarrow> receipt \<Rightarrow> json option" where
  "rolloutDeclareResponse ctx c after rcp = (case find (\<lambda>r. ro_requestId r = rdc_requestId c \<and> ro_assignmentId r = rdc_assignmentId c \<and>
          ro_ownerAgentId r = ctxAgent ctx) (rollouts after) of
        None \<Rightarrow> None
      | Some r \<Rightarrow> Some (ok_answer [(''rolloutId'', JStr (ro_rolloutId r)), (''revision'', json_nat (ro_revision r)),
          (''receiptId'', JStr (rcp_receiptId rcp))]))"

definition runRolloutDeclare :: "rollout_declare_command runner" where
  "runRolloutDeclare E S K cx ctx c =
     deskRunner E S K cx ctx (rdc_assignmentId c) (rdc_requestId c)
       (\<lambda>l. JObj [(''kind'', JStr ''rollout.declare''), (''requestId'', JStr (rdc_requestId c)), (''actorAgentId'', JStr (ctxAgent ctx)),
          (''assignmentId'', JStr (rdc_assignmentId c)), (''scopeId'', JStr (rdc_scopeId c)), (''rolloutId'', JStr (rdc_rolloutId c)),
          (''label'', JStr (rdc_label c)), (''declarationSha256'', JStr (rdc_declarationSha256 c)),
          (''candidateSnapshot'', JStr (rdc_candidateSnapshot c)), (''candidateHead'', json_opt JStr (rdc_candidateHead c)),
          (''requiredChecks'', JArr (map (\<lambda>q. JObj [(''checkId'', JStr (rq_checkId q)), (''definitionDigest'', JStr (rq_definitionDigest q))])
             (rdc_requiredChecks c))),
          (''refs'', json_strs (rdc_refs c))])
       (Desk_rollout (Rollout_declare (c\<lparr>rdc_actorAgentId := ctxAgent ctx\<rparr>)))
       (rolloutDeclareResponse ctx c)"

definition rolloutTransitionResponse :: "run_ctx \<Rightarrow> rollout_transition_command \<Rightarrow> ledger \<Rightarrow> receipt \<Rightarrow> json option" where
  "rolloutTransitionResponse ctx c after rcp = (case find (\<lambda>r. rt_requestId r = rtc_requestId c \<and> rt_assignmentId r = rtc_assignmentId c \<and>
          rt_actorAgentId r = ctxAgent ctx) (rolloutTransitions after) of
        None \<Rightarrow> None
      | Some r \<Rightarrow> Some (ok_answer [(''transitionId'', JStr (rt_transitionId r)), (''rolloutId'', JStr (rt_rolloutId r)),
          (''revision'', json_nat (rt_revision r)), (''state'', JStr (rollout_state_name (rt_to r))),
          (''receiptId'', JStr (rcp_receiptId rcp)),
          (''dischargedChecks'', JArr (map (\<lambda>d. JObj [(''checkId'', JStr (dc_checkId d)), (''runId'', JStr (dc_runId d))]) (rt_dischargedChecks r))),
          (''dischargedReviews'', JArr (map json_discharge (rt_dischargedReviews r)))]))"

definition runRolloutTransition :: "rollout_transition_command runner" where
  "runRolloutTransition E S K cx ctx c =
     deskRunner E S K cx ctx (rtc_assignmentId c) (rtc_requestId c)
       (\<lambda>l. JObj [(''kind'', JStr ''rollout.transition''), (''requestId'', JStr (rtc_requestId c)), (''actorAgentId'', JStr (ctxAgent ctx)),
          (''assignmentId'', JStr (rtc_assignmentId c)), (''rolloutId'', JStr (rtc_rolloutId c)),
          (''transition'', JStr (rollout_command_name (rtc_transition c))), (''rolloutRevision'', json_nat (rtc_rolloutRevision c)),
          (''targetSnapshot'', json_opt JStr (rtc_targetSnapshot c)), (''evidenceRefs'', json_strs (rtc_evidenceRefs c))])
       (Desk_rollout (Rollout_transition (c\<lparr>rtc_actorAgentId := ctxAgent ctx\<rparr>)))
       (rolloutTransitionResponse ctx c)"

subsection \<open>Check definitions\<close>

definition checkDeclareResponse :: "run_ctx \<Rightarrow> check_declare_command \<Rightarrow> ledger \<Rightarrow> receipt \<Rightarrow> json option" where
  "checkDeclareResponse ctx c after rcp = (case find (\<lambda>r. cd_requestId r = kd_requestId c \<and> cd_assignmentId r = kd_assignmentId c \<and>
          cd_ownerAgentId r = ctxAgent ctx) (checkDefinitions after) of
        None \<Rightarrow> None
      | Some r \<Rightarrow> Some (ok_answer [(''checkId'', JStr (cd_checkId r)), (''revision'', json_nat (cd_revision r)),
          (''receiptId'', JStr (rcp_receiptId rcp))]))"

definition runCheckDeclare :: "check_declare_command runner" where
  "runCheckDeclare E S K cx ctx c =
     deskRunner E S K cx ctx (kd_assignmentId c) (kd_requestId c)
       (\<lambda>l. JObj [(''kind'', JStr ''check.declare''), (''requestId'', JStr (kd_requestId c)), (''actorAgentId'', JStr (ctxAgent ctx)),
          (''assignmentId'', JStr (kd_assignmentId c)), (''scopeId'', JStr (kd_scopeId c)), (''checkId'', JStr (kd_checkId c)),
          (''checkClass'', JStr (check_class_name (kd_checkClass c))), (''label'', JStr (kd_label c)),
          (''definitionSha256'', JStr (kd_definitionSha256 c)),
          (''limits'', JObj [(''timeoutMs'', json_nat (cl_timeoutMs (kd_limits c))), (''maxOutputBytes'', json_nat (cl_maxOutputBytes (kd_limits c))),
             (''maxRetries'', json_nat (cl_maxRetries (kd_limits c)))]),
          (''requiredEvidence'', json_strs (kd_requiredEvidence c)), (''refs'', json_strs (kd_refs c))])
       (Desk_check (Check_declare (c\<lparr>kd_actorAgentId := ctxAgent ctx\<rparr>)))
       (checkDeclareResponse ctx c)"

subsection \<open>Settlements\<close>

fun export_status_name :: "export_status \<Rightarrow> string" where
  "export_status_name XS_verified = ''verified''"
| "export_status_name XS_absent = ''absent''"
| "export_status_name XS_outside_root = ''outside-root''"
| "export_status_name XS_mismatch = ''mismatch''"
| "export_status_name XS_unavailable = ''unavailable''"

definition json_timeline :: "settlement_timeline \<Rightarrow> json" where
  "json_timeline t = JObj
     [(''nativeHandle'', json_opt JStr (tl_nativeHandle t)), (''sessionId'', json_opt JStr (tl_sessionId t)), (''via'', JStr (via_name (tl_via t))),
      (''export'', json_opt (\<lambda>x. JObj [(''path'', JStr (se_path x)), (''sha256'', JStr (se_sha256 x)), (''bytes'', json_nat (se_bytes x))]) (tl_export t)),
      (''gap'', json_opt JStr (tl_gap t))]"

definition settlementBody :: "run_ctx \<Rightarrow> settlement_command \<Rightarrow> json" where
  "settlementBody ctx c = JObj
     [(''kind'', JStr ''settlement.record''), (''requestId'', JStr (stc_requestId c)), (''actorAgentId'', JStr (ctxAgent ctx)),
      (''assignmentId'', JStr (stc_assignmentId c)), (''seatAgentId'', JStr (stc_seatAgentId c)), (''seatTitle'', JStr (stc_seatTitle c)),
      (''at'', JStr (stc_at c)), (''deliveryRef'', json_opt JStr (stc_deliveryRef c)),
      (''reworkClosureRef'', json_opt JStr (stc_reworkClosureRef c)), (''sinkRef'', json_opt JStr (stc_sinkRef c)),
      (''decisionRef'', json_opt JStr (stc_decisionRef c)), (''handbackRefs'', json_strs (stc_handbackRefs c)),
      (''candidateRefs'', json_strs (stc_candidateRefs c)), (''resources'', JArr (map json_resource (stc_resources c))),
      (''timeline'', json_timeline (stc_timeline c)),
      (''exportVerification'', json_opt (\<lambda>v. JObj [(''status'', JStr (export_status_name (xv_status v))), (''detail'', json_opt JStr (xv_detail v))])
         (stc_exportVerification c))]"

fun json_verification :: "export_verification \<Rightarrow> json" where
  "json_verification (EV_verified detail) = JObj [(''status'', JStr ''verified''), (''detail'', json_opt JStr detail)]"
| "json_verification (EV_unavailable detail) = JObj [(''status'', JStr ''unavailable''), (''detail'', json_opt JStr detail)]"

definition settlementRecordResponse :: "run_ctx \<Rightarrow> settlement_command \<Rightarrow> ledger \<Rightarrow> receipt \<Rightarrow> json option" where
  "settlementRecordResponse ctx c after rcp = (case find (\<lambda>s. s_requestId s = stc_requestId c \<and> s_assignmentId s = stc_assignmentId c \<and>
          s_ownerAgentId s = ctxAgent ctx) (settlements after) of
        None \<Rightarrow> None
      | Some s \<Rightarrow> Some (ok_answer [(''settlementId'', JStr (s_settlementId s)), (''revision'', json_nat (s_revision s)),
          (''receiptId'', JStr (rcp_receiptId rcp)), (''status'', JStr (settlement_status_name (s_status s))),
          (''gaps'', json_strs (s_gaps s)), (''exportVerification'', json_opt json_verification (s_exportVerification s))]))"

definition runSettlementRecord :: "(settlement_export \<Rightarrow> repo_binding \<Rightarrow> export_verdict) \<Rightarrow> settlement_command runner" where
  \<comment> \<open>the artifact seam's verdict rides the command, so a replay stays bound to the verdict it committed under\<close>
  "runSettlementRecord verifyExport E S K cx ctx c0 d = (case readLedger E K (rx_repoKey ctx) d of
       Inl e \<Rightarrow> (Some (Inl e), d)
     | Inr l \<Rightarrow>
        (let c = c0\<lparr>stc_exportVerification := map_option (\<lambda>x. verifyExport x (repo l)) (tl_export (stc_timeline c0)),
               stc_actorAgentId := ctxAgent ctx\<rparr> in
         deskRunner E S K cx ctx (stc_assignmentId c) (stc_requestId c) (\<lambda>l. settlementBody ctx c) (Desk_settlement c)
           (settlementRecordResponse ctx c)
           d))"

definition exportParty :: "ledger \<Rightarrow> membership \<Rightarrow> settlement \<Rightarrow> bool" where
  \<comment> \<open>an ownership participant of the assignment or the settled seat\<close>
  "exportParty l row s \<longleftrightarrow>
     (case findAssignment l (s_assignmentId s) of
        None \<Rightarrow> False
      | Some a \<Rightarrow> (case deskWorkflowParticipant l row a of None \<Rightarrow> False | Some p \<Rightarrow> p \<noteq> P_attached_seat)) \<or>
     m_agentId row = Some (s_seatAgentId s)"

definition settlementExport :: "desk_env \<Rightarrow> host_env \<Rightarrow> ledger \<Rightarrow> membership \<Rightarrow> string \<Rightarrow> desk_error_code + (settlement \<times> json)" where
  \<comment> \<open>the row and the record derived from it, validated again before it leaves\<close>
  "settlementExport E H l row sid = (case find (\<lambda>s. s_settlementId s = sid) (settlements l) of
       None \<Rightarrow> Inl AUTHORITY_REQUIRED
     | Some s \<Rightarrow>
         if \<not> exportParty l row s then Inl AUTHORITY_REQUIRED
         else if \<not> record_valid (validateReportRecordV1 E (desk_options H) (buildSettlementRecord s)) then Inl CAPABILITY_GAP
         else Inr (s, buildSettlementRecord s))"

definition runSettlementExport :: "desk_env \<Rightarrow> host_env \<Rightarrow> store_checks \<Rightarrow> run_ctx \<Rightarrow> string \<Rightarrow> store_disk \<Rightarrow> answer" where
  "runSettlementExport E H K ctx sid d = (case readLedger E K (rx_repoKey ctx) d of
       Inl e \<Rightarrow> Inl e
     | Inr l \<Rightarrow> (case settlementExport E H l (rx_row ctx) sid of
         Inl e \<Rightarrow> Inl e
       | Inr (s, record_json) \<Rightarrow> Inr (ok_answer [(''settlementId'', JStr (s_settlementId s)), (''assignmentId'', JStr (s_assignmentId s)),
           (''seatAgentId'', JStr (s_seatAgentId s)), (''revision'', json_nat (s_revision s)),
           (''status'', JStr (settlement_status_name (s_status s))), (''gaps'', json_strs (s_gaps s)), (''record'', record_json),
           (''exportVerification'', json_opt json_verification (s_exportVerification s))])))"

end
