(* ===== verification/Desk_Runner_Answers.thy ===== *)
theory Desk_Runner_Answers
  imports Desk_Runner_Settle Desk_Store_Safety
begin

text \<open>
  The runners answer what they committed: after a commit the row a runner looks up is there, so the
  capability-gap answer the code keeps for a row that is not readable is never given.
\<close>

subsection \<open>Tool calls\<close>

datatype tool_call =
    Tool_assignment_register register_command
  | Tool_assignment_attach attach_command
  | Tool_assignment_close close_command
  | Tool_assignment_offer offer_command
  | Tool_assignment_accept accept_command
  | Tool_assignment_amend amend_command
  | Tool_decision_append decision_command
  | Tool_scope_declare scope_declare_command
  | Tool_scope_transition scope_transition_command
  | Tool_scope_review scope_review_command
  | Tool_rollout_declare rollout_declare_command
  | Tool_rollout_transition rollout_transition_command
  | Tool_check_declare check_declare_command
  | Tool_settlement_record settlement_command

fun runTool :: "(settlement_export \<Rightarrow> repo_binding \<Rightarrow> export_verdict) \<Rightarrow> tool_call runner" where
  "runTool v E S K cx ctx (Tool_assignment_register c) = runAssignmentRegister E S K cx ctx c"
| "runTool v E S K cx ctx (Tool_assignment_attach c) = runAssignmentAttach E S K cx ctx c"
| "runTool v E S K cx ctx (Tool_assignment_close c) = runAssignmentClose E S K cx ctx c"
| "runTool v E S K cx ctx (Tool_assignment_offer c) = runAssignmentOffer E S K cx ctx c"
| "runTool v E S K cx ctx (Tool_assignment_accept c) = runAssignmentAccept E S K cx ctx c"
| "runTool v E S K cx ctx (Tool_assignment_amend c) = runAssignmentAmend E S K cx ctx c"
| "runTool v E S K cx ctx (Tool_decision_append c) = runDecisionAppend E S K cx ctx c"
| "runTool v E S K cx ctx (Tool_scope_declare c) = runScopeDeclare E S K cx ctx c"
| "runTool v E S K cx ctx (Tool_scope_transition c) = runScopeTransition E S K cx ctx c"
| "runTool v E S K cx ctx (Tool_scope_review c) = runScopeReview E S K cx ctx c"
| "runTool v E S K cx ctx (Tool_rollout_declare c) = runRolloutDeclare E S K cx ctx c"
| "runTool v E S K cx ctx (Tool_rollout_transition c) = runRolloutTransition E S K cx ctx c"
| "runTool v E S K cx ctx (Tool_check_declare c) = runCheckDeclare E S K cx ctx c"
| "runTool v E S K cx ctx (Tool_settlement_record c) = runSettlementRecord v E S K cx ctx c"

subsection \<open>What an answer has to say\<close>

text \<open>
  The answer of a call, from the row the call appended and its receipt. Attaching a seat that is
  already attached and closing a closed assignment append nothing; their answer is the assignment
  as it stands.
\<close>

fun builtFrom :: "run_ctx \<Rightarrow> tool_call \<Rightarrow> ledger \<Rightarrow> ledger \<Rightarrow> string \<Rightarrow> json \<Rightarrow> bool" where
  "builtFrom ctx (Tool_assignment_register c) l l' rid j \<longleftrightarrow> (\<exists>a. assignments l' = assignments l @ [a] \<and>
     a_ownerAgentId a = ctxAgent ctx \<and> a_requestId a = gc_requestId c \<and>
     j = ok_answer [(''receiptId'', JStr rid), (''assignmentId'', JStr (a_assignmentId a)), (''state'', JStr (assignment_state_name (a_state a)))])"
| "builtFrom ctx (Tool_assignment_attach c) l l' rid j \<longleftrightarrow> (\<exists>a s. findAssignment l' (tc_assignmentId c) = Some a \<and>
     s \<in> set (a_seats a) \<and> seat_agentId s = tc_agentId c \<and>
     j = ok_answer [(''receiptId'', JStr rid), (''assignmentId'', JStr (tc_assignmentId c)), (''state'', JStr (assignment_state_name (a_state a))),
       (''seat'', JObj [(''agentId'', JStr (tc_agentId c)), (''membershipId'', JStr (seat_membershipId s))])])"
| "builtFrom ctx (Tool_assignment_close c) l l' rid j \<longleftrightarrow> (\<exists>a. findAssignment l' (cc_assignmentId c) = Some a \<and> a_state a = AS_closed \<and>
     j = ok_answer [(''receiptId'', JStr rid), (''assignmentId'', JStr (cc_assignmentId c)), (''state'', JStr ''closed'')])"
| "builtFrom ctx (Tool_assignment_offer c) l l' rid j \<longleftrightarrow> (\<exists>r. ownershipOffers l' = ownershipOffers l @ [r] \<and>
     of_fromAgentId r = ctxAgent ctx \<and> of_requestId r = oc_requestId c \<and>
     j = ok_answer [(''receiptId'', JStr rid), (''assignmentId'', JStr (oc_assignmentId c)), (''offerId'', JStr (of_offerId r)),
       (''ownershipRevision'', json_nat (of_ownershipRevision r))])"
| "builtFrom ctx (Tool_assignment_accept c) l l' rid j \<longleftrightarrow> (\<exists>r. ownershipAccepts l' = ownershipAccepts l @ [r] \<and>
     ac_toAgentId r = ctxAgent ctx \<and> ac_requestId r = xc_requestId c \<and>
     j = ok_answer [(''receiptId'', JStr rid), (''assignmentId'', JStr (xc_assignmentId c)), (''offerId'', JStr (ac_offerId r)),
       (''acceptId'', JStr (ac_acceptId r)), (''ownershipRevision'', json_nat (ac_ownershipRevision r)), (''gaps'', json_strs (ac_gaps r))])"
| "builtFrom ctx (Tool_assignment_amend c) l l' rid j \<longleftrightarrow> (\<exists>r. briefRevisions l' = briefRevisions l @ [r] \<and>
     b_actorAgentId r = ctxAgent ctx \<and> b_requestId r = am_requestId c \<and>
     j = ok_answer [(''assignmentId'', JStr (am_assignmentId c)), (''revision'', json_nat (b_revision r)),
       (''entrySha256'', JStr (b_entrySha256 r)), (''receiptId'', JStr rid)])"
| "builtFrom ctx (Tool_decision_append c) l l' rid j \<longleftrightarrow> (\<exists>r. decisionEntries l' = decisionEntries l @ [r] \<and>
     d_actorAgentId r = ctxAgent ctx \<and> d_requestId r = dd_requestId c \<and>
     j = ok_answer [(''assignmentId'', JStr (dd_assignmentId c)), (''decisionId'', JStr (d_decisionId r)),
       (''revision'', json_nat (d_revision r)), (''entrySha256'', JStr (d_entrySha256 r)), (''receiptId'', JStr rid)])"
| "builtFrom ctx (Tool_scope_declare c) l l' rid j \<longleftrightarrow> (\<exists>r. scopes l' = scopes l @ [r] \<and>
     sc_ownerAgentId r = ctxAgent ctx \<and> sc_requestId r = sd_requestId c \<and> sc_assignmentId r = sd_assignmentId c \<and>
     j = ok_answer [(''scopeId'', JStr (sd_scopeId c)), (''revision'', json_nat (sc_revision r)), (''receiptId'', JStr rid)])"
| "builtFrom ctx (Tool_scope_transition c) l l' rid j \<longleftrightarrow> (\<exists>r. scopeTransitions l' = scopeTransitions l @ [r] \<and>
     tr_actorAgentId r = ctxAgent ctx \<and> tr_requestId r = st_requestId c \<and> tr_assignmentId r = st_assignmentId c \<and>
     tr_command r = Row_command (st_transition c) \<and>
     j = ok_answer [(''transitionId'', JStr (tr_transitionId r)), (''scopeId'', JStr (st_scopeId c)), (''revision'', json_nat (tr_revision r)),
       (''state'', JStr (scope_state_name (tr_to r))), (''receiptId'', JStr rid), (''discharged'', JArr (map json_discharge (tr_discharged r)))])"
| "builtFrom ctx (Tool_scope_review c) l l' rid j \<longleftrightarrow> (\<exists>r. scopeReviews l' = scopeReviews l @ [r] \<and>
     rv_reviewerAgentId r = ctxAgent ctx \<and> rv_requestId r = sv_requestId c \<and> rv_assignmentId r = sv_assignmentId c \<and>
     j = ok_answer [(''reviewId'', JStr (rv_reviewId r)), (''scopeId'', JStr (sv_scopeId c)), (''axis'', json_opt (\<lambda>a. JStr (axis_name a)) (rv_axis r)),
       (''lensId'', json_opt JStr (rv_lensId r)), (''revision'', json_nat (rv_revision r)), (''receiptId'', JStr rid)])"
| "builtFrom ctx (Tool_rollout_declare c) l l' rid j \<longleftrightarrow> (\<exists>r. rollouts l' = rollouts l @ [r] \<and>
     ro_ownerAgentId r = ctxAgent ctx \<and> ro_requestId r = rdc_requestId c \<and> ro_assignmentId r = rdc_assignmentId c \<and>
     j = ok_answer [(''rolloutId'', JStr (rdc_rolloutId c)), (''revision'', json_nat (ro_revision r)), (''receiptId'', JStr rid)])"
| "builtFrom ctx (Tool_rollout_transition c) l l' rid j \<longleftrightarrow> (\<exists>r. rolloutTransitions l' = rolloutTransitions l @ [r] \<and>
     rt_actorAgentId r = ctxAgent ctx \<and> rt_requestId r = rtc_requestId c \<and> rt_assignmentId r = rtc_assignmentId c \<and>
     j = ok_answer [(''transitionId'', JStr (rt_transitionId r)), (''rolloutId'', JStr (rtc_rolloutId c)), (''revision'', json_nat (rt_revision r)),
       (''state'', JStr (rollout_state_name (rt_to r))), (''receiptId'', JStr rid),
       (''dischargedChecks'', JArr (map (\<lambda>d. JObj [(''checkId'', JStr (dc_checkId d)), (''runId'', JStr (dc_runId d))]) (rt_dischargedChecks r))),
       (''dischargedReviews'', JArr (map json_discharge (rt_dischargedReviews r)))])"
| "builtFrom ctx (Tool_check_declare c) l l' rid j \<longleftrightarrow> (\<exists>r. checkDefinitions l' = checkDefinitions l @ [r] \<and>
     cd_ownerAgentId r = ctxAgent ctx \<and> cd_requestId r = kd_requestId c \<and> cd_assignmentId r = kd_assignmentId c \<and>
     j = ok_answer [(''checkId'', JStr (kd_checkId c)), (''revision'', json_nat (cd_revision r)), (''receiptId'', JStr rid)])"
| "builtFrom ctx (Tool_settlement_record c) l l' rid j \<longleftrightarrow> (\<exists>s. settlements l' = settlements l @ [s] \<and>
     s_ownerAgentId s = ctxAgent ctx \<and> s_requestId s = stc_requestId c \<and> s_assignmentId s = stc_assignmentId c \<and>
     j = ok_answer [(''settlementId'', JStr (s_settlementId s)), (''revision'', json_nat (s_revision s)), (''receiptId'', JStr rid),
       (''status'', JStr (settlement_status_name (s_status s))), (''gaps'', json_strs (s_gaps s)),
       (''exportVerification'', json_opt json_verification (s_exportVerification s))])"

text \<open>
  No row of the tool's table carries the request key yet. The store keeps each table's request keys
  unique and answers a request it has recorded before deciding, so a call that is decided finds the
  key free.
\<close>

fun keyFree :: "run_ctx \<Rightarrow> tool_call \<Rightarrow> ledger \<Rightarrow> bool" where
  "keyFree ctx (Tool_assignment_register c) l \<longleftrightarrow>
     find (\<lambda>a. a_requestId a = gc_requestId c \<and> a_ownerAgentId a = ctxAgent ctx) (assignments l) = None"
| "keyFree ctx (Tool_assignment_attach c) l \<longleftrightarrow> True"
| "keyFree ctx (Tool_assignment_close c) l \<longleftrightarrow> True"
| "keyFree ctx (Tool_assignment_offer c) l \<longleftrightarrow> find (\<lambda>r. of_assignmentId r = oc_assignmentId c \<and> of_requestId r = oc_requestId c \<and>
     of_fromAgentId r = ctxAgent ctx) (ownershipOffers l) = None"
| "keyFree ctx (Tool_assignment_accept c) l \<longleftrightarrow> find (\<lambda>r. ac_assignmentId r = xc_assignmentId c \<and> ac_requestId r = xc_requestId c \<and>
     ac_toAgentId r = ctxAgent ctx) (ownershipAccepts l) = None"
| "keyFree ctx (Tool_assignment_amend c) l \<longleftrightarrow> find (\<lambda>r. b_assignmentId r = am_assignmentId c \<and> b_requestId r = am_requestId c \<and>
     b_actorAgentId r = ctxAgent ctx) (briefRevisions l) = None"
| "keyFree ctx (Tool_decision_append c) l \<longleftrightarrow> find (\<lambda>r. d_assignmentId r = dd_assignmentId c \<and> d_requestId r = dd_requestId c \<and>
     d_actorAgentId r = ctxAgent ctx) (decisionEntries l) = None"
| "keyFree ctx (Tool_scope_declare c) l \<longleftrightarrow> find (\<lambda>r. sc_requestId r = sd_requestId c \<and> sc_assignmentId r = sd_assignmentId c \<and>
     sc_ownerAgentId r = ctxAgent ctx) (scopes l) = None"
| "keyFree ctx (Tool_scope_transition c) l \<longleftrightarrow> find (\<lambda>r. tr_requestId r = st_requestId c \<and> tr_assignmentId r = st_assignmentId c \<and>
     tr_actorAgentId r = ctxAgent ctx) (scopeTransitions l) = None"
| "keyFree ctx (Tool_scope_review c) l \<longleftrightarrow> find (\<lambda>r. rv_requestId r = sv_requestId c \<and> rv_assignmentId r = sv_assignmentId c \<and>
     rv_reviewerAgentId r = ctxAgent ctx) (scopeReviews l) = None"
| "keyFree ctx (Tool_rollout_declare c) l \<longleftrightarrow> find (\<lambda>r. ro_requestId r = rdc_requestId c \<and> ro_assignmentId r = rdc_assignmentId c \<and>
     ro_ownerAgentId r = ctxAgent ctx) (rollouts l) = None"
| "keyFree ctx (Tool_rollout_transition c) l \<longleftrightarrow> find (\<lambda>r. rt_requestId r = rtc_requestId c \<and> rt_assignmentId r = rtc_assignmentId c \<and>
     rt_actorAgentId r = ctxAgent ctx) (rolloutTransitions l) = None"
| "keyFree ctx (Tool_check_declare c) l \<longleftrightarrow> find (\<lambda>r. cd_requestId r = kd_requestId c \<and> cd_assignmentId r = kd_assignmentId c \<and>
     cd_ownerAgentId r = ctxAgent ctx) (checkDefinitions l) = None"
| "keyFree ctx (Tool_settlement_record c) l \<longleftrightarrow> find (\<lambda>r. s_requestId r = stc_requestId c \<and> s_assignmentId r = stc_assignmentId c \<and>
     s_ownerAgentId r = ctxAgent ctx) (settlements l) = None"

subsection \<open>The contract of a runner\<close>

fun is_ok :: "json \<Rightarrow> bool" where
  \<comment> \<open>an answer object with \<open>ok: true\<close>\<close>
  "is_ok (JObj (entry # rest)) \<longleftrightarrow> entry = (''ok'', JBool True)"
| "is_ok _ \<longleftrightarrow> False"

lemma ok_answer_is_ok [simp]: "is_ok (ok_answer fs)"
  by (simp add: ok_answer_def)

lemma committed_tables:
  \<comment> \<open>a committed request record names an accepted decision on the ledger that was there\<close>
  assumes run: "transactAnswer E S K key cx env respond d = (Some ans, d')" and env: "snd (en_command env) = cmd"
    and l: "dk_ledger d = Some l" and l': "dk_ledger d' = Some l'" and new: "requests l' = requests l @ [q]" "q_outcome q = RO_committed"
  obtains h evs p rcp where "readStore E K key d = Read_ok l h" and "deskDecide E S l h cmd = Inr (evs, p)"
    and "l' = stamped (apply_tables l p) (revision l + 1) (cx_at cx) (lastEventSeq l + length (builtFor E (deskDecider E S) cx env l h))
      (tipSha256 (lastEventSha256 l) (builtFor E (deskDecider E S) cx env l h)) (requests l')"
    and "transactPlan E K key (deskDecider E S) cx env d = Plan_write (segmentOf (builtFor E (deskDecider E S) cx env l h)) l' (Inr rcp)"
    and "ans = answerAfter E K key respond rcp d'" and "rcp_receiptId rcp = q_receiptId q"
proof -
  let ?D = "deskDecider E S"
  have changed: "d' \<noteq> d" using l l' new(1) by auto
  have d': "d' = snd (transact E K key ?D cx env d)"
    using run by (auto simp: transactAnswer_def split: prod.splits option.splits sum.splits)
  with changed obtain s cand r where plan: "transactPlan E K key ?D cx env d = Plan_write s cand r"
    by (cases "transactPlan E K key ?D cx env d") (auto simp: transact_def Let_def)
  then have t: "transact E K key ?D cx env d = (Some r, d')" by (simp add: d' transact_def)
  have cand: "cand = l'" using l' by (simp add: d' transact_def plan last_commitTrace)
  from plan obtain l1 h where base: "baseLedger E K key cx env d = Some (l1, h)"
    and "commitDecided E K key ?D cx env l1 h = Plan_write s cand r"
    by (rule transactPlan_write)
  moreover from base l have h: "readStore E K key d = Read_ok l h" and "l1 = l"
    by (auto simp: baseLedger_def readStore_ok readStore_absent split: store_read.splits)
  ultimately have w: "commitDecided E K key ?D cx env l h = Plan_write s cand r" by simp
  note f = commitDecided_write [OF w]
  have dec: "dd_decide ?D l h (en_command env) = deskDecide E S l h cmd"
    using env by (cases "en_command env") (simp add: deskDecider_def)
  have q: "q = requestRow E ?D cx env (revision l + 1) (map_option (\<lambda>s. (sg_first s, sg_last s)) (segmentOf (builtFor E ?D cx env l h)))
      (case deskDecide E S l h cmd of Inl c \<Rightarrow> Some c | Inr _ \<Rightarrow> None)"
    using new(1) f(4) unfolding cand dec by (auto simp: candidateLedger_def Let_def)
  then obtain evs p where acc: "deskDecide E S l h cmd = Inr (evs, p)"
    using new(2) by (auto simp: requestRow_def split: sum.splits if_splits)
  moreover from acc obtain rcp where rcp: "r = Inr rcp" and "rcp_receiptId rcp = q_receiptId q"
    using f(5) q unfolding receiptFor_def dec by (auto simp: requestRow_def)
  moreover have "l' = stamped (apply_tables l p) (revision l + 1) (cx_at cx) (lastEventSeq l + length (builtFor E ?D cx env l h))
      (tipSha256 (lastEventSha256 l) (builtFor E ?D cx env l h)) (requests l')"
    using f(4) unfolding cand dec acc by (simp add: candidateLedger_def stamped_def Let_def outcomeTables_def)
  moreover have "ans = answerAfter E K key respond rcp d'"
    using run t by (auto simp: transactAnswer_def rcp)
  moreover have "s = segmentOf (builtFor E ?D cx env l h)" using f by simp
  ultimately show thesis using that h plan cand by simp
qed

text \<open>
  A runner relies on its command family for one thing: the tables an accepted command proposes hold
  the row its response is made of, and the response says of it what it has to (\<open>told\<close>). Headers do
  not matter to either.
\<close>

locale answering =
  fixes E :: desk_env
    and S :: desk_seams
    and cmd :: desk_command
    and respond :: "ledger \<Rightarrow> receipt \<Rightarrow> json option"
    and free :: "ledger \<Rightarrow> bool"
    and told :: "ledger \<Rightarrow> ledger \<Rightarrow> string \<Rightarrow> json \<Rightarrow> bool"
  assumes held: "deskDecide E S l h cmd = Inr (evs, p) \<Longrightarrow> free l \<Longrightarrow>
      \<exists>j. respond (apply_tables l p) rcp = Some j \<and> told l (apply_tables l p) (rcp_receiptId rcp) j"
    and header: "respond (stamped l n at m tip qs) rcp = respond l rcp"
    and told_header: "told l (stamped l2 n at m tip qs) rid j \<longleftrightarrow> told l l2 rid j"
begin

lemma answered_tail:
  assumes run: "transactAnswer E S K key cx env respond d = (Some ans, d')" "snd (en_command env) = cmd" "free l"
    and "sha_hex E" and "time_ok E (cx_at cx)" and "orphansAtTip d"
    and l: "dk_ledger d = Some l" "dk_ledger d' = Some l'" "requests l' = requests l @ [q]" "q_outcome q = RO_committed"
  shows "\<exists>j. told l l' (q_receiptId q) j \<and> ans = (if readStore E K key d' = Read_corrupt then Inl STATE_UNREADABLE else Inr j) \<and>
    (readStore E K key d' = Read_corrupt \<longrightarrow> \<not> orphanFree d)"
proof -
  from run(1,2) l obtain h evs p rcp where h: "readStore E K key d = Read_ok l h" and acc: "deskDecide E S l h cmd = Inr (evs, p)"
    and st: "l' = stamped (apply_tables l p) (revision l + 1) (cx_at cx) (lastEventSeq l + length (builtFor E (deskDecider E S) cx env l h))
      (tipSha256 (lastEventSha256 l) (builtFor E (deskDecider E S) cx env l h)) (requests l')"
    and plan: "transactPlan E K key (deskDecider E S) cx env d = Plan_write (segmentOf (builtFor E (deskDecider E S) cx env l h)) l' (Inr rcp)"
    and ans: "ans = answerAfter E K key respond rcp d'" and rid: "rcp_receiptId rcp = q_receiptId q"
    by (rule committed_tables)
  let ?s = "segmentOf (builtFor E (deskDecider E S) cx env l h)"
  have d': "d' = snd (transact E K key (deskDecider E S) cx env d)"
    using run(1) by (auto simp: transactAnswer_def split: prod.splits option.splits sum.splits)
  have base: "baseLedger E K key cx env d = Some (l, h)" using h by (simp add: baseLedger_def)
  obtain j where j: "respond l' rcp = Some j" "told l l' (q_receiptId q) j"
    using held [OF acc run(3), of rcp] st rid by (metis header told_header)
  show ?thesis
  proof (cases "overtakesOrphan ?s (dk_segments d)")
    case True
    then have "readStore E K key d' = Read_corrupt"
      using overtaking_corrupts [OF plan True] by (simp add: d' transact_def plan)
    with j overtaken_not_free [OF plan True] show ?thesis by (auto simp: ans answerAfter_def readLedger_def)
  next
    case False
    have "readStore E K key d' = Read_ok l' (h @ builtFor E (deskDecider E S) cx env l h)"
      using write_reads_back(1) [OF plan assms(4-6) False base] by (simp add: d' transact_def plan)
    with j show ?thesis by (auto simp: ans answerAfter_def readLedger_def)
  qed
qed

lemma answered:
  assumes run: "deskRunner E S K cx ctx aid rid body cmd respond d = (Some ans, d')" and free: "free l"
    and disk: "sha_hex E" "time_ok E (cx_at cx)" "orphansAtTip d"
    and l: "dk_ledger d = Some l" "dk_ledger d' = Some l'" "requests l' = requests l @ [q]" "q_outcome q = RO_committed"
  shows "\<exists>j. told l l' (q_receiptId q) j \<and>
    ans = (if readStore E K (rx_repoKey ctx) d' = Read_corrupt then Inl STATE_UNREADABLE else Inr j) \<and>
    (readStore E K (rx_repoKey ctx) d' = Read_corrupt \<longrightarrow> \<not> orphanFree d)"
proof -
  have changed: "d' \<noteq> d" using l by auto
  with run obtain l0 where "transactAnswer E S K (rx_repoKey ctx) cx (runnerEnvelope ctx l0 aid rid (body l0, cmd)) respond d = (Some ans, d')"
    by (cases "readLedger E K (rx_repoKey ctx) d") (auto simp: deskRunner_def)
  from answered_tail [OF this _ free disk l] show ?thesis by (auto simp: runnerEnvelope_def)
qed

end

subsection \<open>Every runner keeps it\<close>

lemma find_appended: "find P xs = None \<Longrightarrow> P x \<Longrightarrow> find P (xs @ [x]) = Some x"
  by (induction xs) (auto split: if_splits)

lemma found: "x \<in> set xs \<Longrightarrow> P x \<Longrightarrow> \<exists>y \<in> set xs. find P xs = Some y"
  by (induction xs) auto

lemma live_agent: "liveMembership l agent = Some m \<Longrightarrow> actorAgent m = agent"
  by (drule liveMembershipD) (simp add: actorAgent_def)

lemma findAssignment_snoc: "findAssignment (l\<lparr>assignments := as\<rparr>) aid = find (\<lambda>a. a_assignmentId a = aid) as"
  by (simp add: findAssignment_def)

lemmas response_defs = assignmentRegisterResponse_def assignmentAttachResponse_def assignmentCloseResponse_def
  assignmentOfferResponse_def assignmentAcceptResponse_def assignmentAmendResponse_def decisionAppendResponse_def
  scopeDeclareResponse_def scopeTransitionResponse_def scopeReviewResponse_def rolloutDeclareResponse_def
  rolloutTransitionResponse_def checkDeclareResponse_def settlementRecordResponse_def

lemma response_stamped:
  "assignmentRegisterResponse ctx rc (stamped l n at m tip qs) = assignmentRegisterResponse ctx rc l"
  "assignmentAttachResponse ctx ac (stamped l n at m tip qs) = assignmentAttachResponse ctx ac l"
  "assignmentCloseResponse ctx cc (stamped l n at m tip qs) = assignmentCloseResponse ctx cc l"
  "assignmentOfferResponse ctx oc (stamped l n at m tip qs) = assignmentOfferResponse ctx oc l"
  "assignmentAcceptResponse ctx xc (stamped l n at m tip qs) = assignmentAcceptResponse ctx xc l"
  "assignmentAmendResponse ctx am (stamped l n at m tip qs) = assignmentAmendResponse ctx am l"
  "decisionAppendResponse ctx de (stamped l n at m tip qs) = decisionAppendResponse ctx de l"
  "scopeDeclareResponse ctx sd (stamped l n at m tip qs) = scopeDeclareResponse ctx sd l"
  "scopeTransitionResponse ctx st (stamped l n at m tip qs) = scopeTransitionResponse ctx st l"
  "scopeReviewResponse ctx sv (stamped l n at m tip qs) = scopeReviewResponse ctx sv l"
  "rolloutDeclareResponse ctx rd (stamped l n at m tip qs) = rolloutDeclareResponse ctx rd l"
  "rolloutTransitionResponse ctx rt (stamped l n at m tip qs) = rolloutTransitionResponse ctx rt l"
  "checkDeclareResponse ctx kd (stamped l n at m tip qs) = checkDeclareResponse ctx kd l"
  "settlementRecordResponse ctx sc (stamped l n at m tip qs) = settlementRecordResponse ctx sc l"
  by (simp_all add: fun_eq_iff response_defs stamped_def findAssignment_def)

lemma builtFrom_stamped: "builtFrom ctx call l (stamped l2 n at m tip qs) rid j \<longleftrightarrow> builtFrom ctx call l l2 rid j"
  by (cases call) (simp_all add: stamped_def findAssignment_def)

lemma register_held:
  assumes "decideDeskHandback E H sel history l (Assignment_register (c\<lparr>gc_actorAgentId := ctxAgent ctx\<rparr>)) = Inr (evs, p)" and free: "keyFree ctx (Tool_assignment_register c) l"
  shows "\<exists>j. assignmentRegisterResponse ctx c (apply_tables l p) rcp = Some j \<and> builtFrom ctx (Tool_assignment_register c) l (apply_tables l p) (rcp_receiptId rcp) j"
  using assms(1)
proof (cases rule: handback_decided)
  case (1 actor)
  then have agent: "actorAgent actor = ctxAgent ctx" using requireActor_facts(3) [OF 1(2)] by simp
  from 1(3) have p: "assignments (apply_tables l p) = assignments l @ [registeredRow E actor (c\<lparr>gc_actorAgentId := ctxAgent ctx\<rparr>)]"
    by (auto simp: decideRegister_def Let_def accepted)
  show ?thesis
    using free find_appended [of "\<lambda>a. a_requestId a = gc_requestId c \<and> a_ownerAgentId a = ctxAgent ctx" "assignments l" "registeredRow E actor (c\<lparr>gc_actorAgentId := ctxAgent ctx\<rparr>)"]
    by (auto simp: p assignmentRegisterResponse_def registeredRow_def agent simp del: apply_tables_sel)
qed

lemma update_found:
  assumes "find (\<lambda>a. a_assignmentId a = aid) as = Some a" and "\<And>a. a_assignmentId (f a) = a_assignmentId a"
  shows "find (\<lambda>a. a_assignmentId a = aid) (updateAssignment aid f as) = Some (f a)"
  using assms(1) by (induction as) (auto simp: updateAssignment_def assms(2) split: if_splits)

lemma close_held:
  assumes "decideDeskHandback E H sel history l (Assignment_close (c\<lparr>cc_actorAgentId := ctxAgent ctx\<rparr>)) = Inr (evs, p)" and free: "keyFree ctx (Tool_assignment_close c) l"
  shows "\<exists>j. assignmentCloseResponse ctx c (apply_tables l p) rcp = Some j \<and> builtFrom ctx (Tool_assignment_close c) l (apply_tables l p) (rcp_receiptId rcp) j"
  using assms(1)
proof (cases rule: handback_decided)
  case (1 actor)
  from 1(3) obtain a where a: "findAssignment l (cc_assignmentId c) = Some a"
    and p: "p = no_tables \<and> a_state a = AS_closed \<or> p = no_tables\<lparr>p_assignments := Some (updateAssignment (cc_assignmentId c) (\<lambda>a. a\<lparr>a_state := AS_closed\<rparr>) (assignments l))\<rparr>"
    by (auto simp: decideClose_def ownedByActor_def accepted split: if_splits)
  have "find (\<lambda>a. a_assignmentId a = cc_assignmentId c) (updateAssignment (cc_assignmentId c) (\<lambda>a. a\<lparr>a_state := AS_closed\<rparr>) (assignments l)) = Some (a\<lparr>a_state := AS_closed\<rparr>)"
    using a by (intro update_found) (simp_all add: findAssignment_def)
  moreover have "a_assignmentId a = cc_assignmentId c" using findAssignmentD [OF a] by simp
  ultimately show ?thesis using a p by (auto simp: assignmentCloseResponse_def findAssignment_def)
qed

lemma attach_held:
  assumes "decideDeskHandback E H sel history l (Assignment_attach (c\<lparr>tc_actorAgentId := ctxAgent ctx\<rparr>)) = Inr (evs, p)" and free: "keyFree ctx (Tool_assignment_attach c) l"
  shows "\<exists>j. assignmentAttachResponse ctx c (apply_tables l p) rcp = Some j \<and> builtFrom ctx (Tool_assignment_attach c) l (apply_tables l p) (rcp_receiptId rcp) j"
  using assms(1)
proof (cases rule: handback_decided)
  case (1 actor)
  from 1(3) obtain a where a: "findAssignment l (tc_assignmentId c) = Some a"
    and p: "(p = no_tables \<and> list_ex (\<lambda>s. seat_agentId s = tc_agentId c) (a_seats a)) \<or>
      (\<exists>target. liveMembership l (tc_agentId c) = Some target \<and> p = no_tables\<lparr>p_assignments := Some (updateAssignment (tc_assignmentId c)
         (\<lambda>a. a\<lparr>a_seats := a_seats a @ [seatOf target]\<rparr>) (assignments l))\<rparr>)"
    by (auto simp: decideAttach_def ownedByActor_def Let_def accepted split: if_splits)
  from p show ?thesis
  proof (elim disjE exE conjE)
    assume "p = no_tables" "list_ex (\<lambda>s. seat_agentId s = tc_agentId c) (a_seats a)"
    then obtain t where "t \<in> set (a_seats a)" "seat_agentId t = tc_agentId c" by (auto simp: list_ex_iff)
    from find_ex [of t "a_seats a" "\<lambda>s. seat_agentId s = tc_agentId c", OF this]
    obtain s where s: "find (\<lambda>s. seat_agentId s = tc_agentId c) (a_seats a) = Some s" by blast
    have "a_assignmentId a = tc_assignmentId c" using findAssignmentD [OF a] by simp
    then show ?thesis using a \<open>p = no_tables\<close> s find_SomeD [OF s]
      by (auto simp: assignmentAttachResponse_def findAssignment_def)
  next
    fix target
    let ?f = "\<lambda>a. a\<lparr>a_seats := a_seats a @ [seatOf target]\<rparr>"
    assume t: "liveMembership l (tc_agentId c) = Some target"
      and p: "p = no_tables\<lparr>p_assignments := Some (updateAssignment (tc_assignmentId c) ?f (assignments l))\<rparr>"
    have "seat_agentId (seatOf target) = tc_agentId c" using live_agent [OF t] by (simp add: seatOf_def)
    then obtain s where s: "find (\<lambda>s. seat_agentId s = tc_agentId c) (a_seats (?f a)) = Some s"
      using find_ex [of "seatOf target" "a_seats (?f a)" "\<lambda>s. seat_agentId s = tc_agentId c"] by auto
    have "find (\<lambda>a. a_assignmentId a = tc_assignmentId c) (updateAssignment (tc_assignmentId c) ?f (assignments l)) = Some (?f a)"
      using a by (intro update_found) (simp_all add: findAssignment_def)
    moreover have "a_assignmentId a = tc_assignmentId c" using findAssignmentD [OF a] by simp
    ultimately show ?thesis using s find_SomeD [OF s] by (auto simp: assignmentAttachResponse_def findAssignment_def p)
  qed
qed

lemma offer_held:
  assumes "decideDeskOwnership E l (Ownership_offer (c\<lparr>oc_actorAgentId := ctxAgent ctx\<rparr>)) = Inr (evs, p)" and free: "keyFree ctx (Tool_assignment_offer c) l"
  shows "\<exists>j. assignmentOfferResponse ctx c (apply_tables l p) rcp = Some j \<and> builtFrom ctx (Tool_assignment_offer c) l (apply_tables l p) (rcp_receiptId rcp) j"
proof -
  from assms(1) obtain m a where m: "liveMembership l (ctxAgent ctx) = Some m" and a: "findAssignment l (oc_assignmentId c) = Some a"
    and p: "ownershipOffers (apply_tables l p) =
      ownershipOffers l @ [offerRow E m a (effectiveOwner l a) (c\<lparr>oc_actorAgentId := ctxAgent ctx\<rparr>)]"
    by (auto simp: ownership_Inr decideOffer_Inr)
  have "a_assignmentId a = oc_assignmentId c" using a by (auto simp: findAssignment_def dest: find_SomeD)
  with live_agent [OF m] show ?thesis
    using free find_appended [of "\<lambda>r. of_assignmentId r = oc_assignmentId c \<and> of_requestId r = oc_requestId c \<and> of_fromAgentId r = ctxAgent ctx" "ownershipOffers l" "offerRow E m a (effectiveOwner l a) (c\<lparr>oc_actorAgentId := ctxAgent ctx\<rparr>)"]
    by (auto simp: p assignmentOfferResponse_def offerRow_def simp del: apply_tables_sel)
qed

lemma accept_held:
  assumes "decideDeskOwnership E l (Ownership_accept (c\<lparr>xc_actorAgentId := ctxAgent ctx\<rparr>)) = Inr (evs, p)" and free: "keyFree ctx (Tool_assignment_accept c) l"
  shows "\<exists>j. assignmentAcceptResponse ctx c (apply_tables l p) rcp = Some j \<and> builtFrom ctx (Tool_assignment_accept c) l (apply_tables l p) (rcp_receiptId rcp) j"
proof -
  from assms(1) obtain m a offer where a: "findAssignment l (xc_assignmentId c) = Some a" and o: "of_toAgentId offer = ctxAgent ctx"
    and p: "apply_tables l p = pushAccept l (acceptRow E l m a offer (c\<lparr>xc_actorAgentId := ctxAgent ctx\<rparr>))"
    by (rule accept_facts) auto
  have "a_assignmentId a = xc_assignmentId c" using a by (auto simp: findAssignment_def dest: find_SomeD)
  with o show ?thesis
    using free find_appended [of "\<lambda>r. ac_assignmentId r = xc_assignmentId c \<and> ac_requestId r = xc_requestId c \<and> ac_toAgentId r = ctxAgent ctx" "ownershipAccepts l" "acceptRow E l m a offer (c\<lparr>xc_actorAgentId := ctxAgent ctx\<rparr>)"]
    by (auto simp: p pushAccept_def assignmentAcceptResponse_def acceptRow_def simp del: apply_tables_sel)
qed

lemma amend_held:
  assumes "decideDeskAssignment E l (Assignment_amend (c\<lparr>am_actorAgentId := ctxAgent ctx\<rparr>)) = Inr (evs, p)" and free: "keyFree ctx (Tool_assignment_amend c) l"
  shows "\<exists>j. assignmentAmendResponse ctx c (apply_tables l p) rcp = Some j \<and> builtFrom ctx (Tool_assignment_amend c) l (apply_tables l p) (rcp_receiptId rcp) j"
proof -
  from assms(1) obtain m a where m: "liveMembership l (ctxAgent ctx) = Some m" and "a_assignmentId a = am_assignmentId c"
    and p: "apply_tables l p = pushBrief l (briefRow E l m a (c\<lparr>am_actorAgentId := ctxAgent ctx\<rparr>))"
    by (rule amend_facts) auto
  with live_agent [OF m] show ?thesis
    using free find_appended [of "\<lambda>r. b_assignmentId r = am_assignmentId c \<and> b_requestId r = am_requestId c \<and> b_actorAgentId r = ctxAgent ctx" "briefRevisions l" "briefRow E l m a (c\<lparr>am_actorAgentId := ctxAgent ctx\<rparr>)"]
    by (auto simp: p pushBrief_def assignmentAmendResponse_def briefRow_def Let_def simp del: apply_tables_sel)
qed

lemma decision_held:
  assumes "decideDeskAssignment E l (Decision_append (c\<lparr>dd_actorAgentId := ctxAgent ctx\<rparr>)) = Inr (evs, p)" and free: "keyFree ctx (Tool_decision_append c) l"
  shows "\<exists>j. decisionAppendResponse ctx c (apply_tables l p) rcp = Some j \<and> builtFrom ctx (Tool_decision_append c) l (apply_tables l p) (rcp_receiptId rcp) j"
proof -
  from assms(1) obtain m a where m: "liveMembership l (ctxAgent ctx) = Some m" and a: "findAssignment l (dd_assignmentId c) = Some a"
    and p: "decisionEntries (apply_tables l p) = decisionEntries l @ [decisionRow E l m a (c\<lparr>dd_actorAgentId := ctxAgent ctx\<rparr>)]"
    by (auto simp: assignment_Inr decideDecision_Inr Let_def)
  have "a_assignmentId a = dd_assignmentId c" using a by (auto simp: findAssignment_def dest: find_SomeD)
  with live_agent [OF m] show ?thesis
    using free find_appended [of "\<lambda>r. d_assignmentId r = dd_assignmentId c \<and> d_requestId r = dd_requestId c \<and> d_actorAgentId r = ctxAgent ctx" "decisionEntries l" "decisionRow E l m a (c\<lparr>dd_actorAgentId := ctxAgent ctx\<rparr>)"]
    by (auto simp: p decisionAppendResponse_def decisionRow_def Let_def simp del: apply_tables_sel)
qed

lemma scope_declare_held:
  assumes "decideDeskScope E l (Scope_declare (c\<lparr>sd_actorAgentId := ctxAgent ctx\<rparr>)) = Inr (evs, p)" and free: "keyFree ctx (Tool_scope_declare c) l"
  shows "\<exists>j. scopeDeclareResponse ctx c (apply_tables l p) rcp = Some j \<and> builtFrom ctx (Tool_scope_declare c) l (apply_tables l p) (rcp_receiptId rcp) j"
proof -
  from assms(1) obtain m a plan where m: "liveMembership l (ctxAgent ctx) = Some m"
    and p: "apply_tables l p = afterDeclare E l m (c\<lparr>sd_actorAgentId := ctxAgent ctx\<rparr>) (scopeRow l m a (c\<lparr>sd_actorAgentId := ctxAgent ctx\<rparr>) plan)"
    by (rule declare_facts) auto
  with live_agent [OF m] show ?thesis
    using free find_appended [of "\<lambda>r. sc_requestId r = sd_requestId c \<and> sc_assignmentId r = sd_assignmentId c \<and> sc_ownerAgentId r = ctxAgent ctx" "scopes l" "scopeRow l m a (c\<lparr>sd_actorAgentId := ctxAgent ctx\<rparr>) plan"]
    by (auto simp: p afterDeclare_def pushScope_def pushTransition_def scopeDeclareResponse_def scopeRow_def Let_def simp del: apply_tables_sel)
qed

lemma scope_transition_held:
  assumes "decideDeskScope E l (Scope_transition (c\<lparr>st_actorAgentId := ctxAgent ctx\<rparr>)) = Inr (evs, p)" and free: "keyFree ctx (Tool_scope_transition c) l"
  shows "\<exists>j. scopeTransitionResponse ctx c (apply_tables l p) rcp = Some j \<and> builtFrom ctx (Tool_scope_transition c) l (apply_tables l p) (rcp_receiptId rcp) j"
proof -
  from assms(1) obtain m latest st to pin ds where m: "liveMembership l (ctxAgent ctx) = Some m"
    and p: "apply_tables l p = pushTransition l (transitionRow E l m (c\<lparr>st_actorAgentId := ctxAgent ctx\<rparr>) latest st to pin ds)"
    by (rule transition_facts) auto
  with live_agent [OF m] show ?thesis
    using free find_appended [of "\<lambda>r. tr_requestId r = st_requestId c \<and> tr_assignmentId r = st_assignmentId c \<and> tr_actorAgentId r = ctxAgent ctx" "scopeTransitions l" "transitionRow E l m (c\<lparr>st_actorAgentId := ctxAgent ctx\<rparr>) latest st to pin ds"]
    by (auto simp: p pushTransition_def scopeTransitionResponse_def transitionRow_def simp del: apply_tables_sel)
qed

lemma scope_review_held:
  assumes "decideDeskScope E l (Scope_review (c\<lparr>sv_actorAgentId := ctxAgent ctx\<rparr>)) = Inr (evs, p)" and free: "keyFree ctx (Tool_scope_review c) l"
  shows "\<exists>j. scopeReviewResponse ctx c (apply_tables l p) rcp = Some j \<and> builtFrom ctx (Tool_scope_review c) l (apply_tables l p) (rcp_receiptId rcp) j"
proof -
  from assms(1) obtain round seat
    where p: "apply_tables l p = l\<lparr>scopeReviews := scopeReviews l @ [reviewRow E l (c\<lparr>sv_actorAgentId := ctxAgent ctx\<rparr>) round seat]\<rparr>"
    by (rule review_facts) auto
  show ?thesis
    using free find_appended [of "\<lambda>r. rv_requestId r = sv_requestId c \<and> rv_assignmentId r = sv_assignmentId c \<and> rv_reviewerAgentId r = ctxAgent ctx" "scopeReviews l" "reviewRow E l (c\<lparr>sv_actorAgentId := ctxAgent ctx\<rparr>) round seat"]
    by (auto simp: p scopeReviewResponse_def reviewRow_def simp del: apply_tables_sel)
qed

lemma rollout_declare_held:
  assumes "decideDeskRollout E l (Rollout_declare (c\<lparr>rdc_actorAgentId := ctxAgent ctx\<rparr>)) = Inr (evs, p)" and free: "keyFree ctx (Tool_rollout_declare c) l"
  shows "\<exists>j. rolloutDeclareResponse ctx c (apply_tables l p) rcp = Some j \<and> builtFrom ctx (Tool_rollout_declare c) l (apply_tables l p) (rcp_receiptId rcp) j"
proof -
  let ?c = "c\<lparr>rdc_actorAgentId := ctxAgent ctx\<rparr>"
  from assms(1) obtain m a k where m: "liveMembership l (ctxAgent ctx) = Some m"
    and p: "rollouts (apply_tables l p) = rollouts l @ [rolloutRow l m a ?c k]"
    by (auto simp: rollout_Inr decideRolloutDeclare_Inr Let_def)
  with live_agent [OF m] show ?thesis
    using free find_appended [of "\<lambda>r. ro_requestId r = rdc_requestId c \<and> ro_assignmentId r = rdc_assignmentId c \<and> ro_ownerAgentId r = ctxAgent ctx" "rollouts l" "rolloutRow l m a ?c k"]
    by (auto simp: p rolloutDeclareResponse_def simp del: apply_tables_sel)
qed

lemma rollout_transition_held:
  assumes "decideDeskRollout E l (Rollout_transition (c\<lparr>rtc_actorAgentId := ctxAgent ctx\<rparr>)) = Inr (evs, p)" and free: "keyFree ctx (Tool_rollout_transition c) l"
  shows "\<exists>j. rolloutTransitionResponse ctx c (apply_tables l p) rcp = Some j \<and> builtFrom ctx (Tool_rollout_transition c) l (apply_tables l p) (rcp_receiptId rcp) j"
proof -
  let ?c = "c\<lparr>rtc_actorAgentId := ctxAgent ctx\<rparr>"
  from assms(1) obtain m st to pins checks reviews digest where m: "liveMembership l (ctxAgent ctx) = Some m"
    and p: "rolloutTransitions (apply_tables l p) = rolloutTransitions l @ [rolloutMoveRow E l m ?c st to pins checks reviews digest]"
    by (auto simp: rollout_Inr decideRolloutTransition_Inr Let_def)
  with live_agent [OF m] show ?thesis
    using free find_appended [of "\<lambda>r. rt_requestId r = rtc_requestId c \<and> rt_assignmentId r = rtc_assignmentId c \<and> rt_actorAgentId r = ctxAgent ctx" "rolloutTransitions l" "rolloutMoveRow E l m ?c st to pins checks reviews digest"]
    by (auto simp: p rolloutTransitionResponse_def rolloutMoveRow_def simp del: apply_tables_sel)
qed

lemma check_declare_held:
  assumes "decideDeskCheck E l (Check_declare (c\<lparr>kd_actorAgentId := ctxAgent ctx\<rparr>)) = Inr (evs, p)" and free: "keyFree ctx (Tool_check_declare c) l"
  shows "\<exists>j. checkDeclareResponse ctx c (apply_tables l p) rcp = Some j \<and> builtFrom ctx (Tool_check_declare c) l (apply_tables l p) (rcp_receiptId rcp) j"
proof -
  let ?c = "c\<lparr>kd_actorAgentId := ctxAgent ctx\<rparr>"
  from assms(1) obtain m a where m: "requireActor l (ctxAgent ctx) = Inr m"
    and p: "checkDefinitions (apply_tables l p) = checkDefinitions l @ [definitionRow l m a ?c]"
    by (rule check_decided) (auto simp: decideCheckDeclare_def Let_def accepted)
  then show ?thesis
    using free find_appended [of "\<lambda>r. cd_requestId r = kd_requestId c \<and> cd_assignmentId r = kd_assignmentId c \<and> cd_ownerAgentId r = ctxAgent ctx" "checkDefinitions l" "definitionRow l m a ?c"]
      requireActor_facts(3) [OF m]
    by (auto simp: p checkDeclareResponse_def definitionRow_def Let_def simp del: apply_tables_sel)
qed

lemma settlement_held:
  assumes "decideDeskSettlement E H l (c\<lparr>stc_actorAgentId := ctxAgent ctx\<rparr>) = Inr (evs, p)" and free: "keyFree ctx (Tool_settlement_record c) l"
  shows "\<exists>j. settlementRecordResponse ctx c (apply_tables l p) rcp = Some j \<and> builtFrom ctx (Tool_settlement_record c) l (apply_tables l p) (rcp_receiptId rcp) j"
proof -
  let ?c = "c\<lparr>stc_actorAgentId := ctxAgent ctx\<rparr>"
  from assms(1) obtain m seat row where m: "requireActor l (ctxAgent ctx) = Inr m"
    and p: "settlements (apply_tables l p) = settlements l @ [settledRow E l m seat row ?c]"
    by (rule settlement_decided) auto
  then show ?thesis
    using free find_appended [of "\<lambda>r. s_requestId r = stc_requestId c \<and> s_assignmentId r = stc_assignmentId c \<and> s_ownerAgentId r = ctxAgent ctx" "settlements l" "settledRow E l m seat row ?c"]
      requireActor_facts(3) [OF m]
    by (auto simp: p settlementRecordResponse_def settledRow_sel simp del: apply_tables_sel)
qed

interpretation registered: answering E S "Desk_handback (Assignment_register (c\<lparr>gc_actorAgentId := ctxAgent ctx\<rparr>))" "assignmentRegisterResponse ctx c"
    "keyFree ctx (Tool_assignment_register c)" "builtFrom ctx (Tool_assignment_register c)"
  for E S c ctx by unfold_locales (simp_all only: deskDecide.simps register_held response_stamped builtFrom_stamped)
interpretation attached: answering E S "Desk_handback (Assignment_attach (c\<lparr>tc_actorAgentId := ctxAgent ctx\<rparr>))" "assignmentAttachResponse ctx c"
    "keyFree ctx (Tool_assignment_attach c)" "builtFrom ctx (Tool_assignment_attach c)"
  for E S c ctx by unfold_locales (simp_all only: deskDecide.simps attach_held response_stamped builtFrom_stamped)
interpretation closing: answering E S "Desk_handback (Assignment_close (c\<lparr>cc_actorAgentId := ctxAgent ctx\<rparr>))" "assignmentCloseResponse ctx c"
    "keyFree ctx (Tool_assignment_close c)" "builtFrom ctx (Tool_assignment_close c)"
  for E S c ctx by unfold_locales (simp_all only: deskDecide.simps close_held response_stamped builtFrom_stamped)
interpretation offered: answering E S "Desk_ownership (Ownership_offer (c\<lparr>oc_actorAgentId := ctxAgent ctx\<rparr>))" "assignmentOfferResponse ctx c"
    "keyFree ctx (Tool_assignment_offer c)" "builtFrom ctx (Tool_assignment_offer c)"
  for E S c ctx by unfold_locales (simp_all only: deskDecide.simps offer_held response_stamped builtFrom_stamped)
interpretation taken: answering E S "Desk_ownership (Ownership_accept (c\<lparr>xc_actorAgentId := ctxAgent ctx\<rparr>))" "assignmentAcceptResponse ctx c"
    "keyFree ctx (Tool_assignment_accept c)" "builtFrom ctx (Tool_assignment_accept c)"
  for E S c ctx by unfold_locales (simp_all only: deskDecide.simps accept_held response_stamped builtFrom_stamped)
interpretation amended: answering E S "Desk_assignment (Assignment_amend (c\<lparr>am_actorAgentId := ctxAgent ctx\<rparr>))" "assignmentAmendResponse ctx c"
    "keyFree ctx (Tool_assignment_amend c)" "builtFrom ctx (Tool_assignment_amend c)"
  for E S c ctx by unfold_locales (simp_all only: deskDecide.simps amend_held response_stamped builtFrom_stamped)
interpretation ruled: answering E S "Desk_assignment (Decision_append (c\<lparr>dd_actorAgentId := ctxAgent ctx\<rparr>))" "decisionAppendResponse ctx c"
    "keyFree ctx (Tool_decision_append c)" "builtFrom ctx (Tool_decision_append c)"
  for E S c ctx by unfold_locales (simp_all only: deskDecide.simps decision_held response_stamped builtFrom_stamped)
interpretation scoped: answering E S "Desk_scope (Scope_declare (c\<lparr>sd_actorAgentId := ctxAgent ctx\<rparr>))" "scopeDeclareResponse ctx c"
    "keyFree ctx (Tool_scope_declare c)" "builtFrom ctx (Tool_scope_declare c)"
  for E S c ctx by unfold_locales (simp_all only: deskDecide.simps scope_declare_held response_stamped builtFrom_stamped)
interpretation stepped: answering E S "Desk_scope (Scope_transition (c\<lparr>st_actorAgentId := ctxAgent ctx\<rparr>))" "scopeTransitionResponse ctx c"
    "keyFree ctx (Tool_scope_transition c)" "builtFrom ctx (Tool_scope_transition c)"
  for E S c ctx by unfold_locales (simp_all only: deskDecide.simps scope_transition_held response_stamped builtFrom_stamped)
interpretation reviewed: answering E S "Desk_scope (Scope_review (c\<lparr>sv_actorAgentId := ctxAgent ctx\<rparr>))" "scopeReviewResponse ctx c"
    "keyFree ctx (Tool_scope_review c)" "builtFrom ctx (Tool_scope_review c)"
  for E S c ctx by unfold_locales (simp_all only: deskDecide.simps scope_review_held response_stamped builtFrom_stamped)
interpretation rollingOut: answering E S "Desk_rollout (Rollout_declare (c\<lparr>rdc_actorAgentId := ctxAgent ctx\<rparr>))" "rolloutDeclareResponse ctx c"
    "keyFree ctx (Tool_rollout_declare c)" "builtFrom ctx (Tool_rollout_declare c)"
  for E S c ctx by unfold_locales (simp_all only: deskDecide.simps rollout_declare_held response_stamped builtFrom_stamped)
interpretation rollingOn: answering E S "Desk_rollout (Rollout_transition (c\<lparr>rtc_actorAgentId := ctxAgent ctx\<rparr>))" "rolloutTransitionResponse ctx c"
    "keyFree ctx (Tool_rollout_transition c)" "builtFrom ctx (Tool_rollout_transition c)"
  for E S c ctx by unfold_locales (simp_all only: deskDecide.simps rollout_transition_held response_stamped builtFrom_stamped)
interpretation checkDeclared: answering E S "Desk_check (Check_declare (c\<lparr>kd_actorAgentId := ctxAgent ctx\<rparr>))" "checkDeclareResponse ctx c"
    "keyFree ctx (Tool_check_declare c)" "builtFrom ctx (Tool_check_declare c)"
  for E S c ctx by unfold_locales (simp_all only: deskDecide.simps check_declare_held response_stamped builtFrom_stamped)
interpretation settling: answering E S "Desk_settlement (c\<lparr>stc_actorAgentId := ctxAgent ctx\<rparr>)" "settlementRecordResponse ctx c"
    "keyFree ctx (Tool_settlement_record c)" "builtFrom ctx (Tool_settlement_record c)"
  for E S c ctx by unfold_locales (simp_all only: deskDecide.simps settlement_held response_stamped builtFrom_stamped)

subsection \<open>Whatever the tool\<close>

lemma guarded_run:
  assumes "guardedRunner E S K cx ctx aid rid body cmd respond d = (Some ans, d')" and "d' \<noteq> d"
  shows "deskRunner E S K cx ctx aid rid body cmd respond d = (Some ans, d')"
  using assms by (auto simp: guardedRunner_def split: sum.splits option.splits)

lemma settlement_run:
  assumes "runSettlementRecord v E S K cx ctx c0 d = (Some ans, d')" and "d' \<noteq> d"
  obtains c body where "deskRunner E S K cx ctx (stc_assignmentId c0) (stc_requestId c0) body (Desk_settlement (c\<lparr>stc_actorAgentId := ctxAgent ctx\<rparr>))
    (settlementRecordResponse ctx c) d = (Some ans, d')" and "stc_requestId c = stc_requestId c0" and "stc_assignmentId c = stc_assignmentId c0"
proof -
  from assms obtain l where l: "readLedger E K (rx_repoKey ctx) d = Inr l"
    by (cases "readLedger E K (rx_repoKey ctx) d") (auto simp: runSettlementRecord_def)
  let ?c = "c0\<lparr>stc_exportVerification := map_option (\<lambda>x. v x (repo l)) (tl_export (stc_timeline c0)), stc_actorAgentId := ctxAgent ctx\<rparr>"
  from assms(1) l show thesis by (intro that [of "\<lambda>l. settlementBody ctx ?c" ?c]) (simp_all add: runSettlementRecord_def Let_def)
qed

text \<open>C33. A committed call is answered from its row. When a tool call leaves a committed request record
  behind on the disk, its answer is built from the row this very call appended to its table, field by
  field as \<open>builtFrom\<close> spells out per tool (attach and close answer the assignment as it now stands), under
  the receipt id of the record; the answer that the commit succeeded but its row is not readable is
  never given. The request key is free in the table (\<open>keyFree\<close>). The disk may carry orphans of earlier crashes; if
  the commit overtook one (C11, C24), and only then, the desk reads as corrupt and the caller is told so.\<close>

theorem committed_call_is_answered:
  assumes "runTool verify E S K cx ctx call d = (Some ans, d')" and "keyFree ctx call l"
    and "sha_hex E" and "time_ok E (cx_at cx)" and "orphansAtTip d"
    and "dk_ledger d = Some l" and "dk_ledger d' = Some l'" and "requests l' = requests l @ [q]" and "q_outcome q = RO_committed"
  shows "\<exists>j. builtFrom ctx call l l' (q_receiptId q) j \<and>
    ans = (if readStore E K (rx_repoKey ctx) d' = Read_corrupt then Inl STATE_UNREADABLE else Inr j) \<and>
    (readStore E K (rx_repoKey ctx) d' = Read_corrupt \<longrightarrow> \<not> orphanFree d)"
proof -
  note free = assms(2) and disk = assms(3-9)
  have changed: "d' \<noteq> d" using assms(6-8) by auto
  show ?thesis
  proof (cases call)
    case (Tool_assignment_offer c)
    note run = guarded_run [OF assms(1) [unfolded Tool_assignment_offer runTool.simps runAssignmentOffer_def] changed]
    show ?thesis unfolding Tool_assignment_offer by (rule offered.answered [OF run free [unfolded Tool_assignment_offer] disk])
  next
    case (Tool_assignment_accept c)
    note run = guarded_run [OF assms(1) [unfolded Tool_assignment_accept runTool.simps runAssignmentAccept_def] changed]
    show ?thesis unfolding Tool_assignment_accept by (rule taken.answered [OF run free [unfolded Tool_assignment_accept] disk])
  next
    case (Tool_settlement_record c0)
    from assms(1) [unfolded this runTool.simps] changed obtain c body
      where run: "deskRunner E S K cx ctx (stc_assignmentId c0) (stc_requestId c0) body (Desk_settlement (c\<lparr>stc_actorAgentId := ctxAgent ctx\<rparr>))
        (settlementRecordResponse ctx c) d = (Some ans, d')"
        and ids: "stc_requestId c = stc_requestId c0" "stc_assignmentId c = stc_assignmentId c0" by (rule settlement_run)
    have "keyFree ctx (Tool_settlement_record c) l" using free by (simp add: Tool_settlement_record ids)
    from settling.answered [OF run this disk] show ?thesis by (simp add: Tool_settlement_record ids)
  next
    case (Tool_scope_declare c)
    note run = assms(1) [unfolded Tool_scope_declare runTool.simps runScopeDeclare_def]
    show ?thesis unfolding Tool_scope_declare by (rule scoped.answered [OF run free [unfolded Tool_scope_declare] disk])
  next
    case (Tool_assignment_register c)
    note run = assms(1) [unfolded Tool_assignment_register runTool.simps runAssignmentRegister_def]
    show ?thesis unfolding Tool_assignment_register by (rule registered.answered [OF run free [unfolded Tool_assignment_register] disk])
  next
    case (Tool_assignment_attach c)
    note run = assms(1) [unfolded Tool_assignment_attach runTool.simps runAssignmentAttach_def]
    show ?thesis unfolding Tool_assignment_attach by (rule attached.answered [OF run free [unfolded Tool_assignment_attach] disk])
  next
    case (Tool_assignment_close c)
    note run = assms(1) [unfolded Tool_assignment_close runTool.simps runAssignmentClose_def]
    show ?thesis unfolding Tool_assignment_close by (rule closing.answered [OF run free [unfolded Tool_assignment_close] disk])
  next
    case (Tool_assignment_amend c)
    note run = assms(1) [unfolded Tool_assignment_amend runTool.simps runAssignmentAmend_def]
    show ?thesis unfolding Tool_assignment_amend by (rule amended.answered [OF run free [unfolded Tool_assignment_amend] disk])
  next
    case (Tool_decision_append c)
    note run = assms(1) [unfolded Tool_decision_append runTool.simps runDecisionAppend_def]
    show ?thesis unfolding Tool_decision_append by (rule ruled.answered [OF run free [unfolded Tool_decision_append] disk])
  next
    case (Tool_scope_transition c)
    note run = assms(1) [unfolded Tool_scope_transition runTool.simps runScopeTransition_def]
    show ?thesis unfolding Tool_scope_transition by (rule stepped.answered [OF run free [unfolded Tool_scope_transition] disk])
  next
    case (Tool_scope_review c)
    note run = assms(1) [unfolded Tool_scope_review runTool.simps runScopeReview_def]
    show ?thesis unfolding Tool_scope_review by (rule reviewed.answered [OF run free [unfolded Tool_scope_review] disk])
  next
    case (Tool_rollout_declare c)
    note run = assms(1) [unfolded Tool_rollout_declare runTool.simps runRolloutDeclare_def]
    show ?thesis unfolding Tool_rollout_declare by (rule rollingOut.answered [OF run free [unfolded Tool_rollout_declare] disk])
  next
    case (Tool_rollout_transition c)
    note run = assms(1) [unfolded Tool_rollout_transition runTool.simps runRolloutTransition_def]
    show ?thesis unfolding Tool_rollout_transition by (rule rollingOn.answered [OF run free [unfolded Tool_rollout_transition] disk])
  next
    case (Tool_check_declare c)
    note run = assms(1) [unfolded Tool_check_declare runTool.simps runCheckDeclare_def]
    show ?thesis unfolding Tool_check_declare by (rule checkDeclared.answered [OF run free [unfolded Tool_check_declare] disk])
  qed
qed

definition lead_ledger :: ledger where
  "lead_ledger = (emptyLedger toy_repo toy_key ''t0'')\<lparr>memberships := [demo_member ''m1'' ''lead1'' Role_lead]\<rparr>"

definition lead_disk :: store_disk where
  "lead_disk = toy_disk\<lparr>dk_ledger := Some lead_ledger\<rparr>"

definition lead_ctx :: run_ctx where
  "lead_ctx = \<lparr>rx_repoKey = toy_key, rx_row = demo_member ''m1'' ''lead1'' Role_lead\<rparr>"

definition lead_call :: tool_call where
  "lead_call = Tool_assignment_register \<lparr>gc_requestId = ''r1'', gc_actorAgentId = [], gc_authorityRef = ''grant'', gc_objective = None\<rparr>"

definition no_export :: "settlement_export \<Rightarrow> repo_binding \<Rightarrow> export_verdict" where
  "no_export x rb = \<lparr>xv_status = XS_absent, xv_detail = None\<rparr>"

lemma lead_commits: "(case runTool no_export toy_env mint_seams toy_checks toy_stamp lead_ctx lead_call lead_disk of
    (Some ans, d') \<Rightarrow> (case dk_ledger d' of
       Some l' \<Rightarrow> (case requests l' of [q] \<Rightarrow> q_outcome q = RO_committed | _ \<Rightarrow> False) \<and> list_all (\<lambda>a. a_state a = AS_open) (assignments l')
     | None \<Rightarrow> False)
  | _ \<Rightarrow> False)"
  by code_simp

lemma committed_call_is_answered_witness:
  "\<exists>d' l' q a. runTool no_export toy_env mint_seams toy_checks toy_stamp lead_ctx lead_call lead_disk =
      (Some (Inr (ok_answer [(''receiptId'', JStr (q_receiptId q)), (''assignmentId'', JStr (a_assignmentId a)), (''state'', JStr ''open'')])), d') \<and>
    dk_ledger d' = Some l' \<and> requests l' = [q] \<and> assignments l' = [a] \<and> a_requestId a = ''r1''"
proof -
  from lead_commits obtain ans d' l' q
    where run: "runTool no_export toy_env mint_seams toy_checks toy_stamp lead_ctx lead_call lead_disk = (Some ans, d')"
      and l': "dk_ledger d' = Some l'" and q: "requests l' = requests lead_ledger @ [q]" "q_outcome q = RO_committed"
      and st: "list_all (\<lambda>a. a_state a = AS_open) (assignments l')"
    by (auto simp: lead_ledger_def repoKeyFor_empty simp del: runTool.simps split: prod.splits option.splits list.splits)
  have d: "orphanFree lead_disk" "dk_ledger lead_disk = Some lead_ledger" "keyFree lead_ctx lead_call lead_ledger"
    by (simp_all add: orphanFree_def lead_disk_def toy_disk_def lead_call_def lead_ledger_def emptyLedger_def)
  from committed_call_is_answered [OF run d(3) toy_sha_hex toy_time orphanFree_atTip [OF d(1)] d(2) l' q] d(1)
  obtain j where j: "builtFrom lead_ctx lead_call lead_ledger l' (q_receiptId q) j" and "ans = Inr j" by auto
  with run l' q st show ?thesis by (auto simp: lead_call_def lead_ledger_def emptyLedger_def simp del: runTool.simps)
qed

end
