(* ===== verification/Desk_Settlement_Claims.thy ===== *)
theory Desk_Settlement_Claims
  imports Desk_Runner_Settle Desk_Record_Exact Desk_Rollout_Examples
begin

text \<open>
  What a settlement says and what can be done with it: its status is earned by the evidence the
  command carries, and the row it leaves always derives the record that was validated.
\<close>

definition demo_timeline :: "settlement_export option \<Rightarrow> settlement_timeline" where
  "demo_timeline x = \<lparr>tl_nativeHandle = Some ''native-1'', tl_sessionId = None, tl_via = Via_paseo_logs, tl_export = x,
     tl_gap = (if x = None then Some ''no export tool'' else None)\<rparr>"

definition demo_settlement :: "settlement_export option \<Rightarrow> export_verdict option \<Rightarrow> settlement_command" where
  "demo_settlement x v =
     \<lparr>stc_requestId = ''st1'', stc_actorAgentId = ''lead1'', stc_assignmentId = ''asg'', stc_seatAgentId = ''peer1'', stc_seatTitle = ''Parser seat'',
      stc_at = ''2024-01-02T03:04:05.000Z'', stc_deliveryRef = Some ''commit-1'', stc_reworkClosureRef = Some ''review-1'',
      stc_sinkRef = Some ''notes-1'', stc_decisionRef = None, stc_handbackRefs = [], stc_candidateRefs = [],
      stc_resources = [\<lparr>sr_ref = ''worktree-1'', sr_disposition = RD_released\<rparr>], stc_timeline = demo_timeline x,
      stc_exportVerification = v\<rparr>"

lemma demo_settles: "accepts (decideDeskSettlement demo_env demo_host demo_ledger (demo_settlement None None))"
  by code_simp

text \<open>C32. A settlement status is earned, never claimed: the accepted row reads completed exactly if delivery,
  rework closure and sink are all evidenced, no resource is left unknown and the transcript is
  covered (a verified export, or without an export a native handle and a stated gap), and reads
  blocked exactly if the delivery is missing; a completed row carries no gap but a missing
  transcript export or a missing decision reference.\<close>

theorem settlement_status_earned:
  assumes "decideDeskSettlement E H l c = Inr (evs, p)"
  shows "\<exists>s. settlements (apply_tables l p) = settlements l @ [s] \<and>
    (s_status s = ST_completed \<longleftrightarrow> s_deliveryRef s \<noteq> None \<and> s_reworkClosureRef s \<noteq> None \<and> s_sinkRef s \<noteq> None \<and>
       RD_unknown \<notin> set (map sr_disposition (s_resources s)) \<and>
       (case tl_export (s_timeline s) of
          None \<Rightarrow> tl_nativeHandle (s_timeline s) \<noteq> None \<and> tl_gap (s_timeline s) \<noteq> None
        | Some x \<Rightarrow> \<exists>detail. s_exportVerification s = Some (EV_verified detail))) \<and>
    (s_status s = ST_blocked \<longleftrightarrow> s_deliveryRef s = None) \<and>
    (s_status s = ST_completed \<longrightarrow> set (s_gaps s) \<subseteq> {''transcript-export-unavailable'', ''decision-reference-missing''})"
  using assms
proof (rule settlement_decided)
  fix actor a seat seatRow
  assume verdict: "exportVerdictProblem c = None"
    and p: "p = no_tables\<lparr>p_settlements := Some (settlements l @ [settledRow E l actor seat seatRow c])\<rparr>"
  let ?s = "settledRow E l actor seat seatRow c"
  have sel: "s_status ?s = settlementStatus c" "s_gaps ?s = settlementGaps c" "s_timeline ?s = stc_timeline c" "s_resources ?s = stc_resources c"
    "s_deliveryRef ?s = stc_deliveryRef c" "s_reworkClosureRef ?s = stc_reworkClosureRef c" "s_sinkRef ?s = stc_sinkRef c"
    "s_exportVerification ?s = (if tl_export (stc_timeline c) = None then None else map_option committedVerdict (stc_exportVerification c))"
    by (simp_all add: settledRow_def)
  have unknown: "0 < unknownResources c \<longleftrightarrow> RD_unknown \<in> set (map sr_disposition (stc_resources c))"
    by (force simp: unknownResources_def filter_empty_conv image_iff)
  have covered: "transcriptCovered c \<longleftrightarrow> (case tl_export (stc_timeline c) of
      None \<Rightarrow> tl_nativeHandle (stc_timeline c) \<noteq> None \<and> tl_gap (stc_timeline c) \<noteq> None
    | Some x \<Rightarrow> \<exists>detail. s_exportVerification ?s = Some (EV_verified detail))"
    using verdict by (auto simp: transcriptCovered_def exportProven_def sel committedVerdict_def exportVerdictProblem_def split: option.splits)
  have earned: "settlementStatus c = ST_completed \<longleftrightarrow> stc_deliveryRef c \<noteq> None \<and> stc_reworkClosureRef c \<noteq> None \<and>
      stc_sinkRef c \<noteq> None \<and> \<not> 0 < unknownResources c \<and> transcriptCovered c"
    by (simp add: settlementStatus_def)
  have blocked: "settlementStatus c = ST_blocked \<longleftrightarrow> stc_deliveryRef c = None"
    by (simp add: settlementStatus_def)
  have gaps: "set (settlementGaps c) \<subseteq> {''transcript-export-unavailable'', ''decision-reference-missing''}"
    if "settlementStatus c = ST_completed"
    using that by (simp only: earned) (cases "tl_export (stc_timeline c)"; elim conjE; (simp add: settlementGaps_def transcriptCovered_def del: not_None_eq, blast))
  have row: "settlements (apply_tables l p) = settlements l @ [?s]" by (simp add: p)
  show ?thesis
    by (rule exI [of _ ?s], intro conjI)
      (rule row, simp only: sel earned unknown covered [unfolded sel], simp only: sel blocked, simp only: sel, intro impI gaps, assumption)
qed

lemma settlement_status_earned_witness:
  "\<exists>evs p s. decideDeskSettlement demo_env demo_host demo_ledger (demo_settlement None None) = Inr (evs, p) \<and>
     settlements (apply_tables demo_ledger p) = settlements demo_ledger @ [s] \<and> (s_status s = ST_blocked \<longleftrightarrow> s_deliveryRef s = None)"
proof -
  obtain evs p where d: "decideDeskSettlement demo_env demo_host demo_ledger (demo_settlement None None) = Inr (evs, p)"
    using acceptsD [OF demo_settles] by blast
  then show ?thesis using settlement_status_earned [OF d] by (elim exE conjE) (intro exI conjI, assumption+)
qed

text \<open>C31. A settlement can always be exported: once the row is committed, the current owner and the
  settled seat (and every other party of the assignment) get the record derived from the row, and
  it is the very record that passed the validator when the settlement was decided.\<close>

theorem settlement_always_exports:
  assumes "decideDeskSettlement E H l c = Inr (evs, p)" and "settlementFresh E l c"
  shows "\<exists>s owner. settlements (apply_tables l p) = settlements l @ [s] \<and> liveMembership l (stc_actorAgentId c) = Some owner \<and>
    buildSettlementRecord s = commandRecord c (s_seatProvider s) (stc_actorAgentId c) \<and>
    record_valid (validateReportRecordV1 E (desk_options H) (buildSettlementRecord s)) \<and>
    settlementExport E H (apply_tables l p) owner (s_settlementId s) = Inr (s, buildSettlementRecord s) \<and>
    (m_agentId row = Some (stc_seatAgentId c) \<longrightarrow>
      settlementExport E H (apply_tables l p) row (s_settlementId s) = Inr (s, buildSettlementRecord s))"
  using assms(1)
proof (rule settlement_decided)
  fix actor a seat seatRow
  assume act: "requireActor l (stc_actorAgentId c) = Inr actor" and a: "findAssignment l (stc_assignmentId c) = Some a"
    and own: "effectiveOwnerMatches l a actor"
    and valid: "record_valid (validateReportRecordV1 E (desk_options H) (commandRecord c (m_provider seatRow) (actorAgent actor)))"
    and p: "p = no_tables\<lparr>p_settlements := Some (settlements l @ [settledRow E l actor seat seatRow c])\<rparr>"
  let ?s = "settledRow E l actor seat seatRow c" and ?l = "apply_tables l p"
  have agent: "actorAgent actor = stc_actorAgentId c" and live: "liveMembership l (stc_actorAgentId c) = Some actor"
    and id: "m_agentId actor = Some (stc_actorAgentId c)"
    using requireActor_facts [OF act] act by (simp_all add: requireActor_Inr)
  have rec: "buildSettlementRecord ?s = commandRecord c (m_provider seatRow) (actorAgent actor)"
    by (simp add: buildSettlementRecord_def commandRecord_def settledRow_sel)
  have same: "effectiveOwner ?l a = effectiveOwner l a" "liveMembership ?l = liveMembership l" "findAssignment ?l = findAssignment l"
    by (simp_all add: p effectiveOwner_def acceptStream_def liveMembership_def findAssignment_def fun_eq_iff)
  have "s_settlementId ?s \<notin> s_settlementId ` set (settlements l)"
    using assms(2) by (auto simp: settlementFresh_def list_all_iff settledRow_sel agent)
  then have found: "find (\<lambda>s. s_settlementId s = s_settlementId ?s) (settlements ?l) = Some ?s"
    by (simp add: p find_snoc_fresh [of s_settlementId ?s])
  have "deskWorkflowParticipant ?l actor a = Some P_current_owner"
    using own id live by (simp add: deskWorkflowParticipant_def same effectiveOwnerMatches_def)
  then have party: "exportParty ?l actor ?s" using a by (simp add: exportParty_def settledRow_sel same)
  have exported: "exportParty ?l row ?s \<Longrightarrow> settlementExport E H ?l row (s_settlementId ?s) = Inr (?s, buildSettlementRecord ?s)" for row
    using valid by (simp add: settlementExport_def found rec del: apply_tables_sel)
  show ?thesis
    using valid live exported [OF party] exported [of row]
    by (intro exI [of _ ?s] exI [of _ actor]) (simp add: rec settledRow_sel agent exportParty_def, simp add: p)
qed

lemma demo_settlement_fresh: "settlementFresh demo_env demo_ledger (demo_settlement None None)"
  by code_simp

lemma settlement_always_exports_witness:
  "\<exists>p s row. settlementExport demo_env demo_host (apply_tables demo_ledger p) row (s_settlementId s) = Inr (s, buildSettlementRecord s)"
proof -
  obtain evs p where d: "decideDeskSettlement demo_env demo_host demo_ledger (demo_settlement None None) = Inr (evs, p)"
    using acceptsD [OF demo_settles] by blast
  show ?thesis using settlement_always_exports [OF d demo_settlement_fresh] by blast
qed

end
