(* ===== verification/Desk_Capacity.thy ===== *)
theory Desk_Capacity
  imports Desk_Store
begin

text \<open>
  Recovery capacity (plugin/server/desk-task-capacity.ts): how many requests, task entries, rows,
  bytes, seats and events the open obligations of a desk may still need. The store refuses a commit
  whose tables plus this reserve pass a limit, so that stopping, settling, releasing and cleaning
  up always stay possible.

  The source reads its tables as untyped rows, and so does the model: a row is the field list of a
  JSON object, a missing field is \<open>None\<close> where the source reads \<open>undefined\<close>. The reserve is the
  sum of the charges of each obligation, added in the order of the source.
\<close>

subsection \<open>Reading rows\<close>

type_synonym cap_row = "(string \<times> json) list"

fun as_record :: "json option \<Rightarrow> cap_row option" where
  "as_record (Some (JObj fs)) = Some fs"
| "as_record _ = None"

definition cap_rows :: "json list \<Rightarrow> cap_row list" where
  "cap_rows vs = List.map_filter (\<lambda>v. as_record (Some v)) vs"

fun as_text :: "json option \<Rightarrow> string option" where
  "as_text (Some (JStr s)) = Some s"
| "as_text _ = None"

fun as_integer :: "json option \<Rightarrow> int" where
  \<comment> \<open>a safe integer, else 0\<close>
  "as_integer (Some (JInt i)) = (if \<bar>i\<bar> \<le> 2 ^ 53 - 1 then i else 0)"
| "as_integer _ = 0"

abbreviation sub_record :: "cap_row \<Rightarrow> string \<Rightarrow> cap_row option" where
  "sub_record r k \<equiv> as_record (map_of r k)"

abbreviation text_at :: "cap_row \<Rightarrow> string \<Rightarrow> string option" where
  "text_at r k \<equiv> as_text (map_of r k)"

abbreviation reads :: "cap_row \<Rightarrow> string \<Rightarrow> string \<Rightarrow> bool" where
  \<comment> \<open>\<open>row.k === s\<close>\<close>
  "reads r k s \<equiv> map_of r k = Some (JStr s)"

definition opt_get :: "cap_row option \<Rightarrow> string \<Rightarrow> json option" where
  \<comment> \<open>\<open>r?.k\<close>\<close>
  "opt_get r k = Option.bind r (\<lambda>fs. map_of fs k)"

definition array_rows :: "json option \<Rightarrow> cap_row list" where
  \<comment> \<open>the records of an array, nothing for any other value\<close>
  "array_rows v = (case v of Some (JArr xs) \<Rightarrow> cap_rows xs | _ \<Rightarrow> [])"

definition latestRows :: "string \<Rightarrow> cap_row list \<Rightarrow> (string \<times> cap_row) list" where
  \<comment> \<open>the highest revision per id, at the place of the id's first row\<close>
  "latestRows key rows = foldl (\<lambda>m row. case text_at row key of
       None \<Rightarrow> m
     | Some i \<Rightarrow> (case map_of m i of
         None \<Rightarrow> map_set i row m
       | Some prior \<Rightarrow> if as_integer (map_of prior ''revision'') < as_integer (map_of row ''revision'') then map_set i row m else m)) [] rows"

subsection \<open>The reserve\<close>

record task_snapshot =
  sn_taskEntries :: "json list"
  sn_memberships :: "json list"
  sn_assignments :: "json list"
  sn_scopes :: "json list"
  sn_scopeTransitions :: "json list"

record task_reserve =
  tv_requests :: nat
  tv_taskEntries :: nat
  tv_bytes :: nat
  tv_memberships :: nat
  tv_scopes :: nat
  tv_scopeTransitions :: nat
  tv_assignmentSeats :: "(string \<times> nat) list"
  tv_futureEvents :: nat

definition TASK_ENTRY_BYTES :: nat where "TASK_ENTRY_BYTES = 32768 * 2 + 4096"
definition REQUEST_BYTES :: nat where "REQUEST_BYTES = 4096"
definition ASSIGNMENT_SEAT_BYTES :: nat where "ASSIGNMENT_SEAT_BYTES = 4096"

definition globalRecovery :: task_reserve where
  "globalRecovery = \<lparr>tv_requests = 12, tv_taskEntries = 256, tv_bytes = 65536, tv_memberships = 0, tv_scopes = 0,
     tv_scopeTransitions = 0, tv_assignmentSeats = [], tv_futureEvents = 0\<rparr>"

text \<open>The argument of \<open>add\<close>: absent counts are 0, absent bytes and events follow from the counts.\<close>

record cap_cost =
  co_requests :: nat
  co_taskEntries :: nat
  co_memberships :: nat
  co_scopes :: nat
  co_scopeTransitions :: nat
  co_bytes :: "nat option"
  co_futureEvents :: "nat option"

definition no_cost :: cap_cost where
  "no_cost = \<lparr>co_requests = 0, co_taskEntries = 0, co_memberships = 0, co_scopes = 0, co_scopeTransitions = 0,
     co_bytes = None, co_futureEvents = None\<rparr>"

definition entry_cost :: "nat \<Rightarrow> nat \<Rightarrow> cap_cost" where
  \<comment> \<open>\<open>{ requests: n, taskEntries: m, futureEvents: m }\<close>\<close>
  "entry_cost n m = no_cost\<lparr>co_requests := n, co_taskEntries := m, co_futureEvents := Some m\<rparr>"

datatype charge = Add cap_cost | Add_seat string

fun applyCharge :: "nat \<Rightarrow> task_reserve \<Rightarrow> charge \<Rightarrow> task_reserve" where
  \<comment> \<open>the first argument is the size of an auxiliary row\<close>
  "applyCharge aux v (Add c) = v\<lparr>tv_requests := tv_requests v + co_requests c, tv_taskEntries := tv_taskEntries v + co_taskEntries c,
     tv_memberships := tv_memberships v + co_memberships c, tv_scopes := tv_scopes v + co_scopes c,
     tv_scopeTransitions := tv_scopeTransitions v + co_scopeTransitions c,
     tv_futureEvents := tv_futureEvents v + (case co_futureEvents c of Some n \<Rightarrow> n
       | None \<Rightarrow> co_taskEntries c + co_memberships c + co_scopes c + co_scopeTransitions c),
     tv_bytes := tv_bytes v + (case co_bytes c of Some n \<Rightarrow> n
       | None \<Rightarrow> co_taskEntries c * TASK_ENTRY_BYTES + co_requests c * REQUEST_BYTES + co_memberships c * aux +
           co_scopes c * aux + co_scopeTransitions c * aux)\<rparr>"
| "applyCharge aux v (Add_seat aid) = v\<lparr>
     tv_assignmentSeats := map_set aid ((case map_of (tv_assignmentSeats v) aid of None \<Rightarrow> 0 | Some n \<Rightarrow> n) + 1) (tv_assignmentSeats v),
     tv_bytes := tv_bytes v + ASSIGNMENT_SEAT_BYTES, tv_futureEvents := tv_futureEvents v + 1\<rparr>"

subsection \<open>Open scopes\<close>

definition openScopeRows :: "task_snapshot \<Rightarrow> string list" where
  "openScopeRows s =
     (let transitions = latestRows ''scopeId'' (cap_rows (sn_scopeTransitions s)) in
      filter (\<lambda>i. let state = Option.bind (map_of transitions i) (\<lambda>t. text_at t ''to'') in
          state \<noteq> Some ''closed'' \<and> state \<noteq> Some ''advanced'')
        (map fst (latestRows ''scopeId'' (cap_rows (sn_scopes s)))))"

definition scopeCharges :: "nat \<Rightarrow> task_snapshot \<Rightarrow> charge list" where
  "scopeCharges aux s =
     (let n = length (openScopeRows s) in
      if 0 < n then [Add (no_cost\<lparr>co_scopeTransitions := n, co_bytes := Some (n * aux), co_futureEvents := Some n\<rparr>)] else [])"

subsection \<open>Attempts\<close>

text \<open>The rows every charge is computed from: the history and the latest revision of each entity.\<close>

record cap_view =
  cv_history :: "cap_row list"
  cv_current :: "cap_row list"
  cv_members :: "cap_row list"
  cv_assignments :: "cap_row list"

definition capView :: "task_snapshot \<Rightarrow> cap_view" where
  "capView s = (let history = cap_rows (sn_taskEntries s) in
     \<lparr>cv_history = history, cv_current = map snd (latestRows ''entityId'' history),
      cv_members = cap_rows (sn_memberships s), cv_assignments = cap_rows (sn_assignments s)\<rparr>)"

abbreviation current_of :: "cap_view \<Rightarrow> string \<Rightarrow> cap_row list" where
  "current_of V kind \<equiv> filter (\<lambda>r. reads r ''kind'' kind) (cv_current V)"

definition stop_requested :: "cap_row \<Rightarrow> bool" where
  "stop_requested attempt \<longleftrightarrow> opt_get (sub_record attempt ''stop'') ''requested'' = Some (JBool True) \<or> reads attempt ''state'' ''stop-requested''"

definition attempt_terminal :: "cap_row \<Rightarrow> bool" where
  "attempt_terminal attempt \<longleftrightarrow> reads attempt ''state'' ''settled'' \<or> reads attempt ''state'' ''stopped''"

definition may_bind :: "cap_row \<Rightarrow> bool" where
  "may_bind attempt \<longleftrightarrow> \<not> attempt_terminal attempt \<and> \<not> stop_requested attempt \<and> map_of attempt ''member'' = Some JNull"

definition state_among :: "cap_row \<Rightarrow> string list \<Rightarrow> bool" where
  \<comment> \<open>\<open>[...].includes(String(row.state))\<close>, where the state is a string\<close>
  "state_among r ws \<longleftrightarrow> (case text_at r ''state'' of None \<Rightarrow> False | Some w \<Rightarrow> w \<in> set ws)"

definition attemptActions :: "cap_view \<Rightarrow> string \<Rightarrow> cap_row list" where
  "attemptActions V aid = filter (\<lambda>r. reads r ''attemptId'' aid \<and> \<not> reads r ''actionKind'' ''integration'' \<and>
     state_among r [''intended'', ''issued'', ''uncertain'', ''held'']) (current_of V ''action'')"

definition terminalCharges :: "cap_row \<Rightarrow> charge list" where
  "terminalCharges attempt = (if attempt_terminal attempt then []
     else Add (entry_cost 1 2) # (if stop_requested attempt then [] else [Add (entry_cost 1 2)]))"

definition worktreeCharges :: "cap_view \<Rightarrow> cap_row \<Rightarrow> string \<Rightarrow> charge list" where
  "worktreeCharges V attempt aid =
     (if opt_get (sub_record attempt ''placement'') ''kind'' = Some (JStr ''isolated'') \<and>
         \<not> list_ex (\<lambda>r. reads r ''attemptId'' aid \<and> reads r ''resourceKind'' ''worktree'') (current_of V ''resource'') \<and>
         (may_bind attempt \<or> list_ex (\<lambda>r. reads r ''actionKind'' ''place'') (attemptActions V aid))
      then [Add (no_cost\<lparr>co_taskEntries := 1, co_futureEvents := Some 1\<rparr>), Add (entry_cost 1 1)] else [])"

definition pinnedTask :: "cap_view \<Rightarrow> cap_row \<Rightarrow> string \<Rightarrow> string \<Rightarrow> cap_row option" where
  "pinnedTask V attempt asg taskId = find (\<lambda>r. reads r ''kind'' ''task'' \<and> reads r ''taskId'' taskId \<and> reads r ''assignmentId'' asg \<and>
     map_of r ''revision'' = map_of attempt ''taskRevision'') (cv_history V)"

definition claimsAttempt :: "string \<Rightarrow> cap_row \<Rightarrow> bool" where
  "claimsAttempt aid member \<longleftrightarrow> opt_get (sub_record member ''capacityClaim'') ''attemptId'' = Some (JStr aid)"

definition bindCharges :: "nat \<Rightarrow> cap_view \<Rightarrow> cap_row \<Rightarrow> string \<Rightarrow> string \<Rightarrow> string \<Rightarrow> charge list" where
  "bindCharges aux V attempt aid asg taskId =
     (let task = pinnedTask V attempt asg taskId;
          template = (case task of None \<Rightarrow> False | Some t \<Rightarrow> map_of t ''scope'' \<noteq> Some JNull);
          templateBytes = (case Option.bind task (\<lambda>t. map_of t ''scope'') of None \<Rightarrow> 0 | Some v \<Rightarrow> if template then utf8_length (stringify v) else 0);
          transitions = (if template then 3 else 0);
          reuse = sub_record attempt ''reuseTarget'';
          existingClaim = list_ex (claimsAttempt aid) (cv_members V);
          hostAgentId = as_text (opt_get (sub_record attempt ''host'') ''agentId'');
          minted = (case hostAgentId of None \<Rightarrow> False | Some h \<Rightarrow> list_ex (\<lambda>m. reads m ''agentId'' h) (cv_members V));
          seats = (case find (\<lambda>r. reads r ''assignmentId'' asg) (cv_assignments V) of
             None \<Rightarrow> [] | Some a \<Rightarrow> array_rows (map_of a ''seats''));
          claimed = List.map_filter (\<lambda>m. text_at m ''membershipId'') (filter (claimsAttempt aid) (cv_members V));
          attachedClaim = list_ex (\<lambda>seat. (case text_at seat ''membershipId'' of None \<Rightarrow> '''' | Some i \<Rightarrow> i) \<in> set claimed) seats in
      [Add \<lparr>co_requests = 1, co_taskEntries = 3, co_memberships = 0, co_scopes = (if template then 1 else 0), co_scopeTransitions = transitions,
         co_bytes = Some (3 * TASK_ENTRY_BYTES + REQUEST_BYTES + (if template then max aux (templateBytes * 2 + 8192) else 0) + transitions * aux),
         co_futureEvents = Some (4 + (if template then 3 else 0))\<rparr>,
       Add (entry_cost 2 2)] @
      (if reuse = None \<and> \<not> existingClaim \<and> \<not> minted
       then [Add (no_cost\<lparr>co_requests := 1, co_memberships := 1, co_futureEvents := Some 1\<rparr>)] else []) @
      (if reuse = None \<and> \<not> attachedClaim then [Add_seat asg] else []))"

definition receiptCharge :: "cap_view \<Rightarrow> cap_row \<Rightarrow> cap_row \<Rightarrow> charge" where
  "receiptCharge V attempt action =
     (let changes = state_among attempt [''reserved'', ''bound'', ''dispatched'', ''running'', ''reconciliation-required'', ''stop-requested''];
          pendingSend = reads action ''actionKind'' ''send'' \<and> list_ex (\<lambda>r. map_of r ''taskId'' = map_of action ''taskId'' \<and>
            map_of r ''actionId'' = map_of action ''actionId'' \<and> reads r ''state'' ''pending'') (current_of V ''delivery'');
          receiptRows = 1 + (if changes then 1 else 0) + (if pendingSend then 1 else 0);
          issueRows = (if reads action ''state'' ''intended'' then 1 else 0) in
      Add (entry_cost (1 + issueRows) (receiptRows + issueRows)))"

definition attemptCharges :: "nat \<Rightarrow> cap_view \<Rightarrow> cap_row \<Rightarrow> charge list" where
  "attemptCharges aux V attempt = (case (text_at attempt ''attemptId'', text_at attempt ''assignmentId'', text_at attempt ''taskId'') of
       (Some aid, Some asg, Some taskId) \<Rightarrow>
         terminalCharges attempt @ worktreeCharges V attempt aid @
         (if may_bind attempt then bindCharges aux V attempt aid asg taskId else []) @
         map (receiptCharge V attempt) (attemptActions V aid)
     | _ \<Rightarrow> [])"

subsection \<open>Deliveries and resources\<close>

definition deliveryCharges :: "cap_row \<Rightarrow> charge list" where
  "deliveryCharges d = (if reads d ''state'' ''handled'' then []
     else let n = (if reads d ''state'' ''responsibility-acknowledged'' then 1 else 2) in [Add (entry_cost n n)])"

definition integrations :: "cap_view \<Rightarrow> cap_row list" where
  "integrations V = filter (\<lambda>r. reads r ''actionKind'' ''integration'') (current_of V ''action'')"

definition integrationIds :: "cap_view \<Rightarrow> string list" where
  "integrationIds V = List.map_filter (\<lambda>r. text_at r ''actionId'') (integrations V)"

definition resourceCharges :: "string list \<Rightarrow> cap_row \<Rightarrow> charge list" where
  "resourceCharges ids r =
     (if reads r ''disposition'' ''released'' then []
      else if (case text_at r ''actionId'' of None \<Rightarrow> False | Some i \<Rightarrow> i \<in> set ids) then []
      else [Add (entry_cost 1 1)])"

subsection \<open>Integrations\<close>

definition verifyIntent :: "cap_row \<Rightarrow> bool" where
  "verifyIntent r \<longleftrightarrow> reads r ''phase'' ''discharge'' \<and> reads r ''state'' ''intended'' \<and>
     opt_get (sub_record r ''body'') ''cleanupStep'' = Some (JStr ''verify-account'')"

definition verifyCycleRemaining :: "cap_row list \<Rightarrow> cap_row \<Rightarrow> bool \<Rightarrow> nat" where
  \<comment> \<open>requests and entries alike\<close>
  "verifyCycleRemaining historyRows latest hasVerification =
     (if hasVerification then 0
      else let used = length (filter verifyIntent historyRows);
             currentCycle = (if opt_get (sub_record latest ''body'') ''cleanupStep'' = Some (JStr ''verify-account'') \<and> reads latest ''phase'' ''discharge''
               then (if reads latest ''state'' ''intended'' then 2 else if reads latest ''state'' ''issued'' then 1 else 0) else 0) in
        currentCycle + (2 - used) * 3)"

definition permitId :: "cap_row \<Rightarrow> string option" where
  "permitId r = as_text (opt_get (as_record (opt_get (sub_record r ''body'') ''permit'')) ''resourceId'')"

definition removalOf :: "string \<Rightarrow> cap_row \<Rightarrow> bool" where
  "removalOf resourceId r \<longleftrightarrow> reads r ''phase'' ''discharge'' \<and>
     opt_get (sub_record r ''body'') ''cleanupStep'' = Some (JStr ''remove-resource'') \<and> permitId r = Some resourceId"

record cycle_cost =
  cy_requests :: nat
  cy_entries :: nat
  cy_releaseEntry :: nat
  cy_canComplete :: bool

definition no_cycle :: cycle_cost where
  "no_cycle = \<lparr>cy_requests = 0, cy_entries = 0, cy_releaseEntry = 0, cy_canComplete = False\<rparr>"

definition resourceCycleRemaining :: "cap_row list \<Rightarrow> cap_row \<Rightarrow> string \<Rightarrow> bool \<Rightarrow> cycle_cost" where
  "resourceCycleRemaining historyRows latest resourceId released =
     (if released then no_cycle
      else let used = length (filter (\<lambda>r. removalOf resourceId r \<and> reads r ''state'' ''intended'') historyRows);
             active = removalOf resourceId latest \<and> (reads latest ''state'' ''intended'' \<or> reads latest ''state'' ''issued'') in
        if 2 \<le> used \<and> \<not> active then no_cycle
        else let current = (if active then (if reads latest ''state'' ''intended'' then 2 else 1) else 0); future = 2 - used;
               cycles = current + future * 3; canComplete = 0 < current \<or> 0 < future in
          \<lparr>cy_requests = cycles, cy_entries = cycles, cy_releaseEntry = (if canComplete then 1 else 0), cy_canComplete = canComplete\<rparr>)"

definition positiveLand :: "cap_row \<Rightarrow> bool" where
  "positiveLand r \<longleftrightarrow> (case sub_record r ''receipt'' of
       None \<Rightarrow> False
     | Some rc \<Rightarrow> reads rc ''status'' ''observed'' \<and> map_of rc ''backupIntegrity'' = Some (JBool True) \<and>
         (reads rc ''recoveryClassification'' ''full-applied'' \<or> reads rc ''recoveryClassification'' ''original'') \<and>
         (reads rc ''phase'' ''land'' \<or> reads rc ''phase'' ''reconcile''))"

definition cleanupOnly :: "cap_row \<Rightarrow> bool" where
  "cleanupOnly action \<longleftrightarrow> reads action ''phase'' ''discharge'' \<or>
     reads action ''phase'' ''reconcile'' \<and>
       (opt_get (sub_record action ''receipt'') ''cleanupObservation'' \<noteq> None \<or> opt_get (sub_record action ''receipt'') ''cleanupTrigger'' \<noteq> None)"

definition phaseSteps :: "cap_row \<Rightarrow> bool \<Rightarrow> nat" where
  \<comment> \<open>what the stage, check, land and reconcile phases still take, requests and entries alike\<close>
  "phaseSteps action landed =
     (if cleanupOnly action then 0
      else (if reads action ''phase'' ''stage'' \<and> reads action ''state'' ''issued'' then 1 else 0) +
        (if reads action ''phase'' ''stage'' \<and> (case opt_get (sub_record action ''verification'') ''recipeIds'' of Some (JArr (_ # _)) \<Rightarrow> True | _ \<Rightarrow> False) then 3
         else if reads action ''phase'' ''check'' then (if reads action ''state'' ''intended'' then 2 else if reads action ''state'' ''issued'' then 1 else 0)
         else 0) +
        (if reads action ''phase'' ''stage'' \<or> reads action ''phase'' ''check'' then 4
         else if reads action ''phase'' ''land'' then (if reads action ''state'' ''intended'' then 3 else if reads action ''state'' ''issued'' then 2 else 1)
         else if reads action ''phase'' ''reconcile'' \<and> \<not> landed then 1 else 0))"

definition canReachLand :: "cap_row \<Rightarrow> bool" where
  "canReachLand action \<longleftrightarrow> \<not> cleanupOnly action \<and>
     (case text_at action ''phase'' of None \<Rightarrow> False | Some p \<Rightarrow> p \<in> {''stage'', ''check'', ''land'', ''reconcile''})"

definition cleanupCandidate :: "cap_row \<Rightarrow> cap_row option" where
  "cleanupCandidate action = (case as_record (opt_get (sub_record action ''cleanupVerification'') ''candidate'') of
       Some c \<Rightarrow> Some c | None \<Rightarrow> as_record (opt_get (sub_record action ''body'') ''cleanupCandidate''))"

definition candidateResources :: "cap_row \<Rightarrow> cap_row list" where
  "candidateResources action = array_rows (opt_get (cleanupCandidate action) ''resources'')"

definition first_text :: "string option list \<Rightarrow> string option" where
  \<comment> \<open>\<open>a ?? b ?? c\<close>\<close>
  "first_text xs = (case find (\<lambda>x. x \<noteq> None) xs of None \<Rightarrow> None | Some x \<Rightarrow> x)"

definition rolePath :: "cap_row \<Rightarrow> string \<Rightarrow> string \<Rightarrow> string option" where
  \<comment> \<open>the path of the stage (\<open>stageDir\<close>) or the backup (\<open>backupDir\<close>)\<close>
  "rolePath action dir rol = first_text [as_text (opt_get (sub_record action ''recoveryPlan'') dir), text_at action dir,
     as_text (opt_get (find (\<lambda>i. reads i ''role'' rol) (candidateResources action)) ''resourceKey'')]"

definition roleResource :: "cap_row list \<Rightarrow> cap_row \<Rightarrow> string option \<Rightarrow> string \<Rightarrow> cap_row option" where
  "roleResource resources action path rol = (case path of
       Some p \<Rightarrow> find (\<lambda>i. reads i ''resourceKey'' p) resources
     | None \<Rightarrow> (case as_text (opt_get (find (\<lambda>i. reads i ''role'' rol) (candidateResources action)) ''resourceId'') of
         None \<Rightarrow> None | Some i \<Rightarrow> find (\<lambda>r. reads r ''resourceId'' i) resources))"

definition defaultResource :: "string \<Rightarrow> cap_row option \<Rightarrow> string option \<Rightarrow> cap_row" where
  "defaultResource rol row path =
     [(''role'', JStr rol), (''resourceId'', json_opt JStr (as_text (opt_get row ''resourceId''))), (''resourceKey'', json_opt JStr path),
      (''disposition'', case opt_get row ''disposition'' of None \<Rightarrow> JStr ''retained'' | Some JNull \<Rightarrow> JStr ''retained'' | Some v \<Rightarrow> v)]"

definition resourceDefs :: "cap_row list \<Rightarrow> cap_row \<Rightarrow> cap_row list" where
  "resourceDefs resources action =
     (let pathStage = rolePath action ''stageDir'' ''stage''; pathBackup = rolePath action ''backupDir'' ''backup'';
          stage = roleResource resources action pathStage ''stage''; backup = roleResource resources action pathBackup ''backup'' in
      if candidateResources action \<noteq> [] then candidateResources action
      else if sub_record action ''recoveryPlan'' \<noteq> None \<or> canReachLand action
      then [defaultResource ''stage'' stage pathStage, defaultResource ''backup'' backup pathBackup]
      else (case stage of None \<Rightarrow> []
        | Some r \<Rightarrow> [(''role'', JStr ''stage'') # filter (\<lambda>(k, _). k \<in> {''resourceId'', ''resourceKey'', ''disposition''}) r]))"

definition integrationCharges :: "cap_view \<Rightarrow> cap_row \<Rightarrow> charge list" where
  "integrationCharges V action = (case text_at action ''actionId'' of
       None \<Rightarrow> []
     | Some actionId \<Rightarrow>
        (let historyRows = sort_key (\<lambda>r. as_integer (map_of r ''revision''))
               (filter (\<lambda>r. reads r ''kind'' ''action'' \<and> reads r ''actionId'' actionId) (cv_history V));
             resources = filter (\<lambda>r. reads r ''actionId'' actionId) (current_of V ''resource'');
             landed = list_ex positiveLand historyRows;
             stageResource = roleResource resources action (rolePath action ''stageDir'' ''stage'') ''stage'';
             backupResource = roleResource resources action (rolePath action ''backupDir'' ''backup'') ''backup'';
             missing = (if canReachLand action \<and> stageResource = None then 1 else 0) + (if canReachLand action \<and> backupResource = None then 1 else 0 :: nat);
             defs = resourceDefs resources action;
             def_id = (\<lambda>rol row. first_text [as_text (opt_get (find (\<lambda>i. reads i ''role'' rol) defs) ''resourceId''), as_text (opt_get row ''resourceId'')]);
             stageId = def_id ''stage'' stageResource; backupId = def_id ''backup'' backupResource;
             row_of = (\<lambda>rid row. case rid of None \<Rightarrow> row | Some i \<Rightarrow> (case find (\<lambda>r. reads r ''resourceId'' i) resources of None \<Rightarrow> row | Some r \<Rightarrow> Some r));
             released = (\<lambda>row. opt_get row ''disposition'' = Some (JStr ''released''));
             stageRow = row_of stageId stageResource; backupRow = row_of backupId backupResource;
             stageCost = resourceCycleRemaining historyRows action (case stageId of None \<Rightarrow> ''__stage__'' | Some i \<Rightarrow> i) (released stageRow);
             backupCost = (if released stageRow \<or> cy_canComplete stageCost
               then resourceCycleRemaining historyRows action (case backupId of None \<Rightarrow> ''__backup__'' | Some i \<Rightarrow> i) (released backupRow) else no_cycle);
             cleaning = landed \<or> opt_get (cleanupCandidate action) ''basis'' = Some (JStr ''stage-only'') \<or> canReachLand action;
             verify = (if cleaning then verifyCycleRemaining historyRows action (sub_record action ''cleanupVerification'' \<noteq> None) else 0);
             steps = phaseSteps action landed + verify;
             rq = steps + (if cleaning then cy_requests stageCost + cy_requests backupCost else 0);
             en = steps + (if cleaning then cy_entries stageCost + cy_entries backupCost + cy_releaseEntry stageCost + cy_releaseEntry backupCost else 0) in
         replicate missing (Add (no_cost\<lparr>co_taskEntries := 1, co_futureEvents := Some 1\<rparr>)) @
         (if 0 < rq \<or> 0 < en then [Add (entry_cost rq en)] else [])))"

subsection \<open>All charges\<close>

definition taskCharges :: "nat \<Rightarrow> task_snapshot \<Rightarrow> charge list" where
  "taskCharges aux s =
     (let V = capView s in
      scopeCharges aux s @ concat (map (attemptCharges aux V) (current_of V ''attempt'')) @
      concat (map deliveryCharges (current_of V ''delivery'')) @
      concat (map (resourceCharges (integrationIds V)) (current_of V ''resource'')) @
      concat (map (integrationCharges V) (integrations V)))"

definition resolveDeskTaskCapacityReserve :: "task_snapshot \<Rightarrow> nat \<Rightarrow> task_reserve" where
  \<comment> \<open>the second argument is the payload limit of an event\<close>
  "resolveDeskTaskCapacityReserve s eventPayloadBytes =
     (let aux = 32768 + eventPayloadBytes + 4096 in foldl (applyCharge aux) globalRecovery (taskCharges aux s))"

text \<open>The check of the commit: the next tables and the reserve of what they still owe, against every limit.\<close>

definition LIMIT_taskEntries :: nat where "LIMIT_taskEntries = 4096"

definition seatOverflow :: "task_reserve \<Rightarrow> json \<Rightarrow> bool" where
  "seatOverflow v assignment = (let row = (case as_record (Some assignment) of None \<Rightarrow> [] | Some r \<Rightarrow> r);
      seats = (case map_of row ''seats'' of Some (JArr xs) \<Rightarrow> length xs | _ \<Rightarrow> 0);
      aid = (case text_at row ''assignmentId'' of None \<Rightarrow> [] | Some i \<Rightarrow> i) in
    LIMIT_assignmentSeats < seats + (case map_of (tv_assignmentSeats v) aid of None \<Rightarrow> 0 | Some n \<Rightarrow> n))"

definition reserveRefuses :: "nat \<Rightarrow> task_snapshot \<Rightarrow> bool" where
  \<comment> \<open>the first argument counts the recorded requests, without the one being committed\<close>
  "reserveRefuses n s = (let v = resolveDeskTaskCapacityReserve s LIMIT_eventPayloadBytes in
     LIMIT_requests < n + 1 + tv_requests v \<or> LIMIT_taskEntries < length (sn_taskEntries s) + tv_taskEntries v \<or>
     LIMIT_memberships < length (sn_memberships s) + tv_memberships v \<or> LIMIT_scopes < length (sn_scopes s) + tv_scopes v \<or>
     LIMIT_scopeTransitions < length (sn_scopeTransitions s) + tv_scopeTransitions v \<or>
     list_ex (seatOverflow v) (sn_assignments s))"

end
