(* ===== verification/Desk_Capacity_Funding.thy ===== *)
theory Desk_Capacity_Funding
  imports Desk_Capacity
begin

text \<open>
  The reserve as a potential. Each dimension of the reserve is the sum of what the charges weigh in
  it, and the edges that discharge an obligation (acknowledging and handling a delivery, releasing a
  resource, requesting and settling a stop) free at least what they write. So a desk that fits its
  limits still fits them after such an edge: the store never refuses it for capacity.
\<close>

subsection \<open>Dimensions\<close>

datatype cap_dim = D_requests | D_taskEntries | D_memberships | D_scopes | D_scopeTransitions | D_bytes | D_futureEvents | D_seats string

fun held :: "cap_dim \<Rightarrow> task_reserve \<Rightarrow> nat" where
  "held D_requests v = tv_requests v"
| "held D_taskEntries v = tv_taskEntries v"
| "held D_memberships v = tv_memberships v"
| "held D_scopes v = tv_scopes v"
| "held D_scopeTransitions v = tv_scopeTransitions v"
| "held D_bytes v = tv_bytes v"
| "held D_futureEvents v = tv_futureEvents v"
| "held (D_seats aid) v = (case map_of (tv_assignmentSeats v) aid of None \<Rightarrow> 0 | Some n \<Rightarrow> n)"

definition weigh :: "nat \<Rightarrow> cap_dim \<Rightarrow> charge \<Rightarrow> nat" where
  \<comment> \<open>what a charge adds to the empty reserve\<close>
  "weigh aux d c = held d (applyCharge aux (globalRecovery\<lparr>tv_requests := 0, tv_taskEntries := 0, tv_bytes := 0\<rparr>) c)"

abbreviation total :: "nat \<Rightarrow> cap_dim \<Rightarrow> charge list \<Rightarrow> nat" where
  "total aux d cs \<equiv> sum_list (map (weigh aux d) cs)"

lemma held_charge: "held d (applyCharge aux v c) = held d v + weigh aux d c"
  by (cases c; cases d) (auto simp: weigh_def globalRecovery_def split: option.splits)

lemma held_charges: "held d (foldl (applyCharge aux) v cs) = held d v + total aux d cs"
  by (induction cs arbitrary: v) (simp_all add: held_charge)

abbreviation entry_weight :: "nat \<Rightarrow> cap_dim \<Rightarrow> nat \<Rightarrow> nat \<Rightarrow> nat" where
  "entry_weight aux d n m \<equiv> weigh aux d (Add (entry_cost n m))"

lemma entry_weight_add: "entry_weight aux d n m + entry_weight aux d n' m' = entry_weight aux d (n + n') (m + m')"
  by (cases d) (simp_all add: weigh_def globalRecovery_def entry_cost_def no_cost_def algebra_simps)

lemma entry_weight_mono: "n \<le> n' \<Longrightarrow> m \<le> m' \<Longrightarrow> entry_weight aux d n m \<le> entry_weight aux d n' m'"
  by (cases d) (simp_all add: weigh_def globalRecovery_def entry_cost_def no_cost_def add_mono)

lemma entry_weight_counts [simp]: "entry_weight aux D_requests n m = n" "entry_weight aux D_taskEntries n m = m"
  by (simp_all add: weigh_def globalRecovery_def entry_cost_def no_cost_def)

lemma total_concat: "total aux d (concat (map f xs)) = sum_list (map (\<lambda>x. total aux d (f x)) xs)"
  by (induction xs) simp_all

subsection \<open>Replacing a head\<close>

lemma map_set_present:
  assumes "map_of m i = Some p"
  obtains xs ys where "m = xs @ (i, p) # ys" and "map_set i r m = xs @ (i, r) # ys"
proof -
  from assms have "\<exists>xs ys. m = xs @ (i, p) # ys \<and> map_set i r m = xs @ (i, r) # ys"
  proof (induction m)
    case (Cons a m)
    obtain k v where a: "a = (k, v)" by (cases a)
    show ?case
    proof (cases "k = i")
      case True
      with Cons.prems a show ?thesis by (intro exI [of _ "[]"] exI [of _ m]) simp
    next
      case False
      with Cons a obtain xs ys where "m = xs @ (i, p) # ys" "map_set i r m = xs @ (i, r) # ys" by auto
      with False a show ?thesis by (intro exI [of _ "a # xs"] exI [of _ ys]) simp
    qed
  qed simp
  then show thesis using that by blast
qed

lemma map_set_absent: "map_of m i = None \<Longrightarrow> map_set i r m = m @ [(i, r)]"
  by (induction m) (auto split: if_splits)

definition isHead :: "cap_row list \<Rightarrow> cap_row \<Rightarrow> bool" where
  \<comment> \<open>the current revision of its entity\<close>
  "isHead H p \<longleftrightarrow> (\<exists>i. map_of (latestRows ''entityId'' H) i = Some p)"

definition advances :: "cap_row list \<Rightarrow> cap_row \<Rightarrow> cap_row \<Rightarrow> string \<Rightarrow> bool" where
  \<comment> \<open>\<open>r\<close> is the next revision of the current row \<open>p\<close> of the given kind\<close>
  "advances H p r kind \<longleftrightarrow> (case text_at r ''entityId'' of
       None \<Rightarrow> False
     | Some i \<Rightarrow> map_of (latestRows ''entityId'' H) i = Some p) \<and>
     as_integer (map_of p ''revision'') < as_integer (map_of r ''revision'') \<and> reads p ''kind'' kind \<and> reads r ''kind'' kind"

lemma latestRows_snoc:
  "latestRows key (H @ [r]) = (case text_at r key of
     None \<Rightarrow> latestRows key H
   | Some i \<Rightarrow> (case map_of (latestRows key H) i of
       None \<Rightarrow> map_set i r (latestRows key H)
     | Some prior \<Rightarrow> if as_integer (map_of prior ''revision'') < as_integer (map_of r ''revision'') then map_set i r (latestRows key H)
         else latestRows key H))"
  unfolding latestRows_def foldl_append foldl.simps ..

lemma advance_replaces:
  assumes "advances H p r kind"
  obtains xs ys where "map snd (latestRows ''entityId'' H) = xs @ p # ys"
    and "map snd (latestRows ''entityId'' (H @ [r])) = xs @ r # ys"
proof -
  from assms obtain i where i: "text_at r ''entityId'' = Some i" "map_of (latestRows ''entityId'' H) i = Some p"
    and "as_integer (map_of p ''revision'') < as_integer (map_of r ''revision'')"
    by (auto simp: advances_def split: option.splits)
  then have s: "latestRows ''entityId'' (H @ [r]) = map_set i r (latestRows ''entityId'' H)" by (simp add: latestRows_snoc)
  from map_set_present [OF i(2), of r] obtain xs ys
    where "latestRows ''entityId'' H = xs @ (i, p) # ys" "map_set i r (latestRows ''entityId'' H) = xs @ (i, r) # ys" .
  with s show thesis by (intro that [of "map snd xs" "map snd ys"]) simp_all
qed

lemma advance_kinds:
  assumes "advances H p r kind"
  obtains xs ys where "\<forall>k. filter (\<lambda>x. reads x ''kind'' k) (map snd (latestRows ''entityId'' H)) =
      filter (\<lambda>x. reads x ''kind'' k) xs @ (if k = kind then [p] else []) @ filter (\<lambda>x. reads x ''kind'' k) ys"
    and "\<forall>k. filter (\<lambda>x. reads x ''kind'' k) (map snd (latestRows ''entityId'' (H @ [r]))) =
      filter (\<lambda>x. reads x ''kind'' k) xs @ (if k = kind then [r] else []) @ filter (\<lambda>x. reads x ''kind'' k) ys"
proof -
  have "reads p ''kind'' kind" "reads r ''kind'' kind" using assms by (simp_all add: advances_def)
  moreover obtain xs ys where "map snd (latestRows ''entityId'' H) = xs @ p # ys"
    "map snd (latestRows ''entityId'' (H @ [r])) = xs @ r # ys"
    by (rule advance_replaces [OF assms])
  ultimately show thesis by (intro that [of xs ys]) simp_all
qed

lemma fresh_control:
  assumes "text_at c ''entityId'' = Some i" and "map_of (latestRows ''entityId'' H) i = None" and "reads c ''kind'' ''control''" and "k \<noteq> ''control''"
  shows "filter (\<lambda>x. reads x ''kind'' k) (map snd (latestRows ''entityId'' (H @ [c]))) =
    filter (\<lambda>x. reads x ''kind'' k) (map snd (latestRows ''entityId'' H))"
  using assms by (simp add: latestRows_snoc map_set_absent)

subsection \<open>Charges under a smaller view\<close>

text \<open>
  A view covers another if every obligation that charges anything in the second is still charged in
  the first: members, assignments, tasks and actions are the same, no worktree is lost and no send
  becomes pending.
\<close>

definition hasWorktree :: "cap_view \<Rightarrow> string \<Rightarrow> bool" where
  "hasWorktree V aid \<longleftrightarrow> list_ex (\<lambda>r. reads r ''attemptId'' aid \<and> reads r ''resourceKind'' ''worktree'') (current_of V ''resource'')"

definition pendingFor :: "cap_view \<Rightarrow> cap_row \<Rightarrow> bool" where
  "pendingFor V action \<longleftrightarrow> list_ex (\<lambda>r. map_of r ''taskId'' = map_of action ''taskId'' \<and> map_of r ''actionId'' = map_of action ''actionId'' \<and>
     reads r ''state'' ''pending'') (current_of V ''delivery'')"

definition tasksOf :: "cap_view \<Rightarrow> cap_row list" where
  "tasksOf V = filter (\<lambda>r. reads r ''kind'' ''task'') (cv_history V)"

definition coveredBy :: "cap_view \<Rightarrow> cap_view \<Rightarrow> bool" where
  "coveredBy V' V \<longleftrightarrow> cv_members V' = cv_members V \<and> cv_assignments V' = cv_assignments V \<and> tasksOf V' = tasksOf V \<and>
     current_of V' ''action'' = current_of V ''action'' \<and> hasWorktree V' = hasWorktree V \<and> (\<forall>a. pendingFor V' a \<longrightarrow> pendingFor V a)"

lemma find_filter: "find (\<lambda>r. P r \<and> Q r) xs = find Q (filter P xs)"
  by (induction xs) auto

lemma covered_task: "coveredBy V' V \<Longrightarrow> pinnedTask V' = pinnedTask V"
  by (simp add: pinnedTask_def find_filter [of "\<lambda>r. reads r ''kind'' ''task''"] coveredBy_def tasksOf_def fun_eq_iff)

lemma covered_bind: "coveredBy V' V \<Longrightarrow> bindCharges aux V' = bindCharges aux V"
proof (intro ext)
  fix attempt aid asg taskId
  assume c: "coveredBy V' V"
  then have "cv_members V' = cv_members V" "cv_assignments V' = cv_assignments V" by (simp_all add: coveredBy_def)
  then show "bindCharges aux V' attempt aid asg taskId = bindCharges aux V attempt aid asg taskId"
    unfolding bindCharges_def by (simp only: covered_task [OF c])
qed

lemma covered_actions: "coveredBy V' V \<Longrightarrow> attemptActions V' = attemptActions V"
  by (simp add: fun_eq_iff attemptActions_def coveredBy_def)

lemma covered_worktree: "coveredBy V' V \<Longrightarrow> worktreeCharges V' = worktreeCharges V"
  using covered_actions [of V' V] unfolding worktreeCharges_def hasWorktree_def [symmetric] by (simp add: fun_eq_iff coveredBy_def)

lemma covered_receipt:
  assumes "coveredBy V' V"
  shows "weigh aux d (receiptCharge V' a x) \<le> weigh aux d (receiptCharge V a x)"
  using assms unfolding receiptCharge_def pendingFor_def [symmetric] coveredBy_def Let_def
  by (intro entry_weight_mono) auto

lemma covered_attempt:
  assumes "coveredBy V' V"
  shows "total aux d (attemptCharges aux V' a) \<le> total aux d (attemptCharges aux V a)"
  using covered_receipt [OF assms, of aux d a] covered_bind [OF assms] covered_worktree [OF assms] covered_actions [OF assms]
  by (auto simp: attemptCharges_def comp_def split: option.splits intro!: sum_list_mono)

definition actionsOf :: "cap_view \<Rightarrow> cap_row list" where
  "actionsOf V = filter (\<lambda>r. reads r ''kind'' ''action'') (cv_history V)"

definition resourcesOf :: "cap_view \<Rightarrow> string \<Rightarrow> cap_row list" where
  "resourcesOf V i = filter (\<lambda>r. reads r ''actionId'' i) (current_of V ''resource'')"

lemma same_integration:
  assumes "actionsOf V' = actionsOf V" and "\<And>i. text_at a ''actionId'' = Some i \<Longrightarrow> resourcesOf V' i = resourcesOf V i"
  shows "integrationCharges V' a = integrationCharges V a"
proof (cases "text_at a ''actionId''")
  case (Some i)
  have "filter (\<lambda>r. reads r ''kind'' ''action'' \<and> reads r ''actionId'' i) (cv_history V') =
      filter (\<lambda>r. reads r ''kind'' ''action'' \<and> reads r ''actionId'' i) (cv_history V)"
    using arg_cong [OF assms(1), of "filter (\<lambda>r. reads r ''actionId'' i)"] by (simp add: actionsOf_def conj_commute)
  with assms(2) [OF Some] Some show ?thesis
    unfolding integrationCharges_def resourcesOf_def by (simp only: option.case)
qed (simp add: integrationCharges_def)

lemma integration_id: "a \<in> set (integrations V) \<Longrightarrow> text_at a ''actionId'' = Some i \<Longrightarrow> i \<in> set (integrationIds V)"
  by (force simp: integrationIds_def map_filter_def)

subsection \<open>Recovery edges\<close>

definition keeps_fields :: "cap_row \<Rightarrow> cap_row \<Rightarrow> string list \<Rightarrow> bool" where
  "keeps_fields p r ks \<longleftrightarrow> list_all (\<lambda>k. map_of r k = map_of p k) ks"

definition fresh_row :: "cap_row list \<Rightarrow> cap_row \<Rightarrow> bool" where
  "fresh_row H c \<longleftrightarrow> (case text_at c ''entityId'' of None \<Rightarrow> False | Some i \<Rightarrow> map_of (latestRows ''entityId'' H) i = None)"

abbreviation live_attempt :: "cap_row \<Rightarrow> bool" where
  "live_attempt p \<equiv> state_among p [''reserved'', ''bound'', ''dispatched'', ''running'', ''reconciliation-required'']"

abbreviation attempt_pins :: "string list" where
  "attempt_pins \<equiv> [''attemptId'', ''assignmentId'', ''taskId'', ''placement'']"

definition pinned_attempt :: "cap_row \<Rightarrow> bool" where
  "pinned_attempt p \<longleftrightarrow> text_at p ''attemptId'' \<noteq> None \<and> text_at p ''assignmentId'' \<noteq> None \<and> text_at p ''taskId'' \<noteq> None"

inductive recovery_edge :: "string list \<Rightarrow> cap_row list \<Rightarrow> cap_row list \<Rightarrow> bool"
  for ids :: "string list" and H :: "cap_row list" where
  acknowledge: "advances H p r ''delivery'' \<Longrightarrow> reads p ''state'' ''pending'' \<or> reads p ''state'' ''host-accepted'' \<Longrightarrow>
    reads r ''state'' ''responsibility-acknowledged'' \<Longrightarrow> recovery_edge ids H [r]"
| handle: "advances H p r ''delivery'' \<Longrightarrow> reads p ''state'' ''responsibility-acknowledged'' \<Longrightarrow> reads r ''state'' ''handled'' \<Longrightarrow>
    recovery_edge ids H [r]"
| release: "advances H p r ''resource'' \<Longrightarrow> \<not> reads p ''disposition'' ''released'' \<Longrightarrow> reads r ''disposition'' ''released'' \<Longrightarrow>
    keeps_fields p r [''attemptId'', ''actionId'', ''resourceKind''] \<Longrightarrow> \<forall>i \<in> set ids. text_at p ''actionId'' \<noteq> Some i \<Longrightarrow>
    recovery_edge ids H [r]"
| stop: "advances H p r ''attempt'' \<Longrightarrow> pinned_attempt p \<Longrightarrow> live_attempt p \<Longrightarrow> \<not> stop_requested p \<Longrightarrow> reads r ''state'' ''stop-requested'' \<Longrightarrow>
    keeps_fields p r attempt_pins \<Longrightarrow> fresh_row (H @ [r]) c \<Longrightarrow> reads c ''kind'' ''control'' \<Longrightarrow> recovery_edge ids H [r, c]"
| settle: "advances H p r ''attempt'' \<Longrightarrow> \<not> attempt_terminal p \<Longrightarrow> attempt_terminal r \<Longrightarrow> keeps_fields p r attempt_pins \<Longrightarrow>
    pinned_attempt p \<Longrightarrow>
    cs = [] \<or> (\<exists>c. cs = [c] \<and> fresh_row (H @ [r]) c \<and> reads c ''kind'' ''control'') \<Longrightarrow> recovery_edge ids H (r # cs)"

inductive_cases recovery_edgeE: "recovery_edge ids H rs"

definition appendEntries :: "task_snapshot \<Rightarrow> cap_row list \<Rightarrow> task_snapshot" where
  "appendEntries s rs = s\<lparr>sn_taskEntries := sn_taskEntries s @ map JObj rs\<rparr>"

lemma cap_rows_append: "cap_rows (vs @ map JObj rs) = cap_rows vs @ rs"
  by (simp add: cap_rows_def map_filter_def comp_def)

lemma view_append:
  "cv_history (capView (appendEntries s rs)) = cap_rows (sn_taskEntries s) @ rs"
  "cv_current (capView (appendEntries s rs)) = map snd (latestRows ''entityId'' (cap_rows (sn_taskEntries s) @ rs))"
  "cv_members (capView (appendEntries s rs)) = cv_members (capView s)"
  "cv_assignments (capView (appendEntries s rs)) = cv_assignments (capView s)"
  by (simp_all add: capView_def Let_def appendEntries_def cap_rows_append)

lemma appended_entries [simp]: "cap_rows (sn_taskEntries (appendEntries s rs)) = cap_rows (sn_taskEntries s) @ rs"
  by (simp add: appendEntries_def cap_rows_append)

lemma view_sel:
  "cv_history (capView s) = cap_rows (sn_taskEntries s)" "cv_current (capView s) = map snd (latestRows ''entityId'' (cap_rows (sn_taskEntries s)))"
  by (simp_all add: capView_def Let_def)

definition kindTotal :: "nat \<Rightarrow> cap_dim \<Rightarrow> (cap_row \<Rightarrow> charge list) \<Rightarrow> cap_row list \<Rightarrow> nat" where
  "kindTotal aux d f rs = sum_list (map (\<lambda>r. total aux d (f r)) rs)"

lemma kindTotal_mono: "(\<And>r. r \<in> set rs \<Longrightarrow> total aux d (f' r) \<le> total aux d (f r)) \<Longrightarrow> kindTotal aux d f' rs \<le> kindTotal aux d f rs"
  unfolding kindTotal_def by (rule sum_list_mono)

lemma kindTotal_replaced:
  assumes "\<And>x. total aux d (f' x) \<le> total aux d (f x)" and "total aux d (f' r) + paid \<le> total aux d (f p)"
  shows "kindTotal aux d f' (xs @ [r] @ ys) + paid \<le> kindTotal aux d f (xs @ [p] @ ys)"
  using kindTotal_mono [of xs aux d f' f] kindTotal_mono [of ys aux d f' f] assms by (simp add: kindTotal_def)

lemma total_taskCharges:
  "total aux d (taskCharges aux s) = total aux d (scopeCharges aux s) + kindTotal aux d (attemptCharges aux (capView s)) (current_of (capView s) ''attempt'') +
     kindTotal aux d deliveryCharges (current_of (capView s) ''delivery'') +
     kindTotal aux d (resourceCharges (integrationIds (capView s))) (current_of (capView s) ''resource'') +
     kindTotal aux d (integrationCharges (capView s)) (integrations (capView s))"
  by (simp add: taskCharges_def Let_def total_concat kindTotal_def)

lemma scope_append: "scopeCharges aux (appendEntries s rs) = scopeCharges aux s"
  by (simp add: scopeCharges_def openScopeRows_def appendEntries_def)

lemma delivery_edge:
  assumes "advances (cap_rows (sn_taskEntries s)) p r ''delivery''" and "\<not> reads r ''state'' ''pending''"
    and paid: "total aux d (deliveryCharges r) + paid \<le> total aux d (deliveryCharges p)"
  shows "total aux d (taskCharges aux (appendEntries s [r])) + paid \<le> total aux d (taskCharges aux s)"
proof -
  let ?V = "capView s" and ?V' = "capView (appendEntries s [r])"
  obtain xs ys where all: "\<forall>k. current_of ?V k = filter (\<lambda>x. reads x ''kind'' k) xs @ (if k = ''delivery'' then [p] else []) @ filter (\<lambda>x. reads x ''kind'' k) ys"
      "\<forall>k. current_of ?V' k = filter (\<lambda>x. reads x ''kind'' k) xs @ (if k = ''delivery'' then [r] else []) @ filter (\<lambda>x. reads x ''kind'' k) ys"
    unfolding view_sel appended_entries by (rule advance_kinds [OF assms(1)])
  note kinds = all [THEN spec]
  have same: "current_of ?V' k = current_of ?V k" if "k \<noteq> ''delivery''" for k using that by (simp add: kinds)
  have kind: "reads r ''kind'' ''delivery''" using assms(1) by (simp add: advances_def)
  have "coveredBy ?V' ?V"
    using assms(2) kind
    by (auto simp: coveredBy_def view_append(1,3,4) view_sel(1) tasksOf_def hasWorktree_def pendingFor_def fun_eq_iff same kinds)
  moreover have ids: "integrations ?V' = integrations ?V" "integrationIds ?V' = integrationIds ?V"
    by (simp_all add: integrations_def integrationIds_def same)
  moreover have "integrationCharges ?V' a = integrationCharges ?V a" for a
    by (rule same_integration) (simp_all add: actionsOf_def resourcesOf_def same view_append(1) view_sel(1) kind)
  moreover have "kindTotal aux d deliveryCharges (current_of ?V' ''delivery'') + paid \<le> kindTotal aux d deliveryCharges (current_of ?V ''delivery'')"
    unfolding kinds by (simp only: if_True simp_thms) (rule kindTotal_replaced [OF order_refl paid])
  ultimately show ?thesis
    using kindTotal_mono [of "current_of ?V ''attempt''" aux d "attemptCharges aux ?V'" "attemptCharges aux ?V", OF covered_attempt]
    by (simp add: total_taskCharges scope_append same kindTotal_def)
qed

lemma resource_edge:
  assumes "advances (cap_rows (sn_taskEntries s)) p r ''resource''" and "\<not> reads p ''disposition'' ''released''" and "reads r ''disposition'' ''released''"
    and keep: "keeps_fields p r [''attemptId'', ''actionId'', ''resourceKind'']"
    and out: "\<forall>i \<in> set (integrationIds (capView s)). text_at p ''actionId'' \<noteq> Some i"
  shows "total aux d (taskCharges aux (appendEntries s [r])) + entry_weight aux d 1 1 \<le> total aux d (taskCharges aux s)"
proof -
  let ?V = "capView s" and ?V' = "capView (appendEntries s [r])"
  obtain xs ys where all: "\<forall>k. current_of ?V k = filter (\<lambda>x. reads x ''kind'' k) xs @ (if k = ''resource'' then [p] else []) @ filter (\<lambda>x. reads x ''kind'' k) ys"
      "\<forall>k. current_of ?V' k = filter (\<lambda>x. reads x ''kind'' k) xs @ (if k = ''resource'' then [r] else []) @ filter (\<lambda>x. reads x ''kind'' k) ys"
    unfolding view_sel appended_entries by (rule advance_kinds [OF assms(1)])
  note kinds = all [THEN spec]
  have same: "current_of ?V' k = current_of ?V k" if "k \<noteq> ''resource''" for k using that by (simp add: kinds)
  have kind: "reads r ''kind'' ''resource''" using assms(1) by (simp add: advances_def)
  have fields: "map_of r ''attemptId'' = map_of p ''attemptId''" "map_of r ''actionId'' = map_of p ''actionId''"
    "map_of r ''resourceKind'' = map_of p ''resourceKind''"
    using keep by (simp_all add: keeps_fields_def)
  have covered: "coveredBy ?V' ?V"
    by (simp add: coveredBy_def view_append(1,3,4) view_sel(1) tasksOf_def hasWorktree_def pendingFor_def fun_eq_iff same kinds fields kind)
  have ids: "integrations ?V' = integrations ?V" "integrationIds ?V' = integrationIds ?V"
    by (simp_all add: integrations_def integrationIds_def same)
  have res: "resourcesOf ?V' i = resourcesOf ?V i" if "i \<in> set (integrationIds ?V)" for i
    using out that by (auto simp: resourcesOf_def kinds fields)
  have same_charges: "integrationCharges ?V' a = integrationCharges ?V a" if "a \<in> set (integrations ?V)" for a
    by (rule same_integration) (simp_all add: actionsOf_def view_append(1) view_sel(1) kind res integration_id [OF that])
  have "total aux d (resourceCharges (integrationIds ?V) r) + entry_weight aux d 1 1 \<le> total aux d (resourceCharges (integrationIds ?V) p)"
    using assms(2,3) out by (auto simp: resourceCharges_def split: option.splits)
  then have "kindTotal aux d (resourceCharges (integrationIds ?V)) (current_of ?V' ''resource'') + entry_weight aux d 1 1
      \<le> kindTotal aux d (resourceCharges (integrationIds ?V)) (current_of ?V ''resource'')"
    unfolding kinds by (simp only: if_True simp_thms) (rule kindTotal_replaced [OF order_refl])
  then show ?thesis
    using kindTotal_mono [of "current_of ?V ''attempt''" aux d "attemptCharges aux ?V'" "attemptCharges aux ?V", OF covered_attempt [OF covered]]
      kindTotal_mono [of "integrations ?V" aux d "integrationCharges ?V'" "integrationCharges ?V"]
    by (simp add: total_taskCharges scope_append same ids same_charges)
qed

lemma control_edge:
  assumes "fresh_row (cap_rows (sn_taskEntries s)) c" and kind: "reads c ''kind'' ''control''"
  shows "total aux d (taskCharges aux (appendEntries s [c])) \<le> total aux d (taskCharges aux s)"
proof -
  let ?V = "capView s" and ?V' = "capView (appendEntries s [c])"
  obtain i where "text_at c ''entityId'' = Some i" "map_of (latestRows ''entityId'' (cap_rows (sn_taskEntries s))) i = None"
    using assms(1) by (auto simp: fresh_row_def split: option.splits)
  from fresh_control [OF this kind] have same: "current_of ?V' k = current_of ?V k" if "k \<noteq> ''control''" for k
    using that by (simp add: view_sel(2))
  have "coveredBy ?V' ?V"
    by (simp add: coveredBy_def view_append(1,3,4) view_sel(1) tasksOf_def hasWorktree_def pendingFor_def fun_eq_iff same kind)
  moreover have "integrations ?V' = integrations ?V" "integrationIds ?V' = integrationIds ?V"
    by (simp_all add: integrations_def integrationIds_def same)
  moreover have "integrationCharges ?V' a = integrationCharges ?V a" for a
    by (rule same_integration) (simp_all add: actionsOf_def resourcesOf_def same view_append(1) view_sel(1) kind)
  ultimately show ?thesis
    using kindTotal_mono [of "current_of ?V ''attempt''" aux d "attemptCharges aux ?V'" "attemptCharges aux ?V", OF covered_attempt]
    by (simp add: total_taskCharges scope_append same kindTotal_def)
qed

lemma attempt_edge:
  assumes "advances (cap_rows (sn_taskEntries s)) p r ''attempt''"
    and paid: "\<And>V V'. coveredBy V' V \<Longrightarrow> total aux d (attemptCharges aux V' r) + paid \<le> total aux d (attemptCharges aux V p)"
  shows "total aux d (taskCharges aux (appendEntries s [r])) + paid \<le> total aux d (taskCharges aux s)"
proof -
  let ?V = "capView s" and ?V' = "capView (appendEntries s [r])"
  obtain xs ys where all: "\<forall>k. current_of ?V k = filter (\<lambda>x. reads x ''kind'' k) xs @ (if k = ''attempt'' then [p] else []) @ filter (\<lambda>x. reads x ''kind'' k) ys"
      "\<forall>k. current_of ?V' k = filter (\<lambda>x. reads x ''kind'' k) xs @ (if k = ''attempt'' then [r] else []) @ filter (\<lambda>x. reads x ''kind'' k) ys"
    unfolding view_sel appended_entries by (rule advance_kinds [OF assms(1)])
  note kinds = all [THEN spec]
  have same: "current_of ?V' k = current_of ?V k" if "k \<noteq> ''attempt''" for k using that by (simp add: kinds)
  have kind: "reads r ''kind'' ''attempt''" using assms(1) by (simp add: advances_def)
  have covered: "coveredBy ?V' ?V"
    by (simp add: coveredBy_def view_append(1,3,4) view_sel(1) tasksOf_def hasWorktree_def pendingFor_def fun_eq_iff same kind)
  have "integrations ?V' = integrations ?V" "integrationIds ?V' = integrationIds ?V"
    by (simp_all add: integrations_def integrationIds_def same)
  moreover have "integrationCharges ?V' a = integrationCharges ?V a" for a
    by (rule same_integration) (simp_all add: actionsOf_def resourcesOf_def same view_append(1) view_sel(1) kind)
  moreover have "kindTotal aux d (attemptCharges aux ?V') (current_of ?V' ''attempt'') + paid
      \<le> kindTotal aux d (attemptCharges aux ?V) (current_of ?V ''attempt'')"
    unfolding kinds by (simp only: if_True simp_thms) (rule kindTotal_replaced [OF covered_attempt [OF covered] paid [OF covered]])
  ultimately show ?thesis by (simp add: total_taskCharges scope_append same kindTotal_def)
qed

abbreviation receipt_states :: "string list" where
  "receipt_states \<equiv> [''reserved'', ''bound'', ''dispatched'', ''running'', ''reconciliation-required'', ''stop-requested'']"

lemma receipt_advance:
  assumes "coveredBy V' V" and "state_among r receipt_states \<Longrightarrow> state_among p receipt_states"
  shows "weigh aux d (receiptCharge V' r x) \<le> weigh aux d (receiptCharge V p x)"
proof -
  have "weigh aux d (receiptCharge V' r x) \<le> weigh aux d (receiptCharge V r x)" by (rule covered_receipt [OF assms(1)])
  also have "\<dots> \<le> weigh aux d (receiptCharge V p x)"
    using assms(2) unfolding receiptCharge_def Let_def by (intro entry_weight_mono) auto
  finally show ?thesis .
qed

lemma attempt_advance:
  assumes "coveredBy V' V" and "keeps_fields p r attempt_pins" and "pinned_attempt p" and unbound: "\<not> may_bind r"
    and changes: "state_among r receipt_states \<Longrightarrow> state_among p receipt_states"
    and paid: "total aux d (terminalCharges r) + paid \<le> total aux d (terminalCharges p)"
  shows "total aux d (attemptCharges aux V' r) + paid \<le> total aux d (attemptCharges aux V p)"
proof -
  have fields: "map_of r ''attemptId'' = map_of p ''attemptId''" "map_of r ''assignmentId'' = map_of p ''assignmentId''"
    "map_of r ''taskId'' = map_of p ''taskId''" "map_of r ''placement'' = map_of p ''placement''"
    using assms(2) by (simp_all add: keeps_fields_def)
  obtain aid asg task where ids: "text_at p ''attemptId'' = Some aid" "text_at p ''assignmentId'' = Some asg" "text_at p ''taskId'' = Some task"
    using assms(3) by (auto simp: pinned_attempt_def)
  have w: "total aux d (worktreeCharges V' r aid) \<le> total aux d (worktreeCharges V p aid)"
    unfolding covered_worktree [OF assms(1)] using unbound by (auto simp: worktreeCharges_def fields simp del: One_nat_def)
  have a: "total aux d (map (receiptCharge V' r) (attemptActions V' aid)) \<le> total aux d (map (receiptCharge V p) (attemptActions V aid))"
    unfolding covered_actions [OF assms(1)] map_map
    by (rule sum_list_mono) (simp add: receipt_advance [OF assms(1) changes])
  show ?thesis
    using paid w a unbound by (simp add: attemptCharges_def fields ids)
qed

lemma terminal_weight:
  "attempt_terminal r \<Longrightarrow> total aux d (terminalCharges r) = 0"
  "\<not> attempt_terminal r \<Longrightarrow> stop_requested r \<Longrightarrow> total aux d (terminalCharges r) = entry_weight aux d 1 2"
  "\<not> attempt_terminal r \<Longrightarrow> \<not> stop_requested r \<Longrightarrow> total aux d (terminalCharges r) = entry_weight aux d 1 2 + entry_weight aux d 1 2"
  by (simp_all add: terminalCharges_def)

lemma edge_frees:
  assumes "recovery_edge (integrationIds (capView s)) (cap_rows (sn_taskEntries s)) rs"
  shows "total aux d (taskCharges aux (appendEntries s rs)) + entry_weight aux d 1 (length rs) \<le> total aux d (taskCharges aux s)"
  using assms
proof cases
  case (acknowledge p r)
  have "entry_weight aux d 1 1 + entry_weight aux d 1 1 = entry_weight aux d 2 2"
    using entry_weight_add [of aux d 1 1 1 1] by (simp add: numeral_2_eq_2)
  with acknowledge(3,4) have "total aux d (deliveryCharges r) + entry_weight aux d 1 1 \<le> total aux d (deliveryCharges p)"
    by (auto simp: deliveryCharges_def)
  from delivery_edge [OF acknowledge(2) _ this] acknowledge show ?thesis by simp
next
  case (handle p r)
  then have "total aux d (deliveryCharges r) + entry_weight aux d 1 1 \<le> total aux d (deliveryCharges p)"
    by (simp add: deliveryCharges_def)
  from delivery_edge [OF handle(2) _ this] handle show ?thesis by simp
next
  case (release p r)
  from resource_edge [OF release(2-6)] release show ?thesis by simp
next
  case (stop p r c)
  have live: "\<not> attempt_terminal p" using stop(4) by (auto simp: state_among_def attempt_terminal_def)
  have "stop_requested r" "\<not> attempt_terminal r" using stop(6) by (simp_all add: stop_requested_def attempt_terminal_def)
  then have "total aux d (taskCharges aux (appendEntries s [r])) + entry_weight aux d 1 2 \<le> total aux d (taskCharges aux s)"
    using stop(3-7) live
    by (intro attempt_edge [OF stop(2)] attempt_advance) (auto simp: may_bind_def terminal_weight state_among_def split: option.splits)
  moreover have "total aux d (taskCharges aux (appendEntries (appendEntries s [r]) [c])) \<le> total aux d (taskCharges aux (appendEntries s [r]))"
    using stop(8,9) by (intro control_edge) simp_all
  ultimately show ?thesis by (simp add: stop appendEntries_def numeral_2_eq_2)
next
  case (settle p r cs)
  have "total aux d (terminalCharges r) + entry_weight aux d 1 2 \<le> total aux d (terminalCharges p)"
    using settle(3,4) by (cases "stop_requested p") (simp_all add: terminal_weight)
  then have first: "total aux d (taskCharges aux (appendEntries s [r])) + entry_weight aux d 1 2 \<le> total aux d (taskCharges aux s)"
    using settle(4,5,6)
    by (intro attempt_edge [OF settle(2)] attempt_advance) (auto simp: may_bind_def attempt_terminal_def state_among_def split: option.splits)
  from settle(7) show ?thesis
  proof
    assume "cs = []"
    then show ?thesis using first entry_weight_mono [of 1 1 1 2 aux d] by (simp add: settle)
  next
    assume "\<exists>c. cs = [c] \<and> fresh_row (cap_rows (sn_taskEntries s) @ [r]) c \<and> reads c ''kind'' ''control''"
    then obtain c where c: "cs = [c]" "fresh_row (cap_rows (sn_taskEntries s) @ [r]) c" "reads c ''kind'' ''control''" by blast
    have "total aux d (taskCharges aux (appendEntries (appendEntries s [r]) [c])) \<le> total aux d (taskCharges aux (appendEntries s [r]))"
      using c by (intro control_edge) simp_all
    with first show ?thesis by (simp add: settle c(1) appendEntries_def numeral_2_eq_2)
  qed
qed

end
