(* ===== verification/Desk_Capacity_Claims.thy ===== *)
theory Desk_Capacity_Claims
  imports Desk_Capacity_Funding Desk_Rollout_Examples
begin

text \<open>
  What the recovery reserve promises: the edges that discharge an obligation are paid for, the
  resolver agrees with the reserve of a desk without tasks, and every open scope keeps one
  transition, as long as no two assignments name a scope alike.
\<close>

subsection \<open>Recovery is funded\<close>

lemma held_resolve:
  "held d (resolveDeskTaskCapacityReserve s b) = held d globalRecovery + total (32768 + b + 4096) d (taskCharges (32768 + b + 4096) s)"
  by (simp add: resolveDeskTaskCapacityReserve_def Let_def held_charges)

lemma entry_weight_bytes: "entry_weight aux D_bytes n m = m * TASK_ENTRY_BYTES + n * REQUEST_BYTES"
  by (simp add: weigh_def globalRecovery_def entry_cost_def no_cost_def)

lemma edge_frees_reserve:
  assumes "recovery_edge (integrationIds (capView s)) (cap_rows (sn_taskEntries s)) rs"
  shows "held d (resolveDeskTaskCapacityReserve (appendEntries s rs) b) + entry_weight (32768 + b + 4096) d 1 (length rs)
    \<le> held d (resolveDeskTaskCapacityReserve s b)"
  using edge_frees [OF assms, of "32768 + b + 4096" d] by (simp add: held_resolve)

lemma append_sel:
  "length (sn_taskEntries (appendEntries s rs)) = length (sn_taskEntries s) + length rs" "sn_memberships (appendEntries s rs) = sn_memberships s"
  "sn_assignments (appendEntries s rs) = sn_assignments s" "sn_scopes (appendEntries s rs) = sn_scopes s"
  "sn_scopeTransitions (appendEntries s rs) = sn_scopeTransitions s"
  by (simp_all add: appendEntries_def)

lemma seats_mono:
  assumes "\<And>aid. held (D_seats aid) v' \<le> held (D_seats aid) v" and "seatOverflow v' a"
  shows "seatOverflow v a"
  using assms(2) assms(1) [of "case text_at (case as_record (Some a) of None \<Rightarrow> [] | Some r \<Rightarrow> r) ''assignmentId'' of None \<Rightarrow> [] | Some i \<Rightarrow> i"]
  unfolding seatOverflow_def Let_def held.simps by linarith

text \<open>Recovery is funded. Acknowledging or handling a delivery, releasing a resource, requesting the
  stop of a live attempt and settling an attempt each free one request, as many task entries as they
  append and the bytes of both, and reserve nothing new; so the store, which accepted the desk
  before the edge, does not refuse it after the edge for any of its limits.\<close>

lemma recovery_edges_are_funded:
  assumes "recovery_edge (integrationIds (capView s)) (cap_rows (sn_taskEntries s)) rs"
  defines "before \<equiv> resolveDeskTaskCapacityReserve s LIMIT_eventPayloadBytes"
    and "after \<equiv> resolveDeskTaskCapacityReserve (appendEntries s rs) LIMIT_eventPayloadBytes"
  shows "tv_requests after + 1 \<le> tv_requests before \<and> tv_taskEntries after + length rs \<le> tv_taskEntries before \<and>
    tv_bytes after + length rs * TASK_ENTRY_BYTES + REQUEST_BYTES \<le> tv_bytes before \<and>
    tv_memberships after \<le> tv_memberships before \<and> tv_scopes after \<le> tv_scopes before \<and>
    tv_scopeTransitions after \<le> tv_scopeTransitions before \<and>
    (\<not> reserveRefuses n s \<longrightarrow> \<not> reserveRefuses (n + 1) (appendEntries s rs))"
proof -
  have frees: "held d after + entry_weight (32768 + LIMIT_eventPayloadBytes + 4096) d 1 (length rs) \<le> held d before" for d
    unfolding before_def after_def by (rule edge_frees_reserve [OF assms(1)])
  have counts: "tv_requests after + 1 \<le> tv_requests before" "tv_taskEntries after + length rs \<le> tv_taskEntries before"
    "tv_bytes after + length rs * TASK_ENTRY_BYTES + REQUEST_BYTES \<le> tv_bytes before"
    "tv_memberships after \<le> tv_memberships before" "tv_scopes after \<le> tv_scopes before" "tv_scopeTransitions after \<le> tv_scopeTransitions before"
    using frees [of D_requests] frees [of D_taskEntries] frees [of D_bytes] frees [of D_memberships] frees [of D_scopes] frees [of D_scopeTransitions]
    by (simp_all add: entry_weight_bytes)
  have seats: "seatOverflow after a \<Longrightarrow> seatOverflow before a" for a
    by (rule seats_mono [OF add_leD1 [OF frees]])
  have "\<not> reserveRefuses (n + 1) (appendEntries s rs)" if "\<not> reserveRefuses n s"
    using that counts seats
    by (auto simp: reserveRefuses_def Let_def before_def [symmetric] after_def [symmetric] list_ex_iff append_sel)
  with counts show ?thesis by blast
qed

text \<open>A task with a pending delivery and a live attempt.\<close>

definition delivery_row :: "int \<Rightarrow> string \<Rightarrow> cap_row" where
  "delivery_row n state = [(''kind'', JStr ''delivery''), (''entityId'', JStr ''dlv''), (''revision'', JInt n), (''taskId'', JNull),
     (''actionId'', JNull), (''state'', JStr state)]"

definition attempt_row :: "int \<Rightarrow> string \<Rightarrow> cap_row" where
  "attempt_row n state = [(''kind'', JStr ''attempt''), (''entityId'', JStr ''att''), (''attemptId'', JStr ''att''), (''revision'', JInt n),
     (''taskId'', JStr ''tsk''), (''assignmentId'', JStr ''asg''), (''state'', JStr state), (''member'', JNull), (''placement'', JNull), (''stop'', JNull)]"

definition demo_snapshot :: task_snapshot where
  "demo_snapshot = \<lparr>sn_taskEntries = [JObj (delivery_row 1 ''pending''), JObj (attempt_row 1 ''reserved'')],
     sn_memberships = [], sn_assignments = [], sn_scopes = [], sn_scopeTransitions = []\<rparr>"

lemma demo_acknowledges:
  "recovery_edge (integrationIds (capView demo_snapshot)) (cap_rows (sn_taskEntries demo_snapshot)) [delivery_row 2 ''responsibility-acknowledged'']"
  by (rule recovery_edge.acknowledge [of _ "delivery_row 1 ''pending''"]; code_simp)

lemma recovery_edges_are_funded_witness:
  "\<not> reserveRefuses 1 (appendEntries demo_snapshot [delivery_row 2 ''responsibility-acknowledged''])"
proof -
  have "\<not> reserveRefuses 0 demo_snapshot" by code_simp
  then show ?thesis using recovery_edges_are_funded [OF demo_acknowledges, of 0] by simp
qed

lemma demo_stop_edge:
  "recovery_edge [] (cap_rows (sn_taskEntries demo_snapshot)) [attempt_row 2 ''stop-requested'', [(''kind'', JStr ''control''), (''entityId'', JStr ''ctl'')]]"
  by (rule recovery_edge.stop [of _ "attempt_row 1 ''reserved''"]; code_simp)

subsection \<open>A desk without tasks\<close>

text \<open>The snapshot of a ledger, with the fields the resolver reads.\<close>

definition deskSnapshot :: "ledger \<Rightarrow> task_snapshot" where
  "deskSnapshot l =
     \<lparr>sn_taskEntries = [],
      sn_memberships = map (\<lambda>m. JObj [(''membershipId'', JStr (m_membershipId m))]) (memberships l),
      sn_assignments = map (\<lambda>a. JObj [(''assignmentId'', JStr (a_assignmentId a)), (''seats'', JArr (map (\<lambda>s. JObj
        [(''agentId'', JStr (seat_agentId s)), (''membershipId'', JStr (seat_membershipId s))]) (a_seats a)))]) (assignments l),
      sn_scopes = map (\<lambda>s. JObj [(''assignmentId'', JStr (sc_assignmentId s)), (''scopeId'', JStr (sc_scopeId s)), (''revision'', json_nat (sc_revision s))])
        (scopes l),
      sn_scopeTransitions = map (\<lambda>t. JObj [(''assignmentId'', JStr (tr_assignmentId t)), (''scopeId'', JStr (tr_scopeId t)),
        (''revision'', json_nat (tr_revision t)), (''to'', JStr (scope_state_name (tr_to t)))]) (scopeTransitions l)\<rparr>"

lemma cap_rows_objects: "cap_rows (map (\<lambda>x. JObj (f x)) xs) = map f xs"
  by (simp add: cap_rows_def map_filter_def comp_def)

lemma latestBy_snoc:
  "latestBy key rk (xs @ [x]) = (case map_of (latestBy key rk xs) (key x) of None \<Rightarrow> map_set (key x) x (latestBy key rk xs)
     | Some prior \<Rightarrow> if rk prior < rk x then map_set (key x) x (latestBy key rk xs) else latestBy key rk xs)"
  unfolding latestBy_def foldl_append foldl.simps ..

lemma latestBy_keys: "fst ` set (latestBy key rk xs) = key ` set xs \<and> distinct (map fst (latestBy key rk xs))"
proof (induction xs rule: rev_induct)
  case (snoc x xs)
  show ?case
  proof (cases "map_of (latestBy key rk xs) (key x)")
    case None
    then show ?thesis using snoc by (simp add: latestBy_snoc)
  next
    case (Some p)
    then have "key x \<in> key ` set xs" using snoc map_of_SomeD [OF Some] by force
    then show ?thesis using snoc Some by (simp add: latestBy_snoc insert_absorb)
  qed
qed (simp add: latestBy_def)

lemma latestBy_max:
  "map_of (latestBy key rk xs) i = Some p \<Longrightarrow> p \<in> set xs \<and> key p = i \<and> (\<forall>x \<in> set xs. key x = i \<longrightarrow> rk x \<le> rk p)"
proof (induction xs arbitrary: p rule: rev_induct)
  case (snoc x xs)
  let ?m = "latestBy key rk xs"
  have step: "map_of (latestBy key rk (xs @ [x])) i =
      (if key x = i \<and> (case map_of ?m i of None \<Rightarrow> True | Some q \<Rightarrow> rk q < rk x) then Some x else map_of ?m i)"
    by (auto simp: latestBy_snoc split: option.splits)
  show ?case
  proof (cases "map_of ?m i")
    case None
    then have "i \<notin> key ` set xs" using latestBy_keys [of key rk xs] by (simp add: map_of_eq_None_iff)
    moreover have "key x = i" "p = x" using snoc.prems None by (simp_all add: step split: if_splits)
    ultimately show ?thesis by (auto simp: image_iff)
  next
    case (Some q)
    have q: "q \<in> set xs" "key q = i" "\<And>y. y \<in> set xs \<Longrightarrow> key y = i \<Longrightarrow> rk y \<le> rk q" using snoc.IH [OF Some] by auto
    show ?thesis
    proof (cases "key x = i \<and> rk q < rk x")
      case True
      then have "p = x" using snoc.prems Some by (simp add: step)
      with True q show ?thesis by (auto intro: order_trans less_imp_le)
    next
      case False
      then have "p = q" using snoc.prems Some by (auto simp: step)
      with False q show ?thesis by auto
    qed
  qed
qed (simp add: latestBy_def)

lemma latestRows_map:
  assumes "\<And>x. x \<in> set xs \<Longrightarrow> text_at (f x) key = Some (k x)" and "\<And>x. x \<in> set xs \<Longrightarrow> as_integer (map_of (f x) ''revision'') = int (rk x)"
  shows "latestRows key (map f xs) = map (\<lambda>(i, x). (i, f x)) (latestBy k rk xs)"
  using assms
proof (induction xs rule: rev_induct)
  case (snoc x xs)
  let ?m = "latestBy k rk xs"
  have IH: "latestRows key (map f xs) = map (\<lambda>(i, x). (i, f x)) ?m" using snoc by simp
  have look: "map_of (map (\<lambda>(i, x). (i, f x)) m) i = map_option f (map_of m i)" for i m
    by (induction m) auto
  have put: "map_set i (f x) (map (\<lambda>(i, x). (i, f x)) m) = map (\<lambda>(i, x). (i, f x)) (map_set i x m)" for i m
    by (induction m) auto
  have "as_integer (map_of (f prior) ''revision'') = int (rk prior)" if "map_of ?m (k x) = Some prior" for prior
    using latestBy_max [OF that] snoc.prems(2) by simp
  then show ?case using IH snoc.prems by (auto simp: latestBy_snoc latestRows_snoc look put split: option.splits)
qed (simp add: latestRows_def latestBy_def)

definition safeRevisions :: "ledger \<Rightarrow> bool" where
  \<comment> \<open>what the row schemas ask of a revision\<close>
  "safeRevisions l \<longleftrightarrow> list_all (\<lambda>s. sc_revision s \<le> 2 ^ 53 - 1) (scopes l) \<and> list_all (\<lambda>t. tr_revision t \<le> 2 ^ 53 - 1) (scopeTransitions l)"

lemma state_name_terminal:
  "scope_state_name t = ''closed'' \<longleftrightarrow> t = SS_closed" "scope_state_name t = ''advanced'' \<longleftrightarrow> t = SS_advanced"
  by (cases t; simp)+

lemma openScopeRows_snapshot:
  assumes "safeRevisions l"
  shows "openScopeRows (deskSnapshot l) = openScopeIds l"
proof -
  let ?sf = "\<lambda>s. [(''assignmentId'', JStr (sc_assignmentId s)), (''scopeId'', JStr (sc_scopeId s)), (''revision'', json_nat (sc_revision s))]"
  let ?tf = "\<lambda>t. [(''assignmentId'', JStr (tr_assignmentId t)), (''scopeId'', JStr (tr_scopeId t)),
        (''revision'', json_nat (tr_revision t)), (''to'', JStr (scope_state_name (tr_to t)))]"
  have rev: "int n \<le> 9007199254740991" if "n \<le> 2 ^ 53 - 1" for n :: nat using that by simp
  have s: "latestRows ''scopeId'' (map ?sf (scopes l)) = map (\<lambda>(i, x). (i, ?sf x)) (latestBy sc_scopeId sc_revision (scopes l))"
    using assms by (intro latestRows_map) (auto simp: safeRevisions_def list_all_iff intro!: rev)
  have t: "latestRows ''scopeId'' (map ?tf (scopeTransitions l)) = map (\<lambda>(i, x). (i, ?tf x)) (latestBy tr_scopeId tr_revision (scopeTransitions l))"
    using assms by (intro latestRows_map) (auto simp: safeRevisions_def list_all_iff intro!: rev)
  have look: "map_of (map (\<lambda>(i, x). (i, ?tf x)) m) i = map_option ?tf (map_of m i)" for i m
    by (induction m) auto
  show ?thesis
    unfolding openScopeRows_def openScopeIds_def deskSnapshot_def Let_def task_snapshot.select_convs cap_rows_objects s t look
    by (intro filter_cong) (auto simp: comp_def case_prod_unfold state_name_terminal split: option.splits)
qed

text \<open>On a desk without task entries the recovery resolver computes exactly the reserve the commit model
  uses (twelve requests, 256 entries, and one transition per open scope id), and its capacity check
  refuses exactly what that model refuses.\<close>

lemma resolver_refines_reserve:
  assumes "safeRevisions l"
  defines "v \<equiv> resolveDeskTaskCapacityReserve (deskSnapshot l) LIMIT_eventPayloadBytes" and "c \<equiv> capacityReserve l"
  shows "tv_requests v = cap_requests c \<and> tv_taskEntries v = cap_taskEntries c \<and> tv_bytes v = cap_bytes c \<and>
    tv_scopeTransitions v = cap_scopeTransitions c \<and> tv_memberships v = 0 \<and> tv_scopes v = 0 \<and> tv_assignmentSeats v = [] \<and>
    reserveRefuses (length (requests l)) (deskSnapshot l) = capacityExceeded l c"
proof -
  have "cap_rows (sn_taskEntries (deskSnapshot l)) = []" by (simp add: deskSnapshot_def cap_rows_def)
  then have none: "current_of (capView (deskSnapshot l)) k = []" "integrations (capView (deskSnapshot l)) = []" for k
    by (simp_all add: capView_def Let_def latestRows_def integrations_def)
  have v: "v = \<lparr>tv_requests = 12, tv_taskEntries = 256, tv_bytes = 65536 + length (openScopeIds l) * auxRowBytes, tv_memberships = 0,
     tv_scopes = 0, tv_scopeTransitions = length (openScopeIds l), tv_assignmentSeats = [], tv_futureEvents = length (openScopeIds l)\<rparr>"
    by (simp add: v_def resolveDeskTaskCapacityReserve_def taskCharges_def Let_def none scopeCharges_def openScopeRows_snapshot [OF assms(1)]
        globalRecovery_def no_cost_def auxRowBytes_def)
  have seats: "seatOverflow v (JObj [(''assignmentId'', JStr i), (''seats'', JArr xs)]) \<longleftrightarrow> LIMIT_assignmentSeats < length xs" for i xs
    by (simp add: seatOverflow_def v)
  have "reserveRefuses (length (requests l)) (deskSnapshot l) = capacityExceeded l c"
    unfolding reserveRefuses_def Let_def v_def [symmetric] capacityExceeded_def
    by (simp add: deskSnapshot_def list_ex_iff seats) (simp add: v c_def capacityReserve_def Let_def LIMIT_taskEntries_def)
  then show ?thesis by (simp add: v c_def capacityReserve_def Let_def)
qed

lemma resolver_refines_reserve_witness:
  "tv_scopeTransitions (resolveDeskTaskCapacityReserve (deskSnapshot demo_approved) LIMIT_eventPayloadBytes) = 1 \<and>
   \<not> reserveRefuses (length (requests demo_approved)) (deskSnapshot demo_approved)"
proof -
  have "safeRevisions demo_approved" "cap_scopeTransitions (capacityReserve demo_approved) = 1"
    "\<not> capacityExceeded demo_approved (capacityReserve demo_approved)"
    by code_simp+
  then show ?thesis using resolver_refines_reserve [of demo_approved] by simp
qed

subsection \<open>One transition per open scope\<close>

lemma latestBy_strict:
  assumes "t \<in> set xs" and "\<And>u. u \<in> set xs \<Longrightarrow> key u = key t \<Longrightarrow> u = t \<or> rk u < rk t"
  shows "map_of (latestBy key rk xs) (key t) = Some t"
proof -
  have "key t \<in> fst ` set (latestBy key rk xs)" using assms(1) latestBy_keys [of key rk xs] by simp
  then obtain p where p: "map_of (latestBy key rk xs) (key t) = Some p"
    by (cases "map_of (latestBy key rk xs) (key t)") (simp_all add: map_of_eq_None_iff)
  from latestBy_max [OF p] assms have "p = t" by fastforce
  with p show ?thesis by simp
qed

text \<open>C36. The credit of an open scope is lost when another assignment uses its scope id. The reserve looks
  the state of a scope up by its id alone: where the highest revision under an id is a terminal move
  of one assignment's scope, a scope of the same id in another assignment is reserved no transition,
  whatever its state; on a desk that stands exactly at its transition limit the store then refuses
  its next move, the one that would close it included.\<close>

theorem shared_scope_id_loses_credit:
  assumes "t \<in> set (scopeTransitions l)" and "tr_to t = SS_closed \<or> tr_to t = SS_advanced"
    and "\<And>u. u \<in> set (scopeTransitions l) \<Longrightarrow> tr_scopeId u = tr_scopeId t \<Longrightarrow> u = t \<or> tr_revision u < tr_revision t"
    and "tr_scopeId m = tr_scopeId t" and "tr_revision m < tr_revision t"
    and "length (scopeTransitions l) + cap_scopeTransitions (capacityReserve l) = LIMIT_scopeTransitions"
  shows "tr_scopeId m \<notin> set (openScopeIds l) \<and>
    capacityExceeded (l\<lparr>scopeTransitions := scopeTransitions l @ [m]\<rparr>) (capacityReserve (l\<lparr>scopeTransitions := scopeTransitions l @ [m]\<rparr>))"
proof -
  let ?l = "l\<lparr>scopeTransitions := scopeTransitions l @ [m]\<rparr>"
  have latest: "map_of (latestBy tr_scopeId tr_revision (scopeTransitions l)) (tr_scopeId t) = Some t"
    by (rule latestBy_strict [OF assms(1,3)])
  then have same: "latestBy tr_scopeId tr_revision (scopeTransitions l @ [m]) = latestBy tr_scopeId tr_revision (scopeTransitions l)"
    using assms(4,5) by (simp add: latestBy_snoc)
  then have "openScopeIds ?l = openScopeIds l" by (simp add: openScopeIds_def)
  then have "capacityReserve ?l = capacityReserve l" by (simp add: capacityReserve_def)
  then have "capacityExceeded ?l (capacityReserve ?l)" using assms(6) by (simp add: capacityExceeded_def)
  moreover have "tr_scopeId m \<notin> set (openScopeIds l)" using latest assms(2,4) by (auto simp: openScopeIds_def Let_def)
  ultimately show ?thesis by blast
qed

text \<open>
  A desk at its transition limit: assignment \<open>asg\<close> closed its scope \<open>s1\<close> after a second round,
  \<open>asg2\<close> has its scope \<open>s1\<close> approved and closes it. The other rows belong to a scope id nothing
  declares.
\<close>

definition closed_elsewhere :: scope_transition where
  "closed_elsewhere = demo_step 8 (Row_command SC_close) (Some SS_approved) SS_closed None []"

definition approved_here :: "scope_transition list" where
  "approved_here = map (\<lambda>t. t\<lparr>tr_assignmentId := ''asg2''\<rparr>) (demo_rows @ demo_approval)"

definition closing_move :: scope_transition where
  "closing_move = demo_step 6 (Row_command SC_close) (Some SS_approved) SS_closed None []\<lparr>tr_assignmentId := ''asg2''\<rparr>"

definition full_desk :: ledger where
  "full_desk = (emptyLedger \<lparr>rb_hostId = ''h'', rb_gitCommonDir = ''/g''\<rparr> ''key'' ''t0'')\<lparr>
     scopes := [demo_scope, demo_scope\<lparr>sc_assignmentId := ''asg2''\<rparr>],
     scopeTransitions := replicate (LIMIT_scopeTransitions - 6) (closed_elsewhere\<lparr>tr_scopeId := ''old''\<rparr>) @ closed_elsewhere # approved_here\<rparr>"

lemma full_desk_rows:
  "u \<in> set (scopeTransitions full_desk) \<Longrightarrow> tr_scopeId u = tr_scopeId closed_elsewhere \<Longrightarrow>
     u = closed_elsewhere \<or> tr_revision u < tr_revision closed_elsewhere"
  "closed_elsewhere \<in> set (scopeTransitions full_desk)"
  by (auto simp: full_desk_def closed_elsewhere_def approved_here_def demo_rows_def demo_approval_def demo_step_def)

lemma full_desk_full: "length (scopeTransitions full_desk) + cap_scopeTransitions (capacityReserve full_desk) = LIMIT_scopeTransitions"
proof -
  have "map_of (latestBy tr_scopeId tr_revision (scopeTransitions full_desk)) ''s1'' = Some closed_elsewhere"
    using latestBy_strict [of closed_elsewhere "scopeTransitions full_desk" tr_scopeId tr_revision, OF full_desk_rows(2,1)]
    by (simp add: closed_elsewhere_def demo_step_def)
  moreover have "map fst (latestBy sc_scopeId sc_revision (scopes full_desk)) = [''s1'']"
    by (simp add: full_desk_def latestBy_def demo_scope_def scopeRow_def demo_declare_def Let_def)
  ultimately have "openScopeIds full_desk = []"
    by (simp add: openScopeIds_def closed_elsewhere_def demo_step_def)
  then show ?thesis
    by (simp add: capacityReserve_def full_desk_def LIMIT_scopeTransitions_def approved_here_def demo_rows_def demo_approval_def)
qed

lemma shared_scope_id_loses_credit_witness:
  "capacityExceeded (full_desk\<lparr>scopeTransitions := scopeTransitions full_desk @ [closing_move]\<rparr>)
     (capacityReserve (full_desk\<lparr>scopeTransitions := scopeTransitions full_desk @ [closing_move]\<rparr>)) \<and>
   tr_to closing_move = SS_closed \<and> scopeMachineState full_desk ''asg2'' ''s1'' = SS_approved"
proof -
  have "filter (\<lambda>t. tr_assignmentId t = ''asg2'' \<and> tr_scopeId t = ''s1'') (scopeTransitions full_desk) = approved_here"
    by (simp add: full_desk_def closed_elsewhere_def approved_here_def demo_rows_def demo_approval_def demo_step_def)
  then have "transitionStream full_desk ''asg2'' ''s1'' = approved_here"
    by (simp add: transitionStream_def approved_here_def demo_rows_def demo_approval_def demo_step_def)
  then have state: "scopeMachineState full_desk ''asg2'' ''s1'' = SS_approved"
    by (simp add: scopeMachineState_def last_opt_def approved_here_def demo_rows_def demo_approval_def demo_step_def)
  show ?thesis
    using shared_scope_id_loses_credit [OF full_desk_rows(2) _ full_desk_rows(1) _ _ full_desk_full, of closing_move] state
    by (simp add: closing_move_def closed_elsewhere_def demo_step_def)
qed

definition openScopes :: "ledger \<Rightarrow> (string \<times> string) set" where
  "openScopes l = {(aid, sid). (\<exists>s \<in> set (scopes l). sc_assignmentId s = aid \<and> sc_scopeId s = sid) \<and>
     scopeMachineState l aid sid \<noteq> SS_closed \<and> scopeMachineState l aid sid \<noteq> SS_advanced}"

definition unsharedIds :: "ledger \<Rightarrow> bool" where
  \<comment> \<open>a scope id is used by one assignment, and its revisions count\<close>
  "unsharedIds l \<longleftrightarrow> (\<forall>s \<in> set (scopes l). (\<forall>s' \<in> set (scopes l). sc_scopeId s' = sc_scopeId s \<longrightarrow> sc_assignmentId s' = sc_assignmentId s) \<and>
       (\<forall>t \<in> set (scopeTransitions l). tr_scopeId t = sc_scopeId s \<longrightarrow> tr_assignmentId t = sc_assignmentId s)) \<and>
     (\<forall>t \<in> set (scopeTransitions l). \<forall>u \<in> set (scopeTransitions l).
        tr_assignmentId u = tr_assignmentId t \<and> tr_scopeId u = tr_scopeId t \<and> tr_revision u = tr_revision t \<longrightarrow> u = t)"

lemma unsharedD:
  assumes "unsharedIds l"
  shows "s \<in> set (scopes l) \<Longrightarrow> s' \<in> set (scopes l) \<Longrightarrow> sc_scopeId s' = sc_scopeId s \<Longrightarrow> sc_assignmentId s' = sc_assignmentId s"
    and "s \<in> set (scopes l) \<Longrightarrow> t \<in> set (scopeTransitions l) \<Longrightarrow> tr_scopeId t = sc_scopeId s \<Longrightarrow> tr_assignmentId t = sc_assignmentId s"
    and "t \<in> set (scopeTransitions l) \<Longrightarrow> u \<in> set (scopeTransitions l) \<Longrightarrow> tr_assignmentId u = tr_assignmentId t \<Longrightarrow>
      tr_scopeId u = tr_scopeId t \<Longrightarrow> tr_revision u = tr_revision t \<Longrightarrow> u = t"
  using assms unfolding unsharedIds_def by blast+

lemma sort_key_nonempty: "t \<in> set ts \<Longrightarrow> sort_key rk ts \<noteq> []"
  using set_sort [of rk ts] by (cases "sort_key rk ts") auto

lemma last_move_max:
  assumes "t \<in> set ts" and "\<And>u. u \<in> set ts \<Longrightarrow> u = t \<or> rk u < rk t"
  shows "last (sort_key rk ts) = t"
proof -
  let ?s = "sort_key rk ts"
  have ne: "?s \<noteq> []" by (rule sort_key_nonempty [OF assms(1)])
  then have "last ?s \<in> set ts" using last_in_set [OF ne] by simp
  moreover have "rk t \<le> rk (last ?s)"
  proof -
    have "t \<in> set (butlast ?s @ [last ?s])" using assms(1) ne by simp
    moreover have "sorted (map rk (butlast ?s @ [last ?s]))" using ne by simp
    ultimately show ?thesis by (auto simp only: map_append sorted_append set_append) auto
  qed
  ultimately show ?thesis using assms(2) [of "last ?s"] by auto
qed

lemma unshared_state:
  assumes "unsharedIds l" and s: "s \<in> set (scopes l)"
  shows "scopeMachineState l (sc_assignmentId s) (sc_scopeId s) =
    (case map_of (latestBy tr_scopeId tr_revision (scopeTransitions l)) (sc_scopeId s) of None \<Rightarrow> SS_declared | Some t \<Rightarrow> tr_to t)"
proof -
  let ?ts = "filter (\<lambda>t. tr_assignmentId t = sc_assignmentId s \<and> tr_scopeId t = sc_scopeId s) (scopeTransitions l)"
  have ts: "?ts = filter (\<lambda>t. tr_scopeId t = sc_scopeId s) (scopeTransitions l)"
    by (intro filter_cong refl) (use unsharedD(2) [OF assms] in blast)
  show ?thesis
  proof (cases "map_of (latestBy tr_scopeId tr_revision (scopeTransitions l)) (sc_scopeId s)")
    case None
    then have "?ts = []" using latestBy_keys [of tr_scopeId tr_revision "scopeTransitions l"]
      by (auto simp: ts map_of_eq_None_iff filter_empty_conv image_iff)
    with None show ?thesis by (simp add: scopeMachineState_def transitionStream_def last_opt_def)
  next
    case (Some t)
    note t = latestBy_max [OF Some]
    have mem: "t \<in> set ?ts" using t by (simp add: ts)
    have "last (sort_key tr_revision ?ts) = t"
    proof (rule last_move_max [OF mem])
      fix u assume u: "u \<in> set ?ts"
      then have "tr_revision u \<le> tr_revision t" using t by simp
      moreover have "tr_revision u = tr_revision t \<Longrightarrow> u = t" using u mem by (intro unsharedD(3) [OF assms(1)]) simp_all
      ultimately show "u = t \<or> tr_revision u < tr_revision t" by linarith
    qed
    moreover have "sort_key tr_revision ?ts \<noteq> []" using mem by (simp add: sort_key_nonempty [OF mem])
    ultimately show ?thesis using Some by (simp add: scopeMachineState_def transitionStream_def last_opt_def)
  qed
qed

text \<open>C35. Every open scope keeps a transition, where no scope id is used by two assignments: whatever the
  store lets through its capacity check leaves room in the transition table for one more move of
  each scope that is neither closed nor advanced.\<close>

theorem open_scopes_keep_credit:
  assumes "unsharedIds l" and "\<not> capacityExceeded l (capacityReserve l)"
  shows "length (scopeTransitions l) + card (openScopes l) \<le> LIMIT_scopeTransitions"
proof -
  have "inj_on snd (openScopes l)"
    by (intro inj_onI) (auto simp: openScopes_def prod_eq_iff intro: unsharedD(1) [OF assms(1)])
  moreover have "snd ` openScopes l \<subseteq> set (openScopeIds l)"
  proof
    fix sid assume "sid \<in> snd ` openScopes l"
    then obtain s where s: "s \<in> set (scopes l)" "sc_scopeId s = sid"
      and "scopeMachineState l (sc_assignmentId s) sid \<noteq> SS_closed" "scopeMachineState l (sc_assignmentId s) sid \<noteq> SS_advanced"
      by (auto simp: openScopes_def)
    moreover have "sid \<in> fst ` set (latestBy sc_scopeId sc_revision (scopes l))"
      using s latestBy_keys [of sc_scopeId sc_revision "scopes l"] by auto
    ultimately show "sid \<in> set (openScopeIds l)"
      using unshared_state [OF assms(1) s(1)] s(2)
      by (cases "map_of (latestBy tr_scopeId tr_revision (scopeTransitions l)) sid") (simp_all add: openScopeIds_def)
  qed
  ultimately have "card (openScopes l) \<le> length (openScopeIds l)"
    using card_inj_on_le [of snd "openScopes l" "set (openScopeIds l)"] card_length [of "openScopeIds l"] by simp
  then show ?thesis using assms(2) by (simp add: capacityExceeded_def capacityReserve_def Let_def)
qed

lemma open_scopes_keep_credit_witness: "card (openScopes demo_approved) < LIMIT_scopeTransitions"
proof -
  have "\<not> capacityExceeded demo_approved (capacityReserve demo_approved)" by code_simp
  moreover have "unsharedIds demo_approved" unfolding unsharedIds_def by code_simp
  moreover have "length (scopeTransitions demo_approved) = 5" by code_simp
  ultimately show ?thesis using open_scopes_keep_credit [of demo_approved] by simp
qed

end
