(* ===== verification/Desk_Runner_Checks.thy ===== *)
theory Desk_Runner_Checks
  imports Desk_Runner_Settle
begin

text \<open>
  Running a check (plugin/server/desk-check-runner.ts): the preflight, the measured checkout before
  and after, the bounded executors of the three check classes, and the commit of the outcome. The
  host is a set of seams: the snapshot capture at its two moments, the subprocess, the file
  system's existence test and the environment fingerprint.
\<close>

subsection \<open>Executors\<close>

record check_exec_context =
  xc_repository :: string
  xc_candidateHead :: "string option"
  xc_ledgerState :: string
  xc_timeoutMs :: nat
  xc_maxOutputBytes :: nat

record check_exec_result =
  xr_status :: check_run_status
  xr_exitCode :: "int option"
  xr_timedOut :: bool
  xr_durationMs :: nat
  xr_output :: string

text \<open>What \<open>execFile\<close> resolves or rejects with; the code of an error is a number, a string or absent.\<close>

datatype exec_code = Code_number int | Code_text string

record exec_error =
  xe_killed :: bool
  xe_signal :: "string option"
  xe_code :: "exec_code option"
  xe_message :: "string option"
  xe_stdout :: "string option"
  xe_stderr :: "string option"

datatype exec_settled = Exec_ok "string option" "string option" | Exec_rejected exec_error

type_synonym exec_seam = "string \<Rightarrow> string list \<Rightarrow> check_exec_context \<Rightarrow> exec_settled \<times> nat"
  \<comment> \<open>with the measured duration\<close>

abbreviation or_empty :: "string option \<Rightarrow> string" where
  "or_empty s \<equiv> (case s of None \<Rightarrow> [] | Some t \<Rightarrow> t)"

definition lower_ascii :: "char \<Rightarrow> char" where
  "lower_ascii c = (let n = of_char c :: nat in if 65 \<le> n \<and> n \<le> 90 then char_of (n + 32) else c)"

definition mentions :: "string \<Rightarrow> string \<Rightarrow> bool" where
  \<comment> \<open>\<open>/word/i.test(s)\<close> for a lower-case word\<close>
  "mentions s word \<longleftrightarrow> list_ex (\<lambda>i. take (length word) (drop i (map lower_ascii s)) = word) [0..<Suc (length s)]"

definition firstLine :: "string \<Rightarrow> string" where
  "firstLine s = takeWhile (\<lambda>c. c \<noteq> CHR 0x0A) s"

definition code_text :: "exec_code option \<Rightarrow> string" where
  "code_text c = (case c of None \<Rightarrow> ''spawn-error'' | Some (Code_text t) \<Rightarrow> t | Some (Code_number n) \<Rightarrow> show_int n)"

definition execFailure :: "check_exec_context \<Rightarrow> exec_error \<Rightarrow> nat \<Rightarrow> check_exec_result" where
  "execFailure ctx e ms =
     (let out = or_empty (xe_stdout e) @ or_empty (xe_stderr e) in
      if xe_code e = Some (Code_text ''ENOBUFS'') \<or> mentions (or_empty (xe_message e)) ''maxbuffer''
      then \<lparr>xr_status = CR_error, xr_exitCode = None, xr_timedOut = False, xr_durationMs = ms,
        xr_output = out @ [CHR 0x0A] @ ''[output exceeded the '' @ show_nat (xc_maxOutputBytes ctx) @ ''-byte cap]''\<rparr>
      else if xe_killed e \<or> xe_signal e \<noteq> None
      then \<lparr>xr_status = CR_error, xr_exitCode = None, xr_timedOut = True, xr_durationMs = ms,
        xr_output = out @ [CHR 0x0A] @ ''[run exceeded the '' @ show_nat (xc_timeoutMs ctx) @ ''ms bound]''\<rparr>
      else (case xe_code e of
          Some (Code_number n) \<Rightarrow> \<lparr>xr_status = CR_failed, xr_exitCode = Some n, xr_timedOut = False, xr_durationMs = ms, xr_output = out\<rparr>
        | c \<Rightarrow> \<lparr>xr_status = CR_error, xr_exitCode = None, xr_timedOut = False, xr_durationMs = ms,
            xr_output = ''spawn-failed: '' @ code_text c @ '': '' @ firstLine (or_empty (xe_message e))\<rparr>))"

definition boundedExec :: "string \<Rightarrow> string list \<Rightarrow> check_exec_context \<Rightarrow> exec_seam \<Rightarrow> check_exec_result" where
  "boundedExec cmd argv ctx exec = (case exec cmd argv ctx of
       (Exec_ok stdout stderr, ms) \<Rightarrow> \<lparr>xr_status = CR_passed, xr_exitCode = Some 0, xr_timedOut = False, xr_durationMs = ms,
         xr_output = or_empty stdout @ or_empty stderr\<rparr>
     | (Exec_rejected e, ms) \<Rightarrow> execFailure ctx e ms)"

record check_seams =
  ck_bound :: bool
    \<comment> \<open>a capture binding is configured\<close>
  ck_before :: "string \<Rightarrow> observed_capture option"
    \<comment> \<open>the capture of a repository before the execution, \<open>None\<close> where it throws\<close>
  ck_after :: "string \<Rightarrow> observed_capture option"
  ck_exec :: exec_seam
  ck_execPath :: string
  ck_exists :: "string list \<Rightarrow> bool"
    \<comment> \<open>\<open>existsSync\<close> of the joined path components\<close>
  ck_environment :: "string \<times> string"

fun checkExecutor :: "check_class \<Rightarrow> check_seams \<Rightarrow> check_exec_context \<Rightarrow> check_exec_result" where
  "checkExecutor CC_ledger_integrity K ctx =
     \<lparr>xr_status = (if xc_ledgerState ctx = ''ok'' then CR_passed else CR_failed), xr_exitCode = Some 0, xr_timedOut = False,
      xr_durationMs = 0, xr_output = ''ledger state: '' @ xc_ledgerState ctx\<rparr>"
| "checkExecutor CC_repo_payload_check K ctx =
     boundedExec (ck_execPath K) [''scripts/generate-plugin-payload.mjs'', ''--check''] ctx (ck_exec K)"
| "checkExecutor CC_repo_git_head K ctx =
     (let result = boundedExec ''git'' [''rev-parse'', ''HEAD''] ctx (ck_exec K) in
      if xr_status result \<noteq> CR_passed then result
      else let head = trim (xr_output result) in
        (case xc_candidateHead ctx of
           None \<Rightarrow> result
         | Some pin \<Rightarrow> if head \<noteq> pin
             then result\<lparr>xr_status := CR_failed, xr_output := xr_output result @ [CHR 0x0A] @ ''[head '' @ head @ '' != pinned '' @ pin @ '']''\<rparr>
             else result))"

definition defaultProbe :: "check_class \<Rightarrow> check_seams \<Rightarrow> check_exec_context \<Rightarrow> (string \<times> string) option" where
  "defaultProbe cls K ctx =
     (if cls = CC_ledger_integrity then None
      else if \<not> ck_exists K [xc_repository ctx]
      then Some (''repo-checkout'', ''candidate repository '' @ xc_repository ctx @ '' is not readable on this host'')
      else if cls = CC_repo_payload_check \<and> \<not> ck_exists K [xc_repository ctx, ''scripts'', ''generate-plugin-payload.mjs'']
      then Some (''payload-check-script'', ''scripts/generate-plugin-payload.mjs is absent from the pinned checkout'')
      else None)"

definition blockedOutcome :: "string \<times> string \<Rightarrow> check_outcome" where
  "blockedOutcome gap = \<lparr>ko_status = CR_blocked, ko_exitCode = None, ko_timedOut = False, ko_durationMs = None, ko_outputSha256 = None,
     ko_outputTail = None, ko_outputTruncated = False, ko_outputPointer = None, ko_gap = Some gap\<rparr>"

definition executedOutcome :: "desk_env \<Rightarrow> check_exec_result \<Rightarrow> check_outcome" where
  "executedOutcome E r =
     (let out = xr_output r;
          tail = (if deskCheckOutputTailLen < length out then drop (length out - deskCheckOutputTailLen) out else out) in
      \<lparr>ko_status = xr_status r, ko_exitCode = xr_exitCode r, ko_timedOut = xr_timedOut r, ko_durationMs = Some (xr_durationMs r),
       ko_outputSha256 = Some (sha256 E out), ko_outputTail = Some tail, ko_outputTruncated = (length tail < length out),
       ko_outputPointer = None, ko_gap = None\<rparr>)"

definition checkOutcome :: "desk_env \<Rightarrow> check_class \<Rightarrow> check_seams \<Rightarrow> check_exec_context \<Rightarrow> check_outcome" where
  "checkOutcome E cls K ctx = (case defaultProbe cls K ctx of
       Some gap \<Rightarrow> blockedOutcome gap
     | None \<Rightarrow> executedOutcome E (checkExecutor cls K ctx))"

subsection \<open>The measured checkout\<close>

definition freshness :: "desk_env \<Rightarrow> check_seams \<Rightarrow> candidate \<Rightarrow> rollout \<Rightarrow> (string \<Rightarrow> observed_capture option) \<Rightarrow> desk_error_code option" where
  "freshness E KS candidate decl capture =
     (if \<not> ck_bound KS then Some CAPABILITY_GAP
      else case capture (c_repository candidate) of
        None \<Rightarrow> Some CAPABILITY_GAP
      | Some measured \<Rightarrow>
          if \<not> capture_schema_ok E measured then Some CAPABILITY_GAP
          else (case measured of
              Capture_failed _ \<Rightarrow> Some CAPABILITY_GAP
            | Capture_ok observed \<Rightarrow>
                if cp_incomplete observed \<noteq> [] then Some CAPABILITY_GAP
                else if cp_repository observed \<noteq> c_repository candidate \<or> cp_snapshotSha256 observed \<noteq> ro_candidateSnapshot decl \<or>
                    cp_head observed \<noteq> ro_candidateHead decl \<or> cp_head observed \<noteq> c_head candidate
                then Some CANDIDATE_DRIFT
                else None))"

fun store_state_name :: "store_read \<Rightarrow> string" where
  "store_state_name Read_absent = ''absent''"
| "store_state_name (Read_ok l history) = ''ok''"
| "store_state_name Read_unsafe = ''unsafe''"
| "store_state_name Read_corrupt = ''corrupt''"

subsection \<open>Preflight\<close>

text \<open>
  The runner's input is the command it commits, with the pins, the environment and the outcome still
  to be filled in.
\<close>

definition checkRunActor :: "ledger \<Rightarrow> run_ctx \<Rightarrow> check_run_command \<Rightarrow> desk_error_code + (membership \<times> assignment)" where
  \<comment> \<open>the authority gates a replay passes too\<close>
  "checkRunActor l ctx c = (case liveMembership l (ctxAgent ctx) of
       None \<Rightarrow> Inl AUTHORITY_REQUIRED
     | Some actor \<Rightarrow>
         if m_membershipId actor \<noteq> m_membershipId (rx_row ctx) then Inl AUTHORITY_REQUIRED
         else (case requireLead actor of
             Some e \<Rightarrow> Inl e
           | None \<Rightarrow> (case findAssignment l (kr_assignmentId c) of
               None \<Rightarrow> Inl AUTHORITY_REQUIRED
             | Some a \<Rightarrow> if \<not> effectiveOwnerMatches l a actor then Inl ACTOR_MISMATCH else Inr (actor, a))))"

definition runAnswer :: "check_run \<Rightarrow> string \<Rightarrow> json" where
  "runAnswer r receiptId = ok_answer [(''runId'', JStr (cr_runId r)), (''rolloutId'', JStr (cr_rolloutId r)), (''checkId'', JStr (cr_checkId r)),
     (''status'', JStr (check_status_name (cr_status r))), (''attempt'', json_nat (cr_attempt r)), (''receiptId'', JStr receiptId)]"

definition committedRun :: "ledger \<Rightarrow> check_run_command \<Rightarrow> check_run option" where
  "committedRun l c = find (\<lambda>r. cr_requestId r = kr_requestId c \<and> cr_assignmentId r = kr_assignmentId c) (checkRuns l)"

definition replayedRun :: "ledger \<Rightarrow> membership \<Rightarrow> check_run_command \<Rightarrow> check_run \<Rightarrow> answer" where
  "replayedRun l actor c r =
     (if Some (cr_actorAgentId r) \<noteq> m_agentId actor then Inl IDEMPOTENCY_CONFLICT
      else if cr_rolloutId r \<noteq> kr_rolloutId c \<or> cr_checkId r \<noteq> kr_checkId c \<or> cr_definitionRevision r \<noteq> kr_definitionRevision c \<or>
          cr_evidenceRef r \<noteq> kr_evidenceRef c then Inl IDEMPOTENCY_CONFLICT
      else (case find (\<lambda>q. q_actorKey q = ''agent:'' @ actorAgent actor \<and> q_assignmentId q = kr_assignmentId c \<and>
               q_requestId q = kr_requestId c) (requests l) of
          None \<Rightarrow> Inl RECOVERY_REQUIRED
        | Some q \<Rightarrow> Inr (runAnswer r (q_receiptId q))))"

definition pinnedTo :: "rollout \<Rightarrow> check_run_command \<Rightarrow> check_run_command" where
  "pinnedTo decl c = c\<lparr>kr_rolloutRevision := ro_revision decl, kr_candidateSnapshot := ro_candidateSnapshot decl,
     kr_candidateHead := ro_candidateHead decl\<rparr>"

definition preflightEligibility :: "ledger \<Rightarrow> assignment \<Rightarrow> check_run_command \<Rightarrow> desk_error_code + (check_definition \<times> rollout \<times> check_run list)" where
  \<comment> \<open>the eligibility gate without pins, which skips the pin comparison: the declaration's own pins pass it\<close>
  "preflightEligibility l a c =
     checkRunEligibility l a (case latestRolloutDeclaration l (a_assignmentId a) (kr_rolloutId c) of
        None \<Rightarrow> c | Some decl \<Rightarrow> pinnedTo decl c)"

datatype preflight =
    Pre_answer answer
  | Pre_run check_definition rollout candidate

definition checkPreflight :: "ledger \<Rightarrow> run_ctx \<Rightarrow> check_run_command \<Rightarrow> preflight" where
  "checkPreflight l ctx c = (case checkRunActor l ctx c of
       Inl e \<Rightarrow> Pre_answer (Inl e)
     | Inr (actor, a) \<Rightarrow> (case committedRun l c of
         Some r \<Rightarrow> Pre_answer (replayedRun l actor c r)
       | None \<Rightarrow>
           if a_state a \<noteq> AS_open then Pre_answer (Inl ROLLOUT_CONFLICT)
           else (case preflightEligibility l a c of
               Inl e \<Rightarrow> Pre_answer (Inl e)
             | Inr (def, decl, prior) \<Rightarrow>
                 (case find (\<lambda>k. c_snapshotSha256 k = ro_candidateSnapshot decl \<and> c_assignmentId k = kr_assignmentId c) (candidates l) of
                    None \<Rightarrow> Pre_answer (Inl CANDIDATE_DRIFT)
                  | Some candidate \<Rightarrow> Pre_run def decl candidate))))"

subsection \<open>Running\<close>

definition LIMIT_checkTimeoutMs :: nat where "LIMIT_checkTimeoutMs = 60000"
definition LIMIT_checkOutputBytes :: nat where "LIMIT_checkOutputBytes = 1048576"

definition execContext :: "check_definition \<Rightarrow> rollout \<Rightarrow> candidate \<Rightarrow> string \<Rightarrow> check_exec_context" where
  "execContext def decl candidate state =
     \<lparr>xc_repository = c_repository candidate, xc_candidateHead = ro_candidateHead decl, xc_ledgerState = state,
      xc_timeoutMs = min (cl_timeoutMs (cd_limits def)) LIMIT_checkTimeoutMs,
      xc_maxOutputBytes = min (cl_maxOutputBytes (cd_limits def)) LIMIT_checkOutputBytes\<rparr>"

definition measuredRun :: "desk_env \<Rightarrow> check_seams \<Rightarrow> run_ctx \<Rightarrow> check_run_command \<Rightarrow> check_definition \<Rightarrow> rollout \<Rightarrow> candidate \<Rightarrow> string \<Rightarrow> check_run_command" where
  "measuredRun E KS ctx c def decl candidate state = (pinnedTo decl c)\<lparr>kr_actorAgentId := ctxAgent ctx,
     kr_environment := ck_environment KS, kr_outcome := checkOutcome E (cd_checkClass def) KS (execContext def decl candidate state)\<rparr>"

definition json_outcome :: "check_outcome \<Rightarrow> json" where
  "json_outcome k = JObj
     [(''status'', JStr (check_status_name (ko_status k))), (''exitCode'', json_opt JInt (ko_exitCode k)), (''timedOut'', JBool (ko_timedOut k)),
      (''durationMs'', json_opt json_nat (ko_durationMs k)), (''outputSha256'', json_opt JStr (ko_outputSha256 k)),
      (''outputTail'', json_opt JStr (ko_outputTail k)), (''outputTruncated'', JBool (ko_outputTruncated k)),
      (''outputPointer'', json_opt JStr (ko_outputPointer k)),
      (''gap'', json_opt (\<lambda>(capability, detail). JObj [(''capability'', JStr capability), (''detail'', JStr detail)]) (ko_gap k))]"

definition checkRunBody :: "check_run_command \<Rightarrow> json" where
  "checkRunBody c = JObj
     [(''kind'', JStr ''check.run.commit''), (''requestId'', JStr (kr_requestId c)), (''actorAgentId'', JStr (kr_actorAgentId c)),
      (''assignmentId'', JStr (kr_assignmentId c)), (''rolloutId'', JStr (kr_rolloutId c)), (''checkId'', JStr (kr_checkId c)),
      (''definitionRevision'', json_nat (kr_definitionRevision c)), (''evidenceRef'', json_opt JStr (kr_evidenceRef c)),
      (''rolloutRevision'', json_nat (kr_rolloutRevision c)), (''candidateSnapshot'', JStr (kr_candidateSnapshot c)),
      (''candidateHead'', json_opt JStr (kr_candidateHead c)),
      (''environment'', JObj [(''node'', JStr (fst (kr_environment c))), (''platform'', JStr (snd (kr_environment c)))]),
      (''outcome'', json_outcome (kr_outcome c))]"

definition checkRunResponse :: "check_run_command \<Rightarrow> ledger \<Rightarrow> receipt \<Rightarrow> json option" where
  "checkRunResponse c after rcp = map_option (\<lambda>r. runAnswer r (rcp_receiptId rcp)) (committedRun after c)"

definition runCheckRun :: "desk_env \<Rightarrow> desk_seams \<Rightarrow> store_checks \<Rightarrow> check_seams \<Rightarrow> commit_stamp \<Rightarrow> run_ctx \<Rightarrow> check_run_command \<Rightarrow>
    store_disk \<Rightarrow> store_disk \<Rightarrow> store_disk \<Rightarrow> answer option \<times> store_disk" where
  \<comment> \<open>the disk as the runner finds it, as it is when the first capture has returned, and as it is when the second
    has: other writers may commit during the awaited captures and the awaited execution. An early answer
    writes nothing and leaves the disk to them\<close>
  "runCheckRun E S K KS cx ctx c d measured_disk d_commit = (case readLedger E K (rx_repoKey ctx) d of
       Inl e \<Rightarrow> (Some (Inl e), d_commit)
     | Inr l \<Rightarrow> (case checkPreflight l ctx c of
         Pre_answer ans \<Rightarrow> (Some ans, d_commit)
       | Pre_run def decl candidate \<Rightarrow>
           (case freshness E KS candidate decl (ck_before KS) of
              Some e \<Rightarrow> (Some (Inl e), d_commit)
            | None \<Rightarrow>
               (case freshness E KS candidate decl (ck_after KS) of
                  Some e \<Rightarrow> (Some (Inl e), d_commit)
                | None \<Rightarrow>
                   let run = measuredRun E KS ctx c def decl candidate (store_state_name (readStore E K (rx_repoKey ctx) measured_disk)) in
                   transactAnswer E S K (rx_repoKey ctx) cx
                     (runnerEnvelope ctx l (kr_assignmentId c) (kr_requestId c) (checkRunBody run, Desk_check (Check_run_commit run)))
                     (checkRunResponse c) d_commit))))"

end
