(* ===== verification/Desk_Runner_Measured.thy ===== *)
theory Desk_Runner_Measured
  imports Desk_Runner_Checks Desk_Runner_Answers Desk_Check_Gap
begin

text \<open>
  What a committed check run stands on: the two measurements of the checkout, the pins of the
  rollout at the commit, and the outcome of the one bounded execution.
\<close>

subsection \<open>The contract of the check runner\<close>

text \<open>The answer of a check run names every field of the row it committed.\<close>

definition runTold :: "check_run_command \<Rightarrow> ledger \<Rightarrow> ledger \<Rightarrow> string \<Rightarrow> json \<Rightarrow> bool" where
  "runTold c l l' rid j \<longleftrightarrow> (\<exists>run. checkRuns l' = checkRuns l @ [run] \<and> j = runAnswer run rid)"

lemma check_run_held:
  assumes "deskDecide E S l h (Desk_check (Check_run_commit c)) = Inr (evs, p)" and "committedRun l c = None"
  shows "\<exists>j. checkRunResponse c (apply_tables l p) rcp = Some j \<and> runTold c l (apply_tables l p) (rcp_receiptId rcp) j"
proof -
  from assms have "decideDeskCheck E l (Check_run_commit c) = Inr (evs, p)" by simp
  then obtain m a def decl prior where p: "checkRuns (apply_tables l p) = checkRuns l @ [runRow E m c def decl prior]"
    and agent: "kr_actorAgentId c = actorAgent m"
    by (rule check_decided) (auto simp: decideCheckRun_def Let_def accepted dest: requireActor_facts(3))
  then show ?thesis
    using assms(2) find_appended [of "\<lambda>r. cr_requestId r = kr_requestId c \<and> cr_assignmentId r = kr_assignmentId c" "checkRuns l"
        "runRow E m c def decl prior"]
    by (auto simp: p checkRunResponse_def committedRun_def runTold_def runRow_sel simp del: apply_tables_sel)
qed

lemma check_run_stamped: "checkRunResponse c (stamped l n at m tip qs) rcp = checkRunResponse c l rcp"
  "runTold c l (stamped l2 n at m tip qs) rid j \<longleftrightarrow> runTold c l l2 rid j"
  by (simp_all add: checkRunResponse_def committedRun_def runTold_def stamped_def)

interpretation checkRan: answering E S "Desk_check (Check_run_commit c)" "checkRunResponse c" "\<lambda>l. committedRun l c = None" "runTold c"
  for E S c by unfold_locales (simp_all only: check_run_held check_run_stamped)

lemma measured_response: "checkRunResponse (measuredRun E KS ctx c def decl candidate state) = checkRunResponse c"
  by (simp add: fun_eq_iff checkRunResponse_def committedRun_def measuredRun_def pinnedTo_def)

subsection \<open>The measurement\<close>

definition measured_as :: "candidate \<Rightarrow> string \<Rightarrow> string option \<Rightarrow> observed_capture option \<Rightarrow> bool" where
  \<comment> \<open>a complete capture of exactly this candidate's checkout\<close>
  "measured_as candidate snapshot head capture \<longleftrightarrow> (case capture of
       Some (Capture_ok k) \<Rightarrow> cp_incomplete k = [] \<and> cp_repository k = c_repository candidate \<and> cp_snapshotSha256 k = snapshot \<and>
         cp_head k = head
     | _ \<Rightarrow> False)"

lemma freshness_measures:
  assumes "freshness E KS candidate decl capture = None"
  shows "measured_as candidate (ro_candidateSnapshot decl) (ro_candidateHead decl) (capture (c_repository candidate))"
    and "c_head candidate = ro_candidateHead decl"
  using assms by (auto simp: freshness_def measured_as_def split: option.splits observed_capture.splits if_splits)

lemma preflight_runs:
  assumes "checkPreflight l ctx c = Pre_run def decl candidate"
  obtains a prior where "preflightEligibility l a c = Inr (def, decl, prior)"
    and "candidate \<in> set (candidates l)" and "c_assignmentId candidate = kr_assignmentId c"
  using assms unfolding checkPreflight_def
  by (auto split: sum.splits option.splits if_splits dest!: find_SomeD)

lemma check_run_commits:
  assumes "runCheckRun E S K KS cx ctx c d d1 d2 = (Some ans, d')" and "d' \<noteq> d2"
  obtains l def decl candidate run where "readLedger E K (rx_repoKey ctx) d = Inr l" and "checkPreflight l ctx c = Pre_run def decl candidate"
    and "freshness E KS candidate decl (ck_before KS) = None" and "freshness E KS candidate decl (ck_after KS) = None"
    and "run = measuredRun E KS ctx c def decl candidate (store_state_name (readStore E K (rx_repoKey ctx) d1))"
    and "transactAnswer E S K (rx_repoKey ctx) cx (runnerEnvelope ctx l (kr_assignmentId c) (kr_requestId c)
          (checkRunBody run, Desk_check (Check_run_commit run))) (checkRunResponse c) d2 = (Some ans, d')"
  using assms unfolding runCheckRun_def Let_def
  by (auto split: sum.splits preflight.splits option.splits)

lemma definition_exists:
  assumes "preflightEligibility l a c = Inr (def, decl, prior)"
  shows "def \<in> set (checkDefinitions l) \<and> cd_checkId def = kr_checkId c \<and> cd_revision def = kr_definitionRevision c"
  using run_eligible(2) [OF assms [unfolded preflightEligibility_def]]
  by (auto simp: definitionStream_def pinnedTo_def dest!: find_SomeD split: option.splits)

lemma committed_run_pins:
  assumes "deskDecide E S l h (Desk_check (Check_run_commit c)) = Inr (evs, p)"
  obtains run decl where "checkRuns (apply_tables l p) = checkRuns l @ [run]"
    and "cr_requestId run = kr_requestId c" and "cr_status run = ko_status (kr_outcome c)" and "cr_definitionRevision run = kr_definitionRevision c"
    and "latestRolloutDeclaration l (kr_assignmentId c) (kr_rolloutId c) = Some decl"
    and "cr_rolloutRevision run = ro_revision decl"
    and "cr_candidateSnapshot run = kr_candidateSnapshot c" and "ro_candidateSnapshot decl = kr_candidateSnapshot c"
    and "cr_candidateHead run = kr_candidateHead c" and "ro_candidateHead decl = kr_candidateHead c"
    and "currentRolloutState l (kr_assignmentId c) (kr_rolloutId c) = Some RS_checks_running"
proof -
  from assms have "decideDeskCheck E l (Check_run_commit c) = Inr (evs, p)" by simp
  then obtain m a where "findAssignment l (kr_assignmentId c) = Some a" and d: "decideCheckRun E l m a c = Inr (evs, p)"
    by (rule check_decided) auto
  then have aid: "a_assignmentId a = kr_assignmentId c" by (auto simp: findAssignment_def dest: find_SomeD)
  from d obtain def decl prior where e: "checkRunEligibility l a c = Inr (def, decl, prior)"
    and p: "p = no_tables\<lparr>p_checkRuns := Some (checkRuns l @ [runRow E m c def decl prior])\<rparr>"
    unfolding decideCheckRun_def Let_def accepted by auto
  note f = run_eligible [OF e]
  have "cd_revision def = kr_definitionRevision c" using f(2) by (auto dest: find_SomeD)
  with f show thesis
    by (intro that [of "runRow E m c def decl prior" decl]) (simp_all add: p runRow_sel aid)
qed

text \<open>C37. A committed run measured what it claims. When running a check commits a row, then before and
  after the execution complete captures of the candidate's repository showed exactly the snapshot
  and head the row carries; those are the pins of the rollout's latest declaration at the commit,
  whatever other writers committed during the captures and the execution, and the rollout was
  still running its checks; the status is that of the one bounded execution of the class of the
  definition revision the caller named; and the call is answered with every field of that row under the
  receipt id of its record. No run carries the request key before. The disk may carry orphans of earlier
  crashes; if the commit overtook one (C11, C24), and only then, the desk reads as corrupt and the caller is
  told so.\<close>

theorem committed_run_was_measured:
  assumes "runCheckRun E S K KS cx ctx c d d1 d2 = (Some ans, d')"
    and "dk_ledger d2 = Some l2" and "dk_ledger d' = Some l'" and "requests l' = requests l2 @ [q]" and "q_outcome q = RO_committed"
    and "committedRun l2 c = None" and "sha_hex E" and "time_ok E (cx_at cx)" and "orphansAtTip d2"
  shows "\<exists>l run candidate def xc decl. readLedger E K (rx_repoKey ctx) d = Inr l \<and> candidate \<in> set (candidates l) \<and>
    checkRuns l' = checkRuns l2 @ [run] \<and> cr_requestId run = kr_requestId c \<and>
    measured_as candidate (cr_candidateSnapshot run) (cr_candidateHead run) (ck_before KS (c_repository candidate)) \<and>
    measured_as candidate (cr_candidateSnapshot run) (cr_candidateHead run) (ck_after KS (c_repository candidate)) \<and>
    latestRolloutDeclaration l2 (kr_assignmentId c) (kr_rolloutId c) = Some decl \<and> cr_rolloutRevision run = ro_revision decl \<and>
    ro_candidateSnapshot decl = cr_candidateSnapshot run \<and> ro_candidateHead decl = cr_candidateHead run \<and>
    currentRolloutState l2 (kr_assignmentId c) (kr_rolloutId c) = Some RS_checks_running \<and>
    def \<in> set (checkDefinitions l) \<and> cd_checkId def = kr_checkId c \<and> cd_revision def = cr_definitionRevision run \<and>
    xc_timeoutMs xc \<le> LIMIT_checkTimeoutMs \<and> cr_status run = ko_status (checkOutcome E (cd_checkClass def) KS xc) \<and>
    ans = (if readStore E K (rx_repoKey ctx) d' = Read_corrupt then Inl STATE_UNREADABLE else Inr (runAnswer run (q_receiptId q))) \<and>
    (readStore E K (rx_repoKey ctx) d' = Read_corrupt \<longrightarrow> \<not> orphanFree d2)"
proof -
  have "d' \<noteq> d2" using assms(2-4) by auto
  with assms(1) obtain l def decl candidate cmd where l: "readLedger E K (rx_repoKey ctx) d = Inr l"
    and pre: "checkPreflight l ctx c = Pre_run def decl candidate"
    and fresh: "freshness E KS candidate decl (ck_before KS) = None" "freshness E KS candidate decl (ck_after KS) = None"
    and cmd: "cmd = measuredRun E KS ctx c def decl candidate (store_state_name (readStore E K (rx_repoKey ctx) d1))"
    and run: "transactAnswer E S K (rx_repoKey ctx) cx (runnerEnvelope ctx l (kr_assignmentId c) (kr_requestId c)
          (checkRunBody cmd, Desk_check (Check_run_commit cmd))) (checkRunResponse c) d2 = (Some ans, d')"
    by (rule check_run_commits)
  have snd_env: "snd (en_command (runnerEnvelope ctx l (kr_assignmentId c) (kr_requestId c) (checkRunBody cmd, Desk_check (Check_run_commit cmd)))) =
      Desk_check (Check_run_commit cmd)" by (simp add: runnerEnvelope_def)
  have resp: "checkRunResponse c = checkRunResponse cmd" by (simp add: cmd measured_response)
  have "committedRun l2 cmd = None" using assms(6) by (simp add: committedRun_def cmd measuredRun_def pinnedTo_def)
  from checkRan.answered_tail [OF run [unfolded resp] snd_env this assms(7-9,2-5)] obtain told where
    told: "checkRuns l' = checkRuns l2 @ [told]"
      "ans = (if readStore E K (rx_repoKey ctx) d' = Read_corrupt then Inl STATE_UNREADABLE else Inr (runAnswer told (q_receiptId q)))"
      "readStore E K (rx_repoKey ctx) d' = Read_corrupt \<longrightarrow> \<not> orphanFree d2"
    unfolding runTold_def by blast
  from run snd_env assms(2-5) obtain h evs p n at m tip where acc: "deskDecide E S l2 h (Desk_check (Check_run_commit cmd)) = Inr (evs, p)"
    and st: "l' = stamped (apply_tables l2 p) n at m tip (requests l')"
    by (rule committed_tables)
  have l': "checkRuns l' = checkRuns (apply_tables l2 p)"
    using arg_cong [OF st, of checkRuns] by (simp add: stamped_def)
  from acc obtain r decl2 where r: "checkRuns (apply_tables l2 p) = checkRuns l2 @ [r]"
    "cr_requestId r = kr_requestId cmd" "cr_status r = ko_status (kr_outcome cmd)" "cr_definitionRevision r = kr_definitionRevision cmd"
    "latestRolloutDeclaration l2 (kr_assignmentId cmd) (kr_rolloutId cmd) = Some decl2" "cr_rolloutRevision r = ro_revision decl2"
    "cr_candidateSnapshot r = kr_candidateSnapshot cmd" "ro_candidateSnapshot decl2 = kr_candidateSnapshot cmd"
    "cr_candidateHead r = kr_candidateHead cmd" "ro_candidateHead decl2 = kr_candidateHead cmd"
    "currentRolloutState l2 (kr_assignmentId cmd) (kr_rolloutId cmd) = Some RS_checks_running"
    by (rule committed_run_pins)
  from pre obtain a prior where "preflightEligibility l a c = Inr (def, decl, prior)" and cand: "candidate \<in> set (candidates l)"
    by (rule preflight_runs)
  note def = definition_exists [OF this(1)]
  have sel: "kr_assignmentId cmd = kr_assignmentId c" "kr_rolloutId cmd = kr_rolloutId c" "kr_requestId cmd = kr_requestId c"
    "kr_candidateSnapshot cmd = ro_candidateSnapshot decl" "kr_candidateHead cmd = ro_candidateHead decl"
    "kr_definitionRevision cmd = kr_definitionRevision c"
    "kr_outcome cmd = checkOutcome E (cd_checkClass def) KS (execContext def decl candidate (store_state_name (readStore E K (rx_repoKey ctx) d1)))"
    by (simp_all add: cmd measuredRun_def pinnedTo_def)
  let ?xc = "execContext def decl candidate (store_state_name (readStore E K (rx_repoKey ctx) d1))"
  have same: "r = told" using told(1) l' r(1) by simp
  have "xc_timeoutMs ?xc \<le> LIMIT_checkTimeoutMs" by (simp add: execContext_def)
  then show ?thesis
    using l cand l' r freshness_measures(1) [OF fresh(1)] freshness_measures(1) [OF fresh(2)] def told(2,3) unfolding sel same
    by (intro exI [of _ l] exI [of _ told] exI [of _ candidate] exI [of _ def] exI [of _ ?xc] exI [of _ decl2]) simp
qed

definition measured_desk :: ledger where
  "measured_desk = demo_desk\<lparr>repo := toy_repo, repoKey := toy_key, lastEventSeq := 0, lastEventSha256 := None, requests := []\<rparr>"

definition measured_disk :: store_disk where
  "measured_disk = toy_disk\<lparr>dk_ledger := Some measured_desk\<rparr>"

definition demo_capture :: "string \<Rightarrow> observed_capture option" where
  "demo_capture path = Some (Capture_ok \<lparr>cp_repository = path, cp_measuredAt = ''t1'', cp_snapshotSha256 = demo_sha, cp_head = None, cp_incomplete = []\<rparr>)"

definition demo_check_seams :: check_seams where
  "demo_check_seams = \<lparr>ck_bound = True, ck_before = demo_capture, ck_after = demo_capture,
     ck_exec = (\<lambda>cmd argv ctx. (Exec_ok (Some []) None, 7)), ck_execPath = ''/node'', ck_exists = (\<lambda>path. True),
     ck_environment = (''v20'', ''linux'')\<rparr>"

definition demo_check_ctx :: run_ctx where
  "demo_check_ctx = \<lparr>rx_repoKey = toy_key, rx_row = demo_member ''m1'' ''lead1'' Role_lead\<rparr>"

lemma check_run_commits_demo: "(case runCheckRun toy_env mint_seams toy_checks demo_check_seams toy_stamp demo_check_ctx (demo_run_command (Some ''log-1''))
     measured_disk measured_disk measured_disk of
    (Some ans, d') \<Rightarrow> (case dk_ledger d' of
       Some l' \<Rightarrow> (case requests l' of [q] \<Rightarrow> q_outcome q = RO_committed | _ \<Rightarrow> False)
     | None \<Rightarrow> False)
  | _ \<Rightarrow> False)"
  by code_simp

lemma committed_run_was_measured_witness:
  "\<exists>ans d' l' run. runCheckRun toy_env mint_seams toy_checks demo_check_seams toy_stamp demo_check_ctx (demo_run_command (Some ''log-1''))
      measured_disk measured_disk measured_disk = (Some ans, d') \<and> dk_ledger d' = Some l' \<and>
    checkRuns l' = checkRuns measured_desk @ [run] \<and> cr_requestId run = ''kr1'' \<and> (\<exists>rid. ans = Inr (runAnswer run rid))"
proof -
  from check_run_commits_demo obtain ans d' l' q
    where run: "runCheckRun toy_env mint_seams toy_checks demo_check_seams toy_stamp demo_check_ctx (demo_run_command (Some ''log-1''))
        measured_disk measured_disk measured_disk = (Some ans, d')"
      and l': "dk_ledger d' = Some l'" and q: "requests l' = requests measured_desk @ [q]" "q_outcome q = RO_committed"
    by (auto simp: measured_desk_def split: prod.splits option.splits list.splits)
  have d: "orphanFree measured_disk" "dk_ledger measured_disk = Some measured_desk"
    by (simp_all add: orphanFree_def measured_disk_def toy_disk_def)
  have new: "committedRun measured_desk (demo_run_command (Some ''log-1'')) = None" by code_simp
  from committed_run_was_measured [OF run d(2) l' q new toy_sha_hex toy_time orphanFree_atTip [OF d(1)]] d(1) run l' show ?thesis
    by (auto simp: demo_run_command_def)
qed

end
