(* ===== verification/Desk_Claims.thy ===== *)
theory Desk_Claims
  imports Desk_Run Desk_Store_Safety
begin

text \<open>
  Claims on the desk. A handback row is a claim with an observed block beside it; no command of any
  family takes a claim off the desk, moves it or rewrites anything of it but the observed block and
  the gaps, and neither does any transaction, whether it is interrupted or not.
\<close>

subsection \<open>Claims\<close>

definition claimOf :: "handback \<Rightarrow> handback" where
  \<comment> \<open>a row without what the measurement writes into it\<close>
  "claimOf h = observedRow \<lparr>ob_status = OS_pending, ob_candidateId = None, ob_repository = [], ob_measuredAt = None, ob_error = None\<rparr> [] h"

definition claimsKept :: "ledger \<Rightarrow> ledger \<Rightarrow> bool" where
  "claimsKept l l' \<longleftrightarrow> prefix (map claimOf (handbacks l)) (map claimOf (handbacks l'))"

lemma claimOf_observed [simp]: "claimOf (observedRow ob gs h) = claimOf h"
  by (simp add: claimOf_def observedRow_def)

lemma claimOf_sel:
  assumes "claimOf h = claimOf k"
  shows "h_handbackId h = h_handbackId k" and "h_assignmentId h = h_assignmentId k" and "h_agentId h = h_agentId k"
    and "h_requestId h = h_requestId k" and "h_record h = h_record k" and "h_claimedCandidateId h = h_claimedCandidateId k"
    and "h_revision h = h_revision k"
  using assms by (cases h; cases k; simp add: claimOf_def observedRow_def)+

lemma claimOf_same: "claimOf h = claimOf k \<Longrightarrow> k = observedRow (h_observed k) (h_gaps k) h"
  by (cases h; cases k) (simp add: claimOf_def observedRow_def)

lemma claimsKept_refl [simp]: "claimsKept l l"
  by (simp add: claimsKept_def)

lemma claimsKept_trans: "claimsKept l l1 \<Longrightarrow> claimsKept l1 l2 \<Longrightarrow> claimsKept l l2"
  by (auto simp: claimsKept_def intro: prefix_order.trans)

lemma claimsKept_same: "handbacks l' = handbacks l \<Longrightarrow> claimsKept l l'"
  by (simp add: claimsKept_def)

lemma claimsKept_update:
  assumes "handbacks l' = updateHandback hid (\<lambda>h. observedRow ob (g h) h) (handbacks l)"
  shows "claimsKept l l'"
proof -
  have "map claimOf (handbacks l') = map claimOf (handbacks l)"
    by (simp add: assms updateHandback_def)
  then show ?thesis by (simp add: claimsKept_def)
qed

subsection \<open>Every command keeps them\<close>

lemma handback_keeps_claims:
  assumes "decideDeskHandback E H sel history l cmd = Inr (evs, p)"
  shows "claimsKept l (apply_tables l p)"
  using assms
proof (cases rule: handback_decided)
  case (1 actor)
  show ?thesis
  proof (cases cmd)
    case (Assignment_register c)
    with 1 show ?thesis by (auto simp: decideRegister_def Let_def accepted claimsKept_same)
  next
    case (Assignment_attach c)
    with 1 show ?thesis
      by (auto simp: decideAttach_def Let_def accepted claimsKept_same split: if_splits option.splits)
  next
    case (Assignment_close c)
    with 1 have "decideClose l history actor c = Inr (evs, p)" by simp
    then show ?thesis by (rule close_accepted) (simp_all add: claimsKept_same)
  next
    case (Handback_submit c)
    with 1 have "decideSubmit E H l actor c = Inr (evs, p)" by simp
    then show ?thesis by (rule submit_accepted) (simp add: claimsKept_def)
  next
    case (Handback_observe c)
    with 1 have "decideObserve E l actor c = Inr (evs, p)" by simp
    then show ?thesis
    proof (cases rule: observe_accepted)
      case repeated
      then show ?thesis by (simp add: claimsKept_same)
    next
      case (failed h k)
      then have "handbacks (apply_tables l p) = updateHandback (vc_handbackId c) (observedRow (failedObservation k) (failedGaps h k)) (handbacks l)"
        by (auto simp: observeFailed_def)
      then show ?thesis by (intro claimsKept_update [of _ _ _ "\<lambda>_. failedGaps h k"]) simp
    next
      case (ok h k)
      then show ?thesis
        unfolding observeOk_def by (intro claimsKept_update [of _ "vc_handbackId c" _ h_gaps]) (auto simp: Let_def split: if_splits)
    qed
  qed
qed

lemma check_keeps_claims:
  assumes "decideDeskCheck E l cmd = Inr (evs, p)"
  shows "handbacks (apply_tables l p) = handbacks l"
  using assms
proof (rule check_decided)
  fix actor a
  assume "(case cmd of Check_declare c \<Rightarrow> decideCheckDeclare l actor a c | Check_run_commit c \<Rightarrow> decideCheckRun E l actor a c) = Inr (evs, p)"
  then show ?thesis by (cases cmd) (auto simp: decideCheckDeclare_def decideCheckRun_def Let_def accepted)
qed

lemma seat_keeps_claims: "decideSeatCommand E t l c = Some (Inr (evs, p)) \<Longrightarrow> handbacks (apply_tables l p) = handbacks l"
  by (drule seat_patch) auto

lemma scope_keeps_claims:
  assumes "decideDeskScope E l cmd = Inr (evs, p)"
  shows "handbacks (apply_tables l p) = handbacks l"
proof (cases cmd)
  case (Scope_declare c)
  show ?thesis using assms unfolding Scope_declare
    by (rule declare_facts) (simp add: afterDeclare_def pushScope_def pushTransition_def)
next
  case (Scope_transition c)
  show ?thesis using assms unfolding Scope_transition by (rule transition_facts) (simp add: pushTransition_def)
next
  case (Scope_review c)
  show ?thesis using assms unfolding Scope_review by (rule review_facts) simp
qed

lemma rollout_keeps_claims:
  assumes "decideDeskRollout E l cmd = Inr (evs, p)"
  shows "handbacks (apply_tables l p) = handbacks l"
proof (cases cmd)
  case (Rollout_declare c)
  show ?thesis using assms unfolding Rollout_declare
    by (rule rollout_declare_facts) (simp add: afterRolloutDeclare_def pushRollout_def pushMove_def)
next
  case (Rollout_transition c)
  show ?thesis using assms unfolding Rollout_transition by (rule rollout_transition_facts) (simp add: pushMove_def)
qed

lemma ownership_keeps_claims: "decideDeskOwnership E l cmd = Inr (evs, p) \<Longrightarrow> handbacks (apply_tables l p) = handbacks l"
  by (cases cmd) (auto simp: ownership_Inr decideOffer_Inr decideAccept_Inr)

lemma assignment_keeps_claims:
  assumes "decideDeskAssignment E l cmd = Inr (evs, p)"
  shows "handbacks (apply_tables l p) = handbacks l"
proof (cases cmd)
  case (Assignment_amend c)
  show ?thesis using assms unfolding Assignment_amend by (rule amend_facts) (simp add: pushBrief_def)
next
  case (Decision_append c)
  show ?thesis using assms unfolding Decision_append by (rule decision_facts) (simp add: pushDecision_def)
qed

lemma settlement_keeps_claims: "decideDeskSettlement E H l c = Inr (evs, p) \<Longrightarrow> handbacks (apply_tables l p) = handbacks l"
  by (erule settlement_decided) simp

lemma accepted_keeps_claims:
  assumes "deskDecide E S l h cmd = Inr (evs, p)"
  shows "claimsKept l (apply_tables l p)"
  using assms
  by (cases cmd) (auto split: option.splits intro: handback_keeps_claims claimsKept_same seat_keeps_claims settlement_keeps_claims
    check_keeps_claims scope_keeps_claims rollout_keeps_claims ownership_keeps_claims assignment_keeps_claims)

subsection \<open>Every transaction keeps them\<close>

definition keepsDesk :: "store_disk \<Rightarrow> store_disk \<Rightarrow> bool" where
  \<comment> \<open>the desk is there before and after, with the claims kept\<close>
  "keepsDesk d d' \<longleftrightarrow> (case (dk_ledger d, dk_ledger d') of (Some l, Some l') \<Rightarrow> claimsKept l l' | (Some l, None) \<Rightarrow> False | _ \<Rightarrow> True)"

lemma keepsDesk_refl [simp]: "keepsDesk d d"
  by (simp add: keepsDesk_def split: option.splits)

lemma keepsDeskD: "keepsDesk d d' \<Longrightarrow> dk_ledger d = Some l \<Longrightarrow> \<exists>l'. dk_ledger d' = Some l' \<and> claimsKept l l'"
  by (auto simp: keepsDesk_def split: option.splits)

lemma planned_keeps_claims:
  assumes "transactPlan E K key (deskDecider E S) cx env d = Plan_write s l' r" and "dk_ledger d = Some l"
  shows "claimsKept l l'"
proof -
  from assms(1) obtain l1 h where base: "baseLedger E K key cx env d = Some (l1, h)"
    and w: "commitDecided E K key (deskDecider E S) cx env l1 h = Plan_write s l' r"
    by (rule transactPlan_write)
  from base assms(2) have l1: "l1 = l" by (auto simp: baseLedger_def readStore_ok readStore_absent split: store_read.splits)
  let ?out = "dd_decide (deskDecider E S) l h (en_command env)"
  have hs: "handbacks l' = handbacks (apply_tables l (outcomeTables ?out))"
    using commitDecided_write(4) [OF w] unfolding l1 by (simp add: candidateLedger_def Let_def)
  show ?thesis
  proof (cases ?out)
    case (Inl e)
    then show ?thesis using hs by (simp add: outcomeTables_def claimsKept_same)
  next
    case (Inr out)
    obtain evs p where out: "out = (evs, p)" by (cases out)
    have "deskDecide E S l h (snd (en_command env)) = Inr (evs, p)"
      using Inr out by (cases "en_command env") (simp add: deskDecider_def)
    from accepted_keeps_claims [OF this] hs show ?thesis by (simp add: Inr out outcomeTables_def claimsKept_def)
  qed
qed

lemma attempt_keeps_desk: "keepsDesk d (attemptState E K key (deskDecider E S) t d)"
proof -
  obtain cx env stop where t: "t = (cx, env, stop)" by (cases t) auto
  let ?plan = "transactPlan E K key (deskDecider E S) cx env d"
  have "keepsDesk d x" if "x \<in> set (commitTrace ?plan d)" for x
  proof (cases ?plan)
    case (Plan_write s l' r)
    have "claimsKept l l'" if "dk_ledger d = Some l" for l by (rule planned_keeps_claims [OF Plan_write that])
    then have new: "keepsDesk d y" if "dk_ledger y = dk_ledger d \<or> dk_ledger y = Some l'" for y
      using that by (cases "dk_ledger d") (auto simp: keepsDesk_def)
    from that Plan_write show ?thesis
      by (cases s) (auto simp: Let_def intro: new)
  qed (use that in auto)
  from this [OF attempt_in_trace] show ?thesis by (simp add: t)
qed

lemma transact_keeps_desk: "keepsDesk d (snd (transact E K key (deskDecider E S) cx env d))"
  using attempt_keeps_desk [where t = "(cx, env, 2)"] by (simp add: attempt_completed completed_def)

end
