(* ===== verification/Desk_Runner_Submit.thy ===== *)
theory Desk_Runner_Submit
  imports Desk_Runner_Answers Desk_Claims
begin

text \<open>
  Submitting a handback (plugin/server/desk-handback.ts, \<open>runHandbackSubmit\<close>) is a flow of two
  commits: the claim lands under the seat's request id, then the bounded capture of the checkout
  runs and a second command finalizes the observed block. A claim whose observation fails stays
  pending, and the answer reports the gap. Other writers use the store between any two of these
  steps.
\<close>

subsection \<open>The runner\<close>

record submit_seams =
  sb_bound :: bool
    \<comment> \<open>a runtime is bound\<close>
  sb_capture :: "string \<Rightarrow> observed_capture option"
    \<comment> \<open>\<open>None\<close> where it throws\<close>
  sb_uuid :: string

text \<open>What other writers leave of the disk at the points where the submission does not hold the lock.\<close>

record other_writers =
  ow_lock :: "store_disk \<Rightarrow> store_disk"
    \<comment> \<open>between the first read and the lock of the first commit\<close>
  ow_read :: "store_disk \<Rightarrow> store_disk"
    \<comment> \<open>between the first commit and the read of the claim\<close>
  ow_capture :: "store_disk \<Rightarrow> store_disk"
    \<comment> \<open>while the capture is awaited, up to the lock of the second commit\<close>
  ow_refresh :: "store_disk \<Rightarrow> store_disk"
    \<comment> \<open>between the second commit and the last read\<close>

fun error_code_name :: "desk_error_code \<Rightarrow> string" where
  "error_code_name AUTHORITY_REQUIRED = ''AUTHORITY_REQUIRED''"
| "error_code_name ACTOR_MISMATCH = ''ACTOR_MISMATCH''"
| "error_code_name SCOPE_CONFLICT = ''SCOPE_CONFLICT''"
| "error_code_name STALE_EPOCH = ''STALE_EPOCH''"
| "error_code_name REVISION_CONFLICT = ''REVISION_CONFLICT''"
| "error_code_name CANDIDATE_DRIFT = ''CANDIDATE_DRIFT''"
| "error_code_name EVIDENCE_INCOMPLETE = ''EVIDENCE_INCOMPLETE''"
| "error_code_name REVIEW_INCOMPLETE = ''REVIEW_INCOMPLETE''"
| "error_code_name INVALID_RECORD = ''INVALID_RECORD''"
| "error_code_name CAPABILITY_GAP = ''CAPABILITY_GAP''"
| "error_code_name SESSION_REBIND_REQUIRED = ''SESSION_REBIND_REQUIRED''"
| "error_code_name STATE_UNREADABLE = ''STATE_UNREADABLE''"
| "error_code_name IDEMPOTENCY_CONFLICT = ''IDEMPOTENCY_CONFLICT''"
| "error_code_name RECOVERY_REQUIRED = ''RECOVERY_REQUIRED''"
| "error_code_name EXECUTION_UNKNOWN = ''EXECUTION_UNKNOWN''"
| "error_code_name JOB_RUNNING = ''JOB_RUNNING''"
| "error_code_name REQUEST_TOO_LARGE = ''REQUEST_TOO_LARGE''"
| "error_code_name RESPONSE_TOO_LARGE = ''RESPONSE_TOO_LARGE''"
| "error_code_name ROLLOUT_CONFLICT = ''ROLLOUT_CONFLICT''"
| "error_code_name CHECK_INCOMPLETE = ''CHECK_INCOMPLETE''"
| "error_code_name COHORT_DRIFT = ''COHORT_DRIFT''"
| "error_code_name RETRY_EXHAUSTED = ''RETRY_EXHAUSTED''"
| "error_code_name RUNTIME_INTEGRITY = ''RUNTIME_INTEGRITY''"
| "error_code_name ROUTE_DRIFT = ''ROUTE_DRIFT''"
| "error_code_name SEAT_INELIGIBLE = ''SEAT_INELIGIBLE''"
| "error_code_name STOP_REQUESTED = ''STOP_REQUESTED''"
| "error_code_name INTEGRATION_CONFLICT = ''INTEGRATION_CONFLICT''"
| "error_code_name INTEGRATION_UNSUPPORTED = ''INTEGRATION_UNSUPPORTED''"
| "error_code_name EFFECT_INADMISSIBLE = ''EFFECT_INADMISSIBLE''"
| "error_code_name VIEW_TOO_LARGE = ''VIEW_TOO_LARGE''"

fun json_capture :: "observed_capture \<Rightarrow> json" where
  "json_capture (Capture_ok k) = JObj
     [(''status'', JStr ''ok''), (''repository'', JStr (cp_repository k)), (''measuredAt'', JStr (cp_measuredAt k)),
      (''snapshotSha256'', JStr (cp_snapshotSha256 k)), (''head'', json_opt JStr (cp_head k)), (''incomplete'', json_strs (cp_incomplete k))]"
| "json_capture (Capture_failed k) = JObj
     [(''status'', JStr ''failed''), (''repository'', JStr (cp_repository k)), (''measuredAt'', JStr (cp_measuredAt k)),
      (''reason'', JStr (capture_reason_name (cp_reason k))), (''detail'', JStr (cp_detail k))]"

definition submitBody :: "run_ctx \<Rightarrow> submit_command \<Rightarrow> json" where
  "submitBody ctx c = JObj
     [(''kind'', JStr ''handback.submit''), (''requestId'', JStr (uc_requestId c)), (''actorAgentId'', JStr (ctxAgent ctx)),
      (''assignmentId'', JStr (uc_assignmentId c)), (''recordV1'', uc_recordV1 c), (''candidateId'', json_opt JStr (uc_candidateId c))]"

definition submitCommit :: "desk_env \<Rightarrow> desk_seams \<Rightarrow> store_checks \<Rightarrow> commit_stamp \<Rightarrow> run_ctx \<Rightarrow> submit_command \<Rightarrow> ledger \<Rightarrow> store_disk \<Rightarrow>
    transact_result option \<times> store_disk" where
  \<comment> \<open>the first commit: the claim\<close>
  "submitCommit E S K cx ctx c l d = transact E K (rx_repoKey ctx) (deskDecider E S) cx
     (runnerEnvelope ctx l (uc_assignmentId c) (uc_requestId c)
       (submitBody ctx c, Desk_handback (Handback_submit (c\<lparr>uc_actorAgentId := ctxAgent ctx\<rparr>)))) d"

definition observeCommand :: "submit_seams \<Rightarrow> run_ctx \<Rightarrow> handback \<Rightarrow> observed_capture \<Rightarrow> observe_command" where
  "observeCommand V ctx h capture = \<lparr>vc_requestId = sb_uuid V, vc_actorAgentId = ctxAgent ctx, vc_handbackId = h_handbackId h, vc_capture = capture\<rparr>"

definition observeBody :: "observe_command \<Rightarrow> json" where
  "observeBody c = JObj
     [(''kind'', JStr ''handback.observe''), (''requestId'', JStr (vc_requestId c)), (''actorAgentId'', JStr (vc_actorAgentId c)),
      (''handbackId'', JStr (vc_handbackId c)), (''capture'', json_capture (vc_capture c))]"

definition observeCommit :: "desk_env \<Rightarrow> desk_seams \<Rightarrow> store_checks \<Rightarrow> submit_seams \<Rightarrow> commit_stamp \<Rightarrow> run_ctx \<Rightarrow> submit_command \<Rightarrow> ledger \<Rightarrow>
    handback \<Rightarrow> observed_capture \<Rightarrow> store_disk \<Rightarrow> transact_result option \<times> store_disk" where
  \<comment> \<open>the second commit, under the repository binding read before the first\<close>
  "observeCommit E S K V cx ctx c l h capture d = (let o_cmd = observeCommand V ctx h capture in
     transact E K (rx_repoKey ctx) (deskDecider E S) cx
       (runnerEnvelope ctx l (uc_assignmentId c) (sb_uuid V) (observeBody o_cmd, Desk_handback (Handback_observe o_cmd))) d)"

definition locateHandback :: "run_ctx \<Rightarrow> submit_command \<Rightarrow> ledger \<Rightarrow> handback option" where
  "locateHandback ctx c l = find (\<lambda>h. h_requestId h = uc_requestId c \<and> h_assignmentId h = uc_assignmentId c \<and> h_agentId h = ctxAgent ctx) (handbacks l)"

definition handbackPending :: "handback \<Rightarrow> bool" where
  "handbackPending h \<longleftrightarrow> ob_status (h_observed h) = OS_pending"

definition submitGaps :: "handback \<Rightarrow> string option \<Rightarrow> string list" where
  "submitGaps final observeGap =
     (if handbackPending final
      then take LIMIT_handbackGaps (h_gaps final @ [take gapLen (case observeGap of None \<Rightarrow> ''observation-incomplete'' | Some g \<Rightarrow> g)])
      else h_gaps final)"

definition submitAnswer :: "handback \<Rightarrow> string option \<Rightarrow> receipt \<Rightarrow> json" where
  "submitAnswer final observeGap rcp = ok_answer
     [(''revision'', json_nat (h_revision final)), (''receiptId'', JStr (rcp_receiptId rcp)), (''gaps'', json_strs (submitGaps final observeGap)),
      (''handbackId'', JStr (h_handbackId final)), (''observedCandidateId'', json_opt JStr (ob_candidateId (h_observed final)))]"

definition refreshedClaim :: "run_ctx \<Rightarrow> submit_command \<Rightarrow> handback \<Rightarrow> desk_error_code + ledger \<Rightarrow> handback \<times> string option" where
  \<comment> \<open>the row after the second commit, and what is missing from it\<close>
  "refreshedClaim ctx c h refreshed = (case refreshed of
       Inl e \<Rightarrow> (h, Some ''observation-incomplete:STATE_UNREADABLE'')
     | Inr l \<Rightarrow> let final = (case locateHandback ctx c l of None \<Rightarrow> h | Some x \<Rightarrow> x) in
         (final, if handbackPending final then Some ''observation-incomplete:pending'' else None))"

definition observeClaim :: "desk_env \<Rightarrow> desk_seams \<Rightarrow> store_checks \<Rightarrow> submit_seams \<Rightarrow> commit_stamp \<Rightarrow> other_writers \<Rightarrow> run_ctx \<Rightarrow>
    submit_command \<Rightarrow> ledger \<Rightarrow> handback \<Rightarrow> receipt \<Rightarrow> store_disk \<Rightarrow> answer option \<times> store_disk" where
  "observeClaim E S K V cx W ctx c l h rcp d =
     (if \<not> handbackPending h then (Some (Inr (submitAnswer h None rcp)), d)
      else if \<not> sb_bound V then (Some (Inr (submitAnswer h (Some ''observation-incomplete:no-bound-runtime'') rcp)), d)
      else case sb_capture V (ob_repository (h_observed h)) of
        None \<Rightarrow> (None, d)
      | Some capture \<Rightarrow> (case observeCommit E S K V cx ctx c l h capture (ow_capture W d) of
            (None, d') \<Rightarrow> (None, d')
          | (Some (Inl e), d') \<Rightarrow> (Some (Inr (submitAnswer h (Some (''observation-incomplete:'' @ error_code_name e)) rcp)), d')
          | (Some (Inr _), d') \<Rightarrow>
              let d2 = ow_refresh W d'; (final, gap) = refreshedClaim ctx c h (readLedger E K (rx_repoKey ctx) d2) in
              (Some (Inr (submitAnswer final gap rcp)), d2)))"

definition runHandbackSubmit :: "desk_env \<Rightarrow> desk_seams \<Rightarrow> store_checks \<Rightarrow> submit_seams \<Rightarrow> commit_stamp \<Rightarrow> commit_stamp \<Rightarrow>
    other_writers \<Rightarrow> run_ctx \<Rightarrow> submit_command \<Rightarrow> store_disk \<Rightarrow> answer option \<times> store_disk" where
  "runHandbackSubmit E S K V cx cx' W ctx c d = (case readLedger E K (rx_repoKey ctx) d of
       Inl e \<Rightarrow> (Some (Inl e), d)
     | Inr l \<Rightarrow> (case submitCommit E S K cx ctx c l (ow_lock W d) of
         (None, d1) \<Rightarrow> (None, d1)
       | (Some (Inl e), d1) \<Rightarrow> (Some (Inl e), d1)
       | (Some (Inr rcp), d1) \<Rightarrow> let d2 = ow_read W d1 in (case readLedger E K (rx_repoKey ctx) d2 of
             Inl e \<Rightarrow> (Some (Inl e), d2)
           | Inr after \<Rightarrow> (case locateHandback ctx c after of
               None \<Rightarrow> (Some (Inl CAPABILITY_GAP), d2)
             | Some h \<Rightarrow> observeClaim E S K V cx' W ctx c l h rcp d2))))"

subsection \<open>The claim is found\<close>

lemma submit_decided:
  assumes "decideDeskHandback E H sel history l (Handback_submit (c\<lparr>uc_actorAgentId := ctxAgent ctx\<rparr>)) = Inr (evs, p)"
  obtains h where "handbacks (apply_tables l p) = handbacks l @ [h]" and "h_requestId h = uc_requestId c"
    and "h_assignmentId h = uc_assignmentId c" and "h_agentId h = ctxAgent ctx" and "h_record h = uc_recordV1 c"
    and "h_claimedCandidateId h = uc_candidateId c" and "handbackPending h"
  using assms
proof (cases rule: handback_decided)
  case (1 actor)
  then have "actorAgent actor = ctxAgent ctx" using requireActor_facts(3) [OF 1(2)] by simp
  moreover from 1(3) obtain ws where "p = no_tables\<lparr>p_handbacks := Some (handbacks l @ [submittedRow E l actor (c\<lparr>uc_actorAgentId := ctxAgent ctx\<rparr>) ws])\<rparr>"
    by (auto simp: decideSubmit_def Let_def accepted)
  ultimately show thesis
    by (intro that [of "submittedRow E l actor (c\<lparr>uc_actorAgentId := ctxAgent ctx\<rparr>) ws"]) (simp_all add: submittedRow_def handbackPending_def)
qed

lemma find_kept:
  assumes "prefix (map claimOf xs) (map claimOf ys)" and "find P xs = Some x" and "\<And>a b. claimOf a = claimOf b \<Longrightarrow> P a = P b"
  shows "\<exists>y. find P ys = Some y \<and> claimOf y = claimOf x"
  using assms(1,2)
proof (induction xs arbitrary: ys)
  case (Cons a xs)
  then obtain b bs where ys: "ys = b # bs" by (cases ys) auto
  with Cons.prems(1) have same: "claimOf a = claimOf b" "prefix (map claimOf xs) (map claimOf bs)" by simp_all
  then have "P a = P b" by (intro assms(3))
  with Cons same ys show ?case by (auto split: if_splits)
qed simp

lemma locate_kept:
  assumes "claimsKept l l'" and "locateHandback ctx c l = Some h"
  shows "\<exists>k. locateHandback ctx c l' = Some k \<and> claimOf k = claimOf h"
proof -
  let ?P = "\<lambda>h. h_requestId h = uc_requestId c \<and> h_assignmentId h = uc_assignmentId c \<and> h_agentId h = ctxAgent ctx"
  have "?P a = ?P b" if "claimOf a = claimOf b" for a b
    by (simp only: claimOf_sel(2-4) [OF that])
  from find_kept [OF assms(1) [unfolded claimsKept_def] assms(2) [unfolded locateHandback_def] this]
  show ?thesis by (simp only: locateHandback_def)
qed

lemma refreshed_same:
  assumes "\<And>l. refreshed = Inr l \<Longrightarrow> claimsKept after l" and "locateHandback ctx c after = Some h"
  shows "claimOf (fst (refreshedClaim ctx c h refreshed)) = claimOf h"
proof (cases refreshed)
  case (Inr l)
  from locate_kept [OF assms(1) [OF Inr] assms(2)] show ?thesis by (auto simp: refreshedClaim_def Inr Let_def)
qed (simp add: refreshedClaim_def)

subsection \<open>Other writers\<close>

definition othersRun :: "desk_env \<Rightarrow> store_checks \<Rightarrow> string \<Rightarrow> (desk_seams \<times> (json \<times> desk_command) attempt) list \<Rightarrow> store_disk \<Rightarrow> store_disk" where
  \<comment> \<open>transactions of any family, each under its own seams and each possibly interrupted\<close>
  "othersRun E K key ts d = foldl (\<lambda>d (S, t). attemptState E K key (deskDecider E S) t d) d ts"

definition writersOf :: "desk_env \<Rightarrow> store_checks \<Rightarrow> string \<Rightarrow> (desk_seams \<times> (json \<times> desk_command) attempt) list list \<Rightarrow> other_writers" where
  "writersOf E K key tss = \<lparr>ow_lock = othersRun E K key (tss ! 0), ow_read = othersRun E K key (tss ! 1),
     ow_capture = othersRun E K key (tss ! 2), ow_refresh = othersRun E K key (tss ! 3)\<rparr>"

lemma keepsDesk_trans: "keepsDesk d d1 \<Longrightarrow> keepsDesk d1 d2 \<Longrightarrow> keepsDesk d d2 \<or> dk_ledger d = None"
  by (auto simp: keepsDesk_def split: option.splits intro: claimsKept_trans)

lemma others_keep:
  assumes "dk_ledger d = Some l"
  shows "\<exists>l'. dk_ledger (othersRun E K key ts d) = Some l' \<and> claimsKept l l'"
  using assms
proof (induction ts arbitrary: d l)
  case (Cons t ts)
  obtain S a where t: "t = (S, a)" by (cases t)
  from keepsDeskD [OF attempt_keeps_desk Cons.prems] obtain l1
    where "dk_ledger (attemptState E K key (deskDecider E S) a d) = Some l1" and k: "claimsKept l l1" by blast
  from Cons.IH [OF this(1)] k show ?case by (auto simp: othersRun_def t intro: claimsKept_trans)
qed (simp add: othersRun_def)

lemma others_readable:
  assumes "sha_hex E" and "list_all (\<lambda>(S, cx, env, stop). time_ok E (cx_at cx) \<and> completed (cx, env, stop)) ts"
    and "orphanFree d" and "readStore E K key d = Read_ok l h"
  shows "\<exists>l' h'. readStore E K key (othersRun E K key ts d) = Read_ok l' h'"
  using assms(2-4)
proof (induction ts arbitrary: d l h)
  case (Cons t ts)
  obtain S cx env stop where t: "t = (S, cx, env, stop)" by (cases t) auto
  let ?d = "attemptState E K key (deskDecider E S) (cx, env, stop) d"
  have time: "time_ok E (cx_at cx)" and "completed (cx, env, stop)" using Cons.prems(1) t by simp_all
  with attempt_orphanFree [OF assms(1) time Cons.prems(2)] have free: "orphanFree ?d" by blast
  from attempt_keeps [OF assms(1) time orphanFree_atTip [OF Cons.prems(2)] Cons.prems(3) refl, of "deskDecider E S" env stop] Cons.prems(2)
  obtain l' h' where "readStore E K key ?d = Read_ok l' h'" by blast
  from Cons.IH [OF _ free this] Cons.prems(1) t show ?case by (simp add: othersRun_def)
qed (simp add: othersRun_def)

subsection \<open>The observation\<close>

lemma readLedger_ledger: "readLedger E K key d = Inr l \<Longrightarrow> dk_ledger d = Some l"
  by (auto simp: readLedger_def readStore_ok split: store_read.splits)

lemma writersOf_sel [simp]:
  "ow_lock (writersOf E K key tss) = othersRun E K key (tss ! 0)" "ow_read (writersOf E K key tss) = othersRun E K key (tss ! 1)"
  "ow_capture (writersOf E K key tss) = othersRun E K key (tss ! 2)" "ow_refresh (writersOf E K key tss) = othersRun E K key (tss ! 3)"
  by (simp_all add: writersOf_def)

lemma observeCommit_keeps:
  assumes "dk_ledger d = Some l2"
  shows "\<exists>l'. dk_ledger (snd (observeCommit E S K V cx ctx c l h capture d)) = Some l' \<and> claimsKept l2 l'"
  unfolding observeCommit_def Let_def by (rule keepsDeskD [OF transact_keeps_desk assms])

lemma committed_observation_keeps:
  \<comment> \<open>the disk of the second commit, and the one the last read finds\<close>
  assumes "dk_ledger d = Some l2" and "x = snd (observeCommit E S K V cx ctx c l h capture (ow_capture (writersOf E K key tss) d))"
  shows "\<exists>l'. dk_ledger x = Some l' \<and> claimsKept l2 l'"
    and "\<exists>l'. dk_ledger (ow_refresh (writersOf E K key tss) x) = Some l' \<and> claimsKept l2 l'"
proof -
  from others_keep [OF assms(1)] obtain l3 where l3: "dk_ledger (othersRun E K key (tss ! 2) d) = Some l3" "claimsKept l2 l3" by blast
  have "x = snd (observeCommit E S K V cx ctx c l h capture (othersRun E K key (tss ! 2) d))" using assms(2) by simp
  with observeCommit_keeps [OF l3(1)] obtain l4 where l4: "dk_ledger x = Some l4" "claimsKept l3 l4" by blast
  with l3(2) show "\<exists>l'. dk_ledger x = Some l' \<and> claimsKept l2 l'" by (auto intro: claimsKept_trans)
  from others_keep [OF l4(1)] obtain l5 where "dk_ledger (othersRun E K key (tss ! 3) x) = Some l5" "claimsKept l4 l5" by blast
  with l3(2) l4(2) show "\<exists>l'. dk_ledger (ow_refresh (writersOf E K key tss) x) = Some l' \<and> claimsKept l2 l'"
    by (auto intro: claimsKept_trans)
qed

definition observationThrows :: "desk_env \<Rightarrow> desk_seams \<Rightarrow> store_checks \<Rightarrow> submit_seams \<Rightarrow> commit_stamp \<Rightarrow> other_writers \<Rightarrow> run_ctx \<Rightarrow>
    submit_command \<Rightarrow> ledger \<Rightarrow> handback \<Rightarrow> store_disk \<Rightarrow> bool" where
  \<comment> \<open>the capture of a pending claim, or the store under its second commit, throws\<close>
  "observationThrows E S K V cx W ctx c l h d \<longleftrightarrow> handbackPending h \<and> sb_bound V \<and>
     (case sb_capture V (ob_repository (h_observed h)) of
        None \<Rightarrow> True
      | Some capture \<Rightarrow> fst (observeCommit E S K V cx ctx c l h capture (ow_capture W d)) = None)"

lemma observed_answer:
  assumes "observeClaim E S K V cx (writersOf E K (rx_repoKey ctx) tss) ctx c l h rcp d = (ans, d')"
    and "dk_ledger d = Some l2" and "locateHandback ctx c l2 = Some h"
  shows "case ans of
      None \<Rightarrow> observationThrows E S K V cx (writersOf E K (rx_repoKey ctx) tss) ctx c l h d
    | Some (Inl e) \<Rightarrow> False
    | Some (Inr j) \<Rightarrow> \<exists>k gap. claimOf k = claimOf h \<and> j = submitAnswer k gap rcp"
    and "\<exists>l'. dk_ledger d' = Some l' \<and> claimsKept l2 l'"
proof -
  let ?W = "writersOf E K (rx_repoKey ctx) tss"
  consider (plain) gap where "ans = Some (Inr (submitAnswer h gap rcp))" "d' = d"
    | (throws) "sb_capture V (ob_repository (h_observed h)) = None" "handbackPending h" "sb_bound V" "ans = None" "d' = d"
    | (commit) capture r x where "sb_capture V (ob_repository (h_observed h)) = Some capture" "handbackPending h" "sb_bound V"
        "observeCommit E S K V cx ctx c l h capture (ow_capture ?W d) = (r, x)"
    using assms(1) by (cases "sb_capture V (ob_repository (h_observed h))"; cases "handbackPending h"; cases "sb_bound V")
      (auto simp: observeClaim_def prod_eq_iff)
  then have "(case ans of
      None \<Rightarrow> observationThrows E S K V cx ?W ctx c l h d
    | Some (Inl e) \<Rightarrow> False
    | Some (Inr j) \<Rightarrow> \<exists>k gap. claimOf k = claimOf h \<and> j = submitAnswer k gap rcp) \<and>
    (\<exists>l'. dk_ledger d' = Some l' \<and> claimsKept l2 l')"
  proof cases
    case plain
    then show ?thesis using assms(2) by auto
  next
    case throws
    then show ?thesis using assms(2) by (simp add: observationThrows_def)
  next
    case commit
    have x: "x = snd (observeCommit E S K V cx ctx c l h capture (ow_capture ?W d))" using commit(4) by simp
    note kept = committed_observation_keeps [OF assms(2) x]
    show ?thesis
    proof (cases r)
      case None
      with assms(1) commit have "ans = None" "d' = x" by (simp_all add: observeClaim_def)
      with kept(1) commit None show ?thesis by (simp add: observationThrows_def)
    next
      case (Some res)
      show ?thesis
      proof (cases res)
        case (Inl e)
        with Some assms(1) commit have "ans = Some (Inr (submitAnswer h (Some (''observation-incomplete:'' @ error_code_name e)) rcp))" "d' = x"
          by (simp_all add: observeClaim_def)
        with kept(1) show ?thesis by auto
      next
        case (Inr rcp2)
        let ?f = "refreshedClaim ctx c h (readLedger E K (rx_repoKey ctx) (ow_refresh ?W x))"
        have "claimsKept l2 l'" if "readLedger E K (rx_repoKey ctx) (ow_refresh ?W x) = Inr l'" for l'
          using kept(2) readLedger_ledger [OF that] by auto
        from refreshed_same [OF this assms(3)] have same: "claimOf (fst ?f) = claimOf h" by blast
        from Some Inr assms(1) commit have "ans = Some (Inr (submitAnswer (fst ?f) (snd ?f) rcp))" "d' = ow_refresh ?W x"
          by (simp_all add: observeClaim_def Let_def split: prod.splits del: writersOf_sel)
        with kept(2) same show ?thesis by auto
      qed
    qed
  qed
  then show "case ans of
      None \<Rightarrow> observationThrows E S K V cx ?W ctx c l h d
    | Some (Inl e) \<Rightarrow> False
    | Some (Inr j) \<Rightarrow> \<exists>k gap. claimOf k = claimOf h \<and> j = submitAnswer k gap rcp"
    and "\<exists>l'. dk_ledger d' = Some l' \<and> claimsKept l2 l'" by blast+
qed

lemma first_commit:
  \<comment> \<open>a committed request record: the claim is appended, the receipt is that of the record, and without
    orphans the store reads\<close>
  assumes "submitCommit E S K cx ctx c l0 d = (r, d1)" and "dk_ledger d = Some l" and "dk_ledger d1 = Some l1"
    and "requests l1 = requests l @ [q]" and "q_outcome q = RO_committed"
  obtains rcp k where "r = Some (Inr rcp)" and "rcp_receiptId rcp = q_receiptId q" and "handbacks l1 = handbacks l @ [k]"
    and "h_requestId k = uc_requestId c" and "h_assignmentId k = uc_assignmentId c" and "h_agentId k = ctxAgent ctx"
    and "h_record k = uc_recordV1 c" and "h_claimedCandidateId k = uc_candidateId c"
    and "sha_hex E \<and> time_ok E (cx_at cx) \<and> orphanFree d \<longrightarrow>
      orphanFree d1 \<and> (\<exists>l h. readStore E K (rx_repoKey ctx) d1 = Read_ok l h)"
proof -
  let ?cmd = "Desk_handback (Handback_submit (c\<lparr>uc_actorAgentId := ctxAgent ctx\<rparr>))"
  let ?env = "runnerEnvelope ctx l0 (uc_assignmentId c) (uc_requestId c) (submitBody ctx c, ?cmd)"
  let ?key = "rx_repoKey ctx" and ?D = "deskDecider E S"
  have env: "snd (en_command ?env) = ?cmd" by (simp add: runnerEnvelope_def)
  have t: "transact E K ?key ?D cx ?env d = (r, d1)" using assms(1) by (simp add: submitCommit_def)
  have changed: "d1 \<noteq> d" using assms(2-4) by auto
  then obtain s cand r' where plan: "transactPlan E K ?key ?D cx ?env d = Plan_write s cand r'"
    using t by (cases "transactPlan E K ?key ?D cx ?env d") (auto simp: transact_def Let_def)
  then have r: "r = Some r'" using t by (simp add: transact_def)
  then obtain ans1 where ta: "transactAnswer E S K ?key cx ?env (\<lambda>_ _. None) d = (Some ans1, d1)"
    using t by (cases r') (auto simp: transactAnswer_def)
  from ta env assms(2-5) obtain hist evs p rcp where
    read: "readStore E K ?key d = Read_ok l hist" and acc: "deskDecide E S l hist ?cmd = Inr (evs, p)"
    and st: "l1 = stamped (apply_tables l p) (revision l + 1) (cx_at cx) (lastEventSeq l + length (builtFor E ?D cx ?env l hist))
      (tipSha256 (lastEventSha256 l) (builtFor E ?D cx ?env l hist)) (requests l1)"
    and plan': "transactPlan E K ?key ?D cx ?env d = Plan_write (segmentOf (builtFor E ?D cx ?env l hist)) l1 (Inr rcp)"
    and "ans1 = answerAfter E K ?key (\<lambda>_ _. None) rcp d1" and rid: "rcp_receiptId rcp = q_receiptId q" by (rule committed_tables)
  have hs: "handbacks l1 = handbacks (apply_tables l p)"
    using arg_cong [OF st, of handbacks] by (simp add: stamped_def)
  have r2: "r = Some (Inr rcp)" using r plan plan' by simp
  have d1: "d1 = attemptState E K ?key ?D (cx, ?env, 2) d" using t by (simp add: attempt_completed completed_def)
  have "orphanFree d1 \<and> (\<exists>l h. readStore E K ?key d1 = Read_ok l h)" if "sha_hex E" "time_ok E (cx_at cx)" "orphanFree d"
    using attempt_orphanFree [OF that, of ?env 2 K ?key ?D] attempt_keeps [OF that(1,2) orphanFree_atTip [OF that(3)] read d1] that(3) d1
    by (auto simp: completed_def)
  then have reads: "sha_hex E \<and> time_ok E (cx_at cx) \<and> orphanFree d \<longrightarrow> orphanFree d1 \<and> (\<exists>l h. readStore E K ?key d1 = Read_ok l h)"
    by blast
  from acc have "decideDeskHandback E (sm_host S) (sm_episode S) (Some hist) l (Handback_submit (c\<lparr>uc_actorAgentId := ctxAgent ctx\<rparr>)) = Inr (evs, p)"
    by simp
  then obtain k where k: "handbacks (apply_tables l p) = handbacks l @ [k]" "h_requestId k = uc_requestId c" "h_assignmentId k = uc_assignmentId c"
    "h_agentId k = ctxAgent ctx" "h_record k = uc_recordV1 c" "h_claimedCandidateId k = uc_candidateId c" by (rule submit_decided)
  show thesis by (rule that [OF r2 rid hs [unfolded k(1)] k(2-6) reads])
qed

definition calm :: "desk_env \<Rightarrow> (desk_seams \<times> (json \<times> desk_command) attempt) list \<Rightarrow> bool" where
  \<comment> \<open>no transaction of the list is interrupted\<close>
  "calm E ts \<longleftrightarrow> list_all (\<lambda>(S, cx, env, stop). time_ok E (cx_at cx) \<and> completed (cx, env, stop)) ts"

text \<open>C38. A handback whose first commit lands is never lost, never rewritten and never answered for another
  row. Other writers may run transactions of any command family at the four points where the flow does not
  hold the lock, and a crash or an I/O error may interrupt each of them. Then the claim stands on the disk as
  submitted, at its place, and so does every other claim: nothing but observed blocks and gaps changes. The
  caller gets the acknowledgement of this claim under the receipt of its record whether or not the
  second commit goes through. There are two other outcomes. The call throws, which needs a capture, or the
  store under the second commit, that throws; or it is told that the state is unreadable, which needs a store
  that reads as corrupt right after the first commit, so an orphan an earlier crash left there or an
  interruption among the other writers (C24). The key has no row before: the lookup by request,
  assignment and agent finds nothing.\<close>

theorem submitted_claim_is_kept:
  assumes "runHandbackSubmit E S K V cx cx' (writersOf E K (rx_repoKey ctx) tss) ctx c d = (ans, d')"
    and "readLedger E K (rx_repoKey ctx) d = Inr l0" and "othersRun E K (rx_repoKey ctx) (tss ! 0) d = d0" and "dk_ledger d0 = Some l"
    and "submitCommit E S K cx ctx c l0 d0 = (r, d1)" and "dk_ledger d1 = Some l1"
    and "requests l1 = requests l @ [q]" and "q_outcome q = RO_committed" and "locateHandback ctx c l = None"
    and "sha_hex E" and "time_ok E (cx_at cx)"
  shows "\<exists>h l'. handbacks l1 = handbacks l @ [h] \<and> h_requestId h = uc_requestId c \<and> h_assignmentId h = uc_assignmentId c \<and>
    h_agentId h = ctxAgent ctx \<and> h_record h = uc_recordV1 c \<and> h_claimedCandidateId h = uc_candidateId c \<and>
    dk_ledger d' = Some l' \<and> claimsKept l1 l' \<and>
    (case ans of
       Some (Inr j) \<Rightarrow> \<exists>k gap rcp. claimOf k = claimOf h \<and> rcp_receiptId rcp = q_receiptId q \<and> j = submitAnswer k gap rcp
     | Some (Inl e) \<Rightarrow> e = STATE_UNREADABLE \<and>
         readLedger E K (rx_repoKey ctx) (othersRun E K (rx_repoKey ctx) (tss ! 1) d1) = Inl e \<and> \<not> (orphanFree d0 \<and> calm E (tss ! 1))
     | None \<Rightarrow> \<exists>k. claimOf k = claimOf h \<and> observationThrows E S K V cx' (writersOf E K (rx_repoKey ctx) tss) ctx c l0 k
         (othersRun E K (rx_repoKey ctx) (tss ! 1) d1))"
proof -
  let ?key = "rx_repoKey ctx" and ?W = "writersOf E K (rx_repoKey ctx) tss"
  let ?d2 = "othersRun E K ?key (tss ! 1) d1"
  from assms(5,4,6-8) obtain rcp h where r: "r = Some (Inr rcp)" and rid: "rcp_receiptId rcp = q_receiptId q"
    and h: "handbacks l1 = handbacks l @ [h]" "h_requestId h = uc_requestId c" "h_assignmentId h = uc_assignmentId c"
      "h_agentId h = ctxAgent ctx" "h_record h = uc_recordV1 c" "h_claimedCandidateId h = uc_candidateId c"
    and reads: "sha_hex E \<and> time_ok E (cx_at cx) \<and> orphanFree d0 \<longrightarrow>
      orphanFree d1 \<and> (\<exists>l h. readStore E K ?key d1 = Read_ok l h)"
    by (rule first_commit)
  from others_keep [OF assms(6)] obtain l2 where l2: "dk_ledger ?d2 = Some l2" "claimsKept l1 l2" by blast
  have "locateHandback ctx c l1 = Some h" using h assms(9) by (simp add: locateHandback_def find_appended)
  from locate_kept [OF l2(2) this] obtain k where k: "locateHandback ctx c l2 = Some k" "claimOf k = claimOf h" by blast
  have run: "(case readLedger E K ?key ?d2 of
      Inl e \<Rightarrow> (Some (Inl e), ?d2)
    | Inr after \<Rightarrow> (case locateHandback ctx c after of
        None \<Rightarrow> (Some (Inl CAPABILITY_GAP), ?d2)
      | Some h \<Rightarrow> observeClaim E S K V cx' ?W ctx c l0 h rcp ?d2)) = (ans, d')"
    using assms(1) by (simp add: runHandbackSubmit_def assms(2,3,5) r Let_def del: One_nat_def)
  have "\<exists>l'. dk_ledger d' = Some l' \<and> claimsKept l1 l' \<and>
    (case ans of
       Some (Inr j) \<Rightarrow> \<exists>k gap rcp. claimOf k = claimOf h \<and> rcp_receiptId rcp = q_receiptId q \<and> j = submitAnswer k gap rcp
     | Some (Inl e) \<Rightarrow> e = STATE_UNREADABLE \<and> readLedger E K ?key ?d2 = Inl e \<and> \<not> (orphanFree d0 \<and> calm E (tss ! 1))
     | None \<Rightarrow> \<exists>k. claimOf k = claimOf h \<and> observationThrows E S K V cx' ?W ctx c l0 k ?d2)"
  proof (cases "readLedger E K ?key ?d2")
    case (Inl e)
    then have e: "e = STATE_UNREADABLE" by (auto simp: readLedger_def split: store_read.splits)
    have "\<not> (orphanFree d0 \<and> calm E (tss ! 1))"
    proof
      assume calm: "orphanFree d0 \<and> calm E (tss ! 1)"
      with reads assms(10,11) obtain l3 h3 where "orphanFree d1" and read: "readStore E K ?key d1 = Read_ok l3 h3" by blast
      from others_readable [OF assms(10) calm [THEN conjunct2, unfolded calm_def] this] obtain l4 h4
        where "readStore E K ?key ?d2 = Read_ok l4 h4" by blast
      with Inl show False by (simp add: readLedger_def del: One_nat_def)
    qed
    with run Inl e l2 show ?thesis by auto
  next
    case (Inr after)
    with l2(1) have "after = l2" using readLedger_ledger [OF Inr] by simp
    with run Inr k(1) have "observeClaim E S K V cx' ?W ctx c l0 k rcp ?d2 = (ans, d')" by simp
    note o = observed_answer [OF this l2(1) k(1)]
    from o(2) l2(2) obtain l' where l': "dk_ledger d' = Some l'" "claimsKept l1 l'" by (auto intro: claimsKept_trans)
    from o(1) k(2) rid have "case ans of
       Some (Inr j) \<Rightarrow> \<exists>k gap rcp. claimOf k = claimOf h \<and> rcp_receiptId rcp = q_receiptId q \<and> j = submitAnswer k gap rcp
     | Some (Inl e) \<Rightarrow> False
     | None \<Rightarrow> \<exists>k. claimOf k = claimOf h \<and> observationThrows E S K V cx' ?W ctx c l0 k ?d2"
      by (cases ans) (auto split: sum.splits)
    with l' show ?thesis by (auto split: option.splits sum.splits)
  qed
  with h show ?thesis by blast
qed

definition seat_record :: json where
  "seat_record = JObj
     [(''version'', JInt 1), (''kind'', JStr ''handback''), (''seat'', JObj [(''role'', JStr ''peer''), (''disposition'', JStr ''reviewer'')]),
      (''verdict'', JNull), (''candidate'', JNull), (''checks'', JArr [])]"

definition seat_desk :: ledger where
  "seat_desk = demo_ledger\<lparr>repo := toy_repo, repoKey := toy_key\<rparr>"

definition seat_disk :: store_disk where
  "seat_disk = toy_disk\<lparr>dk_ledger := Some seat_desk\<rparr>"

definition seat_ctx :: run_ctx where
  "seat_ctx = \<lparr>rx_repoKey = toy_key, rx_row = demo_member ''m3'' ''peer1'' Role_peer\<rparr>"

definition seat_submit :: submit_command where
  "seat_submit = \<lparr>uc_requestId = ''h1'', uc_actorAgentId = [], uc_assignmentId = ''asg'', uc_recordV1 = seat_record, uc_candidateId = None\<rparr>"

definition seat_seams :: submit_seams where
  "seat_seams = \<lparr>sb_bound = True, sb_capture = (\<lambda>path. Some (Capture_failed \<lparr>cp_repository = path, cp_measuredAt = ''t1'', cp_reason = Timed_out, cp_detail = ''slow''\<rparr>)),
     sb_uuid = ''u1''\<rparr>"

lemma seat_commits: "(case submitCommit toy_env mint_seams toy_checks toy_stamp seat_ctx seat_submit seat_desk seat_disk of
    (Some (Inr rcp), d1) \<Rightarrow> (case dk_ledger d1 of
       Some l1 \<Rightarrow> (case requests l1 of [q] \<Rightarrow> q_outcome q = RO_committed | _ \<Rightarrow> False)
     | None \<Rightarrow> False)
  | _ \<Rightarrow> False)"
  by code_simp

definition seat_others :: "(desk_seams \<times> (json \<times> desk_command) attempt) list list" where
  \<comment> \<open>a lead registers an assignment while the capture runs\<close>
  "seat_others = [[], [], [(mint_seams, toy_stamp\<lparr>cx_receiptId := ''rc3''\<rparr>,
     runnerEnvelope lead_ctx seat_desk ''assignment-admin'' ''r1''
       (JObj [(''kind'', JStr ''assignment.register'')], Desk_handback (Assignment_register \<lparr>gc_requestId = ''r1'', gc_actorAgentId = ''lead1'', gc_authorityRef = ''grant'', gc_objective = None\<rparr>)), 2)], []]"

lemma seat_submits: "(case runHandbackSubmit toy_env mint_seams toy_checks seat_seams toy_stamp (toy_stamp\<lparr>cx_receiptId := ''rc2''\<rparr>)
      (writersOf toy_env toy_checks toy_key seat_others) seat_ctx seat_submit seat_disk of
    (Some (Inr j), d') \<Rightarrow> (case dk_ledger d' of
       Some l' \<Rightarrow> length (assignments l') = 2 \<and> map h_gaps (handbacks l') = [[''observed-capture-failed:timeout'']]
     | None \<Rightarrow> False)
  | _ \<Rightarrow> False)"
  by code_simp

lemma seat_reads: "(case readLedger toy_env toy_checks toy_key seat_disk of Inr l \<Rightarrow> True | Inl e \<Rightarrow> False)"
  by code_simp

theorem submitted_claim_is_kept_witness:
  "\<exists>j d' l' h k gap rcp. runHandbackSubmit toy_env mint_seams toy_checks seat_seams toy_stamp (toy_stamp\<lparr>cx_receiptId := ''rc2''\<rparr>)
      (writersOf toy_env toy_checks toy_key seat_others) seat_ctx seat_submit seat_disk = (Some (Inr j), d') \<and>
    j = submitAnswer k gap rcp \<and> claimOf k = claimOf h \<and> h_record h = seat_record \<and> h_requestId h = ''h1'' \<and>
    dk_ledger d' = Some l' \<and> prefix [claimOf h] (map claimOf (handbacks l')) \<and> length (assignments l') = 2"
proof -
  have key: "rx_repoKey seat_ctx = toy_key" by (simp add: seat_ctx_def)
  from seat_submits obtain j d' l'
    where run: "runHandbackSubmit toy_env mint_seams toy_checks seat_seams toy_stamp (toy_stamp\<lparr>cx_receiptId := ''rc2''\<rparr>)
        (writersOf toy_env toy_checks (rx_repoKey seat_ctx) seat_others) seat_ctx seat_submit seat_disk = (Some (Inr j), d')"
      and l': "dk_ledger d' = Some l'" "length (assignments l') = 2"
    by (auto simp: key split: prod.splits option.splits sum.splits)
  from seat_commits obtain rcp d1 l1 q where d1: "submitCommit toy_env mint_seams toy_checks toy_stamp seat_ctx seat_submit seat_desk seat_disk = (Some (Inr rcp), d1)"
    and l1: "dk_ledger d1 = Some l1" and q: "requests l1 = requests seat_desk @ [q]" "q_outcome q = RO_committed"
    by (auto simp: seat_desk_def demo_ledger_def emptyLedger_def split: prod.splits option.splits list.splits sum.splits)
  have d: "dk_ledger seat_disk = Some seat_desk" by (simp add: seat_disk_def)
  from seat_reads obtain l0 where "readLedger toy_env toy_checks (rx_repoKey seat_ctx) seat_disk = Inr l0"
    by (auto simp: key split: sum.splits)
  with d have read: "readLedger toy_env toy_checks (rx_repoKey seat_ctx) seat_disk = Inr seat_desk" using readLedger_ledger by fastforce
  have others: "othersRun toy_env toy_checks (rx_repoKey seat_ctx) (seat_others ! 0) seat_disk = seat_disk"
    by (simp add: seat_others_def othersRun_def)
  have hs: "handbacks seat_desk = []" by (simp add: seat_desk_def demo_ledger_def emptyLedger_def)
  then have new: "locateHandback seat_ctx seat_submit seat_desk = None" by (simp add: locateHandback_def)
  from submitted_claim_is_kept [OF run read others d d1 l1 q new toy_sha_hex toy_time] l'(1)
  obtain h k gap rcp where "handbacks l1 = [h]" "h_requestId h = ''h1''" "h_record h = seat_record" "claimsKept l1 l'"
    "claimOf k = claimOf h" "j = submitAnswer k gap rcp"
    by (auto simp: hs seat_submit_def)
  with run [unfolded key] l' show ?thesis by (auto simp: claimsKept_def)
qed

end
