(* ===== verification/Desk_Custody.thy ===== *)
theory Desk_Custody
  imports Desk_Run
begin

text \<open>
  Custody across the command families: which commands only the assignment's effective owner may
  issue, that each family checks it against the live membership of the caller, and that a transfer
  therefore shuts every other membership out of all of them.
\<close>

text \<open>The commands of the owner, with the agent that issues them and the assignment they act on. The
  others are open to seats (submit, observe, scope review), to the nominee (accept), to any lead
  (register) or to the supervisor (the seat commands).\<close>

fun ownerCommand :: "desk_command \<Rightarrow> (string \<times> string) option" where
  "ownerCommand (Desk_seat c) = None"
| "ownerCommand (Desk_handback (Assignment_attach c)) = Some (tc_actorAgentId c, tc_assignmentId c)"
| "ownerCommand (Desk_handback (Assignment_close c)) = Some (cc_actorAgentId c, cc_assignmentId c)"
| "ownerCommand (Desk_handback c) = None"
| "ownerCommand (Desk_settlement c) = Some (stc_actorAgentId c, stc_assignmentId c)"
| "ownerCommand (Desk_check c) = Some (check_actor c, check_assignment c)"
| "ownerCommand (Desk_rollout c) = Some (rollout_actor c, rollout_assignment c)"
| "ownerCommand (Desk_scope (Scope_declare c)) = Some (sd_actorAgentId c, sd_assignmentId c)"
| "ownerCommand (Desk_scope (Scope_transition c)) = Some (st_actorAgentId c, st_assignmentId c)"
| "ownerCommand (Desk_scope (Scope_review c)) = None"
| "ownerCommand (Desk_ownership (Ownership_offer c)) = Some (oc_actorAgentId c, oc_assignmentId c)"
| "ownerCommand (Desk_ownership (Ownership_accept c)) = None"
| "ownerCommand (Desk_assignment c) = Some (assignment_actor c, assignment_target c)"

definition holdsCustody :: "ledger \<Rightarrow> string \<Rightarrow> string \<Rightarrow> bool" where
  \<comment> \<open>the agent's live membership is the effective owner of the assignment\<close>
  "holdsCustody l agent aid \<longleftrightarrow> (\<exists>m a. liveMembership l agent = Some m \<and> findAssignment l aid = Some a \<and> effectiveOwnerMatches l a m)"

lemma handback_custody:
  assumes "decideDeskHandback E H sel history l cmd = Inr (evs, p)" and "ownerCommand (Desk_handback cmd) = Some (agent, aid)"
  shows "holdsCustody l agent aid"
  using assms(1)
proof (cases rule: handback_decided)
  case (1 actor)
  have live: "liveMembership l (handback_actor cmd) = Some actor" using 1(2) by (simp add: requireActor_Inr)
  show ?thesis
  proof (cases cmd)
    case (Assignment_attach c)
    with 1 assms(2) have "\<exists>a. ownedByActor l actor (tc_assignmentId c) = Inr a" "agent = tc_actorAgentId c" "aid = tc_assignmentId c"
      by (auto simp: decideAttach_def accepted)
    with live Assignment_attach show ?thesis by (auto simp: holdsCustody_def ownedByActor_accepted)
  next
    case (Assignment_close c)
    with 1 assms(2) have "\<exists>a. ownedByActor l actor (cc_assignmentId c) = Inr a" "agent = cc_actorAgentId c" "aid = cc_assignmentId c"
      by (auto simp: decideClose_def accepted)
    with live Assignment_close show ?thesis by (auto simp: holdsCustody_def ownedByActor_accepted)
  qed (use assms(2) in simp_all)
qed

lemma owner_commands_need_custody:
  assumes "deskDecide E S l h cmd = Inr (evs, p)" and "ownerCommand cmd = Some (agent, aid)"
  shows "holdsCustody l agent aid"
proof (cases cmd)
  case (Desk_handback c)
  with assms show ?thesis by (auto intro: handback_custody)
next
  case (Desk_settlement c)
  with assms have "decideDeskSettlement E (sm_host S) l c = Inr (evs, p)" by simp
  then show ?thesis using assms(2) Desk_settlement
    by (cases rule: settlement_decided) (auto simp: holdsCustody_def requireActor_Inr)
next
  case (Desk_check c)
  with assms have "decideDeskCheck E l c = Inr (evs, p)" by simp
  then show ?thesis using assms(2) Desk_check
    by (cases rule: check_decided) (auto simp: holdsCustody_def requireActor_Inr)
next
  case (Desk_rollout c)
  with assms show ?thesis by (cases c) (auto simp: holdsCustody_def rollout_Inr)
next
  case (Desk_scope c)
  with assms show ?thesis by (cases c) (auto simp: holdsCustody_def scope_Inr requireScopeOwner_Inr)
next
  case (Desk_ownership c)
  with assms show ?thesis by (cases c) (auto simp: holdsCustody_def ownership_Inr decideOffer_Inr effectiveOwnerMatches_def)
next
  case (Desk_assignment c)
  with assms show ?thesis by (auto simp: holdsCustody_def assignment_Inr)
qed (use assms in simp)

text \<open>Once an accept counts, the registered owner no longer matters.\<close>

lemma custodyWalk_same:
  "ot_ownershipRevision (custodyWalk u s) \<noteq> ot_ownershipRevision u \<Longrightarrow> ot_ownershipRevision v = ot_ownershipRevision u \<Longrightarrow>
   custodyWalk v s = custodyWalk u s"
  by (cases s) auto

lemma effectiveOwner_accepts:
  assumes "ownershipAccepts l' = ownershipAccepts l" and "a_assignmentId b = a_assignmentId a"
    and "ot_ownershipRevision (effectiveOwner l a) \<noteq> 0"
  shows "effectiveOwner l' b = effectiveOwner l a"
proof -
  have "acceptStream l' (a_assignmentId b) = acceptStream l (a_assignmentId a)"
    using assms(1,2) by (simp add: acceptStream_def)
  then show ?thesis
    using assms(3) unfolding effectiveOwner_def by (simp only:) (rule custodyWalk_same, simp_all add: registeredOwner_def)
qed

text \<open>C9. The committed accept locks every other membership out of the assignment: on every ledger with the
  lineage the accept left (whatever has happened to the memberships and the other tables since), a
  command only the owner may issue - seat attach, close, settlement, checks, rollouts, scope
  declarations and transitions, a new offer, brief amendments and decisions - is accepted from the
  nominee's agent under the nominated membership and from nobody else: not from the former owner, not
  from a rebound session of the nominee's agent, not from a third party.\<close>

theorem accept_locks_out_others:
  assumes "decideDeskOwnership E l (Ownership_accept c) = Inr (evs, p)"
    and "findAssignment l (xc_assignmentId c) = Some a" and "lineageContiguous l (xc_assignmentId c)"
    and "liveMembership l (xc_actorAgentId c) = Some nominee"
    and "ownershipAccepts l' = ownershipAccepts (apply_tables l p)"
    and "ownerCommand cmd = Some (agent, xc_assignmentId c)" and "deskDecide E S l' h cmd = Inr out"
  shows "agent = xc_actorAgentId c \<and>
    (\<exists>m. liveMembership l' agent = Some m \<and> m_membershipId m = m_membershipId nominee)"
proof -
  have id: "a_assignmentId a = xc_assignmentId c" using findAssignmentD [OF assms(2)] by simp
  obtain m where m: "liveMembership l (xc_actorAgentId c) = Some m"
    and o: "effectiveOwner (apply_tables l p) a =
      \<lparr>ot_agentId = xc_actorAgentId c, ot_membershipId = m_membershipId m,
       ot_ownershipRevision = Suc (ot_ownershipRevision (effectiveOwner l a))\<rparr>"
    using accept_owner [OF assms(1,2)] assms(3) id by metis
  then have ne: "ot_ownershipRevision (effectiveOwner (apply_tables l p) a) \<noteq> 0" by simp
  obtain evs' p' where out: "out = (evs', p')" by (cases out)
  from owner_commands_need_custody [OF assms(7) [unfolded out] assms(6)] obtain m' b
    where m': "liveMembership l' agent = Some m'" and b: "findAssignment l' (xc_assignmentId c) = Some b"
      and own: "effectiveOwnerMatches l' b m'" by (auto simp: holdsCustody_def)
  have "effectiveOwner l' b = effectiveOwner (apply_tables l p) a"
    using findAssignmentD [OF b] id by (intro effectiveOwner_accepts [OF assms(5) _ ne]) simp
  with o own m m' assms(4) show ?thesis
    by (auto simp: effectiveOwnerMatches_def ownerIs_def dest: liveMembershipD)
qed

lemma demo_declare_before:
  "(case deskDecide demo_env mint_seams demo_offered [] (Desk_scope (Scope_declare demo_declare)) of Inl e \<Rightarrow> False | Inr out \<Rightarrow> True)"
  by code_simp

theorem accept_locks_out_others_witness:
  "\<exists>evs p out e. decideDeskOwnership demo_env demo_offered (Ownership_accept demo_accept_command) = Inr (evs, p) \<and>
    deskDecide demo_env mint_seams demo_offered [] (Desk_scope (Scope_declare demo_declare)) = Inr out \<and>
    deskDecide demo_env mint_seams (apply_tables demo_offered p) [] (Desk_scope (Scope_declare demo_declare)) = Inl e"
proof -
  obtain evs p where d: "decideDeskOwnership demo_env demo_offered (Ownership_accept demo_accept_command) = Inr (evs, p)"
    using demo_accepts by blast
  have a: "findAssignment demo_offered (xc_assignmentId demo_accept_command) = Some demo_assignment"
    and n: "liveMembership demo_offered (xc_actorAgentId demo_accept_command) = Some (demo_member ''m2'' ''lead2'' Role_lead)"
    and lc: "lineageContiguous demo_offered (xc_assignmentId demo_accept_command)"
    and o: "ownerCommand (Desk_scope (Scope_declare demo_declare)) = Some (''lead1'', xc_assignmentId demo_accept_command)"
    by (simp_all add: lineageContiguous_def)
  obtain before where before: "deskDecide demo_env mint_seams demo_offered [] (Desk_scope (Scope_declare demo_declare)) = Inr before"
    using demo_declare_before by (simp split: sum.splits del: deskDecide.simps)
  show ?thesis
  proof (cases "deskDecide demo_env mint_seams (apply_tables demo_offered p) [] (Desk_scope (Scope_declare demo_declare))")
    case (Inr out)
    from accept_locks_out_others [OF d a lc n refl o this] show ?thesis by simp
  qed (use d before in blast)
qed

end
