(* ===== verification/Spec2Isabelle.thy ===== *)
theory Spec2Isabelle
  imports Desk_Ownership Desk_Assignment Desk_Scope_Exclusive Desk_Store_Chain Desk_Rollout_Cohort Desk_Seat_Safety Desk_Record_Exact Desk_Handback Desk_Check_Gap Desk_Runner_Answers Desk_Settlement_Claims Desk_Capacity_Claims Desk_Runner_Measured Desk_Runner_Submit Desk_Custody
begin

text \<open>
  Verification library for the repository desk of the paseo-slp plugin (TypeScript, src/plugin).

  The desk is a durable, per-repository ledger through which several agents coordinate: a lead owns
  an assignment, peers are seated on it, scopes of work are declared and moved through a review
  state machine, changes are rolled out under checks, work is handed back and settled, ownership can
  be handed over. Every command is a pure function \<open>decide\<close> of the ledger and the command; the store
  runs it under a lock, checks the proposed tables, appends its events to a hash chain and replaces
  the ledger atomically; a runner re-reads the ledger and answers from the committed row.

  Theories, in import order:
  - \<open>Desk_Prelude\<close>: lists, stable sorting, gapless numberings, split and join.
  - \<open>Desk_Canonical\<close>, \<open>Desk_Json\<close>: canonical JSON, digests and derived ids (server/config-view.ts,
    server/desk-command.ts); JSON text is a prefix code, and canonical texts coincide exactly for
    values with the same members.
  - \<open>Desk_Machine\<close>, \<open>Desk_Vocabulary\<close>: the closed vocabularies and transition tables of
    shared/enforcement.ts, wire bounds, tool preapprovals, workspace paths.
  - \<open>Desk_Ledger\<close>: one record per durable row of server/desk-store.ts, the document and the decision
    channels.
  - \<open>Desk_Streams\<close>: the interfaces \<open>revision_ledger\<close> and \<open>linked_ledger\<close> every revisioned table is an
    instance of, and the equations that invert an accepted decision.
  - \<open>Desk_Command\<close>, \<open>Desk_Ownership\<close>, \<open>Desk_Assignment\<close>: custody, succession, operative briefs and
    decisions (server/desk-command.ts, desk-ownership.ts, desk-assignment.ts).
  - \<open>Desk_Graph\<close>, \<open>Desk_Scope\<close> and its \<open>Rules\<close>, \<open>History\<close>, \<open>Review\<close>, \<open>Exclusive\<close>: scope declarations,
    the review gate, exclusive surfaces and acyclic dependencies (server/desk-scope.ts).
  - \<open>Desk_Rollout\<close> and its \<open>Gates\<close>, \<open>History\<close>, \<open>Cohort\<close>: rollouts, their checks and reviews, the frozen
    cohort (server/desk-rollout.ts).
  - \<open>Desk_Seat\<close>, \<open>Desk_Seat_Safety\<close>: minting, binding, registering and revoking memberships
    (server/desk-seat.ts).
  - \<open>Desk_Schema\<close>, \<open>Desk_Report\<close>, \<open>Desk_Record\<close> and their \<open>Exact\<close> theories: the report and record
    validators against the published JSON schemas (server/runtime/report-semantics.ts,
    server/runtime/cli/report-records.ts).
  - \<open>Desk_Handback\<close>, \<open>Desk_Settlement\<close>, \<open>Desk_Check\<close>: assignments and handbacks, settlements and their
    exported records, check definitions and runs (server/desk-handback.ts, desk-settlement.ts,
    desk-check-runner.ts).
  - \<open>Desk_Tables\<close> and \<open>Grow\<close>, \<open>Others\<close>, \<open>Desk_Handback_Tables\<close>, \<open>Desk_Settlement_Tables\<close>,
    \<open>Desk_Check_Tables\<close>: the store's checks of eight tables (memberships, assignments, candidates,
    handbacks, settlements, check definitions, rollouts, check runs), and that every family keeps
    them; \<open>Desk_Check_Gap\<close>: the one case in which a decision and these checks disagree.
  - \<open>Desk_Store\<close> and its \<open>Log\<close>, \<open>Commit\<close>, \<open>History\<close>, \<open>Safety\<close>, \<open>Chain\<close>: the event chain, reading, the
    commit protocol, crashes and repeated requests (server/desk-store.ts).
  - \<open>Desk_Composition\<close>, \<open>Desk_Run\<close>, \<open>Desk_Custody\<close>, \<open>Desk_Claims\<close>: the eight families as one command
    type; runs of the desk, progress through the store, custody and claims across all families.
  - \<open>Desk_Runner\<close> and its \<open>Settle\<close>, \<open>Checks\<close>, \<open>Answers\<close>, \<open>Measured\<close>, \<open>Submit\<close>: what the tool calls do around
    the store, and that they answer what they committed.
  - \<open>Desk_Capacity\<close>, \<open>Desk_Capacity_Funding\<close>, \<open>Desk_Capacity_Claims\<close>: the recovery reserve
    (server/desk-task-capacity.ts).
  - \<open>Desk_Examples\<close>, \<open>Desk_Scope_Examples\<close>, \<open>Desk_Rollout_Examples\<close>, \<open>Desk_Store_Examples\<close>: concrete desks
    for the witnesses.

  Conventions. A rejection is \<open>Inl\<close> of its code; messages and recovery hints are not modelled.
  Natural numbers stand for the schema-checked non-negative integers, strings for character lists.
  What is not under src/ is the record \<open>desk_env\<close>: the hash function, the collation order, the UUID
  and timestamp formats; claims that need it ask that digests are 64 hex digits (\<open>sha_hex\<close>) and that
  stamps have the timestamp format (\<open>time_ok\<close>). Every function is total, so termination is part of
  each definition; the dependency search is a terminating \<open>function\<close>.

  Standing conditions, each named in the claims that use it:
  - \<open>orphansAtTip\<close>: event segments that no ledger names start right above the tip. It holds of an empty
    disk and C5 shows every transaction keeps it, interrupted or not, until a commit overtakes an
    orphan (\<open>overtakesOrphan\<close>); then the store reads as corrupt (C24), and the claims about the store and the
    runners say so in their conclusions. \<open>orphanFree\<close>, no orphan at all, is what excludes that case.
  - \<open>commandFresh\<close>: new request ids, ids that name no row yet and, for a passed check run, the evidence
    its definition demands. The store answers a repeated request before deciding, and derived or
    random ids collide only by a hash or UUID collision; the evidence is a real gap (C34).

  Not modelled: the task commands, schema migrations, the checks of the store on the other tables
  (scopes, reviews, transitions, briefs, decisions, ownership, tasks; an argument of the store
  model, \<open>others\<close> in C6), file modes and path safety, the bridge, the views, the configuration manager,
  supervision and the client.
\<close>

end
